(* ===== verification/Prelude.thy ===== *)
theory Prelude
  imports Complex_Main "HOL-Library.Sublist" "HOL-Library.AList"
begin

text \<open>
  What every component of the after-sales model shares.

  \<^item> Exceptions are values: an operation that may raise returns \<open>error + 'a\<close>, \<open>Inl\<close> for the
    exception.  The constructors of \<open>error\<close> are the exception classes of the source; the string is
    the literal message or the machine-readable code.
  \<^item> \<open>bindE\<close> sequences such operations, \<open>foldE\<close> runs one over a list and stops at the first error.
  \<^item> A Python \<open>datetime\<close> is an instant in microseconds together with whether it carries a time zone
    (\<open>Aware\<close>) or not (\<open>Naive\<close>); the source compares instants only after it has checked awareness.
  \<^item> \<open>json\<close> is the value that the source hashes through \<open>json.dumps(..., sort_keys=True)\<close> and
    SHA-256.  The digest itself is a parameter \<open>sha\<close> of every definition that uses it.  A string that
    may hold customer or policy text is \<open>JText\<close>, a timestamp, which is dumped as its ISO-8601 text in
    UTC, is \<open>JTime\<close> of its instant.
  \<^item> Customer text is a list of Unicode code points, since the source matches Chinese phrases in it
    and takes its length; identifiers and codes are \<open>string\<close>.
\<close>

section \<open>Errors\<close>

datatype error =
    ValueError string
  | TypeError string
  | KeyError string
  | AttributeError string
  | RuntimeError string
  | IllegalStateTransition string
  | StorageNotFoundError string
  | ConcurrentMutationError string
  | InvalidStateTransitionError string
  | IdempotencyConflictError string
  | IntegrityError string
  | StatementError string
  | CaseFactError string
  | CaseFactIntegrityError string
  | ToolBudgetExceeded string
  | PolicyRetrievalUnavailable string bool
  | AuthorizationError string
  | ObservationValidationError string
  | SelectorExecutionFailure string
  | DevelopmentBudgetLedgerError string
  | ApplicationError string nat

type_synonym 'a result = "error + 'a"

definition bindE :: "'a result \<Rightarrow> ('a \<Rightarrow> 'b result) \<Rightarrow> 'b result" where
  "bindE r f = (case r of Inl e \<Rightarrow> Inl e | Inr x \<Rightarrow> f x)"

lemma bindE_simps [simp]: "bindE (Inl e) f = Inl e" "bindE (Inr x) f = f x"
  by (simp_all add: bindE_def)

lemma bindE_eq_Inr: "bindE r f = Inr y \<longleftrightarrow> (\<exists>x. r = Inr x \<and> f x = Inr y)"
  by (cases r) auto

lemma bindE_eq_Inl: "bindE r f = Inl e \<longleftrightarrow> r = Inl e \<or> (\<exists>x. r = Inr x \<and> f x = Inl e)"
  by (cases r) auto

lemma guard_Inr: "(if b then Inl e else r) = Inr y \<longleftrightarrow> \<not> b \<and> r = Inr y"
  by simp

lemma bindE_InrE:
  assumes "bindE r f = Inr y"
  obtains x where "r = Inr x" "f x = Inr y"
  using assms by (auto simp: bindE_eq_Inr)

lemma bindE_assoc: "bindE (bindE r f) g = bindE r (\<lambda>x. bindE (f x) g)"
  by (cases r) auto

text \<open>Running one fallible step per element of a list; the first exception ends the run.\<close>

fun foldE :: "('s \<Rightarrow> 'x \<Rightarrow> 's result) \<Rightarrow> 's \<Rightarrow> 'x list \<Rightarrow> 's result" where
  "foldE f s [] = Inr s"
| "foldE f s (x # xs) = bindE (f s x) (\<lambda>s'. foldE f s' xs)"

lemma foldE_append: "foldE f s (xs @ ys) = bindE (foldE f s xs) (\<lambda>s'. foldE f s' ys)"
  by (induction xs arbitrary: s) (simp_all add: bindE_assoc)

lemma foldE_invariant:
  assumes step: "\<And>s x s'. P s \<Longrightarrow> f s x = Inr s' \<Longrightarrow> P s'"
    and run: "foldE f s xs = Inr s'" and start: "P s"
  shows "P s'"
  using run start by (induction xs arbitrary: s) (auto simp: bindE_eq_Inr intro: step)

text \<open>Mapping a fallible function over a list, in order.\<close>

fun mapE :: "('a \<Rightarrow> 'b result) \<Rightarrow> 'a list \<Rightarrow> 'b list result" where
  "mapE f [] = Inr []"
| "mapE f (x # xs) = bindE (f x) (\<lambda>y. bindE (mapE f xs) (\<lambda>ys. Inr (y # ys)))"

lemma mapE_Inr_length: "mapE f xs = Inr ys \<Longrightarrow> length ys = length xs"
  by (induction xs arbitrary: ys) (auto simp: bindE_eq_Inr)

section \<open>Time\<close>

datatype datetime = is_aware: Aware (instant: int) | Naive (instant: int)

definition opt_aware :: "datetime option \<Rightarrow> bool" where
  "opt_aware t = (case t of None \<Rightarrow> True | Some d \<Rightarrow> is_aware d)"

lemma opt_aware_simps [simp]: "opt_aware None" "opt_aware (Some d) = is_aware d"
  by (simp_all add: opt_aware_def)

definition microseconds_per_minute :: int where
  "microseconds_per_minute = 60000000"

definition microseconds_per_hour :: int where
  "microseconds_per_hour = 3600000000"

section \<open>Structured values that are hashed\<close>

datatype json =
    JNull
  | JBool bool
  | JInt int
  | JNum rat
  | JStr string
  | JText "nat list"
  | JTime int
  | JList "json list"
  | JObj "(string \<times> json) list"

definition json_opt_str :: "string option \<Rightarrow> json" where
  "json_opt_str s = (case s of None \<Rightarrow> JNull | Some x \<Rightarrow> JStr x)"

definition json_time :: "datetime \<Rightarrow> json" where
  "json_time t = JTime (instant t)"

definition json_opt_time :: "datetime option \<Rightarrow> json" where
  "json_opt_time t = (case t of None \<Rightarrow> JNull | Some d \<Rightarrow> json_time d)"

text \<open>The value under a key of a JSON object.\<close>

definition jget :: "json \<Rightarrow> string \<Rightarrow> json option" where
  "jget j k = (case j of JObj kvs \<Rightarrow> map_of kvs k | _ \<Rightarrow> None)"

lemma jget_JObj [simp]: "jget (JObj kvs) k = map_of kvs k"
  by (simp add: jget_def)

lemma json_opt_str_inject [simp]: "json_opt_str a = json_opt_str b \<longleftrightarrow> a = b"
  by (auto simp: json_opt_str_def split: option.splits)

section \<open>Strings\<close>

definition is_hex_digit :: "char \<Rightarrow> bool" where
  "is_hex_digit c \<longleftrightarrow> c \<in> set ''0123456789abcdef''"

text \<open>The pattern \<open>^[0-9a-f]{64}$\<close> of the digest fields.\<close>

definition is_sha256_hex :: "string \<Rightarrow> bool" where
  "is_sha256_hex s \<longleftrightarrow> length s = 64 \<and> list_all is_hex_digit s"

text \<open>Truthiness of an optional string: \<open>None\<close> and the empty string are false.\<close>

definition truthy :: "string option \<Rightarrow> bool" where
  "truthy s \<longleftrightarrow> (case s of None \<Rightarrow> False | Some x \<Rightarrow> x \<noteq> [])"

lemma truthy_simps [simp]: "\<not> truthy None" "truthy (Some x) \<longleftrightarrow> x \<noteq> []"
  by (simp_all add: truthy_def)

lemma truthy_iff: "truthy s \<longleftrightarrow> (\<exists>c cs. s = Some (c # cs))"
  by (cases s) (auto simp: neq_Nil_conv)

text \<open>The code points that \<open>str.strip\<close> removes and at which \<open>str.split\<close> splits.\<close>

definition is_space :: "nat \<Rightarrow> bool" where
  "is_space c \<longleftrightarrow> c \<in> {9, 10, 11, 12, 13, 28, 29, 30, 31, 32, 133, 160, 5760, 8192, 8193, 8194, 8195,
     8196, 8197, 8198, 8199, 8200, 8201, 8202, 8232, 8233, 8239, 8287, 12288}"

text \<open>\<open>needle in haystack\<close> on strings and on customer text.\<close>

fun contains :: "'a list \<Rightarrow> 'a list \<Rightarrow> bool" where
  "contains [] needle \<longleftrightarrow> needle = []"
| "contains (x # xs) needle \<longleftrightarrow> prefix needle (x # xs) \<or> contains xs needle"

lemma contains_iff_sublist: "contains xs needle \<longleftrightarrow> sublist needle xs"
  by (induction xs) (auto simp: sublist_Cons_right)

text \<open>\<open>any(cue in text for cue in cues)\<close>.\<close>

definition contains_any :: "'a list \<Rightarrow> 'a list list \<Rightarrow> bool" where
  "contains_any text cues \<longleftrightarrow> list_ex (contains text) cues"

type_synonym utext = "nat list"

definition text_of :: "string \<Rightarrow> utext" where
  "text_of s = map of_char s"

text \<open>\<open>a or b\<close> where \<open>a\<close> is an optional value that is never falsy, and where it is an optional
  string.\<close>

definition opt_or :: "'a option \<Rightarrow> 'a \<Rightarrow> 'a" where
  "opt_or a b = (case a of None \<Rightarrow> b | Some x \<Rightarrow> x)"

lemma opt_or_simps [simp]: "opt_or None b = b" "opt_or (Some x) b = x"
  by (simp_all add: opt_or_def)

definition str_or :: "string option \<Rightarrow> string \<Rightarrow> string" where
  "str_or a b = (if truthy a then the a else b)"

section \<open>Lists\<close>

text \<open>\<open>tuple(dict.fromkeys(xs))\<close>: the elements of \<open>xs\<close> without repetition, in the order of their
  first occurrence.\<close>

fun dict_fromkeys :: "'a list \<Rightarrow> 'a list" where
  "dict_fromkeys [] = []"
| "dict_fromkeys (x # xs) = x # filter (\<lambda>y. y \<noteq> x) (dict_fromkeys xs)"

lemma set_dict_fromkeys [simp]: "set (dict_fromkeys xs) = set xs"
  by (induction xs) auto

lemma distinct_dict_fromkeys [simp]: "distinct (dict_fromkeys xs)"
  by (induction xs) auto

lemma dict_fromkeys_distinct: "distinct xs \<Longrightarrow> dict_fromkeys xs = xs"
proof (induction xs)
  case (Cons x xs)
  then have "filter (\<lambda>y. y \<noteq> x) xs = xs" by (auto intro: filter_True)
  with Cons show ?case by simp
qed simp

lemma dict_fromkeys_empty_iff [simp]: "dict_fromkeys xs = [] \<longleftrightarrow> xs = []"
  by (cases xs) auto

text \<open>\<open>next((x for x in xs if p(x)), None)\<close> is the library's \<open>List.find\<close>; the facts that the
  components use of it.\<close>

lemma find_SomeD: "List.find P xs = Some x \<Longrightarrow> x \<in> set xs \<and> P x"
  by (auto simp: find_Some_iff)

lemma find_Some_member: "List.find P xs = Some x \<Longrightarrow> x \<in> set xs"
  by (simp add: find_SomeD)

text \<open>\<open>xs[-1] if xs else None\<close>.\<close>

definition last_opt :: "'a list \<Rightarrow> 'a option" where
  "last_opt xs = (if xs = [] then None else Some (last xs))"

lemma last_opt_simps [simp]: "last_opt [] = None" "last_opt (xs @ [x]) = Some x"
  by (simp_all add: last_opt_def)

lemma last_opt_SomeD: "last_opt xs = Some x \<Longrightarrow> x \<in> set xs"
  by (auto simp: last_opt_def split: if_splits)

text \<open>\<open>max(xs, default=None)\<close> over instants: the first of the latest elements.\<close>

definition latest :: "datetime list \<Rightarrow> datetime option" where
  "latest xs =
    (case xs of [] \<Rightarrow> None
     | t # ts \<Rightarrow> Some (foldl (\<lambda>m u. if instant m < instant u then u else m) t ts))"

lemma latest_None [simp]: "latest xs = None \<longleftrightarrow> xs = []"
  by (simp add: latest_def split: list.splits)

lemma latest_aux:
  "(let m = foldl (\<lambda>m u. if instant m < instant u then u else m) t ts
    in m \<in> insert t (set ts) \<and> (\<forall>u \<in> insert t (set ts). instant u \<le> instant m))"
proof (induction ts arbitrary: t)
  case (Cons u ts)
  from Cons.IH [of "if instant t < instant u then u else t"] show ?case
    by (auto simp: Let_def split: if_splits)
qed simp

lemma latest_Some: "latest xs = Some m \<Longrightarrow> m \<in> set xs \<and> (\<forall>u \<in> set xs. instant u \<le> instant m)"
  using latest_aux by (fastforce simp: latest_def Let_def split: list.splits)

section \<open>Dictionaries\<close>

text \<open>A dictionary is an association list in insertion order: \<open>d[k] = v\<close> is \<open>AList.update k v d\<close>, and
  \<open>{key(x): x for x in xs}\<close> is \<open>dict_of key xs\<close>.\<close>

definition dict_of :: "('x \<Rightarrow> 'k) \<Rightarrow> 'x list \<Rightarrow> ('k \<times> 'x) list" where
  "dict_of key xs = foldl (\<lambda>d x. AList.update (key x) x d) [] xs"

lemma map_of_dict_of: "map_of (dict_of key xs) k = List.find (\<lambda>x. key x = k) (rev xs)"
proof (induction xs rule: rev_induct)
  case (snoc x xs)
  then show ?case by (auto simp: dict_of_def update_conv')
qed (simp add: dict_of_def)

lemma dict_of_key: "map_of (dict_of key xs) k = Some x \<Longrightarrow> key x = k \<and> x \<in> set xs"
  by (auto simp: map_of_dict_of dest!: find_SomeD)

lemma distinct_dict_of: "distinct (map fst (dict_of key xs))"
  by (induction xs rule: rev_induct) (simp_all add: dict_of_def distinct_update)

section \<open>Decimal numerals\<close>

definition digit_char :: "nat \<Rightarrow> char" where
  "digit_char d = char_of (48 + d)"

fun nat_str :: "nat \<Rightarrow> string" where
  "nat_str n = (if n < 10 then [digit_char n] else nat_str (n div 10) @ [digit_char (n mod 10)])"

declare nat_str.simps [simp del]

definition str_nat :: "string \<Rightarrow> nat" where
  "str_nat = foldl (\<lambda>a c. 10 * a + (of_char c - 48)) 0"

lemma str_nat_nat_str: "str_nat (nat_str n) = n"
proof (induction n rule: nat_str.induct)
  case (1 n)
  show ?case
  proof (cases "n < 10")
    case True
    then show ?thesis by (simp add: nat_str.simps [of n] str_nat_def digit_char_def)
  next
    case False
    with 1 have "str_nat (nat_str (n div 10)) = n div 10" by simp
    then have "str_nat (nat_str n) = 10 * (n div 10) + n mod 10"
      using False by (simp add: nat_str.simps [of n] str_nat_def digit_char_def)
    then show ?thesis by simp
  qed
qed

lemma nat_str_inject [simp]: "nat_str m = nat_str n \<longleftrightarrow> m = n"
  by (metis str_nat_nat_str)

named_theorems contract_simps "unfolding rules of the validated constructors"
named_theorems gate_simps "unfolding rules of the evidence gate's guards"
named_theorems row_simps "unfolding rules of the repository's row operations"

end
