(* ===== verification/DomainState.thy ===== *)
theory DomainState
  imports Prelude
begin

text \<open>
  The closed vocabularies of \<open>domain/state.py\<close>.  Each \<open>StrEnum\<close> is a datatype whose constructors
  carry the member names (prefixed per enumeration, since several enumerations share members), and a
  \<open>_value\<close> function for the member's string, which is what the database, the JSON payloads and the
  projections of the source compare.
\<close>

datatype issue_type = SIGNED_NOT_RECEIVED | STALLED_TRACKING

datatype triage_intent =
    TI_SIGNED_NOT_RECEIVED
  | TI_STALLED_TRACKING
  | TI_CAPABILITY_HELP
  | TI_ORDER_ID_HELP
  | TI_TRACKING_STATUS_QUERY
  | TI_DELIVERY_ETA_INFO
  | TI_CHANGE_DELIVERY_INFO
  | TI_REFUND_RETURN_INFO
  | TI_HUMAN_SUPPORT_REQUEST
  | TI_THANKS_CLOSE
  | TI_OTHER_LOGISTICS
  | TI_AMBIGUOUS
  | TI_OUT_OF_SCOPE
  | TI_PROHIBITED

datatype case_state =
    CS_INVESTIGATING
  | CS_AWAITING_CUSTOMER_INPUT
  | CS_AWAITING_CUSTOMER_CONFIRMATION
  | CS_AWAITING_RETRY
  | CS_EXECUTING_ACTION
  | CS_CLOSED

datatype case_outcome =
    CO_RESOLVED_NO_ACTION
  | CO_TICKET_CREATED
  | CO_HUMAN_SUPPORT_REQUIRED
  | CO_UNCERTAIN
  | CO_FAILED

datatype run_state = RS_QUEUED | RS_RUNNING | RS_SUCCEEDED | RS_FAILED

datatype proposal_state =
    PS_PENDING_CONFIRMATION
  | PS_CONFIRMED
  | PS_DECLINED
  | PS_SUPERSEDED
  | PS_EXPIRED
  | PS_INVALIDATED

datatype action_state =
    AS_READY
  | AS_SUBMITTED
  | AS_SUCCEEDED
  | AS_FAILED_RETRYABLE
  | AS_FAILED_TERMINAL
  | AS_UNCERTAIN

datatype action_type = CREATE_LOGISTICS_INVESTIGATION_TICKET

datatype execution_status = ES_SUCCESS | ES_RETRYABLE_ERROR | ES_NON_RETRYABLE_ERROR

datatype evidence_availability = EA_PRESENT | EA_ABSENT | EA_UNAVAILABLE

datatype retrieval_status = RT_HIT | RT_NO_HIT | RT_UNAVAILABLE

datatype policy_resolution_status = PR_APPLICABLE | PR_NOT_APPLICABLE | PR_VERSION_CONFLICT

datatype gate_decision =
    GD_PROPOSE_TICKET
  | GD_REQUEST_BUSINESS_CLARIFICATION
  | GD_RETRY_LATER
  | GD_REQUIRE_HUMAN_SUPPORT
  | GD_COMPLETE_NO_ACTION

datatype customer_disposition = CD_ANSWER | CD_WAIT | CD_CLARIFY | CD_INVESTIGATE | CD_ESCALATE

datatype order_status = OS_PROCESSING | OS_SHIPPED | OS_DELIVERED | OS_CANCELLED

datatype delivery_proof_status = DP_FOUND | DP_NOT_FOUND

section \<open>Member values\<close>

fun issue_type_value :: "issue_type \<Rightarrow> string" where
  "issue_type_value SIGNED_NOT_RECEIVED = ''signed_not_received''"
| "issue_type_value STALLED_TRACKING = ''stalled_tracking''"

fun triage_intent_value :: "triage_intent \<Rightarrow> string" where
  "triage_intent_value TI_SIGNED_NOT_RECEIVED = ''signed_not_received''"
| "triage_intent_value TI_STALLED_TRACKING = ''stalled_tracking''"
| "triage_intent_value TI_CAPABILITY_HELP = ''capability_help''"
| "triage_intent_value TI_ORDER_ID_HELP = ''order_id_help''"
| "triage_intent_value TI_TRACKING_STATUS_QUERY = ''tracking_status_query''"
| "triage_intent_value TI_DELIVERY_ETA_INFO = ''delivery_eta_info''"
| "triage_intent_value TI_CHANGE_DELIVERY_INFO = ''change_delivery_info''"
| "triage_intent_value TI_REFUND_RETURN_INFO = ''refund_return_info''"
| "triage_intent_value TI_HUMAN_SUPPORT_REQUEST = ''human_support_request''"
| "triage_intent_value TI_THANKS_CLOSE = ''thanks_close''"
| "triage_intent_value TI_OTHER_LOGISTICS = ''other_logistics''"
| "triage_intent_value TI_AMBIGUOUS = ''ambiguous''"
| "triage_intent_value TI_OUT_OF_SCOPE = ''out_of_scope''"
| "triage_intent_value TI_PROHIBITED = ''prohibited''"

text \<open>\<open>IssueType(value)\<close>: the enumeration's constructor raises on an unknown value.\<close>

definition issue_type_of :: "string \<Rightarrow> issue_type result" where
  "issue_type_of s =
     (if s = ''signed_not_received'' then Inr SIGNED_NOT_RECEIVED
      else if s = ''stalled_tracking'' then Inr STALLED_TRACKING
      else Inl (ValueError ''not a valid IssueType''))"

lemma issue_type_of_value [simp]: "issue_type_of (issue_type_value i) = Inr i"
  by (cases i) (simp_all add: issue_type_of_def)

fun case_state_value :: "case_state \<Rightarrow> string" where
  "case_state_value CS_INVESTIGATING = ''investigating''"
| "case_state_value CS_AWAITING_CUSTOMER_INPUT = ''awaiting_customer_input''"
| "case_state_value CS_AWAITING_CUSTOMER_CONFIRMATION = ''awaiting_customer_confirmation''"
| "case_state_value CS_AWAITING_RETRY = ''awaiting_retry''"
| "case_state_value CS_EXECUTING_ACTION = ''executing_action''"
| "case_state_value CS_CLOSED = ''closed''"

fun case_outcome_value :: "case_outcome \<Rightarrow> string" where
  "case_outcome_value CO_RESOLVED_NO_ACTION = ''resolved_no_action''"
| "case_outcome_value CO_TICKET_CREATED = ''ticket_created''"
| "case_outcome_value CO_HUMAN_SUPPORT_REQUIRED = ''human_support_required''"
| "case_outcome_value CO_UNCERTAIN = ''uncertain''"
| "case_outcome_value CO_FAILED = ''failed''"

fun run_state_value :: "run_state \<Rightarrow> string" where
  "run_state_value RS_QUEUED = ''queued''"
| "run_state_value RS_RUNNING = ''running''"
| "run_state_value RS_SUCCEEDED = ''succeeded''"
| "run_state_value RS_FAILED = ''failed''"

fun proposal_state_value :: "proposal_state \<Rightarrow> string" where
  "proposal_state_value PS_PENDING_CONFIRMATION = ''pending_confirmation''"
| "proposal_state_value PS_CONFIRMED = ''confirmed''"
| "proposal_state_value PS_DECLINED = ''declined''"
| "proposal_state_value PS_SUPERSEDED = ''superseded''"
| "proposal_state_value PS_EXPIRED = ''expired''"
| "proposal_state_value PS_INVALIDATED = ''invalidated''"

fun action_state_value :: "action_state \<Rightarrow> string" where
  "action_state_value AS_READY = ''ready''"
| "action_state_value AS_SUBMITTED = ''submitted''"
| "action_state_value AS_SUCCEEDED = ''succeeded''"
| "action_state_value AS_FAILED_RETRYABLE = ''failed_retryable''"
| "action_state_value AS_FAILED_TERMINAL = ''failed_terminal''"
| "action_state_value AS_UNCERTAIN = ''uncertain''"

fun action_type_value :: "action_type \<Rightarrow> string" where
  "action_type_value CREATE_LOGISTICS_INVESTIGATION_TICKET =
     ''create_logistics_investigation_ticket''"

fun execution_status_value :: "execution_status \<Rightarrow> string" where
  "execution_status_value ES_SUCCESS = ''success''"
| "execution_status_value ES_RETRYABLE_ERROR = ''retryable_error''"
| "execution_status_value ES_NON_RETRYABLE_ERROR = ''non_retryable_error''"

fun evidence_availability_value :: "evidence_availability \<Rightarrow> string" where
  "evidence_availability_value EA_PRESENT = ''present''"
| "evidence_availability_value EA_ABSENT = ''absent''"
| "evidence_availability_value EA_UNAVAILABLE = ''unavailable''"

fun retrieval_status_value :: "retrieval_status \<Rightarrow> string" where
  "retrieval_status_value RT_HIT = ''hit''"
| "retrieval_status_value RT_NO_HIT = ''no_hit''"
| "retrieval_status_value RT_UNAVAILABLE = ''unavailable''"

fun policy_resolution_status_value :: "policy_resolution_status \<Rightarrow> string" where
  "policy_resolution_status_value PR_APPLICABLE = ''applicable''"
| "policy_resolution_status_value PR_NOT_APPLICABLE = ''not_applicable''"
| "policy_resolution_status_value PR_VERSION_CONFLICT = ''version_conflict''"

fun gate_decision_value :: "gate_decision \<Rightarrow> string" where
  "gate_decision_value GD_PROPOSE_TICKET = ''propose_ticket''"
| "gate_decision_value GD_REQUEST_BUSINESS_CLARIFICATION = ''request_business_clarification''"
| "gate_decision_value GD_RETRY_LATER = ''retry_later''"
| "gate_decision_value GD_REQUIRE_HUMAN_SUPPORT = ''require_human_support''"
| "gate_decision_value GD_COMPLETE_NO_ACTION = ''complete_no_action''"

fun order_status_value :: "order_status \<Rightarrow> string" where
  "order_status_value OS_PROCESSING = ''processing''"
| "order_status_value OS_SHIPPED = ''shipped''"
| "order_status_value OS_DELIVERED = ''delivered''"
| "order_status_value OS_CANCELLED = ''cancelled''"

fun delivery_proof_status_value :: "delivery_proof_status \<Rightarrow> string" where
  "delivery_proof_status_value DP_FOUND = ''found''"
| "delivery_proof_status_value DP_NOT_FOUND = ''not_found''"

text \<open>Member values identify the members, so comparing strings compares members.\<close>

lemma issue_type_value_inject [simp]: "issue_type_value x = issue_type_value y \<longleftrightarrow> x = y"
  by (cases x; cases y; simp)

lemma case_state_value_inject [simp]: "case_state_value x = case_state_value y \<longleftrightarrow> x = y"
  by (cases x; cases y; simp)

lemma case_outcome_value_inject [simp]: "case_outcome_value x = case_outcome_value y \<longleftrightarrow> x = y"
  by (cases x; cases y; simp)

lemma proposal_state_value_inject [simp]:
  "proposal_state_value x = proposal_state_value y \<longleftrightarrow> x = y"
  by (cases x; cases y; simp)

lemma action_state_value_inject [simp]: "action_state_value x = action_state_value y \<longleftrightarrow> x = y"
  by (cases x; cases y; simp)

lemma gate_decision_value_inject [simp]:
  "gate_decision_value x = gate_decision_value y \<longleftrightarrow> x = y"
  by (cases x; cases y; simp)

lemma order_status_value_inject [simp]: "order_status_value x = order_status_value y \<longleftrightarrow> x = y"
  by (cases x; cases y; simp)

end
