(* ===== verification/ToolContracts.thy ===== *)
theory ToolContracts
  imports DomainState Complex_Main
begin

text \<open>
  The typed envelopes of \<open>tools/contracts.py\<close> and the policy facts of \<open>policy/corpus.py\<close> that they
  carry.  Every Pydantic model is a record; its field constraints and its \<open>model_validator\<close> are one
  \<open>check_\<close> function that returns the (normalised) record or the first exception.  A field constraint
  reports the field's name, a model validator its message.

  \<^item> \<open>ToolResult[PayloadT]\<close> is the record \<open>'p tool_result\<close>, an extension of \<open>envelope\<close> (everything
    but the payload), so that code which looks at results of any payload takes an \<open>envelope\<close>.
  \<^item> Pydantic's \<open>model_dump\<close> of a payload is the parameter \<open>dump\<close>, SHA-256 over the canonical dump is
    \<open>sha\<close>, and \<open>PolicyFactSnapshot.material_snapshot_hash\<close> is \<open>mhash\<close>.
  \<^item> Hours and similarity scores are rationals: the rounding of binary floating point is left out.

  The lemmas show that the envelope's three error rules hold of every accepted result (an error
  carries no payload and is never absence), that the two constructors always pass their own
  validation, and that evidence references bind the result's digest.
\<close>

section \<open>Policy facts (policy/corpus.py)\<close>

record policy_facts =
  pf_eligible :: bool
  pf_stalled_after_hours :: "int option"
  pf_required_evidence_codes :: "string list"
  pf_effective_from :: datetime
  pf_effective_to :: "datetime option"
  pf_service_level :: string
  pf_region :: string
  pf_policy_version :: string
  pf_clause_id :: string
  pf_source_hash :: string
  pf_issue_type :: issue_type

definition check_policy_facts :: "policy_facts \<Rightarrow> policy_facts result" where
  "check_policy_facts f =
    (if (case pf_stalled_after_hours f of None \<Rightarrow> False | Some h \<Rightarrow> h < 1)
       then Inl (ValueError ''stalled_after_hours'')
     else if pf_required_evidence_codes f = [] then Inl (ValueError ''required_evidence_codes'')
     else if pf_service_level f = [] then Inl (ValueError ''service_level'')
     else if pf_region f = [] then Inl (ValueError ''region'')
     else if pf_policy_version f = [] then Inl (ValueError ''policy_version'')
     else if pf_clause_id f = [] then Inl (ValueError ''clause_id'')
     else if \<not> is_sha256_hex (pf_source_hash f) then Inl (ValueError ''source_hash'')
     else if \<not> is_aware (pf_effective_from f)
       then Inl (ValueError ''effective_from must be timezone-aware'')
     else if \<not> opt_aware (pf_effective_to f)
       then Inl (ValueError ''effective_to must be timezone-aware'')
     else if (case pf_effective_to f of None \<Rightarrow> False
              | Some t \<Rightarrow> instant t \<le> instant (pf_effective_from f))
       then Inl (ValueError ''effective_to must be after effective_from'')
     else if pf_issue_type f = STALLED_TRACKING \<and> pf_stalled_after_hours f = None
       then Inl (ValueError ''stalled_tracking facts require stalled_after_hours'')
     else if pf_issue_type f = SIGNED_NOT_RECEIVED \<and> pf_stalled_after_hours f \<noteq> None
       then Inl (ValueError ''signed_not_received facts must not carry a stalled threshold'')
     else if \<not> distinct (pf_required_evidence_codes f)
       then Inl (ValueError ''required_evidence_codes must not contain duplicates'')
     else Inr f)"

lemma check_policy_facts_threshold:
  "check_policy_facts f = Inr g \<Longrightarrow>
     g = f \<and> (pf_stalled_after_hours f = None \<longleftrightarrow> pf_issue_type f = SIGNED_NOT_RECEIVED)"
  by (cases "pf_issue_type f") (auto simp: check_policy_facts_def split: if_splits)

section \<open>Payloads\<close>

record evidence_ref =
  er_tool_call_id :: string
  er_source_query_id :: string
  er_source_record_id :: "string option"
  er_field_path :: "string option"
  er_observed_at :: datetime
  er_result_hash :: string

definition check_evidence_ref :: "evidence_ref \<Rightarrow> evidence_ref result" where
  "check_evidence_ref r =
    (if er_tool_call_id r = [] then Inl (ValueError ''tool_call_id'')
     else if er_source_query_id r = [] then Inl (ValueError ''source_query_id'')
     else if \<not> is_sha256_hex (er_result_hash r) then Inl (ValueError ''result_hash'')
     else if \<not> is_aware (er_observed_at r)
       then Inl (ValueError ''observed_at must be timezone-aware'')
     else Inr r)"

record timeline_event =
  te_event_id :: string
  te_shipment_id :: "string option"
  te_status :: string
  te_occurred_at :: datetime
  te_location :: "string option"
  te_note :: "string option"

definition check_timeline_event :: "timeline_event \<Rightarrow> timeline_event result" where
  "check_timeline_event e =
    (if te_event_id e = [] then Inl (ValueError ''event_id'')
     else if te_status e = [] then Inl (ValueError ''status'')
     else if \<not> is_aware (te_occurred_at e)
       then Inl (ValueError ''occurred_at must be timezone-aware'')
     else Inr e)"

record shipment_summary =
  ss_shipment_id :: string
  ss_package_sequence :: int
  ss_package_count :: int
  ss_tracking_number :: string
  ss_shipment_status :: string
  ss_carrier_code :: string
  ss_shipped_at :: "datetime option"
  ss_delivered_at :: "datetime option"
  ss_last_update_at :: "datetime option"

definition check_shipment_summary :: "shipment_summary \<Rightarrow> shipment_summary result" where
  "check_shipment_summary s =
    (if ss_shipment_id s = [] then Inl (ValueError ''shipment_id'')
     else if ss_package_sequence s < 1 then Inl (ValueError ''package_sequence'')
     else if ss_package_count s < 1 then Inl (ValueError ''package_count'')
     else if ss_tracking_number s = [] then Inl (ValueError ''tracking_number'')
     else if ss_shipment_status s = [] then Inl (ValueError ''shipment_status'')
     else if ss_carrier_code s = [] then Inl (ValueError ''carrier_code'')
     else if \<not> opt_aware (ss_shipped_at s)
       then Inl (ValueError ''shipped_at must be timezone-aware'')
     else if \<not> opt_aware (ss_delivered_at s)
       then Inl (ValueError ''delivered_at must be timezone-aware'')
     else if \<not> opt_aware (ss_last_update_at s)
       then Inl (ValueError ''last_update_at must be timezone-aware'')
     else if (case (ss_shipped_at s, ss_delivered_at s) of
                (Some a, Some b) \<Rightarrow> instant b < instant a | _ \<Rightarrow> False)
       then Inl (ValueError ''delivered_at cannot precede shipped_at'')
     else Inr s)"

record shipment_timeline =
  st_shipment_id :: string
  st_package_sequence :: int
  st_events :: "timeline_event list"
  st_last_update_at :: "datetime option"
  st_hours_since_last_update :: "rat option"

definition check_shipment_timeline :: "shipment_timeline \<Rightarrow> shipment_timeline result" where
  "check_shipment_timeline t =
    (if st_shipment_id t = [] then Inl (ValueError ''shipment_id'')
     else if st_package_sequence t < 1 then Inl (ValueError ''package_sequence'')
     else if (case st_hours_since_last_update t of None \<Rightarrow> False | Some h \<Rightarrow> h < 0)
       then Inl (ValueError ''hours_since_last_update'')
     else if \<not> opt_aware (st_last_update_at t)
       then Inl (ValueError ''last_update_at must be timezone-aware'')
     else if (st_events t \<noteq> []) \<noteq> (st_last_update_at t \<noteq> None)
       then Inl (ValueError ''last_update_at must be present exactly when events exist'')
     else Inr t)"

record order_context =
  oc_order_id :: string
  oc_order_status :: order_status
  oc_tracking_number :: "string option"
  oc_service_level :: string
  oc_region :: string
  oc_shipped_at :: "datetime option"
  oc_delivered_at :: "datetime option"
  oc_shipments :: "shipment_summary list"

definition check_order_context :: "order_context \<Rightarrow> order_context result" where
  "check_order_context c =
    (if oc_order_id c = [] then Inl (ValueError ''order_id'')
     else if oc_service_level c = [] then Inl (ValueError ''service_level'')
     else if oc_region c = [] then Inl (ValueError ''region'')
     else if \<not> opt_aware (oc_shipped_at c)
       then Inl (ValueError ''shipped_at must be timezone-aware'')
     else if \<not> opt_aware (oc_delivered_at c)
       then Inl (ValueError ''delivered_at must be timezone-aware'')
     else Inr c)"

record logistics_timeline =
  lt_order_id :: string
  lt_events :: "timeline_event list"
  lt_last_update_at :: "datetime option"
  lt_hours_since_last_update :: "rat option"
  lt_shipment_timelines :: "shipment_timeline list"

definition check_logistics_timeline :: "logistics_timeline \<Rightarrow> logistics_timeline result" where
  "check_logistics_timeline t =
    (if lt_order_id t = [] then Inl (ValueError ''order_id'')
     else if (case lt_hours_since_last_update t of None \<Rightarrow> False | Some h \<Rightarrow> h < 0)
       then Inl (ValueError ''hours_since_last_update'')
     else if \<not> opt_aware (lt_last_update_at t)
       then Inl (ValueError ''last_update_at must be timezone-aware'')
     else if (lt_events t \<noteq> []) \<noteq> (lt_last_update_at t \<noteq> None)
       then Inl (ValueError ''last_update_at must be present exactly when timeline events exist'')
     else Inr t)"

record delivery_proof =
  dp_order_id :: string
  dp_shipment_id :: "string option"
  dp_pod_status :: delivery_proof_status
  dp_recipient_type :: "string option"
  dp_signed_at :: "datetime option"
  dp_note :: "string option"

definition check_delivery_proof :: "delivery_proof \<Rightarrow> delivery_proof result" where
  "check_delivery_proof p =
    (if dp_order_id p = [] then Inl (ValueError ''order_id'')
     else if \<not> opt_aware (dp_signed_at p)
       then Inl (ValueError ''signed_at must be timezone-aware'')
     else if dp_pod_status p = DP_NOT_FOUND \<and>
             (dp_recipient_type p \<noteq> None \<or> dp_signed_at p \<noteq> None)
       then Inl (ValueError ''not-found delivery proof cannot contain reception facts'')
     else Inr p)"

datatype alert_status = Alert_Active | Alert_Resolved

record carrier_alert =
  ca_alert_id :: string
  ca_code :: string
  ca_description :: string
  ca_active_from :: datetime
  ca_active_until :: "datetime option"
  ca_impact_area :: string
  ca_status :: alert_status
  ca_expected_recovery_at :: "datetime option"

definition check_carrier_alert :: "carrier_alert \<Rightarrow> carrier_alert result" where
  "check_carrier_alert a =
    (if ca_alert_id a = [] then Inl (ValueError ''alert_id'')
     else if ca_code a = [] then Inl (ValueError ''code'')
     else if ca_description a = [] then Inl (ValueError ''description'')
     else if \<not> is_aware (ca_active_from a)
       then Inl (ValueError ''active_from must be timezone-aware'')
     else if \<not> opt_aware (ca_active_until a)
       then Inl (ValueError ''active_until must be timezone-aware'')
     else if (case ca_active_until a of None \<Rightarrow> False
              | Some u \<Rightarrow> instant u < instant (ca_active_from a))
       then Inl (ValueError ''active_until cannot precede active_from'')
     else if \<not> opt_aware (ca_expected_recovery_at a)
       then Inl (ValueError ''expected_recovery_at must be timezone-aware'')
     else if (case ca_expected_recovery_at a of None \<Rightarrow> False
              | Some r \<Rightarrow> instant r < instant (ca_active_from a))
       then Inl (ValueError ''expected_recovery_at cannot precede active_from'')
     else Inr a)"

text \<open>\<open>CarrierAlert.is_active_at\<close>: it raises on a naive clock, and otherwise decides the window
  \<open>alert_active_at\<close>.\<close>

definition alert_active_at :: "carrier_alert \<Rightarrow> datetime \<Rightarrow> bool" where
  "alert_active_at a now \<longleftrightarrow>
    ca_status a = Alert_Active \<and> instant (ca_active_from a) \<le> instant now \<and>
    (case ca_active_until a of None \<Rightarrow> True | Some u \<Rightarrow> instant now < instant u)"

definition is_active_at :: "carrier_alert \<Rightarrow> datetime \<Rightarrow> bool result" where
  "is_active_at a now =
    (if \<not> is_aware now then Inl (ValueError ''evaluated_at must be timezone-aware'')
     else Inr (alert_active_at a now))"

record carrier_alerts =
  cap_order_id :: string
  cap_alerts :: "carrier_alert list"

record verified_citation =
  vc_document_id :: string
  vc_document_title :: utext
  vc_policy_version :: string
  vc_clause_id :: string
  vc_source_hash :: string
  vc_display_summary :: utext
  vc_excerpt :: utext
  vc_excerpt_hash :: string

record policy_search =
  ps_order_id :: string
  ps_issue_type :: issue_type
  ps_service_level :: string
  ps_region :: string
  ps_evaluated_at :: datetime
  ps_retrieval_status :: retrieval_status
  ps_policy_resolution_status :: "policy_resolution_status option"
  ps_corpus_version :: string
  ps_corpus_digest :: string
  ps_index_format_version :: string
  ps_index_digest :: string
  ps_index_content_digest :: string
  ps_embedding_model_id :: string
  ps_embedding_model_revision :: string
  ps_retrieval_mode :: string
  ps_candidate_clause_ids :: "string list"
  ps_candidate_count :: int
  ps_selected_rank :: "int option"
  ps_selected_similarity :: "rat option"
  ps_top_1_score :: "rat option"
  ps_retrieval_threshold :: rat
  ps_policy_fact_snapshot :: "policy_facts option"
  ps_policy_fact_snapshot_hash :: "string option"
  ps_citation :: "verified_citation option"
  ps_retrieval_latency_ms :: rat
  ps_resolver_latency_ms :: rat

text \<open>The field constraints of \<open>PolicySearchPayload\<close>; \<open>opt_in\<close> is a bound on an optional number.\<close>

definition opt_in :: "('a \<Rightarrow> bool) \<Rightarrow> 'a option \<Rightarrow> bool" where
  "opt_in P x = (case x of None \<Rightarrow> True | Some v \<Rightarrow> P v)"

definition policy_search_fields :: "policy_search \<Rightarrow> bool" where
  "policy_search_fields p \<longleftrightarrow>
     ps_order_id p \<noteq> [] \<and> ps_service_level p \<noteq> [] \<and> ps_region p \<noteq> [] \<and>
     ps_corpus_version p \<noteq> [] \<and> is_sha256_hex (ps_corpus_digest p) \<and>
     ps_index_format_version p \<noteq> [] \<and> is_sha256_hex (ps_index_digest p) \<and>
     is_sha256_hex (ps_index_content_digest p) \<and>
     ps_embedding_model_id p \<noteq> [] \<and> ps_embedding_model_revision p \<noteq> [] \<and>
     ps_retrieval_mode p \<noteq> [] \<and>
     length (ps_candidate_clause_ids p) \<le> 3 \<and>
     0 \<le> ps_candidate_count p \<and> ps_candidate_count p \<le> 3 \<and>
     opt_in (\<lambda>r. 1 \<le> r \<and> r \<le> 3) (ps_selected_rank p) \<and>
     opt_in (\<lambda>x. -1 \<le> x \<and> x \<le> 1) (ps_selected_similarity p) \<and>
     opt_in (\<lambda>x. -1 \<le> x \<and> x \<le> 1) (ps_top_1_score p) \<and>
     -1 \<le> ps_retrieval_threshold p \<and> ps_retrieval_threshold p \<le> 1 \<and>
     opt_in is_sha256_hex (ps_policy_fact_snapshot_hash p) \<and>
     0 \<le> ps_retrieval_latency_ms p \<and> 0 \<le> ps_resolver_latency_ms p"

text \<open>
  \<open>PolicySearchPayload.validate_resolution_contract\<close>.  \<open>excerpt_hash\<close> is the digest of the source
  hash with the excerpt, \<open>mhash\<close> the digest of the facts.
\<close>

definition check_policy_search ::
  "(string \<Rightarrow> utext \<Rightarrow> string) \<Rightarrow> (policy_facts \<Rightarrow> string) \<Rightarrow> policy_search \<Rightarrow> policy_search result" where
  "check_policy_search excerpt_hash mhash p =
    (if \<not> policy_search_fields p then Inl (ValueError ''field constraint'')
     else if \<not> is_aware (ps_evaluated_at p)
       then Inl (ValueError ''evaluated_at must be timezone-aware'')
     else if ps_candidate_count p \<noteq> int (length (ps_candidate_clause_ids p))
       then Inl (ValueError ''candidate_count must match candidate_clause_ids'')
     else if \<not> distinct (ps_candidate_clause_ids p)
       then Inl (ValueError ''candidate_clause_ids must not contain duplicates'')
     else if (ps_candidate_count p = 0) \<noteq> (ps_top_1_score p = None)
       then Inl (ValueError ''top_1_score must be present exactly when candidates exist'')
     else if ps_retrieval_status p = RT_HIT \<and> ps_policy_resolution_status p = None
       then Inl (ValueError ''a retrieval hit requires a policy resolution status'')
     else if ps_retrieval_status p = RT_HIT \<and> ps_candidate_count p < 1
       then Inl (ValueError ''a retrieval hit requires at least one candidate'')
     else if ps_retrieval_status p \<noteq> RT_HIT \<and> ps_policy_resolution_status p \<noteq> None
       then Inl (ValueError ''no_hit and unavailable cannot fabricate a resolution status'')
     else if ps_policy_resolution_status p = Some PR_APPLICABLE then
       (case (ps_policy_fact_snapshot p, ps_policy_fact_snapshot_hash p, ps_citation p) of
          (Some f, Some h, Some c) \<Rightarrow>
            if pf_issue_type f \<noteq> ps_issue_type p \<or> pf_service_level f \<noteq> ps_service_level p \<or>
               pf_region f \<noteq> ps_region p
              then Inl (ValueError ''applicable facts must match trusted issue, service level, and region'')
            else if pf_policy_version f \<noteq> vc_policy_version c \<or> pf_clause_id f \<noteq> vc_clause_id c
              then Inl (ValueError ''citation must identify the applied policy facts'')
            else if pf_source_hash f \<noteq> vc_source_hash c
              then Inl (ValueError ''citation hash must match applied policy facts'')
            else if vc_excerpt_hash c \<noteq> excerpt_hash (vc_source_hash c) (vc_excerpt c)
              then Inl (ValueError ''citation excerpt must bind to its canonical source hash'')
            else if mhash f \<noteq> h
              then Inl (ValueError ''policy fact snapshot hash does not match canonical facts'')
            else Inr p
        | _ \<Rightarrow> Inl (ValueError ''applicable policy resolution requires facts, hash, and citation''))
     else if ps_policy_fact_snapshot p \<noteq> None \<or> ps_policy_fact_snapshot_hash p \<noteq> None \<or>
             ps_citation p \<noteq> None
       then Inl (ValueError ''non-applicable policy outcomes cannot carry facts or citations'')
     else if ps_retrieval_status p = RT_NO_HIT \<and>
             (ps_selected_rank p \<noteq> None \<or> ps_selected_similarity p \<noteq> None)
       then Inl (ValueError ''no_hit must not include a selected candidate or policy facts'')
     else Inr p)"

definition verified_for_gate :: "(policy_facts \<Rightarrow> string) \<Rightarrow> policy_search \<Rightarrow> bool" where
  "verified_for_gate mhash p \<longleftrightarrow>
     ps_retrieval_status p = RT_HIT \<and>
     ps_policy_resolution_status p = Some PR_APPLICABLE \<and>
     ps_citation p \<noteq> None \<and>
     (case ps_policy_fact_snapshot p of
        None \<Rightarrow> False
      | Some f \<Rightarrow> ps_policy_fact_snapshot_hash p = Some (mhash f))"

record logistics_ticket =
  lg_ticket_id :: string
  lg_order_id :: string
  lg_issue_type :: issue_type
  lg_ticket_status :: string
  lg_created_at :: datetime
  lg_target_shipment_id :: "string option"
  lg_stage :: "string option"
  lg_next_update_at :: "datetime option"
  lg_status :: "string option"
  lg_opened_at :: "datetime option"
  lg_last_updated_at :: "datetime option"
  lg_target_order_id :: "string option"
  lg_is_active :: "bool option"
  lg_updated_at :: "datetime option"

definition active_ticket_statuses :: "string list" where
  "active_ticket_statuses = [''open'', ''investigating'', ''awaiting_carrier'']"

definition check_logistics_ticket :: "logistics_ticket \<Rightarrow> logistics_ticket result" where
  "check_logistics_ticket t =
    (if lg_ticket_id t = [] then Inl (ValueError ''ticket_id'')
     else if lg_order_id t = [] then Inl (ValueError ''order_id'')
     else if lg_ticket_status t = [] then Inl (ValueError ''ticket_status'')
     else if \<not> is_aware (lg_created_at t)
       then Inl (ValueError ''created_at must be timezone-aware'')
     else if \<not> opt_aware (lg_updated_at t)
       then Inl (ValueError ''updated_at must be timezone-aware'')
     else if \<not> opt_aware (lg_next_update_at t)
       then Inl (ValueError ''next_update_at must be timezone-aware'')
     else if lg_status t \<noteq> None \<and> lg_status t \<noteq> Some (lg_ticket_status t)
       then Inl (ValueError ''status must come from the canonical ticket_status'')
     else if lg_target_order_id t \<noteq> None \<and> lg_target_order_id t \<noteq> Some (lg_order_id t)
       then Inl (ValueError ''target_order_id must match order_id'')
     else
       (let updated = opt_or (lg_updated_at t) (lg_created_at t)
        in Inr (t\<lparr>lg_status := Some (lg_ticket_status t),
                  lg_stage := Some (str_or (lg_stage t) (lg_ticket_status t)),
                  lg_opened_at := Some (opt_or (lg_opened_at t) (lg_created_at t)),
                  lg_last_updated_at := Some (opt_or (lg_last_updated_at t) updated),
                  lg_target_order_id := Some (lg_order_id t),
                  lg_is_active := Some (lg_ticket_status t \<in> set active_ticket_statuses),
                  lg_updated_at := Some updated\<rparr>)))"

record existing_investigation =
  ei_case_id :: string
  ei_order_id :: string
  ei_issue_type :: issue_type
  ei_target_shipment_id :: "string option"
  ei_stage :: string
  ei_updated_at :: datetime
  ei_next_update_at :: "datetime option"
  ei_status :: "string option"
  ei_opened_at :: "datetime option"
  ei_last_updated_at :: "datetime option"
  ei_target_order_id :: "string option"
  ei_is_active :: "bool option"
  ei_created_at :: "datetime option"

definition active_investigation_statuses :: "string list" where
  "active_investigation_statuses =
     [''investigating'', ''awaiting_customer_input'', ''awaiting_retry'']"

definition check_existing_investigation ::
  "existing_investigation \<Rightarrow> existing_investigation result" where
  "check_existing_investigation e =
    (if ei_case_id e = [] then Inl (ValueError ''case_id'')
     else if ei_order_id e = [] then Inl (ValueError ''order_id'')
     else if ei_stage e = [] then Inl (ValueError ''stage'')
     else if \<not> is_aware (ei_updated_at e)
       then Inl (ValueError ''updated_at must be timezone-aware'')
     else if \<not> opt_aware (ei_created_at e)
       then Inl (ValueError ''created_at must be timezone-aware'')
     else if \<not> opt_aware (ei_next_update_at e)
       then Inl (ValueError ''next_update_at must be timezone-aware'')
     else if (case ei_created_at e of None \<Rightarrow> False
              | Some c \<Rightarrow> instant (ei_updated_at e) < instant c)
       then Inl (ValueError ''updated_at cannot precede created_at'')
     else if (case ei_status e of None \<Rightarrow> False
              | Some s \<Rightarrow> s \<notin> set (''closed'' # active_investigation_statuses))
       then Inl (ValueError ''status must be a canonical case state'')
     else if ei_target_order_id e \<noteq> None \<and> ei_target_order_id e \<noteq> Some (ei_order_id e)
       then Inl (ValueError ''target_order_id must match order_id'')
     else
       (let opened = opt_or (ei_opened_at e) (opt_or (ei_created_at e) (ei_updated_at e));
            status = str_or (ei_status e) ''investigating''
        in Inr (e\<lparr>ei_status := Some status,
                  ei_opened_at := Some opened,
                  ei_last_updated_at := Some (opt_or (ei_last_updated_at e) (ei_updated_at e)),
                  ei_target_order_id := Some (ei_order_id e),
                  ei_is_active := Some (status \<in> set active_investigation_statuses),
                  ei_created_at := Some (opt_or (ei_created_at e) opened)\<rparr>)))"

record existing_tickets =
  et_order_id :: string
  et_issue_type :: issue_type
  et_active_tickets :: "logistics_ticket list"
  et_existing_investigations :: "existing_investigation list"

section \<open>Tool results\<close>

record envelope =
  tr_execution_status :: execution_status
  tr_evidence_availability :: evidence_availability
  tr_source_type :: string
  tr_source_query_id :: string
  tr_source_record_ids :: "string list"
  tr_observed_at :: datetime
  tr_error_code :: "string option"
  tr_retryable :: bool
  tr_result_hash :: string
  tr_untrusted_fields :: "string list"
  tr_retrieval_status :: "retrieval_status option"
  tr_policy_resolution_status :: "policy_resolution_status option"

record 'p tool_result = envelope +
  tr_payload :: "'p option"

definition check_tool_result :: "'p tool_result \<Rightarrow> 'p tool_result result" where
  "check_tool_result r =
    (if tr_source_type r = [] then Inl (ValueError ''source_type'')
     else if tr_source_query_id r = [] then Inl (ValueError ''source_query_id'')
     else if \<not> is_sha256_hex (tr_result_hash r) then Inl (ValueError ''result_hash'')
     else if \<not> is_aware (tr_observed_at r)
       then Inl (ValueError ''observed_at must be timezone-aware'')
     else if \<not> distinct (tr_source_record_ids r)
       then Inl (ValueError ''source_record_ids must not contain duplicates'')
     else if \<not> distinct (tr_untrusted_fields r)
       then Inl (ValueError ''untrusted_fields must not contain duplicates'')
     else if tr_retrieval_status r = None \<and> tr_policy_resolution_status r \<noteq> None
       then Inl (ValueError ''policy resolution status requires a retrieval status'')
     else if tr_retrieval_status r = Some RT_HIT \<and> tr_policy_resolution_status r = None
       then Inl (ValueError ''retrieval hit requires policy resolution status'')
     else if tr_retrieval_status r \<in> {Some RT_NO_HIT, Some RT_UNAVAILABLE} \<and>
             tr_policy_resolution_status r \<noteq> None
       then Inl (ValueError ''no_hit or unavailable cannot fabricate policy resolution'')
     else if tr_execution_status r = ES_SUCCESS then
       (if tr_evidence_availability r = EA_UNAVAILABLE
          then Inl (ValueError ''successful execution cannot be unavailable'')
        else if tr_retrieval_status r = Some RT_UNAVAILABLE
          then Inl (ValueError ''successful execution cannot have unavailable retrieval'')
        else if tr_error_code r \<noteq> None \<or> tr_retryable r
          then Inl (ValueError ''successful execution cannot carry an error'')
        else if tr_evidence_availability r = EA_PRESENT \<and> tr_payload r = None
          then Inl (ValueError ''present evidence requires a payload'')
        else Inr r)
     else
       (if tr_evidence_availability r \<noteq> EA_UNAVAILABLE
          then Inl (ValueError ''failed execution must be unavailable, never absent'')
        else if tr_payload r \<noteq> None \<or> \<not> truthy (tr_error_code r)
          then Inl (ValueError ''failed execution requires error_code and no payload'')
        else if tr_retryable r \<noteq> (tr_execution_status r = ES_RETRYABLE_ERROR)
          then Inl (ValueError ''retryable must agree with execution_status'')
        else if tr_retrieval_status r \<noteq> None \<and> tr_retrieval_status r \<noteq> Some RT_UNAVAILABLE
          then Inl (ValueError ''failed policy retrieval must be marked unavailable'')
        else Inr r))"

text \<open>The two class methods.  \<open>sha\<close> digests the canonical JSON, \<open>dump\<close> is the payload's
  \<open>model_dump(mode="json")\<close>.\<close>

definition completed_normal_form ::
  "('p \<Rightarrow> json) \<Rightarrow> evidence_availability \<Rightarrow> 'p option \<Rightarrow> string list \<Rightarrow> retrieval_status option \<Rightarrow>
   policy_resolution_status option \<Rightarrow> json" where
  "completed_normal_form dump av payload ids rs ps =
     JObj [(''evidence_availability'', JStr (evidence_availability_value av)),
           (''execution_status'', JStr (execution_status_value ES_SUCCESS)),
           (''payload'', (case payload of None \<Rightarrow> JNull | Some p \<Rightarrow> dump p)),
           (''policy_resolution_status'', json_opt_str (map_option policy_resolution_status_value ps)),
           (''retrieval_status'', json_opt_str (map_option retrieval_status_value rs)),
           (''source_record_ids'', JList (map JStr ids))]"

definition completed ::
  "(json \<Rightarrow> string) \<Rightarrow> ('p \<Rightarrow> json) \<Rightarrow> evidence_availability \<Rightarrow> string \<Rightarrow> string \<Rightarrow> datetime \<Rightarrow>
   'p option \<Rightarrow> string list \<Rightarrow> string list \<Rightarrow> retrieval_status option \<Rightarrow>
   policy_resolution_status option \<Rightarrow> 'p tool_result result" where
  "completed sha dump av source_type query_id observed_at payload ids untrusted rs ps =
    (if av = EA_UNAVAILABLE then Inl (ValueError ''completed result cannot be unavailable'')
     else check_tool_result
       \<lparr>tr_execution_status = ES_SUCCESS, tr_evidence_availability = av,
        tr_source_type = source_type, tr_source_query_id = query_id,
        tr_source_record_ids = ids, tr_observed_at = observed_at,
        tr_error_code = None, tr_retryable = False,
        tr_result_hash = sha (completed_normal_form dump av payload ids rs ps),
        tr_untrusted_fields = untrusted, tr_retrieval_status = rs,
        tr_policy_resolution_status = ps, tr_payload = payload\<rparr>)"

definition failed_normal_form ::
  "execution_status \<Rightarrow> string \<Rightarrow> retrieval_status option \<Rightarrow> json" where
  "failed_normal_form es code rs =
     JObj [(''error_code'', JStr code),
           (''evidence_availability'', JStr (evidence_availability_value EA_UNAVAILABLE)),
           (''execution_status'', JStr (execution_status_value es)),
           (''retrieval_status'', json_opt_str (map_option retrieval_status_value rs))]"

definition failed ::
  "(json \<Rightarrow> string) \<Rightarrow> bool \<Rightarrow> string \<Rightarrow> string \<Rightarrow> datetime \<Rightarrow> string \<Rightarrow> retrieval_status option \<Rightarrow>
   'p tool_result result" where
  "failed sha retryable source_type query_id observed_at code rs =
    (let es = (if retryable then ES_RETRYABLE_ERROR else ES_NON_RETRYABLE_ERROR)
     in check_tool_result
       \<lparr>tr_execution_status = es, tr_evidence_availability = EA_UNAVAILABLE,
        tr_source_type = source_type, tr_source_query_id = query_id,
        tr_source_record_ids = [], tr_observed_at = observed_at,
        tr_error_code = Some code, tr_retryable = retryable,
        tr_result_hash = sha (failed_normal_form es code rs),
        tr_untrusted_fields = [], tr_retrieval_status = rs,
        tr_policy_resolution_status = None, tr_payload = None\<rparr>)"

definition to_evidence_refs :: "'p tool_result \<Rightarrow> string \<Rightarrow> evidence_ref list" where
  "to_evidence_refs r call_id =
    (if tr_execution_status r \<noteq> ES_SUCCESS then []
     else map (\<lambda>rid. \<lparr>er_tool_call_id = call_id, er_source_query_id = tr_source_query_id r,
                      er_source_record_id = rid, er_field_path = None,
                      er_observed_at = tr_observed_at r, er_result_hash = tr_result_hash r\<rparr>)
            (if tr_source_record_ids r = [] then [None] else map Some (tr_source_record_ids r)))"

section \<open>What validation guarantees\<close>

lemma check_tool_result_id: "check_tool_result r = Inr s \<Longrightarrow> s = r"
  by (simp add: check_tool_result_def split: if_splits)

text \<open>The payload of any of the read tools.  \<open>ToolResult[Any]\<close> keeps a dumped payload as a dictionary: the
  payload is the same, but none of its attributes can be read.\<close>

datatype read_payload =
    RP_Order order_context
  | RP_Timeline logistics_timeline
  | RP_Proof delivery_proof
  | RP_Alerts carrier_alerts
  | RP_Policy policy_search
  | RP_Tickets existing_tickets
  | RP_Dict read_payload

type_synonym read_result = "read_payload tool_result"

definition valid_result :: "'p tool_result \<Rightarrow> bool" where
  "valid_result r \<longleftrightarrow> check_tool_result r = Inr r"

lemma check_tool_result_valid: "check_tool_result r = Inr s \<Longrightarrow> valid_result s"
  using check_tool_result_id [of r s] by (simp add: valid_result_def)

lemma valid_result_success:
  "valid_result r \<Longrightarrow> tr_execution_status r = ES_SUCCESS \<longleftrightarrow> tr_evidence_availability r \<noteq> EA_UNAVAILABLE"
  by (auto simp: valid_result_def check_tool_result_def split: if_splits)

lemma valid_result_failed:
  "valid_result r \<Longrightarrow> tr_execution_status r \<noteq> ES_SUCCESS \<Longrightarrow>
     tr_payload r = None \<and> truthy (tr_error_code r)"
  by (auto simp: valid_result_def check_tool_result_def split: if_splits)

lemma valid_result_retryable:
  "valid_result r \<Longrightarrow> tr_retryable r \<longleftrightarrow> tr_execution_status r = ES_RETRYABLE_ERROR"
  by (auto simp: valid_result_def check_tool_result_def split: if_splits)

lemma valid_result_present:
  "valid_result r \<Longrightarrow> tr_evidence_availability r = EA_PRESENT \<Longrightarrow> tr_payload r \<noteq> None"
  by (auto simp: valid_result_def check_tool_result_def split: if_splits)

lemma valid_result_aware: "valid_result r \<Longrightarrow> is_aware (tr_observed_at r)"
  by (auto simp: valid_result_def check_tool_result_def split: if_splits)

lemma is_active_at_valid:
  "valid_result r \<Longrightarrow> is_active_at a (tr_observed_at r) = Inr (alert_active_at a (tr_observed_at r))"
  by (simp add: is_active_at_def valid_result_aware)

text \<open>Facts about envelopes carry over from the results they are truncations of.\<close>

lemma envelope_truncate [simp]:
  "tr_execution_status (envelope.truncate r) = tr_execution_status r"
  "tr_evidence_availability (envelope.truncate r) = tr_evidence_availability r"
  "tr_retryable (envelope.truncate r) = tr_retryable r"
  "tr_result_hash (envelope.truncate r) = tr_result_hash r"
  by (simp_all add: envelope.truncate_def)

lemma completed_valid: "completed sha dump av t q obs p ids un rs ps = Inr r \<Longrightarrow> valid_result r"
  by (auto simp: completed_def check_tool_result_valid split: if_splits)

lemma completed_fields:
  assumes "completed sha dump av t q obs p ids un rs ps = Inr r"
  shows "tr_execution_status r = ES_SUCCESS" "tr_evidence_availability r = av"
    "tr_payload r = p" "tr_observed_at r = obs" "tr_source_record_ids r = ids"
    "tr_result_hash r = sha (completed_normal_form dump av p ids rs ps)" "\<not> tr_retryable r"
  using assms by (auto simp: completed_def dest!: check_tool_result_id split: if_splits)

lemma failed_valid: "failed sha rt t q obs code rs = Inr r \<Longrightarrow> valid_result r"
  by (auto simp: failed_def Let_def check_tool_result_valid)

lemma failed_fields:
  assumes "failed sha rt t q obs code rs = Inr r"
  shows "tr_evidence_availability r = EA_UNAVAILABLE" "tr_retryable r = rt" "tr_payload r = None"
    "tr_error_code r = Some code"
    "tr_execution_status r = (if rt then ES_RETRYABLE_ERROR else ES_NON_RETRYABLE_ERROR)"
  using assms by (auto simp: failed_def Let_def dest!: check_tool_result_id)

text \<open>The failing constructor is total on non-empty names and digests: a read error can always be
  reported.\<close>

lemma failed_total:
  assumes "t \<noteq> []" "q \<noteq> []" "code \<noteq> []" "is_aware obs" "\<And>j. is_sha256_hex (sha j)"
    "rs = None \<or> rs = Some RT_UNAVAILABLE"
  shows "\<exists>r. (failed sha rt t q obs code rs :: 'p tool_result result) = Inr r"
  using assms by (auto simp: failed_def Let_def check_tool_result_def)

text \<open>The central rule of the read boundary: of every result the envelope accepts, a result is
  unavailable exactly when its execution failed, a failed one has an error code and no payload (so an
  error never masquerades as absence), present evidence has its payload, and the retry flag is the
  execution status.\<close>

theorem errors_never_masquerade_as_absence:
  assumes "check_tool_result r = Inr s"
  shows "s = r \<and>
    (tr_evidence_availability s = EA_UNAVAILABLE \<longleftrightarrow> tr_execution_status s \<noteq> ES_SUCCESS) \<and>
    (tr_execution_status s \<noteq> ES_SUCCESS \<longrightarrow> tr_payload s = None \<and> truthy (tr_error_code s)) \<and>
    (tr_evidence_availability s = EA_PRESENT \<longrightarrow> tr_payload s \<noteq> None) \<and>
    (tr_retryable s \<longleftrightarrow> tr_execution_status s = ES_RETRYABLE_ERROR)"
  using check_tool_result_id [OF assms] check_tool_result_valid [OF assms]
    valid_result_success valid_result_failed valid_result_present valid_result_retryable by auto

definition sample_digest :: string where
  "sample_digest = replicate 64 (CHR ''a'')"

lemma sample_digest_hex [simp]: "is_sha256_hex sample_digest"
  by (simp add: sample_digest_def is_sha256_hex_def is_hex_digit_def list_all_iff)

theorem errors_never_masquerade_as_absence_witness:
  "\<exists>s :: delivery_proof tool_result.
     failed (\<lambda>_. sample_digest) True ''get_delivery_proof'' ''qry_1'' (Aware 0) ''POD_TIMEOUT'' None = Inr s \<and>
     tr_evidence_availability s = EA_UNAVAILABLE \<and> tr_payload s = None \<and> tr_retryable s"
proof -
  let ?j = "failed_normal_form ES_RETRYABLE_ERROR ''POD_TIMEOUT'' None"
  let ?r = "\<lparr>tr_execution_status = ES_RETRYABLE_ERROR, tr_evidence_availability = EA_UNAVAILABLE,
    tr_source_type = ''get_delivery_proof'', tr_source_query_id = ''qry_1'',
    tr_source_record_ids = [], tr_observed_at = Aware 0,
    tr_error_code = Some ''POD_TIMEOUT'', tr_retryable = True, tr_result_hash = sample_digest,
    tr_untrusted_fields = [], tr_retrieval_status = None,
    tr_policy_resolution_status = None, tr_payload = None\<rparr> :: delivery_proof tool_result"
  have ok: "check_tool_result ?r = Inr ?r" by (simp add: check_tool_result_def)
  then have "failed (\<lambda>_. sample_digest) True ''get_delivery_proof'' ''qry_1'' (Aware 0) ''POD_TIMEOUT'' None
    = Inr ?r" by (simp add: failed_def)
  with errors_never_masquerade_as_absence [OF ok] show ?thesis by auto
qed

end
