(* ===== verification/DomainModels.thy ===== *)
theory DomainModels
  imports ToolContracts
begin

text \<open>
  The business snapshots of \<open>domain/models.py\<close>.  As in ToolContracts each Pydantic model is a record
  and a \<open>check_\<close> function with its field constraints and its \<open>model_validator\<close>; the source rebuilds a
  snapshot through this validation on every change, so the invariants below hold of every snapshot the
  program can construct.
\<close>

record triage_result =
  tg_intent :: triage_intent
  tg_risk_flags :: "string list"
  tg_order_ids_mentioned :: "string list"
  tg_confidence :: rat

definition check_triage_result :: "triage_result \<Rightarrow> triage_result result" where
  "check_triage_result t =
    (if length (tg_risk_flags t) > 16 then Inl (ValueError ''risk_flags'')
     else if length (tg_order_ids_mentioned t) > 16 then Inl (ValueError ''order_ids_mentioned'')
     else if tg_confidence t < 0 \<or> tg_confidence t > 1 then Inl (ValueError ''confidence'')
     else if \<not> distinct (tg_risk_flags t)
       then Inl (ValueError ''risk_flags must not contain duplicates'')
     else if \<not> distinct (tg_order_ids_mentioned t)
       then Inl (ValueError ''order_ids_mentioned must not contain duplicates'')
     else Inr t)"

record trusted_context =
  tc_customer_id :: string
  tc_conversation_id :: string
  tc_case_id :: string
  tc_run_id :: string
  tc_authorized_order_id :: string
  tc_canonical_issue_type :: issue_type
  tc_fixture_version :: string
  tc_fault_seed :: string
  tc_evaluated_at :: datetime
  tc_trace_id :: string
  tc_target_shipment_id :: "string option"

definition check_trusted_context :: "trusted_context \<Rightarrow> trusted_context result" where
  "check_trusted_context c =
    (if tc_customer_id c = [] then Inl (ValueError ''customer_id'')
     else if tc_conversation_id c = [] then Inl (ValueError ''conversation_id'')
     else if tc_case_id c = [] then Inl (ValueError ''case_id'')
     else if tc_run_id c = [] then Inl (ValueError ''run_id'')
     else if tc_authorized_order_id c = [] then Inl (ValueError ''authorized_order_id'')
     else if tc_fixture_version c = [] then Inl (ValueError ''fixture_version'')
     else if tc_fault_seed c = [] then Inl (ValueError ''fault_seed'')
     else if tc_trace_id c = [] then Inl (ValueError ''trace_id'')
     else if \<not> is_aware (tc_evaluated_at c)
       then Inl (ValueError ''evaluated_at must be timezone-aware'')
     else Inr c)"

record issue_revision =
  ir_reported :: triage_intent
  ir_canonical :: triage_intent
  ir_reason_code :: string
  ir_revised_at :: datetime
  ir_evidence_refs :: "evidence_ref list"

definition check_issue_revision :: "issue_revision \<Rightarrow> issue_revision result" where
  "check_issue_revision r =
    (if ir_reason_code r = [] then Inl (ValueError ''reason_code'')
     else if \<not> is_aware (ir_revised_at r)
       then Inl (ValueError ''revised_at must be timezone-aware'')
     else Inr r)"

record investigation_case =
  ic_case_id :: string
  ic_conversation_id :: string
  ic_customer_id :: string
  ic_authorized_order_id :: string
  ic_canonical_issue_type :: issue_type
  ic_case_state :: case_state
  ic_case_outcome :: "case_outcome option"
  ic_reason_code :: "string option"
  ic_related_case_id :: "string option"
  ic_business_clarifications :: int
  ic_planning_turns :: int
  ic_read_tool_executions :: int
  ic_issue_type_revision_history :: "issue_revision list"
  ic_target_shipment_id :: "string option"

definition check_case :: "investigation_case \<Rightarrow> investigation_case result" where
  "check_case c =
    (if ic_case_id c = [] then Inl (ValueError ''case_id'')
     else if ic_conversation_id c = [] then Inl (ValueError ''conversation_id'')
     else if ic_customer_id c = [] then Inl (ValueError ''customer_id'')
     else if ic_authorized_order_id c = [] then Inl (ValueError ''authorized_order_id'')
     else if ic_business_clarifications c < 0 \<or> ic_business_clarifications c > 2
       then Inl (ValueError ''business_clarifications'')
     else if ic_planning_turns c < 0 \<or> ic_planning_turns c > 16
       then Inl (ValueError ''planning_turns'')
     else if ic_read_tool_executions c < 0 \<or> ic_read_tool_executions c > 6
       then Inl (ValueError ''read_tool_executions'')
     else if (ic_case_state c = CS_CLOSED) \<noteq> (ic_case_outcome c \<noteq> None)
       then Inl (ValueError ''case_outcome is required only when case_state is closed'')
     else if ic_case_state c = CS_CLOSED \<and> \<not> truthy (ic_reason_code c)
       then Inl (ValueError ''a closed Case requires a deterministic reason_code'')
     else if ic_case_state c \<noteq> CS_CLOSED \<and> ic_reason_code c \<noteq> None
       then Inl (ValueError ''an open Case cannot have a closure reason_code'')
     else Inr c)"

record run =
  rn_run_id :: string
  rn_case_id :: string
  rn_run_state :: run_state
  rn_planning_turns :: int
  rn_failure_class :: "string option"

definition check_run :: "run \<Rightarrow> run result" where
  "check_run r =
    (if rn_run_id r = [] then Inl (ValueError ''run_id'')
     else if rn_case_id r = [] then Inl (ValueError ''case_id'')
     else if rn_planning_turns r < 0 \<or> rn_planning_turns r > 8
       then Inl (ValueError ''planning_turns'')
     else if rn_run_state r = RS_FAILED \<and> \<not> truthy (rn_failure_class r)
       then Inl (ValueError ''a failed Run requires failure_class'')
     else if rn_run_state r \<noteq> RS_FAILED \<and> rn_failure_class r \<noteq> None
       then Inl (ValueError ''failure_class belongs only to a failed Run'')
     else Inr r)"

record action_proposal =
  ap_proposal_id :: string
  ap_case_id :: string
  ap_version :: int
  ap_proposal_state :: proposal_state
  ap_action_type :: action_type
  ap_execution_parameters :: json
  ap_customer_visible_effect :: utext
  ap_evidence_refs :: "evidence_ref list"
  ap_evidence_snapshot_hash :: string
  ap_case_fact_identity :: json
  ap_created_at :: datetime
  ap_expires_at :: datetime

definition proposal_lifetime :: int where
  "proposal_lifetime = 15 * microseconds_per_minute"

definition check_proposal :: "action_proposal \<Rightarrow> action_proposal result" where
  "check_proposal p =
    (if ap_proposal_id p = [] then Inl (ValueError ''proposal_id'')
     else if ap_case_id p = [] then Inl (ValueError ''case_id'')
     else if ap_version p < 1 then Inl (ValueError ''version'')
     else if ap_customer_visible_effect p = [] \<or> length (ap_customer_visible_effect p) > 2000
       then Inl (ValueError ''customer_visible_effect'')
     else if ap_evidence_refs p = [] then Inl (ValueError ''evidence_refs'')
     else if \<not> is_sha256_hex (ap_evidence_snapshot_hash p)
       then Inl (ValueError ''evidence_snapshot_hash'')
     else if \<not> is_aware (ap_created_at p)
       then Inl (ValueError ''created_at must be timezone-aware'')
     else if \<not> is_aware (ap_expires_at p)
       then Inl (ValueError ''expires_at must be timezone-aware'')
     else if instant (ap_expires_at p) - instant (ap_created_at p) \<noteq> proposal_lifetime
       then Inl (ValueError ''an ActionProposal must expire exactly 15 minutes after creation'')
     else Inr p)"

record action_execution =
  ax_action_id :: string
  ax_proposal_id :: string
  ax_action_state :: action_state
  ax_idempotency_key :: string
  ax_submitted_at :: "datetime option"
  ax_verified_at :: "datetime option"
  ax_error_code :: "string option"

definition check_action :: "action_execution \<Rightarrow> action_execution result" where
  "check_action a =
    (if ax_action_id a = [] then Inl (ValueError ''action_id'')
     else if ax_proposal_id a = [] then Inl (ValueError ''proposal_id'')
     else if ax_idempotency_key a = [] then Inl (ValueError ''idempotency_key'')
     else if \<not> opt_aware (ax_submitted_at a)
       then Inl (ValueError ''submitted_at must be timezone-aware'')
     else if \<not> opt_aware (ax_verified_at a)
       then Inl (ValueError ''verified_at must be timezone-aware'')
     else if (ax_action_state a \<in> {AS_SUBMITTED, AS_SUCCEEDED, AS_FAILED_RETRYABLE,
                AS_FAILED_TERMINAL, AS_UNCERTAIN}) \<noteq> (ax_submitted_at a \<noteq> None)
       then Inl (ValueError ''submitted_at must reflect whether the action left the executor'')
     else if ax_verified_at a \<noteq> None \<and> ax_action_state a \<noteq> AS_SUCCEEDED
       then Inl (ValueError ''verified_at is valid only for a succeeded action'')
     else if ax_action_state a = AS_SUCCEEDED \<and> ax_verified_at a = None
       then Inl (ValueError ''a succeeded action requires read-back verification'')
     else Inr a)"

section \<open>Invariants of validated snapshots\<close>

text \<open>Validation of these models never changes the snapshot.\<close>

lemma check_case_id: "check_case c = Inr d \<Longrightarrow> d = c"
  by (simp add: check_case_def split: if_splits)

lemma check_run_id: "check_run r = Inr s \<Longrightarrow> s = r"
  by (simp add: check_run_def split: if_splits)

lemma check_proposal_id: "check_proposal p = Inr q \<Longrightarrow> q = p"
  by (simp add: check_proposal_def split: if_splits)

lemma check_action_id: "check_action a = Inr b \<Longrightarrow> b = a"
  by (simp add: check_action_def split: if_splits)

definition wf_case :: "investigation_case \<Rightarrow> bool" where
  "wf_case c \<longleftrightarrow> check_case c = Inr c"

definition wf_run :: "run \<Rightarrow> bool" where
  "wf_run r \<longleftrightarrow> check_run r = Inr r"

definition wf_proposal :: "action_proposal \<Rightarrow> bool" where
  "wf_proposal p \<longleftrightarrow> check_proposal p = Inr p"

definition wf_action :: "action_execution \<Rightarrow> bool" where
  "wf_action a \<longleftrightarrow> check_action a = Inr a"

lemma wf_case_closure:
  "wf_case c \<Longrightarrow> (ic_case_state c = CS_CLOSED \<longleftrightarrow> ic_case_outcome c \<noteq> None) \<and>
     (ic_case_state c = CS_CLOSED \<longleftrightarrow> ic_reason_code c \<noteq> None)"
  by (auto simp: wf_case_def check_case_def truthy_iff split: if_splits)

lemma wf_run_failure: "wf_run r \<Longrightarrow> rn_run_state r = RS_FAILED \<longleftrightarrow> rn_failure_class r \<noteq> None"
  by (auto simp: wf_run_def check_run_def truthy_iff split: if_splits)

lemma wf_proposal_lifetime:
  "wf_proposal p \<Longrightarrow> instant (ap_expires_at p) = instant (ap_created_at p) + proposal_lifetime"
  by (auto simp: wf_proposal_def check_proposal_def split: if_splits)

lemma wf_action_submitted:
  "wf_action a \<Longrightarrow> ax_action_state a = AS_READY \<longleftrightarrow> ax_submitted_at a = None"
  by (cases "ax_action_state a") (auto simp: wf_action_def check_action_def split: if_splits)

lemma wf_action_verified:
  "wf_action a \<Longrightarrow> ax_action_state a = AS_SUCCEEDED \<longleftrightarrow> ax_verified_at a \<noteq> None"
  by (auto simp: wf_action_def check_action_def split: if_splits)

end
