(* ===== verification/Lifecycle.thy ===== *)
theory Lifecycle
  imports DomainModels
begin

text \<open>
  The lifecycle transitions of \<open>domain/transitions.py\<close>: four transition tables and one guarded
  transition function per snapshot, each ending in a full revalidation of the updated snapshot
  (\<open>_validated_update\<close>).

  What a client relies on is the locale \<open>lifecycle\<close>: a step only follows the table, reaches the state
  it was asked for and keeps the object's identity.  Inside it, runs of several steps are shown to be
  paths of the table and terminal states to absorb; \<open>ranked_lifecycle\<close> adds a decreasing rank and
  bounds the length of every run.  All four machines of the source are instances.
\<close>

section \<open>Tables\<close>

fun case_transitions :: "case_state \<Rightarrow> case_state list" where
  "case_transitions CS_INVESTIGATING =
     [CS_AWAITING_CUSTOMER_INPUT, CS_AWAITING_CUSTOMER_CONFIRMATION, CS_AWAITING_RETRY, CS_CLOSED]"
| "case_transitions CS_AWAITING_CUSTOMER_INPUT = [CS_INVESTIGATING, CS_AWAITING_RETRY, CS_CLOSED]"
| "case_transitions CS_AWAITING_CUSTOMER_CONFIRMATION = [CS_EXECUTING_ACTION, CS_CLOSED]"
| "case_transitions CS_AWAITING_RETRY = [CS_INVESTIGATING, CS_CLOSED]"
| "case_transitions CS_EXECUTING_ACTION = [CS_CLOSED]"
| "case_transitions CS_CLOSED = []"

fun run_transitions :: "run_state \<Rightarrow> run_state list" where
  "run_transitions RS_QUEUED = [RS_RUNNING, RS_FAILED]"
| "run_transitions RS_RUNNING = [RS_SUCCEEDED, RS_FAILED]"
| "run_transitions RS_SUCCEEDED = []"
| "run_transitions RS_FAILED = []"

fun proposal_transitions :: "proposal_state \<Rightarrow> proposal_state list" where
  "proposal_transitions PS_PENDING_CONFIRMATION =
     [PS_CONFIRMED, PS_DECLINED, PS_SUPERSEDED, PS_EXPIRED, PS_INVALIDATED]"
| "proposal_transitions PS_CONFIRMED = []"
| "proposal_transitions PS_DECLINED = []"
| "proposal_transitions PS_SUPERSEDED = []"
| "proposal_transitions PS_EXPIRED = []"
| "proposal_transitions PS_INVALIDATED = []"

fun action_transitions :: "action_state \<Rightarrow> action_state list" where
  "action_transitions AS_READY = [AS_SUBMITTED]"
| "action_transitions AS_SUBMITTED =
     [AS_SUCCEEDED, AS_FAILED_RETRYABLE, AS_FAILED_TERMINAL, AS_UNCERTAIN]"
| "action_transitions AS_FAILED_RETRYABLE = [AS_SUBMITTED]"
| "action_transitions AS_SUCCEEDED = []"
| "action_transitions AS_FAILED_TERMINAL = []"
| "action_transitions AS_UNCERTAIN = []"

section \<open>Guarded transitions\<close>

definition illegal_transition :: "string \<Rightarrow> string \<Rightarrow> error" where
  "illegal_transition current target =
     IllegalStateTransition (''illegal transition: '' @ current @ '' -> '' @ target)"

definition assert_allowed ::
  "('s \<Rightarrow> string) \<Rightarrow> ('s \<Rightarrow> 's list) \<Rightarrow> 's \<Rightarrow> 's \<Rightarrow> 'a result \<Rightarrow> 'a result" where
  "assert_allowed value table current target k =
     (if target \<notin> set (table current) then Inl (illegal_transition (value current) (value target))
      else k)"

lemma assert_allowed_Inr:
  "assert_allowed v table s t k = Inr x \<longleftrightarrow> t \<in> set (table s) \<and> k = Inr x"
  by (simp add: assert_allowed_def)

definition transition_case ::
  "investigation_case \<Rightarrow> case_state \<Rightarrow> case_outcome option \<Rightarrow> string option \<Rightarrow>
   investigation_case result" where
  "transition_case c target outcome reason =
    assert_allowed case_state_value case_transitions (ic_case_state c) target
     (if target = CS_CLOSED \<and> (outcome = None \<or> \<not> truthy reason)
        then Inl (IllegalStateTransition ''closing a Case requires outcome and reason_code'')
      else if target \<noteq> CS_CLOSED \<and> (outcome \<noteq> None \<or> reason \<noteq> None)
        then Inl (IllegalStateTransition ''open Case transitions cannot set closure fields'')
      else check_case (c\<lparr>ic_case_state := target, ic_case_outcome := outcome,
                        ic_reason_code := reason\<rparr>))"

definition transition_run :: "run \<Rightarrow> run_state \<Rightarrow> string option \<Rightarrow> run result" where
  "transition_run r target failure =
    assert_allowed run_state_value run_transitions (rn_run_state r) target
     (if (target = RS_FAILED) \<noteq> truthy failure
        then Inl (IllegalStateTransition ''only a failed Run carries failure_class'')
      else check_run (r\<lparr>rn_run_state := target, rn_failure_class := failure\<rparr>))"

definition transition_proposal :: "action_proposal \<Rightarrow> proposal_state \<Rightarrow> action_proposal result" where
  "transition_proposal p target =
    assert_allowed proposal_state_value proposal_transitions (ap_proposal_state p) target
     (check_proposal (p\<lparr>ap_proposal_state := target\<rparr>))"

definition transition_action ::
  "action_execution \<Rightarrow> action_state \<Rightarrow> datetime \<Rightarrow> string option \<Rightarrow> action_execution result" where
  "transition_action a target occurred_at error_code =
    assert_allowed action_state_value action_transitions (ax_action_state a) target
     (if \<not> is_aware occurred_at
        then Inl (IllegalStateTransition ''action transition timestamp must be timezone-aware'')
      else
       (let submitted = (if target = AS_SUBMITTED \<and> ax_submitted_at a = None
                         then Some occurred_at else ax_submitted_at a);
            verified = (if target = AS_SUCCEEDED then Some occurred_at else ax_verified_at a)
        in if target \<in> {AS_SUCCEEDED, AS_SUBMITTED} \<and> error_code \<noteq> None
             then Inl (IllegalStateTransition ''successful/submitted action state cannot carry error_code'')
           else if target \<in> {AS_FAILED_RETRYABLE, AS_FAILED_TERMINAL, AS_UNCERTAIN} \<and>
                   \<not> truthy error_code
             then Inl (IllegalStateTransition ''failed or uncertain action requires error_code'')
           else check_action (a\<lparr>ax_action_state := target, ax_submitted_at := submitted,
                               ax_verified_at := verified, ax_error_code := error_code\<rparr>)))"

section \<open>The interface of a lifecycle\<close>

text \<open>A request is what the caller passes besides the object: the target state and its arguments.\<close>

locale lifecycle =
  fixes state_of :: "'m \<Rightarrow> 's"
    and ident :: "'m \<Rightarrow> 'k"
    and target_of :: "'r \<Rightarrow> 's"
    and step :: "'m \<Rightarrow> 'r \<Rightarrow> 'm result"
    and table :: "'s \<Rightarrow> 's list"
    and wf :: "'m \<Rightarrow> bool"
  assumes step_allowed: "step m r = Inr m' \<Longrightarrow> target_of r \<in> set (table (state_of m))"
    and step_target: "step m r = Inr m' \<Longrightarrow> state_of m' = target_of r"
    and step_ident: "step m r = Inr m' \<Longrightarrow> ident m' = ident m"
    and step_wf: "step m r = Inr m' \<Longrightarrow> wf m'"
begin

text \<open>The states an object goes through are a path of the table.\<close>

fun path :: "'s \<Rightarrow> 's list \<Rightarrow> bool" where
  "path s [] \<longleftrightarrow> True"
| "path s (t # ts) \<longleftrightarrow> t \<in> set (table s) \<and> path t ts"

lemma run_path: "foldE step m rs = Inr m' \<Longrightarrow> path (state_of m) (map target_of rs)"
proof (induction rs arbitrary: m)
  case (Cons r rs)
  then obtain m1 where m1: "step m r = Inr m1" and "foldE step m1 rs = Inr m'"
    by (auto simp: bindE_eq_Inr)
  then have "path (state_of m1) (map target_of rs)" by (blast intro: Cons.IH)
  with step_allowed [OF m1] step_target [OF m1] show ?case by simp
qed simp

lemma run_ident: "foldE step m rs = Inr m' \<Longrightarrow> ident m' = ident m"
  by (rule foldE_invariant [where P = "\<lambda>x. ident x = ident m"]) (auto dest: step_ident)

lemma run_wf: "foldE step m rs = Inr m' \<Longrightarrow> wf m \<Longrightarrow> wf m'"
  by (rule foldE_invariant [where P = wf]) (auto dest: step_wf)

lemma run_state:
  "foldE step m rs = Inr m' \<Longrightarrow> state_of m' = (if rs = [] then state_of m else target_of (last rs))"
proof (induction rs arbitrary: m)
  case (Cons r rs)
  then obtain m1 where m1: "step m r = Inr m1" and rest: "foldE step m1 rs = Inr m'"
    by (auto simp: bindE_eq_Inr)
  from Cons.IH [OF rest] step_target [OF m1] show ?case by simp
qed simp

lemma terminal_absorbs: "table (state_of m) = [] \<Longrightarrow> foldE step m rs = Inr m' \<Longrightarrow> rs = [] \<and> m' = m"
  by (cases rs) (auto simp: bindE_eq_Inr dest: step_allowed)

text \<open>A terminal state can only be the last of a run.\<close>

lemma terminal_last:
  "foldE step m (rs @ r # rs') = Inr m' \<Longrightarrow> table (target_of r) = [] \<Longrightarrow> rs' = []"
proof -
  assume run: "foldE step m (rs @ r # rs') = Inr m'" and terminal: "table (target_of r) = []"
  then obtain m1 m2 where "step m1 r = Inr m2" and rest: "foldE step m2 rs' = Inr m'"
    by (auto simp: foldE_append bindE_eq_Inr)
  with terminal have "table (state_of m2) = []" by (simp add: step_target)
  with rest show "rs' = []" by (blast dest: terminal_absorbs)
qed

end

locale ranked_lifecycle = lifecycle state_of ident target_of step table wf
  for state_of :: "'m \<Rightarrow> 's" and ident :: "'m \<Rightarrow> 'k" and target_of :: "'r \<Rightarrow> 's"
    and step :: "'m \<Rightarrow> 'r \<Rightarrow> 'm result" and table :: "'s \<Rightarrow> 's list" and wf :: "'m \<Rightarrow> bool" +
  fixes rank :: "'s \<Rightarrow> nat"
  assumes rank_decreases: "t \<in> set (table s) \<Longrightarrow> rank t < rank s"
begin

lemma path_length: "path s ts \<Longrightarrow> length ts \<le> rank s"
proof (induction ts arbitrary: s)
  case (Cons t ts)
  then have "length ts \<le> rank t" and "rank t < rank s" by (auto intro: rank_decreases)
  then show ?case by simp
qed simp

lemma run_length: "foldE step m rs = Inr m' \<Longrightarrow> length rs \<le> rank (state_of m)"
  using path_length [OF run_path] by fastforce

end

section \<open>The four machines\<close>

interpretation case_machine: lifecycle ic_case_state ic_case_id "\<lambda>(t, oc, rc). t"
  "\<lambda>c (t, oc, rc). transition_case c t oc rc" case_transitions wf_case
proof (unfold_locales, goal_cases)
  case (1 c r c')
  then show ?case by (cases r) (simp add: transition_case_def assert_allowed_Inr)
next
  case (2 c r c')
  then show ?case
    by (cases r) (auto simp: transition_case_def assert_allowed_Inr dest: check_case_id split: if_splits)
next
  case (3 c r c')
  then show ?case
    by (cases r) (auto simp: transition_case_def assert_allowed_Inr dest: check_case_id split: if_splits)
next
  case (4 c r c')
  then show ?case
    by (cases r) (auto simp: transition_case_def assert_allowed_Inr wf_case_def
        dest: check_case_id split: if_splits)
qed

definition run_rank :: "run_state \<Rightarrow> nat" where
  "run_rank s = (case s of RS_QUEUED \<Rightarrow> 2 | RS_RUNNING \<Rightarrow> 1 | _ \<Rightarrow> 0)"

interpretation run_machine: ranked_lifecycle rn_run_state rn_run_id fst
  "\<lambda>r (t, f). transition_run r t f" run_transitions wf_run run_rank
proof (unfold_locales, goal_cases)
  case (1 c r c')
  then show ?case by (cases r) (simp add: transition_run_def assert_allowed_Inr)
next
  case (2 c r c')
  then show ?case
    by (cases r) (auto simp: transition_run_def assert_allowed_Inr dest: check_run_id split: if_splits)
next
  case (3 c r c')
  then show ?case
    by (cases r) (auto simp: transition_run_def assert_allowed_Inr dest: check_run_id split: if_splits)
next
  case (4 c r c')
  then show ?case
    by (cases r) (auto simp: transition_run_def assert_allowed_Inr wf_run_def
        dest: check_run_id split: if_splits)
next
  case (5 t s)
  then show ?case by (cases s) (auto simp: run_rank_def)
qed

definition proposal_rank :: "proposal_state \<Rightarrow> nat" where
  "proposal_rank s = (case s of PS_PENDING_CONFIRMATION \<Rightarrow> 1 | _ \<Rightarrow> 0)"

interpretation proposal_machine: ranked_lifecycle ap_proposal_state
  "\<lambda>p. (ap_proposal_id p, ap_version p, ap_execution_parameters p, ap_evidence_snapshot_hash p)"
  "\<lambda>t. t" transition_proposal proposal_transitions wf_proposal proposal_rank
proof (unfold_locales, goal_cases)
  case (5 t s)
  then show ?case by (cases s) (auto simp: proposal_rank_def)
qed (auto simp: transition_proposal_def assert_allowed_Inr wf_proposal_def dest: check_proposal_id)

interpretation action_machine: lifecycle ax_action_state
  "\<lambda>a. (ax_action_id a, ax_proposal_id a, ax_idempotency_key a)" "\<lambda>(t, tm, e). t"
  "\<lambda>a (t, tm, e). transition_action a t tm e" action_transitions wf_action
proof (unfold_locales, goal_cases)
  case (1 c r c')
  then show ?case by (cases r) (simp add: transition_action_def assert_allowed_Inr)
next
  case (2 c r c')
  then show ?case
    by (cases r) (auto simp: transition_action_def Let_def assert_allowed_Inr
        dest!: check_action_id split: if_splits)
next
  case (3 c r c')
  then show ?case
    by (cases r) (auto simp: transition_action_def Let_def assert_allowed_Inr
        dest!: check_action_id split: if_splits)
next
  case (4 c r c')
  then show ?case
    by (cases r) (auto simp: transition_action_def Let_def assert_allowed_Inr wf_action_def
        dest: check_action_id split: if_splits)
qed

section \<open>Properties\<close>

definition closure_fields_fit :: "case_state \<Rightarrow> case_outcome option \<Rightarrow> string option \<Rightarrow> bool" where
  "closure_fields_fit target outcome reason \<longleftrightarrow>
     (if target = CS_CLOSED then outcome \<noteq> None \<and> truthy reason
      else outcome = None \<and> reason = None)"

text \<open>C23. A Case transition out of a well-formed snapshot succeeds exactly when the table allows it
  and the closure fields fit the target (an outcome and a non-empty reason to close, neither
  otherwise); it then changes exactly these three fields, and the revalidation never rejects it.\<close>

theorem transition_case_iff:
  assumes "wf_case c"
  shows "transition_case c target outcome reason = Inr c' \<longleftrightarrow>
     target \<in> set (case_transitions (ic_case_state c)) \<and> closure_fields_fit target outcome reason \<and>
     c' = c\<lparr>ic_case_state := target, ic_case_outcome := outcome, ic_reason_code := reason\<rparr>"
  using assms
  by (auto simp: transition_case_def assert_allowed_Inr closure_fields_fit_def wf_case_def
      check_case_def split: if_splits)

definition sample_case :: investigation_case where
  "sample_case = \<lparr>ic_case_id = ''case_1'', ic_conversation_id = ''conv_1'', ic_customer_id = ''customer-a'',
     ic_authorized_order_id = ''ORD-001'', ic_canonical_issue_type = STALLED_TRACKING,
     ic_case_state = CS_INVESTIGATING, ic_case_outcome = None, ic_reason_code = None,
     ic_related_case_id = None, ic_business_clarifications = 0, ic_planning_turns = 0,
     ic_read_tool_executions = 0, ic_issue_type_revision_history = [], ic_target_shipment_id = None\<rparr>"

lemma wf_sample_case: "wf_case sample_case"
  by (simp add: wf_case_def check_case_def sample_case_def)

theorem transition_case_iff_witness:
  "wf_case sample_case \<and>
   transition_case sample_case CS_AWAITING_RETRY None None
     = Inr (sample_case\<lparr>ic_case_state := CS_AWAITING_RETRY\<rparr>)"
  using transition_case_iff [OF wf_sample_case, of CS_AWAITING_RETRY None None
      "sample_case\<lparr>ic_case_state := CS_AWAITING_RETRY\<rparr>"] wf_sample_case
  by (simp add: closure_fields_fit_def sample_case_def)

text \<open>A closed Case never reopens: after any accepted sequence of transitions that passes through
  \<open>closed\<close>, nothing follows, and the Case it ends in is well-formed and closed.\<close>

theorem closed_case_never_reopens:
  assumes "foldE (\<lambda>c (t, oc, rc). transition_case c t oc rc) c (rs @ (CS_CLOSED, oc, rc) # rs') = Inr c'"
  shows "rs' = [] \<and> ic_case_state c' = CS_CLOSED \<and> ic_case_outcome c' \<noteq> None \<and> wf_case c'"
proof -
  have last: "rs' = []"
    by (rule case_machine.terminal_last [OF assms]) simp
  from assms last have state: "ic_case_state c' = CS_CLOSED"
    using case_machine.run_state [OF assms] by simp
  from assms obtain d where "transition_case d CS_CLOSED oc rc = Inr c'"
    using last by (auto simp: foldE_append bindE_eq_Inr)
  then have "wf_case c'" using case_machine.step_wf [of d "(CS_CLOSED, oc, rc)" c'] by simp
  with state last wf_case_closure [of c'] show ?thesis by simp
qed

theorem closed_case_never_reopens_witness:
  "\<exists>c'. foldE (\<lambda>c (t, oc, rc). transition_case c t oc rc) sample_case
       ([(CS_AWAITING_RETRY, None, None)] @ (CS_CLOSED, Some CO_FAILED, Some ''RETRY_FAILED'') # []) = Inr c'
     \<and> ic_case_state c' = CS_CLOSED"
proof -
  let ?c = "sample_case\<lparr>ic_case_state := CS_CLOSED, ic_case_outcome := Some CO_FAILED,
      ic_reason_code := Some ''RETRY_FAILED''\<rparr>"
  have run: "foldE (\<lambda>c (t, oc, rc). transition_case c t oc rc) sample_case
       ([(CS_AWAITING_RETRY, None, None)] @ (CS_CLOSED, Some CO_FAILED, Some ''RETRY_FAILED'') # []) = Inr ?c"
    by (simp add: transition_case_def assert_allowed_def check_case_def sample_case_def)
  from closed_case_never_reopens [OF run] run show ?thesis by blast
qed

text \<open>A Run makes at most two transitions and a Proposal at most one, whatever is requested.\<close>

theorem runs_and_proposals_are_short:
  "(foldE (\<lambda>r (t, f). transition_run r t f) r rs = Inr r' \<longrightarrow> length rs \<le> 2) \<and>
   (foldE transition_proposal p ps = Inr p' \<longrightarrow> length ps \<le> 1)"
proof -
  have "run_rank (rn_run_state r) \<le> 2" by (cases "rn_run_state r") (simp_all add: run_rank_def)
  moreover have "proposal_rank (ap_proposal_state p) \<le> 1"
    by (cases "ap_proposal_state p") (simp_all add: proposal_rank_def)
  ultimately show ?thesis
    by (auto dest!: run_machine.run_length proposal_machine.run_length)
qed

definition sample_run :: run where
  "sample_run = \<lparr>rn_run_id = ''run_1'', rn_case_id = ''case_1'', rn_run_state = RS_QUEUED,
     rn_planning_turns = 0, rn_failure_class = None\<rparr>"

theorem runs_and_proposals_are_short_witness:
  "\<exists>r'. foldE (\<lambda>r (t, f). transition_run r t f) sample_run [(RS_RUNNING, None), (RS_FAILED, Some ''X'')]
      = Inr r' \<and> length [(RS_RUNNING, None), (RS_FAILED, Some ''X'')] \<le> 2"
proof -
  let ?rs = "[(RS_RUNNING, None), (RS_FAILED, Some ''X'')]"
  let ?r = "sample_run\<lparr>rn_run_state := RS_FAILED, rn_failure_class := Some ''X''\<rparr>"
  have run: "foldE (\<lambda>r (t, f). transition_run r t f) sample_run ?rs = Inr ?r"
    by (simp add: transition_run_def assert_allowed_def check_run_def sample_run_def)
  have "length ?rs \<le> 2"
    using runs_and_proposals_are_short [of sample_run ?rs ?r undefined "[]" undefined] run by blast
  with run show ?thesis by blast
qed

text \<open>The write attempt keeps its identity: over any accepted sequence of action transitions the
  action id, the idempotency key and the first submission time never change, and an \<open>uncertain\<close>,
  \<open>succeeded\<close> or terminally failed action accepts no further transition.\<close>

theorem action_identity_and_submission_frozen:
  assumes "foldE (\<lambda>a (t, tm, e). transition_action a t tm e) a rs = Inr a'"
  shows "ax_action_id a' = ax_action_id a \<and> ax_idempotency_key a' = ax_idempotency_key a \<and>
    (ax_submitted_at a = Some t0 \<longrightarrow> ax_submitted_at a' = Some t0) \<and>
    (ax_action_state a \<in> {AS_UNCERTAIN, AS_SUCCEEDED, AS_FAILED_TERMINAL} \<longrightarrow> rs = [])"
proof (intro conjI impI)
  show "ax_action_id a' = ax_action_id a" "ax_idempotency_key a' = ax_idempotency_key a"
    using action_machine.run_ident [OF assms] by simp_all
next
  assume start: "ax_submitted_at a = Some t0"
  show "ax_submitted_at a' = Some t0"
  proof (rule foldE_invariant [where P = "\<lambda>a. ax_submitted_at a = Some t0", OF _ assms start])
    fix b :: action_execution and r b'
    assume "ax_submitted_at b = Some t0"
      and "(case r of (t, tm, e) \<Rightarrow> transition_action b t tm e) = Inr b'"
    then show "ax_submitted_at b' = Some t0"
      by (cases r) (auto simp: transition_action_def Let_def assert_allowed_Inr
          dest!: check_action_id split: if_splits)
  qed
next
  assume "ax_action_state a \<in> {AS_UNCERTAIN, AS_SUCCEEDED, AS_FAILED_TERMINAL}"
  then have "action_transitions (ax_action_state a) = []" by auto
  then show "rs = []" using action_machine.terminal_absorbs [OF _ assms] by blast
qed

definition sample_action :: action_execution where
  "sample_action = \<lparr>ax_action_id = ''act_1'', ax_proposal_id = ''prop_1'', ax_action_state = AS_SUBMITTED,
     ax_idempotency_key = ''idem_1'', ax_submitted_at = Some (Aware 5), ax_verified_at = None,
     ax_error_code = None\<rparr>"

theorem action_identity_and_submission_frozen_witness:
  "\<exists>a'. foldE (\<lambda>a (t, tm, e). transition_action a t tm e) sample_action
       [(AS_FAILED_RETRYABLE, Aware 6, Some ''TIMEOUT''), (AS_SUBMITTED, Aware 7, None),
        (AS_SUCCEEDED, Aware 9, None)] = Inr a' \<and>
     ax_submitted_at a' = Some (Aware 5) \<and> ax_verified_at a' = Some (Aware 9)"
proof -
  let ?rs = "[(AS_FAILED_RETRYABLE, Aware 6, Some ''TIMEOUT''), (AS_SUBMITTED, Aware 7, None),
        (AS_SUCCEEDED, Aware 9, None)]"
  let ?a = "sample_action\<lparr>ax_action_state := AS_SUCCEEDED, ax_verified_at := Some (Aware 9)\<rparr>"
  have run: "foldE (\<lambda>a (t, tm, e). transition_action a t tm e) sample_action ?rs = Inr ?a"
    by (simp add: transition_action_def assert_allowed_def check_action_def sample_action_def Let_def)
  from action_identity_and_submission_frozen [OF run, of "Aware 5"]
  have "ax_submitted_at ?a = Some (Aware 5)" by (simp add: sample_action_def)
  with run show ?thesis by auto
qed

end
