(* ===== verification/EvidenceGate.thy ===== *)
theory EvidenceGate
  imports ToolContracts "HOL-Library.AList"
begin

text \<open>
  The evidence gate of \<open>policy/evidence_gate.py\<close>: the two truth tables that decide, from read results
  alone, whether a ticket may be proposed.

  \<^item> \<open>CommonGateFacts\<close> and its two subclasses are the records \<open>common_facts\<close>, \<open>signed_evidence\<close> and
    \<open>stalled_evidence\<close>; a gate result is \<open>gate_result\<close>, whose hash table is an association list in
    insertion order, as the source's dict.
  \<^item> A guard that returns \<open>EvidenceGateResult | None\<close> returns an option, and
    \<open>if g := guard(...): return g\<close> is \<open>opt_or (guard ...) (rest)\<close>.
  \<^item> \<open>mhash\<close> is the digest of the policy facts (\<open>material_snapshot_hash\<close>).

  The lemmas give the closed form of "a ticket is proposed" for both tables, show that every result
  carries exactly one outcome, that the gate fails closed, that it cannot ask for retries for ever, and
  that a proposal binds the digest of every critical result.
\<close>

section \<open>Facts and results\<close>

record gate_result =
  gr_decision :: "gate_decision option"
  gr_reason_code :: string
  gr_revised_issue_type :: "triage_intent option"
  gr_critical_result_hashes :: "(string \<times> string) list"

definition check_gate_result :: "gate_result \<Rightarrow> gate_result result" where
  "check_gate_result r =
    (if gr_reason_code r = [] then Inl (ValueError ''reason_code'')
     else if (gr_decision r = None) = (gr_revised_issue_type r = None)
       then Inl (ValueError ''gate result requires exactly one decision or issue revision'')
     else Inr r)"

definition proposal_allowed :: "gate_result \<Rightarrow> bool" where
  "proposal_allowed r \<longleftrightarrow> gr_decision r = Some GD_PROPOSE_TICKET"

record common_facts =
  cf_authorization_valid :: bool
  cf_budget_exceeded :: bool
  cf_evidence_scope_matches_case :: bool
  cf_requested_action_supported :: bool
  cf_structural_conflict :: bool
  cf_directed_refresh_completed :: bool
  cf_critical_retry_exhausted :: bool
  cf_target_shipment_id :: "string option"

record signed_evidence = common_facts +
  se_order_context :: "order_context tool_result"
  se_timeline :: "logistics_timeline tool_result"
  se_delivery_proof :: "delivery_proof tool_result"
  se_existing_tickets :: "existing_tickets tool_result"
  se_policy :: "policy_search tool_result"
  se_customer_still_reports_missing :: bool
  se_reception_locations_checked :: bool
  se_delivery_location_conflict :: bool

record stalled_evidence = common_facts +
  sl_order_context :: "order_context tool_result"
  sl_timeline :: "logistics_timeline tool_result"
  sl_existing_tickets :: "existing_tickets tool_result"
  sl_policy :: "policy_search tool_result"
  sl_carrier_alerts :: "carrier_alerts tool_result option"

type_synonym named_results = "(string \<times> envelope) list"

definition named :: "string \<Rightarrow> 'p tool_result \<Rightarrow> string \<times> envelope" where
  "named key r = (key, envelope.truncate r)"

definition gate_result_of :: "gate_decision \<Rightarrow> string \<Rightarrow> named_results \<Rightarrow> gate_result" where
  "gate_result_of decision reason results =
     \<lparr>gr_decision = Some decision, gr_reason_code = reason, gr_revised_issue_type = None,
      gr_critical_result_hashes = map (\<lambda>(k, r). (k, tr_result_hash r)) results\<rparr>"

section \<open>Guards\<close>

definition common_guard :: "'a common_facts_scheme \<Rightarrow> gate_result option" where
  "common_guard f =
    (if \<not> cf_authorization_valid f
       then Some (gate_result_of GD_REQUIRE_HUMAN_SUPPORT ''AUTHORIZATION_NOT_VALID'' [])
     else if cf_budget_exceeded f
       then Some (gate_result_of GD_REQUIRE_HUMAN_SUPPORT ''INVESTIGATION_BUDGET_EXCEEDED'' [])
     else if \<not> cf_evidence_scope_matches_case f
       then Some (gate_result_of GD_REQUIRE_HUMAN_SUPPORT ''EVIDENCE_SCOPE_MISMATCH'' [])
     else if \<not> cf_requested_action_supported f
       then Some (gate_result_of GD_REQUIRE_HUMAN_SUPPORT ''UNSUPPORTED_ACTION_RECOMMENDATION'' [])
     else if cf_structural_conflict f then
       (if cf_directed_refresh_completed f
          then Some (gate_result_of GD_REQUIRE_HUMAN_SUPPORT ''PERSISTENT_STRUCTURAL_CONFLICT'' [])
        else Some (gate_result_of GD_RETRY_LATER ''STRUCTURAL_CONFLICT_REQUIRES_REFRESH'' []))
     else None)"

definition is_unavailable :: "envelope \<Rightarrow> bool" where
  "is_unavailable r \<longleftrightarrow>
     tr_evidence_availability r = EA_UNAVAILABLE \<or> tr_execution_status r \<noteq> ES_SUCCESS"

definition unavailable_result :: "named_results \<Rightarrow> bool \<Rightarrow> gate_result option" where
  "unavailable_result results retry_exhausted =
    (let unavailable = filter (\<lambda>(k, r). is_unavailable r) results;
         can_retry = list_ex (\<lambda>(k, r). tr_retryable r) unavailable \<and> \<not> retry_exhausted
     in if unavailable = [] then None
        else Some (gate_result_of
          (if can_retry then GD_RETRY_LATER else GD_REQUIRE_HUMAN_SUPPORT)
          (if can_retry then ''CRITICAL_EVIDENCE_UNAVAILABLE''
           else ''CRITICAL_EVIDENCE_UNAVAILABLE_FINAL'')
          unavailable))"

definition active_ticket :: "existing_tickets tool_result \<Rightarrow> bool" where
  "active_ticket r \<longleftrightarrow>
    (case tr_payload r of None \<Rightarrow> False
     | Some p \<Rightarrow> et_active_tickets p \<noteq> [] \<or> et_existing_investigations p \<noteq> [])"

definition target_shipment :: "order_context \<Rightarrow> string option \<Rightarrow> shipment_summary option" where
  "target_shipment order target =
    (case target of None \<Rightarrow> None
     | Some sid \<Rightarrow> List.find (\<lambda>s. ss_shipment_id s = sid) (oc_shipments order))"

text \<open>What the gate reads of a timeline, whether of the order or of one package.\<close>

record scoped_timeline =
  sc_events :: "timeline_event list"
  sc_hours_since_last_update :: "rat option"

definition target_timeline :: "logistics_timeline \<Rightarrow> string option \<Rightarrow> scoped_timeline option" where
  "target_timeline timeline target =
    (case target of
       None \<Rightarrow> Some \<lparr>sc_events = lt_events timeline,
                    sc_hours_since_last_update = lt_hours_since_last_update timeline\<rparr>
     | Some sid \<Rightarrow>
         map_option (\<lambda>t. \<lparr>sc_events = st_events t,
                         sc_hours_since_last_update = st_hours_since_last_update t\<rparr>)
           (List.find (\<lambda>t. st_shipment_id t = sid) (lt_shipment_timelines timeline)))"

definition active_shipment_states :: "string list" where
  "active_shipment_states = [''shipped'', ''in_transit'', ''out_for_delivery'', ''stalled'']"

definition has_structural_timeline_conflict ::
  "order_context \<Rightarrow> logistics_timeline \<Rightarrow> datetime \<Rightarrow> string option \<Rightarrow> bool" where
  "has_structural_timeline_conflict order timeline observed_at target_id =
    (let target = (case target_shipment order target_id of
                     Some s \<Rightarrow> Some s
                   | None \<Rightarrow> (if target_id = None \<and> length (oc_shipments order) = 1
                             then Some (hd (oc_shipments order)) else None))
     in case target of
          None \<Rightarrow> False
        | Some s \<Rightarrow>
            (case target_timeline timeline target_id of
               None \<Rightarrow> False
             | Some scoped \<Rightarrow>
                 if sc_events scoped = [] then False
                 else if list_ex (\<lambda>e. instant observed_at < instant (te_occurred_at e)) (sc_events scoped)
                   then True
                 else
                   (let statuses = map te_status
                          (sort_key (\<lambda>e. instant (te_occurred_at e)) (sc_events scoped))
                    in if ss_shipment_status s \<in> set active_shipment_states \<and>
                          ''delivered'' \<in> set statuses
                         then True
                       else if ss_shipment_status s = order_status_value OS_DELIVERED then
                         (case dropWhile (\<lambda>st. st \<noteq> ''delivered'') statuses of
                            [] \<Rightarrow> False
                          | _ # after \<Rightarrow> list_ex (\<lambda>st. st \<noteq> ''delivered'') after)
                       else False)))"

definition required_codes :: "issue_type \<Rightarrow> string list" where
  "required_codes i =
    (if i = SIGNED_NOT_RECEIVED
     then [''order_delivered'', ''timeline'', ''delivery_proof'', ''no_active_ticket'']
     else [''order_shipped'', ''timeline'', ''no_active_ticket''])"

definition policy_guard ::
  "(policy_facts \<Rightarrow> string) \<Rightarrow> policy_search tool_result \<Rightarrow> order_context \<Rightarrow> issue_type \<Rightarrow>
   named_results \<Rightarrow> gate_result option" where
  "policy_guard mhash policy order issue results =
    (case tr_payload policy of
       None \<Rightarrow> Some (gate_result_of GD_REQUIRE_HUMAN_SUPPORT ''POLICY_RESOLUTION_MISSING'' results)
     | Some payload \<Rightarrow>
         if ps_retrieval_status payload = RT_NO_HIT
           then Some (gate_result_of GD_REQUIRE_HUMAN_SUPPORT ''POLICY_RETRIEVAL_NO_HIT'' results)
         else if ps_retrieval_status payload \<noteq> RT_HIT
           then Some (gate_result_of GD_REQUIRE_HUMAN_SUPPORT ''POLICY_RETRIEVAL_NOT_VERIFIABLE'' results)
         else if ps_policy_resolution_status payload = Some PR_NOT_APPLICABLE
           then Some (gate_result_of GD_COMPLETE_NO_ACTION ''POLICY_NOT_APPLICABLE'' results)
         else if ps_policy_resolution_status payload = Some PR_VERSION_CONFLICT
           then Some (gate_result_of GD_REQUIRE_HUMAN_SUPPORT ''POLICY_VERSION_CONFLICT'' results)
         else
           (case (verified_for_gate mhash payload, ps_policy_fact_snapshot payload) of
              (True, Some facts) \<Rightarrow>
                if pf_issue_type facts \<noteq> issue \<or> pf_service_level facts \<noteq> oc_service_level order \<or>
                   pf_region facts \<noteq> oc_region order \<or>
                   Some (pf_policy_version facts) \<noteq> map_option vc_policy_version (ps_citation payload) \<or>
                   Some (pf_clause_id facts) \<noteq> map_option vc_clause_id (ps_citation payload) \<or>
                   Some (pf_source_hash facts) \<noteq> map_option vc_source_hash (ps_citation payload)
                  then Some (gate_result_of GD_REQUIRE_HUMAN_SUPPORT
                              ''POLICY_SCOPE_OR_CITATION_MISMATCH'' results)
                else if instant (ps_evaluated_at payload) < instant (pf_effective_from facts) \<or>
                   (case pf_effective_to facts of None \<Rightarrow> False
                    | Some t \<Rightarrow> instant t \<le> instant (ps_evaluated_at payload))
                  then Some (gate_result_of GD_REQUIRE_HUMAN_SUPPORT
                              ''POLICY_EFFECTIVE_WINDOW_INVALID'' results)
                else if \<not> set (required_codes issue) \<subseteq> set (pf_required_evidence_codes facts)
                  then Some (gate_result_of GD_REQUIRE_HUMAN_SUPPORT
                              ''POLICY_REQUIRED_EVIDENCE_MISMATCH'' results)
                else None
            | _ \<Rightarrow> Some (gate_result_of GD_REQUIRE_HUMAN_SUPPORT
                         ''POLICY_CANONICAL_VALIDATION_FAILED'' results)))"

definition policy_facts_of :: "policy_search tool_result \<Rightarrow> policy_facts option" where
  "policy_facts_of r = Option.bind (tr_payload r) ps_policy_fact_snapshot"

definition refresh_or_support :: "'a common_facts_scheme \<Rightarrow> gate_decision" where
  "refresh_or_support f =
    (if cf_directed_refresh_completed f then GD_REQUIRE_HUMAN_SUPPORT else GD_RETRY_LATER)"

definition reception_recipient_types :: "string list" where
  "reception_recipient_types =
     [''self'', ''family'', ''front_desk'', ''neighbor'', ''collection_point'', ''locker'']"

section \<open>The signed-but-missing table\<close>

definition evaluate_signed_not_received ::
  "(policy_facts \<Rightarrow> string) \<Rightarrow> signed_evidence \<Rightarrow> gate_result" where
  "evaluate_signed_not_received mhash f =
    opt_or (common_guard f)
     (opt_or (unavailable_result [named ''order_context'' (se_order_context f)]
               (cf_critical_retry_exhausted f))
       (case tr_payload (se_order_context f) of
          None \<Rightarrow> gate_result_of GD_REQUIRE_HUMAN_SUPPORT ''ORDER_CONTEXT_ABSENT_AFTER_AUTHORIZATION''
                    [named ''order_context'' (se_order_context f)]
        | Some order \<Rightarrow>
           (let target = target_shipment order (cf_target_shipment_id f);
                target_delivered =
                  (case target of
                     Some s \<Rightarrow> ss_shipment_status s = order_status_value OS_DELIVERED
                   | None \<Rightarrow> oc_order_status order = OS_DELIVERED);
                target_status =
                  (case target of Some s \<Rightarrow> ss_shipment_status s
                   | None \<Rightarrow> order_status_value (oc_order_status order))
            in
            if cf_target_shipment_id f \<noteq> None \<and> target = None
              then gate_result_of GD_REQUIRE_HUMAN_SUPPORT ''TARGET_SHIPMENT_NOT_FOUND''
                     [named ''order_context'' (se_order_context f)]
            else if \<not> target_delivered
              then \<lparr>gr_decision = None,
                    gr_reason_code = ''REPORTED_ISSUE_DOES_NOT_MATCH_ORDER_STATE'',
                    gr_revised_issue_type =
                      Some (if target_status \<in> set active_shipment_states
                            then TI_STALLED_TRACKING else TI_OTHER_LOGISTICS),
                    gr_critical_result_hashes =
                      [(''order_context'', tr_result_hash (se_order_context f))]\<rparr>
            else
             opt_or (unavailable_result [named ''existing_tickets'' (se_existing_tickets f)]
                      (cf_critical_retry_exhausted f))
              (if active_ticket (se_existing_tickets f)
                 then gate_result_of GD_COMPLETE_NO_ACTION ''ACTIVE_LOGISTICS_TICKET_EXISTS''
                        [named ''existing_tickets'' (se_existing_tickets f)]
               else
                (let pre_pod_critical =
                       [named ''order_context'' (se_order_context f),
                        named ''timeline'' (se_timeline f),
                        named ''existing_tickets'' (se_existing_tickets f),
                        named ''policy'' (se_policy f)]
                 in
                 opt_or (unavailable_result pre_pod_critical (cf_critical_retry_exhausted f))
                  (case tr_payload (se_timeline f) of
                     None \<Rightarrow> gate_result_of (refresh_or_support f)
                               ''DELIVERED_WITHOUT_TIMELINE_EVIDENCE'' pre_pod_critical
                   | Some timeline \<Rightarrow>
                      if lt_events timeline = []
                        then gate_result_of (refresh_or_support f)
                               ''DELIVERED_WITHOUT_TIMELINE_EVIDENCE'' pre_pod_critical
                      else
                       (case target_timeline timeline (cf_target_shipment_id f) of
                          None \<Rightarrow> gate_result_of (refresh_or_support f)
                                    ''TARGET_TIMELINE_ABSENT'' pre_pod_critical
                        | Some scoped \<Rightarrow>
                           if sc_events scoped = []
                             then gate_result_of (refresh_or_support f)
                                    ''TARGET_TIMELINE_ABSENT'' pre_pod_critical
                           else
                            opt_or (policy_guard mhash (se_policy f) order SIGNED_NOT_RECEIVED
                                     pre_pod_critical)
                             (case policy_facts_of (se_policy f) of
                                None \<Rightarrow> gate_result_of GD_REQUIRE_HUMAN_SUPPORT
                                          ''POLICY_CANONICAL_VALIDATION_FAILED'' pre_pod_critical
                              | Some policy_facts \<Rightarrow>
                                 if \<not> pf_eligible policy_facts
                                   then gate_result_of GD_COMPLETE_NO_ACTION
                                          ''POLICY_NOT_ELIGIBLE'' pre_pod_critical
                                 else if \<not> se_customer_still_reports_missing f
                                   then gate_result_of GD_COMPLETE_NO_ACTION
                                          ''CUSTOMER_REPORT_RESOLVED'' pre_pod_critical
                                 else
                                  (let critical = pre_pod_critical @
                                         [named ''delivery_proof'' (se_delivery_proof f)];
                                       pod = tr_payload (se_delivery_proof f)
                                   in
                                   opt_or (unavailable_result
                                            [named ''delivery_proof'' (se_delivery_proof f)]
                                            (cf_critical_retry_exhausted f))
                                    (if se_delivery_location_conflict f
                                       then gate_result_of GD_REQUIRE_HUMAN_SUPPORT
                                              ''DELIVERY_EVIDENCE_CONFLICT'' critical
                                     else if (case pod of None \<Rightarrow> False
                                              | Some p \<Rightarrow> dp_pod_status p = DP_FOUND \<and>
                                                  dp_recipient_type p
                                                    \<in> Some ` set reception_recipient_types \<and>
                                                  \<not> se_reception_locations_checked f)
                                       then gate_result_of GD_REQUEST_BUSINESS_CLARIFICATION
                                              ''CHECK_RECEPTION_LOCATION'' critical
                                     else gate_result_of GD_PROPOSE_TICKET
                                            ''SIGNED_NOT_RECEIVED_EVIDENCE_COMPLETE''
                                            critical))))))))))"

section \<open>The stalled-tracking table\<close>

definition evaluate_stalled_tracking ::
  "(policy_facts \<Rightarrow> string) \<Rightarrow> stalled_evidence \<Rightarrow> gate_result" where
  "evaluate_stalled_tracking mhash f =
    (let decision_inputs =
           [named ''order_context'' (sl_order_context f),
            named ''timeline'' (sl_timeline f),
            named ''policy'' (sl_policy f)]
     in
     opt_or (common_guard f)
      (opt_or (unavailable_result decision_inputs (cf_critical_retry_exhausted f))
        (case tr_payload (sl_order_context f) of
           None \<Rightarrow> gate_result_of GD_REQUIRE_HUMAN_SUPPORT
                     ''ORDER_CONTEXT_ABSENT_AFTER_AUTHORIZATION'' decision_inputs
         | Some order \<Rightarrow>
            (let target = target_shipment order (cf_target_shipment_id f);
                 status_is = (\<lambda>P. case target of None \<Rightarrow> False | Some s \<Rightarrow> P (ss_shipment_status s))
             in
             if cf_target_shipment_id f \<noteq> None \<and> target = None
               then gate_result_of GD_REQUIRE_HUMAN_SUPPORT ''TARGET_SHIPMENT_NOT_FOUND''
                      decision_inputs
             else if status_is (\<lambda>st. st = order_status_value OS_DELIVERED)
               then \<lparr>gr_decision = None,
                     gr_reason_code = ''REPORTED_ISSUE_DOES_NOT_MATCH_SHIPMENT_STATE'',
                     gr_revised_issue_type = Some TI_SIGNED_NOT_RECEIVED,
                     gr_critical_result_hashes =
                       [(''order_context'', tr_result_hash (sl_order_context f))]\<rparr>
             else if target = None \<and> oc_order_status order \<noteq> OS_SHIPPED
               then gate_result_of GD_COMPLETE_NO_ACTION ''ORDER_NOT_IN_TRANSIT'' decision_inputs
             else if status_is (\<lambda>st. st \<notin> set active_shipment_states)
               then gate_result_of GD_COMPLETE_NO_ACTION ''SHIPMENT_NOT_IN_TRANSIT'' decision_inputs
             else
              (case tr_payload (sl_timeline f) of
                 None \<Rightarrow> gate_result_of (refresh_or_support f) ''TRACKING_TIMELINE_ABSENT''
                           decision_inputs
               | Some timeline \<Rightarrow>
                  if lt_hours_since_last_update timeline = None
                    then gate_result_of (refresh_or_support f) ''TRACKING_TIMELINE_ABSENT''
                           decision_inputs
                  else
                   opt_or (policy_guard mhash (sl_policy f) order STALLED_TRACKING decision_inputs)
                    (case policy_facts_of (sl_policy f) of
                       None \<Rightarrow> gate_result_of GD_REQUIRE_HUMAN_SUPPORT
                                 ''POLICY_CANONICAL_VALIDATION_FAILED'' decision_inputs
                     | Some policy \<Rightarrow>
                        if \<not> pf_eligible policy
                          then gate_result_of GD_COMPLETE_NO_ACTION ''POLICY_NOT_ELIGIBLE''
                                 decision_inputs
                        else
                         (case pf_stalled_after_hours policy of
                            None \<Rightarrow> gate_result_of GD_REQUIRE_HUMAN_SUPPORT
                                      ''STALL_THRESHOLD_ABSENT'' decision_inputs
                          | Some threshold \<Rightarrow>
                             (case Option.bind (target_timeline timeline (cf_target_shipment_id f))
                                     sc_hours_since_last_update of
                                None \<Rightarrow> gate_result_of (refresh_or_support f)
                                          ''TARGET_TIMELINE_ABSENT'' decision_inputs
                              | Some hours \<Rightarrow>
                                 if has_structural_timeline_conflict order timeline
                                      (tr_observed_at (sl_timeline f)) (cf_target_shipment_id f)
                                   then gate_result_of GD_REQUIRE_HUMAN_SUPPORT
                                          ''PERSISTENT_STRUCTURAL_CONFLICT'' decision_inputs
                                 else if hours \<le> of_int threshold
                                   then gate_result_of GD_COMPLETE_NO_ACTION
                                          ''WITHIN_TRACKING_SLA'' decision_inputs
                                 else
                                  opt_or (case sl_carrier_alerts f of
                                            None \<Rightarrow> None
                                          | Some alerts \<Rightarrow>
                                              unavailable_result [named ''carrier_alerts'' alerts]
                                                (cf_critical_retry_exhausted f))
                                   (let critical = decision_inputs @
                                          [named ''existing_tickets'' (sl_existing_tickets f)] @
                                          (case sl_carrier_alerts f of None \<Rightarrow> []
                                           | Some alerts \<Rightarrow> [named ''carrier_alerts'' alerts])
                                    in
                                    opt_or (unavailable_result
                                             [named ''existing_tickets'' (sl_existing_tickets f)]
                                             (cf_critical_retry_exhausted f))
                                     (if active_ticket (sl_existing_tickets f)
                                        then gate_result_of GD_COMPLETE_NO_ACTION
                                               ''ACTIVE_LOGISTICS_TICKET_EXISTS'' critical
                                      else
                                       (case sl_carrier_alerts f of
                                          Some alerts \<Rightarrow>
                                            (case tr_payload alerts of
                                               Some p \<Rightarrow>
                                                 if filter (\<lambda>a. alert_active_at a (tr_observed_at alerts))
                                                      (cap_alerts p) \<noteq> []
                                                   then gate_result_of GD_COMPLETE_NO_ACTION
                                                          ''ACTIVE_CARRIER_RECOVERY_WINDOW''
                                                          (AList.update ''carrier_alerts''
                                                            (envelope.truncate alerts) critical)
                                                 else gate_result_of GD_PROPOSE_TICKET
                                                        ''STALLED_TRACKING_EVIDENCE_COMPLETE'' critical
                                             | None \<Rightarrow> gate_result_of GD_PROPOSE_TICKET
                                                        ''STALLED_TRACKING_EVIDENCE_COMPLETE'' critical)
                                        | None \<Rightarrow> gate_result_of GD_PROPOSE_TICKET
                                                   ''STALLED_TRACKING_EVIDENCE_COMPLETE''
                                                   critical)))))))))))"

section \<open>Dispatch\<close>

datatype gate_facts = SignedFacts signed_evidence | StalledFacts stalled_evidence

fun evaluate_evidence_gate ::
  "(policy_facts \<Rightarrow> string) \<Rightarrow> issue_type \<Rightarrow> gate_facts \<Rightarrow> gate_result result" where
  "evaluate_evidence_gate mhash SIGNED_NOT_RECEIVED (SignedFacts f) =
     Inr (evaluate_signed_not_received mhash f)"
| "evaluate_evidence_gate mhash SIGNED_NOT_RECEIVED (StalledFacts _) =
     Inl (TypeError ''signed_not_received requires SignedNotReceivedEvidence'')"
| "evaluate_evidence_gate mhash STALLED_TRACKING (StalledFacts f) =
     Inr (evaluate_stalled_tracking mhash f)"
| "evaluate_evidence_gate mhash STALLED_TRACKING (SignedFacts _) =
     Inl (TypeError ''stalled_tracking requires StalledTrackingEvidence'')"

section \<open>What the guards let through\<close>

text \<open>The predicates of the specification: what has to hold of the facts for a guard to be silent.\<close>

definition gate_open :: "'a common_facts_scheme \<Rightarrow> bool" where
  "gate_open f \<longleftrightarrow> cf_authorization_valid f \<and> \<not> cf_budget_exceeded f \<and>
     cf_evidence_scope_matches_case f \<and> cf_requested_action_supported f \<and> \<not> cf_structural_conflict f"

definition usable :: "'p tool_result \<Rightarrow> bool" where
  "usable r \<longleftrightarrow> tr_evidence_availability r \<noteq> EA_UNAVAILABLE \<and> tr_execution_status r = ES_SUCCESS"

definition policy_admits ::
  "(policy_facts \<Rightarrow> string) \<Rightarrow> policy_search tool_result \<Rightarrow> order_context \<Rightarrow> issue_type \<Rightarrow>
   policy_facts \<Rightarrow> bool" where
  "policy_admits mhash r order issue facts \<longleftrightarrow>
    (\<exists>payload cit. tr_payload r = Some payload \<and> ps_citation payload = Some cit \<and>
       ps_policy_fact_snapshot payload = Some facts \<and> verified_for_gate mhash payload \<and>
       pf_issue_type facts = issue \<and> pf_service_level facts = oc_service_level order \<and>
       pf_region facts = oc_region order \<and> pf_policy_version facts = vc_policy_version cit \<and>
       pf_clause_id facts = vc_clause_id cit \<and> pf_source_hash facts = vc_source_hash cit \<and>
       instant (pf_effective_from facts) \<le> instant (ps_evaluated_at payload) \<and>
       (case pf_effective_to facts of None \<Rightarrow> True
        | Some t \<Rightarrow> instant (ps_evaluated_at payload) < instant t) \<and>
       set (required_codes issue) \<subseteq> set (pf_required_evidence_codes facts))"

lemma common_guard_None [gate_simps]: "common_guard f = None \<longleftrightarrow> gate_open f"
  by (simp add: common_guard_def gate_open_def)

lemma is_unavailable_truncate [gate_simps]: "is_unavailable (envelope.truncate r) \<longleftrightarrow> \<not> usable r"
  by (auto simp: is_unavailable_def usable_def)

lemma unavailable_result_None [gate_simps]:
  "unavailable_result rs x = None \<longleftrightarrow> (\<forall>(k, r) \<in> set rs. \<not> is_unavailable r)"
  by (auto simp: unavailable_result_def Let_def filter_empty_conv)

lemma policy_guard_None:
  "policy_guard mhash r order issue rs = None \<longleftrightarrow> (\<exists>facts. policy_admits mhash r order issue facts)"
  by (auto simp: policy_guard_def policy_admits_def verified_for_gate_def not_less
      split: option.splits bool.splits)

lemma policy_guard_None_facts:
  "policy_guard mhash r order issue rs = None \<Longrightarrow> policy_facts_of r = Some facts \<longleftrightarrow>
     policy_admits mhash r order issue facts"
  by (auto simp: policy_guard_None policy_admits_def policy_facts_of_def)

text \<open>What a guard answers when it does stop the evaluation.\<close>

lemma gate_result_of_simps [simp]:
  "gr_decision (gate_result_of d r xs) = Some d"
  "gr_reason_code (gate_result_of d r xs) = r"
  "gr_revised_issue_type (gate_result_of d r xs) = None"
  "gr_critical_result_hashes (gate_result_of d r xs) = map (\<lambda>(k, r). (k, tr_result_hash r)) xs"
  by (simp_all add: gate_result_of_def)

lemma common_guard_Some:
  assumes "common_guard f = Some r"
  shows "gr_revised_issue_type r = None" "gr_reason_code r \<noteq> []"
    "gr_decision r = Some GD_REQUIRE_HUMAN_SUPPORT \<or>
     gr_decision r = Some GD_RETRY_LATER \<and> \<not> cf_directed_refresh_completed f"
  using assms by (auto simp: common_guard_def split: if_splits)

lemma unavailable_result_Some:
  assumes "unavailable_result rs x = Some r"
  shows "gr_revised_issue_type r = None" "gr_reason_code r \<noteq> []"
    "gr_decision r = Some GD_REQUIRE_HUMAN_SUPPORT \<or> gr_decision r = Some GD_RETRY_LATER \<and> \<not> x"
  using assms by (auto simp: unavailable_result_def Let_def split: if_splits)

lemma policy_guard_Some:
  assumes "policy_guard mhash p order issue rs = Some r"
  shows "gr_revised_issue_type r = None" "gr_reason_code r \<noteq> []"
    "gr_decision r = Some GD_REQUIRE_HUMAN_SUPPORT \<or> gr_decision r = Some GD_COMPLETE_NO_ACTION"
  using assms by (auto simp: policy_guard_def split: option.splits bool.splits if_splits)

lemmas guard_outcomes = common_guard_Some unavailable_result_Some policy_guard_Some

text \<open>Reasoning about early returns: a predicate that every guard's answer satisfies, and a decision
  that no guard answers.\<close>

lemma opt_or_intro: "(\<And>r. g = Some r \<Longrightarrow> P r) \<Longrightarrow> (g = None \<Longrightarrow> P k) \<Longrightarrow> P (opt_or g k)"
  by (cases g) auto

lemma propose_past_common [gate_simps]:
  "gr_decision (opt_or (common_guard f) k) = Some GD_PROPOSE_TICKET \<longleftrightarrow>
     gate_open f \<and> gr_decision k = Some GD_PROPOSE_TICKET"
  by (cases "common_guard f") (auto simp flip: common_guard_None dest: common_guard_Some(3))

lemma propose_past_unavailable [gate_simps]:
  "gr_decision (opt_or (unavailable_result rs x) k) = Some GD_PROPOSE_TICKET \<longleftrightarrow>
     (\<forall>(k, r) \<in> set rs. \<not> is_unavailable r) \<and> gr_decision k = Some GD_PROPOSE_TICKET"
  unfolding unavailable_result_None [symmetric, of _ x]
  by (cases "unavailable_result rs x") (auto dest: unavailable_result_Some(3))

lemma propose_past_policy [gate_simps]:
  "gr_decision (opt_or (policy_guard mhash p order issue rs) k) = Some GD_PROPOSE_TICKET \<longleftrightarrow>
     policy_guard mhash p order issue rs = None \<and> gr_decision k = Some GD_PROPOSE_TICKET"
  by (cases "policy_guard mhash p order issue rs") (auto dest: policy_guard_Some(3))

lemma refresh_not_propose [simp]: "refresh_or_support f \<noteq> GD_PROPOSE_TICKET"
  by (simp add: refresh_or_support_def)

section \<open>When a ticket is proposed\<close>

definition delivered_target :: "order_context \<Rightarrow> string option \<Rightarrow> bool" where
  "delivered_target order target_id \<longleftrightarrow>
    (case target_id of None \<Rightarrow> oc_order_status order = OS_DELIVERED
     | Some _ \<Rightarrow> (\<exists>s. target_shipment order target_id = Some s \<and> ss_shipment_status s = ''delivered''))"

definition clarification_due :: "signed_evidence \<Rightarrow> bool" where
  "clarification_due f \<longleftrightarrow> \<not> se_reception_locations_checked f \<and>
    (\<exists>p. tr_payload (se_delivery_proof f) = Some p \<and> dp_pod_status p = DP_FOUND \<and>
         dp_recipient_type p \<in> Some ` set reception_recipient_types)"

definition signed_proposable :: "(policy_facts \<Rightarrow> string) \<Rightarrow> signed_evidence \<Rightarrow> bool" where
  "signed_proposable mhash f \<longleftrightarrow>
     gate_open f \<and>
     usable (se_order_context f) \<and> usable (se_timeline f) \<and> usable (se_existing_tickets f) \<and>
     usable (se_policy f) \<and> usable (se_delivery_proof f) \<and>
     \<not> active_ticket (se_existing_tickets f) \<and>
     se_customer_still_reports_missing f \<and> \<not> se_delivery_location_conflict f \<and>
     \<not> clarification_due f \<and>
     (\<exists>order timeline scoped facts.
        tr_payload (se_order_context f) = Some order \<and>
        delivered_target order (cf_target_shipment_id f) \<and>
        tr_payload (se_timeline f) = Some timeline \<and> lt_events timeline \<noteq> [] \<and>
        target_timeline timeline (cf_target_shipment_id f) = Some scoped \<and> sc_events scoped \<noteq> [] \<and>
        policy_admits mhash (se_policy f) order SIGNED_NOT_RECEIVED facts \<and> pf_eligible facts)"

lemma target_shipment_None [simp]: "target_shipment order None = None"
  by (simp add: target_shipment_def)

lemma propose_past_carrier [gate_simps]:
  "gr_decision (opt_or (case alerts of None \<Rightarrow> None | Some a \<Rightarrow> unavailable_result (rs a) x) k) =
     Some GD_PROPOSE_TICKET \<longleftrightarrow>
     (\<forall>a. alerts = Some a \<longrightarrow> (\<forall>(k, r) \<in> set (rs a). \<not> is_unavailable r)) \<and>
     gr_decision k = Some GD_PROPOSE_TICKET"
  by (cases alerts) (simp_all add: gate_simps)

lemma target_shipment_found:
  "target_shipment order target = Some s \<Longrightarrow> target = Some (ss_shipment_id s) \<and> s \<in> set (oc_shipments order)"
  by (auto simp: target_shipment_def find_Some_iff split: option.splits)

text \<open>Branches as formulas, so that a truth table's decision unfolds by rewriting alone.\<close>

lemma gr_decision_if [gate_simps]:
  "gr_decision (if b then x else y) = Some d \<longleftrightarrow>
     b \<and> gr_decision x = Some d \<or> \<not> b \<and> gr_decision y = Some d"
  by simp

lemma gr_decision_case [gate_simps]:
  "gr_decision (case v of None \<Rightarrow> x | Some z \<Rightarrow> k z) = Some d \<longleftrightarrow>
     v = None \<and> gr_decision x = Some d \<or> (\<exists>z. v = Some z \<and> gr_decision (k z) = Some d)"
  by (cases v) simp_all

lemma policy_admits_iff:
  "policy_admits mhash r order issue facts \<longleftrightarrow>
     policy_guard mhash r order issue rs = None \<and>
     Option.bind (tr_payload r) ps_policy_fact_snapshot = Some facts"
  using policy_guard_None_facts [of mhash r order issue rs facts]
  by (auto simp: policy_facts_of_def policy_guard_None policy_admits_def)

lemma delivered_target_iff:
  "delivered_target order target \<longleftrightarrow>
     (target = None \<or> (\<exists>s. target_shipment order target = Some s)) \<and>
     (case target_shipment order target of
        None \<Rightarrow> oc_order_status order = OS_DELIVERED
      | Some s \<Rightarrow> ss_shipment_status s = order_status_value OS_DELIVERED)"
  by (cases target) (auto simp: delivered_target_def split: option.splits)

lemma clarification_due_iff:
  "clarification_due f \<longleftrightarrow>
     (case tr_payload (se_delivery_proof f) of
        None \<Rightarrow> False
      | Some p \<Rightarrow> dp_pod_status p = DP_FOUND \<and>
          dp_recipient_type p \<in> Some ` set reception_recipient_types \<and>
          \<not> se_reception_locations_checked f)"
  by (auto simp: clarification_due_def split: option.splits)

lemma evaluate_signed_proposes:
  "gr_decision (evaluate_signed_not_received mhash f) = Some GD_PROPOSE_TICKET \<longleftrightarrow>
     signed_proposable mhash f"
  unfolding signed_proposable_def delivered_target_iff clarification_due_iff
    policy_admits_iff [where rs = "[named ''order_context'' (se_order_context f),
       named ''timeline'' (se_timeline f), named ''existing_tickets'' (se_existing_tickets f),
       named ''policy'' (se_policy f)]"]
  apply (simp add: evaluate_signed_not_received_def gate_simps Let_def named_def policy_facts_of_def)
  by blast

definition moving_target :: "order_context \<Rightarrow> string option \<Rightarrow> bool" where
  "moving_target order target_id \<longleftrightarrow>
    (case target_id of None \<Rightarrow> oc_order_status order = OS_SHIPPED
     | Some _ \<Rightarrow> (\<exists>s. target_shipment order target_id = Some s \<and>
                  ss_shipment_status s \<in> set active_shipment_states))"

text \<open>No carrier recovery window covers the moment the alerts were read.\<close>

definition no_recovery_window :: "carrier_alerts tool_result option \<Rightarrow> bool" where
  "no_recovery_window alerts \<longleftrightarrow>
    (\<forall>r p. alerts = Some r \<longrightarrow> tr_payload r = Some p \<longrightarrow>
       (\<forall>a \<in> set (cap_alerts p). \<not> alert_active_at a (tr_observed_at r)))"

definition stalled_proposable :: "(policy_facts \<Rightarrow> string) \<Rightarrow> stalled_evidence \<Rightarrow> bool" where
  "stalled_proposable mhash f \<longleftrightarrow>
     gate_open f \<and>
     usable (sl_order_context f) \<and> usable (sl_timeline f) \<and> usable (sl_policy f) \<and>
     usable (sl_existing_tickets f) \<and> (\<forall>r. sl_carrier_alerts f = Some r \<longrightarrow> usable r) \<and>
     \<not> active_ticket (sl_existing_tickets f) \<and> no_recovery_window (sl_carrier_alerts f) \<and>
     (\<exists>order timeline scoped facts hours threshold.
        tr_payload (sl_order_context f) = Some order \<and>
        moving_target order (cf_target_shipment_id f) \<and>
        tr_payload (sl_timeline f) = Some timeline \<and> lt_hours_since_last_update timeline \<noteq> None \<and>
        target_timeline timeline (cf_target_shipment_id f) = Some scoped \<and>
        sc_hours_since_last_update scoped = Some hours \<and>
        \<not> has_structural_timeline_conflict order timeline (tr_observed_at (sl_timeline f))
            (cf_target_shipment_id f) \<and>
        policy_admits mhash (sl_policy f) order STALLED_TRACKING facts \<and> pf_eligible facts \<and>
        pf_stalled_after_hours facts = Some threshold \<and> of_int threshold < hours)"

lemma no_recovery_window_iff:
  "no_recovery_window alerts \<longleftrightarrow>
     alerts = None \<or>
     (\<exists>r. alerts = Some r \<and>
       (tr_payload r = None \<or>
        (\<exists>p. tr_payload r = Some p \<and>
           (\<forall>a \<in> set (cap_alerts p). \<not> alert_active_at a (tr_observed_at r)))))"
  unfolding no_recovery_window_def by (metis option.exhaust option.inject option.distinct(1))

lemma moving_target_iff:
  "moving_target order target \<longleftrightarrow>
     (target = None \<or> (\<exists>s. target_shipment order target = Some s)) \<and>
     \<not> (case target_shipment order target of None \<Rightarrow> False
        | Some s \<Rightarrow> ss_shipment_status s = order_status_value OS_DELIVERED) \<and>
     \<not> (target_shipment order target = None \<and> oc_order_status order \<noteq> OS_SHIPPED) \<and>
     \<not> (case target_shipment order target of None \<Rightarrow> False
        | Some s \<Rightarrow> ss_shipment_status s \<notin> set active_shipment_states)"
  by (cases target) (auto simp: moving_target_def active_shipment_states_def split: option.splits)

lemma evaluate_stalled_proposes:
  "gr_decision (evaluate_stalled_tracking mhash f) = Some GD_PROPOSE_TICKET \<longleftrightarrow>
     stalled_proposable mhash f"
  unfolding stalled_proposable_def moving_target_iff no_recovery_window_iff
    policy_admits_iff [where rs = "[named ''order_context'' (sl_order_context f),
       named ''timeline'' (sl_timeline f), named ''policy'' (sl_policy f)]"]
  apply (simp add: evaluate_stalled_tracking_def gate_simps Let_def named_def policy_facts_of_def
      bind_eq_Some_conv filter_empty_conv not_le)
  by blast

section \<open>Every result is one outcome\<close>

text \<open>A result carries exactly one of a decision and a revised issue, and asks for a retry only while
  there is a refresh or a retry left to use.\<close>

definition sound_outcome :: "bool \<Rightarrow> bool \<Rightarrow> gate_result \<Rightarrow> bool" where
  "sound_outcome refreshed exhausted r \<longleftrightarrow>
     check_gate_result r = Inr r \<and>
     (gr_decision r = Some GD_RETRY_LATER \<longrightarrow> \<not> refreshed \<or> \<not> exhausted)"

lemma sound_gate_result_of [intro!]:
  "reason \<noteq> [] \<Longrightarrow> d \<noteq> GD_RETRY_LATER \<Longrightarrow> sound_outcome a b (gate_result_of d reason rs)"
  by (simp add: sound_outcome_def check_gate_result_def)

lemma sound_refresh [intro!]:
  "reason \<noteq> [] \<Longrightarrow>
     sound_outcome (cf_directed_refresh_completed f) b (gate_result_of (refresh_or_support f) reason rs)"
  by (simp add: sound_outcome_def check_gate_result_def refresh_or_support_def)

lemma sound_revision [intro!]:
  "reason \<noteq> [] \<Longrightarrow>
     sound_outcome a b \<lparr>gr_decision = None, gr_reason_code = reason,
       gr_revised_issue_type = Some i, gr_critical_result_hashes = hs\<rparr>"
  by (simp add: sound_outcome_def check_gate_result_def)

lemma sound_past_common:
  "sound_outcome (cf_directed_refresh_completed f) b k \<Longrightarrow>
     sound_outcome (cf_directed_refresh_completed f) b (opt_or (common_guard f) k)"
  by (rule opt_or_intro)
    (auto simp: sound_outcome_def check_gate_result_def dest: common_guard_Some)

lemma sound_past_unavailable:
  "sound_outcome a b k \<Longrightarrow> sound_outcome a b (opt_or (unavailable_result rs b) k)"
  by (rule opt_or_intro)
    (auto simp: sound_outcome_def check_gate_result_def dest: unavailable_result_Some)

lemma sound_past_policy:
  "sound_outcome a b k \<Longrightarrow> sound_outcome a b (opt_or (policy_guard mhash p order issue rs) k)"
  by (rule opt_or_intro)
    (auto simp: sound_outcome_def check_gate_result_def dest: policy_guard_Some)

lemma sound_past_carrier:
  "sound_outcome a b k \<Longrightarrow>
     sound_outcome a b (opt_or (case v of None \<Rightarrow> None | Some z \<Rightarrow> unavailable_result (rs z) b) k)"
  by (cases v) (simp_all add: sound_past_unavailable)

lemma sound_if: "sound_outcome a b x \<Longrightarrow> sound_outcome a b y \<Longrightarrow> sound_outcome a b (if c then x else y)"
  by simp

lemma sound_case:
  "sound_outcome a b x \<Longrightarrow> (\<And>z. sound_outcome a b (k z)) \<Longrightarrow>
     sound_outcome a b (case v of None \<Rightarrow> x | Some z \<Rightarrow> k z)"
  by (cases v) simp_all

lemmas sound_rules = sound_past_common sound_past_unavailable sound_past_policy sound_past_carrier
  sound_if sound_case sound_gate_result_of sound_refresh sound_revision

lemma evaluate_signed_sound:
  "sound_outcome (cf_directed_refresh_completed f) (cf_critical_retry_exhausted f)
     (evaluate_signed_not_received mhash f)"
  unfolding evaluate_signed_not_received_def Let_def by (intro sound_rules) simp_all

lemma evaluate_stalled_sound:
  "sound_outcome (cf_directed_refresh_completed f) (cf_critical_retry_exhausted f)
     (evaluate_stalled_tracking mhash f)"
  unfolding evaluate_stalled_tracking_def Let_def by (intro sound_rules) simp_all

section \<open>What a proposal binds\<close>

text \<open>If the result is a proposal, its hash table is \<open>hs\<close>.\<close>

definition proposal_binds :: "(string \<times> string) list \<Rightarrow> gate_result \<Rightarrow> bool" where
  "proposal_binds hs r \<longleftrightarrow>
     (gr_decision r = Some GD_PROPOSE_TICKET \<longrightarrow> gr_critical_result_hashes r = hs)"

lemma binds_other:
  "d \<noteq> GD_PROPOSE_TICKET \<Longrightarrow> proposal_binds hs (gate_result_of d reason rs)"
  "proposal_binds hs \<lparr>gr_decision = None, gr_reason_code = reason,
       gr_revised_issue_type = i, gr_critical_result_hashes = hs'\<rparr>"
  by (simp_all add: proposal_binds_def)

lemma binds_proposal:
  "map (\<lambda>(k, r). (k, tr_result_hash r)) rs = hs \<Longrightarrow> proposal_binds hs (gate_result_of d reason rs)"
  by (simp add: proposal_binds_def)

lemma binds_past_common:
  "proposal_binds hs k \<Longrightarrow> proposal_binds hs (opt_or (common_guard f) k)"
  by (rule opt_or_intro) (auto simp: proposal_binds_def dest: common_guard_Some(3))

lemma binds_past_unavailable:
  "proposal_binds hs k \<Longrightarrow> proposal_binds hs (opt_or (unavailable_result rs b) k)"
  by (rule opt_or_intro) (auto simp: proposal_binds_def dest: unavailable_result_Some(3))

lemma binds_past_policy:
  "proposal_binds hs k \<Longrightarrow> proposal_binds hs (opt_or (policy_guard mhash p order issue rs) k)"
  by (rule opt_or_intro) (auto simp: proposal_binds_def dest: policy_guard_Some(3))

lemma binds_past_carrier:
  "proposal_binds hs k \<Longrightarrow>
     proposal_binds hs (opt_or (case v of None \<Rightarrow> None | Some z \<Rightarrow> unavailable_result (rs z) b) k)"
  by (cases v) (simp_all add: binds_past_unavailable)

lemma binds_if:
  "(c \<Longrightarrow> proposal_binds hs x) \<Longrightarrow> (\<not> c \<Longrightarrow> proposal_binds hs y) \<Longrightarrow> proposal_binds hs (if c then x else y)"
  by simp

lemma binds_case:
  "(v = None \<Longrightarrow> proposal_binds hs x) \<Longrightarrow> (\<And>z. v = Some z \<Longrightarrow> proposal_binds hs (k z)) \<Longrightarrow>
     proposal_binds hs (case v of None \<Rightarrow> x | Some z \<Rightarrow> k z)"
  by (cases v) simp_all

lemmas binds_rules = binds_past_common binds_past_unavailable binds_past_policy
  binds_past_carrier binds_if binds_case binds_other(2)

definition digest_of :: "string \<Rightarrow> 'p tool_result \<Rightarrow> string \<times> string" where
  "digest_of key r = (key, tr_result_hash r)"

lemma evaluate_signed_binds:
  "proposal_binds
     [digest_of ''order_context'' (se_order_context f), digest_of ''timeline'' (se_timeline f),
      digest_of ''existing_tickets'' (se_existing_tickets f), digest_of ''policy'' (se_policy f),
      digest_of ''delivery_proof'' (se_delivery_proof f)]
     (evaluate_signed_not_received mhash f)"
  unfolding evaluate_signed_not_received_def Let_def
  by (intro binds_rules) (simp_all add: proposal_binds_def digest_of_def named_def)

lemma evaluate_stalled_binds:
  "proposal_binds
     ([digest_of ''order_context'' (sl_order_context f), digest_of ''timeline'' (sl_timeline f),
       digest_of ''policy'' (sl_policy f), digest_of ''existing_tickets'' (sl_existing_tickets f)] @
      (case sl_carrier_alerts f of None \<Rightarrow> [] | Some r \<Rightarrow> [digest_of ''carrier_alerts'' r]))
     (evaluate_stalled_tracking mhash f)"
  unfolding evaluate_stalled_tracking_def Let_def
  by (intro binds_rules) (auto simp: proposal_binds_def digest_of_def named_def split: option.splits)

section \<open>Properties\<close>

text \<open>A complete example of each table: one package, delivered by a front desk and not found there, and
  one package without an update for five days under a three-day threshold.\<close>

definition sample_mhash :: "policy_facts \<Rightarrow> string" where
  "sample_mhash _ = sample_digest"

definition sample_read :: "string \<Rightarrow> 'p \<Rightarrow> 'p tool_result" where
  "sample_read source payload =
     \<lparr>tr_execution_status = ES_SUCCESS, tr_evidence_availability = EA_PRESENT,
      tr_source_type = source, tr_source_query_id = ''qry'', tr_source_record_ids = [''rec''],
      tr_observed_at = Aware 100, tr_error_code = None, tr_retryable = False,
      tr_result_hash = sample_digest, tr_untrusted_fields = [], tr_retrieval_status = None,
      tr_policy_resolution_status = None, tr_payload = Some payload\<rparr>"

definition sample_shipment :: "string \<Rightarrow> shipment_summary" where
  "sample_shipment status =
     \<lparr>ss_shipment_id = ''S1'', ss_package_sequence = 1, ss_package_count = 1,
      ss_tracking_number = ''T1'', ss_shipment_status = status, ss_carrier_code = ''C'',
      ss_shipped_at = None, ss_delivered_at = None, ss_last_update_at = None\<rparr>"

definition sample_order :: "order_status \<Rightarrow> string \<Rightarrow> order_context" where
  "sample_order status shipment_status =
     \<lparr>oc_order_id = ''O1'', oc_order_status = status, oc_tracking_number = Some ''T1'',
      oc_service_level = ''standard'', oc_region = ''domestic'', oc_shipped_at = None,
      oc_delivered_at = None, oc_shipments = [sample_shipment shipment_status]\<rparr>"

definition sample_timeline :: "string \<Rightarrow> logistics_timeline" where
  "sample_timeline status =
    (let e = \<lparr>te_event_id = ''E1'', te_shipment_id = Some ''S1'', te_status = status,
              te_occurred_at = Aware 50, te_location = None, te_note = None\<rparr>
     in \<lparr>lt_order_id = ''O1'', lt_events = [e], lt_last_update_at = Some (Aware 50),
         lt_hours_since_last_update = Some 120,
         lt_shipment_timelines =
           [\<lparr>st_shipment_id = ''S1'', st_package_sequence = 1, st_events = [e],
             st_last_update_at = Some (Aware 50), st_hours_since_last_update = Some 120\<rparr>]\<rparr>)"

definition sample_policy :: "issue_type \<Rightarrow> policy_search" where
  "sample_policy issue =
     \<lparr>ps_order_id = ''O1'', ps_issue_type = issue, ps_service_level = ''standard'',
      ps_region = ''domestic'', ps_evaluated_at = Aware 100, ps_retrieval_status = RT_HIT,
      ps_policy_resolution_status = Some PR_APPLICABLE, ps_corpus_version = ''v1'',
      ps_corpus_digest = sample_digest, ps_index_format_version = ''1'',
      ps_index_digest = sample_digest, ps_index_content_digest = sample_digest,
      ps_embedding_model_id = ''m'', ps_embedding_model_revision = ''r'',
      ps_retrieval_mode = ''vector'', ps_candidate_clause_ids = [''c1''], ps_candidate_count = 1,
      ps_selected_rank = Some 1, ps_selected_similarity = Some 1, ps_top_1_score = Some 1,
      ps_retrieval_threshold = 0,
      ps_policy_fact_snapshot = Some
        \<lparr>pf_eligible = True,
         pf_stalled_after_hours = (if issue = STALLED_TRACKING then Some 72 else None),
         pf_required_evidence_codes = required_codes issue, pf_effective_from = Aware 0,
         pf_effective_to = None, pf_service_level = ''standard'', pf_region = ''domestic'',
         pf_policy_version = ''p1'', pf_clause_id = ''c1'', pf_source_hash = sample_digest,
         pf_issue_type = issue\<rparr>,
      ps_policy_fact_snapshot_hash = Some sample_digest,
      ps_citation = Some
        \<lparr>vc_document_id = ''d'', vc_document_title = [116], vc_policy_version = ''p1'',
         vc_clause_id = ''c1'', vc_source_hash = sample_digest, vc_display_summary = [],
         vc_excerpt = [], vc_excerpt_hash = sample_digest\<rparr>,
      ps_retrieval_latency_ms = 0, ps_resolver_latency_ms = 0\<rparr>"

definition sample_tickets :: "issue_type \<Rightarrow> existing_tickets" where
  "sample_tickets issue =
     \<lparr>et_order_id = ''O1'', et_issue_type = issue, et_active_tickets = [],
      et_existing_investigations = []\<rparr>"

definition sample_signed :: signed_evidence where
  "sample_signed =
     \<lparr>cf_authorization_valid = True, cf_budget_exceeded = False,
      cf_evidence_scope_matches_case = True, cf_requested_action_supported = True,
      cf_structural_conflict = False, cf_directed_refresh_completed = False,
      cf_critical_retry_exhausted = False, cf_target_shipment_id = Some ''S1'',
      se_order_context = sample_read ''order'' (sample_order OS_DELIVERED ''delivered''),
      se_timeline = sample_read ''timeline'' (sample_timeline ''delivered''),
      se_delivery_proof = sample_read ''pod''
        \<lparr>dp_order_id = ''O1'', dp_shipment_id = Some ''S1'', dp_pod_status = DP_FOUND,
         dp_recipient_type = Some ''front_desk'', dp_signed_at = Some (Aware 60), dp_note = None\<rparr>,
      se_existing_tickets = sample_read ''tickets'' (sample_tickets SIGNED_NOT_RECEIVED),
      se_policy = sample_read ''policy'' (sample_policy SIGNED_NOT_RECEIVED),
      se_customer_still_reports_missing = True, se_reception_locations_checked = True,
      se_delivery_location_conflict = False\<rparr>"

definition sample_stalled :: stalled_evidence where
  "sample_stalled =
     \<lparr>cf_authorization_valid = True, cf_budget_exceeded = False,
      cf_evidence_scope_matches_case = True, cf_requested_action_supported = True,
      cf_structural_conflict = False, cf_directed_refresh_completed = False,
      cf_critical_retry_exhausted = False, cf_target_shipment_id = Some ''S1'',
      sl_order_context = sample_read ''order'' (sample_order OS_SHIPPED ''in_transit''),
      sl_timeline = sample_read ''timeline'' (sample_timeline ''in_transit''),
      sl_existing_tickets = sample_read ''tickets'' (sample_tickets STALLED_TRACKING),
      sl_policy = sample_read ''policy'' (sample_policy STALLED_TRACKING),
      sl_carrier_alerts = None\<rparr>"

lemmas sample_defs = sample_mhash_def sample_read_def sample_shipment_def sample_order_def
  sample_timeline_def sample_policy_def sample_tickets_def

lemma sample_signed_proposable: "signed_proposable sample_mhash sample_signed"
  unfolding signed_proposable_def sample_signed_def
  by (simp add: sample_defs gate_open_def usable_def active_ticket_def clarification_due_def
      delivered_target_def target_shipment_def target_timeline_def policy_admits_def
      verified_for_gate_def Let_def)

lemma sample_stalled_proposable: "stalled_proposable sample_mhash sample_stalled"
  unfolding stalled_proposable_def sample_stalled_def
  by (simp add: sample_defs gate_open_def usable_def active_ticket_def moving_target_def
      no_recovery_window_def target_shipment_def target_timeline_def policy_admits_def
      verified_for_gate_def Let_def has_structural_timeline_conflict_def active_shipment_states_def)

text \<open>C13. The signed-but-missing table proposes a ticket exactly when the gate is open, all five reads
  succeeded, no ticket or investigation is active, the customer still misses the parcel, no delivery
  location conflicts, the reception places have been checked where the proof names one, the targeted
  parcel is delivered and its timeline has events, and a verified, effective and eligible policy
  applies.\<close>

theorem signed_ticket_proposed_iff:
  "evaluate_evidence_gate mhash SIGNED_NOT_RECEIVED (SignedFacts f) =
     Inr (evaluate_signed_not_received mhash f) \<and>
   (gr_decision (evaluate_signed_not_received mhash f) = Some GD_PROPOSE_TICKET \<longleftrightarrow>
     signed_proposable mhash f)"
  by (simp add: evaluate_signed_proposes)

text \<open>C14. The stalled-tracking table proposes a ticket exactly when the gate is open, the order, timeline,
  policy and ticket reads and any carrier read succeeded, no ticket, investigation or carrier recovery
  window is active, the targeted parcel is still moving without contradiction, and the hours since its
  last update exceed (strictly) the threshold of a verified, effective and eligible policy.\<close>

theorem stalled_ticket_proposed_iff:
  "evaluate_evidence_gate mhash STALLED_TRACKING (StalledFacts f) =
     Inr (evaluate_stalled_tracking mhash f) \<and>
   (gr_decision (evaluate_stalled_tracking mhash f) = Some GD_PROPOSE_TICKET \<longleftrightarrow>
     stalled_proposable mhash f)"
  by (simp add: evaluate_stalled_proposes)

text \<open>Whether the one directed refresh, and the one retry of a critical read, have been used.\<close>

fun refresh_used :: "gate_facts \<Rightarrow> bool" where
  "refresh_used (SignedFacts f) = cf_directed_refresh_completed f"
| "refresh_used (StalledFacts f) = cf_directed_refresh_completed f"

fun retry_used :: "gate_facts \<Rightarrow> bool" where
  "retry_used (SignedFacts f) = cf_critical_retry_exhausted f"
| "retry_used (StalledFacts f) = cf_critical_retry_exhausted f"

text \<open>C22. Whatever the facts, a gate result passes its own validation (a reason, and exactly one of a
  decision and a revised issue), and it asks to retry later only while the directed refresh or the
  critical retry is still unused, so retries cannot go on for ever.\<close>

theorem gate_outcome_is_sound:
  assumes "evaluate_evidence_gate mhash issue facts = Inr r"
  shows "check_gate_result r = Inr r \<and> (gr_decision r = None \<longleftrightarrow> gr_revised_issue_type r \<noteq> None) \<and>
    (gr_decision r = Some GD_RETRY_LATER \<longrightarrow> \<not> refresh_used facts \<or> \<not> retry_used facts)"
proof -
  have "sound_outcome (refresh_used facts) (retry_used facts) r"
    using assms evaluate_signed_sound evaluate_stalled_sound
    by (cases "(mhash, issue, facts)" rule: evaluate_evidence_gate.cases) auto
  then show ?thesis by (auto simp: sound_outcome_def check_gate_result_def split: if_splits)
qed

theorem gate_outcome_is_sound_witness:
  "check_gate_result (evaluate_stalled_tracking sample_mhash sample_stalled) =
     Inr (evaluate_stalled_tracking sample_mhash sample_stalled)"
  using gate_outcome_is_sound [of sample_mhash STALLED_TRACKING "StalledFacts sample_stalled"
      "evaluate_stalled_tracking sample_mhash sample_stalled"] by simp

definition critical_digests :: "gate_facts \<Rightarrow> (string \<times> string) list" where
  "critical_digests facts =
    (case facts of
       SignedFacts f \<Rightarrow>
         [digest_of ''order_context'' (se_order_context f), digest_of ''timeline'' (se_timeline f),
          digest_of ''existing_tickets'' (se_existing_tickets f), digest_of ''policy'' (se_policy f),
          digest_of ''delivery_proof'' (se_delivery_proof f)]
     | StalledFacts f \<Rightarrow>
         [digest_of ''order_context'' (sl_order_context f), digest_of ''timeline'' (sl_timeline f),
          digest_of ''policy'' (sl_policy f), digest_of ''existing_tickets'' (sl_existing_tickets f)] @
         (case sl_carrier_alerts f of None \<Rightarrow> [] | Some r \<Rightarrow> [digest_of ''carrier_alerts'' r]))"

text \<open>A proposal of either table binds the digest of every critical read, in the order in which the
  gate consulted them: a later read with another digest cannot stand behind the same proposal.\<close>

theorem proposal_binds_critical_digests:
  assumes "evaluate_evidence_gate mhash issue facts = Inr r"
    and "gr_decision r = Some GD_PROPOSE_TICKET"
  shows "gr_critical_result_hashes r = critical_digests facts"
  using assms evaluate_signed_binds evaluate_stalled_binds
  by (cases "(mhash, issue, facts)" rule: evaluate_evidence_gate.cases)
    (auto simp: critical_digests_def proposal_binds_def)

theorem proposal_binds_critical_digests_witness:
  "gr_critical_result_hashes (evaluate_signed_not_received sample_mhash sample_signed) =
     [(''order_context'', sample_digest), (''timeline'', sample_digest),
      (''existing_tickets'', sample_digest), (''policy'', sample_digest),
      (''delivery_proof'', sample_digest)]"
  using proposal_binds_critical_digests [of sample_mhash SIGNED_NOT_RECEIVED "SignedFacts sample_signed"
      "evaluate_signed_not_received sample_mhash sample_signed"] sample_signed_proposable
  by (simp add: evaluate_signed_proposes critical_digests_def digest_of_def sample_signed_def
      sample_read_def)

end
