(* ===== verification/Dispositions.thy ===== *)
theory Dispositions
  imports EvidenceGate
begin

text \<open>
  The customer disposition of \<open>domain/dispositions.py\<close>: a precedence table over the string values of
  the persisted lifecycle states.  \<open>_value\<close> turns an enumeration member into its string, so the model
  takes the strings; the caller applies the \<open>_value\<close> function of the member's type.

  The lemmas list the reason codes each gate decision can carry, and from them the disposition of every
  result of the evidence gate.
\<close>

section \<open>The precedence table\<close>

definition clarify_reasons :: "string list" where
  "clarify_reasons =
     [''ORDER_ID_REQUIRED'', ''MULTIPLE_AUTHORIZED_ORDERS_REQUIRE_SELECTION'',
      ''ISSUE_REQUIRES_CLARIFICATION'', ''UNSUPPORTED_LOGISTICS_REQUIRES_CLARIFICATION'']"

definition wait_reasons :: "string list" where
  "wait_reasons =
     [''ACTIVE_LOGISTICS_TICKET_EXISTS'', ''ACTIVE_LOGISTICS_INVESTIGATION_EXISTS'',
      ''ACTIVE_CARRIER_RECOVERY_WINDOW'', ''WITHIN_TRACKING_SLA'', ''CRITICAL_EVIDENCE_UNAVAILABLE'',
      ''DELIVERED_WITHOUT_TIMELINE_EVIDENCE'', ''STRUCTURAL_CONFLICT_REQUIRES_REFRESH'']"

definition project_customer_disposition ::
  "string option \<Rightarrow> string option \<Rightarrow> string option \<Rightarrow> string option \<Rightarrow> string option \<Rightarrow> string option \<Rightarrow>
   customer_disposition" where
  "project_customer_disposition decision state outcome proposal action reason_code =
    (let reason = str_or reason_code [] in
     if action = Some (action_state_value AS_UNCERTAIN) \<or>
        outcome = Some (case_outcome_value CO_UNCERTAIN) \<or>
        outcome = Some (case_outcome_value CO_HUMAN_SUPPORT_REQUIRED) \<or>
        outcome = Some (case_outcome_value CO_FAILED) \<or>
        decision = Some (gate_decision_value GD_REQUIRE_HUMAN_SUPPORT) \<or>
        contains_any reason [''CONFLICT'', ''INTEGRITY'', ''HUMAN'', ''EXHAUSTED'']
       then CD_ESCALATE
     else if action \<in> Some ` action_state_value ` {AS_READY, AS_SUBMITTED, AS_SUCCEEDED} \<or>
        outcome = Some (case_outcome_value CO_TICKET_CREATED) \<or>
        proposal \<in> Some ` proposal_state_value ` {PS_PENDING_CONFIRMATION, PS_CONFIRMED} \<or>
        state = Some (case_state_value CS_AWAITING_CUSTOMER_CONFIRMATION) \<or>
        decision = Some (gate_decision_value GD_PROPOSE_TICKET)
       then CD_INVESTIGATE
     else if decision = Some (gate_decision_value GD_REQUEST_BUSINESS_CLARIFICATION) \<or>
        state = Some (case_state_value CS_AWAITING_CUSTOMER_INPUT) \<or>
        contains_any reason [''CLARIFICATION'', ''QUESTION''] \<or>
        reason \<in> set clarify_reasons
       then CD_CLARIFY
     else if decision = Some (gate_decision_value GD_RETRY_LATER) \<or>
        state = Some (case_state_value CS_AWAITING_RETRY) \<or>
        reason \<in> set wait_reasons
       then CD_WAIT
     else CD_ANSWER)"

text \<open>The disposition of a gate result, before any lifecycle state is persisted for it.\<close>

definition gate_disposition :: "gate_result \<Rightarrow> customer_disposition" where
  "gate_disposition r =
     project_customer_disposition (map_option gate_decision_value (gr_decision r))
       None None None None (Some (gr_reason_code r))"

section \<open>Reason codes of the gate\<close>

fun reasons_of :: "gate_decision option \<Rightarrow> string list" where
  "reasons_of (Some GD_PROPOSE_TICKET) =
     [''SIGNED_NOT_RECEIVED_EVIDENCE_COMPLETE'', ''STALLED_TRACKING_EVIDENCE_COMPLETE'']"
| "reasons_of (Some GD_REQUEST_BUSINESS_CLARIFICATION) = [''CHECK_RECEPTION_LOCATION'']"
| "reasons_of (Some GD_RETRY_LATER) =
     [''STRUCTURAL_CONFLICT_REQUIRES_REFRESH'', ''CRITICAL_EVIDENCE_UNAVAILABLE'',
      ''DELIVERED_WITHOUT_TIMELINE_EVIDENCE'', ''TARGET_TIMELINE_ABSENT'',
      ''TRACKING_TIMELINE_ABSENT'']"
| "reasons_of (Some GD_COMPLETE_NO_ACTION) =
     [''POLICY_NOT_APPLICABLE'', ''ACTIVE_LOGISTICS_TICKET_EXISTS'', ''POLICY_NOT_ELIGIBLE'',
      ''CUSTOMER_REPORT_RESOLVED'', ''ORDER_NOT_IN_TRANSIT'', ''SHIPMENT_NOT_IN_TRANSIT'',
      ''WITHIN_TRACKING_SLA'', ''ACTIVE_CARRIER_RECOVERY_WINDOW'']"
| "reasons_of (Some GD_REQUIRE_HUMAN_SUPPORT) = []"
| "reasons_of None =
     [''REPORTED_ISSUE_DOES_NOT_MATCH_ORDER_STATE'',
      ''REPORTED_ISSUE_DOES_NOT_MATCH_SHIPMENT_STATE'']"

text \<open>A result whose reason is one of its decision's; human support may carry any.\<close>

definition coded :: "gate_result \<Rightarrow> bool" where
  "coded r \<longleftrightarrow> gr_decision r = Some GD_REQUIRE_HUMAN_SUPPORT \<or>
     gr_reason_code r \<in> set (reasons_of (gr_decision r))"

lemma coded_result: "d = GD_REQUIRE_HUMAN_SUPPORT \<or> reason \<in> set (reasons_of (Some d)) \<Longrightarrow>
    coded (gate_result_of d reason rs)"
  by (auto simp: coded_def)

lemma coded_refresh:
  "reason \<in> set (reasons_of (Some GD_RETRY_LATER)) \<Longrightarrow>
     coded (gate_result_of (refresh_or_support f) reason rs)"
  by (auto simp: coded_def refresh_or_support_def)

lemma coded_revision:
  "reason \<in> set (reasons_of None) \<Longrightarrow>
     coded \<lparr>gr_decision = None, gr_reason_code = reason, gr_revised_issue_type = i,
       gr_critical_result_hashes = hs\<rparr>"
  by (simp add: coded_def)

lemma coded_past_common: "coded k \<Longrightarrow> coded (opt_or (common_guard f) k)"
  by (rule opt_or_intro) (auto simp: common_guard_def coded_def split: if_splits)

lemma coded_past_unavailable: "coded k \<Longrightarrow> coded (opt_or (unavailable_result rs b) k)"
  by (rule opt_or_intro) (auto simp: unavailable_result_def Let_def coded_def split: if_splits)

lemma coded_past_policy: "coded k \<Longrightarrow> coded (opt_or (policy_guard mhash p order issue rs) k)"
  by (rule opt_or_intro)
    (auto simp: policy_guard_def coded_def split: option.splits bool.splits if_splits)

lemma coded_past_carrier:
  "coded k \<Longrightarrow> coded (opt_or (case v of None \<Rightarrow> None | Some z \<Rightarrow> unavailable_result (rs z) b) k)"
  by (cases v) (simp_all add: coded_past_unavailable)

lemma coded_if: "coded x \<Longrightarrow> coded y \<Longrightarrow> coded (if c then x else y)"
  by simp

lemma coded_case:
  "coded x \<Longrightarrow> (\<And>z. coded (k z)) \<Longrightarrow> coded (case v of None \<Rightarrow> x | Some z \<Rightarrow> k z)"
  by (cases v) simp_all

lemmas coded_rules = coded_past_common coded_past_unavailable coded_past_policy coded_past_carrier
  coded_if coded_case coded_refresh coded_revision coded_result

lemma evaluate_signed_coded: "coded (evaluate_signed_not_received mhash f)"
  unfolding evaluate_signed_not_received_def Let_def by (intro coded_rules) simp_all

lemma evaluate_stalled_coded: "coded (evaluate_stalled_tracking mhash f)"
  unfolding evaluate_stalled_tracking_def Let_def by (intro coded_rules) simp_all

lemma evaluate_gate_coded: "evaluate_evidence_gate mhash issue facts = Inr r \<Longrightarrow> coded r"
  using evaluate_signed_coded evaluate_stalled_coded
  by (cases "(mhash, issue, facts)" rule: evaluate_evidence_gate.cases) auto

section \<open>Properties\<close>

fun expected_for :: "gate_decision option \<Rightarrow> string \<Rightarrow> customer_disposition" where
  "expected_for (Some GD_PROPOSE_TICKET) reason = CD_INVESTIGATE"
| "expected_for (Some GD_REQUIRE_HUMAN_SUPPORT) reason = CD_ESCALATE"
| "expected_for (Some GD_REQUEST_BUSINESS_CLARIFICATION) reason = CD_CLARIFY"
| "expected_for (Some GD_RETRY_LATER) reason =
     (if reason = ''STRUCTURAL_CONFLICT_REQUIRES_REFRESH'' then CD_ESCALATE else CD_WAIT)"
| "expected_for (Some GD_COMPLETE_NO_ACTION) reason =
     (if reason \<in> {''ACTIVE_LOGISTICS_TICKET_EXISTS'', ''WITHIN_TRACKING_SLA'',
          ''ACTIVE_CARRIER_RECOVERY_WINDOW''} then CD_WAIT else CD_ANSWER)"
| "expected_for None reason = CD_ANSWER"

definition expected_disposition :: "gate_result \<Rightarrow> customer_disposition" where
  "expected_disposition r = expected_for (gr_decision r) (gr_reason_code r)"

text \<open>The table is checked by evaluation on every decision and every reason it can carry.\<close>

lemma table_agrees:
  "list_all (\<lambda>d. list_all (\<lambda>reason.
       project_customer_disposition (map_option gate_decision_value d) None None None None (Some reason)
         = expected_for d reason) (reasons_of d))
     [None, Some GD_PROPOSE_TICKET, Some GD_REQUEST_BUSINESS_CLARIFICATION, Some GD_RETRY_LATER,
      Some GD_COMPLETE_NO_ACTION]"
  by code_simp

lemma coded_disposition: "coded r \<Longrightarrow> gate_disposition r = expected_disposition r"
proof (cases "gr_decision r = Some GD_REQUIRE_HUMAN_SUPPORT")
  case True
  then show ?thesis
    by (simp add: gate_disposition_def expected_disposition_def project_customer_disposition_def)
next
  case False
  assume "coded r"
  with False have reason: "gr_reason_code r \<in> set (reasons_of (gr_decision r))"
    by (simp add: coded_def)
  have "gr_decision r \<in> {None, Some GD_PROPOSE_TICKET, Some GD_REQUEST_BUSINESS_CLARIFICATION,
      Some GD_RETRY_LATER, Some GD_COMPLETE_NO_ACTION}"
    using False by (cases "gr_decision r", simp, cases "the (gr_decision r)") auto
  with reason table_agrees show ?thesis
    unfolding gate_disposition_def expected_disposition_def list_all_iff by auto
qed

lemma stalled_guard_answers:
  "common_guard f = Some r \<Longrightarrow> evaluate_stalled_tracking mhash f = r"
  by (simp only: evaluate_stalled_tracking_def Let_def opt_or_simps)

lemma sample_conflict:
  "evaluate_stalled_tracking sample_mhash (sample_stalled\<lparr>cf_structural_conflict := True\<rparr>) =
     gate_result_of GD_RETRY_LATER ''STRUCTURAL_CONFLICT_REQUIRES_REFRESH'' []"
  by (rule stalled_guard_answers) (simp add: common_guard_def sample_stalled_def)

text \<open>What the customer is shown for a gate result is fixed by its decision: a proposal is an
  investigation, a clarification a question, human support an escalation, a retry a wait, and a
  completed Case a wait exactly while a ticket, a carrier window or the tracking SLA is running.  The
  exception is the retry for a structural conflict, which is escalated: the substring rule for
  CONFLICT comes before the wait table that lists this very reason.\<close>

theorem gate_disposition_table:
  assumes "evaluate_evidence_gate mhash issue facts = Inr r"
  shows "gate_disposition r = expected_disposition r"
  using evaluate_gate_coded [OF assms] by (rule coded_disposition)

theorem gate_disposition_table_witness:
  "gate_disposition (evaluate_stalled_tracking sample_mhash
     (sample_stalled\<lparr>cf_structural_conflict := True\<rparr>)) = CD_ESCALATE \<and>
   ''STRUCTURAL_CONFLICT_REQUIRES_REFRESH'' \<in> set wait_reasons"
  using gate_disposition_table [of sample_mhash STALLED_TRACKING
      "StalledFacts (sample_stalled\<lparr>cf_structural_conflict := True\<rparr>)"
      "evaluate_stalled_tracking sample_mhash (sample_stalled\<lparr>cf_structural_conflict := True\<rparr>)"]
  by (simp add: sample_conflict expected_disposition_def wait_reasons_def)

end
