(* ===== verification/CaseFacts.thy ===== *)
theory CaseFacts
  imports ToolContracts "HOL-Library.List_Lexorder" "HOL-Library.Char_ord" "HOL-Library.Multiset"
begin

text \<open>
  Case-scoped clarification facts, \<open>domain/case_facts.py\<close>: the deterministic interpretation of a
  customer's reply, the append-only assertions, and the snapshot that is rebuilt from them.

  \<^item> The cue phrases are lists of Unicode code points; \<open>casefold\<close> of \<open>str\<close> is a parameter.  The
    \<open>source_span\<close> of a candidate is \<open>(cd_span_start, cd_span_end)\<close>.
  \<^item> \<open>facts\<close> and \<open>question_state\<close> hold exactly one entry per fact code, so they are functions.
  \<^item> The loop of \<open>rebuild_case_fact_snapshot\<close> over the ordered assertions is \<open>foldE scan_assertion\<close>.

  The lemmas give the closed form of a known fact and show that the rebuild does not depend on the
  order in which rows are read.
\<close>

section \<open>Codes and contracts\<close>

datatype fact_code = FC_STILL_MISSING | FC_LOCATION_CHECKED

fun fact_code_value :: "fact_code \<Rightarrow> string" where
  "fact_code_value FC_STILL_MISSING = ''customer_still_reports_missing''"
| "fact_code_value FC_LOCATION_CHECKED = ''reported_delivery_location_checked''"

definition all_fact_codes :: "fact_code list" where
  "all_fact_codes = [FC_STILL_MISSING, FC_LOCATION_CHECKED]"

datatype fact_value = FV_TRUE | FV_FALSE | FV_UNKNOWN

fun fact_value_value :: "fact_value \<Rightarrow> string" where
  "fact_value_value FV_TRUE = ''true''"
| "fact_value_value FV_FALSE = ''false''"
| "fact_value_value FV_UNKNOWN = ''unknown''"

datatype relation_hint = RH_NEW | RH_REPEAT | RH_CORRECTION | RH_WITHDRAWAL

fun relation_hint_value :: "relation_hint \<Rightarrow> string" where
  "relation_hint_value RH_NEW = ''new''"
| "relation_hint_value RH_REPEAT = ''repeat''"
| "relation_hint_value RH_CORRECTION = ''correction''"
| "relation_hint_value RH_WITHDRAWAL = ''withdrawal''"

datatype fact_status = FS_KNOWN_TRUE | FS_KNOWN_FALSE | FS_UNKNOWN | FS_CONFLICT

fun fact_status_value :: "fact_status \<Rightarrow> string" where
  "fact_status_value FS_KNOWN_TRUE = ''known_true''"
| "fact_status_value FS_KNOWN_FALSE = ''known_false''"
| "fact_status_value FS_UNKNOWN = ''unknown''"
| "fact_status_value FS_CONFLICT = ''conflict''"

datatype question_status =
    QS_INAPPLICABLE
  | QS_UNANSWERED
  | QS_ANSWERED
  | QS_UNKNOWN_EXHAUSTED
  | QS_CONFLICT_REQUIRES_CLARIFICATION
  | QS_CONFLICT_EXHAUSTED

fun question_status_value :: "question_status \<Rightarrow> string" where
  "question_status_value QS_INAPPLICABLE = ''inapplicable''"
| "question_status_value QS_UNANSWERED = ''unanswered''"
| "question_status_value QS_ANSWERED = ''answered''"
| "question_status_value QS_UNKNOWN_EXHAUSTED = ''unknown_exhausted''"
| "question_status_value QS_CONFLICT_REQUIRES_CLARIFICATION = ''conflict_requires_clarification''"
| "question_status_value QS_CONFLICT_EXHAUSTED = ''conflict_exhausted''"

definition targeted_relation :: "relation_hint \<Rightarrow> bool" where
  "targeted_relation r \<longleftrightarrow> r \<in> {RH_CORRECTION, RH_WITHDRAWAL}"

record fact_candidate =
  cd_fact_code :: fact_code
  cd_value :: fact_value
  cd_relation_hint :: relation_hint
  cd_target_assertion_id :: "string option"
  cd_span_start :: int
  cd_span_end :: int

definition check_fact_candidate :: "fact_candidate \<Rightarrow> fact_candidate result" where
  "check_fact_candidate c =
    (if cd_span_start c < 0 then Inl (ValueError ''start'')
     else if cd_span_end c \<le> 0 then Inl (ValueError ''end'')
     else if cd_span_end c \<le> cd_span_start c
       then Inl (ValueError ''source span end must be greater than start'')
     else if \<not> opt_in (\<lambda>t. t \<noteq> [] \<and> length t \<le> 64) (cd_target_assertion_id c)
       then Inl (ValueError ''target_assertion_id'')
     else if targeted_relation (cd_relation_hint c) \<noteq> (cd_target_assertion_id c \<noteq> None)
       then Inl (ValueError ''only correction/withdrawal candidates require a target'')
     else if cd_relation_hint c = RH_WITHDRAWAL \<and> cd_value c \<noteq> FV_UNKNOWN
       then Inl (ValueError ''withdrawal must produce unknown'')
     else Inr c)"

record proof_context =
  pc_tool_call_id :: string
  pc_result_hash :: string
  pc_recipient_category :: string

definition check_proof_context :: "proof_context \<Rightarrow> proof_context result" where
  "check_proof_context p =
    (if pc_tool_call_id p = [] \<or> length (pc_tool_call_id p) > 64
       then Inl (ValueError ''tool_call_id'')
     else if \<not> is_sha256_hex (pc_result_hash p) then Inl (ValueError ''result_hash'')
     else if pc_recipient_category p = [] \<or> length (pc_recipient_category p) > 64
       then Inl (ValueError ''recipient_category'')
     else Inr p)"

record fact_assertion =
  fa_assertion_id :: string
  fa_case_id :: string
  fa_fact_code :: fact_code
  fa_value :: fact_value
  fa_source_message_id :: string
  fa_source_message_hash :: string
  fa_span_start :: int
  fa_span_end :: int
  fa_relation :: relation_hint
  fa_supersedes :: "string option"
  fa_extractor_kind :: string
  fa_extractor_version :: string
  fa_context_tool_call_id :: "string option"
  fa_context_result_hash :: "string option"
  fa_sequence :: int
  fa_recorded_at :: datetime

definition check_fact_assertion :: "fact_assertion \<Rightarrow> fact_assertion result" where
  "check_fact_assertion a =
    (if fa_assertion_id a = [] \<or> length (fa_assertion_id a) > 64 then Inl (ValueError ''assertion_id'')
     else if fa_case_id a = [] \<or> length (fa_case_id a) > 64 then Inl (ValueError ''case_id'')
     else if fa_source_message_id a = [] \<or> length (fa_source_message_id a) > 64
       then Inl (ValueError ''source_message_id'')
     else if \<not> is_sha256_hex (fa_source_message_hash a) then Inl (ValueError ''source_message_hash'')
     else if fa_span_start a < 0 then Inl (ValueError ''source_span_start'')
     else if fa_span_end a \<le> 0 then Inl (ValueError ''source_span_end'')
     else if \<not> opt_in (\<lambda>t. length t \<le> 64) (fa_supersedes a)
       then Inl (ValueError ''supersedes_assertion_id'')
     else if fa_extractor_kind a \<notin> {''model_candidate'', ''deterministic''}
       then Inl (ValueError ''extractor_kind'')
     else if fa_extractor_version a = [] \<or> length (fa_extractor_version a) > 128
       then Inl (ValueError ''extractor_version'')
     else if \<not> opt_in (\<lambda>t. length t \<le> 64) (fa_context_tool_call_id a)
       then Inl (ValueError ''context_tool_call_id'')
     else if \<not> opt_in is_sha256_hex (fa_context_result_hash a)
       then Inl (ValueError ''context_result_hash'')
     else if fa_sequence a < 1 then Inl (ValueError ''assertion_sequence'')
     else if fa_span_end a \<le> fa_span_start a
       then Inl (ValueError ''assertion source span is invalid'')
     else if \<not> is_aware (fa_recorded_at a)
       then Inl (ValueError ''recorded_at must be timezone-aware'')
     else if targeted_relation (fa_relation a) \<noteq> (fa_supersedes a \<noteq> None)
       then Inl (ValueError ''supersession identity must match relation'')
     else if (fa_fact_code a = FC_LOCATION_CHECKED) \<noteq>
          (fa_context_tool_call_id a \<noteq> None \<and> fa_context_result_hash a \<noteq> None)
       then Inl (ValueError ''delivery-location facts require exact proof context only'')
     else if fa_relation a = RH_WITHDRAWAL \<and> fa_value a \<noteq> FV_UNKNOWN
       then Inl (ValueError ''withdrawal assertion must be unknown'')
     else Inr a)"

record snapshot_entry =
  fe_status :: fact_status
  fe_active_assertion_ids :: "string list"
  fe_superseded_assertion_ids :: "string list"
  fe_source_message_ids :: "string list"
  fe_context_tool_call_id :: "string option"
  fe_context_result_hash :: "string option"

record merge_decision =
  md_accepted :: bool
  md_reason_code :: string
  md_assertion_id :: "string option"
  md_candidate_batch_hash :: "string option"

record question_state =
  qu_asks :: nat
  qu_status :: question_status

definition check_question_state :: "question_state \<Rightarrow> question_state result" where
  "check_question_state q = (if 2 < qu_asks q then Inl (ValueError ''asks'') else Inr q)"

record fact_snapshot =
  sn_case_id :: string
  sn_revision :: nat
  sn_facts :: "fact_code \<Rightarrow> snapshot_entry"
  sn_question_state :: "fact_code \<Rightarrow> question_state"
  sn_snapshot_hash :: string
  sn_rebuilt_at :: datetime

record fact_question =
  fq_question_id :: string
  fq_case_id :: string
  fq_fact_code :: fact_code
  fq_context_result_hash :: "string option"
  fq_targeted_conflict :: bool
  fq_asked_at :: datetime

section \<open>Interpreting a reply\<close>

definition unknown_cues :: "utext list" where
  "unknown_cues =
    [[19981, 30693, 36947], [19981, 28165, 26970], [19981, 30830, 23450],
     [27809, 27861, 30830, 35748]]"

definition correction_cues :: "utext list" where
  "correction_cues =
    [[26356, 27491], [25913, 19968, 19979], [35828, 38169], [20854, 23454], [19981, 26159]]"

definition withdrawal_cues :: "utext list" where
  "withdrawal_cues =
    [[25764, 22238], [19981, 30830, 23450]]"

definition received_cues :: "utext list" where
  "received_cues =
    [[24050, 25910, 21040], [24050, 32463, 25910, 21040], [25910, 21040, 20102],
     [25214, 21040, 20102]]"

definition missing_cues :: "utext list" where
  "missing_cues =
    [[20173, 28982, 27809, 26377, 25910, 21040], [20173, 26410, 25910, 21040],
     [36824, 27809, 25910, 21040], [27809, 26377, 25910, 21040], [27809, 25910, 21040],
     [26410, 25910, 21040], [27809, 25343, 21040]]"

definition not_checked_cues :: "utext list" where
  "not_checked_cues =
    [[36824, 27809, 26597], [36824, 27809, 26377], [27809, 26377, 26597], [27809, 38382],
     [26410, 30830, 35748], [27809, 21435, 38382]]"

definition checked_cues :: "utext list" where
  "checked_cues =
    [[38382, 36807], [26597, 36807], [30830, 35748, 36807], [21069, 21488, 27809, 26377],
     [38376, 21355, 27809, 26377], [37051, 23621, 27809, 26377], [23478, 20154, 27809, 26377],
     [20195, 25910, 28857, 27809, 26377], [24555, 36882, 26588, 27809, 26377],
     [26588, 37324, 27809, 26377], [27809, 26377, 25105, 30340, 21253, 35065],
     [27809, 25214, 21040, 25105, 30340, 21253, 35065]]"

definition supported_value ::
  "utext \<Rightarrow> fact_code \<Rightarrow> proof_context option \<Rightarrow> fact_value result" where
  "supported_value normalized code proof =
    (if contains_any normalized unknown_cues then Inr FV_UNKNOWN
     else if code = FC_STILL_MISSING then
       (if contains_any normalized received_cues then Inr FV_FALSE
        else if contains_any normalized missing_cues then Inr FV_TRUE
        else Inl (CaseFactError ''persisted reply does not support this Case Fact''))
     else if proof = None
       then Inl (CaseFactError ''delivery-location fact is inapplicable without current proof'')
     else if contains_any normalized not_checked_cues then Inr FV_FALSE
     else if contains_any normalized checked_cues then Inr FV_TRUE
     else Inl (CaseFactError ''persisted reply does not support this Case Fact''))"

definition authoritative_interpretation ::
  "(utext \<Rightarrow> utext) \<Rightarrow> utext \<Rightarrow> fact_code \<Rightarrow> fact_assertion list \<Rightarrow> proof_context option \<Rightarrow>
   fact_candidate result" where
  "authoritative_interpretation casefold content code active proof =
    (let normalized = casefold content in
     if list_all is_space content then Inl (CaseFactError ''persisted customer reply is empty'')
     else bindE (supported_value normalized code proof) (\<lambda>value.
       let same_fact = filter (\<lambda>a. fa_fact_code a = code) active;
           latest_same = last_opt same_fact;
           withdrawn = (value = FV_UNKNOWN \<and> contains_any normalized withdrawal_cues);
           corrected = contains_any normalized correction_cues;
           candidate = (\<lambda>rel target.
             \<lparr>cd_fact_code = code, cd_value = value, cd_relation_hint = rel,
              cd_target_assertion_id = target, cd_span_start = 0, cd_span_end = int (length content)\<rparr>)
       in case latest_same of
            Some a \<Rightarrow>
              if withdrawn then check_fact_candidate (candidate RH_WITHDRAWAL (Some (fa_assertion_id a)))
              else if corrected then
                (if value = FV_UNKNOWN \<or> fa_value a = FV_UNKNOWN \<or> fa_value a = value
                   then Inl (CaseFactError ''persisted reply does not support this correction'')
                 else check_fact_candidate (candidate RH_CORRECTION (Some (fa_assertion_id a))))
              else if list_ex (\<lambda>b. fa_value b = value) same_fact
                then check_fact_candidate (candidate RH_REPEAT None)
              else check_fact_candidate (candidate RH_NEW None)
          | None \<Rightarrow> check_fact_candidate (candidate RH_NEW None)))"

definition validate_fact_candidate ::
  "(utext \<Rightarrow> utext) \<Rightarrow> fact_candidate \<Rightarrow> string \<Rightarrow> string option \<Rightarrow> string \<Rightarrow> utext \<Rightarrow> fact_code \<Rightarrow>
   fact_assertion list \<Rightarrow> proof_context option \<Rightarrow> proof_context option result" where
  "validate_fact_candidate casefold c case_id message_case_id role content outstanding active proof =
    (if message_case_id \<noteq> Some case_id \<or> role \<noteq> ''customer''
       then Inl (CaseFactError ''source_message_id must be customer-authored and bound to this Case'')
     else if cd_fact_code c \<noteq> outstanding
       then Inl (CaseFactError ''candidate does not answer the outstanding Case Fact question'')
     else bindE (authoritative_interpretation casefold content outstanding active proof)
       (\<lambda>authoritative.
         if c \<noteq> authoritative
           then Inl (CaseFactError
             ''candidate value, relation, target, or span disagrees with deterministic interpretation'')
         else Inr (if cd_fact_code c = FC_LOCATION_CHECKED then proof else None)))"

text \<open>\<open>CaseFactError\<close> is a \<open>ValueError\<close>; only itself and its subclass are caught.\<close>

definition interpret_customer_reply ::
  "(utext \<Rightarrow> utext) \<Rightarrow> utext \<Rightarrow> fact_code \<Rightarrow> fact_assertion list \<Rightarrow> proof_context option \<Rightarrow>
   fact_candidate option result" where
  "interpret_customer_reply casefold content code active proof =
    (case authoritative_interpretation casefold content code active proof of
       Inr c \<Rightarrow> Inr (Some c)
     | Inl (CaseFactError _) \<Rightarrow> Inr None
     | Inl (CaseFactIntegrityError _) \<Rightarrow> Inr None
     | Inl e \<Rightarrow> Inl e)"

section \<open>The snapshot\<close>

definition superseded_ids :: "fact_assertion list \<Rightarrow> string list" where
  "superseded_ids assertions = List.map_filter fa_supersedes assertions"

definition active_assertions :: "fact_assertion list \<Rightarrow> fact_assertion list" where
  "active_assertions assertions =
     filter (\<lambda>a. fa_assertion_id a \<notin> set (superseded_ids assertions)) assertions"

definition entry_for ::
  "fact_code \<Rightarrow> fact_assertion list \<Rightarrow> proof_context option \<Rightarrow> bool \<Rightarrow> bool \<Rightarrow> snapshot_entry" where
  "entry_for code assertions current_proof invalid competing =
    (let active = active_assertions assertions;
         known = remdups (map fa_value (filter (\<lambda>a. fa_value a \<noteq> FV_UNKNOWN) active));
         status = (if invalid \<or> competing \<or> 1 < length known then FS_CONFLICT
                   else if list_ex (\<lambda>a. fa_relation a = RH_WITHDRAWAL) active then FS_UNKNOWN
                   else if known = [FV_TRUE] then FS_KNOWN_TRUE
                   else if known = [FV_FALSE] then FS_KNOWN_FALSE
                   else FS_UNKNOWN);
         contexts = remdups (map (\<lambda>a. (fa_context_tool_call_id a, fa_context_result_hash a)) active);
         (status, ctx) =
           (if code \<noteq> FC_LOCATION_CHECKED then (status, (None, None))
            else (case contexts of
                    [] \<Rightarrow> (status, (None, None))
                  | [c] \<Rightarrow> (if Some c = map_option (\<lambda>p. (Some (pc_tool_call_id p), Some (pc_result_hash p)))
                                          current_proof
                           then (status, c) else (FS_UNKNOWN, c))
                  | _ \<Rightarrow> (FS_CONFLICT, (None, None))))
     in \<lparr>fe_status = status,
         fe_active_assertion_ids = map fa_assertion_id active,
         fe_superseded_assertion_ids =
           map fa_assertion_id
             (filter (\<lambda>a. fa_assertion_id a \<in> set (superseded_ids assertions)) assertions),
         fe_source_message_ids = dict_fromkeys (map fa_source_message_id active),
         fe_context_tool_call_id = fst ctx, fe_context_result_hash = snd ctx\<rparr>)"

text \<open>The scan: the assertions seen so far by identity, the codes with an invalid supersession, and the
  targets with the number of assertions that supersede them.\<close>

record scan_state =
  sx_ids :: "(string \<times> fact_assertion) list"
  sx_invalid :: "fact_code list"
  sx_superseders :: "(string \<times> nat) list"

definition scan_assertion :: "string \<Rightarrow> scan_state \<Rightarrow> fact_assertion \<Rightarrow> scan_state result" where
  "scan_assertion case_id s a =
    (if fa_case_id a \<noteq> case_id \<or> map_of (sx_ids s) (fa_assertion_id a) \<noteq> None
       then Inl (CaseFactIntegrityError ''assertion Case/id integrity failed'')
     else
      (let s' = (case fa_supersedes a of
                   None \<Rightarrow> s
                 | Some tid \<Rightarrow>
                     (case map_of (sx_ids s) tid of
                        None \<Rightarrow> s\<lparr>sx_invalid := sx_invalid s @ [fa_fact_code a]\<rparr>
                      | Some target \<Rightarrow>
                          if fa_fact_code target \<noteq> fa_fact_code a
                            then s\<lparr>sx_invalid := sx_invalid s @ [fa_fact_code a]\<rparr>
                          else s\<lparr>sx_superseders :=
                                   AList.update tid
                                     (case map_of (sx_superseders s) tid of None \<Rightarrow> 1 | Some n \<Rightarrow> n + 1)
                                     (sx_superseders s)\<rparr>))
       in Inr (s'\<lparr>sx_ids := AList.update (fa_assertion_id a) a (sx_ids s)\<rparr>)))"

definition competing_codes :: "scan_state \<Rightarrow> fact_code list" where
  "competing_codes s =
     List.map_filter (\<lambda>(tid, n). if 1 < n then map_option fa_fact_code (map_of (sx_ids s) tid) else None)
       (sx_superseders s)"

definition question_state_for ::
  "string \<Rightarrow> fact_question list \<Rightarrow> fact_code \<Rightarrow> snapshot_entry \<Rightarrow> proof_context option \<Rightarrow> question_state" where
  "question_state_for case_id questions code entry current_proof =
    (let mine = filter (\<lambda>q. fq_case_id q = case_id \<and> fq_fact_code q = code) questions;
         asks = length mine;
         status =
           (if code = FC_LOCATION_CHECKED \<and> current_proof = None then QS_INAPPLICABLE
            else if fe_status entry \<in> {FS_KNOWN_TRUE, FS_KNOWN_FALSE} then QS_ANSWERED
            else if fe_status entry = FS_CONFLICT then
              (if list_ex fq_targeted_conflict mine then QS_CONFLICT_EXHAUSTED
               else QS_CONFLICT_REQUIRES_CLARIFICATION)
            else if asks \<noteq> 0 then QS_UNKNOWN_EXHAUSTED else QS_UNANSWERED)
     in \<lparr>qu_asks = asks, qu_status = status\<rparr>)"

definition entry_json :: "snapshot_entry \<Rightarrow> json" where
  "entry_json e =
     JObj [(''status'', JStr (fact_status_value (fe_status e))),
           (''active_assertion_ids'', JList (map JStr (fe_active_assertion_ids e))),
           (''superseded_assertion_ids'', JList (map JStr (fe_superseded_assertion_ids e))),
           (''source_message_ids'', JList (map JStr (fe_source_message_ids e))),
           (''context_tool_call_id'', json_opt_str (fe_context_tool_call_id e)),
           (''context_result_hash'', json_opt_str (fe_context_result_hash e))]"

definition question_json :: "question_state \<Rightarrow> json" where
  "question_json q = JObj [(''asks'', JInt (int (qu_asks q))),
                          (''status'', JStr (question_status_value (qu_status q)))]"

definition canonical_snapshot ::
  "string \<Rightarrow> nat \<Rightarrow> (fact_code \<Rightarrow> snapshot_entry) \<Rightarrow> (fact_code \<Rightarrow> question_state) \<Rightarrow> json" where
  "canonical_snapshot case_id revision facts questions =
     JObj [(''schema_version'', JStr ''v3b.case_fact_snapshot.v1''),
           (''case_id'', JStr case_id),
           (''revision'', JInt (int revision)),
           (''facts'', JObj (map (\<lambda>c. (fact_code_value c, entry_json (facts c))) all_fact_codes)),
           (''question_state'',
              JObj (map (\<lambda>c. (fact_code_value c, question_json (questions c))) all_fact_codes))]"

definition check_fact_snapshot :: "fact_snapshot \<Rightarrow> fact_snapshot result" where
  "check_fact_snapshot s =
    (if sn_case_id s = [] \<or> length (sn_case_id s) > 64 then Inl (ValueError ''case_id'')
     else if \<not> is_sha256_hex (sn_snapshot_hash s) then Inl (ValueError ''snapshot_hash'')
     else if \<not> is_aware (sn_rebuilt_at s) then Inl (ValueError ''rebuilt_at must be timezone-aware'')
     else Inr s)"

definition ordered_assertions :: "fact_assertion list \<Rightarrow> fact_assertion list result" where
  "ordered_assertions assertions =
    (let ordered = sort_key fa_sequence assertions in
     if map fa_sequence ordered \<noteq> map int [1..<Suc (length ordered)]
       then Inl (CaseFactIntegrityError ''assertion_sequence must be contiguous and monotonic'')
     else Inr ordered)"

definition rebuild_case_fact_snapshot ::
  "(json \<Rightarrow> string) \<Rightarrow> string \<Rightarrow> fact_assertion list \<Rightarrow> fact_question list \<Rightarrow> proof_context option \<Rightarrow>
   datetime \<Rightarrow> fact_snapshot result" where
  "rebuild_case_fact_snapshot sha case_id assertions questions current_proof rebuilt_at =
     bindE (ordered_assertions assertions) (\<lambda>ordered.
     bindE (foldE (scan_assertion case_id) \<lparr>sx_ids = [], sx_invalid = [], sx_superseders = []\<rparr> ordered)
       (\<lambda>s.
        let facts = (\<lambda>code. entry_for code (filter (\<lambda>a. fa_fact_code a = code) ordered) current_proof
                       (code \<in> set (sx_invalid s)) (code \<in> set (competing_codes s)));
            qs = (\<lambda>code. question_state_for case_id questions code (facts code) current_proof);
            revision = length ordered + length (filter (\<lambda>q. fq_case_id q = case_id) questions)
        in bindE (mapE (\<lambda>code. check_question_state (qs code)) all_fact_codes) (\<lambda>_.
             check_fact_snapshot
               \<lparr>sn_case_id = case_id, sn_revision = revision, sn_facts = facts,
                sn_question_state = qs,
                sn_snapshot_hash = sha (canonical_snapshot case_id revision facts qs),
                sn_rebuilt_at = rebuilt_at\<rparr>)))"

definition material_identity :: "fact_snapshot \<Rightarrow> json" where
  "material_identity s =
    (let known = filter (\<lambda>c. fe_status (sn_facts s c) \<in> {FS_KNOWN_TRUE, FS_KNOWN_FALSE}) all_fact_codes
     in JObj [(''case_fact_snapshot_hash'', JStr (sn_snapshot_hash s)),
              (''active_assertion_ids'',
                 JList (map JStr (sort (concat (map (\<lambda>c. fe_active_assertion_ids (sn_facts s c)) known))))),
              (''material_facts'', JObj (map (\<lambda>c. (fact_code_value c,
                 JObj ([(''status'', JStr (fact_status_value (fe_status (sn_facts s c)))),
                        (''active_assertion_ids'',
                           JList (map JStr (fe_active_assertion_ids (sn_facts s c))))] @
                       (if c = FC_LOCATION_CHECKED
                        then [(''delivery_proof_result_hash'',
                               json_opt_str (fe_context_result_hash (sn_facts s c)))]
                        else [])))) known))])"

definition stable_question_id ::
  "(json \<Rightarrow> string) \<Rightarrow> string \<Rightarrow> fact_code \<Rightarrow> string option \<Rightarrow> bool \<Rightarrow> string" where
  "stable_question_id sha case_id code context_hash targeted =
     ''qfact_'' @ take 24 (sha (JObj
       [(''case_id'', JStr case_id), (''context_result_hash'', json_opt_str context_hash),
        (''fact_code'', JStr (fact_code_value code)), (''targeted_conflict'', JBool targeted)]))"

definition question_allowed :: "fact_snapshot \<Rightarrow> fact_code \<Rightarrow> nat \<Rightarrow> bool" where
  "question_allowed s code global_asks =
    (if 2 \<le> global_asks then False
     else (let state = sn_question_state s code in
       if qu_status state \<in> {QS_INAPPLICABLE, QS_ANSWERED, QS_UNKNOWN_EXHAUSTED, QS_CONFLICT_EXHAUSTED}
         then False
       else if qu_status state = QS_CONFLICT_REQUIRES_CLARIFICATION then qu_asks state < 2
       else qu_asks state = 0))"

section \<open>What the scan computes\<close>

text \<open>An assertion of the list whose supersession names no earlier assertion of its own fact.\<close>

definition dangling :: "fact_assertion list \<Rightarrow> fact_code \<Rightarrow> bool" where
  "dangling xs c \<longleftrightarrow> (\<exists>ys a zs tid. xs = ys @ a # zs \<and> fa_fact_code a = c \<and> fa_supersedes a = Some tid \<and>
     (\<forall>t \<in> set ys. fa_assertion_id t = tid \<longrightarrow> fa_fact_code t \<noteq> c))"

text \<open>How many assertions of the fact supersede the identity.\<close>

definition superseding :: "fact_assertion list \<Rightarrow> fact_code \<Rightarrow> string \<Rightarrow> fact_assertion list" where
  "superseding xs c tid = filter (\<lambda>a. fa_fact_code a = c \<and> fa_supersedes a = Some tid) xs"

lemma dangling_Nil [simp]: "\<not> dangling [] c"
  by (simp add: dangling_def)

lemma dangling_snoc:
  "dangling (xs @ [a]) c \<longleftrightarrow> dangling xs c \<or>
     (fa_fact_code a = c \<and> (\<exists>tid. fa_supersedes a = Some tid \<and>
        (\<forall>t \<in> set xs. fa_assertion_id t = tid \<longrightarrow> fa_fact_code t \<noteq> c)))" (is "?l = ?r")
proof
  assume ?l
  then obtain ys b zs tid where *: "xs @ [a] = ys @ b # zs" "fa_fact_code b = c"
    "fa_supersedes b = Some tid" "\<forall>t \<in> set ys. fa_assertion_id t = tid \<longrightarrow> fa_fact_code t \<noteq> c"
    unfolding dangling_def by blast
  show ?r
  proof (cases zs rule: rev_cases)
    case Nil
    with * show ?thesis by auto
  next
    case (snoc zs' z)
    with *(1) have "xs = ys @ b # zs'" by simp
    with *(2-) show ?thesis unfolding dangling_def by blast
  qed
next
  assume ?r
  then show ?l
  proof
    assume "dangling xs c"
    then obtain ys b zs tid where *: "xs = ys @ b # zs" "fa_fact_code b = c"
      "fa_supersedes b = Some tid" "\<forall>t \<in> set ys. fa_assertion_id t = tid \<longrightarrow> fa_fact_code t \<noteq> c"
      unfolding dangling_def by blast
    then have "xs @ [a] = ys @ b # (zs @ [a])" by simp
    with *(2-) show ?l unfolding dangling_def by blast
  next
    assume "fa_fact_code a = c \<and> (\<exists>tid. fa_supersedes a = Some tid \<and>
        (\<forall>t \<in> set xs. fa_assertion_id t = tid \<longrightarrow> fa_fact_code t \<noteq> c))"
    then show ?l unfolding dangling_def by (metis append_Cons append_Nil)
  qed
qed

lemma not_dangling_superseding:
  assumes "\<not> dangling xs c" "\<forall>t \<in> set xs. fa_assertion_id t \<noteq> i"
  shows "superseding xs c i = []"
proof (rule ccontr)
  assume "superseding xs c i \<noteq> []"
  then obtain a where "a \<in> set xs" "fa_fact_code a = c" "fa_supersedes a = Some i"
    by (auto simp: superseding_def filter_empty_conv)
  moreover from this obtain ys zs where "xs = ys @ a # zs" by (auto dest: split_list)
  ultimately have "dangling xs c" using assms(2) unfolding dangling_def by (metis in_set_conv_decomp append_assoc append_Cons Un_iff set_append)
  with assms(1) show False by simp
qed

text \<open>The invariant of the scan.\<close>

definition scan_ok :: "string \<Rightarrow> fact_assertion list \<Rightarrow> scan_state \<Rightarrow> bool" where
  "scan_ok case_id xs s \<longleftrightarrow>
     distinct (map fa_assertion_id xs) \<and> (\<forall>a \<in> set xs. fa_case_id a = case_id) \<and>
     (\<forall>i a. map_of (sx_ids s) i = Some a \<longleftrightarrow> a \<in> set xs \<and> fa_assertion_id a = i) \<and>
     (\<forall>c. c \<in> set (sx_invalid s) \<longleftrightarrow> dangling xs c) \<and>
     distinct (map fst (sx_superseders s)) \<and>
     (\<forall>i n. map_of (sx_superseders s) i = Some n \<longrightarrow> (\<exists>t \<in> set xs. fa_assertion_id t = i)) \<and>
     (\<forall>t \<in> set xs. \<not> dangling xs (fa_fact_code t) \<longrightarrow>
        opt_or (map_of (sx_superseders s) (fa_assertion_id t)) 0 =
        length (superseding xs (fa_fact_code t) (fa_assertion_id t)))"

lemma superseding_snoc:
  "superseding (xs @ [a]) c i = superseding xs c i @
     (if fa_fact_code a = c \<and> fa_supersedes a = Some i then [a] else [])"
  by (simp add: superseding_def)

lemma scan_assertion_Inr:
  assumes "scan_assertion case_id s a = Inr s'"
  shows "fa_case_id a = case_id \<and> map_of (sx_ids s) (fa_assertion_id a) = None \<and>
    sx_ids s' = AList.update (fa_assertion_id a) a (sx_ids s) \<and>
    (case fa_supersedes a of
       None \<Rightarrow> sx_invalid s' = sx_invalid s \<and> sx_superseders s' = sx_superseders s
     | Some tid \<Rightarrow>
         (if \<exists>t. map_of (sx_ids s) tid = Some t \<and> fa_fact_code t = fa_fact_code a
          then sx_invalid s' = sx_invalid s \<and>
               sx_superseders s' = AList.update tid (Suc (opt_or (map_of (sx_superseders s) tid) 0)) (sx_superseders s)
          else sx_invalid s' = sx_invalid s @ [fa_fact_code a] \<and> sx_superseders s' = sx_superseders s))"
  using assms
  by (auto simp: scan_assertion_def Let_def opt_or_def split: if_splits option.splits)

lemma scan_ok_step:
  assumes ok: "scan_ok case_id xs s" and step: "scan_assertion case_id s a = Inr s'"
  shows "scan_ok case_id (xs @ [a]) s'"
proof -
  note d = ok [unfolded scan_ok_def]
  note r = scan_assertion_Inr [OF step]
  have ids: "map_of (sx_ids s) i = Some b \<longleftrightarrow> b \<in> set xs \<and> fa_assertion_id b = i" for i b
    using d by blast
  have fresh: "t \<in> set xs \<Longrightarrow> fa_assertion_id t \<noteq> fa_assertion_id a" for t
    using ids r by (metis option.distinct(1))
  have hit: "(\<exists>t. map_of (sx_ids s) tid = Some t \<and> fa_fact_code t = fa_fact_code a) \<longleftrightarrow>
      (\<exists>t \<in> set xs. fa_assertion_id t = tid \<and> fa_fact_code t = fa_fact_code a)" for tid
    by (auto simp: ids)
  have inv: "c \<in> set (sx_invalid s) \<longleftrightarrow> dangling xs c" for c using d by blast
  have ids': "map_of (sx_ids s') i = Some b \<longleftrightarrow> b \<in> set (xs @ [a]) \<and> fa_assertion_id b = i" for i b
    using r fresh by (auto simp: update_conv' ids)
  have inv': "c \<in> set (sx_invalid s') \<longleftrightarrow> dangling (xs @ [a]) c" for c
    using r by (cases "fa_supersedes a") (auto simp: dangling_snoc inv hit split: if_splits)
  have dist': "distinct (map fst (sx_superseders s'))"
    using r d by (cases "fa_supersedes a") (auto simp: distinct_update split: if_splits)
  have keys': "map_of (sx_superseders s') i = Some n \<Longrightarrow> \<exists>t \<in> set (xs @ [a]). fa_assertion_id t = i" for i n
    using r d by (cases "fa_supersedes a") (auto simp: update_conv' hit split: if_splits)
  have old: "opt_or (map_of (sx_superseders s') (fa_assertion_id t)) 0 =
      length (superseding (xs @ [a]) (fa_fact_code t) (fa_assertion_id t))"
    if t: "t \<in> set xs" and nd: "\<not> dangling (xs @ [a]) (fa_fact_code t)" for t
  proof -
    have base: "opt_or (map_of (sx_superseders s) (fa_assertion_id t)) 0 =
        length (superseding xs (fa_fact_code t) (fa_assertion_id t))"
      using d t nd by (simp add: dangling_snoc)
    show ?thesis
    proof (cases "fa_supersedes a = Some (fa_assertion_id t)")
      case False
      then have "map_of (sx_superseders s') (fa_assertion_id t) = map_of (sx_superseders s) (fa_assertion_id t)"
        using r by (auto simp: update_conv' split: option.splits if_splits)
      with False base show ?thesis by (simp add: superseding_snoc)
    next
      case True
      have tid: "map_of (sx_ids s) (fa_assertion_id t) = Some t" using t by (simp add: ids)
      show ?thesis
      proof (cases "fa_fact_code t = fa_fact_code a")
        case same: True
        then have "sx_superseders s' = AList.update (fa_assertion_id t)
            (Suc (opt_or (map_of (sx_superseders s) (fa_assertion_id t)) 0)) (sx_superseders s)"
          using r True tid by simp
        with base True same show ?thesis by (simp add: superseding_snoc update_conv')
      next
        case False
        then have "sx_superseders s' = sx_superseders s" using r True tid by simp
        with base False show ?thesis by (simp add: superseding_snoc)
      qed
    qed
  qed
  have own: "opt_or (map_of (sx_superseders s') (fa_assertion_id a)) 0 =
      length (superseding (xs @ [a]) (fa_fact_code a) (fa_assertion_id a))"
    if nd: "\<not> dangling (xs @ [a]) (fa_fact_code a)"
  proof -
    have none: "map_of (sx_superseders s) (fa_assertion_id a) = None"
      using d fresh by (metis not_Some_eq)
    have notself: "fa_supersedes a \<noteq> Some (fa_assertion_id a)"
      using nd fresh by (auto simp: dangling_snoc)
    have "superseding xs (fa_fact_code a) (fa_assertion_id a) = []"
      using nd fresh by (auto simp: dangling_snoc intro!: not_dangling_superseding)
    with none notself r show ?thesis
      by (cases "fa_supersedes a") (auto simp: superseding_snoc update_conv' split: if_splits)
  qed
  have "fa_assertion_id a \<notin> fa_assertion_id ` set xs" using fresh by (metis imageE)
  with d have "distinct (map fa_assertion_id (xs @ [a]))" by simp
  moreover have "\<forall>b \<in> set (xs @ [a]). fa_case_id b = case_id" using d r by auto
  moreover have "\<forall>t \<in> set (xs @ [a]). \<not> dangling (xs @ [a]) (fa_fact_code t) \<longrightarrow>
      opt_or (map_of (sx_superseders s') (fa_assertion_id t)) 0 =
      length (superseding (xs @ [a]) (fa_fact_code t) (fa_assertion_id t))"
    using old own by auto
  ultimately show ?thesis unfolding scan_ok_def using ids' inv' dist' keys' by blast
qed

lemma scan_ok_fold:
  "scan_ok case_id ys s \<Longrightarrow> foldE (scan_assertion case_id) s xs = Inr s' \<Longrightarrow> scan_ok case_id (ys @ xs) s'"
proof (induction xs arbitrary: ys s)
  case (Cons x xs)
  from Cons.prems(2) obtain s1 where "scan_assertion case_id s x = Inr s1"
    and rest: "foldE (scan_assertion case_id) s1 xs = Inr s'" by (auto simp: bindE_eq_Inr)
  with Cons.prems(1) have "scan_ok case_id (ys @ [x]) s1" by (blast intro: scan_ok_step)
  from Cons.IH [OF this rest] show ?case by simp
qed simp

lemma scan_ok_run:
  "foldE (scan_assertion case_id) \<lparr>sx_ids = [], sx_invalid = [], sx_superseders = []\<rparr> xs = Inr s' \<Longrightarrow>
   scan_ok case_id xs s'"
  using scan_ok_fold [of case_id "[]" "\<lparr>sx_ids = [], sx_invalid = [], sx_superseders = []\<rparr>" xs s']
  by (simp add: scan_ok_def)

lemma scan_ok_competing:
  assumes "scan_ok case_id xs s" and nd: "\<not> dangling xs c"
  shows "c \<in> set (competing_codes s) \<longleftrightarrow>
    (\<exists>t \<in> set xs. fa_fact_code t = c \<and> 1 < length (superseding xs c (fa_assertion_id t)))" (is "?l = ?r")
proof -
  note d = assms(1) [unfolded scan_ok_def]
  have "?l \<longleftrightarrow> (\<exists>tid n t. (tid, n) \<in> set (sx_superseders s) \<and> 1 < n \<and>
      map_of (sx_ids s) tid = Some t \<and> fa_fact_code t = c)"
    by (force simp: competing_codes_def List.map_filter_def split: if_splits option.splits)
  also have "\<dots> \<longleftrightarrow> (\<exists>t \<in> set xs. fa_fact_code t = c \<and>
      (\<exists>n. map_of (sx_superseders s) (fa_assertion_id t) = Some n \<and> 1 < n))"
    using d by (auto simp: map_of_eq_Some_iff)
  also have "\<dots> \<longleftrightarrow> ?r"
  proof (intro bex_cong refl conj_cong)
    fix t assume "t \<in> set xs" "fa_fact_code t = c"
    with d nd have "opt_or (map_of (sx_superseders s) (fa_assertion_id t)) 0 =
        length (superseding xs c (fa_assertion_id t))" by auto
    then show "(\<exists>n. map_of (sx_superseders s) (fa_assertion_id t) = Some n \<and> 1 < n) \<longleftrightarrow>
        1 < length (superseding xs c (fa_assertion_id t))"
      by (cases "map_of (sx_superseders s) (fa_assertion_id t)") auto
  qed
  finally show ?thesis .
qed

section \<open>When a fact is known\<close>

definition value_of_status :: "fact_status \<Rightarrow> fact_value option" where
  "value_of_status st = (case st of FS_KNOWN_TRUE \<Rightarrow> Some FV_TRUE | FS_KNOWN_FALSE \<Rightarrow> Some FV_FALSE | _ \<Rightarrow> None)"

text \<open>The active assertions speak for \<open>v\<close>: one of them says it, none says another known value, none
  withdraws it, and a delivery-location fact rests on the current proof of delivery.\<close>

definition speaks_for ::
  "fact_code \<Rightarrow> proof_context option \<Rightarrow> fact_assertion list \<Rightarrow> fact_value \<Rightarrow> bool" where
  "speaks_for code current_proof active v \<longleftrightarrow>
     v \<noteq> FV_UNKNOWN \<and> list_ex (\<lambda>a. fa_value a = v) active \<and>
     list_all (\<lambda>a. fa_value a \<in> {v, FV_UNKNOWN} \<and> fa_relation a \<noteq> RH_WITHDRAWAL) active \<and>
     (code = FC_LOCATION_CHECKED \<longrightarrow>
        (case current_proof of None \<Rightarrow> False
         | Some p \<Rightarrow> list_all (\<lambda>a. fa_context_tool_call_id a = Some (pc_tool_call_id p) \<and>
                                   fa_context_result_hash a = Some (pc_result_hash p)) active))"

lemma remdups_singleton_iff: "remdups xs = [x] \<longleftrightarrow> set xs = {x}"
proof
  assume "remdups xs = [x]"
  then show "set xs = {x}" by (metis set_remdups list.set(1) list.set(2))
next
  assume "set xs = {x}"
  then have "set (remdups xs) = {x}" "distinct (remdups xs)" by simp_all
  then show "remdups xs = [x]"
    by (cases "remdups xs"; cases "tl (remdups xs)") auto
qed

text \<open>The values that are left in the set of known values.\<close>

lemma known_values:
  assumes "v \<noteq> FV_UNKNOWN"
  shows "remdups (map fa_value (filter (\<lambda>a. fa_value a \<noteq> FV_UNKNOWN) as)) = [v] \<longleftrightarrow>
    list_ex (\<lambda>a. fa_value a = v) as \<and> list_all (\<lambda>a. fa_value a \<in> {v, FV_UNKNOWN}) as" (is "?l \<longleftrightarrow> ?r")
proof -
  have "?l \<longleftrightarrow> (\<exists>a \<in> set as. fa_value a \<noteq> FV_UNKNOWN) \<and>
      (\<forall>a \<in> set as. fa_value a \<noteq> FV_UNKNOWN \<longrightarrow> fa_value a = v)"
    unfolding remdups_singleton_iff set_map set_filter by blast
  also have "\<dots> \<longleftrightarrow> ?r"
    unfolding list_ex_iff list_all_iff using assms by blast
  finally show ?thesis .
qed

definition base_status :: "fact_assertion list \<Rightarrow> bool \<Rightarrow> bool \<Rightarrow> fact_status" where
  "base_status active invalid competing =
    (let known = remdups (map fa_value (filter (\<lambda>a. fa_value a \<noteq> FV_UNKNOWN) active)) in
     if invalid \<or> competing \<or> 1 < length known then FS_CONFLICT
     else if list_ex (\<lambda>a. fa_relation a = RH_WITHDRAWAL) active then FS_UNKNOWN
     else if known = [FV_TRUE] then FS_KNOWN_TRUE
     else if known = [FV_FALSE] then FS_KNOWN_FALSE
     else FS_UNKNOWN)"

lemma base_status_known:
  "value_of_status (base_status active invalid competing) = Some v \<longleftrightarrow>
   \<not> invalid \<and> \<not> competing \<and> v \<noteq> FV_UNKNOWN \<and> list_ex (\<lambda>a. fa_value a = v) active \<and>
   list_all (\<lambda>a. fa_value a \<in> {v, FV_UNKNOWN} \<and> fa_relation a \<noteq> RH_WITHDRAWAL) active"
proof -
  let ?known = "remdups (map fa_value (filter (\<lambda>a. fa_value a \<noteq> FV_UNKNOWN) active))"
  have "value_of_status (base_status active invalid competing) = Some v \<longleftrightarrow>
    \<not> invalid \<and> \<not> competing \<and> v \<noteq> FV_UNKNOWN \<and> ?known = [v] \<and>
    \<not> list_ex (\<lambda>a. fa_relation a = RH_WITHDRAWAL) active"
    by (cases v) (auto simp: base_status_def Let_def value_of_status_def)
  also have "\<dots> \<longleftrightarrow> \<not> invalid \<and> \<not> competing \<and> v \<noteq> FV_UNKNOWN \<and> list_ex (\<lambda>a. fa_value a = v) active \<and>
   list_all (\<lambda>a. fa_value a \<in> {v, FV_UNKNOWN} \<and> fa_relation a \<noteq> RH_WITHDRAWAL) active"
    using known_values [of v active] by (auto simp: list_all_iff list_ex_iff)
  finally show ?thesis .
qed

lemma entry_for_status:
  "fe_status (entry_for code as current_proof invalid competing) =
    (let base = base_status (active_assertions as) invalid competing;
         contexts = remdups (map (\<lambda>a. (fa_context_tool_call_id a, fa_context_result_hash a)) (active_assertions as))
     in if code \<noteq> FC_LOCATION_CHECKED \<or> contexts = [] then base
        else if 1 < length contexts then FS_CONFLICT
        else if Some (hd contexts) = map_option (\<lambda>p. (Some (pc_tool_call_id p), Some (pc_result_hash p))) current_proof
             then base else FS_UNKNOWN)"
  by (auto simp: entry_for_def base_status_def Let_def split: list.split)

lemma entry_for_known:
  "value_of_status (fe_status (entry_for code as current_proof invalid competing)) = Some v \<longleftrightarrow>
   \<not> invalid \<and> \<not> competing \<and> speaks_for code current_proof (active_assertions as) v"
proof (cases "code = FC_LOCATION_CHECKED")
  case False
  then show ?thesis by (auto simp: entry_for_status base_status_known speaks_for_def)
next
  case True
  let ?f = "\<lambda>a. (fa_context_tool_call_id a, fa_context_result_hash a)"
  let ?act = "active_assertions as"
  let ?ctx = "remdups (map ?f ?act)"
  show ?thesis
  proof (cases ?ctx)
    case Nil
    then have "?act = []" by simp
    then show ?thesis using True
      by (auto simp: entry_for_status Let_def base_status_def value_of_status_def speaks_for_def)
  next
    case (Cons c cs)
    show ?thesis
    proof (cases cs)
      case Nil
      with Cons have one: "?f ` set ?act = {c}"
        using remdups_singleton_iff [of "map ?f ?act" c] by simp
      then have all: "?act \<noteq> []" "\<forall>a \<in> set ?act. ?f a = c" by auto
      have cur: "Some c = map_option (\<lambda>p. (Some (pc_tool_call_id p), Some (pc_result_hash p))) current_proof \<longleftrightarrow>
          (case current_proof of None \<Rightarrow> False
           | Some p \<Rightarrow> list_all (\<lambda>a. fa_context_tool_call_id a = Some (pc_tool_call_id p) \<and>
                                   fa_context_result_hash a = Some (pc_result_hash p)) ?act)"
        using all by (cases current_proof; cases ?act) (auto simp: list_all_iff)
      show ?thesis
        unfolding entry_for_status speaks_for_def Let_def Cons Nil using True cur base_status_known
        by (simp add: value_of_status_def)
    next
      case (Cons d ds)
      with \<open>?ctx = c # cs\<close> have "1 < length ?ctx" by simp
      moreover have "\<not> (\<forall>a \<in> set ?act. ?f a = e)" for e
      proof
        assume "\<forall>a \<in> set ?act. ?f a = e"
        then have "set ?ctx \<subseteq> {e}" by auto
        moreover have "distinct ?ctx" by simp
        ultimately have "length ?ctx \<le> 1" by (metis card_mono distinct_card finite.emptyI finite.insertI card.empty card_insert_disjoint empty_iff One_nat_def)
        with \<open>1 < length ?ctx\<close> show False by simp
      qed
      then have "\<not> list_all (\<lambda>a. fa_context_tool_call_id a = Some x \<and> fa_context_result_hash a = Some y) ?act"
        for x y unfolding list_all_iff by auto
      ultimately show ?thesis using True \<open>?ctx = c # cs\<close>
        by (auto simp: entry_for_status Let_def value_of_status_def speaks_for_def split: option.splits)
    qed
  qed
qed

section \<open>The rebuild\<close>

lemma rebuild_Inr:
  assumes "rebuild_case_fact_snapshot sha case_id assertions questions current_proof rebuilt_at = Inr s"
  obtains ordered st where "ordered_assertions assertions = Inr ordered"
    "foldE (scan_assertion case_id) \<lparr>sx_ids = [], sx_invalid = [], sx_superseders = []\<rparr> ordered = Inr st"
    "sn_facts s = (\<lambda>code. entry_for code (filter (\<lambda>a. fa_fact_code a = code) ordered) current_proof
                       (code \<in> set (sx_invalid st)) (code \<in> set (competing_codes st)))"
    "sn_question_state s = (\<lambda>code. question_state_for case_id questions code (sn_facts s code) current_proof)"
  using assms
  by (auto simp: rebuild_case_fact_snapshot_def Let_def bindE_eq_Inr check_fact_snapshot_def
      split: if_splits)

lemma ordered_assertions_Inr:
  "ordered_assertions xs = Inr ys \<Longrightarrow> ys = sort_key fa_sequence xs \<and> distinct (map fa_sequence ys)"
proof -
  assume "ordered_assertions xs = Inr ys"
  then have *: "ys = sort_key fa_sequence xs" "map fa_sequence ys = map int [1..<Suc (length ys)]"
    by (auto simp: ordered_assertions_def Let_def split: if_splits)
  moreover have "distinct (map int [1..<Suc (length ys)])" by (simp add: distinct_map)
  ultimately show ?thesis by metis
qed

lemma ordered_assertions_mset:
  assumes "mset xs = mset ys"
  shows "ordered_assertions xs = ordered_assertions ys"
proof -
  have keys: "map fa_sequence (sort_key fa_sequence xs) = map fa_sequence (sort_key fa_sequence ys)"
  proof (rule trans)
    show "map fa_sequence (sort_key fa_sequence xs) = sort (map fa_sequence ys)"
      using assms by (intro properties_for_sort [symmetric]) simp_all
    show "sort (map fa_sequence ys) = map fa_sequence (sort_key fa_sequence ys)"
      by (intro properties_for_sort) simp_all
  qed
  have len: "length xs = length ys" using assms by (metis size_mset)
  show ?thesis
  proof (cases "map fa_sequence (sort_key fa_sequence xs) = map int [1..<Suc (length xs)]")
    case True
    then have "distinct (map fa_sequence (sort_key fa_sequence xs))" by (simp add: distinct_map)
    then have "inj_on fa_sequence (set ys)"
      using assms by (metis distinct_map set_sort mset_eq_setD)
    then have "sort_key fa_sequence xs = sort_key fa_sequence ys"
      using assms True by (metis sort_key_inj_key_eq sorted_sort_key mset_sort)
    then show ?thesis by (simp add: ordered_assertions_def)
  next
    case False
    then show ?thesis using keys len by (simp add: ordered_assertions_def Let_def del: upt_Suc)
  qed
qed

lemma active_set_filter: "set (active_assertions xs) \<subseteq> set xs"
  by (auto simp: active_assertions_def)

lemma superseding_sort_key:
  "length (superseding (sort_key f xs) c i) = length (superseding xs c i)"
proof -
  have "mset (superseding (sort_key f xs) c i) = mset (superseding xs c i)"
    by (simp add: superseding_def mset_filter)
  then show ?thesis by (metis size_mset)
qed

text \<open>C32. A rebuilt snapshot declares a fact known, with the value \<open>v\<close>, exactly when every supersession
  of that fact names an earlier assertion of the same fact, no assertion of it is superseded twice, and
  the assertions nobody superseded speak for \<open>v\<close>: at least one says \<open>v\<close>, none says the opposite, none is
  a withdrawal, and a fact about the delivery location is bound to the proof of delivery that is current
  now.  In every other history the fact stays unknown or in conflict.\<close>

theorem known_fact_iff_supported:
  assumes run: "rebuild_case_fact_snapshot sha case_id assertions questions current_proof rebuilt_at = Inr s"
  shows "value_of_status (fe_status (sn_facts s code)) = Some v \<longleftrightarrow>
    \<not> dangling (sort_key fa_sequence assertions) code \<and>
    (\<forall>t \<in> set assertions. fa_fact_code t = code \<longrightarrow>
       length (superseding assertions code (fa_assertion_id t)) \<le> 1) \<and>
    speaks_for code current_proof
      (active_assertions (filter (\<lambda>a. fa_fact_code a = code) (sort_key fa_sequence assertions))) v"
proof -
  from run obtain ordered st where ordered: "ordered_assertions assertions = Inr ordered"
    and scan: "foldE (scan_assertion case_id) \<lparr>sx_ids = [], sx_invalid = [], sx_superseders = []\<rparr> ordered = Inr st"
    and facts: "sn_facts s = (\<lambda>code. entry_for code (filter (\<lambda>a. fa_fact_code a = code) ordered) current_proof
                       (code \<in> set (sx_invalid st)) (code \<in> set (competing_codes st)))"
    by (rule rebuild_Inr)
  have sorted: "ordered = sort_key fa_sequence assertions"
    using ordered_assertions_Inr [OF ordered] by simp
  have ok: "scan_ok case_id ordered st" using scan by (rule scan_ok_run)
  then have invalid: "code \<in> set (sx_invalid st) \<longleftrightarrow> dangling ordered code" by (simp add: scan_ok_def)
  have competing: "\<not> dangling ordered code \<Longrightarrow> code \<in> set (competing_codes st) \<longleftrightarrow>
      \<not> (\<forall>t \<in> set assertions. fa_fact_code t = code \<longrightarrow>
         length (superseding assertions code (fa_assertion_id t)) \<le> 1)"
    by (simp add: scan_ok_competing [OF ok] sorted superseding_sort_key) (auto simp: not_le)
  show ?thesis
    using invalid competing by (auto simp: facts entry_for_known sorted)
qed

text \<open>C33. The rebuilt snapshot does not depend on the order in which the rows are read: two readings of the
  same assertions give the same snapshot, or the same integrity error.\<close>

theorem rebuild_order_independent:
  assumes "mset assertions = mset assertions'"
  shows "rebuild_case_fact_snapshot sha case_id assertions questions current_proof rebuilt_at =
    rebuild_case_fact_snapshot sha case_id assertions' questions current_proof rebuilt_at"
  using ordered_assertions_mset [OF assms] by (simp add: rebuild_case_fact_snapshot_def)

section \<open>Interpretation\<close>

lemma check_fact_candidate_Inr: "check_fact_candidate c = Inr d \<Longrightarrow> d = c"
  by (auto simp: check_fact_candidate_def split: if_splits)

lemma authoritative_Inr:
  assumes "authoritative_interpretation casefold content code active proof = Inr c"
  obtains w where "supported_value (casefold content) code proof = Inr w"
    "check_fact_candidate c = Inr c" "cd_fact_code c = code" "cd_value c = w"
    "cd_span_start c = 0" "cd_span_end c = int (length content)"
    "\<forall>tid. cd_target_assertion_id c = Some tid \<longrightarrow>
       (\<exists>a. last_opt (filter (\<lambda>a. fa_fact_code a = code) active) = Some a \<and> fa_assertion_id a = tid \<and>
         (cd_relation_hint c = RH_CORRECTION \<longrightarrow>
            w \<noteq> FV_UNKNOWN \<and> fa_value a \<noteq> FV_UNKNOWN \<and> fa_value a \<noteq> w))"
proof -
  note r = assms [unfolded authoritative_interpretation_def Let_def]
  from r obtain w where v: "supported_value (casefold content) code proof = Inr w"
    by (auto simp: bindE_eq_Inr split: if_splits)
  show ?thesis
  proof (rule that [OF v])
    show "check_fact_candidate c = Inr c"
      using r v check_fact_candidate_Inr by (auto split: if_splits option.splits)
  qed (use r v in \<open>auto split: if_splits option.splits dest!: check_fact_candidate_Inr\<close>)
qed

text \<open>C34. A candidate assertion that the validator accepts carries no authority of its own: it is exactly
  the candidate that the deterministic interpretation derives from the customer's own message on this
  case.  It is well formed, spans the whole message, answers the outstanding question, and a target it
  names is the latest active assertion of the same fact, which a correction contradicts.\<close>

theorem accepted_candidate_is_authoritative:
  assumes "validate_fact_candidate casefold c case_id message_case_id role content outstanding active proof = Inr p"
  shows "message_case_id = Some case_id \<and> role = ''customer'' \<and> cd_fact_code c = outstanding \<and>
    interpret_customer_reply casefold content outstanding active proof = Inr (Some c) \<and>
    check_fact_candidate c = Inr c \<and> cd_span_start c = 0 \<and> cd_span_end c = int (length content) \<and>
    (\<forall>tid. cd_target_assertion_id c = Some tid \<longrightarrow>
       (\<exists>a. last_opt (filter (\<lambda>a. fa_fact_code a = outstanding) active) = Some a \<and> fa_assertion_id a = tid \<and>
         (cd_relation_hint c = RH_CORRECTION \<longrightarrow>
            cd_value c \<noteq> FV_UNKNOWN \<and> fa_value a \<noteq> FV_UNKNOWN \<and> fa_value a \<noteq> cd_value c))) \<and>
    p = (if outstanding = FC_LOCATION_CHECKED then proof else None)"
proof -
  from assms have auth: "authoritative_interpretation casefold content outstanding active proof = Inr c"
    and rest: "message_case_id = Some case_id" "role = ''customer''" "cd_fact_code c = outstanding"
      "p = (if outstanding = FC_LOCATION_CHECKED then proof else None)"
    by (auto simp: validate_fact_candidate_def bindE_eq_Inr split: if_splits)
  from auth rest show ?thesis
    by (elim authoritative_Inr) (simp add: interpret_customer_reply_def auth)
qed

text \<open>A reply to the question whether the parcel is still missing in which some phrase says that it
  arrived is read as "received", whatever else it says: a customer who writes that the parcel is shown as
  received but did not arrive has the opposite recorded.\<close>

theorem received_phrase_outweighs_denial:
  assumes "contains_any (casefold content) received_cues" "\<not> contains_any (casefold content) unknown_cues"
    "\<not> list_all is_space content"
  shows "\<exists>c. interpret_customer_reply casefold content FC_STILL_MISSING [] proof = Inr (Some c) \<and>
    cd_value c = FV_FALSE"
  using assms
  by (cases content) (auto simp: interpret_customer_reply_def authoritative_interpretation_def supported_value_def
      check_fact_candidate_def targeted_relation_def Let_def opt_in_def)

section \<open>Questions\<close>

lemma question_state_asks:
  "qu_asks (question_state_for case_id questions code entry proof) =
   length (filter (\<lambda>q. fq_case_id q = case_id \<and> fq_fact_code q = code) questions)"
  by (simp add: question_state_for_def Let_def)

lemma question_allowed_bounds:
  assumes "question_allowed s code g"
    "sn_question_state s = (\<lambda>code. question_state_for case_id questions code (sn_facts s code) current_proof)"
  shows "g < 2 \<and> (filter (\<lambda>q. fq_case_id q = case_id \<and> fq_fact_code q = code) questions = [] \<or>
     fe_status (sn_facts s code) = FS_CONFLICT \<and>
     \<not> list_ex fq_targeted_conflict (filter (\<lambda>q. fq_case_id q = case_id \<and> fq_fact_code q = code) questions))"
  using assms
  by (auto simp: question_allowed_def question_state_for_def Let_def split: if_splits)

text \<open>The question gate keeps the two-question budget of the case: when it allows a question, at most
  one question was asked on the case before, the fact was never asked about or is in a conflict that was
  not yet addressed, and the snapshot with the new question on record is rebuilt without an error.\<close>

theorem question_gate_keeps_budget:
  assumes hex: "\<And>j. is_sha256_hex (sha j)"
    and run: "rebuild_case_fact_snapshot sha case_id assertions questions current_proof rebuilt_at = Inr s"
    and allowed: "question_allowed s code (length (filter (\<lambda>q. fq_case_id q = case_id) questions))"
    and new: "fq_case_id q = case_id" "fq_fact_code q = code"
  shows "length (filter (\<lambda>q. fq_case_id q = case_id) (questions @ [q])) \<le> 2 \<and>
    (filter (\<lambda>q. fq_case_id q = case_id \<and> fq_fact_code q = code) questions = [] \<or>
     fe_status (sn_facts s code) = FS_CONFLICT \<and>
     \<not> list_ex fq_targeted_conflict (filter (\<lambda>q. fq_case_id q = case_id \<and> fq_fact_code q = code) questions)) \<and>
    (\<exists>s'. rebuild_case_fact_snapshot sha case_id assertions (questions @ [q]) current_proof rebuilt_at = Inr s' \<and>
       sn_facts s' = sn_facts s \<and> sn_revision s' = Suc (sn_revision s))"
proof -
  let ?mine = "\<lambda>qs. filter (\<lambda>q. fq_case_id q = case_id) qs"
  let ?of = "\<lambda>qs c. filter (\<lambda>q. fq_case_id q = case_id \<and> fq_fact_code q = c) qs"
  from run obtain ordered st where ordered: "ordered_assertions assertions = Inr ordered"
    and scan: "foldE (scan_assertion case_id) \<lparr>sx_ids = [], sx_invalid = [], sx_superseders = []\<rparr> ordered = Inr st"
    and facts: "sn_facts s = (\<lambda>code. entry_for code (filter (\<lambda>a. fa_fact_code a = code) ordered) current_proof
                       (code \<in> set (sx_invalid st)) (code \<in> set (competing_codes st)))"
    and qs: "sn_question_state s = (\<lambda>code. question_state_for case_id questions code (sn_facts s code) current_proof)"
    by (rule rebuild_Inr)
  from run ordered scan have valid: "sn_case_id s = case_id" "case_id \<noteq> []" "length case_id \<le> 64" "is_aware rebuilt_at"
    "sn_revision s = length ordered + length (?mine questions)"
    by (auto simp: rebuild_case_fact_snapshot_def Let_def bindE_eq_Inr check_fact_snapshot_def
        split: if_splits)
  note bounds = question_allowed_bounds [OF allowed qs]
  have part: "length (?of qs c) \<le> length (?mine qs)" for qs :: "fact_question list" and c
    by (induction qs) auto
  have two: "length (?mine (questions @ [q])) \<le> 2" using bounds by simp
  then have asks: "length (?of (questions @ [q]) c) \<le> 2" for c
    using part [of c "questions @ [q]"] by (rule le_trans [rotated])
  have check: "check_question_state (question_state_for case_id (questions @ [q]) c e current_proof) =
      Inr (question_state_for case_id (questions @ [q]) c e current_proof)" for c e
    using asks [of c] by (simp add: check_question_state_def question_state_asks del: filter_append)
  have "\<exists>s'. rebuild_case_fact_snapshot sha case_id assertions (questions @ [q]) current_proof rebuilt_at = Inr s' \<and>
       sn_facts s' = sn_facts s \<and> sn_revision s' = Suc (sn_revision s)"
    using hex valid new
    by (simp add: rebuild_case_fact_snapshot_def ordered scan Let_def check all_fact_codes_def
        check_fact_snapshot_def facts del: filter_append) simp
  with two bounds show ?thesis by simp
qed

section \<open>Witnesses\<close>

definition w_hash :: string where
  "w_hash = replicate 64 (CHR ''a'')"

definition w_assertion :: "string \<Rightarrow> fact_code \<Rightarrow> fact_value \<Rightarrow> relation_hint \<Rightarrow> string option \<Rightarrow> int \<Rightarrow> fact_assertion" where
  "w_assertion i code v rel target n =
     \<lparr>fa_assertion_id = i, fa_case_id = ''case1'', fa_fact_code = code, fa_value = v,
      fa_source_message_id = ''m'' @ i, fa_source_message_hash = w_hash, fa_span_start = 0, fa_span_end = 4,
      fa_relation = rel, fa_supersedes = target, fa_extractor_kind = ''deterministic'',
      fa_extractor_version = ''case-fact-deterministic-v1'', fa_context_tool_call_id = None,
      fa_context_result_hash = None, fa_sequence = n, fa_recorded_at = Aware 0\<rparr>"

text \<open>The customer first said that the parcel is still missing, then corrected that.\<close>

definition w_history :: "fact_assertion list" where
  "w_history =
     [w_assertion ''a1'' FC_STILL_MISSING FV_TRUE RH_NEW None 1,
      w_assertion ''a2'' FC_STILL_MISSING FV_FALSE RH_CORRECTION (Some ''a1'') 2]"

definition w_rebuild :: "fact_assertion list \<Rightarrow> fact_question list \<Rightarrow> fact_snapshot result" where
  "w_rebuild as qs = rebuild_case_fact_snapshot (\<lambda>_. w_hash) ''case1'' as qs None (Aware 0)"

definition w_question :: fact_question where
  "w_question = \<lparr>fq_question_id = ''q1'', fq_case_id = ''case1'', fq_fact_code = FC_STILL_MISSING,
     fq_context_result_hash = None, fq_targeted_conflict = False, fq_asked_at = Aware 0\<rparr>"

text \<open>The messages "\<open>not received\<close>" and "\<open>shown as received but I did not receive it\<close>".\<close>

definition w_missing :: utext where
  "w_missing = [27809, 25910, 21040]"

definition w_contradictory :: utext where
  "w_contradictory = [26174, 31034, 24050, 25910, 21040, 20294, 25105, 27809, 25910, 21040]"

lemma known_fact_iff_supported_witness:
  "\<exists>s. w_rebuild w_history [] = Inr s \<and> fe_status (sn_facts s FC_STILL_MISSING) = FS_KNOWN_FALSE \<and>
     speaks_for FC_STILL_MISSING None
       (active_assertions (filter (\<lambda>a. fa_fact_code a = FC_STILL_MISSING) (sort_key fa_sequence w_history))) FV_FALSE"
proof -
  have "case w_rebuild w_history [] of Inl _ \<Rightarrow> False
    | Inr s \<Rightarrow> value_of_status (fe_status (sn_facts s FC_STILL_MISSING)) = Some FV_FALSE" by code_simp
  then obtain s where s: "w_rebuild w_history [] = Inr s"
    and known: "value_of_status (fe_status (sn_facts s FC_STILL_MISSING)) = Some FV_FALSE"
    by (auto split: sum.splits)
  from s known_fact_iff_supported [OF s [unfolded w_rebuild_def], of FC_STILL_MISSING FV_FALSE] known
  show ?thesis by (auto simp: value_of_status_def split: fact_status.splits)
qed

lemma rebuild_order_independent_witness:
  "w_history \<noteq> rev w_history \<and> w_rebuild w_history [] = w_rebuild (rev w_history) []"
proof -
  have "w_history \<noteq> rev w_history" by code_simp
  then show ?thesis unfolding w_rebuild_def using rebuild_order_independent [of w_history "rev w_history"] by simp
qed

lemmas cue_simps = contains_any_def unknown_cues_def correction_cues_def withdrawal_cues_def
  received_cues_def missing_cues_def

lemma accepted_candidate_is_authoritative_witness:
  "\<exists>c. interpret_customer_reply id w_missing FC_STILL_MISSING [] None = Inr (Some c) \<and> cd_value c = FV_TRUE \<and>
     cd_span_end c = 3"
proof -
  let ?c = "\<lparr>cd_fact_code = FC_STILL_MISSING, cd_value = FV_TRUE, cd_relation_hint = RH_NEW,
     cd_target_assertion_id = None, cd_span_start = 0, cd_span_end = 3\<rparr>"
  have "validate_fact_candidate id ?c ''case1'' (Some ''case1'') ''customer'' w_missing FC_STILL_MISSING [] None = Inr None"
    by (simp add: w_missing_def validate_fact_candidate_def authoritative_interpretation_def supported_value_def
        cue_simps is_space_def check_fact_candidate_def targeted_relation_def opt_in_def)
  from accepted_candidate_is_authoritative [OF this] show ?thesis by (intro exI [of _ ?c]) simp
qed

lemma received_phrase_outweighs_denial_witness:
  "contains_any w_contradictory missing_cues \<and>
   (\<exists>c. interpret_customer_reply id w_contradictory FC_STILL_MISSING [] None = Inr (Some c) \<and> cd_value c = FV_FALSE)"
proof -
  have missing: "contains_any w_contradictory missing_cues"
    by (simp add: w_contradictory_def cue_simps)
  have received: "contains_any (id w_contradictory) received_cues"
    by (simp add: w_contradictory_def cue_simps)
  have "\<not> contains_any (id w_contradictory) unknown_cues"
    by (simp add: w_contradictory_def cue_simps)
  moreover have "\<not> list_all is_space w_contradictory"
    by (simp add: w_contradictory_def is_space_def)
  ultimately show ?thesis
    by (intro conjI missing received_phrase_outweighs_denial [of id w_contradictory, OF received])
qed

lemma question_gate_keeps_budget_witness:
  "\<exists>s'. w_rebuild [] [w_question] = Inr s' \<and> sn_revision s' = 1 \<and> \<not> question_allowed s' FC_STILL_MISSING 1"
proof -
  have "case w_rebuild [] [] of Inl _ \<Rightarrow> False
    | Inr s \<Rightarrow> question_allowed s FC_STILL_MISSING 0 \<and> sn_revision s = 0" by code_simp
  then obtain s where s: "w_rebuild [] [] = Inr s" "question_allowed s FC_STILL_MISSING 0" "sn_revision s = 0"
    by (cases "w_rebuild [] []") simp_all
  have hex: "is_sha256_hex w_hash" by code_simp
  have q: "fq_case_id w_question = ''case1''" "fq_fact_code w_question = FC_STILL_MISSING"
    by (simp_all add: w_question_def)
  from question_gate_keeps_budget [of "\<lambda>_. w_hash", OF hex s(1) [unfolded w_rebuild_def] _ q] s(2)
  obtain s' where s': "w_rebuild [] [w_question] = Inr s'" "sn_revision s' = Suc (sn_revision s)"
    by (auto simp: w_rebuild_def)
  have "case w_rebuild [] [w_question] of Inl _ \<Rightarrow> False
    | Inr s \<Rightarrow> \<not> question_allowed s FC_STILL_MISSING 1" by code_simp
  with s' s(3) show ?thesis by simp
qed

end

