(* ===== verification/Authorization.thy ===== *)
theory Authorization
  imports Prelude
begin

text \<open>
  Object authorization, \<open>policy/authorization.py\<close>.  The protocol \<open>OrderOwnershipSource\<close> is the locale
  \<open>ownership_source\<close>: a lookup by order id that answers with a record of that order.  Its client
  lemmas say what a grant binds and that a denial depends on nothing but the customer's own orders.
\<close>

record ownership =
  ow_order_id :: string
  ow_customer_id :: string
  ow_source_revision :: string

record grant =
  ag_customer_id :: string
  ag_order_id :: string
  ag_source_revision :: string

definition order_not_found_or_forbidden :: string where
  "order_not_found_or_forbidden = ''ORDER_NOT_FOUND_OR_FORBIDDEN''"

definition authorize_order ::
  "string \<Rightarrow> string \<Rightarrow> (string \<Rightarrow> ownership option) \<Rightarrow> grant result" where
  "authorize_order customer_id order_id get_order_for_authorization =
    (case get_order_for_authorization order_id of
       None \<Rightarrow> Inl (AuthorizationError order_not_found_or_forbidden)
     | Some record \<Rightarrow>
         if ow_customer_id record \<noteq> customer_id
           then Inl (AuthorizationError order_not_found_or_forbidden)
         else Inr \<lparr>ag_customer_id = customer_id, ag_order_id = ow_order_id record,
                   ag_source_revision = ow_source_revision record\<rparr>)"

lemma authorize_order_cases:
  obtains (denied) "authorize_order c oid src = Inl (AuthorizationError order_not_found_or_forbidden)"
  | (granted) r where "src oid = Some r" "ow_customer_id r = c"
      "authorize_order c oid src = Inr \<lparr>ag_customer_id = c, ag_order_id = ow_order_id r,
         ag_source_revision = ow_source_revision r\<rparr>"
proof (cases "src oid")
  case None
  then show thesis by (intro denied) (simp add: authorize_order_def)
next
  case (Some r)
  then show thesis
    by (cases "ow_customer_id r = c") (auto simp: authorize_order_def intro: denied granted)
qed

lemma authorize_order_Inl:
  "authorize_order c oid src = Inl e \<Longrightarrow> e = AuthorizationError order_not_found_or_forbidden"
  by (rule authorize_order_cases [of c oid src]) auto

text \<open>What the customer owns of a source: everything else is invisible to authorization.\<close>

definition owned_view :: "string \<Rightarrow> (string \<Rightarrow> ownership option) \<Rightarrow> string \<Rightarrow> ownership option" where
  "owned_view c src oid =
    (case src oid of None \<Rightarrow> None | Some r \<Rightarrow> if ow_customer_id r = c then Some r else None)"

lemma authorize_owned_view: "authorize_order c oid (owned_view c src) = authorize_order c oid src"
  by (simp add: authorize_order_def owned_view_def split: option.splits)

locale ownership_source =
  fixes lookup :: "'s \<Rightarrow> string \<Rightarrow> ownership option"
    and valid :: "'s \<Rightarrow> bool"
  assumes lookup_key: "valid s \<Longrightarrow> lookup s oid = Some r \<Longrightarrow> ow_order_id r = oid"
begin

lemma granted_iff:
  assumes "valid s"
  shows "authorize_order c oid (lookup s) = Inr g \<longleftrightarrow>
    (\<exists>r. lookup s oid = Some r \<and> ow_customer_id r = c \<and>
       g = \<lparr>ag_customer_id = c, ag_order_id = oid, ag_source_revision = ow_source_revision r\<rparr>)"
  using assms by (auto simp: authorize_order_def dest: lookup_key split: option.splits if_splits)

lemma granted_order_id:
  "valid s \<Longrightarrow> authorize_order c oid (lookup s) = Inr g \<Longrightarrow> ag_order_id g = oid \<and> ag_customer_id g = c"
  by (auto simp: granted_iff)

lemma own_orders_only:
  assumes "\<And>oid. owned_view c (lookup s) oid = owned_view c (lookup s') oid"
  shows "authorize_order c oid (lookup s) = authorize_order c oid (lookup s')"
proof -
  have "owned_view c (lookup s) = owned_view c (lookup s')" using assms by auto
  then show ?thesis by (metis authorize_owned_view)
qed

end

end
