(* ===== verification/FixtureStore.thy ===== *)
theory FixtureStore
  imports ToolContracts Authorization "HOL-Library.List_Lexorder" "HOL-Library.Char_ord"
begin

text \<open>
  The in-memory source adapter \<open>FixtureStore\<close> of \<open>fixtures/catalog.py\<close> with the record types it serves
  (the shipment, customer and investigation rows are those of \<open>fixtures/business_demo.py\<close>).

  \<^item> Every dictionary is an association list in insertion order, so \<open>d.values()\<close> is \<open>map snd d\<close>.
  \<^item> Ownership lookups interpret the locale \<open>ownership_source\<close>; adding a ticket is idempotent by
    identity and changes the source revision of the ticket tool; scripted action faults are consumed
    one by one.
  \<^item> \<open>fault_profiles\<close>, \<open>scenario_catalog\<close> and \<open>business_policy_clauses\<close> are metadata that the store only
    hands back; they are left out.
\<close>

section \<open>Records\<close>

record order_fixture =
  of_order_id :: string
  of_customer_id :: string
  of_order_status :: order_status
  of_tracking_number :: "string option"
  of_service_level :: string
  of_region :: string
  of_shipped_at :: "datetime option"
  of_delivered_at :: "datetime option"
  of_source_revision :: string

definition check_order_fixture :: "order_fixture \<Rightarrow> order_fixture result" where
  "check_order_fixture f =
    (if of_order_id f = [] then Inl (ValueError ''order_id'')
     else if of_customer_id f = [] then Inl (ValueError ''customer_id'')
     else if of_service_level f = [] then Inl (ValueError ''service_level'')
     else if of_region f = [] then Inl (ValueError ''region'')
     else if of_source_revision f = [] then Inl (ValueError ''source_revision'')
     else if \<not> opt_aware (of_shipped_at f)
       then Inl (ValueError ''shipped_at must be timezone-aware'')
     else if \<not> opt_aware (of_delivered_at f)
       then Inl (ValueError ''delivered_at must be timezone-aware'')
     else Inr f)"

record proof_fixture =
  px_proof_id :: string
  px_order_id :: string
  px_shipment_id :: "string option"
  px_recipient_type :: "string option"
  px_signed_at :: "datetime option"
  px_note :: "string option"

definition check_proof_fixture :: "proof_fixture \<Rightarrow> proof_fixture result" where
  "check_proof_fixture f =
    (if px_proof_id f = [] then Inl (ValueError ''proof_id'')
     else if px_order_id f = [] then Inl (ValueError ''order_id'')
     else if \<not> opt_aware (px_signed_at f)
       then Inl (ValueError ''signed_at must be timezone-aware'')
     else Inr f)"

record fixture_fault =
  ff_execution_status :: execution_status
  ff_error_code :: string

definition check_fixture_fault :: "fixture_fault \<Rightarrow> fixture_fault result" where
  "check_fixture_fault f =
    (if ff_error_code f = [] then Inl (ValueError ''error_code'')
     else if ff_execution_status f = ES_SUCCESS
       then Inl (ValueError ''a fixture fault cannot have success status'')
     else Inr f)"

record action_fault =
  af_action_state :: action_state
  af_error_code :: string

definition check_action_fault :: "action_fault \<Rightarrow> action_fault result" where
  "check_action_fault f =
    (if af_error_code f = [] then Inl (ValueError ''error_code'')
     else if af_action_state f \<notin> {AS_FAILED_RETRYABLE, AS_FAILED_TERMINAL, AS_UNCERTAIN}
       then Inl (ValueError ''an action fixture fault must model a failure or uncertainty'')
     else Inr f)"

record shipment_record =
  sh_shipment_id :: string
  sh_order_id :: string
  sh_package_sequence :: int
  sh_package_count :: int
  sh_tracking_number :: string
  sh_shipment_status :: string
  sh_carrier_code :: string

record customer_record =
  cu_customer_id :: string
  cu_customer_key :: string
  cu_display_name :: string
  cu_region :: string
  cu_default_service_level :: string

record investigation_record =
  iv_case_id :: string
  iv_customer_id :: string
  iv_order_id :: string
  iv_issue_type :: issue_type
  iv_case_state :: string
  iv_case_outcome :: "string option"
  iv_reason_code :: string
  iv_created_at :: datetime
  iv_updated_at :: datetime
  iv_target_shipment_id :: "string option"
  iv_stage :: string
  iv_next_update_at :: "datetime option"

section \<open>The store\<close>

record fixture_store =
  fs_fixture_version :: string
  fs_orders :: "(string \<times> order_fixture) list"
  fs_timelines :: "(string \<times> timeline_event list) list"
  fs_delivery_proofs :: "(string \<times> proof_fixture) list"
  fs_carrier_alerts :: "(string \<times> carrier_alert list) list"
  fs_base_tickets :: "(string \<times> logistics_ticket) list"
  fs_dynamic_tickets :: "(string \<times> logistics_ticket) list"
  fs_ticket_revision :: nat
  fs_faults :: "((string \<times> string \<times> nat) \<times> fixture_fault) list"
  fs_action_fault_plan :: "(string \<times> action_fault list) list"
  fs_action_fault_positions :: "(string \<times> nat) list"
  fs_policy_resolution_override :: "policy_resolution_status option"
  fs_customers :: "(string \<times> customer_record) list"
  fs_shipments :: "(string \<times> shipment_record list) list"
  fs_investigation_cases :: "investigation_record list"

definition get_list :: "('k \<times> 'v list) list \<Rightarrow> 'k \<Rightarrow> 'v list" where
  "get_list d k = (case map_of d k of None \<Rightarrow> [] | Some xs \<Rightarrow> xs)"

text \<open>\<open>d.setdefault(key(x), []).append(x)\<close> for every \<open>x\<close>.\<close>

definition group_by :: "('x \<Rightarrow> 'k) \<Rightarrow> 'x list \<Rightarrow> ('k \<times> 'x list) list" where
  "group_by key xs = foldl (\<lambda>d x. AList.update (key x) (get_list d (key x) @ [x]) d) [] xs"

definition fixture_store_init ::
  "string \<Rightarrow> order_fixture list \<Rightarrow> (string \<times> timeline_event list) list \<Rightarrow>
   (string \<times> proof_fixture) list \<Rightarrow> (string \<times> carrier_alert list) list \<Rightarrow>
   logistics_ticket list \<Rightarrow> ((string \<times> string \<times> nat) \<times> fixture_fault) list \<Rightarrow>
   (string \<times> action_fault list) list \<Rightarrow> policy_resolution_status option \<Rightarrow>
   customer_record list \<Rightarrow> shipment_record list \<Rightarrow> investigation_record list \<Rightarrow> fixture_store" where
  "fixture_store_init version orders timelines proofs alerts tickets faults action_faults override
     customers shipments investigations =
    \<lparr>fs_fixture_version = version,
     fs_orders = dict_of of_order_id orders,
     fs_timelines = timelines,
     fs_delivery_proofs = proofs,
     fs_carrier_alerts = alerts,
     fs_base_tickets = dict_of lg_ticket_id tickets,
     fs_dynamic_tickets = [],
     fs_ticket_revision = 0,
     fs_faults = faults,
     fs_action_fault_plan = action_faults,
     fs_action_fault_positions = [],
     fs_policy_resolution_override = override,
     fs_customers = dict_of cu_customer_key customers,
     fs_shipments = group_by sh_order_id shipments,
     fs_investigation_cases = investigations\<rparr>"

definition ownership_of :: "order_fixture \<Rightarrow> ownership" where
  "ownership_of o' = \<lparr>ow_order_id = of_order_id o', ow_customer_id = of_customer_id o',
                     ow_source_revision = of_source_revision o'\<rparr>"

definition get_order_for_authorization :: "fixture_store \<Rightarrow> string \<Rightarrow> ownership option" where
  "get_order_for_authorization s order_id = map_option ownership_of (map_of (fs_orders s) order_id)"

definition get_authorized_order :: "fixture_store \<Rightarrow> string \<Rightarrow> order_fixture result" where
  "get_authorized_order s order_id =
    (case map_of (fs_orders s) order_id of
       None \<Rightarrow> Inl (KeyError order_id)
     | Some o' \<Rightarrow> Inr o')"

definition customer_keys :: "fixture_store \<Rightarrow> string list" where
  "customer_keys s =
    (if fs_customers s \<noteq> [] then sort (map fst (fs_customers s))
     else sort (remdups (map (of_customer_id \<circ> snd) (fs_orders s))))"

definition list_orders_for_customer :: "fixture_store \<Rightarrow> string \<Rightarrow> order_fixture list" where
  "list_orders_for_customer s key =
     sort_key of_order_id (filter (\<lambda>o'. of_customer_id o' = key) (map snd (fs_orders s)))"

definition get_customer :: "fixture_store \<Rightarrow> string \<Rightarrow> customer_record option" where
  "get_customer s key = map_of (fs_customers s) key"

definition get_shipments :: "fixture_store \<Rightarrow> string \<Rightarrow> shipment_record list" where
  "get_shipments s order_id = get_list (fs_shipments s) order_id"

definition get_timeline :: "fixture_store \<Rightarrow> string \<Rightarrow> string option \<Rightarrow> timeline_event list" where
  "get_timeline s order_id shipment_id =
    (let events = get_list (fs_timelines s) order_id in
     case shipment_id of
       None \<Rightarrow> events
     | Some sid \<Rightarrow> filter (\<lambda>e. te_shipment_id e \<in> {None, Some sid}) events)"

definition get_delivery_proof ::
  "fixture_store \<Rightarrow> string \<Rightarrow> string option \<Rightarrow> proof_fixture option" where
  "get_delivery_proof s order_id shipment_id =
    (case map_of (fs_delivery_proofs s) order_id of
       None \<Rightarrow> None
     | Some proof \<Rightarrow>
         if shipment_id \<noteq> None \<and> px_shipment_id proof \<notin> {None, shipment_id} then None
         else Some proof)"

definition get_carrier_alerts :: "fixture_store \<Rightarrow> string \<Rightarrow> carrier_alert list" where
  "get_carrier_alerts s order_id = get_list (fs_carrier_alerts s) order_id"

definition all_tickets :: "fixture_store \<Rightarrow> logistics_ticket list" where
  "all_tickets s = map snd (fs_base_tickets s) @ map snd (fs_dynamic_tickets s)"

definition get_active_tickets ::
  "fixture_store \<Rightarrow> string \<Rightarrow> issue_type \<Rightarrow> string option \<Rightarrow> logistics_ticket list" where
  "get_active_tickets s order_id issue target =
     filter (\<lambda>t. lg_order_id t = order_id \<and> lg_issue_type t = issue \<and>
                 lg_ticket_status t \<in> set active_ticket_statuses \<and>
                 (target = None \<or> lg_target_shipment_id t \<in> {None, target}))
       (all_tickets s)"

definition get_active_investigations ::
  "fixture_store \<Rightarrow> string \<Rightarrow> issue_type \<Rightarrow> string option \<Rightarrow> existing_investigation list result" where
  "get_active_investigations s order_id issue target =
     mapE (\<lambda>r. check_existing_investigation
             \<lparr>ei_case_id = iv_case_id r, ei_order_id = iv_order_id r,
              ei_issue_type = iv_issue_type r, ei_target_shipment_id = iv_target_shipment_id r,
              ei_stage = iv_stage r, ei_updated_at = iv_updated_at r,
              ei_next_update_at = iv_next_update_at r, ei_status = Some (iv_case_state r),
              ei_opened_at = None, ei_last_updated_at = None, ei_target_order_id = None,
              ei_is_active = None, ei_created_at = Some (iv_created_at r)\<rparr>)
       (filter (\<lambda>r. \<not> (iv_order_id r \<noteq> order_id \<or> iv_issue_type r \<noteq> issue \<or>
                        iv_case_state r \<notin> set active_investigation_statuses \<or>
                        (target \<noteq> None \<and> iv_target_shipment_id r \<noteq> None \<and>
                         iv_target_shipment_id r \<noteq> target)))
         (fs_investigation_cases s))"

definition package_events :: "fixture_store \<Rightarrow> string \<Rightarrow> string \<Rightarrow> timeline_event list" where
  "package_events s order_id sid =
     filter (\<lambda>e. te_shipment_id e = Some sid) (get_list (fs_timelines s) order_id)"

definition shipment_summary_rows :: "fixture_store \<Rightarrow> string \<Rightarrow> shipment_summary list result" where
  "shipment_summary_rows s order_id =
     mapE (\<lambda>h. let events = package_events s order_id (sh_shipment_id h);
                  first = (\<lambda>st. map_option te_occurred_at (List.find (\<lambda>e. te_status e = st) events))
              in check_shipment_summary
                   \<lparr>ss_shipment_id = sh_shipment_id h, ss_package_sequence = sh_package_sequence h,
                    ss_package_count = sh_package_count h,
                    ss_tracking_number = sh_tracking_number h,
                    ss_shipment_status = sh_shipment_status h,
                    ss_carrier_code = sh_carrier_code h, ss_shipped_at = first ''shipped'',
                    ss_delivered_at = first ''delivered'',
                    ss_last_update_at = latest (map te_occurred_at events)\<rparr>)
       (sort_key sh_package_sequence (get_shipments s order_id))"

definition hours_between :: "datetime \<Rightarrow> datetime \<Rightarrow> rat" where
  "hours_between now prev =
     max 0 (of_int (instant now - instant prev) / of_int microseconds_per_hour)"

definition shipment_timelines ::
  "fixture_store \<Rightarrow> string \<Rightarrow> datetime \<Rightarrow> shipment_timeline list result" where
  "shipment_timelines s order_id evaluated_at =
     bindE (shipment_summary_rows s order_id) (\<lambda>rows.
       mapE (\<lambda>r. check_shipment_timeline
               \<lparr>st_shipment_id = ss_shipment_id r, st_package_sequence = ss_package_sequence r,
                st_events = package_events s order_id (ss_shipment_id r),
                st_last_update_at = ss_last_update_at r,
                st_hours_since_last_update =
                  map_option (hours_between evaluated_at) (ss_last_update_at r)\<rparr>) rows)"

section \<open>State changes\<close>

definition add_ticket ::
  "fixture_store \<Rightarrow> logistics_ticket \<Rightarrow> (logistics_ticket \<times> fixture_store) result" where
  "add_ticket s t =
    (case (case map_of (fs_base_tickets s) (lg_ticket_id t) of
             Some e \<Rightarrow> Some e | None \<Rightarrow> map_of (fs_dynamic_tickets s) (lg_ticket_id t)) of
       Some existing \<Rightarrow>
         if existing \<noteq> t
           then Inl (ValueError ''ticket_id already exists with different content'')
         else Inr (existing, s)
     | None \<Rightarrow>
         Inr (t, s\<lparr>fs_dynamic_tickets := AList.update (lg_ticket_id t) t (fs_dynamic_tickets s),
                   fs_ticket_revision := fs_ticket_revision s + 1\<rparr>))"

definition reset_dynamic_tickets :: "fixture_store \<Rightarrow> fixture_store" where
  "reset_dynamic_tickets s =
    (let s' = (if fs_dynamic_tickets s \<noteq> []
               then s\<lparr>fs_dynamic_tickets := [], fs_ticket_revision := fs_ticket_revision s + 1\<rparr>
               else s)
     in s'\<lparr>fs_action_fault_positions := []\<rparr>)"

definition get_fault :: "fixture_store \<Rightarrow> string \<Rightarrow> string \<Rightarrow> nat \<Rightarrow> fixture_fault option" where
  "get_fault s seed tool attempt = map_of (fs_faults s) (seed, tool, attempt)"

definition get_or :: "('k \<times> 'v) list \<Rightarrow> 'k \<Rightarrow> 'v \<Rightarrow> 'v" where
  "get_or d k v = (case map_of d k of None \<Rightarrow> v | Some x \<Rightarrow> x)"

definition consume_action_fault ::
  "fixture_store \<Rightarrow> string \<Rightarrow> action_fault option \<times> fixture_store" where
  "consume_action_fault s seed =
    (let plan = get_list (fs_action_fault_plan s) seed;
         position = get_or (fs_action_fault_positions s) seed 0
     in if length plan \<le> position then (None, s)
        else (Some (plan ! position),
              s\<lparr>fs_action_fault_positions :=
                  AList.update seed (position + 1) (fs_action_fault_positions s)\<rparr>))"

text \<open>\<open>sha\<close> and \<open>dump_proof\<close> are the digest and the canonical dump of a delivery proof.\<close>

definition source_revision ::
  "(json \<Rightarrow> string) \<Rightarrow> (proof_fixture \<Rightarrow> json) \<Rightarrow> fixture_store \<Rightarrow> string \<Rightarrow> string \<Rightarrow>
   string result" where
  "source_revision sha dump_proof s order_id tool_name =
    (case map_of (fs_orders s) order_id of
       None \<Rightarrow> Inl (KeyError order_id)
     | Some o' \<Rightarrow>
         let proof_revision =
               (if tool_name = ''get_delivery_proof''
                then '':pod-'' @ take 16 (sha (case map_of (fs_delivery_proofs s) order_id of
                                                 None \<Rightarrow> JNull | Some p \<Rightarrow> dump_proof p))
                else []);
             extra = (if tool_name = ''get_existing_logistics_tickets''
                      then '':tickets-r'' @ nat_str (fs_ticket_revision s) else [])
         in Inr (fs_fixture_version s @ '':'' @ of_source_revision o' @ '':'' @ tool_name @
                 proof_revision @ extra))"

text \<open>The isolated variants: every one rebuilds the store, with the dynamic tickets in its base.\<close>

definition rebuild ::
  "fixture_store \<Rightarrow> order_fixture list \<Rightarrow> (string \<times> proof_fixture) list \<Rightarrow>
   ((string \<times> string \<times> nat) \<times> fixture_fault) list \<Rightarrow> (string \<times> action_fault list) list \<Rightarrow>
   policy_resolution_status option \<Rightarrow> fixture_store" where
  "rebuild s orders proofs faults action_faults override =
     fixture_store_init (fs_fixture_version s) orders (fs_timelines s) proofs (fs_carrier_alerts s)
       (all_tickets s) faults action_faults override (map snd (fs_customers s))
       (concat (map snd (fs_shipments s))) (fs_investigation_cases s)"

definition with_faults ::
  "fixture_store \<Rightarrow> ((string \<times> string \<times> nat) \<times> fixture_fault) list \<Rightarrow> fixture_store" where
  "with_faults s faults =
     rebuild s (map snd (fs_orders s)) (fs_delivery_proofs s) faults (fs_action_fault_plan s)
       (fs_policy_resolution_override s)"

definition with_delivery_proofs ::
  "fixture_store \<Rightarrow> (string \<times> proof_fixture) list \<Rightarrow> fixture_store" where
  "with_delivery_proofs s proofs =
     rebuild s (map snd (fs_orders s)) proofs (fs_faults s) (fs_action_fault_plan s)
       (fs_policy_resolution_override s)"

definition with_orders :: "fixture_store \<Rightarrow> order_fixture list \<Rightarrow> fixture_store" where
  "with_orders s orders =
     rebuild s orders (fs_delivery_proofs s) (fs_faults s) (fs_action_fault_plan s)
       (fs_policy_resolution_override s)"

definition with_action_faults ::
  "fixture_store \<Rightarrow> (string \<times> action_fault list) list \<Rightarrow> fixture_store" where
  "with_action_faults s action_faults =
     rebuild s (map snd (fs_orders s)) (fs_delivery_proofs s) (fs_faults s) action_faults
       (fs_policy_resolution_override s)"

definition with_policy_resolution_override ::
  "fixture_store \<Rightarrow> policy_resolution_status option \<Rightarrow> fixture_store" where
  "with_policy_resolution_override s override =
     rebuild s (map snd (fs_orders s)) (fs_delivery_proofs s) (fs_faults s)
       (fs_action_fault_plan s) override"

section \<open>Well-formed stores\<close>

text \<open>Every row is stored under its own identity, and a dynamic ticket never shadows a base one.\<close>

definition keyed :: "('x \<Rightarrow> 'k) \<Rightarrow> ('k \<times> 'x) list \<Rightarrow> bool" where
  "keyed key d \<longleftrightarrow> distinct (map fst d) \<and> (\<forall>k x. map_of d k = Some x \<longrightarrow> key x = k)"

definition wf_store :: "fixture_store \<Rightarrow> bool" where
  "wf_store s \<longleftrightarrow> keyed of_order_id (fs_orders s) \<and> keyed lg_ticket_id (fs_base_tickets s) \<and>
     keyed lg_ticket_id (fs_dynamic_tickets s) \<and>
     (\<forall>k. map_of (fs_base_tickets s) k \<noteq> None \<longrightarrow> map_of (fs_dynamic_tickets s) k = None)"

lemma keyed_dict_of [simp]: "keyed key (dict_of key xs)"
  unfolding keyed_def using distinct_dict_of dict_of_key by fast

lemma keyed_Nil [simp]: "keyed key []"
  by (simp add: keyed_def)

lemma keyed_update: "keyed key d \<Longrightarrow> keyed key (AList.update (key x) x d)"
  by (auto simp: keyed_def distinct_update update_conv')

lemma wf_store_init [simp]:
  "wf_store (fixture_store_init v os ts ps as tks fs afs ov cs ss is)"
  by (simp add: wf_store_def fixture_store_init_def)

lemma wf_rebuild [simp]: "wf_store (rebuild s os ps fs afs ov)"
  by (simp add: rebuild_def)

lemma wf_add_ticket: "wf_store s \<Longrightarrow> add_ticket s t = Inr (u, s') \<Longrightarrow> wf_store s'"
  by (auto simp: wf_store_def add_ticket_def keyed_update update_conv'
      split: option.splits if_splits)

lemma wf_reset [simp]: "wf_store s \<Longrightarrow> wf_store (reset_dynamic_tickets s)"
  by (auto simp: wf_store_def reset_dynamic_tickets_def Let_def)

lemma wf_consume: "wf_store s \<Longrightarrow> wf_store (snd (consume_action_fault s seed))"
  by (simp add: wf_store_def consume_action_fault_def Let_def)

interpretation fixture_orders: ownership_source get_order_for_authorization wf_store
proof (unfold_locales, goal_cases)
  case (1 s oid r)
  then show ?case
    by (auto simp: wf_store_def keyed_def get_order_for_authorization_def ownership_of_def)
qed

section \<open>Tickets\<close>

definition ticket_of :: "fixture_store \<Rightarrow> string \<Rightarrow> logistics_ticket option" where
  "ticket_of s tid = (case map_of (fs_base_tickets s) tid of
                        Some t \<Rightarrow> Some t | None \<Rightarrow> map_of (fs_dynamic_tickets s) tid)"

lemma add_ticket_ticket_of:
  "add_ticket s t =
    (case ticket_of s (lg_ticket_id t) of
       Some e \<Rightarrow> if e \<noteq> t then Inl (ValueError ''ticket_id already exists with different content'')
                 else Inr (e, s)
     | None \<Rightarrow> Inr (t, s\<lparr>fs_dynamic_tickets := AList.update (lg_ticket_id t) t (fs_dynamic_tickets s),
                         fs_ticket_revision := fs_ticket_revision s + 1\<rparr>))"
  by (simp add: add_ticket_def ticket_of_def)

lemma ticket_of_add:
  assumes "add_ticket s t = Inr (u, s')"
  shows "u = t" and "ticket_of s' tid = (if tid = lg_ticket_id t then Some t else ticket_of s tid)"
  using assms
  by (auto simp: add_ticket_def ticket_of_def update_conv' split: option.splits if_splits)

lemma add_ticket_keeps_tickets:
  "add_ticket s t = Inr (u, s') \<Longrightarrow> ticket_of s tid = Some v \<Longrightarrow> ticket_of s' tid = Some v"
  by (auto simp: add_ticket_ticket_of ticket_of_def update_conv' split: option.splits if_splits)

lemma add_ticket_revision:
  "add_ticket s t = Inr (u, s') \<Longrightarrow>
     fs_ticket_revision s' =
       (if ticket_of s (lg_ticket_id t) = None then fs_ticket_revision s + 1 else fs_ticket_revision s)"
  by (auto simp: add_ticket_ticket_of split: option.splits if_splits)

lemma add_ticket_frame:
  assumes "add_ticket s t = Inr (u, s')"
  shows "fs_orders s' = fs_orders s" "fs_delivery_proofs s' = fs_delivery_proofs s"
    "fs_fixture_version s' = fs_fixture_version s"
  using assms by (auto simp: add_ticket_ticket_of split: option.splits if_splits)

text \<open>Adding a ticket is idempotent by identity: the returned ticket is the requested one, it is
  then stored, a repetition changes nothing, other tickets are kept, and another content under the
  same identity is refused.\<close>

theorem add_ticket_idempotent:
  assumes "add_ticket s t = Inr (u, s')"
  shows "u = t \<and> ticket_of s' (lg_ticket_id t) = Some t \<and> add_ticket s' t = Inr (t, s') \<and>
    (\<forall>tid. tid \<noteq> lg_ticket_id t \<longrightarrow> ticket_of s' tid = ticket_of s tid) \<and>
    (\<forall>t2. lg_ticket_id t2 = lg_ticket_id t \<longrightarrow> t2 \<noteq> t \<longrightarrow>
       add_ticket s' t2 = Inl (ValueError ''ticket_id already exists with different content''))"
  using ticket_of_add [OF assms] by (auto simp: add_ticket_ticket_of)

definition sample_ticket :: logistics_ticket where
  "sample_ticket =
     \<lparr>lg_ticket_id = ''TK1'', lg_order_id = ''O1'', lg_issue_type = STALLED_TRACKING,
      lg_ticket_status = ''open'', lg_created_at = Aware 10, lg_target_shipment_id = None,
      lg_stage = Some ''open'', lg_next_update_at = None, lg_status = Some ''open'',
      lg_opened_at = Some (Aware 10), lg_last_updated_at = Some (Aware 10),
      lg_target_order_id = Some ''O1'', lg_is_active = Some True, lg_updated_at = Some (Aware 10)\<rparr>"

definition sample_fixture_order :: order_fixture where
  "sample_fixture_order =
     \<lparr>of_order_id = ''O1'', of_customer_id = ''alice'', of_order_status = OS_SHIPPED,
      of_tracking_number = Some ''T1'', of_service_level = ''standard'', of_region = ''cn-east'',
      of_shipped_at = None, of_delivered_at = None, of_source_revision = ''r1''\<rparr>"

definition sample_store :: fixture_store where
  "sample_store =
     fixture_store_init ''v1'' [sample_fixture_order] [] [] [] [] [] [] None [] [] []"

lemma sample_store_orders [simp]: "map_of (fs_orders sample_store) oid =
    (if oid = ''O1'' then Some sample_fixture_order else None)"
  by (simp add: sample_store_def fixture_store_init_def dict_of_def sample_fixture_order_def)

lemma sample_add_ticket:
  "\<exists>s'. add_ticket sample_store sample_ticket = Inr (sample_ticket, s') \<and> ticket_of sample_store ''TK1'' = None"
  by (simp add: add_ticket_def sample_store_def fixture_store_init_def dict_of_def ticket_of_def)

theorem add_ticket_idempotent_witness:
  "\<exists>s'. add_ticket sample_store sample_ticket = Inr (sample_ticket, s') \<and>
     add_ticket s' sample_ticket = Inr (sample_ticket, s')"
  using sample_add_ticket add_ticket_idempotent by blast

text \<open>A newly created ticket changes the source revision of the ticket tool, and of no other tool,
  so that cached ticket evidence read before the write can never be served after it.\<close>

theorem new_ticket_changes_ticket_revision_only:
  assumes "add_ticket s t = Inr (u, s')" and "ticket_of s (lg_ticket_id t) = None"
    and "source_revision sha dump s order_id tool = Inr r"
  shows "\<exists>r'. source_revision sha dump s' order_id tool = Inr r' \<and>
    (r' = r \<longleftrightarrow> tool \<noteq> ''get_existing_logistics_tickets'')"
  using assms add_ticket_frame [OF assms(1)] add_ticket_revision [OF assms(1)]
  by (auto simp: source_revision_def Let_def split: option.splits if_splits)

theorem new_ticket_changes_ticket_revision_only_witness:
  "\<exists>s' r. add_ticket sample_store sample_ticket = Inr (sample_ticket, s') \<and>
     source_revision (\<lambda>_. []) (\<lambda>_. JNull) sample_store ''O1'' ''get_existing_logistics_tickets'' = Inr r \<and>
     source_revision (\<lambda>_. []) (\<lambda>_. JNull) s' ''O1'' ''get_existing_logistics_tickets'' \<noteq> Inr r"
proof -
  obtain s' where s': "add_ticket sample_store sample_ticket = Inr (sample_ticket, s')"
    "ticket_of sample_store (lg_ticket_id sample_ticket) = None"
    using sample_add_ticket by (auto simp: sample_ticket_def)
  obtain r where r:
    "source_revision (\<lambda>_. []) (\<lambda>_. JNull) sample_store ''O1'' ''get_existing_logistics_tickets'' = Inr r"
    by (simp add: source_revision_def)
  from new_ticket_changes_ticket_revision_only [OF s' r] s' r show ?thesis by auto
qed

section \<open>Scripted action faults\<close>

text \<open>The outcomes of \<open>n\<close> successive consumptions.\<close>

fun consume_n :: "nat \<Rightarrow> fixture_store \<Rightarrow> string \<Rightarrow> action_fault option list" where
  "consume_n 0 s seed = []"
| "consume_n (Suc n) s seed =
     (let (f, s') = consume_action_fault s seed in f # consume_n n s' seed)"

lemma consume_n_from:
  "get_or (fs_action_fault_positions s) seed 0 = k \<Longrightarrow>
   consume_n n s seed =
     map (\<lambda>i. let plan = get_list (fs_action_fault_plan s) seed in
               if k + i < length plan then Some (plan ! (k + i)) else None) [0..<n]"
proof (induction n arbitrary: s k)
  case (Suc n)
  let ?plan = "get_list (fs_action_fault_plan s) seed"
  show ?case
  proof (cases "k < length ?plan")
    case True
    let ?s = "s\<lparr>fs_action_fault_positions :=
        AList.update seed (k + 1) (fs_action_fault_positions s)\<rparr>"
    have "get_or (fs_action_fault_positions ?s) seed 0 = k + 1"
      by (simp add: get_or_def update_conv')
    from Suc.IH [OF this] True Suc.prems show ?thesis
      by (simp add: consume_action_fault_def Let_def upt_conv_Cons map_Suc_upt [symmetric]
          del: upt_Suc)
  next
    case False
    with Suc show ?thesis
      by (simp add: consume_action_fault_def Let_def upt_conv_Cons map_Suc_upt [symmetric]
          del: upt_Suc)
  qed
qed simp

text \<open>From a fresh store the scripted write outcomes of a seed are delivered exactly once each, in
  the scripted order, and then never again.\<close>

theorem action_faults_consumed_in_order:
  assumes "fs_action_fault_positions s = []"
  shows "consume_n n s seed =
    map Some (take n (get_list (fs_action_fault_plan s) seed)) @
    replicate (n - length (get_list (fs_action_fault_plan s) seed)) None"
proof -
  have "consume_n n s seed =
      map (\<lambda>i. let plan = get_list (fs_action_fault_plan s) seed in
                if 0 + i < length plan then Some (plan ! (0 + i)) else None) [0..<n]"
    by (rule consume_n_from) (simp add: get_or_def assms)
  then show ?thesis by (auto intro!: nth_equalityI simp: Let_def nth_append)
qed

theorem action_faults_consumed_in_order_witness:
  "consume_n 3 (with_action_faults sample_store
      [(''seed'', [\<lparr>af_action_state = AS_UNCERTAIN, af_error_code = ''X''\<rparr>])]) ''seed'' =
     [Some \<lparr>af_action_state = AS_UNCERTAIN, af_error_code = ''X''\<rparr>, None, None]"
  using action_faults_consumed_in_order [of "with_action_faults sample_store
      [(''seed'', [\<lparr>af_action_state = AS_UNCERTAIN, af_error_code = ''X''\<rparr>])]" 3 "''seed''"]
  by (simp add: with_action_faults_def rebuild_def fixture_store_init_def get_list_def
      numeral_eq_Suc)

end
