(* ===== verification/Routing.thy ===== *)
theory Routing
  imports DomainModels FixtureStore
begin

text \<open>
  From a triaged message to a route and to the words of the answer: \<open>application/policy_router.py\<close> and
  \<open>application/responses.py\<close>.

  \<^item> \<open>triage.order_ids_mentioned\<close> is looked up through \<open>authorize_order\<close>, whose only exception is the
    denial; a denied order becomes a blocked fragment.
  \<^item> Replies are texts of Unicode code points.

  The lemmas show when a request is routed into an investigation, and that neither the route nor the reply
  tells a customer whether an order that is not theirs exists.
\<close>

section \<open>The route\<close>

datatype policy_route =
    PT_SUPPORTED_LOGISTICS
  | PT_STANDARD_REPLY
  | PT_AMBIGUOUS
  | PT_OUT_OF_SCOPE
  | PT_PROHIBITED
  | PT_UNAUTHORIZED

fun policy_route_value :: "policy_route \<Rightarrow> string" where
  "policy_route_value PT_SUPPORTED_LOGISTICS = ''supported_logistics''"
| "policy_route_value PT_STANDARD_REPLY = ''standard_reply''"
| "policy_route_value PT_AMBIGUOUS = ''ambiguous''"
| "policy_route_value PT_OUT_OF_SCOPE = ''out_of_scope''"
| "policy_route_value PT_PROHIBITED = ''prohibited''"
| "policy_route_value PT_UNAUTHORIZED = ''unauthorized''"

record blocked_fragment =
  bf_category :: string
  bf_order_id :: "string option"

definition fragment_json :: "blocked_fragment \<Rightarrow> json" where
  "fragment_json f = JObj [(''category'', JStr (bf_category f)), (''order_id'', json_opt_str (bf_order_id f))]"

record policy_decision =
  pd_route :: policy_route
  pd_supported :: bool
  pd_canonical_issue_type :: "issue_type option"
  pd_authorized_order_id :: "string option"
  pd_blocked_fragments :: "blocked_fragment list"
  pd_risk_flags :: "string list"
  pd_reason_code :: string

definition risk_fragments :: "triage_result \<Rightarrow> blocked_fragment list" where
  "risk_fragments triage =
     map (\<lambda>flag. \<lparr>bf_category = flag, bf_order_id = None\<rparr>)
       (filter (\<lambda>flag. flag \<in> set (tg_risk_flags triage))
         [''instruction_override_attempt'', ''prohibited_action_request'', ''unnecessary_personal_data''])"

text \<open>The loop over the mentioned orders: the blocked fragments so far and the authorized identities.\<close>

definition mention_order ::
  "string \<Rightarrow> fixture_store \<Rightarrow> blocked_fragment list \<times> string list \<Rightarrow> string \<Rightarrow>
   blocked_fragment list \<times> string list" where
  "mention_order customer_id store acc order_id =
    (case authorize_order customer_id order_id (get_order_for_authorization store) of
       Inl _ \<Rightarrow> (fst acc @ [\<lparr>bf_category = ''unauthorized_order_access'', bf_order_id = Some order_id\<rparr>], snd acc)
     | Inr _ \<Rightarrow> (fst acc, snd acc @ [order_id]))"

definition standard_reply_reason :: "triage_intent \<Rightarrow> string option" where
  "standard_reply_reason intent =
    (case intent of
       TI_CAPABILITY_HELP \<Rightarrow> Some ''CAPABILITY_HELP_STANDARD_REPLY''
     | TI_ORDER_ID_HELP \<Rightarrow> Some ''ORDER_ID_HELP_STANDARD_REPLY''
     | TI_TRACKING_STATUS_QUERY \<Rightarrow> Some ''TRACKING_STATUS_REQUIRES_CLARIFICATION''
     | TI_DELIVERY_ETA_INFO \<Rightarrow> Some ''DELIVERY_ETA_STANDARD_REPLY''
     | TI_CHANGE_DELIVERY_INFO \<Rightarrow> Some ''CHANGE_DELIVERY_INFO_STANDARD_REPLY''
     | TI_REFUND_RETURN_INFO \<Rightarrow> Some ''REFUND_RETURN_INFO_STANDARD_REPLY''
     | TI_HUMAN_SUPPORT_REQUEST \<Rightarrow> Some ''HUMAN_SUPPORT_REQUESTED''
     | TI_THANKS_CLOSE \<Rightarrow> Some ''THANKS_CLOSE_STANDARD_REPLY''
     | _ \<Rightarrow> None)"

definition supported_issue :: "triage_intent \<Rightarrow> issue_type option" where
  "supported_issue intent =
    (case intent of
       TI_SIGNED_NOT_RECEIVED \<Rightarrow> Some SIGNED_NOT_RECEIVED
     | TI_STALLED_TRACKING \<Rightarrow> Some STALLED_TRACKING
     | _ \<Rightarrow> None)"

definition route_by_intent :: "triage_intent \<Rightarrow> (policy_route \<times> string) result" where
  "route_by_intent intent =
    (case intent of
       TI_AMBIGUOUS \<Rightarrow> Inr (PT_AMBIGUOUS, ''ISSUE_REQUIRES_CLARIFICATION'')
     | TI_OTHER_LOGISTICS \<Rightarrow> Inr (PT_AMBIGUOUS, ''UNSUPPORTED_LOGISTICS_REQUIRES_CLARIFICATION'')
     | TI_OUT_OF_SCOPE \<Rightarrow> Inr (PT_OUT_OF_SCOPE, ''OUT_OF_SCOPE'')
     | TI_PROHIBITED \<Rightarrow> Inr (PT_PROHIBITED, ''PROHIBITED_ONLY_REQUEST'')
     | _ \<Rightarrow> Inl (KeyError ''route_by_intent''))"

definition route_triage :: "string \<Rightarrow> triage_result \<Rightarrow> fixture_store \<Rightarrow> policy_decision result" where
  "route_triage customer_id triage store =
    (let (blocked, authorized) =
           foldl (mention_order customer_id store) (risk_fragments triage, []) (tg_order_ids_mentioned triage);
         intent = tg_intent triage;
         decide = (\<lambda>route supported issue order reason.
           \<lparr>pd_route = route, pd_supported = supported, pd_canonical_issue_type = issue,
            pd_authorized_order_id = order, pd_blocked_fragments = blocked,
            pd_risk_flags = tg_risk_flags triage, pd_reason_code = reason\<rparr>)
     in case supported_issue intent of
          Some issue \<Rightarrow>
            if length authorized = 1
              then Inr (decide PT_SUPPORTED_LOGISTICS True (Some issue) (Some (hd authorized)) ''AUTHORIZED_SUPPORTED_ISSUE'')
            else if 1 < length authorized
              then Inr (decide PT_AMBIGUOUS False None None ''MULTIPLE_AUTHORIZED_ORDERS_REQUIRE_SELECTION'')
            else if tg_order_ids_mentioned triage \<noteq> []
              then Inr (decide PT_UNAUTHORIZED False None None ''NO_AUTHORIZED_ORDER_IN_REQUEST'')
            else Inr (decide PT_AMBIGUOUS False None None ''ORDER_ID_REQUIRED'')
        | None \<Rightarrow>
            (case standard_reply_reason intent of
               Some reason \<Rightarrow>
                 if intent = TI_TRACKING_STATUS_QUERY \<and> 1 < length authorized
                   then Inr (decide PT_AMBIGUOUS False None None ''MULTIPLE_AUTHORIZED_ORDERS_REQUIRE_SELECTION'')
                 else if intent = TI_TRACKING_STATUS_QUERY \<and> tg_order_ids_mentioned triage \<noteq> [] \<and> authorized = []
                   then Inr (decide PT_UNAUTHORIZED False None None ''NO_AUTHORIZED_ORDER_IN_REQUEST'')
                 else Inr (decide PT_STANDARD_REPLY False None
                   (if intent = TI_TRACKING_STATUS_QUERY \<and> length authorized = 1 then Some (hd authorized) else None)
                   reason)
             | None \<Rightarrow>
                 bindE (route_by_intent intent) (\<lambda>(route, reason). Inr (decide route False None None reason))))"

section \<open>The words\<close>

definition standard_reply_version :: string where
  "standard_reply_version = ''business-replies-v1''"

definition target_text :: "string option \<Rightarrow> utext" where
  "target_text target =
    (if truthy target then [21253, 35065, 32] @ text_of (the target) @ [32, 30340] else [])"

definition render_investigation_ack :: "string \<Rightarrow> issue_type \<Rightarrow> string option \<Rightarrow> utext" where
  "render_investigation_ack order_id issue target =
     [25105, 26469, 24110, 20320, 26597, 19968, 19979, 32] @ target_text target @ text_of order_id @ [12290] @
     (if issue = SIGNED_NOT_RECEIVED
      then [25105, 20250, 20808, 26680, 23545, 35746, 21333, 29366, 24577, 12289, 31614,
            25910, 35760, 24405, 65292, 20197, 21450, 26159, 21542, 24050, 32463, 26377,
            20154, 22312, 22788, 29702, 36825, 20010, 38382, 39064, 12290]
      else [25105, 20250, 20808, 26680, 23545, 26368, 26032, 29289, 27969, 36712, 36857,
            12289, 39044, 35745, 26102, 25928, 65292, 20197, 21450, 26159, 21542, 24050,
            32463, 26377, 20154, 22312, 22788, 29702, 36825, 20010, 38382, 39064, 12290])"

definition blocked_fragment_notices :: "blocked_fragment list \<Rightarrow> utext list" where
  "blocked_fragment_notices fragments =
    (let categories = set (map bf_category fragments) in
     (if ''unauthorized_order_access'' \<in> categories
      then [[25105, 26080, 27861, 35775, 38382, 19982, 24403, 21069, 36134, 25143, 26080,
             20851, 30340, 35746, 21333, 12290]] else []) @
     (if ''prohibited_action_request'' \<in> categories
      then [[36864, 27454, 12289, 36180, 20184, 21644, 25442, 36135, 19981, 22312, 36825,
             27425, 29289, 27969, 26680, 26597, 30340, 22788, 29702, 33539, 22260, 20869, 12290]] else []) @
     (if ''unnecessary_personal_data'' \<in> categories
      then [[35831, 19981, 35201, 22312, 28040, 24687, 20013, 21457, 36865, 30005, 35805,
             21495, 30721, 12289, 37038, 31665, 31561, 19981, 24517, 35201, 30340, 20010,
             20154, 20449, 24687, 12290]] else []))"

definition render_policy_reply :: "policy_decision \<Rightarrow> utext" where
  "render_policy_reply d =
    (let body =
       (if pd_reason_code d = ''ENTRY_CLARIFICATION_EXHAUSTED''
          then [36825, 27425, 20837, 21475, 20449, 24687, 20173, 19981, 36275, 20197, 23433,
                20840, 21019, 24314, 29289, 27969, 26680, 26597, 65292, 35831, 32852, 31995,
                20154, 24037, 25903, 25345, 32487, 32493, 22788, 29702, 12290]
        else if pd_route d = PT_AMBIGUOUS
          then [35831, 35828, 26126, 26159, 29289, 27969, 38271, 26102, 38388, 27809, 26377,
                26356, 26032, 65292, 36824, 26159, 26174, 31034, 31614, 25910, 20294, 27809,
                26377, 25910, 21040, 65292, 24182, 38468, 19978, 35746, 21333, 21495, 12290]
        else if pd_route d = PT_UNAUTHORIZED
          then [35831, 20351, 29992, 24403, 21069, 34394, 25311, 23458, 25143, 21517, 19979,
                30340, 35746, 21333, 32487, 32493, 26680, 26597, 12290]
        else if pd_route d = PT_PROHIBITED
          then [25105, 19981, 33021, 25191, 34892, 36864, 27454, 12289, 36180, 20184, 12289,
                36864, 25442, 36135, 31561, 25805, 20316, 65292, 20294, 21487, 20197, 21327,
                21161, 26680, 26597, 25903, 25345, 30340, 29289, 27969, 24322, 24120, 12290]
        else [30446, 21069, 21482, 33021, 22788, 29702, 29289, 27969, 20572, 28382, 25110,
              26174, 31034, 31614, 25910, 20294, 26410, 25910, 21040, 30340, 38382, 39064, 12290])
     in concat (blocked_fragment_notices (pd_blocked_fragments d) @ [body]))"

definition standard_body :: "triage_intent \<Rightarrow> utext result" where
  "standard_body intent =
    (case intent of
       TI_CAPABILITY_HELP \<Rightarrow> Inr
         [21487, 20197, 12290, 25105, 33021, 24110, 20320, 26680, 26597, 20004, 31867,
          29289, 27969, 24322, 24120, 65306, 29289, 27969, 38271, 26102, 38388, 27809,
          26377, 26356, 26032, 65292, 25110, 39029, 38754, 26174, 31034, 31614, 25910,
          20294, 23454, 38469, 27809, 26377, 25910, 21040, 12290, 25105, 20063, 21487,
          20197, 35828, 26126, 35746, 21333, 21495, 22312, 21738, 37324, 25214, 12289,
          22914, 20309, 29702, 35299, 39044, 35745, 26102, 25928, 65292, 20197, 21450,
          24403, 21069, 33021, 21147, 33539, 22260, 12290, 28041, 21450, 20855, 20307,
          35746, 21333, 26102, 65292, 35831, 21457, 36865, 32, 79, 82, 68, 45, 32, 24320,
          22836, 30340, 35746, 21333, 21495, 12290]
     | TI_ORDER_ID_HELP \<Rightarrow> Inr
         [35746, 21333, 21495, 26174, 31034, 22312, 24403, 21069, 28436, 31034, 30340,
          35746, 21333, 21345, 29255, 20013, 65292, 26684, 24335, 22914, 32, 79, 82, 68, 45,
          48, 48, 49, 12290, 25214, 21040, 21518, 65292, 25226, 35746, 21333, 21495, 21644,
          36935, 21040, 30340, 29289, 27969, 24773, 20917, 19968, 36215, 21457, 32473,
          25105, 21363, 21487, 12290]
     | TI_DELIVERY_ETA_INFO \<Rightarrow> Inr
         [25105, 19981, 20250, 20973, 31354, 25215, 35834, 20855, 20307, 21040, 36798,
          26102, 38388, 12290, 35831, 20808, 20197, 35746, 21333, 21345, 29255, 20013,
          30340, 39044, 35745, 36865, 36798, 20449, 24687, 20026, 20934, 65307, 22914,
          26524, 29289, 27969, 38271, 26102, 38388, 27809, 26377, 26356, 26032, 65292,
          25226, 32, 79, 82, 68, 45, 32, 24320, 22836, 30340, 35746, 21333, 21495, 21457,
          32473, 25105, 65292, 25105, 21487, 20197, 32487, 32493, 26680, 26597, 12290]
     | TI_CHANGE_DELIVERY_INFO \<Rightarrow> Inr
         [24403, 21069, 28436, 31034, 19981, 20250, 20462, 25913, 25910, 36135, 22320,
          22336, 12289, 30005, 35805, 12289, 25910, 20214, 20154, 25110, 37197, 36865,
          22791, 27880, 65292, 20063, 19981, 20250, 20551, 35013, 24050, 32463, 25552,
          20132, 21464, 26356, 12290, 36825, 31867, 35831, 27714, 38656, 35201, 20132,
          32473, 20154, 24037, 28192, 36947, 22788, 29702, 65307, 22914, 26524, 24050,
          32463, 20986, 29616, 29289, 27969, 20572, 28382, 25110, 31614, 25910, 26410,
          25910, 21040, 65292, 25105, 21487, 20197, 32487, 32493, 26680, 26597, 12290]
     | TI_REFUND_RETURN_INFO \<Rightarrow> Inr
         [24403, 21069, 28436, 31034, 19981, 33021, 25191, 34892, 36864, 27454, 12289,
          36180, 20184, 12289, 36864, 36135, 25110, 25442, 36135, 12290, 25105, 21487,
          20197, 20808, 26680, 26597, 29289, 27969, 38271, 26102, 38388, 26410, 26356,
          26032, 25110, 26174, 31034, 31614, 25910, 20294, 26410, 25910, 21040, 30340,
          38382, 39064, 65292, 38656, 35201, 20132, 26131, 22788, 29702, 30340, 37096,
          20998, 24212, 20132, 32473, 20154, 24037, 25903, 25345, 12290]
     | TI_HUMAN_SUPPORT_REQUEST \<Rightarrow> Inr
         [22909, 30340, 12290, 24403, 21069, 26159, 26412, 22320, 21512, 25104, 28436,
          31034, 65292, 19981, 33021, 30495, 27491, 25509, 36890, 20154, 24037, 23458,
          26381, 65292, 20063, 19981, 20250, 32487, 32493, 33258, 21160, 25191, 34892,
          25805, 20316, 12290, 23454, 38469, 19994, 21153, 20013, 24212, 20174, 27491,
          24335, 23458, 26381, 20837, 21475, 36716, 20154, 24037, 65307, 22312, 36825,
          20010, 28436, 31034, 37324, 65292, 20320, 20173, 21487, 20197, 32487, 32493,
          26680, 26597, 20004, 31867, 29289, 27969, 24322, 24120, 12290]
     | TI_THANKS_CLOSE \<Rightarrow> Inr
         [19981, 23458, 27668, 12290, 22914, 26524, 20043, 21518, 36935, 21040, 29289,
          27969, 38271, 26102, 38388, 27809, 26377, 26356, 26032, 65292, 25110, 39029,
          38754, 26174, 31034, 31614, 25910, 20294, 23454, 38469, 27809, 26377, 25910,
          21040, 65292, 24102, 19978, 32, 79, 82, 68, 45, 32, 24320, 22836, 30340, 35746,
          21333, 21495, 20877, 26469, 25214, 25105, 21363, 21487, 12290]
     | _ \<Rightarrow> Inl (KeyError ''bodies''))"

definition tracking_body :: "string option \<Rightarrow> utext" where
  "tracking_body order =
    (case order of
       Some order_id \<Rightarrow>
         [25105, 30475, 21040, 20102, 35746, 21333, 32] @ text_of order_id @
         [12290, 20320, 36935, 21040, 30340, 26159, 29289, 27969, 38271, 26102, 38388,
          27809, 26377, 26356, 26032, 65292, 36824, 26159, 39029, 38754, 26174, 31034,
          31614, 25910, 20294, 23454, 38469, 27809, 26377, 25910, 21040, 65311, 30830,
          35748, 21518, 25105, 21487, 20197, 32487, 32493, 26680, 26597, 12290]
     | None \<Rightarrow>
         [21487, 20197, 24110, 20320, 21028, 26029, 19979, 19968, 27493, 12290, 35831,
          20808, 25552, 20379, 32, 79, 82, 68, 45, 32, 24320, 22836, 30340, 35746, 21333,
          21495, 65292, 24182, 35828, 26126, 26159, 29289, 27969, 38271, 26102, 38388,
          27809, 26377, 26356, 26032, 65292, 36824, 26159, 39029, 38754, 26174, 31034,
          31614, 25910, 20294, 23454, 38469, 27809, 26377, 25910, 21040, 12290])"

definition render_standard_reply :: "triage_intent \<Rightarrow> policy_decision \<Rightarrow> utext result" where
  "render_standard_reply intent d =
    (let visible = filter (\<lambda>f. \<not> (intent = TI_REFUND_RETURN_INFO \<and> bf_category f = ''prohibited_action_request''))
                     (pd_blocked_fragments d)
     in bindE (if intent = TI_TRACKING_STATUS_QUERY then Inr (tracking_body (pd_authorized_order_id d))
               else standard_body intent)
          (\<lambda>body. Inr (concat (blocked_fragment_notices visible @ [body]))))"

definition render_gate_reply ::
  "string \<Rightarrow> issue_type \<Rightarrow> gate_decision \<Rightarrow> string \<Rightarrow> blocked_fragment list \<Rightarrow> string option \<Rightarrow>
   utext option \<Rightarrow> utext option \<Rightarrow> utext" where
  "render_gate_reply order_id issue decision reason_code fragments target existing_case_detail alert_detail =
    (let body =
       (if decision = GD_PROPOSE_TICKET then
          (if issue = SIGNED_NOT_RECEIVED
           then [25105, 26597, 21040, 20102, 65306] @ target_text target @ text_of order_id @
             [32, 24403, 21069, 26174, 31034, 24050, 31614, 25910, 65292, 20294, 27809, 26377,
              25214, 21040, 33021, 30830, 35748, 20855, 20307, 25910, 20214, 20301, 32622,
              30340, 31614, 25910, 20973, 35777, 65292, 20063, 27809, 26377, 27491, 22312,
              22788, 29702, 30340, 21516, 31867, 26680, 26597, 12290, 19979, 19968, 27493,
              65292, 25105, 21487, 20197, 32852, 31995, 29289, 27969, 26041, 32487, 32493,
              26597, 25214, 21253, 35065, 21435, 21521, 12290, 38656, 35201, 25105, 29616,
              22312, 21457, 36215, 26680, 26597, 21527, 65311]
           else [25105, 26597, 21040, 20102, 65306] @ target_text target @ text_of order_id @
             [32, 30340, 29289, 27969, 24050, 32463, 36229, 36807, 39044, 35745, 26356, 26032,
              26102, 38388, 65292, 30446, 21069, 20063, 27809, 26377, 27491, 22312, 22788,
              29702, 30340, 21516, 31867, 26680, 26597, 12290, 19979, 19968, 27493, 65292,
              25105, 21487, 20197, 21521, 29289, 27969, 26041, 21457, 36215, 26680, 26597,
              65292, 35831, 20182, 20204, 30830, 35748, 24403, 21069, 36816, 36755, 29366,
              24577, 12290, 38656, 35201, 25105, 29616, 22312, 21457, 36215, 21527, 65311])
        else if decision = GD_REQUEST_BUSINESS_CLARIFICATION then
          [31614, 25910, 35760, 24405, 38656, 35201, 20808, 26680, 23545, 25910, 20214,
           20154, 25110, 20195, 25910, 20301, 32622, 12290, 35831, 30830, 35748, 26412,
           20154, 12289, 23478, 24237, 25104, 21592, 12289, 38376, 21355, 12289, 21069,
           21488, 12289, 37051, 23621, 12289, 20195, 25910, 28857, 25110, 24555, 36882,
           26588, 26159, 21542, 30830, 23454, 25910, 21040, 12290]
        else if decision = GD_RETRY_LATER then
          [20851, 38190, 29289, 27969, 35777, 25454, 26242, 26102, 26080, 27861, 23436,
           25104, 26597, 35810, 65292, 22240, 27492, 29616, 22312, 19981, 20250, 21019,
           24314, 24037, 21333, 12290, 35831, 31245, 21518, 37325, 35797, 12290]
        else if decision = GD_REQUIRE_HUMAN_SUPPORT then
          (if reason_code = ''DELIVERY_EVIDENCE_CONFLICT''
           then [31614, 25910, 20973, 35777, 26174, 31034, 30340, 25910, 20214, 20301, 32622,
                 19982, 23458, 25143, 26680, 23454, 32467, 26524, 20914, 31361, 65292, 24050,
                 20572, 27490, 33258, 21160, 21028, 26029, 65292, 35831, 32852, 31995, 20154,
                 24037, 25903, 25345, 32487, 32493, 26680, 26597, 12290]
           else [29616, 26377, 20449, 24687, 23384, 22312, 26080, 27861, 23433, 20840, 33258,
                 21160, 21028, 26029, 30340, 20914, 31361, 65292, 35831, 32852, 31995, 20154,
                 24037, 25903, 25345, 32487, 32493, 26680, 26597, 12290])
        else if reason_code = ''ACTIVE_LOGISTICS_TICKET_EXISTS'' then
          [36825, 31508, 35746, 21333, 24050, 26377, 36827, 34892, 20013, 30340, 29289,
           27969, 26680, 26597, 65292, 19981, 20250, 37325, 22797, 21019, 24314, 12290] @
          (case existing_case_detail of None \<Rightarrow> [] | Some detail \<Rightarrow> detail)
        else if reason_code = ''ACTIVE_CARRIER_RECOVERY_WINDOW'' then
          (if alert_detail = None \<or> alert_detail = Some []
           then [25215, 36816, 21830, 24403, 21069, 23384, 22312, 26381, 21153, 24322, 24120,
                 24674, 22797, 31383, 21475, 65292, 20808, 31561, 24453, 19979, 19968, 27425,
                 29289, 27969, 26356, 26032, 12290] else the alert_detail) @
          [19981, 20250, 37325, 22797, 21019, 24314, 26680, 26597, 24037, 21333, 12290]
        else if reason_code = ''WITHIN_TRACKING_SLA'' then
          [29289, 27969, 20173, 22312, 35268, 21017, 26102, 38480, 20869, 65292, 30446,
           21069, 19981, 38656, 35201, 21019, 24314, 26680, 26597, 24037, 21333, 12290]
        else [26680, 26597, 24050, 32463, 23436, 25104, 65292, 30446, 21069, 19981, 38656,
              35201, 21019, 24314, 26032, 30340, 29289, 27969, 26680, 26597, 24037, 21333, 12290])
     in concat (blocked_fragment_notices fragments @ [body]))"

section \<open>What the route depends on\<close>

definition owns :: "string \<Rightarrow> fixture_store \<Rightarrow> string \<Rightarrow> bool" where
  "owns customer_id store order_id \<longleftrightarrow> owned_view customer_id (get_order_for_authorization store) order_id \<noteq> None"

lemma owns_iff_granted:
  "owns c s oid \<longleftrightarrow> (\<exists>g. authorize_order c oid (get_order_for_authorization s) = Inr g)"
  by (auto simp: owns_def owned_view_def authorize_order_def split: option.splits if_splits)

definition unauthorized_fragment :: "string \<Rightarrow> blocked_fragment" where
  "unauthorized_fragment oid = \<lparr>bf_category = ''unauthorized_order_access'', bf_order_id = Some oid\<rparr>"

lemma mention_order_owns:
  "mention_order c s acc oid =
     (if owns c s oid then (fst acc, snd acc @ [oid]) else (fst acc @ [unauthorized_fragment oid], snd acc))"
  by (auto simp: mention_order_def owns_iff_granted unauthorized_fragment_def split: sum.splits)

lemma mentions_fold:
  "foldl (mention_order c s) acc oids =
     (fst acc @ map unauthorized_fragment (filter (\<lambda>oid. \<not> owns c s oid) oids), snd acc @ filter (owns c s) oids)"
  by (induction oids arbitrary: acc) (simp_all add: mention_order_owns)

lemmas route_defs = route_triage_def mentions_fold Let_def

text \<open>Every intent is handled: the two dictionary lookups at the end of \<open>route_triage\<close> never miss.\<close>

lemma route_triage_total: "\<exists>d. route_triage c t s = Inr d"
  by (cases "tg_intent t") (simp_all add: route_defs supported_issue_def standard_reply_reason_def route_by_intent_def)

lemma routed_order_mentioned:
  assumes "route_triage c t s = Inr d" and "pd_authorized_order_id d = Some oid"
  shows "oid \<in> set (tg_order_ids_mentioned t) \<and> owns c s oid"
proof -
  have hd_own: "hd (filter P xs) \<in> set xs \<and> P (hd (filter P xs))" if "length (filter P xs) = 1" for P and xs :: "string list"
  proof -
    have "filter P xs \<noteq> []" using that by auto
    then have "hd (filter P xs) \<in> set (filter P xs)" by (rule hd_in_set)
    then show ?thesis by simp
  qed
  show ?thesis
    using assms hd_own [of "owns c s" "tg_order_ids_mentioned t"] by (cases "tg_intent t")
      (auto simp: route_defs supported_issue_def standard_reply_reason_def route_by_intent_def split: if_splits)
qed

text \<open>C35. The routing of a message always returns a decision; the decision opens an investigation of issue
  \<open>i\<close> on order \<open>o\<close> exactly when the triaged intent is that supported issue and \<open>o\<close> is the one order of
  the customer among those mentioned; and whatever order a decision carries is one that the customer
  mentioned and owns.\<close>

theorem investigation_routed_iff:
  "\<exists>d. route_triage c t s = Inr d \<and> pd_supported d = (pd_route d = PT_SUPPORTED_LOGISTICS) \<and>
     (\<forall>i oid. (pd_supported d \<and> pd_canonical_issue_type d = Some i \<and> pd_authorized_order_id d = Some oid) =
        (supported_issue (tg_intent t) = Some i \<and> filter (owns c s) (tg_order_ids_mentioned t) = [oid])) \<and>
     set_option (pd_authorized_order_id d) \<subseteq> {oid \<in> set (tg_order_ids_mentioned t). owns c s oid}"
proof -
  let ?own = "filter (owns c s) (tg_order_ids_mentioned t)"
  have single: "length ?own = 1 \<and> hd ?own = oid \<longleftrightarrow> ?own = [oid]" for oid
    by (cases ?own) auto
  obtain d where d: "route_triage c t s = Inr d" using route_triage_total by blast
  show ?thesis
  proof (intro exI conjI)
    show "route_triage c t s = Inr d" by (rule d)
    show "pd_supported d = (pd_route d = PT_SUPPORTED_LOGISTICS)"
      using d by (cases "tg_intent t")
        (auto simp: route_defs supported_issue_def standard_reply_reason_def route_by_intent_def split: if_splits)
    show "\<forall>i oid. (pd_supported d \<and> pd_canonical_issue_type d = Some i \<and> pd_authorized_order_id d = Some oid) =
        (supported_issue (tg_intent t) = Some i \<and> ?own = [oid])"
      unfolding single [symmetric] using d by (cases "tg_intent t")
        (auto simp: route_defs supported_issue_def standard_reply_reason_def route_by_intent_def split: if_splits)
    show "set_option (pd_authorized_order_id d) \<subseteq> {oid \<in> set (tg_order_ids_mentioned t). owns c s oid}"
      using routed_order_mentioned [OF d] by auto
  qed
qed

section \<open>What a reply discloses\<close>

text \<open>Two decisions that differ only in which orders their fragments name.\<close>

definition same_but_ids :: "policy_decision \<Rightarrow> policy_decision \<Rightarrow> bool" where
  "same_but_ids d d' \<longleftrightarrow>
     set (map bf_category (pd_blocked_fragments d)) = set (map bf_category (pd_blocked_fragments d')) \<and>
     pd_route d = pd_route d' \<and> pd_reason_code d = pd_reason_code d' \<and>
     pd_authorized_order_id d = pd_authorized_order_id d' \<and>
     pd_canonical_issue_type d = pd_canonical_issue_type d' \<and> pd_supported d = pd_supported d'"

lemma notices_cong:
  "set (map bf_category fs) = set (map bf_category fs') \<Longrightarrow>
   blocked_fragment_notices fs = blocked_fragment_notices fs'"
  by (simp only: blocked_fragment_notices_def Let_def)

lemma policy_reply_cong: "same_but_ids d d' \<Longrightarrow> render_policy_reply d = render_policy_reply d'"
  using notices_cong [of "pd_blocked_fragments d" "pd_blocked_fragments d'"]
  by (simp add: same_but_ids_def render_policy_reply_def)

lemma standard_reply_cong:
  assumes "same_but_ids d d'"
  shows "render_standard_reply i d = render_standard_reply i d'"
proof -
  let ?visible = "filter (\<lambda>f. \<not> (i = TI_REFUND_RETURN_INFO \<and> bf_category f = ''prohibited_action_request''))"
  have set_visible: "set (map bf_category (?visible fs)) =
      {k \<in> set (map bf_category fs). \<not> (i = TI_REFUND_RETURN_INFO \<and> k = ''prohibited_action_request'')}" for fs
    by auto
  have "blocked_fragment_notices (?visible (pd_blocked_fragments d)) =
      blocked_fragment_notices (?visible (pd_blocked_fragments d'))"
    using assms by (intro notices_cong) (simp only: set_visible same_but_ids_def)
  then show ?thesis using assms by (simp add: render_standard_reply_def same_but_ids_def)
qed

lemma gate_reply_cong:
  "same_but_ids d d' \<Longrightarrow> render_gate_reply oid issue decision reason (pd_blocked_fragments d) =
     render_gate_reply oid issue decision reason (pd_blocked_fragments d')"
  using notices_cong [of "pd_blocked_fragments d" "pd_blocked_fragments d'"]
  by (simp add: fun_eq_iff render_gate_reply_def same_but_ids_def)

text \<open>Mentions that agree on the customer's own orders and on whether any other order occurs.\<close>

definition same_mentions :: "string \<Rightarrow> fixture_store \<Rightarrow> fixture_store \<Rightarrow> string list \<Rightarrow> string list \<Rightarrow> bool" where
  "same_mentions c s s' m m' \<longleftrightarrow>
     filter (owns c s) m = filter (owns c s') m' \<and>
     list_ex (\<lambda>oid. \<not> owns c s oid) m = list_ex (\<lambda>oid. \<not> owns c s' oid) m'"

lemma same_mentions_empty: "same_mentions c s s' m m' \<Longrightarrow> (m = []) = (m' = [])"
  unfolding same_mentions_def
  by (cases m; cases m') (auto simp: filter_empty_conv dest: sym split: if_splits)

lemma same_mentions_categories:
  assumes "same_mentions c s s' m m'"
  shows "set (map bf_category (map unauthorized_fragment (filter (\<lambda>oid. \<not> owns c s oid) m))) =
         set (map bf_category (map unauthorized_fragment (filter (\<lambda>oid. \<not> owns c s' oid) m')))"
  using assms by (auto simp: same_mentions_def unauthorized_fragment_def list_ex_iff)

definition all_fragments :: "string \<Rightarrow> triage_result \<Rightarrow> fixture_store \<Rightarrow> blocked_fragment list" where
  "all_fragments c t s = risk_fragments t @
     map unauthorized_fragment (filter (\<lambda>oid. \<not> owns c s oid) (tg_order_ids_mentioned t))"

lemma route_fragments: "route_triage c t s = Inr d \<Longrightarrow> pd_blocked_fragments d = all_fragments c t s"
  by (auto simp: route_defs all_fragments_def bindE_eq_Inr split: option.splits if_splits)

lemma route_up_to_fragments:
  assumes "filter (owns c s) (tg_order_ids_mentioned t) = filter (owns c s') (tg_order_ids_mentioned t')"
    and "(tg_order_ids_mentioned t = []) = (tg_order_ids_mentioned t' = [])"
    and "tg_intent t' = tg_intent t"
  shows "route_triage c t' s' =
    bindE (route_triage c t s) (\<lambda>d. Inr (d\<lparr>pd_blocked_fragments := all_fragments c t' s',
      pd_risk_flags := tg_risk_flags t'\<rparr>))"
  by (cases "tg_intent t")
    (simp_all add: route_defs all_fragments_def assms supported_issue_def standard_reply_reason_def
      route_by_intent_def)

lemma route_same_but_ids:
  assumes same: "same_mentions c s s' (tg_order_ids_mentioned t) (tg_order_ids_mentioned t')"
    and t': "tg_intent t' = tg_intent t" "risk_fragments t' = risk_fragments t"
    and d: "route_triage c t s = Inr d" and d': "route_triage c t' s' = Inr d'"
  shows "same_but_ids d d'"
proof -
  have own: "filter (owns c s) (tg_order_ids_mentioned t) = filter (owns c s') (tg_order_ids_mentioned t')"
    using same by (simp add: same_mentions_def)
  from route_up_to_fragments [OF own same_mentions_empty [OF same] t'(1)] d d'
  have eq: "d' = d\<lparr>pd_blocked_fragments := all_fragments c t' s', pd_risk_flags := tg_risk_flags t'\<rparr>" by simp
  have "set (map bf_category (all_fragments c t s)) = set (map bf_category (all_fragments c t' s'))"
    using same_mentions_categories [OF same] by (simp add: all_fragments_def t'(2))
  then show ?thesis by (simp add: same_but_ids_def eq route_fragments [OF d])
qed

text \<open>Ownership in the sample store.\<close>

lemma sample_owns: "owns c sample_store oid \<longleftrightarrow> oid = of_order_id sample_fixture_order \<and>
    c = of_customer_id sample_fixture_order"
  by (auto simp: owns_def owned_view_def get_order_for_authorization_def ownership_of_def sample_fixture_order_def)

end
