(* ===== verification/Storage.thy ===== *)
theory Storage
  imports DomainModels CaseFacts
begin

text \<open>
  The current-state tables of \<open>storage/models.py\<close> and the part of SQLite that the source declares for them.

  \<^item> A row class is a record with the columns as fields; a string column that holds an enumeration stays a
    string, as in the database.  A JSON column that holds dumped contracts (issue revisions, evidence
    references, tool results, snapshots, merge decisions) keeps the contracts, every other is a \<open>json\<close>.
  \<^item> \<open>__table_args__\<close> is a value of the record \<open>table\<close>: the primary key, the \<open>UTCDateTime\<close> columns, the unique
    constraints (a key of the row, \<open>None\<close> where a partial index or a \<open>NULL\<close> exempts the row) and the check
    constraints.  \<open>insert_row\<close> and \<open>update_row\<close> are what a flush does with one row.
  \<^item> A foreign key is checked on insert by the predicates \<open>refs_...\<close>.  No update of the source changes a foreign
    key and only the demo reset deletes rows, which is not modelled.
  \<^item> The rows of a table are in insertion order; a query that orders says so.
\<close>

section \<open>Tables\<close>

record 'r table =
  tbl_key :: "'r \<Rightarrow> string"
  tbl_times :: "'r \<Rightarrow> datetime list"
  tbl_unique :: "('r \<Rightarrow> json option) list"
  tbl_check :: "'r \<Rightarrow> bool"

definition opt_list :: "'a option \<Rightarrow> 'a list" where
  "opt_list x = (case x of None \<Rightarrow> [] | Some y \<Rightarrow> [y])"

text \<open>Two rows that no table can hold together.\<close>

definition clash :: "'r table \<Rightarrow> 'r \<Rightarrow> 'r \<Rightarrow> bool" where
  "clash t q r \<longleftrightarrow> tbl_key t q = tbl_key t r \<or> list_ex (\<lambda>k. k q \<noteq> None \<and> k q = k r) (tbl_unique t)"

definition check_row :: "'r table \<Rightarrow> 'r \<Rightarrow> 'r result" where
  "check_row t r =
    (if \<not> list_all is_aware (tbl_times t r) then Inl (StatementError ''timestamps must be timezone-aware'')
     else if \<not> tbl_check t r then Inl (IntegrityError ''CHECK constraint failed'')
     else Inr r)"

definition insert_row :: "'r table \<Rightarrow> bool \<Rightarrow> 'r list \<Rightarrow> 'r \<Rightarrow> 'r list result" where
  "insert_row t refs rows r =
    bindE (check_row t r) (\<lambda>_.
      if list_ex (\<lambda>q. clash t q r) rows then Inl (IntegrityError ''UNIQUE constraint failed'')
      else if \<not> refs then Inl (IntegrityError ''FOREIGN KEY constraint failed'')
      else Inr (rows @ [r]))"

definition update_row :: "'r table \<Rightarrow> 'r list \<Rightarrow> 'r \<Rightarrow> 'r list result" where
  "update_row t rows r =
    bindE (check_row t r) (\<lambda>_.
      if list_ex (\<lambda>q. tbl_key t q \<noteq> tbl_key t r \<and> clash t q r) rows
        then Inl (IntegrityError ''UNIQUE constraint failed'')
      else Inr (map (\<lambda>q. if tbl_key t q = tbl_key t r then r else q) rows))"

definition get_row :: "'r table \<Rightarrow> 'r list \<Rightarrow> string \<Rightarrow> 'r option" where
  "get_row t rows k = List.find (\<lambda>r. tbl_key t r = k) rows"

section \<open>Rows\<close>

record conversation_row =
  cvr_conversation_id :: string
  cvr_customer_id :: string
  cvr_fixture_customer_key :: string
  cvr_fixture_version :: string
  cvr_llm_mode :: string
  cvr_active_case_id :: "string option"
  cvr_next_event_sequence :: int
  cvr_created_at :: datetime
  cvr_updated_at :: datetime

definition conversation_table :: "conversation_row table" where
  "conversation_table = \<lparr>
    tbl_key = cvr_conversation_id,
    tbl_times = (\<lambda>r. [cvr_created_at r, cvr_updated_at r]),
    tbl_unique = [],
    tbl_check = (\<lambda>r. cvr_llm_mode r \<in> {''mock'', ''live''} \<and>
      0 \<le> cvr_next_event_sequence r)\<rparr>"

record message_row =
  msr_message_id :: string
  msr_conversation_id :: string
  msr_case_id :: "string option"
  msr_run_id :: "string option"
  msr_role :: string
  msr_content :: utext
  msr_trace_id :: "string option"
  msr_created_at :: datetime

definition message_table :: "message_row table" where
  "message_table = \<lparr>
    tbl_key = msr_message_id,
    tbl_times = (\<lambda>r. [msr_created_at r]),
    tbl_unique = [],
    tbl_check = (\<lambda>r. msr_role r \<in> {''customer'', ''assistant''})\<rparr>"

record triage_record_row =
  trr_triage_id :: string
  trr_conversation_id :: string
  trr_message_id :: string
  trr_run_id :: string
  trr_schema_version :: int
  trr_intent :: string
  trr_risk_flags :: "string list"
  trr_order_ids_mentioned :: "string list"
  trr_confidence :: rat
  trr_created_at :: datetime

definition triage_record_table :: "triage_record_row table" where
  "triage_record_table = \<lparr>
    tbl_key = trr_triage_id,
    tbl_times = (\<lambda>r. [trr_created_at r]),
    tbl_unique = [],
    tbl_check = (\<lambda>r. trr_intent r \<in> {''signed_not_received'', ''stalled_tracking'', ''capability_help'',
       ''order_id_help'', ''tracking_status_query'', ''delivery_eta_info'', ''change_delivery_info'',
       ''refund_return_info'', ''human_support_request'', ''thanks_close'', ''other_logistics'', ''ambiguous'',
       ''out_of_scope'', ''prohibited''} \<and>
      0 \<le> trr_confidence r \<and> trr_confidence r \<le> 1)\<rparr>"

record policy_decision_row =
  pdr_policy_decision_id :: string
  pdr_conversation_id :: string
  pdr_message_id :: string
  pdr_triage_id :: string
  pdr_run_id :: string
  pdr_route :: string
  pdr_supported :: bool
  pdr_canonical_issue_type :: "string option"
  pdr_authorized_order_id :: "string option"
  pdr_blocked_fragments :: "json list"
  pdr_risk_flags :: "string list"
  pdr_reason_code :: string
  pdr_created_at :: datetime

definition policy_decision_table :: "policy_decision_row table" where
  "policy_decision_table = \<lparr>
    tbl_key = pdr_policy_decision_id,
    tbl_times = (\<lambda>r. [pdr_created_at r]),
    tbl_unique = [],
    tbl_check = (\<lambda>r. True)\<rparr>"

record case_row =
  icr_case_id :: string
  icr_conversation_id :: string
  icr_customer_id :: string
  icr_related_case_id :: "string option"
  icr_authorized_order_id :: string
  icr_target_shipment_id :: "string option"
  icr_reported_issue_type :: string
  icr_canonical_issue_type :: string
  icr_issue_type_revision_history :: "issue_revision list"
  icr_case_state :: string
  icr_case_outcome :: "string option"
  icr_reason_code :: "string option"
  icr_business_clarification_count :: int
  icr_actual_read_tool_execution_count :: int
  icr_agent_planning_turn_count :: int
  icr_active_proposal_id :: "string option"
  icr_revision :: int
  icr_created_at :: datetime
  icr_updated_at :: datetime
  icr_closed_at :: "datetime option"

definition case_table :: "case_row table" where
  "case_table = \<lparr>
    tbl_key = icr_case_id,
    tbl_times = (\<lambda>r. [icr_created_at r, icr_updated_at r] @ opt_list (icr_closed_at r)),
    tbl_unique = [],
    tbl_check = (\<lambda>r. icr_reported_issue_type r \<in> {''signed_not_received'', ''stalled_tracking''} \<and>
      icr_canonical_issue_type r \<in> {''signed_not_received'', ''stalled_tracking''} \<and>
      icr_case_state r \<in> {''investigating'', ''awaiting_customer_input'', ''awaiting_customer_confirmation'',
       ''awaiting_retry'', ''executing_action'', ''closed''} \<and>
      icr_case_outcome r \<in> {None, Some ''resolved_no_action'', Some ''ticket_created'',
       Some ''human_support_required'', Some ''uncertain'', Some ''failed''} \<and>
      (if icr_case_state r = ''closed'' then icr_case_outcome r \<noteq> None \<and> icr_reason_code r \<noteq> None
      else icr_case_outcome r = None \<and> icr_reason_code r = None) \<and>
      icr_business_clarification_count r \<in> {0..2} \<and>
      icr_agent_planning_turn_count r \<in> {0..16} \<and>
      icr_actual_read_tool_execution_count r \<in> {0..6} \<and>
      1 \<le> icr_revision r)\<rparr>"

record run_row =
  rnr_run_id :: string
  rnr_conversation_id :: string
  rnr_case_id :: "string option"
  rnr_run_kind :: string
  rnr_run_state :: string
  rnr_planning_turn_count :: int
  rnr_actual_read_tool_execution_count :: int
  rnr_failure_code :: "string option"
  rnr_trace_id :: "string option"
  rnr_created_at :: datetime
  rnr_started_at :: "datetime option"
  rnr_completed_at :: "datetime option"

definition run_table :: "run_row table" where
  "run_table = \<lparr>
    tbl_key = rnr_run_id,
    tbl_times = (\<lambda>r. [rnr_created_at r] @ opt_list (rnr_started_at r) @ opt_list (rnr_completed_at r)),
    tbl_unique = [],
    tbl_check = (\<lambda>r. rnr_run_kind r \<in> {''message'', ''confirmation'', ''decline'', ''retry''} \<and>
      rnr_run_state r \<in> {''queued'', ''running'', ''succeeded'', ''failed''} \<and>
      rnr_planning_turn_count r \<in> {0..8} \<and>
      rnr_actual_read_tool_execution_count r \<in> {0..6} \<and>
      (rnr_run_state r = ''failed'') = (rnr_failure_code r \<noteq> None))\<rparr>"

record tool_call_row =
  tcr_tool_call_id :: string
  tcr_conversation_id :: string
  tcr_case_id :: string
  tcr_run_id :: string
  tcr_tool_name :: string
  tcr_normalized_args :: json
  tcr_planning_turn :: int
  tcr_attempt_number :: int
  tcr_actual_execution :: bool
  tcr_cache_hit :: bool
  tcr_blocked :: bool
  tcr_execution_status :: "string option"
  tcr_evidence_availability :: "string option"
  tcr_result_envelope :: "read_result option"
  tcr_result_hash :: "string option"
  tcr_source_version :: "string option"
  tcr_error_code :: "string option"
  tcr_retryable :: bool
  tcr_requested_at :: datetime
  tcr_completed_at :: "datetime option"

definition tool_call_table :: "tool_call_row table" where
  "tool_call_table = \<lparr>
    tbl_key = tcr_tool_call_id,
    tbl_times = (\<lambda>r. [tcr_requested_at r] @ opt_list (tcr_completed_at r)),
    tbl_unique = [],
    tbl_check = (\<lambda>r. 1 \<le> tcr_planning_turn r \<and>
      1 \<le> tcr_attempt_number r \<and>
      tcr_execution_status r \<in> {None, Some ''success'', Some ''retryable_error'', Some ''non_retryable_error''} \<and>
      tcr_evidence_availability r \<in> {None, Some ''present'', Some ''absent'', Some ''unavailable''})\<rparr>"

record fact_assertion_row =
  far_assertion_id :: string
  far_case_id :: string
  far_fact_code :: string
  far_value :: string
  far_source_message_id :: string
  far_source_message_hash :: string
  far_source_span_start :: int
  far_source_span_end :: int
  far_relation :: string
  far_supersedes_assertion_id :: "string option"
  far_extractor_kind :: string
  far_extractor_version :: string
  far_context_tool_call_id :: "string option"
  far_context_result_hash :: "string option"
  far_assertion_sequence :: int
  far_candidate_fingerprint :: string
  far_recorded_at :: datetime

definition fact_assertion_table :: "fact_assertion_row table" where
  "fact_assertion_table = \<lparr>
    tbl_key = far_assertion_id,
    tbl_times = (\<lambda>r. [far_recorded_at r]),
    tbl_unique = [\<lambda>r. Some (JList [JStr (far_case_id r), JInt (far_assertion_sequence r)]),
      \<lambda>r. Some (JList [JStr (far_case_id r), JStr (far_candidate_fingerprint r)])],
    tbl_check = (\<lambda>r. far_fact_code r \<in> {''customer_still_reports_missing'', ''reported_delivery_location_checked''} \<and>
      far_value r \<in> {''true'', ''false'', ''unknown''} \<and>
      far_relation r \<in> {''new'', ''repeat'', ''correction'', ''withdrawal''} \<and>
      1 \<le> far_assertion_sequence r)\<rparr>"

record fact_question_row =
  fqr_question_id :: string
  fqr_case_id :: string
  fqr_fact_code :: string
  fqr_context_result_hash :: "string option"
  fqr_targeted_conflict :: bool
  fqr_asked_at :: datetime

definition fact_question_table :: "fact_question_row table" where
  "fact_question_table = \<lparr>
    tbl_key = fqr_question_id,
    tbl_times = (\<lambda>r. [fqr_asked_at r]),
    tbl_unique = [],
    tbl_check = (\<lambda>r. fqr_fact_code r \<in> {''customer_still_reports_missing'', ''reported_delivery_location_checked''})\<rparr>"

record fact_consumption_row =
  fcr_consumption_id :: string
  fcr_case_id :: string
  fcr_question_id :: string
  fcr_source_message_id :: string
  fcr_source_message_hash :: string
  fcr_candidate_batch_hash :: string
  fcr_outcome :: string
  fcr_reason_code :: string
  fcr_assertion_id :: "string option"
  fcr_decision_payload :: merge_decision
  fcr_recorded_at :: datetime

definition fact_consumption_table :: "fact_consumption_row table" where
  "fact_consumption_table = \<lparr>
    tbl_key = fcr_consumption_id,
    tbl_times = (\<lambda>r. [fcr_recorded_at r]),
    tbl_unique = [\<lambda>r. Some (JStr (fcr_question_id r)),
      \<lambda>r. Some (JStr (fcr_source_message_id r))],
    tbl_check = (\<lambda>r. fcr_outcome r \<in> {''accepted'', ''rejected'', ''empty''})\<rparr>"

record fact_snapshot_row =
  fsr_case_id :: string
  fsr_revision :: int
  fsr_snapshot_hash :: string
  fsr_snapshot_payload :: fact_snapshot
  fsr_rebuilt_at :: datetime

definition fact_snapshot_table :: "fact_snapshot_row table" where
  "fact_snapshot_table = \<lparr>
    tbl_key = fsr_case_id,
    tbl_times = (\<lambda>r. [fsr_rebuilt_at r]),
    tbl_unique = [],
    tbl_check = (\<lambda>r. True)\<rparr>"

record proposal_row =
  apr_proposal_id :: string
  apr_conversation_id :: string
  apr_case_id :: string
  apr_version :: int
  apr_proposal_state :: string
  apr_action_type :: string
  apr_execution_parameters :: json
  apr_customer_visible_effect :: utext
  apr_evidence_refs :: "evidence_ref list"
  apr_evidence_snapshot_hash :: string
  apr_case_fact_identity :: json
  apr_superseded_by_proposal_id :: "string option"
  apr_created_at :: datetime
  apr_expires_at :: datetime
  apr_state_changed_at :: datetime

definition proposal_table :: "proposal_row table" where
  "proposal_table = \<lparr>
    tbl_key = apr_proposal_id,
    tbl_times = (\<lambda>r. [apr_created_at r, apr_expires_at r, apr_state_changed_at r]),
    tbl_unique = [\<lambda>r. Some (JList [JStr (apr_case_id r), JInt (apr_version r)]),
      \<lambda>r. if apr_proposal_state r = ''pending_confirmation'' then Some (JStr (apr_case_id r)) else None],
    tbl_check = (\<lambda>r. 1 \<le> apr_version r \<and>
      apr_proposal_state r \<in> {''pending_confirmation'', ''confirmed'', ''declined'', ''superseded'', ''expired'',
       ''invalidated''} \<and>
      apr_action_type r = ''create_logistics_investigation_ticket'' \<and>
      instant (apr_created_at r) < instant (apr_expires_at r))\<rparr>"

record action_row =
  aer_action_id :: string
  aer_proposal_id :: string
  aer_conversation_id :: string
  aer_case_id :: string
  aer_action_state :: string
  aer_idempotency_key :: string
  aer_error_code :: "string option"
  aer_submitted_at :: "datetime option"
  aer_verified_at :: "datetime option"
  aer_created_at :: datetime
  aer_updated_at :: datetime

definition action_table :: "action_row table" where
  "action_table = \<lparr>
    tbl_key = aer_action_id,
    tbl_times = (\<lambda>r. [aer_created_at r, aer_updated_at r] @ opt_list (aer_submitted_at r) @ opt_list (aer_verified_at r)),
    tbl_unique = [\<lambda>r. Some (JStr (aer_proposal_id r)),
      \<lambda>r. Some (JStr (aer_idempotency_key r))],
    tbl_check = (\<lambda>r. aer_action_state r \<in> {''ready'', ''submitted'', ''succeeded'', ''failed_retryable'', ''failed_terminal'',
       ''uncertain''} \<and>
      (aer_action_state r = ''ready'') = (aer_submitted_at r = None) \<and>
      (aer_action_state r = ''succeeded'') = (aer_verified_at r \<noteq> None))\<rparr>"

record ticket_row =
  tkr_ticket_id :: string
  tkr_conversation_id :: string
  tkr_case_id :: string
  tkr_action_id :: string
  tkr_customer_id :: string
  tkr_authorized_order_id :: string
  tkr_target_shipment_id :: "string option"
  tkr_issue_type :: string
  tkr_ticket_state :: string
  tkr_idempotency_key :: string
  tkr_details :: json
  tkr_created_at :: datetime
  tkr_updated_at :: datetime

definition ticket_table :: "ticket_row table" where
  "ticket_table = \<lparr>
    tbl_key = tkr_ticket_id,
    tbl_times = (\<lambda>r. [tkr_created_at r, tkr_updated_at r]),
    tbl_unique = [\<lambda>r. Some (JStr (tkr_action_id r)),
      \<lambda>r. Some (JStr (tkr_idempotency_key r)),
      \<lambda>r. if tkr_ticket_state r = ''active'' \<and> tkr_target_shipment_id r = None
         then Some (JList [JStr (tkr_authorized_order_id r), JStr (tkr_issue_type r)]) else None,
      \<lambda>r. if tkr_ticket_state r = ''active'' \<and> tkr_target_shipment_id r \<noteq> None
         then Some (JList [JStr (tkr_authorized_order_id r), JStr (tkr_issue_type r),
                json_opt_str (tkr_target_shipment_id r)]) else None],
    tbl_check = (\<lambda>r. tkr_ticket_state r \<in> {''active'', ''closed''} \<and>
      tkr_issue_type r \<in> {''signed_not_received'', ''stalled_tracking''})\<rparr>"

record event_row =
  evr_event_id :: string
  evr_schema_version :: int
  evr_sequence :: int
  evr_timestamp :: datetime
  evr_conversation_id :: string
  evr_case_id :: "string option"
  evr_run_id :: "string option"
  evr_event_type :: string
  evr_visibility :: string
  evr_summary :: utext
  evr_payload :: json
  evr_evidence_refs :: "evidence_ref list"

definition event_table :: "event_row table" where
  "event_table = \<lparr>
    tbl_key = evr_event_id,
    tbl_times = (\<lambda>r. [evr_timestamp r]),
    tbl_unique = [\<lambda>r. Some (JList [JStr (evr_conversation_id r), JInt (evr_sequence r)])],
    tbl_check = (\<lambda>r. 1 \<le> evr_schema_version r \<and>
      1 \<le> evr_sequence r \<and>
      evr_visibility r \<in> {''customer'', ''developer'', ''both''})\<rparr>"

section \<open>The database\<close>

record database =
  db_conversations :: "conversation_row list"
  db_messages :: "message_row list"
  db_triage_records :: "triage_record_row list"
  db_policy_decisions :: "policy_decision_row list"
  db_cases :: "case_row list"
  db_runs :: "run_row list"
  db_tool_calls :: "tool_call_row list"
  db_fact_assertions :: "fact_assertion_row list"
  db_fact_questions :: "fact_question_row list"
  db_fact_consumptions :: "fact_consumption_row list"
  db_fact_snapshots :: "fact_snapshot_row list"
  db_proposals :: "proposal_row list"
  db_actions :: "action_row list"
  db_tickets :: "ticket_row list"
  db_events :: "event_row list"

definition empty_database :: database where
  "empty_database = \<lparr>db_conversations = [], db_messages = [], db_triage_records = [], db_policy_decisions = [], db_cases = [], db_runs = [], db_tool_calls = [], db_fact_assertions = [], db_fact_questions = [], db_fact_consumptions = [], db_fact_snapshots = [], db_proposals = [], db_actions = [], db_tickets = [], db_events = []\<rparr>"

text \<open>Existence of a referenced row, and the foreign keys of each table.\<close>

definition has_row :: "'r table \<Rightarrow> 'r list \<Rightarrow> string \<Rightarrow> bool" where
  "has_row t rows k \<longleftrightarrow> k \<in> tbl_key t ` set rows"

definition has_opt_row :: "'r table \<Rightarrow> 'r list \<Rightarrow> string option \<Rightarrow> bool" where
  "has_opt_row t rows k \<longleftrightarrow> (case k of None \<Rightarrow> True | Some x \<Rightarrow> has_row t rows x)"

definition refs_message :: "database \<Rightarrow> message_row \<Rightarrow> bool" where
  "refs_message d r \<longleftrightarrow> has_row conversation_table (db_conversations d) (msr_conversation_id r)"

definition refs_triage_record :: "database \<Rightarrow> triage_record_row \<Rightarrow> bool" where
  "refs_triage_record d r \<longleftrightarrow> has_row conversation_table (db_conversations d) (trr_conversation_id r) \<and>
     has_row message_table (db_messages d) (trr_message_id r)"

definition refs_policy_decision :: "database \<Rightarrow> policy_decision_row \<Rightarrow> bool" where
  "refs_policy_decision d r \<longleftrightarrow> has_row conversation_table (db_conversations d) (pdr_conversation_id r) \<and>
     has_row message_table (db_messages d) (pdr_message_id r) \<and>
     has_row triage_record_table (db_triage_records d) (pdr_triage_id r)"

definition refs_case :: "database \<Rightarrow> case_row \<Rightarrow> bool" where
  "refs_case d r \<longleftrightarrow> has_row conversation_table (db_conversations d) (icr_conversation_id r) \<and>
     (icr_related_case_id r = Some (icr_case_id r) \<or> has_opt_row case_table (db_cases d) (icr_related_case_id r))"

definition refs_run :: "database \<Rightarrow> run_row \<Rightarrow> bool" where
  "refs_run d r \<longleftrightarrow> has_row conversation_table (db_conversations d) (rnr_conversation_id r) \<and>
     has_opt_row case_table (db_cases d) (rnr_case_id r)"

definition refs_tool_call :: "database \<Rightarrow> tool_call_row \<Rightarrow> bool" where
  "refs_tool_call d r \<longleftrightarrow> has_row conversation_table (db_conversations d) (tcr_conversation_id r) \<and>
     has_row case_table (db_cases d) (tcr_case_id r) \<and>
     has_row run_table (db_runs d) (tcr_run_id r)"

definition refs_fact_assertion :: "database \<Rightarrow> fact_assertion_row \<Rightarrow> bool" where
  "refs_fact_assertion d r \<longleftrightarrow> has_row case_table (db_cases d) (far_case_id r) \<and>
     has_row message_table (db_messages d) (far_source_message_id r) \<and>
     (far_supersedes_assertion_id r = Some (far_assertion_id r) \<or>
      has_opt_row fact_assertion_table (db_fact_assertions d) (far_supersedes_assertion_id r)) \<and>
     has_opt_row tool_call_table (db_tool_calls d) (far_context_tool_call_id r)"

definition refs_fact_question :: "database \<Rightarrow> fact_question_row \<Rightarrow> bool" where
  "refs_fact_question d r \<longleftrightarrow> has_row case_table (db_cases d) (fqr_case_id r)"

definition refs_fact_consumption :: "database \<Rightarrow> fact_consumption_row \<Rightarrow> bool" where
  "refs_fact_consumption d r \<longleftrightarrow> has_row case_table (db_cases d) (fcr_case_id r) \<and>
     has_row fact_question_table (db_fact_questions d) (fcr_question_id r) \<and>
     has_row message_table (db_messages d) (fcr_source_message_id r) \<and>
     has_opt_row fact_assertion_table (db_fact_assertions d) (fcr_assertion_id r)"

definition refs_fact_snapshot :: "database \<Rightarrow> fact_snapshot_row \<Rightarrow> bool" where
  "refs_fact_snapshot d r \<longleftrightarrow> has_row case_table (db_cases d) (fsr_case_id r)"

definition refs_proposal :: "database \<Rightarrow> proposal_row \<Rightarrow> bool" where
  "refs_proposal d r \<longleftrightarrow> has_row conversation_table (db_conversations d) (apr_conversation_id r) \<and>
     has_row case_table (db_cases d) (apr_case_id r)"

definition refs_action :: "database \<Rightarrow> action_row \<Rightarrow> bool" where
  "refs_action d r \<longleftrightarrow> has_row proposal_table (db_proposals d) (aer_proposal_id r) \<and>
     has_row conversation_table (db_conversations d) (aer_conversation_id r) \<and>
     has_row case_table (db_cases d) (aer_case_id r)"

definition refs_ticket :: "database \<Rightarrow> ticket_row \<Rightarrow> bool" where
  "refs_ticket d r \<longleftrightarrow> has_row conversation_table (db_conversations d) (tkr_conversation_id r) \<and>
     has_row case_table (db_cases d) (tkr_case_id r) \<and>
     has_row action_table (db_actions d) (tkr_action_id r)"

definition refs_event :: "database \<Rightarrow> event_row \<Rightarrow> bool" where
  "refs_event d r \<longleftrightarrow> has_row conversation_table (db_conversations d) (evr_conversation_id r)"

section \<open>Statements\<close>

definition insert_conversation :: "database \<Rightarrow> conversation_row \<Rightarrow> database result" where
  "insert_conversation d r =
    bindE (insert_row conversation_table True (db_conversations d) r) (\<lambda>rows. Inr (d\<lparr>db_conversations := rows\<rparr>))"

definition insert_message :: "database \<Rightarrow> message_row \<Rightarrow> database result" where
  "insert_message d r =
    bindE (insert_row message_table (refs_message d r) (db_messages d) r) (\<lambda>rows. Inr (d\<lparr>db_messages := rows\<rparr>))"

definition insert_triage_record :: "database \<Rightarrow> triage_record_row \<Rightarrow> database result" where
  "insert_triage_record d r =
    bindE (insert_row triage_record_table (refs_triage_record d r) (db_triage_records d) r) (\<lambda>rows. Inr (d\<lparr>db_triage_records := rows\<rparr>))"

definition insert_policy_decision :: "database \<Rightarrow> policy_decision_row \<Rightarrow> database result" where
  "insert_policy_decision d r =
    bindE (insert_row policy_decision_table (refs_policy_decision d r) (db_policy_decisions d) r) (\<lambda>rows. Inr (d\<lparr>db_policy_decisions := rows\<rparr>))"

definition insert_case :: "database \<Rightarrow> case_row \<Rightarrow> database result" where
  "insert_case d r =
    bindE (insert_row case_table (refs_case d r) (db_cases d) r) (\<lambda>rows. Inr (d\<lparr>db_cases := rows\<rparr>))"

definition insert_run :: "database \<Rightarrow> run_row \<Rightarrow> database result" where
  "insert_run d r =
    bindE (insert_row run_table (refs_run d r) (db_runs d) r) (\<lambda>rows. Inr (d\<lparr>db_runs := rows\<rparr>))"

definition insert_tool_call :: "database \<Rightarrow> tool_call_row \<Rightarrow> database result" where
  "insert_tool_call d r =
    bindE (insert_row tool_call_table (refs_tool_call d r) (db_tool_calls d) r) (\<lambda>rows. Inr (d\<lparr>db_tool_calls := rows\<rparr>))"

definition insert_fact_assertion :: "database \<Rightarrow> fact_assertion_row \<Rightarrow> database result" where
  "insert_fact_assertion d r =
    bindE (insert_row fact_assertion_table (refs_fact_assertion d r) (db_fact_assertions d) r) (\<lambda>rows. Inr (d\<lparr>db_fact_assertions := rows\<rparr>))"

definition insert_fact_question :: "database \<Rightarrow> fact_question_row \<Rightarrow> database result" where
  "insert_fact_question d r =
    bindE (insert_row fact_question_table (refs_fact_question d r) (db_fact_questions d) r) (\<lambda>rows. Inr (d\<lparr>db_fact_questions := rows\<rparr>))"

definition insert_fact_consumption :: "database \<Rightarrow> fact_consumption_row \<Rightarrow> database result" where
  "insert_fact_consumption d r =
    bindE (insert_row fact_consumption_table (refs_fact_consumption d r) (db_fact_consumptions d) r) (\<lambda>rows. Inr (d\<lparr>db_fact_consumptions := rows\<rparr>))"

definition insert_fact_snapshot :: "database \<Rightarrow> fact_snapshot_row \<Rightarrow> database result" where
  "insert_fact_snapshot d r =
    bindE (insert_row fact_snapshot_table (refs_fact_snapshot d r) (db_fact_snapshots d) r) (\<lambda>rows. Inr (d\<lparr>db_fact_snapshots := rows\<rparr>))"

definition insert_proposal :: "database \<Rightarrow> proposal_row \<Rightarrow> database result" where
  "insert_proposal d r =
    bindE (insert_row proposal_table (refs_proposal d r) (db_proposals d) r) (\<lambda>rows. Inr (d\<lparr>db_proposals := rows\<rparr>))"

definition insert_action :: "database \<Rightarrow> action_row \<Rightarrow> database result" where
  "insert_action d r =
    bindE (insert_row action_table (refs_action d r) (db_actions d) r) (\<lambda>rows. Inr (d\<lparr>db_actions := rows\<rparr>))"

definition insert_ticket :: "database \<Rightarrow> ticket_row \<Rightarrow> database result" where
  "insert_ticket d r =
    bindE (insert_row ticket_table (refs_ticket d r) (db_tickets d) r) (\<lambda>rows. Inr (d\<lparr>db_tickets := rows\<rparr>))"

definition insert_event :: "database \<Rightarrow> event_row \<Rightarrow> database result" where
  "insert_event d r =
    bindE (insert_row event_table (refs_event d r) (db_events d) r) (\<lambda>rows. Inr (d\<lparr>db_events := rows\<rparr>))"

definition update_conversation_row :: "database \<Rightarrow> conversation_row \<Rightarrow> database result" where
  "update_conversation_row d r =
    bindE (update_row conversation_table (db_conversations d) r) (\<lambda>rows. Inr (d\<lparr>db_conversations := rows\<rparr>))"

definition update_case_row :: "database \<Rightarrow> case_row \<Rightarrow> database result" where
  "update_case_row d r =
    bindE (update_row case_table (db_cases d) r) (\<lambda>rows. Inr (d\<lparr>db_cases := rows\<rparr>))"

definition update_run_row :: "database \<Rightarrow> run_row \<Rightarrow> database result" where
  "update_run_row d r =
    bindE (update_row run_table (db_runs d) r) (\<lambda>rows. Inr (d\<lparr>db_runs := rows\<rparr>))"

definition update_tool_call_row :: "database \<Rightarrow> tool_call_row \<Rightarrow> database result" where
  "update_tool_call_row d r =
    bindE (update_row tool_call_table (db_tool_calls d) r) (\<lambda>rows. Inr (d\<lparr>db_tool_calls := rows\<rparr>))"

definition update_fact_snapshot_row :: "database \<Rightarrow> fact_snapshot_row \<Rightarrow> database result" where
  "update_fact_snapshot_row d r =
    bindE (update_row fact_snapshot_table (db_fact_snapshots d) r) (\<lambda>rows. Inr (d\<lparr>db_fact_snapshots := rows\<rparr>))"

definition update_proposal_row :: "database \<Rightarrow> proposal_row \<Rightarrow> database result" where
  "update_proposal_row d r =
    bindE (update_row proposal_table (db_proposals d) r) (\<lambda>rows. Inr (d\<lparr>db_proposals := rows\<rparr>))"

definition update_action_row :: "database \<Rightarrow> action_row \<Rightarrow> database result" where
  "update_action_row d r =
    bindE (update_row action_table (db_actions d) r) (\<lambda>rows. Inr (d\<lparr>db_actions := rows\<rparr>))"

section \<open>Well-formed tables\<close>

definition table_ok :: "'r table \<Rightarrow> 'r list \<Rightarrow> bool" where
  "table_ok t rows \<longleftrightarrow> (\<forall>r \<in> set rows. check_row t r = Inr r) \<and> sorted_wrt (\<lambda>q r. \<not> clash t q r) rows"

lemma table_ok_Nil [simp]: "table_ok t []"
  by (simp add: table_ok_def)

lemma clash_sym: "clash t q r = clash t r q"
  unfolding clash_def list_ex_iff by metis

lemma clash_key: "tbl_key t q = tbl_key t r \<Longrightarrow> clash t q r"
  by (simp add: clash_def)

lemma check_row_Inr: "check_row t r = Inr q \<longleftrightarrow> q = r \<and> list_all is_aware (tbl_times t r) \<and> tbl_check t r"
  by (auto simp: check_row_def)

lemma insert_row_Inr:
  "insert_row t refs rows r = Inr rows' \<longleftrightarrow>
     check_row t r = Inr r \<and> (\<forall>q \<in> set rows. \<not> clash t q r) \<and> refs \<and> rows' = rows @ [r]"
  by (auto simp: insert_row_def bindE_eq_Inr check_row_Inr list_ex_iff)

lemma update_row_Inr:
  "update_row t rows r = Inr rows' \<longleftrightarrow>
     check_row t r = Inr r \<and> (\<forall>q \<in> set rows. tbl_key t q \<noteq> tbl_key t r \<longrightarrow> \<not> clash t q r) \<and>
     rows' = map (\<lambda>q. if tbl_key t q = tbl_key t r then r else q) rows"
  by (auto simp: update_row_def bindE_eq_Inr check_row_Inr list_ex_iff)

lemma table_ok_insert: "table_ok t rows \<Longrightarrow> insert_row t refs rows r = Inr rows' \<Longrightarrow> table_ok t rows'"
  by (auto simp: table_ok_def insert_row_Inr sorted_wrt_append)

lemma table_ok_keys: "table_ok t rows \<Longrightarrow> distinct (map (tbl_key t) rows)"
  unfolding table_ok_def distinct_map_filter
  by (induction rows) (auto dest: clash_key)

lemma sorted_wrt_replace:
  assumes "sorted_wrt P xs" "\<And>x. x \<in> set xs \<Longrightarrow> k x \<noteq> c \<Longrightarrow> P x r \<and> P r x" "distinct (map k xs)"
  shows "sorted_wrt P (map (\<lambda>x. if k x = c then r else x) xs)"
  using assms by (induction xs) (auto simp: image_iff)

lemma table_ok_update:
  assumes "table_ok t rows" and "update_row t rows r = Inr rows'"
  shows "table_ok t rows'"
  using assms table_ok_keys [OF assms(1)]
  by (auto simp: table_ok_def update_row_Inr clash_sym intro!: sorted_wrt_replace)

lemma has_row_insert: "insert_row t refs rows r = Inr rows' \<Longrightarrow> has_row t rows k \<Longrightarrow> has_row t rows' k"
  by (auto simp: insert_row_Inr has_row_def)

lemma has_row_update: "update_row t rows r = Inr rows' \<Longrightarrow> has_row t rows k \<Longrightarrow> has_row t rows' k"
  by (auto simp: update_row_Inr has_row_def image_iff)

lemma get_row_key: "get_row t rows k = Some r \<Longrightarrow> r \<in> set rows \<and> tbl_key t r = k"
  unfolding get_row_def by (rule find_SomeD)

lemma get_row_iff:
  "table_ok t rows \<Longrightarrow> get_row t rows k = Some r \<longleftrightarrow> r \<in> set rows \<and> tbl_key t r = k"
proof (induction rows)
  case (Cons q rows)
  then have "table_ok t rows" by (simp add: table_ok_def)
  with Cons show ?case
    by (auto simp: get_row_def table_ok_def dest: clash_key)
qed (simp add: get_row_def)

lemma find_snoc: "List.find P (xs @ [x]) = (case List.find P xs of None \<Rightarrow> if P x then Some x else None | Some y \<Rightarrow> Some y)"
  by (induction xs) auto

lemma get_row_insert:
  assumes "insert_row t refs rows r = Inr rows'"
  shows "get_row t rows' k = (if k = tbl_key t r then Some r else get_row t rows k)"
proof -
  have "List.find (\<lambda>q. tbl_key t q = tbl_key t r) rows = None"
    using assms by (auto simp: insert_row_Inr find_None_iff dest: clash_key)
  then show ?thesis
    using assms by (auto simp: insert_row_Inr get_row_def find_snoc split: option.splits)
qed

lemma find_replace_key:
  "List.find (\<lambda>q. key q = key r) (map (\<lambda>q. if key q = key r then r else q) rows) =
     (if key r \<in> key ` set rows then Some r else None)"
  by (induction rows) auto

lemma find_replace_other:
  "k \<noteq> key r \<Longrightarrow> List.find (\<lambda>q. key q = k) (map (\<lambda>q. if key q = key r then r else q) rows) =
     List.find (\<lambda>q. key q = k) rows"
  by (induction rows) auto

lemma get_row_update:
  assumes "update_row t rows r = Inr rows'" and "has_row t rows (tbl_key t r)"
  shows "get_row t rows' k = (if k = tbl_key t r then Some r else get_row t rows k)"
  using assms find_replace_key [of "tbl_key t" r rows] find_replace_other [of k "tbl_key t" r rows]
  by (simp add: update_row_Inr get_row_def has_row_def)

lemma has_row_get: "has_row t rows k \<longleftrightarrow> get_row t rows k \<noteq> None"
  by (auto simp: has_row_def get_row_def find_None_iff)

text \<open>A key that is taken cannot be inserted again.\<close>

lemma insert_fresh: "insert_row t refs rows r = Inr rows' \<Longrightarrow> get_row t rows (tbl_key t r) = None"
  by (auto simp: insert_row_Inr get_row_def find_None_iff dest: clash_key)

section \<open>Well-formed databases\<close>

definition wf_db :: "database \<Rightarrow> bool" where
  "wf_db d \<longleftrightarrow>
     table_ok conversation_table (db_conversations d) \<and>
     table_ok message_table (db_messages d) \<and> (\<forall>r \<in> set (db_messages d). refs_message d r) \<and>
     table_ok triage_record_table (db_triage_records d) \<and> (\<forall>r \<in> set (db_triage_records d). refs_triage_record d r) \<and>
     table_ok policy_decision_table (db_policy_decisions d) \<and> (\<forall>r \<in> set (db_policy_decisions d). refs_policy_decision d r) \<and>
     table_ok case_table (db_cases d) \<and> (\<forall>r \<in> set (db_cases d). refs_case d r) \<and>
     table_ok run_table (db_runs d) \<and> (\<forall>r \<in> set (db_runs d). refs_run d r) \<and>
     table_ok tool_call_table (db_tool_calls d) \<and> (\<forall>r \<in> set (db_tool_calls d). refs_tool_call d r) \<and>
     table_ok fact_assertion_table (db_fact_assertions d) \<and> (\<forall>r \<in> set (db_fact_assertions d). refs_fact_assertion d r) \<and>
     table_ok fact_question_table (db_fact_questions d) \<and> (\<forall>r \<in> set (db_fact_questions d). refs_fact_question d r) \<and>
     table_ok fact_consumption_table (db_fact_consumptions d) \<and> (\<forall>r \<in> set (db_fact_consumptions d). refs_fact_consumption d r) \<and>
     table_ok fact_snapshot_table (db_fact_snapshots d) \<and> (\<forall>r \<in> set (db_fact_snapshots d). refs_fact_snapshot d r) \<and>
     table_ok proposal_table (db_proposals d) \<and> (\<forall>r \<in> set (db_proposals d). refs_proposal d r) \<and>
     table_ok action_table (db_actions d) \<and> (\<forall>r \<in> set (db_actions d). refs_action d r) \<and>
     table_ok ticket_table (db_tickets d) \<and> (\<forall>r \<in> set (db_tickets d). refs_ticket d r) \<and>
     table_ok event_table (db_events d) \<and> (\<forall>r \<in> set (db_events d). refs_event d r)"

text \<open>No row disappears.\<close>

definition grows :: "database \<Rightarrow> database \<Rightarrow> bool" where
  "grows d e \<longleftrightarrow>
     tbl_key conversation_table ` set (db_conversations d) \<subseteq> tbl_key conversation_table ` set (db_conversations e) \<and>
     tbl_key message_table ` set (db_messages d) \<subseteq> tbl_key message_table ` set (db_messages e) \<and>
     tbl_key triage_record_table ` set (db_triage_records d) \<subseteq> tbl_key triage_record_table ` set (db_triage_records e) \<and>
     tbl_key policy_decision_table ` set (db_policy_decisions d) \<subseteq> tbl_key policy_decision_table ` set (db_policy_decisions e) \<and>
     tbl_key case_table ` set (db_cases d) \<subseteq> tbl_key case_table ` set (db_cases e) \<and>
     tbl_key run_table ` set (db_runs d) \<subseteq> tbl_key run_table ` set (db_runs e) \<and>
     tbl_key tool_call_table ` set (db_tool_calls d) \<subseteq> tbl_key tool_call_table ` set (db_tool_calls e) \<and>
     tbl_key fact_assertion_table ` set (db_fact_assertions d) \<subseteq> tbl_key fact_assertion_table ` set (db_fact_assertions e) \<and>
     tbl_key fact_question_table ` set (db_fact_questions d) \<subseteq> tbl_key fact_question_table ` set (db_fact_questions e) \<and>
     tbl_key fact_consumption_table ` set (db_fact_consumptions d) \<subseteq> tbl_key fact_consumption_table ` set (db_fact_consumptions e) \<and>
     tbl_key fact_snapshot_table ` set (db_fact_snapshots d) \<subseteq> tbl_key fact_snapshot_table ` set (db_fact_snapshots e) \<and>
     tbl_key proposal_table ` set (db_proposals d) \<subseteq> tbl_key proposal_table ` set (db_proposals e) \<and>
     tbl_key action_table ` set (db_actions d) \<subseteq> tbl_key action_table ` set (db_actions e) \<and>
     tbl_key ticket_table ` set (db_tickets d) \<subseteq> tbl_key ticket_table ` set (db_tickets e) \<and>
     tbl_key event_table ` set (db_events d) \<subseteq> tbl_key event_table ` set (db_events e)"

lemma grows_refl [simp]: "grows d d"
  by (simp add: grows_def)

lemma grows_trans: "grows d e \<Longrightarrow> grows e f \<Longrightarrow> grows d f"
  unfolding grows_def by (elim conjE, intro conjI; rule subset_trans; assumption)

lemmas refs_defs = refs_message_def refs_triage_record_def refs_policy_decision_def refs_case_def refs_run_def refs_tool_call_def refs_fact_assertion_def refs_fact_question_def refs_fact_consumption_def refs_fact_snapshot_def refs_proposal_def refs_action_def refs_ticket_def refs_event_def

lemma has_row_mono: "tbl_key t ` set xs \<subseteq> tbl_key t ` set ys \<Longrightarrow> has_row t xs k \<Longrightarrow> has_row t ys k"
  by (auto simp: has_row_def)

lemma has_opt_row_mono:
  "tbl_key t ` set xs \<subseteq> tbl_key t ` set ys \<Longrightarrow> has_opt_row t xs k \<Longrightarrow> has_opt_row t ys k"
  by (auto simp: has_opt_row_def has_row_def split: option.splits)

lemma grows_conversation:
  "grows d e \<Longrightarrow> has_row conversation_table (db_conversations d) k \<Longrightarrow> has_row conversation_table (db_conversations e) k"
  unfolding grows_def by (elim conjE) (rule has_row_mono; assumption)

lemma grows_message:
  "grows d e \<Longrightarrow> has_row message_table (db_messages d) k \<Longrightarrow> has_row message_table (db_messages e) k"
  unfolding grows_def by (elim conjE) (rule has_row_mono; assumption)

lemma grows_triage_record:
  "grows d e \<Longrightarrow> has_row triage_record_table (db_triage_records d) k \<Longrightarrow> has_row triage_record_table (db_triage_records e) k"
  unfolding grows_def by (elim conjE) (rule has_row_mono; assumption)

lemma grows_case:
  "grows d e \<Longrightarrow> has_row case_table (db_cases d) k \<Longrightarrow> has_row case_table (db_cases e) k"
  unfolding grows_def by (elim conjE) (rule has_row_mono; assumption)

lemma grows_run:
  "grows d e \<Longrightarrow> has_row run_table (db_runs d) k \<Longrightarrow> has_row run_table (db_runs e) k"
  unfolding grows_def by (elim conjE) (rule has_row_mono; assumption)

lemma grows_tool_call:
  "grows d e \<Longrightarrow> has_row tool_call_table (db_tool_calls d) k \<Longrightarrow> has_row tool_call_table (db_tool_calls e) k"
  unfolding grows_def by (elim conjE) (rule has_row_mono; assumption)

lemma grows_fact_assertion:
  "grows d e \<Longrightarrow> has_row fact_assertion_table (db_fact_assertions d) k \<Longrightarrow> has_row fact_assertion_table (db_fact_assertions e) k"
  unfolding grows_def by (elim conjE) (rule has_row_mono; assumption)

lemma grows_fact_question:
  "grows d e \<Longrightarrow> has_row fact_question_table (db_fact_questions d) k \<Longrightarrow> has_row fact_question_table (db_fact_questions e) k"
  unfolding grows_def by (elim conjE) (rule has_row_mono; assumption)

lemma grows_proposal:
  "grows d e \<Longrightarrow> has_row proposal_table (db_proposals d) k \<Longrightarrow> has_row proposal_table (db_proposals e) k"
  unfolding grows_def by (elim conjE) (rule has_row_mono; assumption)

lemma grows_action:
  "grows d e \<Longrightarrow> has_row action_table (db_actions d) k \<Longrightarrow> has_row action_table (db_actions e) k"
  unfolding grows_def by (elim conjE) (rule has_row_mono; assumption)

lemma grows_opt_case:
  "grows d e \<Longrightarrow> has_opt_row case_table (db_cases d) k \<Longrightarrow> has_opt_row case_table (db_cases e) k"
  unfolding grows_def by (elim conjE) (rule has_opt_row_mono; assumption)

lemma grows_opt_tool_call:
  "grows d e \<Longrightarrow> has_opt_row tool_call_table (db_tool_calls d) k \<Longrightarrow> has_opt_row tool_call_table (db_tool_calls e) k"
  unfolding grows_def by (elim conjE) (rule has_opt_row_mono; assumption)

lemma grows_opt_fact_assertion:
  "grows d e \<Longrightarrow> has_opt_row fact_assertion_table (db_fact_assertions d) k \<Longrightarrow> has_opt_row fact_assertion_table (db_fact_assertions e) k"
  unfolding grows_def by (elim conjE) (rule has_opt_row_mono; assumption)

lemmas grows_rows = grows_conversation grows_message grows_triage_record grows_case grows_run grows_tool_call grows_fact_assertion grows_fact_question grows_proposal grows_action grows_opt_case grows_opt_tool_call grows_opt_fact_assertion

lemma refs_message_grow: "grows d e \<Longrightarrow> refs_message d r \<Longrightarrow> refs_message e r"
  unfolding refs_message_def by (blast intro: grows_rows)

lemma refs_triage_record_grow: "grows d e \<Longrightarrow> refs_triage_record d r \<Longrightarrow> refs_triage_record e r"
  unfolding refs_triage_record_def by (blast intro: grows_rows)

lemma refs_policy_decision_grow: "grows d e \<Longrightarrow> refs_policy_decision d r \<Longrightarrow> refs_policy_decision e r"
  unfolding refs_policy_decision_def by (blast intro: grows_rows)

lemma refs_case_grow: "grows d e \<Longrightarrow> refs_case d r \<Longrightarrow> refs_case e r"
  unfolding refs_case_def by (blast intro: grows_rows)

lemma refs_run_grow: "grows d e \<Longrightarrow> refs_run d r \<Longrightarrow> refs_run e r"
  unfolding refs_run_def by (blast intro: grows_rows)

lemma refs_tool_call_grow: "grows d e \<Longrightarrow> refs_tool_call d r \<Longrightarrow> refs_tool_call e r"
  unfolding refs_tool_call_def by (blast intro: grows_rows)

lemma refs_fact_assertion_grow: "grows d e \<Longrightarrow> refs_fact_assertion d r \<Longrightarrow> refs_fact_assertion e r"
  unfolding refs_fact_assertion_def by (blast intro: grows_rows)

lemma refs_fact_question_grow: "grows d e \<Longrightarrow> refs_fact_question d r \<Longrightarrow> refs_fact_question e r"
  unfolding refs_fact_question_def by (blast intro: grows_rows)

lemma refs_fact_consumption_grow: "grows d e \<Longrightarrow> refs_fact_consumption d r \<Longrightarrow> refs_fact_consumption e r"
  unfolding refs_fact_consumption_def by (blast intro: grows_rows)

lemma refs_fact_snapshot_grow: "grows d e \<Longrightarrow> refs_fact_snapshot d r \<Longrightarrow> refs_fact_snapshot e r"
  unfolding refs_fact_snapshot_def by (blast intro: grows_rows)

lemma refs_proposal_grow: "grows d e \<Longrightarrow> refs_proposal d r \<Longrightarrow> refs_proposal e r"
  unfolding refs_proposal_def by (blast intro: grows_rows)

lemma refs_action_grow: "grows d e \<Longrightarrow> refs_action d r \<Longrightarrow> refs_action e r"
  unfolding refs_action_def by (blast intro: grows_rows)

lemma refs_ticket_grow: "grows d e \<Longrightarrow> refs_ticket d r \<Longrightarrow> refs_ticket e r"
  unfolding refs_ticket_def by (blast intro: grows_rows)

lemma refs_event_grow: "grows d e \<Longrightarrow> refs_event d r \<Longrightarrow> refs_event e r"
  unfolding refs_event_def by (blast intro: grows_rows)

lemmas refs_grow = refs_message_grow refs_triage_record_grow refs_policy_decision_grow refs_case_grow refs_run_grow refs_tool_call_grow refs_fact_assertion_grow refs_fact_question_grow refs_fact_consumption_grow refs_fact_snapshot_grow refs_proposal_grow refs_action_grow refs_ticket_grow refs_event_grow

text \<open>A flush that replaces the rows of one table by well-formed rows with at least the old keys.\<close>

lemma wf_set_conversations:
  assumes "wf_db d" and "table_ok conversation_table rows"
    and keys: "tbl_key conversation_table ` set (db_conversations d) \<subseteq> tbl_key conversation_table ` set rows"
  shows "wf_db (d\<lparr>db_conversations := rows\<rparr>) \<and> grows d (d\<lparr>db_conversations := rows\<rparr>)"
proof -
  have g: "grows d (d\<lparr>db_conversations := rows\<rparr>)" using keys by (simp add: grows_def)
  show ?thesis using assms g unfolding wf_db_def by (simp add: refs_grow [OF g])
qed

lemma wf_set_messages:
  assumes "wf_db d" and "table_ok message_table rows"
    and keys: "tbl_key message_table ` set (db_messages d) \<subseteq> tbl_key message_table ` set rows"
    and "\<And>r. r \<in> set rows \<Longrightarrow> refs_message d r"
  shows "wf_db (d\<lparr>db_messages := rows\<rparr>) \<and> grows d (d\<lparr>db_messages := rows\<rparr>)"
proof -
  have g: "grows d (d\<lparr>db_messages := rows\<rparr>)" using keys by (simp add: grows_def)
  show ?thesis using assms g unfolding wf_db_def by (simp add: refs_grow [OF g])
qed

lemma wf_set_triage_records:
  assumes "wf_db d" and "table_ok triage_record_table rows"
    and keys: "tbl_key triage_record_table ` set (db_triage_records d) \<subseteq> tbl_key triage_record_table ` set rows"
    and "\<And>r. r \<in> set rows \<Longrightarrow> refs_triage_record d r"
  shows "wf_db (d\<lparr>db_triage_records := rows\<rparr>) \<and> grows d (d\<lparr>db_triage_records := rows\<rparr>)"
proof -
  have g: "grows d (d\<lparr>db_triage_records := rows\<rparr>)" using keys by (simp add: grows_def)
  show ?thesis using assms g unfolding wf_db_def by (simp add: refs_grow [OF g])
qed

lemma wf_set_policy_decisions:
  assumes "wf_db d" and "table_ok policy_decision_table rows"
    and keys: "tbl_key policy_decision_table ` set (db_policy_decisions d) \<subseteq> tbl_key policy_decision_table ` set rows"
    and "\<And>r. r \<in> set rows \<Longrightarrow> refs_policy_decision d r"
  shows "wf_db (d\<lparr>db_policy_decisions := rows\<rparr>) \<and> grows d (d\<lparr>db_policy_decisions := rows\<rparr>)"
proof -
  have g: "grows d (d\<lparr>db_policy_decisions := rows\<rparr>)" using keys by (simp add: grows_def)
  show ?thesis using assms g unfolding wf_db_def by (simp add: refs_grow [OF g])
qed

lemma wf_set_cases:
  assumes "wf_db d" and "table_ok case_table rows"
    and keys: "tbl_key case_table ` set (db_cases d) \<subseteq> tbl_key case_table ` set rows"
    and "\<And>r. r \<in> set rows \<Longrightarrow> refs_case d r"
  shows "wf_db (d\<lparr>db_cases := rows\<rparr>) \<and> grows d (d\<lparr>db_cases := rows\<rparr>)"
proof -
  have g: "grows d (d\<lparr>db_cases := rows\<rparr>)" using keys by (simp add: grows_def)
  show ?thesis using assms g unfolding wf_db_def by (simp add: refs_grow [OF g])
qed

lemma wf_set_runs:
  assumes "wf_db d" and "table_ok run_table rows"
    and keys: "tbl_key run_table ` set (db_runs d) \<subseteq> tbl_key run_table ` set rows"
    and "\<And>r. r \<in> set rows \<Longrightarrow> refs_run d r"
  shows "wf_db (d\<lparr>db_runs := rows\<rparr>) \<and> grows d (d\<lparr>db_runs := rows\<rparr>)"
proof -
  have g: "grows d (d\<lparr>db_runs := rows\<rparr>)" using keys by (simp add: grows_def)
  show ?thesis using assms g unfolding wf_db_def by (simp add: refs_grow [OF g])
qed

lemma wf_set_tool_calls:
  assumes "wf_db d" and "table_ok tool_call_table rows"
    and keys: "tbl_key tool_call_table ` set (db_tool_calls d) \<subseteq> tbl_key tool_call_table ` set rows"
    and "\<And>r. r \<in> set rows \<Longrightarrow> refs_tool_call d r"
  shows "wf_db (d\<lparr>db_tool_calls := rows\<rparr>) \<and> grows d (d\<lparr>db_tool_calls := rows\<rparr>)"
proof -
  have g: "grows d (d\<lparr>db_tool_calls := rows\<rparr>)" using keys by (simp add: grows_def)
  show ?thesis using assms g unfolding wf_db_def by (simp add: refs_grow [OF g])
qed

lemma wf_set_fact_assertions:
  assumes "wf_db d" and "table_ok fact_assertion_table rows"
    and keys: "tbl_key fact_assertion_table ` set (db_fact_assertions d) \<subseteq> tbl_key fact_assertion_table ` set rows"
    and "\<And>r. r \<in> set rows \<Longrightarrow> refs_fact_assertion d r"
  shows "wf_db (d\<lparr>db_fact_assertions := rows\<rparr>) \<and> grows d (d\<lparr>db_fact_assertions := rows\<rparr>)"
proof -
  have g: "grows d (d\<lparr>db_fact_assertions := rows\<rparr>)" using keys by (simp add: grows_def)
  show ?thesis using assms g unfolding wf_db_def by (simp add: refs_grow [OF g])
qed

lemma wf_set_fact_questions:
  assumes "wf_db d" and "table_ok fact_question_table rows"
    and keys: "tbl_key fact_question_table ` set (db_fact_questions d) \<subseteq> tbl_key fact_question_table ` set rows"
    and "\<And>r. r \<in> set rows \<Longrightarrow> refs_fact_question d r"
  shows "wf_db (d\<lparr>db_fact_questions := rows\<rparr>) \<and> grows d (d\<lparr>db_fact_questions := rows\<rparr>)"
proof -
  have g: "grows d (d\<lparr>db_fact_questions := rows\<rparr>)" using keys by (simp add: grows_def)
  show ?thesis using assms g unfolding wf_db_def by (simp add: refs_grow [OF g])
qed

lemma wf_set_fact_consumptions:
  assumes "wf_db d" and "table_ok fact_consumption_table rows"
    and keys: "tbl_key fact_consumption_table ` set (db_fact_consumptions d) \<subseteq> tbl_key fact_consumption_table ` set rows"
    and "\<And>r. r \<in> set rows \<Longrightarrow> refs_fact_consumption d r"
  shows "wf_db (d\<lparr>db_fact_consumptions := rows\<rparr>) \<and> grows d (d\<lparr>db_fact_consumptions := rows\<rparr>)"
proof -
  have g: "grows d (d\<lparr>db_fact_consumptions := rows\<rparr>)" using keys by (simp add: grows_def)
  show ?thesis using assms g unfolding wf_db_def by (simp add: refs_grow [OF g])
qed

lemma wf_set_fact_snapshots:
  assumes "wf_db d" and "table_ok fact_snapshot_table rows"
    and keys: "tbl_key fact_snapshot_table ` set (db_fact_snapshots d) \<subseteq> tbl_key fact_snapshot_table ` set rows"
    and "\<And>r. r \<in> set rows \<Longrightarrow> refs_fact_snapshot d r"
  shows "wf_db (d\<lparr>db_fact_snapshots := rows\<rparr>) \<and> grows d (d\<lparr>db_fact_snapshots := rows\<rparr>)"
proof -
  have g: "grows d (d\<lparr>db_fact_snapshots := rows\<rparr>)" using keys by (simp add: grows_def)
  show ?thesis using assms g unfolding wf_db_def by (simp add: refs_grow [OF g])
qed

lemma wf_set_proposals:
  assumes "wf_db d" and "table_ok proposal_table rows"
    and keys: "tbl_key proposal_table ` set (db_proposals d) \<subseteq> tbl_key proposal_table ` set rows"
    and "\<And>r. r \<in> set rows \<Longrightarrow> refs_proposal d r"
  shows "wf_db (d\<lparr>db_proposals := rows\<rparr>) \<and> grows d (d\<lparr>db_proposals := rows\<rparr>)"
proof -
  have g: "grows d (d\<lparr>db_proposals := rows\<rparr>)" using keys by (simp add: grows_def)
  show ?thesis using assms g unfolding wf_db_def by (simp add: refs_grow [OF g])
qed

lemma wf_set_actions:
  assumes "wf_db d" and "table_ok action_table rows"
    and keys: "tbl_key action_table ` set (db_actions d) \<subseteq> tbl_key action_table ` set rows"
    and "\<And>r. r \<in> set rows \<Longrightarrow> refs_action d r"
  shows "wf_db (d\<lparr>db_actions := rows\<rparr>) \<and> grows d (d\<lparr>db_actions := rows\<rparr>)"
proof -
  have g: "grows d (d\<lparr>db_actions := rows\<rparr>)" using keys by (simp add: grows_def)
  show ?thesis using assms g unfolding wf_db_def by (simp add: refs_grow [OF g])
qed

lemma wf_set_tickets:
  assumes "wf_db d" and "table_ok ticket_table rows"
    and keys: "tbl_key ticket_table ` set (db_tickets d) \<subseteq> tbl_key ticket_table ` set rows"
    and "\<And>r. r \<in> set rows \<Longrightarrow> refs_ticket d r"
  shows "wf_db (d\<lparr>db_tickets := rows\<rparr>) \<and> grows d (d\<lparr>db_tickets := rows\<rparr>)"
proof -
  have g: "grows d (d\<lparr>db_tickets := rows\<rparr>)" using keys by (simp add: grows_def)
  show ?thesis using assms g unfolding wf_db_def by (simp add: refs_grow [OF g])
qed

lemma wf_set_events:
  assumes "wf_db d" and "table_ok event_table rows"
    and keys: "tbl_key event_table ` set (db_events d) \<subseteq> tbl_key event_table ` set rows"
    and "\<And>r. r \<in> set rows \<Longrightarrow> refs_event d r"
  shows "wf_db (d\<lparr>db_events := rows\<rparr>) \<and> grows d (d\<lparr>db_events := rows\<rparr>)"
proof -
  have g: "grows d (d\<lparr>db_events := rows\<rparr>)" using keys by (simp add: grows_def)
  show ?thesis using assms g unfolding wf_db_def by (simp add: refs_grow [OF g])
qed

lemma insert_row_keys: "insert_row t refs rows r = Inr rows' \<Longrightarrow> tbl_key t ` set rows \<subseteq> tbl_key t ` set rows'"
  by (auto simp: insert_row_Inr)

lemma insert_row_set: "insert_row t refs rows r = Inr rows' \<Longrightarrow> set rows' = insert r (set rows) \<and> refs"
  by (auto simp: insert_row_Inr)

lemma update_row_keys: "update_row t rows r = Inr rows' \<Longrightarrow> tbl_key t ` set rows \<subseteq> tbl_key t ` set rows'"
  by (auto simp: update_row_Inr image_iff)

lemma update_row_set: "update_row t rows r = Inr rows' \<Longrightarrow> set rows' \<subseteq> insert r (set rows)"
  by (auto simp: update_row_Inr)

lemma insert_conversation_wf:
  assumes "wf_db d" and "insert_conversation d r = Inr d'"
  shows "wf_db d' \<and> grows d d'"
proof -
  from assms(2) obtain rows where rows: "insert_row conversation_table True (db_conversations d) r = Inr rows"
      "d' = d\<lparr>db_conversations := rows\<rparr>"
    by (auto simp: insert_conversation_def bindE_eq_Inr)
  have old: "table_ok conversation_table (db_conversations d)" using assms(1) by (simp add: wf_db_def)
  show ?thesis unfolding rows(2)
    using assms(1) table_ok_insert [OF old rows(1)] insert_row_keys [OF rows(1)]
    by (rule wf_set_conversations)
qed

lemma insert_message_wf:
  assumes "wf_db d" and "insert_message d r = Inr d'"
  shows "wf_db d' \<and> grows d d'"
proof -
  from assms(2) obtain rows where rows: "insert_row message_table (refs_message d r) (db_messages d) r = Inr rows"
      "d' = d\<lparr>db_messages := rows\<rparr>"
    by (auto simp: insert_message_def bindE_eq_Inr)
  have old: "table_ok message_table (db_messages d)" using assms(1) by (simp add: wf_db_def)
  show ?thesis unfolding rows(2)
    using assms(1) table_ok_insert [OF old rows(1)] insert_row_keys [OF rows(1)]
    insert_row_set [OF rows(1)]
    by (intro wf_set_messages) (auto simp: wf_db_def)
qed

lemma insert_triage_record_wf:
  assumes "wf_db d" and "insert_triage_record d r = Inr d'"
  shows "wf_db d' \<and> grows d d'"
proof -
  from assms(2) obtain rows where rows: "insert_row triage_record_table (refs_triage_record d r) (db_triage_records d) r = Inr rows"
      "d' = d\<lparr>db_triage_records := rows\<rparr>"
    by (auto simp: insert_triage_record_def bindE_eq_Inr)
  have old: "table_ok triage_record_table (db_triage_records d)" using assms(1) by (simp add: wf_db_def)
  show ?thesis unfolding rows(2)
    using assms(1) table_ok_insert [OF old rows(1)] insert_row_keys [OF rows(1)]
    insert_row_set [OF rows(1)]
    by (intro wf_set_triage_records) (auto simp: wf_db_def)
qed

lemma insert_policy_decision_wf:
  assumes "wf_db d" and "insert_policy_decision d r = Inr d'"
  shows "wf_db d' \<and> grows d d'"
proof -
  from assms(2) obtain rows where rows: "insert_row policy_decision_table (refs_policy_decision d r) (db_policy_decisions d) r = Inr rows"
      "d' = d\<lparr>db_policy_decisions := rows\<rparr>"
    by (auto simp: insert_policy_decision_def bindE_eq_Inr)
  have old: "table_ok policy_decision_table (db_policy_decisions d)" using assms(1) by (simp add: wf_db_def)
  show ?thesis unfolding rows(2)
    using assms(1) table_ok_insert [OF old rows(1)] insert_row_keys [OF rows(1)]
    insert_row_set [OF rows(1)]
    by (intro wf_set_policy_decisions) (auto simp: wf_db_def)
qed

lemma insert_case_wf:
  assumes "wf_db d" and "insert_case d r = Inr d'"
  shows "wf_db d' \<and> grows d d'"
proof -
  from assms(2) obtain rows where rows: "insert_row case_table (refs_case d r) (db_cases d) r = Inr rows"
      "d' = d\<lparr>db_cases := rows\<rparr>"
    by (auto simp: insert_case_def bindE_eq_Inr)
  have old: "table_ok case_table (db_cases d)" using assms(1) by (simp add: wf_db_def)
  show ?thesis unfolding rows(2)
    using assms(1) table_ok_insert [OF old rows(1)] insert_row_keys [OF rows(1)]
    insert_row_set [OF rows(1)]
    by (intro wf_set_cases) (auto simp: wf_db_def)
qed

lemma insert_run_wf:
  assumes "wf_db d" and "insert_run d r = Inr d'"
  shows "wf_db d' \<and> grows d d'"
proof -
  from assms(2) obtain rows where rows: "insert_row run_table (refs_run d r) (db_runs d) r = Inr rows"
      "d' = d\<lparr>db_runs := rows\<rparr>"
    by (auto simp: insert_run_def bindE_eq_Inr)
  have old: "table_ok run_table (db_runs d)" using assms(1) by (simp add: wf_db_def)
  show ?thesis unfolding rows(2)
    using assms(1) table_ok_insert [OF old rows(1)] insert_row_keys [OF rows(1)]
    insert_row_set [OF rows(1)]
    by (intro wf_set_runs) (auto simp: wf_db_def)
qed

lemma insert_tool_call_wf:
  assumes "wf_db d" and "insert_tool_call d r = Inr d'"
  shows "wf_db d' \<and> grows d d'"
proof -
  from assms(2) obtain rows where rows: "insert_row tool_call_table (refs_tool_call d r) (db_tool_calls d) r = Inr rows"
      "d' = d\<lparr>db_tool_calls := rows\<rparr>"
    by (auto simp: insert_tool_call_def bindE_eq_Inr)
  have old: "table_ok tool_call_table (db_tool_calls d)" using assms(1) by (simp add: wf_db_def)
  show ?thesis unfolding rows(2)
    using assms(1) table_ok_insert [OF old rows(1)] insert_row_keys [OF rows(1)]
    insert_row_set [OF rows(1)]
    by (intro wf_set_tool_calls) (auto simp: wf_db_def)
qed

lemma insert_fact_assertion_wf:
  assumes "wf_db d" and "insert_fact_assertion d r = Inr d'"
  shows "wf_db d' \<and> grows d d'"
proof -
  from assms(2) obtain rows where rows: "insert_row fact_assertion_table (refs_fact_assertion d r) (db_fact_assertions d) r = Inr rows"
      "d' = d\<lparr>db_fact_assertions := rows\<rparr>"
    by (auto simp: insert_fact_assertion_def bindE_eq_Inr)
  have old: "table_ok fact_assertion_table (db_fact_assertions d)" using assms(1) by (simp add: wf_db_def)
  show ?thesis unfolding rows(2)
    using assms(1) table_ok_insert [OF old rows(1)] insert_row_keys [OF rows(1)]
    insert_row_set [OF rows(1)]
    by (intro wf_set_fact_assertions) (auto simp: wf_db_def)
qed

lemma insert_fact_question_wf:
  assumes "wf_db d" and "insert_fact_question d r = Inr d'"
  shows "wf_db d' \<and> grows d d'"
proof -
  from assms(2) obtain rows where rows: "insert_row fact_question_table (refs_fact_question d r) (db_fact_questions d) r = Inr rows"
      "d' = d\<lparr>db_fact_questions := rows\<rparr>"
    by (auto simp: insert_fact_question_def bindE_eq_Inr)
  have old: "table_ok fact_question_table (db_fact_questions d)" using assms(1) by (simp add: wf_db_def)
  show ?thesis unfolding rows(2)
    using assms(1) table_ok_insert [OF old rows(1)] insert_row_keys [OF rows(1)]
    insert_row_set [OF rows(1)]
    by (intro wf_set_fact_questions) (auto simp: wf_db_def)
qed

lemma insert_fact_consumption_wf:
  assumes "wf_db d" and "insert_fact_consumption d r = Inr d'"
  shows "wf_db d' \<and> grows d d'"
proof -
  from assms(2) obtain rows where rows: "insert_row fact_consumption_table (refs_fact_consumption d r) (db_fact_consumptions d) r = Inr rows"
      "d' = d\<lparr>db_fact_consumptions := rows\<rparr>"
    by (auto simp: insert_fact_consumption_def bindE_eq_Inr)
  have old: "table_ok fact_consumption_table (db_fact_consumptions d)" using assms(1) by (simp add: wf_db_def)
  show ?thesis unfolding rows(2)
    using assms(1) table_ok_insert [OF old rows(1)] insert_row_keys [OF rows(1)]
    insert_row_set [OF rows(1)]
    by (intro wf_set_fact_consumptions) (auto simp: wf_db_def)
qed

lemma insert_fact_snapshot_wf:
  assumes "wf_db d" and "insert_fact_snapshot d r = Inr d'"
  shows "wf_db d' \<and> grows d d'"
proof -
  from assms(2) obtain rows where rows: "insert_row fact_snapshot_table (refs_fact_snapshot d r) (db_fact_snapshots d) r = Inr rows"
      "d' = d\<lparr>db_fact_snapshots := rows\<rparr>"
    by (auto simp: insert_fact_snapshot_def bindE_eq_Inr)
  have old: "table_ok fact_snapshot_table (db_fact_snapshots d)" using assms(1) by (simp add: wf_db_def)
  show ?thesis unfolding rows(2)
    using assms(1) table_ok_insert [OF old rows(1)] insert_row_keys [OF rows(1)]
    insert_row_set [OF rows(1)]
    by (intro wf_set_fact_snapshots) (auto simp: wf_db_def)
qed

lemma insert_proposal_wf:
  assumes "wf_db d" and "insert_proposal d r = Inr d'"
  shows "wf_db d' \<and> grows d d'"
proof -
  from assms(2) obtain rows where rows: "insert_row proposal_table (refs_proposal d r) (db_proposals d) r = Inr rows"
      "d' = d\<lparr>db_proposals := rows\<rparr>"
    by (auto simp: insert_proposal_def bindE_eq_Inr)
  have old: "table_ok proposal_table (db_proposals d)" using assms(1) by (simp add: wf_db_def)
  show ?thesis unfolding rows(2)
    using assms(1) table_ok_insert [OF old rows(1)] insert_row_keys [OF rows(1)]
    insert_row_set [OF rows(1)]
    by (intro wf_set_proposals) (auto simp: wf_db_def)
qed

lemma insert_action_wf:
  assumes "wf_db d" and "insert_action d r = Inr d'"
  shows "wf_db d' \<and> grows d d'"
proof -
  from assms(2) obtain rows where rows: "insert_row action_table (refs_action d r) (db_actions d) r = Inr rows"
      "d' = d\<lparr>db_actions := rows\<rparr>"
    by (auto simp: insert_action_def bindE_eq_Inr)
  have old: "table_ok action_table (db_actions d)" using assms(1) by (simp add: wf_db_def)
  show ?thesis unfolding rows(2)
    using assms(1) table_ok_insert [OF old rows(1)] insert_row_keys [OF rows(1)]
    insert_row_set [OF rows(1)]
    by (intro wf_set_actions) (auto simp: wf_db_def)
qed

lemma insert_ticket_wf:
  assumes "wf_db d" and "insert_ticket d r = Inr d'"
  shows "wf_db d' \<and> grows d d'"
proof -
  from assms(2) obtain rows where rows: "insert_row ticket_table (refs_ticket d r) (db_tickets d) r = Inr rows"
      "d' = d\<lparr>db_tickets := rows\<rparr>"
    by (auto simp: insert_ticket_def bindE_eq_Inr)
  have old: "table_ok ticket_table (db_tickets d)" using assms(1) by (simp add: wf_db_def)
  show ?thesis unfolding rows(2)
    using assms(1) table_ok_insert [OF old rows(1)] insert_row_keys [OF rows(1)]
    insert_row_set [OF rows(1)]
    by (intro wf_set_tickets) (auto simp: wf_db_def)
qed

lemma insert_event_wf:
  assumes "wf_db d" and "insert_event d r = Inr d'"
  shows "wf_db d' \<and> grows d d'"
proof -
  from assms(2) obtain rows where rows: "insert_row event_table (refs_event d r) (db_events d) r = Inr rows"
      "d' = d\<lparr>db_events := rows\<rparr>"
    by (auto simp: insert_event_def bindE_eq_Inr)
  have old: "table_ok event_table (db_events d)" using assms(1) by (simp add: wf_db_def)
  show ?thesis unfolding rows(2)
    using assms(1) table_ok_insert [OF old rows(1)] insert_row_keys [OF rows(1)]
    insert_row_set [OF rows(1)]
    by (intro wf_set_events) (auto simp: wf_db_def)
qed

lemma update_conversation_row_wf:
  assumes "wf_db d" and "update_conversation_row d r = Inr d'"
  shows "wf_db d' \<and> grows d d'"
proof -
  from assms(2) obtain rows where rows: "update_row conversation_table (db_conversations d) r = Inr rows"
      "d' = d\<lparr>db_conversations := rows\<rparr>"
    by (auto simp: update_conversation_row_def bindE_eq_Inr)
  have old: "table_ok conversation_table (db_conversations d)" using assms(1) by (simp add: wf_db_def)
  show ?thesis unfolding rows(2)
    using assms(1) table_ok_update [OF old rows(1)] update_row_keys [OF rows(1)]
    by (rule wf_set_conversations)
qed

lemma update_case_row_wf:
  assumes "wf_db d" and "update_case_row d r = Inr d'" and "refs_case d r"
  shows "wf_db d' \<and> grows d d'"
proof -
  from assms(2) obtain rows where rows: "update_row case_table (db_cases d) r = Inr rows"
      "d' = d\<lparr>db_cases := rows\<rparr>"
    by (auto simp: update_case_row_def bindE_eq_Inr)
  have old: "table_ok case_table (db_cases d)" using assms(1) by (simp add: wf_db_def)
  show ?thesis unfolding rows(2)
    using assms(1) table_ok_update [OF old rows(1)] update_row_keys [OF rows(1)]
    update_row_set [OF rows(1)] assms(3)
    by (intro wf_set_cases) (auto simp: wf_db_def)
qed

lemma update_run_row_wf:
  assumes "wf_db d" and "update_run_row d r = Inr d'" and "refs_run d r"
  shows "wf_db d' \<and> grows d d'"
proof -
  from assms(2) obtain rows where rows: "update_row run_table (db_runs d) r = Inr rows"
      "d' = d\<lparr>db_runs := rows\<rparr>"
    by (auto simp: update_run_row_def bindE_eq_Inr)
  have old: "table_ok run_table (db_runs d)" using assms(1) by (simp add: wf_db_def)
  show ?thesis unfolding rows(2)
    using assms(1) table_ok_update [OF old rows(1)] update_row_keys [OF rows(1)]
    update_row_set [OF rows(1)] assms(3)
    by (intro wf_set_runs) (auto simp: wf_db_def)
qed

lemma update_tool_call_row_wf:
  assumes "wf_db d" and "update_tool_call_row d r = Inr d'" and "refs_tool_call d r"
  shows "wf_db d' \<and> grows d d'"
proof -
  from assms(2) obtain rows where rows: "update_row tool_call_table (db_tool_calls d) r = Inr rows"
      "d' = d\<lparr>db_tool_calls := rows\<rparr>"
    by (auto simp: update_tool_call_row_def bindE_eq_Inr)
  have old: "table_ok tool_call_table (db_tool_calls d)" using assms(1) by (simp add: wf_db_def)
  show ?thesis unfolding rows(2)
    using assms(1) table_ok_update [OF old rows(1)] update_row_keys [OF rows(1)]
    update_row_set [OF rows(1)] assms(3)
    by (intro wf_set_tool_calls) (auto simp: wf_db_def)
qed

lemma update_fact_snapshot_row_wf:
  assumes "wf_db d" and "update_fact_snapshot_row d r = Inr d'" and "refs_fact_snapshot d r"
  shows "wf_db d' \<and> grows d d'"
proof -
  from assms(2) obtain rows where rows: "update_row fact_snapshot_table (db_fact_snapshots d) r = Inr rows"
      "d' = d\<lparr>db_fact_snapshots := rows\<rparr>"
    by (auto simp: update_fact_snapshot_row_def bindE_eq_Inr)
  have old: "table_ok fact_snapshot_table (db_fact_snapshots d)" using assms(1) by (simp add: wf_db_def)
  show ?thesis unfolding rows(2)
    using assms(1) table_ok_update [OF old rows(1)] update_row_keys [OF rows(1)]
    update_row_set [OF rows(1)] assms(3)
    by (intro wf_set_fact_snapshots) (auto simp: wf_db_def)
qed

lemma update_proposal_row_wf:
  assumes "wf_db d" and "update_proposal_row d r = Inr d'" and "refs_proposal d r"
  shows "wf_db d' \<and> grows d d'"
proof -
  from assms(2) obtain rows where rows: "update_row proposal_table (db_proposals d) r = Inr rows"
      "d' = d\<lparr>db_proposals := rows\<rparr>"
    by (auto simp: update_proposal_row_def bindE_eq_Inr)
  have old: "table_ok proposal_table (db_proposals d)" using assms(1) by (simp add: wf_db_def)
  show ?thesis unfolding rows(2)
    using assms(1) table_ok_update [OF old rows(1)] update_row_keys [OF rows(1)]
    update_row_set [OF rows(1)] assms(3)
    by (intro wf_set_proposals) (auto simp: wf_db_def)
qed

lemma update_action_row_wf:
  assumes "wf_db d" and "update_action_row d r = Inr d'" and "refs_action d r"
  shows "wf_db d' \<and> grows d d'"
proof -
  from assms(2) obtain rows where rows: "update_row action_table (db_actions d) r = Inr rows"
      "d' = d\<lparr>db_actions := rows\<rparr>"
    by (auto simp: update_action_row_def bindE_eq_Inr)
  have old: "table_ok action_table (db_actions d)" using assms(1) by (simp add: wf_db_def)
  show ?thesis unfolding rows(2)
    using assms(1) table_ok_update [OF old rows(1)] update_row_keys [OF rows(1)]
    update_row_set [OF rows(1)] assms(3)
    by (intro wf_set_actions) (auto simp: wf_db_def)
qed

section \<open>Frames\<close>

text \<open>A statement changes one table.\<close>

lemma insert_conversation_frame: "insert_conversation d r = Inr d' \<Longrightarrow> d' = d\<lparr>db_conversations := db_conversations d @ [r]\<rparr>"
  by (auto simp: insert_conversation_def bindE_eq_Inr insert_row_Inr)

lemma insert_message_frame: "insert_message d r = Inr d' \<Longrightarrow> d' = d\<lparr>db_messages := db_messages d @ [r]\<rparr>"
  by (auto simp: insert_message_def bindE_eq_Inr insert_row_Inr)

lemma insert_triage_record_frame: "insert_triage_record d r = Inr d' \<Longrightarrow> d' = d\<lparr>db_triage_records := db_triage_records d @ [r]\<rparr>"
  by (auto simp: insert_triage_record_def bindE_eq_Inr insert_row_Inr)

lemma insert_policy_decision_frame: "insert_policy_decision d r = Inr d' \<Longrightarrow> d' = d\<lparr>db_policy_decisions := db_policy_decisions d @ [r]\<rparr>"
  by (auto simp: insert_policy_decision_def bindE_eq_Inr insert_row_Inr)

lemma insert_case_frame: "insert_case d r = Inr d' \<Longrightarrow> d' = d\<lparr>db_cases := db_cases d @ [r]\<rparr>"
  by (auto simp: insert_case_def bindE_eq_Inr insert_row_Inr)

lemma insert_run_frame: "insert_run d r = Inr d' \<Longrightarrow> d' = d\<lparr>db_runs := db_runs d @ [r]\<rparr>"
  by (auto simp: insert_run_def bindE_eq_Inr insert_row_Inr)

lemma insert_tool_call_frame: "insert_tool_call d r = Inr d' \<Longrightarrow> d' = d\<lparr>db_tool_calls := db_tool_calls d @ [r]\<rparr>"
  by (auto simp: insert_tool_call_def bindE_eq_Inr insert_row_Inr)

lemma insert_fact_assertion_frame: "insert_fact_assertion d r = Inr d' \<Longrightarrow> d' = d\<lparr>db_fact_assertions := db_fact_assertions d @ [r]\<rparr>"
  by (auto simp: insert_fact_assertion_def bindE_eq_Inr insert_row_Inr)

lemma insert_fact_question_frame: "insert_fact_question d r = Inr d' \<Longrightarrow> d' = d\<lparr>db_fact_questions := db_fact_questions d @ [r]\<rparr>"
  by (auto simp: insert_fact_question_def bindE_eq_Inr insert_row_Inr)

lemma insert_fact_consumption_frame: "insert_fact_consumption d r = Inr d' \<Longrightarrow> d' = d\<lparr>db_fact_consumptions := db_fact_consumptions d @ [r]\<rparr>"
  by (auto simp: insert_fact_consumption_def bindE_eq_Inr insert_row_Inr)

lemma insert_fact_snapshot_frame: "insert_fact_snapshot d r = Inr d' \<Longrightarrow> d' = d\<lparr>db_fact_snapshots := db_fact_snapshots d @ [r]\<rparr>"
  by (auto simp: insert_fact_snapshot_def bindE_eq_Inr insert_row_Inr)

lemma insert_proposal_frame: "insert_proposal d r = Inr d' \<Longrightarrow> d' = d\<lparr>db_proposals := db_proposals d @ [r]\<rparr>"
  by (auto simp: insert_proposal_def bindE_eq_Inr insert_row_Inr)

lemma insert_action_frame: "insert_action d r = Inr d' \<Longrightarrow> d' = d\<lparr>db_actions := db_actions d @ [r]\<rparr>"
  by (auto simp: insert_action_def bindE_eq_Inr insert_row_Inr)

lemma insert_ticket_frame: "insert_ticket d r = Inr d' \<Longrightarrow> d' = d\<lparr>db_tickets := db_tickets d @ [r]\<rparr>"
  by (auto simp: insert_ticket_def bindE_eq_Inr insert_row_Inr)

lemma insert_event_frame: "insert_event d r = Inr d' \<Longrightarrow> d' = d\<lparr>db_events := db_events d @ [r]\<rparr>"
  by (auto simp: insert_event_def bindE_eq_Inr insert_row_Inr)

lemma update_conversation_row_frame:
  "update_conversation_row d r = Inr d' \<Longrightarrow>
   d' = d\<lparr>db_conversations := map (\<lambda>q. if tbl_key conversation_table q = tbl_key conversation_table r then r else q) (db_conversations d)\<rparr>"
  by (auto simp: update_conversation_row_def bindE_eq_Inr update_row_Inr)

lemma update_case_row_frame:
  "update_case_row d r = Inr d' \<Longrightarrow>
   d' = d\<lparr>db_cases := map (\<lambda>q. if tbl_key case_table q = tbl_key case_table r then r else q) (db_cases d)\<rparr>"
  by (auto simp: update_case_row_def bindE_eq_Inr update_row_Inr)

lemma update_run_row_frame:
  "update_run_row d r = Inr d' \<Longrightarrow>
   d' = d\<lparr>db_runs := map (\<lambda>q. if tbl_key run_table q = tbl_key run_table r then r else q) (db_runs d)\<rparr>"
  by (auto simp: update_run_row_def bindE_eq_Inr update_row_Inr)

lemma update_tool_call_row_frame:
  "update_tool_call_row d r = Inr d' \<Longrightarrow>
   d' = d\<lparr>db_tool_calls := map (\<lambda>q. if tbl_key tool_call_table q = tbl_key tool_call_table r then r else q) (db_tool_calls d)\<rparr>"
  by (auto simp: update_tool_call_row_def bindE_eq_Inr update_row_Inr)

lemma update_fact_snapshot_row_frame:
  "update_fact_snapshot_row d r = Inr d' \<Longrightarrow>
   d' = d\<lparr>db_fact_snapshots := map (\<lambda>q. if tbl_key fact_snapshot_table q = tbl_key fact_snapshot_table r then r else q) (db_fact_snapshots d)\<rparr>"
  by (auto simp: update_fact_snapshot_row_def bindE_eq_Inr update_row_Inr)

lemma update_proposal_row_frame:
  "update_proposal_row d r = Inr d' \<Longrightarrow>
   d' = d\<lparr>db_proposals := map (\<lambda>q. if tbl_key proposal_table q = tbl_key proposal_table r then r else q) (db_proposals d)\<rparr>"
  by (auto simp: update_proposal_row_def bindE_eq_Inr update_row_Inr)

lemma update_action_row_frame:
  "update_action_row d r = Inr d' \<Longrightarrow>
   d' = d\<lparr>db_actions := map (\<lambda>q. if tbl_key action_table q = tbl_key action_table r then r else q) (db_actions d)\<rparr>"
  by (auto simp: update_action_row_def bindE_eq_Inr update_row_Inr)

lemmas insert_frames = insert_conversation_frame insert_message_frame insert_triage_record_frame insert_policy_decision_frame insert_case_frame insert_run_frame insert_tool_call_frame insert_fact_assertion_frame insert_fact_question_frame insert_fact_consumption_frame insert_fact_snapshot_frame insert_proposal_frame insert_action_frame insert_ticket_frame insert_event_frame

lemmas update_frames = update_conversation_row_frame update_case_row_frame update_run_row_frame update_tool_call_row_frame update_fact_snapshot_row_frame update_proposal_row_frame update_action_row_frame

text \<open>The same without the rows.\<close>

lemma insert_touches:
  "insert_conversation d r0 = Inr d' \<Longrightarrow> \<exists>x. d' = d\<lparr>db_conversations := x\<rparr>"
  "insert_message d r1 = Inr d' \<Longrightarrow> \<exists>x. d' = d\<lparr>db_messages := x\<rparr>"
  "insert_triage_record d r2 = Inr d' \<Longrightarrow> \<exists>x. d' = d\<lparr>db_triage_records := x\<rparr>"
  "insert_policy_decision d r3 = Inr d' \<Longrightarrow> \<exists>x. d' = d\<lparr>db_policy_decisions := x\<rparr>"
  "insert_case d r4 = Inr d' \<Longrightarrow> \<exists>x. d' = d\<lparr>db_cases := x\<rparr>"
  "insert_run d r5 = Inr d' \<Longrightarrow> \<exists>x. d' = d\<lparr>db_runs := x\<rparr>"
  "insert_tool_call d r6 = Inr d' \<Longrightarrow> \<exists>x. d' = d\<lparr>db_tool_calls := x\<rparr>"
  "insert_fact_assertion d r7 = Inr d' \<Longrightarrow> \<exists>x. d' = d\<lparr>db_fact_assertions := x\<rparr>"
  "insert_fact_question d r8 = Inr d' \<Longrightarrow> \<exists>x. d' = d\<lparr>db_fact_questions := x\<rparr>"
  "insert_fact_consumption d r9 = Inr d' \<Longrightarrow> \<exists>x. d' = d\<lparr>db_fact_consumptions := x\<rparr>"
  "insert_fact_snapshot d r10 = Inr d' \<Longrightarrow> \<exists>x. d' = d\<lparr>db_fact_snapshots := x\<rparr>"
  "insert_proposal d r11 = Inr d' \<Longrightarrow> \<exists>x. d' = d\<lparr>db_proposals := x\<rparr>"
  "insert_action d r12 = Inr d' \<Longrightarrow> \<exists>x. d' = d\<lparr>db_actions := x\<rparr>"
  "insert_ticket d r13 = Inr d' \<Longrightarrow> \<exists>x. d' = d\<lparr>db_tickets := x\<rparr>"
  "insert_event d r14 = Inr d' \<Longrightarrow> \<exists>x. d' = d\<lparr>db_events := x\<rparr>"
  by (blast dest: insert_frames)+

lemma update_touches:
  "update_conversation_row d r0 = Inr d' \<Longrightarrow> \<exists>x. d' = d\<lparr>db_conversations := x\<rparr>"
  "update_case_row d r1 = Inr d' \<Longrightarrow> \<exists>x. d' = d\<lparr>db_cases := x\<rparr>"
  "update_run_row d r2 = Inr d' \<Longrightarrow> \<exists>x. d' = d\<lparr>db_runs := x\<rparr>"
  "update_tool_call_row d r3 = Inr d' \<Longrightarrow> \<exists>x. d' = d\<lparr>db_tool_calls := x\<rparr>"
  "update_fact_snapshot_row d r4 = Inr d' \<Longrightarrow> \<exists>x. d' = d\<lparr>db_fact_snapshots := x\<rparr>"
  "update_proposal_row d r5 = Inr d' \<Longrightarrow> \<exists>x. d' = d\<lparr>db_proposals := x\<rparr>"
  "update_action_row d r6 = Inr d' \<Longrightarrow> \<exists>x. d' = d\<lparr>db_actions := x\<rparr>"
  by (blast dest: update_frames)+

end
