(* ===== verification/Repository.thy ===== *)
theory Repository
  imports Storage CaseFacts Lifecycle "HOL-Library.Product_Lexorder"
begin

text \<open>
  The session-bound repository of \<open>storage/repositories.py\<close>.

  \<^item> An operation takes the database and returns the new one with its row; \<open>Inl\<close> is the exception that ends
    the unit of work, which the caller rolls back.
  \<^item> \<open>utc_now()\<close> and the hexadecimal digits of \<open>uuid4()\<close> are arguments (\<open>now\<close>, \<open>fresh\<close>).
  \<^item> A keyword that may be left out is an \<open>option\<close>; where the source tells \<open>_UNSET\<close> from \<open>None\<close> it is an option of
    an option.
  \<^item> Enumeration members are passed as their values, as \<open>_value\<close> would turn them.

  The lemmas show that every operation keeps the database well formed, that row lifecycles follow the
  lifecycles of the domain, and that the domain snapshots are recovered from the rows.
\<close>

section \<open>Conversations and messages\<close>

definition new_id :: "string \<Rightarrow> string \<Rightarrow> string" where
  "new_id kind fresh = kind @ ''_'' @ fresh"

definition require_row :: "'r option \<Rightarrow> string \<Rightarrow> 'r result" where
  "require_row row resource = (case row of None \<Rightarrow> Inl (StorageNotFoundError resource) | Some r \<Rightarrow> Inr r)"

lemma require_row_Inr [simp]: "require_row row n = Inr r \<longleftrightarrow> row = Some r"
  by (simp add: require_row_def split: option.splits)

definition create_conversation ::
  "database \<Rightarrow> string \<Rightarrow> datetime \<Rightarrow> datetime \<Rightarrow> string \<Rightarrow> string \<Rightarrow> string \<Rightarrow> string option \<Rightarrow> string \<Rightarrow>
   datetime option \<Rightarrow> (conversation_row \<times> database) result" where
  "create_conversation d fresh now now' customer_id fixture_key llm_mode conversation_id fixture_version created_at =
    (let row = \<lparr>cvr_conversation_id = str_or conversation_id (new_id ''conv'' fresh),
        cvr_customer_id = customer_id, cvr_fixture_customer_key = fixture_key,
        cvr_fixture_version = fixture_version, cvr_llm_mode = llm_mode, cvr_active_case_id = None,
        cvr_next_event_sequence = 0, cvr_created_at = opt_or created_at now,
        cvr_updated_at = opt_or created_at now'\<rparr>
     in bindE (insert_conversation d row) (\<lambda>d'. Inr (row, d')))"

definition get_conversation :: "database \<Rightarrow> string \<Rightarrow> conversation_row option" where
  "get_conversation d = get_row conversation_table (db_conversations d)"

definition require_conversation :: "database \<Rightarrow> string \<Rightarrow> conversation_row result" where
  "require_conversation d cid = require_row (get_conversation d cid) ''Conversation''"

definition add_message ::
  "database \<Rightarrow> string \<Rightarrow> datetime \<Rightarrow> string \<Rightarrow> string \<Rightarrow> utext \<Rightarrow> string option \<Rightarrow> string option \<Rightarrow>
   string option \<Rightarrow> string option \<Rightarrow> datetime option \<Rightarrow> (message_row \<times> database) result" where
  "add_message d fresh now conversation_id role content message_id case_id run_id trace_id created_at =
    bindE (require_conversation d conversation_id) (\<lambda>_.
      let row = \<lparr>msr_message_id = str_or message_id (new_id ''msg'' fresh),
            msr_conversation_id = conversation_id, msr_case_id = case_id, msr_run_id = run_id, msr_role = role,
            msr_content = content, msr_trace_id = trace_id, msr_created_at = opt_or created_at now\<rparr>
      in bindE (insert_message d row) (\<lambda>d'. Inr (row, d')))"

definition get_message :: "database \<Rightarrow> string \<Rightarrow> message_row option" where
  "get_message d = get_row message_table (db_messages d)"

definition list_messages :: "database \<Rightarrow> string \<Rightarrow> message_row list" where
  "list_messages d conversation_id =
     sort_key (\<lambda>r. (instant (msr_created_at r), msr_message_id r))
       (filter (\<lambda>r. msr_conversation_id r = conversation_id) (db_messages d))"

section \<open>Triage and policy\<close>

definition create_triage_record ::
  "database \<Rightarrow> string \<Rightarrow> datetime \<Rightarrow> triage_result \<Rightarrow> string \<Rightarrow> string \<Rightarrow> string \<Rightarrow> string option \<Rightarrow> int \<Rightarrow>
   datetime option \<Rightarrow> (triage_record_row \<times> database) result" where
  "create_triage_record d fresh now triage conversation_id message_id run_id triage_id schema_version created_at =
    (let row = \<lparr>trr_triage_id = str_or triage_id (new_id ''triage'' fresh),
        trr_conversation_id = conversation_id, trr_message_id = message_id, trr_run_id = run_id,
        trr_schema_version = schema_version, trr_intent = triage_intent_value (tg_intent triage),
        trr_risk_flags = tg_risk_flags triage, trr_order_ids_mentioned = tg_order_ids_mentioned triage,
        trr_confidence = tg_confidence triage, trr_created_at = opt_or created_at now\<rparr>
     in bindE (insert_triage_record d row) (\<lambda>d'. Inr (row, d')))"

definition create_policy_decision ::
  "database \<Rightarrow> string \<Rightarrow> datetime \<Rightarrow> string \<Rightarrow> string \<Rightarrow> string \<Rightarrow> string \<Rightarrow> string \<Rightarrow> bool \<Rightarrow> string \<Rightarrow>
   string option \<Rightarrow> string option \<Rightarrow> string option \<Rightarrow> json list \<Rightarrow> string list \<Rightarrow> datetime option \<Rightarrow>
   (policy_decision_row \<times> database) result" where
  "create_policy_decision d fresh now conversation_id message_id triage_id run_id route supported reason_code
     policy_decision_id canonical_issue_type authorized_order_id blocked_fragments risk_flags created_at =
    (let row = \<lparr>pdr_policy_decision_id = str_or policy_decision_id (new_id ''policy'' fresh),
        pdr_conversation_id = conversation_id, pdr_message_id = message_id, pdr_triage_id = triage_id,
        pdr_run_id = run_id, pdr_route = route, pdr_supported = supported,
        pdr_canonical_issue_type = canonical_issue_type, pdr_authorized_order_id = authorized_order_id,
        pdr_blocked_fragments = blocked_fragments, pdr_risk_flags = risk_flags, pdr_reason_code = reason_code,
        pdr_created_at = opt_or created_at now\<rparr>
     in bindE (insert_policy_decision d row) (\<lambda>d'. Inr (row, d')))"

definition list_policy_decisions :: "database \<Rightarrow> string \<Rightarrow> policy_decision_row list" where
  "list_policy_decisions d conversation_id =
     sort_key (\<lambda>r. (instant (pdr_created_at r), pdr_policy_decision_id r))
       (filter (\<lambda>r. pdr_conversation_id r = conversation_id) (db_policy_decisions d))"

section \<open>Cases\<close>

definition new_case_row :: "investigation_case \<Rightarrow> string option \<Rightarrow> datetime \<Rightarrow> case_row" where
  "new_case_row c reported_issue_type now =
    (let canonical = issue_type_value (ic_canonical_issue_type c);
         state = case_state_value (ic_case_state c)
     in \<lparr>icr_case_id = ic_case_id c, icr_conversation_id = ic_conversation_id c,
           icr_customer_id = ic_customer_id c, icr_related_case_id = ic_related_case_id c,
           icr_authorized_order_id = ic_authorized_order_id c, icr_target_shipment_id = ic_target_shipment_id c,
           icr_reported_issue_type = str_or reported_issue_type canonical, icr_canonical_issue_type = canonical,
           icr_issue_type_revision_history = ic_issue_type_revision_history c, icr_case_state = state,
           icr_case_outcome = map_option case_outcome_value (ic_case_outcome c), icr_reason_code = ic_reason_code c,
           icr_business_clarification_count = ic_business_clarifications c,
           icr_actual_read_tool_execution_count = ic_read_tool_executions c,
           icr_agent_planning_turn_count = ic_planning_turns c, icr_active_proposal_id = None, icr_revision = 1,
           icr_created_at = now, icr_updated_at = now,
           icr_closed_at = (if state = ''closed'' then Some now else None)\<rparr>)"

definition create_case ::
  "database \<Rightarrow> datetime \<Rightarrow> investigation_case \<Rightarrow> string option \<Rightarrow> datetime option \<Rightarrow> (case_row \<times> database) result" where
  "create_case d utc_now c reported_issue_type created_at =
    (let now = opt_or created_at utc_now;
         row = new_case_row c reported_issue_type now
     in bindE (require_conversation d (ic_conversation_id c)) (\<lambda>conversation.
        bindE (update_conversation_row d (conversation\<lparr>
          cvr_active_case_id := (if icr_case_state row \<noteq> ''closed'' then Some (icr_case_id row) else None),
          cvr_updated_at := now\<rparr>)) (\<lambda>d1.
        bindE (insert_case d1 row) (\<lambda>d2. Inr (row, d2)))))"

definition get_case :: "database \<Rightarrow> string \<Rightarrow> case_row option" where
  "get_case d = get_row case_table (db_cases d)"

definition require_case :: "database \<Rightarrow> string \<Rightarrow> case_row result" where
  "require_case d cid = require_row (get_case d cid) ''InvestigationCase''"

definition list_cases :: "database \<Rightarrow> string \<Rightarrow> case_row list" where
  "list_cases d conversation_id =
     sort_key (\<lambda>r. (instant (icr_created_at r), icr_case_id r))
       (filter (\<lambda>r. icr_conversation_id r = conversation_id) (db_cases d))"

definition get_active_case :: "database \<Rightarrow> string \<Rightarrow> case_row option" where
  "get_active_case d conversation_id =
    (case get_conversation d conversation_id of
       None \<Rightarrow> None
     | Some conversation \<Rightarrow>
         (case cvr_active_case_id conversation of
            None \<Rightarrow> None
          | Some cid \<Rightarrow>
              (case get_case d cid of
                 None \<Rightarrow> None
               | Some row \<Rightarrow> if icr_case_state row = ''closed'' then None else Some row)))"

text \<open>The keyword arguments of \<open>update_case\<close>.\<close>

record case_update =
  cu_expected_revision :: "int option"
  cu_case_state :: "string option"
  cu_case_outcome :: "string option option"
  cu_reason_code :: "string option option"
  cu_business_clarification_count :: "int option"
  cu_actual_read_tool_execution_count :: "int option"
  cu_agent_planning_turn_count :: "int option"
  cu_active_proposal_id :: "string option option"
  cu_target_shipment_id :: "string option option"
  cu_updated_at :: "datetime option"

definition no_case_update :: case_update where
  "no_case_update = \<lparr>cu_expected_revision = None, cu_case_state = None, cu_case_outcome = None,
     cu_reason_code = None, cu_business_clarification_count = None, cu_actual_read_tool_execution_count = None,
     cu_agent_planning_turn_count = None, cu_active_proposal_id = None, cu_target_shipment_id = None,
     cu_updated_at = None\<rparr>"

definition stale :: "int option \<Rightarrow> int \<Rightarrow> bool" where
  "stale expected revision \<longleftrightarrow> expected \<noteq> None \<and> expected \<noteq> Some revision"

definition case_update_guard :: "case_update \<Rightarrow> case_row \<Rightarrow> unit result" where
  "case_update_guard u row =
    (let next_state = opt_or (cu_case_state u) (icr_case_state row);
         next_outcome = opt_or (cu_case_outcome u) (icr_case_outcome row);
         next_reason = opt_or (cu_reason_code u) (icr_reason_code row);
         clarification_count = opt_or (cu_business_clarification_count u) (icr_business_clarification_count row);
         read_count = opt_or (cu_actual_read_tool_execution_count u) (icr_actual_read_tool_execution_count row);
         turn_count = opt_or (cu_agent_planning_turn_count u) (icr_agent_planning_turn_count row)
     in if stale (cu_expected_revision u) (icr_revision row)
          then Inl (ConcurrentMutationError ''Case revision did not match'')
        else if icr_case_state row = ''closed''
          then Inl (InvalidStateTransitionError ''a closed Case is immutable and cannot reopen'')
        else if next_state = ''closed'' \<and> (next_outcome = None \<or> \<not> truthy next_reason)
          then Inl (InvalidStateTransitionError ''closing a Case requires case_outcome and reason_code'')
        else if next_state \<noteq> ''closed'' \<and> (next_outcome \<noteq> None \<or> next_reason \<noteq> None)
          then Inl (InvalidStateTransitionError ''an open Case cannot have case_outcome or closure reason_code'')
        else if \<not> (0 \<le> clarification_count \<and> clarification_count \<le> 2)
          then Inl (ValueError ''business clarification budget is 0..2'')
        else if \<not> (0 \<le> read_count \<and> read_count \<le> 6)
          then Inl (ValueError ''Case read-tool execution budget is 0..6'')
        else if \<not> (0 \<le> turn_count \<and> turn_count \<le> 16)
          then Inl (ValueError ''Case planning-turn budget is 0..16'')
        else Inr ())"

definition updated_case_row :: "case_update \<Rightarrow> datetime \<Rightarrow> case_row \<Rightarrow> case_row" where
  "updated_case_row u now row =
    (let next_state = opt_or (cu_case_state u) (icr_case_state row)
     in row\<lparr>icr_case_state := next_state,
          icr_case_outcome := opt_or (cu_case_outcome u) (icr_case_outcome row),
          icr_reason_code := opt_or (cu_reason_code u) (icr_reason_code row),
          icr_business_clarification_count :=
            opt_or (cu_business_clarification_count u) (icr_business_clarification_count row),
          icr_actual_read_tool_execution_count :=
            opt_or (cu_actual_read_tool_execution_count u) (icr_actual_read_tool_execution_count row),
          icr_agent_planning_turn_count :=
            opt_or (cu_agent_planning_turn_count u) (icr_agent_planning_turn_count row),
          icr_active_proposal_id := opt_or (cu_active_proposal_id u) (icr_active_proposal_id row),
          icr_target_shipment_id := opt_or (cu_target_shipment_id u) (icr_target_shipment_id row),
          icr_updated_at := now, icr_closed_at := (if next_state = ''closed'' then Some now else None),
          icr_revision := icr_revision row + 1\<rparr>)"

definition update_case :: "database \<Rightarrow> datetime \<Rightarrow> string \<Rightarrow> case_update \<Rightarrow> (case_row \<times> database) result" where
  "update_case d utc_now case_id u =
    bindE (require_case d case_id) (\<lambda>row.
    bindE (case_update_guard u row) (\<lambda>_.
      let now = opt_or (cu_updated_at u) utc_now;
          row' = updated_case_row u now row
      in bindE (require_conversation d (icr_conversation_id row')) (\<lambda>conversation.
         bindE (if icr_case_state row' = ''closed'' \<and> cvr_active_case_id conversation = Some case_id
                then update_conversation_row d (conversation\<lparr>cvr_active_case_id := None, cvr_updated_at := now\<rparr>)
                else Inr d) (\<lambda>d1.
         bindE (update_case_row d1 row') (\<lambda>d2. Inr (row', d2))))))"

definition append_issue_revision ::
  "database \<Rightarrow> datetime \<Rightarrow> string \<Rightarrow> string \<Rightarrow> issue_revision \<Rightarrow> int option \<Rightarrow> (case_row \<times> database) result" where
  "append_issue_revision d now case_id canonical_issue_type revision_record expected_revision =
    bindE (require_case d case_id) (\<lambda>row.
      if icr_case_state row = ''closed'' then Inl (InvalidStateTransitionError ''a closed Case is immutable'')
      else if stale expected_revision (icr_revision row)
        then Inl (ConcurrentMutationError ''Case revision changed before issue correction'')
      else
        (let row' = row\<lparr>icr_issue_type_revision_history := icr_issue_type_revision_history row @ [revision_record],
               icr_canonical_issue_type := canonical_issue_type, icr_revision := icr_revision row + 1,
               icr_updated_at := now\<rparr>
         in bindE (update_case_row d row') (\<lambda>d'. Inr (row', d'))))"

section \<open>Runs and tool calls\<close>

text \<open>The keyword arguments of \<open>create_run\<close>.\<close>

record run_args =
  ra_conversation_id :: string
  ra_run_kind :: string
  ra_run_id :: "string option"
  ra_case_id :: "string option"
  ra_run_state :: string
  ra_planning_turn_count :: int
  ra_actual_read_tool_execution_count :: int
  ra_failure_code :: "string option"
  ra_trace_id :: "string option"
  ra_created_at :: "datetime option"

definition run_defaults :: "string \<Rightarrow> string \<Rightarrow> run_args" where
  "run_defaults conversation_id run_kind = \<lparr>ra_conversation_id = conversation_id, ra_run_kind = run_kind,
     ra_run_id = None, ra_case_id = None, ra_run_state = ''queued'', ra_planning_turn_count = 0,
     ra_actual_read_tool_execution_count = 0, ra_failure_code = None, ra_trace_id = None, ra_created_at = None\<rparr>"

definition create_run :: "database \<Rightarrow> string \<Rightarrow> datetime \<Rightarrow> run option \<Rightarrow> run_args \<Rightarrow> (run_row \<times> database) result" where
  "create_run d fresh now r args =
    (let args' = (case r of
           None \<Rightarrow> args
         | Some x \<Rightarrow> args\<lparr>ra_run_id := Some (rn_run_id x), ra_case_id := Some (rn_case_id x),
             ra_run_state := run_state_value (rn_run_state x), ra_planning_turn_count := rn_planning_turns x,
             ra_failure_code := rn_failure_class x\<rparr>);
         row = \<lparr>rnr_run_id = str_or (ra_run_id args') (new_id ''run'' fresh),
           rnr_conversation_id = ra_conversation_id args', rnr_case_id = ra_case_id args',
           rnr_run_kind = ra_run_kind args', rnr_run_state = ra_run_state args',
           rnr_planning_turn_count = ra_planning_turn_count args',
           rnr_actual_read_tool_execution_count = ra_actual_read_tool_execution_count args',
           rnr_failure_code = ra_failure_code args', rnr_trace_id = ra_trace_id args',
           rnr_created_at = opt_or (ra_created_at args') now, rnr_started_at = None, rnr_completed_at = None\<rparr>
     in bindE (insert_run d row) (\<lambda>d'. Inr (row, d')))"

definition get_run :: "database \<Rightarrow> string \<Rightarrow> run_row option" where
  "get_run d = get_row run_table (db_runs d)"

definition require_run :: "database \<Rightarrow> string \<Rightarrow> run_row result" where
  "require_run d rid = require_row (get_run d rid) ''Run''"

definition list_runs :: "database \<Rightarrow> string option \<Rightarrow> string option \<Rightarrow> run_row list" where
  "list_runs d conversation_id case_id =
     sort_key (\<lambda>r. (instant (rnr_created_at r), rnr_run_id r))
       (filter (\<lambda>r. (conversation_id = None \<or> conversation_id = Some (rnr_conversation_id r)) \<and>
                    (case_id = None \<or> case_id = rnr_case_id r)) (db_runs d))"

text \<open>A dictionary of allowed next states, as the three guarded updates write it.\<close>

definition row_step_allowed :: "(string \<times> string list) list \<Rightarrow> string \<Rightarrow> string \<Rightarrow> error \<Rightarrow> unit result" where
  "row_step_allowed allowed current next_state err =
    (if next_state = current then Inr ()
     else (case map_of allowed current of
             None \<Rightarrow> Inl (KeyError current)
           | Some targets \<Rightarrow> if next_state \<notin> set targets then Inl err else Inr ()))"

definition run_row_allowed :: "(string \<times> string list) list" where
  "run_row_allowed =
     [(''queued'', [''running'', ''failed'']), (''running'', [''succeeded'', ''failed'']),
      (''succeeded'', []), (''failed'', [])]"

definition update_run ::
  "database \<Rightarrow> datetime \<Rightarrow> string \<Rightarrow> string \<Rightarrow> int option \<Rightarrow> int option \<Rightarrow> string option \<Rightarrow> datetime option \<Rightarrow>
   (run_row \<times> database) result" where
  "update_run d utc_now run_id next_state planning_turn_count actual_read_tool_execution_count failure_code
     changed_at =
    bindE (require_run d run_id) (\<lambda>row.
    bindE (row_step_allowed run_row_allowed (rnr_run_state row) next_state
             (InvalidStateTransitionError ''Run cannot transition'')) (\<lambda>_.
      let next_turns = opt_or planning_turn_count (rnr_planning_turn_count row);
          next_reads = opt_or actual_read_tool_execution_count (rnr_actual_read_tool_execution_count row);
          now = opt_or changed_at utc_now
      in if next_state = ''failed'' \<and> \<not> truthy failure_code
           then Inl (InvalidStateTransitionError ''a failed Run requires failure_code'')
         else if next_state \<noteq> ''failed'' \<and> failure_code \<noteq> None
           then Inl (InvalidStateTransitionError ''failure_code belongs only to a failed Run'')
         else if \<not> (0 \<le> next_turns \<and> next_turns \<le> 8)
           then Inl (ValueError ''Run planning-turn budget is 0..8'')
         else if \<not> (0 \<le> next_reads \<and> next_reads \<le> 6)
           then Inl (ValueError ''Run read-tool execution count is 0..6'')
         else
           (let row' = row\<lparr>rnr_run_state := next_state, rnr_planning_turn_count := next_turns,
                  rnr_actual_read_tool_execution_count := next_reads, rnr_failure_code := failure_code,
                  rnr_started_at := (if next_state = ''running'' \<and> rnr_started_at row = None then Some now
                                     else rnr_started_at row),
                  rnr_completed_at := (if next_state \<in> {''succeeded'', ''failed''} then Some now
                                       else rnr_completed_at row)\<rparr>
            in bindE (update_run_row d row') (\<lambda>d'. Inr (row', d')))))"

definition create_tool_call ::
  "database \<Rightarrow> string \<Rightarrow> datetime \<Rightarrow> string \<Rightarrow> string \<Rightarrow> string \<Rightarrow> string \<Rightarrow> json \<Rightarrow> int \<Rightarrow> string option \<Rightarrow>
   int \<Rightarrow> bool \<Rightarrow> bool \<Rightarrow> bool \<Rightarrow> datetime option \<Rightarrow> (tool_call_row \<times> database) result" where
  "create_tool_call d fresh now conversation_id case_id run_id tool_name normalized_args planning_turn tool_call_id
     attempt_number actual_execution cache_hit blocked requested_at =
    (let row = \<lparr>tcr_tool_call_id = str_or tool_call_id (new_id ''call'' fresh),
        tcr_conversation_id = conversation_id, tcr_case_id = case_id, tcr_run_id = run_id,
        tcr_tool_name = tool_name, tcr_normalized_args = normalized_args, tcr_planning_turn = planning_turn,
        tcr_attempt_number = attempt_number, tcr_actual_execution = actual_execution, tcr_cache_hit = cache_hit,
        tcr_blocked = blocked, tcr_execution_status = None, tcr_evidence_availability = None,
        tcr_result_envelope = None, tcr_result_hash = None, tcr_source_version = None, tcr_error_code = None,
        tcr_retryable = False, tcr_requested_at = opt_or requested_at now, tcr_completed_at = None\<rparr>
     in bindE (insert_tool_call d row) (\<lambda>d'. Inr (row, d')))"

definition get_tool_call :: "database \<Rightarrow> string \<Rightarrow> tool_call_row option" where
  "get_tool_call d = get_row tool_call_table (db_tool_calls d)"

definition complete_tool_call ::
  "database \<Rightarrow> datetime \<Rightarrow> string \<Rightarrow> string \<Rightarrow> string \<Rightarrow> read_result option \<Rightarrow> string option \<Rightarrow> string option \<Rightarrow>
   string option \<Rightarrow> bool \<Rightarrow> datetime option \<Rightarrow> (tool_call_row \<times> database) result" where
  "complete_tool_call d utc_now tool_call_id execution_status evidence_availability result_envelope result_hash
     source_version error_code retryable completed_at =
    bindE (require_row (get_tool_call d tool_call_id) ''ToolCall'') (\<lambda>row.
      if tcr_completed_at row \<noteq> None
        then Inl (InvalidStateTransitionError ''a completed ToolCall is immutable'')
      else
        (let row' = row\<lparr>tcr_execution_status := Some execution_status,
               tcr_evidence_availability := Some evidence_availability, tcr_result_envelope := result_envelope,
               tcr_result_hash := result_hash, tcr_source_version := source_version,
               tcr_error_code := error_code, tcr_retryable := retryable,
               tcr_completed_at := Some (opt_or completed_at utc_now)\<rparr>
         in bindE (update_tool_call_row d row') (\<lambda>d'. Inr (row', d'))))"

definition list_tool_calls :: "database \<Rightarrow> string option \<Rightarrow> string option \<Rightarrow> tool_call_row list" where
  "list_tool_calls d case_id run_id =
     sort_key (\<lambda>r. (instant (tcr_requested_at r), tcr_tool_call_id r))
       (filter (\<lambda>r. (case_id = None \<or> case_id = Some (tcr_case_id r)) \<and>
                    (run_id = None \<or> run_id = Some (tcr_run_id r))) (db_tool_calls d))"

section \<open>Append-only case facts\<close>

definition list_case_fact_assertions :: "database \<Rightarrow> string \<Rightarrow> fact_assertion_row list" where
  "list_case_fact_assertions d case_id =
     sort_key far_assertion_sequence (filter (\<lambda>r. far_case_id r = case_id) (db_fact_assertions d))"

definition get_case_fact_assertion :: "database \<Rightarrow> string \<Rightarrow> fact_assertion_row option" where
  "get_case_fact_assertion d = get_row fact_assertion_table (db_fact_assertions d)"

definition find_case_fact_candidate :: "database \<Rightarrow> string \<Rightarrow> string \<Rightarrow> fact_assertion_row option" where
  "find_case_fact_candidate d case_id fingerprint =
     List.find (\<lambda>r. far_case_id r = case_id \<and> far_candidate_fingerprint r = fingerprint) (db_fact_assertions d)"

definition append_case_fact_assertion ::
  "database \<Rightarrow> fact_assertion \<Rightarrow> string \<Rightarrow> (fact_assertion_row \<times> database) result" where
  "append_case_fact_assertion d a fingerprint =
    bindE (require_case d (fa_case_id a)) (\<lambda>_.
      case find_case_fact_candidate d (fa_case_id a) fingerprint of
        Some existing \<Rightarrow> Inr (existing, d)
      | None \<Rightarrow>
          if fa_sequence a \<noteq> int (length (list_case_fact_assertions d (fa_case_id a))) + 1
            then Inl (ConcurrentMutationError ''Case Fact assertion sequence changed'')
          else
            (let row = \<lparr>far_assertion_id = fa_assertion_id a, far_case_id = fa_case_id a,
                   far_fact_code = fact_code_value (fa_fact_code a), far_value = fact_value_value (fa_value a),
                   far_source_message_id = fa_source_message_id a,
                   far_source_message_hash = fa_source_message_hash a, far_source_span_start = fa_span_start a,
                   far_source_span_end = fa_span_end a, far_relation = relation_hint_value (fa_relation a),
                   far_supersedes_assertion_id = fa_supersedes a, far_extractor_kind = fa_extractor_kind a,
                   far_extractor_version = fa_extractor_version a,
                   far_context_tool_call_id = fa_context_tool_call_id a,
                   far_context_result_hash = fa_context_result_hash a, far_assertion_sequence = fa_sequence a,
                   far_candidate_fingerprint = fingerprint, far_recorded_at = fa_recorded_at a\<rparr>
             in bindE (insert_fact_assertion d row) (\<lambda>d'. Inr (row, d'))))"

definition list_case_fact_questions :: "database \<Rightarrow> string \<Rightarrow> fact_question_row list" where
  "list_case_fact_questions d case_id =
     sort_key (\<lambda>r. (instant (fqr_asked_at r), fqr_question_id r))
       (filter (\<lambda>r. fqr_case_id r = case_id) (db_fact_questions d))"

definition append_case_fact_question :: "database \<Rightarrow> fact_question \<Rightarrow> (fact_question_row \<times> database) result" where
  "append_case_fact_question d q =
    (case get_row fact_question_table (db_fact_questions d) (fq_question_id q) of
       Some existing \<Rightarrow>
         if fqr_case_id existing \<noteq> fq_case_id q \<or> fqr_fact_code existing \<noteq> fact_code_value (fq_fact_code q) \<or>
            fqr_context_result_hash existing \<noteq> fq_context_result_hash q \<or>
            fqr_targeted_conflict existing \<noteq> fq_targeted_conflict q
           then Inl (IdempotencyConflictError ''question_id cannot be reused across Case facts'')
         else Inr (existing, d)
     | None \<Rightarrow>
         bindE (require_case d (fq_case_id q)) (\<lambda>_.
           let row = \<lparr>fqr_question_id = fq_question_id q, fqr_case_id = fq_case_id q,
                 fqr_fact_code = fact_code_value (fq_fact_code q),
                 fqr_context_result_hash = fq_context_result_hash q,
                 fqr_targeted_conflict = fq_targeted_conflict q, fqr_asked_at = fq_asked_at q\<rparr>
           in bindE (insert_fact_question d row) (\<lambda>d'. Inr (row, d'))))"

definition get_case_fact_consumption_for_question :: "database \<Rightarrow> string \<Rightarrow> fact_consumption_row option" where
  "get_case_fact_consumption_for_question d question_id =
     List.find (\<lambda>r. fcr_question_id r = question_id) (db_fact_consumptions d)"

definition get_case_fact_consumption_for_message :: "database \<Rightarrow> string \<Rightarrow> fact_consumption_row option" where
  "get_case_fact_consumption_for_message d message_id =
     List.find (\<lambda>r. fcr_source_message_id r = message_id) (db_fact_consumptions d)"

definition list_case_fact_message_consumptions :: "database \<Rightarrow> string \<Rightarrow> fact_consumption_row list" where
  "list_case_fact_message_consumptions d case_id =
     sort_key (\<lambda>r. (instant (fcr_recorded_at r), fcr_consumption_id r))
       (filter (\<lambda>r. fcr_case_id r = case_id) (db_fact_consumptions d))"

text \<open>The keyword arguments of \<open>append_case_fact_message_consumption\<close> are the columns of its row.\<close>

definition append_case_fact_message_consumption ::
  "database \<Rightarrow> fact_consumption_row \<Rightarrow> (fact_consumption_row \<times> database) result" where
  "append_case_fact_message_consumption d row =
    (case get_case_fact_consumption_for_question d (fcr_question_id row) of
       Some existing \<Rightarrow>
         if fcr_case_id existing = fcr_case_id row \<and> fcr_source_message_id existing = fcr_source_message_id row \<and>
            fcr_source_message_hash existing = fcr_source_message_hash row \<and>
            fcr_candidate_batch_hash existing = fcr_candidate_batch_hash row
           then Inr (existing, d)
         else Inl (IdempotencyConflictError ''outstanding Case Fact question was already consumed'')
     | None \<Rightarrow>
         (case get_case_fact_consumption_for_message d (fcr_source_message_id row) of
            Some _ \<Rightarrow> Inl (IdempotencyConflictError
              ''customer message was already consumed by a Case Fact question'')
          | None \<Rightarrow>
              bindE (require_case d (fcr_case_id row)) (\<lambda>_.
              bindE (insert_fact_consumption d row) (\<lambda>d'. Inr (row, d')))))"

definition get_case_fact_snapshot :: "database \<Rightarrow> string \<Rightarrow> fact_snapshot_row option" where
  "get_case_fact_snapshot d = get_row fact_snapshot_table (db_fact_snapshots d)"

definition store_case_fact_snapshot ::
  "database \<Rightarrow> fact_snapshot \<Rightarrow> (fact_snapshot_row \<times> database) result" where
  "store_case_fact_snapshot d s =
    (case get_case_fact_snapshot d (sn_case_id s) of
       None \<Rightarrow>
         (let row = \<lparr>fsr_case_id = sn_case_id s, fsr_revision = int (sn_revision s),
                fsr_snapshot_hash = sn_snapshot_hash s, fsr_snapshot_payload = s,
                fsr_rebuilt_at = sn_rebuilt_at s\<rparr>
          in bindE (insert_fact_snapshot d row) (\<lambda>d'. Inr (row, d')))
     | Some row \<Rightarrow>
         if int (sn_revision s) < fsr_revision row
           then Inl (ConcurrentMutationError ''Case Fact snapshot revision cannot move backwards'')
         else
           (let row' = row\<lparr>fsr_revision := int (sn_revision s), fsr_snapshot_hash := sn_snapshot_hash s,
                  fsr_snapshot_payload := s, fsr_rebuilt_at := sn_rebuilt_at s\<rparr>
            in bindE (update_fact_snapshot_row d row') (\<lambda>d'. Inr (row', d'))))"

section \<open>Proposals, executions and tickets\<close>

definition create_proposal :: "database \<Rightarrow> action_proposal \<Rightarrow> (proposal_row \<times> database) result" where
  "create_proposal d p =
    bindE (require_case d (ap_case_id p)) (\<lambda>c.
      let row = \<lparr>apr_proposal_id = ap_proposal_id p, apr_conversation_id = icr_conversation_id c,
            apr_case_id = ap_case_id p, apr_version = ap_version p,
            apr_proposal_state = proposal_state_value (ap_proposal_state p),
            apr_action_type = action_type_value (ap_action_type p),
            apr_execution_parameters = ap_execution_parameters p,
            apr_customer_visible_effect = ap_customer_visible_effect p, apr_evidence_refs = ap_evidence_refs p,
            apr_evidence_snapshot_hash = ap_evidence_snapshot_hash p,
            apr_case_fact_identity = ap_case_fact_identity p, apr_superseded_by_proposal_id = None,
            apr_created_at = ap_created_at p, apr_expires_at = ap_expires_at p,
            apr_state_changed_at = ap_created_at p\<rparr>
      in bindE (insert_proposal d row) (\<lambda>d'. Inr (row, d')))"

definition get_proposal :: "database \<Rightarrow> string \<Rightarrow> proposal_row option" where
  "get_proposal d = get_row proposal_table (db_proposals d)"

definition require_proposal :: "database \<Rightarrow> string \<Rightarrow> proposal_row result" where
  "require_proposal d pid = require_row (get_proposal d pid) ''ActionProposal''"

definition list_proposals :: "database \<Rightarrow> string \<Rightarrow> proposal_row list" where
  "list_proposals d case_id = sort_key apr_version (filter (\<lambda>r. apr_case_id r = case_id) (db_proposals d))"

definition proposal_row_allowed :: "(string \<times> string list) list" where
  "proposal_row_allowed =
     [(''pending_confirmation'', [''confirmed'', ''declined'', ''superseded'', ''expired'', ''invalidated'']),
      (''confirmed'', []), (''declined'', []), (''superseded'', []), (''expired'', []), (''invalidated'', [])]"

definition update_proposal_state ::
  "database \<Rightarrow> datetime \<Rightarrow> string \<Rightarrow> string \<Rightarrow> string option \<Rightarrow> datetime option \<Rightarrow> (proposal_row \<times> database) result" where
  "update_proposal_state d utc_now proposal_id next_state superseded_by changed_at =
    bindE (require_proposal d proposal_id) (\<lambda>row.
    bindE (row_step_allowed proposal_row_allowed (apr_proposal_state row) next_state
             (InvalidStateTransitionError ''Proposal cannot transition'')) (\<lambda>_.
      if next_state = ''superseded'' \<and> \<not> truthy superseded_by
        then Inl (InvalidStateTransitionError ''a superseded Proposal must point to its replacement'')
      else
        (let now = opt_or changed_at utc_now;
             row' = row\<lparr>apr_proposal_state := next_state, apr_superseded_by_proposal_id := superseded_by,
               apr_state_changed_at := now\<rparr>
         in bindE (require_case d (apr_case_id row)) (\<lambda>c.
            bindE (if next_state \<noteq> ''pending_confirmation'' \<and> icr_active_proposal_id c = Some proposal_id
                   then update_case_row d (c\<lparr>icr_active_proposal_id := None, icr_revision := icr_revision c + 1,
                          icr_updated_at := now\<rparr>)
                   else Inr d) (\<lambda>d1.
            bindE (update_proposal_row d1 row') (\<lambda>d2. Inr (row', d2)))))))"

definition create_action :: "database \<Rightarrow> datetime \<Rightarrow> datetime \<Rightarrow> action_execution \<Rightarrow> (action_row \<times> database) result" where
  "create_action d now now' a =
    bindE (require_proposal d (ax_proposal_id a)) (\<lambda>p.
      let row = \<lparr>aer_action_id = ax_action_id a, aer_proposal_id = ax_proposal_id a,
            aer_conversation_id = apr_conversation_id p, aer_case_id = apr_case_id p,
            aer_action_state = action_state_value (ax_action_state a),
            aer_idempotency_key = ax_idempotency_key a, aer_error_code = ax_error_code a,
            aer_submitted_at = ax_submitted_at a, aer_verified_at = ax_verified_at a,
            aer_created_at = now, aer_updated_at = now'\<rparr>
      in bindE (insert_action d row) (\<lambda>d'. Inr (row, d')))"

definition get_action :: "database \<Rightarrow> string \<Rightarrow> action_row option" where
  "get_action d = get_row action_table (db_actions d)"

definition get_action_by_idempotency_key :: "database \<Rightarrow> string \<Rightarrow> action_row option" where
  "get_action_by_idempotency_key d key = List.find (\<lambda>r. aer_idempotency_key r = key) (db_actions d)"

definition list_actions :: "database \<Rightarrow> string \<Rightarrow> action_row list" where
  "list_actions d case_id =
     sort_key (\<lambda>r. (instant (aer_created_at r), aer_action_id r))
       (filter (\<lambda>r. aer_case_id r = case_id) (db_actions d))"

definition action_row_allowed :: "(string \<times> string list) list" where
  "action_row_allowed =
     [(''ready'', [''submitted'']),
      (''submitted'', [''succeeded'', ''failed_retryable'', ''failed_terminal'', ''uncertain'']),
      (''failed_retryable'', [''submitted'']), (''succeeded'', []), (''failed_terminal'', []), (''uncertain'', [])]"

definition update_action_state ::
  "database \<Rightarrow> datetime \<Rightarrow> string \<Rightarrow> string \<Rightarrow> string option \<Rightarrow> datetime option \<Rightarrow> datetime option \<Rightarrow>
   datetime option \<Rightarrow> (action_row \<times> database) result" where
  "update_action_state d utc_now action_id next_state error_code submitted_at verified_at changed_at =
    bindE (require_row (get_action d action_id) ''ActionExecution'') (\<lambda>row.
    bindE (row_step_allowed action_row_allowed (aer_action_state row) next_state
             (InvalidStateTransitionError ''Action cannot transition'')) (\<lambda>_.
      let now = opt_or changed_at utc_now;
          next_submitted_at = (if next_state = ''ready'' then None
            else Some (opt_or submitted_at (opt_or (aer_submitted_at row) now)));
          next_verified_at = (if next_state = ''ready'' then None
            else if verified_at \<noteq> None then verified_at
            else if next_state = ''succeeded'' then Some now else None)
      in if next_state = ''succeeded'' \<and> next_verified_at = None
           then Inl (InvalidStateTransitionError ''a succeeded action requires read-back verification'')
         else if next_state \<noteq> ''succeeded'' \<and> verified_at \<noteq> None
           then Inl (InvalidStateTransitionError ''verified_at belongs only to a succeeded action'')
         else
           (let row' = row\<lparr>aer_action_state := next_state, aer_submitted_at := next_submitted_at,
                  aer_verified_at := next_verified_at, aer_error_code := error_code, aer_updated_at := now\<rparr>
            in bindE (update_action_row d row') (\<lambda>d'. Inr (row', d')))))"

definition get_ticket_by_idempotency_key :: "database \<Rightarrow> string \<Rightarrow> ticket_row option" where
  "get_ticket_by_idempotency_key d key = List.find (\<lambda>r. tkr_idempotency_key r = key) (db_tickets d)"

definition get_ticket :: "database \<Rightarrow> string \<Rightarrow> ticket_row option" where
  "get_ticket d = get_row ticket_table (db_tickets d)"

definition ticket_identity ::
  "ticket_row \<Rightarrow> string \<times> string \<times> string \<times> string \<times> string option \<times> string" where
  "ticket_identity t = (tkr_case_id t, tkr_action_id t, tkr_customer_id t, tkr_authorized_order_id t,
     tkr_target_shipment_id t, tkr_issue_type t)"

definition create_ticket ::
  "database \<Rightarrow> datetime \<Rightarrow> string \<Rightarrow> string \<Rightarrow> string \<Rightarrow> string \<Rightarrow> string \<Rightarrow> string \<Rightarrow> string \<Rightarrow>
   string option \<Rightarrow> json \<Rightarrow> datetime option \<Rightarrow> (ticket_row \<times> database) result" where
  "create_ticket d utc_now ticket_id case_id action_id customer_id authorized_order_id issue_type idempotency_key
     target_shipment_id details created_at =
    (case get_ticket_by_idempotency_key d idempotency_key of
       Some existing \<Rightarrow>
         if ticket_identity existing \<noteq>
            (case_id, action_id, customer_id, authorized_order_id, target_shipment_id, issue_type)
           then Inl (IdempotencyConflictError
             ''an idempotency key cannot be reused for different ticket parameters'')
         else Inr (existing, d)
     | None \<Rightarrow>
         bindE (require_case d case_id) (\<lambda>c.
           let now = opt_or created_at utc_now;
               row = \<lparr>tkr_ticket_id = ticket_id, tkr_conversation_id = icr_conversation_id c,
                 tkr_case_id = case_id, tkr_action_id = action_id, tkr_customer_id = customer_id,
                 tkr_authorized_order_id = authorized_order_id, tkr_target_shipment_id = target_shipment_id,
                 tkr_issue_type = issue_type, tkr_ticket_state = ''active'',
                 tkr_idempotency_key = idempotency_key, tkr_details = details, tkr_created_at = now,
                 tkr_updated_at = now\<rparr>
           in bindE (insert_ticket d row) (\<lambda>d'. Inr (row, d'))))"

text \<open>The query has no order: SQLite answers with the first match, the order of insertion here.\<close>

definition get_active_ticket :: "database \<Rightarrow> string \<Rightarrow> string \<Rightarrow> string option \<Rightarrow> ticket_row option" where
  "get_active_ticket d authorized_order_id issue_type target_shipment_id =
     List.find (\<lambda>r. tkr_authorized_order_id r = authorized_order_id \<and> tkr_issue_type r = issue_type \<and>
         tkr_ticket_state r = ''active'' \<and>
         (target_shipment_id = None \<or> tkr_target_shipment_id r = target_shipment_id \<or>
          tkr_target_shipment_id r = None)) (db_tickets d)"

definition list_tickets :: "database \<Rightarrow> string option \<Rightarrow> string option \<Rightarrow> ticket_row list" where
  "list_tickets d case_id authorized_order_id =
     sort_key (\<lambda>r. (instant (tkr_created_at r), tkr_ticket_id r))
       (filter (\<lambda>r. (case_id = None \<or> case_id = Some (tkr_case_id r)) \<and>
                    (authorized_order_id = None \<or> authorized_order_id = Some (tkr_authorized_order_id r)))
          (db_tickets d))"

section \<open>Rows as domain snapshots\<close>

text \<open>The validation of an enumeration field: the member with the given value.\<close>

definition member_of :: "('e \<Rightarrow> string) \<Rightarrow> 'e list \<Rightarrow> string \<Rightarrow> string \<Rightarrow> 'e result" where
  "member_of val members field s =
    (case List.find (\<lambda>m. val m = s) members of None \<Rightarrow> Inl (ValueError field) | Some m \<Rightarrow> Inr m)"

definition opt_member_of :: "('e \<Rightarrow> string) \<Rightarrow> 'e list \<Rightarrow> string \<Rightarrow> string option \<Rightarrow> 'e option result" where
  "opt_member_of val members field s =
    (case s of None \<Rightarrow> Inr None | Some x \<Rightarrow> bindE (member_of val members field x) (\<lambda>m. Inr (Some m)))"

definition all_case_states :: "case_state list" where
  "all_case_states = [CS_INVESTIGATING, CS_AWAITING_CUSTOMER_INPUT, CS_AWAITING_CUSTOMER_CONFIRMATION,
     CS_AWAITING_RETRY, CS_EXECUTING_ACTION, CS_CLOSED]"

definition all_case_outcomes :: "case_outcome list" where
  "all_case_outcomes = [CO_RESOLVED_NO_ACTION, CO_TICKET_CREATED, CO_HUMAN_SUPPORT_REQUIRED, CO_UNCERTAIN, CO_FAILED]"

definition all_run_states :: "run_state list" where
  "all_run_states = [RS_QUEUED, RS_RUNNING, RS_SUCCEEDED, RS_FAILED]"

definition all_proposal_states :: "proposal_state list" where
  "all_proposal_states = [PS_PENDING_CONFIRMATION, PS_CONFIRMED, PS_DECLINED, PS_SUPERSEDED, PS_EXPIRED,
     PS_INVALIDATED]"

definition all_action_states :: "action_state list" where
  "all_action_states = [AS_READY, AS_SUBMITTED, AS_SUCCEEDED, AS_FAILED_RETRYABLE, AS_FAILED_TERMINAL, AS_UNCERTAIN]"

definition case_to_domain :: "case_row \<Rightarrow> investigation_case result" where
  "case_to_domain r =
    bindE (issue_type_of (icr_canonical_issue_type r)) (\<lambda>issue.
    bindE (member_of case_state_value all_case_states ''case_state'' (icr_case_state r)) (\<lambda>state.
    bindE (opt_member_of case_outcome_value all_case_outcomes ''case_outcome'' (icr_case_outcome r)) (\<lambda>outcome.
    bindE (mapE check_issue_revision (icr_issue_type_revision_history r)) (\<lambda>history.
      check_case \<lparr>ic_case_id = icr_case_id r, ic_conversation_id = icr_conversation_id r,
        ic_customer_id = icr_customer_id r, ic_authorized_order_id = icr_authorized_order_id r,
        ic_canonical_issue_type = issue, ic_case_state = state, ic_case_outcome = outcome,
        ic_reason_code = icr_reason_code r, ic_related_case_id = icr_related_case_id r,
        ic_business_clarifications = icr_business_clarification_count r,
        ic_planning_turns = icr_agent_planning_turn_count r,
        ic_read_tool_executions = icr_actual_read_tool_execution_count r,
        ic_issue_type_revision_history = history, ic_target_shipment_id = icr_target_shipment_id r\<rparr>))))"

definition run_to_domain :: "run_row \<Rightarrow> run result" where
  "run_to_domain r =
    (case rnr_case_id r of
       None \<Rightarrow> Inl (ValueError ''a pre-Case Run has no equivalent in the current domain Run snapshot'')
     | Some cid \<Rightarrow>
         bindE (member_of run_state_value all_run_states ''run_state'' (rnr_run_state r)) (\<lambda>state.
           check_run \<lparr>rn_run_id = rnr_run_id r, rn_case_id = cid, rn_run_state = state,
             rn_planning_turns = rnr_planning_turn_count r, rn_failure_class = rnr_failure_code r\<rparr>))"

definition proposal_to_domain :: "proposal_row \<Rightarrow> action_proposal result" where
  "proposal_to_domain r =
    bindE (member_of proposal_state_value all_proposal_states ''proposal_state'' (apr_proposal_state r)) (\<lambda>state.
    bindE (member_of action_type_value [CREATE_LOGISTICS_INVESTIGATION_TICKET] ''action_type'' (apr_action_type r))
      (\<lambda>act. check_proposal \<lparr>ap_proposal_id = apr_proposal_id r, ap_case_id = apr_case_id r,
        ap_version = apr_version r, ap_proposal_state = state, ap_action_type = act,
        ap_execution_parameters = apr_execution_parameters r,
        ap_customer_visible_effect = apr_customer_visible_effect r, ap_evidence_refs = apr_evidence_refs r,
        ap_evidence_snapshot_hash = apr_evidence_snapshot_hash r,
        ap_case_fact_identity = apr_case_fact_identity r, ap_created_at = apr_created_at r,
        ap_expires_at = apr_expires_at r\<rparr>))"

definition action_to_domain :: "action_row \<Rightarrow> action_execution result" where
  "action_to_domain r =
    bindE (member_of action_state_value all_action_states ''action_state'' (aer_action_state r)) (\<lambda>state.
      check_action \<lparr>ax_action_id = aer_action_id r, ax_proposal_id = aer_proposal_id r, ax_action_state = state,
        ax_idempotency_key = aer_idempotency_key r, ax_submitted_at = aer_submitted_at r,
        ax_verified_at = aer_verified_at r, ax_error_code = aer_error_code r\<rparr>)"

section \<open>The database stays well formed\<close>

lemma stored_case: "wf_db d \<Longrightarrow> get_case d k = Some r \<Longrightarrow> refs_case d r \<and> icr_case_id r = k"
  by (auto simp: wf_db_def get_case_def case_table_def dest!: get_row_key)

lemma stored_run: "wf_db d \<Longrightarrow> get_run d k = Some r \<Longrightarrow> refs_run d r \<and> rnr_run_id r = k"
  by (auto simp: wf_db_def get_run_def run_table_def dest!: get_row_key)

lemma stored_tool_call: "wf_db d \<Longrightarrow> get_tool_call d k = Some r \<Longrightarrow> refs_tool_call d r \<and> tcr_tool_call_id r = k"
  by (auto simp: wf_db_def get_tool_call_def tool_call_table_def dest!: get_row_key)

lemma stored_snapshot: "wf_db d \<Longrightarrow> get_case_fact_snapshot d k = Some r \<Longrightarrow> refs_fact_snapshot d r \<and> fsr_case_id r = k"
  by (auto simp: wf_db_def get_case_fact_snapshot_def fact_snapshot_table_def dest!: get_row_key)

lemma stored_proposal: "wf_db d \<Longrightarrow> get_proposal d k = Some r \<Longrightarrow> refs_proposal d r \<and> apr_proposal_id r = k"
  by (auto simp: wf_db_def get_proposal_def proposal_table_def dest!: get_row_key)

lemma stored_action: "wf_db d \<Longrightarrow> get_action d k = Some r \<Longrightarrow> refs_action d r \<and> aer_action_id r = k"
  by (auto simp: wf_db_def get_action_def action_table_def dest!: get_row_key)

text \<open>Operations that insert one row.\<close>

lemma create_conversation_wf:
  "wf_db d \<Longrightarrow> create_conversation d f n n' c k m i v t = Inr (row, d') \<Longrightarrow> wf_db d' \<and> grows d d'"
  by (auto simp: create_conversation_def Let_def bindE_eq_Inr dest: insert_conversation_wf)

lemma add_message_wf:
  "wf_db d \<Longrightarrow> add_message d f n c r ct mid cid rid tid t = Inr (row, d') \<Longrightarrow> wf_db d' \<and> grows d d'"
  by (auto simp: add_message_def Let_def bindE_eq_Inr dest: insert_message_wf)

lemma create_triage_record_wf:
  "wf_db d \<Longrightarrow> create_triage_record d f n tri c m r tid sv t = Inr (row, d') \<Longrightarrow> wf_db d' \<and> grows d d'"
  by (auto simp: create_triage_record_def Let_def bindE_eq_Inr dest: insert_triage_record_wf)

lemma create_policy_decision_wf:
  "wf_db d \<Longrightarrow> create_policy_decision d f n c m t r rt s rc pid it oid bf rf ca = Inr (row, d') \<Longrightarrow>
   wf_db d' \<and> grows d d'"
  by (auto simp: create_policy_decision_def Let_def bindE_eq_Inr dest: insert_policy_decision_wf)

lemma create_run_wf: "wf_db d \<Longrightarrow> create_run d f n r args = Inr (row, d') \<Longrightarrow> wf_db d' \<and> grows d d'"
  by (auto simp: create_run_def Let_def bindE_eq_Inr dest: insert_run_wf)

lemma create_tool_call_wf:
  "wf_db d \<Longrightarrow> create_tool_call d f n c k r tn na pt tid an ae ch b t = Inr (row, d') \<Longrightarrow> wf_db d' \<and> grows d d'"
  by (auto simp: create_tool_call_def Let_def bindE_eq_Inr dest: insert_tool_call_wf)

lemma append_case_fact_assertion_wf:
  "wf_db d \<Longrightarrow> append_case_fact_assertion d a fp = Inr (row, d') \<Longrightarrow> wf_db d' \<and> grows d d'"
  by (auto simp: append_case_fact_assertion_def Let_def bindE_eq_Inr split: option.splits if_splits
      dest: insert_fact_assertion_wf)

lemma append_case_fact_question_wf:
  "wf_db d \<Longrightarrow> append_case_fact_question d q = Inr (row, d') \<Longrightarrow> wf_db d' \<and> grows d d'"
  by (auto simp: append_case_fact_question_def Let_def bindE_eq_Inr split: option.splits if_splits
      dest: insert_fact_question_wf)

lemma append_consumption_wf:
  "wf_db d \<Longrightarrow> append_case_fact_message_consumption d r = Inr (row, d') \<Longrightarrow> wf_db d' \<and> grows d d'"
  by (auto simp: append_case_fact_message_consumption_def Let_def bindE_eq_Inr split: option.splits if_splits
      dest: insert_fact_consumption_wf)

lemma create_proposal_wf: "wf_db d \<Longrightarrow> create_proposal d p = Inr (row, d') \<Longrightarrow> wf_db d' \<and> grows d d'"
  by (auto simp: create_proposal_def Let_def bindE_eq_Inr dest: insert_proposal_wf)

lemma create_action_wf: "wf_db d \<Longrightarrow> create_action d n n' a = Inr (row, d') \<Longrightarrow> wf_db d' \<and> grows d d'"
  by (auto simp: create_action_def Let_def bindE_eq_Inr dest: insert_action_wf)

lemma create_ticket_wf:
  "wf_db d \<Longrightarrow> create_ticket d n tid cid aid cu oid it key sh det t = Inr (row, d') \<Longrightarrow> wf_db d' \<and> grows d d'"
  by (auto simp: create_ticket_def Let_def bindE_eq_Inr split: option.splits if_splits dest: insert_ticket_wf)

text \<open>Operations that update rows.\<close>

lemma create_case_Inr:
  assumes "create_case d n c ri t = Inr (row, d')"
  shows "\<exists>conversation d1. get_conversation d (ic_conversation_id c) = Some conversation \<and>
    row = new_case_row c ri (opt_or t n) \<and>
    update_conversation_row d (conversation\<lparr>
       cvr_active_case_id := (if icr_case_state (new_case_row c ri (opt_or t n)) \<noteq> ''closed''
         then Some (icr_case_id (new_case_row c ri (opt_or t n))) else None),
       cvr_updated_at := opt_or t n\<rparr>) = Inr d1 \<and>
    insert_case d1 (new_case_row c ri (opt_or t n)) = Inr d'"
  using assms unfolding create_case_def require_conversation_def Let_def
  by (elim bindE_InrE) (auto simp del: if_split)

lemma create_case_wf:
  assumes wf: "wf_db d" and c: "create_case d n c ri t = Inr (row, d')"
  shows "wf_db d' \<and> grows d d'"
proof -
  from create_case_Inr [OF c] obtain conversation d1 where
    up: "update_conversation_row d (conversation\<lparr>
       cvr_active_case_id := (if icr_case_state (new_case_row c ri (opt_or t n)) \<noteq> ''closed''
         then Some (icr_case_id (new_case_row c ri (opt_or t n))) else None),
       cvr_updated_at := opt_or t n\<rparr>) = Inr d1"
    and d': "insert_case d1 (new_case_row c ri (opt_or t n)) = Inr d'" by blast
  from update_conversation_row_wf [OF wf up] have d1: "wf_db d1" "grows d d1" by simp_all
  from insert_case_wf [OF d1(1) d'] d1(2) show ?thesis by (blast intro: grows_trans)
qed

lemma updated_case_row_keys [simp]:
  "icr_conversation_id (updated_case_row u n row) = icr_conversation_id row"
  "icr_related_case_id (updated_case_row u n row) = icr_related_case_id row"
  "icr_case_id (updated_case_row u n row) = icr_case_id row"
  by (simp_all add: updated_case_row_def Let_def)

lemma update_case_Inr:
  assumes "update_case d n cid u = Inr (row', d')"
  obtains row conversation d1 where "get_case d cid = Some row" "case_update_guard u row = Inr ()"
    "row' = updated_case_row u (opt_or (cu_updated_at u) n) row"
    "get_conversation d (icr_conversation_id row) = Some conversation"
    "(if icr_case_state row' = ''closed'' \<and> cvr_active_case_id conversation = Some cid
      then update_conversation_row d (conversation\<lparr>cvr_active_case_id := None, cvr_updated_at := opt_or (cu_updated_at u) n\<rparr>)
      else Inr d) = Inr d1"
    "update_case_row d1 row' = Inr d'"
  using assms by (auto simp: update_case_def require_case_def require_conversation_def bindE_eq_Inr Let_def)

lemma update_case_wf:
  assumes wf: "wf_db d" and u: "update_case d n cid u = Inr (row', d')"
  shows "wf_db d' \<and> grows d d'"
  using u
proof (rule update_case_Inr)
  fix row conversation d1
  assume row: "get_case d cid = Some row" and row': "row' = updated_case_row u (opt_or (cu_updated_at u) n) row"
    and d1: "(if icr_case_state row' = ''closed'' \<and> cvr_active_case_id conversation = Some cid
      then update_conversation_row d (conversation\<lparr>cvr_active_case_id := None, cvr_updated_at := opt_or (cu_updated_at u) n\<rparr>)
      else Inr d) = Inr d1"
    and d2: "update_case_row d1 row' = Inr d'"
  from d1 wf have w1: "wf_db d1 \<and> grows d d1"
    by (auto split: if_splits dest: update_conversation_row_wf)
  from conjunct1 [OF stored_case [OF wf row]] have "refs_case d row'" unfolding row' refs_case_def by simp
  with w1 d2 show ?thesis using update_case_row_wf [of d1 row' d'] by (blast intro: refs_case_grow grows_trans)
qed

lemma append_issue_revision_wf:
  assumes wf: "wf_db d" and u: "append_issue_revision d n cid it rv er = Inr (row', d')"
  shows "wf_db d' \<and> grows d d'"
proof -
  from u obtain row where row: "get_case d cid = Some row" and d': "update_case_row d row' = Inr d'"
    and same: "icr_conversation_id row' = icr_conversation_id row" "icr_related_case_id row' = icr_related_case_id row"
      "icr_case_id row' = icr_case_id row"
    by (auto simp: append_issue_revision_def require_case_def Let_def bindE_eq_Inr split: if_splits)
  from conjunct1 [OF stored_case [OF wf row]] have "refs_case d row'" unfolding refs_case_def same .
  with wf d' show ?thesis by (rule update_case_row_wf)
qed

lemma update_run_wf:
  assumes wf: "wf_db d" and u: "update_run d n rid st pt ar fc t = Inr (row', d')"
  shows "wf_db d' \<and> grows d d'"
proof -
  from u obtain row where row: "get_run d rid = Some row" and d': "update_run_row d row' = Inr d'"
    and same: "rnr_conversation_id row' = rnr_conversation_id row" "rnr_case_id row' = rnr_case_id row"
    by (auto simp: update_run_def require_run_def Let_def bindE_eq_Inr split: if_splits)
  from stored_run [OF wf row] have "refs_run d row'" by (simp add: refs_run_def same)
  with wf d' show ?thesis by (rule update_run_row_wf)
qed

lemma complete_tool_call_wf:
  assumes wf: "wf_db d" and u: "complete_tool_call d n tid es ea re rh sv ec rt t = Inr (row', d')"
  shows "wf_db d' \<and> grows d d'"
proof -
  from u obtain row where row: "get_tool_call d tid = Some row" and d': "update_tool_call_row d row' = Inr d'"
    and same: "tcr_conversation_id row' = tcr_conversation_id row" "tcr_case_id row' = tcr_case_id row"
      "tcr_run_id row' = tcr_run_id row"
    by (auto simp: complete_tool_call_def Let_def bindE_eq_Inr split: if_splits)
  from stored_tool_call [OF wf row] have "refs_tool_call d row'" by (simp add: refs_tool_call_def same)
  with wf d' show ?thesis by (rule update_tool_call_row_wf)
qed

lemma store_case_fact_snapshot_wf:
  assumes wf: "wf_db d" and u: "store_case_fact_snapshot d s = Inr (row', d')"
  shows "wf_db d' \<and> grows d d'"
proof (cases "get_case_fact_snapshot d (sn_case_id s)")
  case None
  with u wf show ?thesis
    by (auto simp: store_case_fact_snapshot_def Let_def bindE_eq_Inr dest: insert_fact_snapshot_wf)
next
  case (Some row)
  with u have d': "update_fact_snapshot_row d row' = Inr d'" and same: "fsr_case_id row' = fsr_case_id row"
    by (auto simp: store_case_fact_snapshot_def Let_def bindE_eq_Inr split: if_splits)
  from conjunct1 [OF stored_snapshot [OF wf Some]] have "refs_fact_snapshot d row'"
    unfolding refs_fact_snapshot_def same .
  with wf d' show ?thesis by (rule update_fact_snapshot_row_wf)
qed

lemma update_proposal_state_Inr:
  assumes "update_proposal_state d n pid st sb t = Inr (row', d')"
  obtains row c d1 where "get_proposal d pid = Some row" "get_case d (apr_case_id row) = Some c"
    "row_step_allowed proposal_row_allowed (apr_proposal_state row) st
       (InvalidStateTransitionError ''Proposal cannot transition'') = Inr ()"
    "st = ''superseded'' \<Longrightarrow> truthy sb"
    "row' = row\<lparr>apr_proposal_state := st, apr_superseded_by_proposal_id := sb, apr_state_changed_at := opt_or t n\<rparr>"
    "(if st \<noteq> ''pending_confirmation'' \<and> icr_active_proposal_id c = Some pid
      then update_case_row d (c\<lparr>icr_active_proposal_id := None, icr_revision := icr_revision c + 1,
             icr_updated_at := opt_or t n\<rparr>) else Inr d) = Inr d1"
    "update_proposal_row d1 row' = Inr d'"
  using assms unfolding update_proposal_state_def require_proposal_def require_case_def Let_def
  by (elim bindE_InrE) (simp only: guard_Inr require_row_Inr, elim conjE bindE_InrE, simp)

lemma update_proposal_state_wf:
  assumes wf: "wf_db d" and u: "update_proposal_state d n pid st sb t = Inr (row', d')"
  shows "wf_db d' \<and> grows d d'"
  using u
proof (rule update_proposal_state_Inr)
  fix row c d1
  assume row: "get_proposal d pid = Some row" and c: "get_case d (apr_case_id row) = Some c"
    and row': "row' = row\<lparr>apr_proposal_state := st, apr_superseded_by_proposal_id := sb,
        apr_state_changed_at := opt_or t n\<rparr>"
    and d1: "(if st \<noteq> ''pending_confirmation'' \<and> icr_active_proposal_id c = Some pid
      then update_case_row d (c\<lparr>icr_active_proposal_id := None, icr_revision := icr_revision c + 1,
             icr_updated_at := opt_or t n\<rparr>) else Inr d) = Inr d1"
    and d2: "update_proposal_row d1 row' = Inr d'"
  from conjunct1 [OF stored_case [OF wf c]]
  have "refs_case d (c\<lparr>icr_active_proposal_id := a, icr_revision := b, icr_updated_at := e\<rparr>)" for a b e
    by (simp add: refs_case_def)
  with d1 wf have w1: "wf_db d1 \<and> grows d d1" by (auto split: if_splits dest: update_case_row_wf)
  from conjunct1 [OF stored_proposal [OF wf row]] have "refs_proposal d row'" by (simp add: row' refs_proposal_def)
  with w1 d2 show ?thesis using update_proposal_row_wf [of d1 row' d']
    by (blast intro: refs_proposal_grow grows_trans)
qed

lemma update_action_state_wf:
  assumes wf: "wf_db d" and u: "update_action_state d n aid st ec sa va t = Inr (row', d')"
  shows "wf_db d' \<and> grows d d'"
proof -
  from u obtain row where row: "get_action d aid = Some row" and d': "update_action_row d row' = Inr d'"
    and same: "aer_proposal_id row' = aer_proposal_id row" "aer_conversation_id row' = aer_conversation_id row"
      "aer_case_id row' = aer_case_id row"
    by (auto simp: update_action_state_def Let_def bindE_eq_Inr split: if_splits)
  from stored_action [OF wf row] have "refs_action d row'" by (simp add: refs_action_def same)
  with wf d' show ?thesis by (rule update_action_row_wf)
qed

lemmas repository_wf = create_conversation_wf add_message_wf create_triage_record_wf create_policy_decision_wf
  create_case_wf update_case_wf append_issue_revision_wf create_run_wf update_run_wf create_tool_call_wf
  complete_tool_call_wf append_case_fact_assertion_wf append_case_fact_question_wf append_consumption_wf
  store_case_fact_snapshot_wf create_proposal_wf update_proposal_state_wf create_action_wf
  update_action_state_wf create_ticket_wf

section \<open>Steps of the repository\<close>

text \<open>One successful operation, with whatever arguments.\<close>

inductive repository_step :: "database \<Rightarrow> database \<Rightarrow> bool" where
  step_create_conversation: "create_conversation d f n n' c k m i v t = Inr (row, d') \<Longrightarrow> repository_step d d'"
| step_add_message: "add_message d f n c r ct mid cid rid tid t = Inr (row, d') \<Longrightarrow> repository_step d d'"
| step_create_triage_record: "create_triage_record d f n tri c m r tid sv t = Inr (row, d') \<Longrightarrow> repository_step d d'"
| step_create_policy_decision: "create_policy_decision d f n c m tid r rt sp rc pid it oid bf rf t = Inr (row, d') \<Longrightarrow> repository_step d d'"
| step_create_case: "create_case d n c ri t = Inr (row, d') \<Longrightarrow> repository_step d d'"
| step_update_case: "update_case d n cid u = Inr (row, d') \<Longrightarrow> repository_step d d'"
| step_append_issue_revision: "append_issue_revision d n cid it rv er = Inr (row, d') \<Longrightarrow> repository_step d d'"
| step_create_run: "create_run d f n r args = Inr (row, d') \<Longrightarrow> repository_step d d'"
| step_update_run: "update_run d n rid st pt ar fc t = Inr (row, d') \<Longrightarrow> repository_step d d'"
| step_create_tool_call: "create_tool_call d f n c k r tn na pt tid an ae ch b t = Inr (row, d') \<Longrightarrow> repository_step d d'"
| step_complete_tool_call: "complete_tool_call d n tid es ea re rh sv ec rt t = Inr (row, d') \<Longrightarrow> repository_step d d'"
| step_append_case_fact_assertion: "append_case_fact_assertion d a fp = Inr (row, d') \<Longrightarrow> repository_step d d'"
| step_append_case_fact_question: "append_case_fact_question d q = Inr (row, d') \<Longrightarrow> repository_step d d'"
| step_append_case_fact_message_consumption: "append_case_fact_message_consumption d r = Inr (row, d') \<Longrightarrow> repository_step d d'"
| step_store_case_fact_snapshot: "store_case_fact_snapshot d s = Inr (row, d') \<Longrightarrow> repository_step d d'"
| step_create_proposal: "create_proposal d p = Inr (row, d') \<Longrightarrow> repository_step d d'"
| step_update_proposal_state: "update_proposal_state d n pid st sb t = Inr (row, d') \<Longrightarrow> repository_step d d'"
| step_create_action: "create_action d n n' a = Inr (row, d') \<Longrightarrow> repository_step d d'"
| step_update_action_state: "update_action_state d n aid st ec sa va t = Inr (row, d') \<Longrightarrow> repository_step d d'"
| step_create_ticket: "create_ticket d n tid cid aid cu oid it key sh det t = Inr (row, d') \<Longrightarrow> repository_step d d'"

lemma repository_step_wf:
  assumes "repository_step d d'" and "wf_db d"
  shows "wf_db d' \<and> grows d d'"
  using assms by (induction rule: repository_step.induct) (erule (1) repository_wf [rotated])+

text \<open>The databases that operations reach from the empty one.\<close>

definition reachable_db :: "database \<Rightarrow> bool" where
  "reachable_db d \<longleftrightarrow> repository_step\<^sup>*\<^sup>* empty_database d"

lemma empty_database_wf: "wf_db empty_database"
  by (simp add: wf_db_def empty_database_def)

lemma repository_steps_wf: "repository_step\<^sup>*\<^sup>* d e \<Longrightarrow> wf_db d \<Longrightarrow> wf_db e \<and> grows d e"
  by (induction rule: rtranclp_induct) (auto dest: repository_step_wf intro: grows_trans)

section \<open>What an operation leaves alone\<close>

lemma create_conversation_frame:
  "create_conversation d f n n' c k m i v t = Inr (row, d') \<Longrightarrow> \<exists>x. d' = d\<lparr>db_conversations := x\<rparr>"
  by (auto simp: create_conversation_def Let_def bindE_eq_Inr guard_Inr split: option.splits if_splits dest!: insert_touches update_touches)

lemma add_message_frame:
  "add_message d f n c r ct mid cid rid tid t = Inr (row, d') \<Longrightarrow> \<exists>x. d' = d\<lparr>db_messages := x\<rparr>"
  by (auto simp: add_message_def Let_def bindE_eq_Inr guard_Inr split: option.splits if_splits dest!: insert_touches update_touches)

lemma create_triage_record_frame:
  "create_triage_record d f n tri c m r tid sv t = Inr (row, d') \<Longrightarrow> \<exists>x. d' = d\<lparr>db_triage_records := x\<rparr>"
  by (auto simp: create_triage_record_def Let_def bindE_eq_Inr guard_Inr split: option.splits if_splits dest!: insert_touches update_touches)

lemma create_policy_decision_frame:
  "create_policy_decision d f n c m tid r rt sp rc pid it oid bf rf t = Inr (row, d') \<Longrightarrow> \<exists>x. d' = d\<lparr>db_policy_decisions := x\<rparr>"
  by (auto simp: create_policy_decision_def Let_def bindE_eq_Inr guard_Inr split: option.splits if_splits dest!: insert_touches update_touches)

lemma create_case_frame:
  "create_case d n c ri t = Inr (row, d') \<Longrightarrow> \<exists>x y. d' = d\<lparr>db_conversations := x, db_cases := y\<rparr>"
  by (auto dest!: create_case_Inr insert_touches update_touches)

lemma maybe_update_conversation:
  "(if b then update_conversation_row d r else Inr d) = Inr d1 \<Longrightarrow> \<exists>x. d1 = d\<lparr>db_conversations := x\<rparr>"
  by (cases b) (auto dest!: update_frames intro!: exI [of _ "db_conversations d1"])

lemma maybe_update_case:
  "(if b then update_case_row d r else Inr d) = Inr d1 \<Longrightarrow> \<exists>x. d1 = d\<lparr>db_cases := x\<rparr>"
  by (cases b) (auto dest!: update_frames intro!: exI [of _ "db_cases d1"])

lemma update_case_frame:
  "update_case d n cid u = Inr (row, d') \<Longrightarrow> \<exists>x y. d' = d\<lparr>db_conversations := x, db_cases := y\<rparr>"
  by (erule update_case_Inr, drule maybe_update_conversation, drule update_touches(2), elim exE, hypsubst, intro exI, simp)

lemma append_issue_revision_frame:
  "append_issue_revision d n cid it rv er = Inr (row, d') \<Longrightarrow> \<exists>x. d' = d\<lparr>db_cases := x\<rparr>"
  by (auto simp: append_issue_revision_def Let_def bindE_eq_Inr guard_Inr split: option.splits if_splits dest!: insert_touches update_touches)

lemma create_run_frame:
  "create_run d f n r args = Inr (row, d') \<Longrightarrow> \<exists>x. d' = d\<lparr>db_runs := x\<rparr>"
  by (auto simp: create_run_def Let_def bindE_eq_Inr guard_Inr split: option.splits if_splits dest!: insert_touches update_touches)

lemma update_run_frame:
  "update_run d n rid st pt ar fc t = Inr (row, d') \<Longrightarrow> \<exists>x. d' = d\<lparr>db_runs := x\<rparr>"
  by (auto simp: update_run_def Let_def bindE_eq_Inr guard_Inr split: option.splits if_splits dest!: insert_touches update_touches)

lemma create_tool_call_frame:
  "create_tool_call d f n c k r tn na pt tid an ae ch b t = Inr (row, d') \<Longrightarrow> \<exists>x. d' = d\<lparr>db_tool_calls := x\<rparr>"
  by (auto simp: create_tool_call_def Let_def bindE_eq_Inr guard_Inr split: option.splits if_splits dest!: insert_touches update_touches)

lemma complete_tool_call_frame:
  "complete_tool_call d n tid es ea re rh sv ec rt t = Inr (row, d') \<Longrightarrow> \<exists>x. d' = d\<lparr>db_tool_calls := x\<rparr>"
  by (auto simp: complete_tool_call_def Let_def bindE_eq_Inr guard_Inr split: option.splits if_splits dest!: insert_touches update_touches)

lemma append_case_fact_assertion_frame:
  "append_case_fact_assertion d a fp = Inr (row, d') \<Longrightarrow> \<exists>x. d' = d\<lparr>db_fact_assertions := x\<rparr>"
  by (auto simp: append_case_fact_assertion_def Let_def bindE_eq_Inr guard_Inr split: option.splits if_splits
      intro: exI [of _ "db_fact_assertions d"] dest!: insert_touches update_touches)

lemma append_case_fact_question_frame:
  "append_case_fact_question d q = Inr (row, d') \<Longrightarrow> \<exists>x. d' = d\<lparr>db_fact_questions := x\<rparr>"
  by (auto simp: append_case_fact_question_def Let_def bindE_eq_Inr guard_Inr split: option.splits if_splits
      intro: exI [of _ "db_fact_questions d"] dest!: insert_touches update_touches)

lemma append_case_fact_message_consumption_frame:
  "append_case_fact_message_consumption d r = Inr (row, d') \<Longrightarrow> \<exists>x. d' = d\<lparr>db_fact_consumptions := x\<rparr>"
  by (auto simp: append_case_fact_message_consumption_def Let_def bindE_eq_Inr guard_Inr split: option.splits if_splits
      intro: exI [of _ "db_fact_consumptions d"] dest!: insert_touches update_touches)

lemma store_case_fact_snapshot_frame:
  "store_case_fact_snapshot d s = Inr (row, d') \<Longrightarrow> \<exists>x. d' = d\<lparr>db_fact_snapshots := x\<rparr>"
  by (auto simp: store_case_fact_snapshot_def Let_def bindE_eq_Inr guard_Inr split: option.splits if_splits dest!: insert_touches update_touches)

lemma create_proposal_frame:
  "create_proposal d p = Inr (row, d') \<Longrightarrow> \<exists>x. d' = d\<lparr>db_proposals := x\<rparr>"
  by (auto simp: create_proposal_def Let_def bindE_eq_Inr guard_Inr split: option.splits if_splits dest!: insert_touches update_touches)

lemma update_proposal_state_frame:
  "update_proposal_state d n pid st sb t = Inr (row, d') \<Longrightarrow> \<exists>x y. d' = d\<lparr>db_cases := x, db_proposals := y\<rparr>"
  by (erule update_proposal_state_Inr, drule maybe_update_case, drule update_touches(6), elim exE, hypsubst, intro exI, simp)

lemma create_action_frame:
  "create_action d n n' a = Inr (row, d') \<Longrightarrow> \<exists>x. d' = d\<lparr>db_actions := x\<rparr>"
  by (auto simp: create_action_def Let_def bindE_eq_Inr guard_Inr split: option.splits if_splits dest!: insert_touches update_touches)

lemma update_action_state_frame:
  "update_action_state d n aid st ec sa va t = Inr (row, d') \<Longrightarrow> \<exists>x. d' = d\<lparr>db_actions := x\<rparr>"
  by (auto simp: update_action_state_def Let_def bindE_eq_Inr guard_Inr split: option.splits if_splits dest!: insert_touches update_touches)

lemma create_ticket_frame:
  "create_ticket d n tid cid aid cu oid it key sh det t = Inr (row, d') \<Longrightarrow> \<exists>x. d' = d\<lparr>db_tickets := x\<rparr>"
  by (auto simp: create_ticket_def Let_def bindE_eq_Inr guard_Inr split: option.splits if_splits
      intro: exI [of _ "db_tickets d"] dest!: insert_touches update_touches)

lemmas repository_frames = create_conversation_frame add_message_frame create_triage_record_frame create_policy_decision_frame create_case_frame update_case_frame append_issue_revision_frame create_run_frame update_run_frame create_tool_call_frame complete_tool_call_frame append_case_fact_assertion_frame append_case_fact_question_frame append_case_fact_message_consumption_frame store_case_fact_snapshot_frame create_proposal_frame update_proposal_state_frame create_action_frame update_action_state_frame create_ticket_frame

end
