(* ===== verification/EventStore.thy ===== *)
theory EventStore
  imports Repository
begin

text \<open>
  Canonical events: \<open>events/models.py\<close> and \<open>events/store.py\<close>.

  \<^item> A member of a \<open>StrEnum\<close> is its string, so a visibility is a string; the conversion of a stored visibility
    cannot fail because of the check constraint of its column.
  \<^item> The hub keeps one queue per subscriber.  Publishing follows the commit without a suspension point, since
    no coroutine holds the hub's lock across one; so committing and publishing are one step of the event loop.
  \<^item> The coroutine \<open>subscribe\<close> is a step function on its cursor and its phase: about to query, inside a batch,
    or waiting on its queue.  Other coroutines run between its steps.

  The lemmas show that the events of a conversation are numbered without gaps and that a subscriber receives
  each of them exactly once and in order, although it registers before it replays.
\<close>

section \<open>Drafts\<close>

record event_draft =
  ed_conversation_id :: string
  ed_event_type :: string
  ed_visibility :: string
  ed_summary :: utext
  ed_payload :: json
  ed_evidence_refs :: "evidence_ref list"
  ed_case_id :: "string option"
  ed_run_id :: "string option"
  ed_schema_version :: int
  ed_timestamp :: "datetime option"
  ed_event_id :: string

definition lower_letter :: "char \<Rightarrow> bool" where
  "lower_letter c \<longleftrightarrow> c \<in> set ''abcdefghijklmnopqrstuvwxyz''"

definition event_type_char :: "char \<Rightarrow> bool" where
  "event_type_char c \<longleftrightarrow> lower_letter c \<or> c \<in> set ''0123456789_''"

text \<open>The pattern \<open>^[a-z][a-z0-9_]{0,95}$\<close>.\<close>

definition is_event_type :: "string \<Rightarrow> bool" where
  "is_event_type s \<longleftrightarrow> s \<noteq> [] \<and> lower_letter (hd s) \<and> list_all event_type_char (tl s) \<and> length s \<le> 96"

definition check_event_draft :: "event_draft \<Rightarrow> event_draft result" where
  "check_event_draft e =
    (if ed_conversation_id e = [] then Inl (ValueError ''conversation_id must not be empty'')
     else if \<not> is_event_type (ed_event_type e)
       then Inl (ValueError ''event_type must be lower snake_case and at most 96 characters'')
     else if ed_schema_version e < 1 then Inl (ValueError ''schema_version must be positive'')
     else if ed_summary e = [] then Inl (ValueError ''summary must not be empty'')
     else if ed_visibility e \<notin> {''customer'', ''developer'', ''both''} then Inl (ValueError ''visibility'')
     else if \<not> opt_aware (ed_timestamp e) then Inl (ValueError ''event timestamp must be timezone-aware'')
     else Inr e)"

record envelope =
  en_schema_version :: int
  en_event_id :: string
  en_sequence :: int
  en_timestamp :: datetime
  en_conversation_id :: string
  en_case_id :: "string option"
  en_run_id :: "string option"
  en_event_type :: string
  en_visibility :: string
  en_summary :: utext
  en_payload :: json
  en_evidence_refs :: "evidence_ref list"

definition to_envelope :: "event_row \<Rightarrow> envelope" where
  "to_envelope r = \<lparr>en_schema_version = evr_schema_version r, en_event_id = evr_event_id r,
     en_sequence = evr_sequence r, en_timestamp = evr_timestamp r, en_conversation_id = evr_conversation_id r,
     en_case_id = evr_case_id r, en_run_id = evr_run_id r, en_event_type = evr_event_type r,
     en_visibility = evr_visibility r, en_summary = evr_summary r, en_payload = evr_payload r,
     en_evidence_refs = evr_evidence_refs r\<rparr>"

lemma to_envelope_simps [simp]:
  "en_sequence (to_envelope r) = evr_sequence r"
  "en_conversation_id (to_envelope r) = evr_conversation_id r"
  by (simp_all add: to_envelope_def)

section \<open>The hub\<close>

text \<open>The subscribers: an identity, the conversation and the queued events.\<close>

type_synonym hub = "(nat \<times> string \<times> envelope list) list"

definition hub_register :: "hub \<Rightarrow> nat \<Rightarrow> string \<Rightarrow> hub" where
  "hub_register h q conversation_id = h @ [(q, conversation_id, [])]"

definition hub_unregister :: "hub \<Rightarrow> nat \<Rightarrow> hub" where
  "hub_unregister h q = filter (\<lambda>s. fst s \<noteq> q) h"

definition hub_publish :: "hub \<Rightarrow> envelope \<Rightarrow> hub" where
  "hub_publish h e = map (\<lambda>(q, cid, es). (q, cid, if cid = en_conversation_id e then es @ [e] else es)) h"

definition hub_queue :: "hub \<Rightarrow> nat \<Rightarrow> (string \<times> envelope list) option" where
  "hub_queue h q = map_of h q"

text \<open>\<open>queue.get()\<close> on a queue that is not empty.\<close>

definition hub_pop :: "hub \<Rightarrow> nat \<Rightarrow> hub" where
  "hub_pop h q = map (\<lambda>(p, cid, es). (p, cid, if p = q then tl es else es)) h"

section \<open>The store\<close>

record event_store =
  es_db :: database
  es_hub :: hub

text \<open>The \<open>UPDATE\<close> of the sequence also fires \<open>onupdate\<close> of \<open>updated_at\<close>.\<close>

definition event_append :: "event_store \<Rightarrow> datetime \<Rightarrow> datetime \<Rightarrow> event_draft \<Rightarrow> (envelope \<times> event_store) result" where
  "event_append s now now' e =
    bindE (require_conversation (es_db s) (ed_conversation_id e)) (\<lambda>conversation.
      let sequence = cvr_next_event_sequence conversation + 1;
          row = \<lparr>evr_event_id = ed_event_id e, evr_schema_version = ed_schema_version e,
            evr_sequence = sequence, evr_timestamp = opt_or (ed_timestamp e) now,
            evr_conversation_id = ed_conversation_id e, evr_case_id = ed_case_id e, evr_run_id = ed_run_id e,
            evr_event_type = ed_event_type e, evr_visibility = ed_visibility e, evr_summary = ed_summary e,
            evr_payload = ed_payload e, evr_evidence_refs = ed_evidence_refs e\<rparr>
      in bindE (update_conversation_row (es_db s)
             (conversation\<lparr>cvr_next_event_sequence := sequence, cvr_updated_at := now'\<rparr>)) (\<lambda>d1.
         bindE (insert_event d1 row) (\<lambda>d2.
           Inr (to_envelope row, \<lparr>es_db = d2, es_hub = hub_publish (es_hub s) (to_envelope row)\<rparr>))))"

definition get_event :: "database \<Rightarrow> string \<Rightarrow> envelope option" where
  "get_event d eid = map_option to_envelope (get_row event_table (db_events d) eid)"

definition list_after :: "database \<Rightarrow> string \<Rightarrow> int \<Rightarrow> int \<Rightarrow> envelope list result" where
  "list_after d conversation_id after_sequence limit =
    (if after_sequence < 0 then Inl (ValueError ''after_sequence must be nonnegative'')
     else if \<not> (1 \<le> limit \<and> limit \<le> 5000) then Inl (ValueError ''limit must be between 1 and 5000'')
     else Inr (map to_envelope (take (nat limit) (sort_key evr_sequence
       (filter (\<lambda>r. evr_conversation_id r = conversation_id \<and> after_sequence < evr_sequence r) (db_events d))))))"

definition list_after_event_id :: "database \<Rightarrow> string \<Rightarrow> string option \<Rightarrow> int \<Rightarrow> envelope list result" where
  "list_after_event_id d conversation_id last_event_id limit =
    (if \<not> truthy last_event_id then list_after d conversation_id 0 limit
     else (case get_event d (the last_event_id) of
             None \<Rightarrow> Inl (StorageNotFoundError ''Last-Event-ID is not visible in this Conversation'')
           | Some event \<Rightarrow>
               if en_conversation_id event \<noteq> conversation_id
                 then Inl (StorageNotFoundError ''Last-Event-ID is not visible in this Conversation'')
               else list_after d conversation_id (en_sequence event) limit))"

definition list_evidence_refs :: "database \<Rightarrow> string \<Rightarrow> string option \<Rightarrow> string option \<Rightarrow> evidence_ref list" where
  "list_evidence_refs d conversation_id case_id run_id =
     concat (map evr_evidence_refs
       (filter (\<lambda>r. evr_event_type r \<in> {''tool_call_completed'', ''tool_call_cache_hit''})
         (sort_key evr_sequence (filter (\<lambda>r. evr_conversation_id r = conversation_id \<and>
            (case_id = None \<or> case_id = evr_case_id r) \<and> (run_id = None \<or> run_id = evr_run_id r))
            (db_events d)))))"

section \<open>The subscription\<close>

datatype sub_phase =
    SP_QUERY
  | SP_BATCH "envelope list" nat
  | SP_LIVE

record subscription =
  sb_queue_id :: nat
  sb_conversation_id :: string
  sb_cursor :: int
  sb_phase :: sub_phase
  sb_yielded :: "envelope list"

definition batch_limit :: int where
  "batch_limit = 500"

text \<open>Registering, before anything is read.\<close>

definition subscribe_start :: "event_store \<Rightarrow> nat \<Rightarrow> string \<Rightarrow> int \<Rightarrow> (subscription \<times> event_store) result" where
  "subscribe_start s q conversation_id after_sequence =
    (if after_sequence < 0 then Inl (ValueError ''after_sequence must be nonnegative'')
     else Inr (\<lparr>sb_queue_id = q, sb_conversation_id = conversation_id, sb_cursor = after_sequence,
                sb_phase = SP_QUERY, sb_yielded = []\<rparr>,
               s\<lparr>es_hub := hub_register (es_hub s) q conversation_id\<rparr>))"

definition offer :: "subscription \<Rightarrow> envelope \<Rightarrow> subscription" where
  "offer b e =
    (if sb_cursor b < en_sequence e
     then b\<lparr>sb_cursor := en_sequence e, sb_yielded := sb_yielded b @ [e]\<rparr> else b)"

text \<open>One step of the coroutine; \<open>None\<close> while it waits on its empty queue.\<close>

definition subscribe_step :: "event_store \<Rightarrow> subscription \<Rightarrow> (subscription \<times> event_store) result option" where
  "subscribe_step s b =
    (case sb_phase b of
       SP_QUERY \<Rightarrow>
         Some (bindE (list_after (es_db s) (sb_conversation_id b) (sb_cursor b) batch_limit) (\<lambda>batch.
           Inr (b\<lparr>sb_phase := (if batch = [] then SP_LIVE else SP_BATCH batch (length batch))\<rparr>, s)))
     | SP_BATCH (e # rest) n \<Rightarrow> Some (Inr ((offer b e)\<lparr>sb_phase := SP_BATCH rest n\<rparr>, s))
     | SP_BATCH [] n \<Rightarrow> Some (Inr (b\<lparr>sb_phase := (if int n < batch_limit then SP_LIVE else SP_QUERY)\<rparr>, s))
     | SP_LIVE \<Rightarrow>
         (case hub_queue (es_hub s) (sb_queue_id b) of
            Some (cid, e # rest) \<Rightarrow> Some (Inr (offer b e, s\<lparr>es_hub := hub_pop (es_hub s) (sb_queue_id b)\<rparr>))
          | _ \<Rightarrow> None))"

section \<open>Numbering\<close>

definition conversation_events :: "database \<Rightarrow> string \<Rightarrow> event_row list" where
  "conversation_events d k = filter (\<lambda>r. evr_conversation_id r = k) (db_events d)"

definition conversation_log :: "database \<Rightarrow> string \<Rightarrow> envelope list" where
  "conversation_log d k = map to_envelope (conversation_events d k)"

definition last_sequence :: "database \<Rightarrow> string \<Rightarrow> int" where
  "last_sequence d k = (case get_conversation d k of None \<Rightarrow> 0 | Some c \<Rightarrow> cvr_next_event_sequence c)"

text \<open>The events of a conversation are numbered from one, in the order of insertion, up to its counter.\<close>

definition events_numbered :: "database \<Rightarrow> bool" where
  "events_numbered d \<longleftrightarrow>
     (\<forall>k. map evr_sequence (conversation_events d k) = [1..last_sequence d k] \<and> 0 \<le> last_sequence d k)"

lemma events_numbered_empty: "events_numbered empty_database"
  by (simp add: events_numbered_def conversation_events_def last_sequence_def empty_database_def
      get_conversation_def get_row_def)

lemma insert_conversation_get:
  "insert_conversation d r = Inr d' \<Longrightarrow>
   get_conversation d' k = (if k = cvr_conversation_id r then Some r else get_conversation d k)"
  by (auto simp: insert_conversation_def bindE_eq_Inr get_conversation_def get_row_insert)
    (simp_all add: conversation_table_def)

lemma insert_conversation_fresh: "insert_conversation d r = Inr d' \<Longrightarrow> get_conversation d (cvr_conversation_id r) = None"
  by (auto simp: insert_conversation_def bindE_eq_Inr get_conversation_def dest!: insert_fresh)
    (simp add: conversation_table_def)

lemma update_conversation_get:
  "update_conversation_row d r = Inr d' \<Longrightarrow> get_conversation d (cvr_conversation_id r) \<noteq> None \<Longrightarrow>
   get_conversation d' k = (if k = cvr_conversation_id r then Some r else get_conversation d k)"
  using get_row_update [of conversation_table "db_conversations d" r]
  by (auto simp: update_conversation_row_def bindE_eq_Inr get_conversation_def has_row_get)
    (simp_all add: conversation_table_def)

lemma get_conversation_id: "get_conversation d k = Some c \<Longrightarrow> cvr_conversation_id c = k"
  by (auto simp: get_conversation_def conversation_table_def dest!: get_row_key)

lemma last_sequence_update:
  assumes "update_conversation_row d c' = Inr d'" and "get_conversation d k = Some c"
    and "cvr_conversation_id c' = k"
  shows "last_sequence d' j = (if j = k then cvr_next_event_sequence c' else last_sequence d j)"
  using update_conversation_get [OF assms(1)] assms(2,3) by (simp add: last_sequence_def)

text \<open>No operation of the repository touches events or counters.\<close>

lemma repository_step_events: "repository_step d d' \<Longrightarrow> db_events d' = db_events d"
  by (induction rule: repository_step.induct) (drule repository_frames, force)+

lemma last_sequence_keep:
  "update_conversation_row d (c\<lparr>cvr_active_case_id := a, cvr_updated_at := t\<rparr>) = Inr d' \<Longrightarrow>
   get_conversation d k = Some c \<Longrightarrow> last_sequence d' j = last_sequence d j"
  using last_sequence_update [of d "c\<lparr>cvr_active_case_id := a, cvr_updated_at := t\<rparr>" d' k c j]
  by (auto simp: get_conversation_id last_sequence_def)

lemma same_conversations_last_sequence:
  "db_conversations d' = db_conversations d \<Longrightarrow> last_sequence d' k = last_sequence d k"
  by (simp add: last_sequence_def get_conversation_def)

lemma repository_step_last_sequence:
  "repository_step d d' \<Longrightarrow> last_sequence d' k = last_sequence d k"
proof (induction rule: repository_step.induct)
  case (step_create_conversation d f n n' c q m i v t row d')
  then have "insert_conversation d row = Inr d'" "cvr_next_event_sequence row = 0"
    by (auto simp: create_conversation_def Let_def bindE_eq_Inr)
  then show ?case using insert_conversation_get [of d row d' k] insert_conversation_fresh [of d row d']
    by (auto simp: last_sequence_def)
next
  case (step_create_case d n c ri t row d')
  from create_case_Inr [OF this] obtain conversation d1 where
    c: "get_conversation d (ic_conversation_id c) = Some conversation"
    and up: "update_conversation_row d (conversation\<lparr>
       cvr_active_case_id := (if icr_case_state (new_case_row c ri (opt_or t n)) \<noteq> ''closed''
         then Some (icr_case_id (new_case_row c ri (opt_or t n))) else None),
       cvr_updated_at := opt_or t n\<rparr>) = Inr d1"
    and ins: "insert_case d1 (new_case_row c ri (opt_or t n)) = Inr d'" by blast
  have "last_sequence d' k = last_sequence d1 k"
    using insert_case_frame [OF ins] by (intro same_conversations_last_sequence) simp
  with last_sequence_keep [OF up c] show ?case by simp
next
  case (step_update_case d n cid u row d')
  then show ?case
  proof (rule update_case_Inr)
    fix old conversation d1
    assume c: "get_conversation d (icr_conversation_id old) = Some conversation"
      and d1: "(if icr_case_state row = ''closed'' \<and> cvr_active_case_id conversation = Some cid
        then update_conversation_row d (conversation\<lparr>cvr_active_case_id := None, cvr_updated_at := opt_or (cu_updated_at u) n\<rparr>)
        else Inr d) = Inr d1"
      and d2: "update_case_row d1 row = Inr d'"
    have "last_sequence d' k = last_sequence d1 k"
      using update_case_row_frame [OF d2] by (intro same_conversations_last_sequence) simp
    with d1 last_sequence_keep [OF _ c] show ?case by (auto split: if_splits)
  qed
qed (drule repository_frames, force intro!: same_conversations_last_sequence)+

lemma repository_step_numbered: "repository_step d d' \<Longrightarrow> events_numbered d \<Longrightarrow> events_numbered d'"
  by (simp add: events_numbered_def conversation_events_def repository_step_events repository_step_last_sequence)

text \<open>Appending adds one event, with the next number, to its conversation.\<close>

lemma event_append_Inr:
  assumes "event_append s n n' e = Inr (v, s')"
  shows "\<exists>c d1 row. get_conversation (es_db s) (ed_conversation_id e) = Some c \<and>
    update_conversation_row (es_db s) (c\<lparr>cvr_next_event_sequence := cvr_next_event_sequence c + 1,
      cvr_updated_at := n'\<rparr>) = Inr d1 \<and>
    insert_event d1 row = Inr (es_db s') \<and> evr_conversation_id row = ed_conversation_id e \<and>
    evr_sequence row = cvr_next_event_sequence c + 1 \<and> v = to_envelope row \<and>
    es_hub s' = hub_publish (es_hub s) v"
  using assms unfolding event_append_def require_conversation_def Let_def
  by (elim bindE_InrE) auto

lemma event_append_log:
  assumes "event_append s n n' e = Inr (v, s')"
  shows "conversation_log (es_db s') k = conversation_log (es_db s) k @ (if k = en_conversation_id v then [v] else [])"
    and "last_sequence (es_db s') k = last_sequence (es_db s) k + (if k = en_conversation_id v then 1 else 0)"
    and "en_sequence v = last_sequence (es_db s) (en_conversation_id v) + 1"
proof -
  from event_append_Inr [OF assms] obtain c d1 row where
    c: "get_conversation (es_db s) (ed_conversation_id e) = Some c"
    and up: "update_conversation_row (es_db s) (c\<lparr>cvr_next_event_sequence := cvr_next_event_sequence c + 1,
      cvr_updated_at := n'\<rparr>) = Inr d1"
    and ins: "insert_event d1 row = Inr (es_db s')"
    and row: "evr_conversation_id row = ed_conversation_id e" "evr_sequence row = cvr_next_event_sequence c + 1"
      "v = to_envelope row" by blast
  have ev1: "db_events d1 = db_events (es_db s)" using update_conversation_row_frame [OF up] by simp
  have d2: "db_events (es_db s') = db_events d1 @ [row]" "db_conversations (es_db s') = db_conversations d1"
    using insert_event_frame [OF ins] by simp_all
  show "conversation_log (es_db s') k = conversation_log (es_db s) k @ (if k = en_conversation_id v then [v] else [])"
    by (simp add: conversation_log_def conversation_events_def d2 ev1 row)
  have "last_sequence (es_db s') k = last_sequence d1 k" by (rule same_conversations_last_sequence) (rule d2)
  also have "\<dots> = last_sequence (es_db s) k + (if k = en_conversation_id v then 1 else 0)"
    using last_sequence_update [OF up c, of k] get_conversation_id [OF c] c row
    by (auto simp: last_sequence_def)
  finally show "last_sequence (es_db s') k = last_sequence (es_db s) k + (if k = en_conversation_id v then 1 else 0)" .
  show "en_sequence v = last_sequence (es_db s) (en_conversation_id v) + 1"
    using c row by (simp add: last_sequence_def)
qed

lemma events_numbered_log:
  "events_numbered d \<longleftrightarrow> (\<forall>k. map en_sequence (conversation_log d k) = [1..last_sequence d k] \<and> 0 \<le> last_sequence d k)"
  by (simp add: events_numbered_def conversation_log_def comp_def)

lemma event_append_numbered:
  assumes "event_append s n n' e = Inr (v, s')" and "events_numbered (es_db s)"
  shows "events_numbered (es_db s')"
  using assms(2) unfolding events_numbered_log
  by (auto simp: event_append_log [OF assms(1)] upto_rec2)

lemma event_append_wf:
  assumes "event_append s n n' e = Inr (v, s')" and "wf_db (es_db s)"
  shows "wf_db (es_db s')"
  using event_append_Inr [OF assms(1)] assms(2)
  by (blast dest: update_conversation_row_wf insert_event_wf)

section \<open>Hub lookups\<close>

lemma hub_queue_register [simp]:
  "hub_queue (hub_register h q k) p = (case hub_queue h p of None \<Rightarrow> if p = q then Some (k, []) else None | Some x \<Rightarrow> Some x)"
  by (induction h) (auto simp: hub_queue_def hub_register_def)

lemma hub_queue_unregister [simp]: "hub_queue (hub_unregister h q) p = (if p = q then None else hub_queue h p)"
  by (induction h) (auto simp: hub_queue_def hub_unregister_def)

lemma hub_queue_publish [simp]:
  "hub_queue (hub_publish h e) p =
     map_option (\<lambda>(k, es). (k, if k = en_conversation_id e then es @ [e] else es)) (hub_queue h p)"
  by (induction h) (auto simp: hub_queue_def hub_publish_def)

lemma hub_queue_pop [simp]:
  "hub_queue (hub_pop h q) p = map_option (\<lambda>(k, es). (k, if p = q then tl es else es)) (hub_queue h p)"
  by (induction h) (auto simp: hub_queue_def hub_pop_def)

section \<open>Interleavings\<close>

text \<open>What can happen between two steps of a subscriber, and its own steps.\<close>

inductive stream_step :: "event_store \<times> subscription \<Rightarrow> event_store \<times> subscription \<Rightarrow> bool" where
  append: "event_append s n n' e = Inr (v, s') \<Longrightarrow> stream_step (s, b) (s', b)"
| store: "repository_step (es_db s) d' \<Longrightarrow> stream_step (s, b) (s\<lparr>es_db := d'\<rparr>, b)"
| register: "hub_queue (es_hub s) q = None \<Longrightarrow>
    stream_step (s, b) (s\<lparr>es_hub := hub_register (es_hub s) q k\<rparr>, b)"
| unregister: "q \<noteq> sb_queue_id b \<Longrightarrow> stream_step (s, b) (s\<lparr>es_hub := hub_unregister (es_hub s) q\<rparr>, b)"
| other: "q \<noteq> sb_queue_id b \<Longrightarrow> stream_step (s, b) (s\<lparr>es_hub := hub_pop (es_hub s) q\<rparr>, b)"
| own: "subscribe_step s b = Some (Inr (b', s')) \<Longrightarrow> stream_step (s, b) (s', b')"

text \<open>How the cursor \<open>c\<close>, the queue and the phase of a subscription that started after \<open>a\<close> relate to the log:
  the queue is the log from some point on, and whatever is not yet delivered is in the rest of the batch, in
  the queue or still to be queried.\<close>

definition phase_ok :: "sub_phase \<Rightarrow> envelope list \<Rightarrow> nat \<Rightarrow> nat \<Rightarrow> bool" where
  "phase_ok p es c f \<longleftrightarrow>
    (case p of
       SP_QUERY \<Rightarrow> True
     | SP_BATCH rest n \<Rightarrow> \<exists>m. c \<le> m \<and> m \<le> length es \<and> rest = drop c (take m es) \<and> (n < 500 \<longrightarrow> f \<le> m)
     | SP_LIVE \<Rightarrow> f \<le> c)"

definition stream_at :: "nat \<Rightarrow> string \<Rightarrow> nat \<Rightarrow> event_store \<Rightarrow> subscription \<Rightarrow> nat \<Rightarrow> nat \<Rightarrow> bool" where
  "stream_at q k a s b c f \<longleftrightarrow>
     sb_queue_id b = q \<and> sb_conversation_id b = k \<and> sb_cursor b = int c \<and> a \<le> c \<and>
     (c \<le> length (conversation_log (es_db s) k) \<or> c = a) \<and> f \<le> length (conversation_log (es_db s) k) \<and>
     sb_yielded b = drop a (take c (conversation_log (es_db s) k)) \<and>
     hub_queue (es_hub s) q = Some (k, drop f (conversation_log (es_db s) k)) \<and>
     phase_ok (sb_phase b) (conversation_log (es_db s) k) c f"

definition stream_ok :: "nat \<Rightarrow> string \<Rightarrow> nat \<Rightarrow> event_store \<times> subscription \<Rightarrow> bool" where
  "stream_ok q k a x \<longleftrightarrow> events_numbered (es_db (fst x)) \<and> (\<exists>c f. stream_at q k a (fst x) (snd x) c f)"

lemma stream_okI: "events_numbered (es_db s) \<Longrightarrow> stream_at q k a s b c f \<Longrightarrow> stream_ok q k a (s, b)"
  by (auto simp: stream_ok_def)

lemma stream_okE:
  assumes "stream_ok q k a (s, b)"
  obtains c f where "events_numbered (es_db s)" "stream_at q k a s b c f"
  using assms by (auto simp: stream_ok_def)

lemma log_nth:
  assumes "events_numbered d" and "i < length (conversation_log d k)"
  shows "en_sequence (conversation_log d k ! i) = int i + 1"
proof -
  have m: "map en_sequence (conversation_log d k) = [1..last_sequence d k]" and p: "0 \<le> last_sequence d k"
    using assms(1) by (simp_all add: events_numbered_log)
  from m have len: "length (conversation_log d k) = nat (last_sequence d k)"
    by (metis length_map length_upto diff_add_cancel)
  have "en_sequence (conversation_log d k ! i) = [1..last_sequence d k] ! i"
    using assms(2) by (simp flip: m)
  also have "\<dots> = 1 + int i" using assms(2) len by (simp add: nth_upto)
  finally show ?thesis by simp
qed

lemma numbered_filter:
  assumes num: "\<And>i. i < length L \<Longrightarrow> f (L ! i) = int i + 1"
  shows "filter (\<lambda>x. int c < f x) L = drop c L"
proof -
  have "filter (\<lambda>x. int c < f x) (take c L) = []"
    by (auto simp: filter_empty_conv in_set_conv_nth num)
  moreover have "filter (\<lambda>x. int c < f x) (drop c L) = drop c L"
    by (rule filter_True) (auto simp: in_set_conv_nth num)
  ultimately show ?thesis
    by (metis append_Nil append_take_drop_id filter_append)
qed

lemma list_after_log:
  assumes "events_numbered d"
  shows "list_after d k (int c) batch_limit = Inr (take 500 (drop c (conversation_log d k)))"
proof -
  let ?L = "conversation_events d k"
  have num: "evr_sequence (?L ! i) = int i + 1" if "i < length ?L" for i
    using log_nth [OF assms, of i k] that by (simp add: conversation_log_def)
  have "filter (\<lambda>r. evr_conversation_id r = k \<and> int c < evr_sequence r) (db_events d) =
      filter (\<lambda>r. int c < evr_sequence r) ?L"
    by (simp add: conversation_events_def conj_commute)
  also have "\<dots> = drop c ?L" by (rule numbered_filter [OF num])
  finally have sel: "filter (\<lambda>r. evr_conversation_id r = k \<and> int c < evr_sequence r) (db_events d) = drop c ?L" .
  have "sorted (map evr_sequence (drop c ?L))"
    by (simp add: sorted_iff_nth_mono num)
  then show ?thesis
    by (simp add: list_after_def batch_limit_def sel sort_key_id_if_sorted conversation_log_def take_map drop_map)
qed

text \<open>Delivering the next event.\<close>

lemma offer_next:
  assumes num: "events_numbered d" and L: "L = conversation_log d k"
    and c: "sb_cursor b = int c" "a \<le> c" "c < length L" and y: "sb_yielded b = drop a (take c L)"
  shows "sb_cursor (offer b (L ! c)) = int (Suc c) \<and> sb_yielded (offer b (L ! c)) = drop a (take (Suc c) L)"
proof -
  have "en_sequence (L ! c) = int c + 1" using log_nth [OF num] c(3) unfolding L by blast
  then show ?thesis using c y by (simp add: offer_def take_Suc_conv_app_nth)
qed

lemma offer_fields [simp]:
  "sb_queue_id (offer b e) = sb_queue_id b" "sb_conversation_id (offer b e) = sb_conversation_id b"
  "sb_phase (offer b e) = sb_phase b"
  by (simp_all add: offer_def)

lemma phase_ok_append: "phase_ok p es c f \<Longrightarrow> phase_ok p (es @ t) c f"
  by (force simp: phase_ok_def split: sub_phase.splits)

lemma stream_append_ok:
  assumes ok: "stream_ok q k a (s, b)" and ap: "event_append s n n' e = Inr (v, s')"
  shows "stream_ok q k a (s', b)"
  using ok
proof (rule stream_okE)
  fix c f
  let ?L = "conversation_log (es_db s) k" and ?L' = "conversation_log (es_db s') k"
  assume num: "events_numbered (es_db s)" and pos: "stream_at q k a s b c f"
  have hub: "es_hub s' = hub_publish (es_hub s) v" using event_append_Inr [OF ap] by blast
  obtain t where L': "?L' = ?L @ t" and h: "hub_queue (es_hub s') q = Some (k, drop f ?L')"
    using event_append_log(1) [OF ap, of k] pos by (auto simp: hub stream_at_def)
  have "sb_yielded b = drop a (take c ?L')" using pos unfolding L' stream_at_def by auto
  moreover have "c \<le> length ?L' \<or> c = a" "f \<le> length ?L'" using pos unfolding L' stream_at_def by auto
  moreover have "phase_ok (sb_phase b) ?L' c f" using pos unfolding L' stream_at_def by (blast intro: phase_ok_append)
  ultimately have "stream_at q k a s' b c f" using pos h unfolding stream_at_def by blast
  with event_append_numbered [OF ap num] show ?thesis by (rule stream_okI)
qed

text \<open>A step that keeps the log of the conversation and the queue keeps the relation.\<close>

lemma stream_frame_ok:
  assumes "stream_ok q k a (s, b)" and "conversation_log (es_db s') k = conversation_log (es_db s) k"
    and "events_numbered (es_db s')" and "hub_queue (es_hub s') q = hub_queue (es_hub s) q"
  shows "stream_ok q k a (s', b)"
  using assms by (simp add: stream_ok_def stream_at_def)

lemma repository_step_log: "repository_step d d' \<Longrightarrow> conversation_log d' k = conversation_log d k"
  by (simp add: conversation_log_def conversation_events_def repository_step_events)

lemma stream_query_ok:
  assumes num: "events_numbered (es_db s)" and pos: "stream_at q k a s b c f" and "sb_phase b = SP_QUERY"
    and own: "subscribe_step s b = Some (Inr (b', s'))"
  shows "stream_ok q k a (s', b')"
proof -
  let ?L = "conversation_log (es_db s) k" and ?B = "take 500 (drop c (conversation_log (es_db s) k))"
  have b': "b' = b\<lparr>sb_phase := (if ?B = [] then SP_LIVE else SP_BATCH ?B (length ?B))\<rparr>" "s' = s"
    using own list_after_log [OF num, of k c] assms(3) pos by (auto simp: subscribe_step_def stream_at_def)
  have "phase_ok (sb_phase b') ?L c f"
  proof (cases "?B = []")
    case True
    then show ?thesis using pos by (auto simp: b' phase_ok_def stream_at_def)
  next
    case False
    have "?B = drop c (take (min (length ?L) (c + 500)) ?L)"
      by (simp add: take_drop min_def add.commute)
    with False pos show ?thesis
      by (auto simp: b' phase_ok_def stream_at_def intro!: exI [of _ "min (length ?L) (c + 500)"])
  qed
  with pos have "stream_at q k a s' b' c f" by (simp add: stream_at_def b')
  with num show ?thesis by (intro stream_okI) (simp_all add: b')
qed

lemma stream_batch_ok:
  assumes num: "events_numbered (es_db s)" and pos: "stream_at q k a s b c f" and ph: "sb_phase b = SP_BATCH rest n"
    and own: "subscribe_step s b = Some (Inr (b', s'))"
  shows "stream_ok q k a (s', b')"
proof -
  let ?L = "conversation_log (es_db s) k"
  from pos ph obtain m where m: "c \<le> m" "m \<le> length ?L" "rest = drop c (take m ?L)" "n < 500 \<longrightarrow> f \<le> m"
    by (auto simp: stream_at_def phase_ok_def)
  show ?thesis
  proof (cases rest)
    case Nil
    then have "c = m" using m by simp
    have b': "b' = b\<lparr>sb_phase := (if int n < 500 then SP_LIVE else SP_QUERY)\<rparr>" "s' = s"
      using own ph Nil by (auto simp: subscribe_step_def batch_limit_def)
    have "stream_at q k a s b' c f" using pos m \<open>c = m\<close> by (auto simp: stream_at_def phase_ok_def b')
    with num show ?thesis unfolding b'(2) by (rule stream_okI)
  next
    case (Cons e rest')
    then have lt: "c < m" using m by (cases "c = m") auto
    have "e # rest' = ?L ! c # drop (Suc c) (take m ?L)"
      using m lt Cons by (metis Cons_nth_drop_Suc length_take min.absorb2 nth_take)
    then have e: "e = ?L ! c" "rest' = drop (Suc c) (take m ?L)" by simp_all
    have b': "b' = (offer b e)\<lparr>sb_phase := SP_BATCH rest' n\<rparr>" "s' = s"
      using own ph Cons by (auto simp: subscribe_step_def)
    have "sb_cursor (offer b e) = int (Suc c) \<and> sb_yielded (offer b e) = drop a (take (Suc c) ?L)"
      unfolding e(1) using pos lt m(2) by (intro offer_next [OF num refl]) (auto simp: stream_at_def)
    moreover have "phase_ok (SP_BATCH rest' n) ?L (Suc c) f"
      using m lt e(2) unfolding phase_ok_def by (auto intro!: exI [of _ m])
    ultimately have "stream_at q k a s b' (Suc c) f" using pos m lt by (simp add: stream_at_def b')
    with num show ?thesis unfolding b'(2) by (rule stream_okI)
  qed
qed

lemma stream_live_ok:
  assumes num: "events_numbered (es_db s)" and pos: "stream_at q k a s b c f" and ph: "sb_phase b = SP_LIVE"
    and own: "subscribe_step s b = Some (Inr (b', s'))"
  shows "stream_ok q k a (s', b')"
proof -
  let ?L = "conversation_log (es_db s) k"
  have fc: "f \<le> c" and h: "hub_queue (es_hub s) q = Some (k, drop f ?L)" and q: "sb_queue_id b = q"
    using pos ph by (auto simp: stream_at_def phase_ok_def)
  from own ph h q obtain e rest where e: "drop f ?L = e # rest"
    and b': "b' = offer b e" "s' = s\<lparr>es_hub := hub_pop (es_hub s) q\<rparr>"
    by (auto simp: subscribe_step_def split: list.splits)
  have lt: "f < length ?L" using e by (cases "f < length ?L") auto
  then have "e # rest = ?L ! f # drop (Suc f) ?L" using e by (metis Cons_nth_drop_Suc)
  then have ef: "e = ?L ! f" and rest: "rest = drop (Suc f) ?L" by simp_all
  have pop: "hub_queue (es_hub s') q = Some (k, drop (Suc f) ?L)" by (simp add: b' h e rest)
  have same: "es_db s' = es_db s" by (simp add: b')
  show ?thesis
  proof (cases "f = c")
    case True
    have "sb_cursor (offer b e) = int (Suc c) \<and> sb_yielded (offer b e) = drop a (take (Suc c) ?L)"
      unfolding ef True using pos lt True by (intro offer_next [OF num refl]) (auto simp: stream_at_def)
    then have "stream_at q k a s' b' (Suc c) (Suc f)"
      using pos pop lt True ph unfolding stream_at_def same by (simp add: b'(1) phase_ok_def)
    with num show ?thesis by (intro stream_okI) (simp_all add: same)
  next
    case False
    have "en_sequence e = int f + 1" using log_nth [OF num lt] ef by simp
    then have "offer b e = b" using fc False pos by (simp add: offer_def stream_at_def)
    then have "stream_at q k a s' b' c (Suc f)"
      using pos pop lt fc False ph unfolding stream_at_def same by (simp add: b'(1) phase_ok_def)
    with num show ?thesis by (intro stream_okI) (simp_all add: same)
  qed
qed

lemma stream_own_ok:
  assumes "stream_ok q k a (s, b)" and "subscribe_step s b = Some (Inr (b', s'))"
  shows "stream_ok q k a (s', b')"
  using assms(1)
proof (rule stream_okE)
  fix c f
  assume pos: "events_numbered (es_db s)" "stream_at q k a s b c f"
  show ?thesis
  proof (cases "sb_phase b")
    case SP_QUERY
    from pos this assms(2) show ?thesis by (rule stream_query_ok)
  next
    case (SP_BATCH rest n)
    from pos this assms(2) show ?thesis by (rule stream_batch_ok)
  next
    case SP_LIVE
    from pos this assms(2) show ?thesis by (rule stream_live_ok)
  qed
qed

lemma stream_step_ok: "stream_step x y \<Longrightarrow> stream_ok q k a x \<Longrightarrow> stream_ok q k a y"
proof (induction rule: stream_step.induct)
  case (store s d' b)
  show ?case
    by (rule stream_frame_ok [OF store(2)])
      (use store in \<open>auto simp: repository_step_log stream_ok_def dest: repository_step_numbered\<close>)
next
  case (register s p b j)
  show ?case
    by (rule stream_frame_ok [OF register(2)])
      (use register in \<open>auto simp: stream_ok_def stream_at_def split: option.splits\<close>)
next
  case (unregister p b s)
  show ?case
    by (rule stream_frame_ok [OF unregister(2)]) (use unregister in \<open>auto simp: stream_ok_def stream_at_def\<close>)
next
  case (other p b s)
  show ?case
    by (rule stream_frame_ok [OF other(2)]) (use other in \<open>auto simp: stream_ok_def stream_at_def\<close>)
qed (blast intro: stream_append_ok stream_own_ok)+

lemma stream_start_ok:
  assumes num: "events_numbered (es_db s)" and h: "hub_queue (es_hub s) q = None"
    and start: "subscribe_start s q k after = Inr (b, s')"
  shows "stream_ok q k (nat after) (s', b)"
proof (rule stream_okI)
  show "stream_at q k (nat after) s' b (nat after) (length (conversation_log (es_db s) k))"
    using start h by (auto simp: subscribe_start_def stream_at_def phase_ok_def split: if_splits)
  show "events_numbered (es_db s')" using start num by (auto simp: subscribe_start_def split: if_splits)
qed

text \<open>A waiting subscriber has been given everything.\<close>

lemma stream_waiting:
  assumes ok: "stream_ok q k a (s, b)" and wait: "subscribe_step s b = None"
  shows "sb_yielded b = drop a (conversation_log (es_db s) k)"
  using ok
proof (rule stream_okE)
  fix c f
  let ?L = "conversation_log (es_db s) k"
  assume pos: "stream_at q k a s b c f"
  from wait have live: "sb_phase b = SP_LIVE"
    by (auto simp: subscribe_step_def split: sub_phase.splits list.splits)
  with wait pos have "drop f ?L = []" by (auto simp: subscribe_step_def stream_at_def split: list.splits)
  then have "length ?L \<le> c" using pos live by (simp add: stream_at_def phase_ok_def)
  then show ?thesis using pos by (simp add: stream_at_def)
qed

text \<open>C38. A subscriber that starts after sequence number \<open>after\<close> is given the events of its conversation in the
  order of their numbers \<open>after + 1, after + 2, ...\<close>, each exactly once, however commits, other coroutines and its
  own steps interleave; and whenever it has to wait, it has been given every event that is stored.\<close>

theorem subscriber_gets_every_event_once:
  assumes "events_numbered (es_db s0)" and "hub_queue (es_hub s0) q = None"
    and "subscribe_start s0 q k after = Inr (b0, s1)" and "stream_step\<^sup>*\<^sup>* (s1, b0) (s, b)"
  shows "sb_yielded b = take (length (sb_yielded b)) (drop (nat after) (conversation_log (es_db s) k)) \<and>
    map en_sequence (sb_yielded b) = [after + 1..after + int (length (sb_yielded b))] \<and>
    (subscribe_step s b = None \<longrightarrow> sb_yielded b = drop (nat after) (conversation_log (es_db s) k))"
proof -
  have ok: "stream_ok q k (nat after) (s, b)"
    using assms(4) stream_start_ok [OF assms(1-3)]
    by (induction rule: rtranclp_induct) (auto intro: stream_step_ok)
  have pos: "0 \<le> after" using assms(3) by (simp add: subscribe_start_def split: if_splits)
  let ?L = "conversation_log (es_db s) k" and ?a = "nat after"
  from ok obtain c where num: "events_numbered (es_db s)" and y: "sb_yielded b = drop ?a (take c ?L)"
    by (auto simp: stream_ok_def stream_at_def)
  have prefix: "sb_yielded b = take (length (sb_yielded b)) (drop ?a ?L)"
    unfolding y by (simp add: drop_take min_def)
  have len: "length (sb_yielded b) \<le> length ?L - ?a" by (subst prefix) simp
  have "map en_sequence (sb_yielded b) = [after + 1..after + int (length (sb_yielded b))]"
  proof (rule nth_equalityI)
    fix i assume "i < length (map en_sequence (sb_yielded b))"
    then have i: "i < length (sb_yielded b)" by simp
    have "sb_yielded b ! i = ?L ! (?a + i)" using i len by (subst prefix) simp
    then have "en_sequence (sb_yielded b ! i) = int (?a + i) + 1"
      using log_nth [OF num, of "?a + i" k] i len by simp
    then show "map en_sequence (sb_yielded b) ! i = [after + 1..after + int (length (sb_yielded b))] ! i"
      using i pos by (simp add: nth_upto)
  qed simp
  with prefix stream_waiting [OF ok] show ?thesis by blast
qed

text \<open>A run: the subscriber registers, an event is committed and published, and only then does the subscriber
  replay; the event is in its batch and in its queue.\<close>

definition demo_conversation :: conversation_row where
  "demo_conversation = \<lparr>cvr_conversation_id = ''conv_1'', cvr_customer_id = ''cust_1'',
     cvr_fixture_customer_key = ''cust_1'', cvr_fixture_version = ''fixture-v1'', cvr_llm_mode = ''mock'',
     cvr_active_case_id = None, cvr_next_event_sequence = 0, cvr_created_at = Aware 0, cvr_updated_at = Aware 0\<rparr>"

definition demo_draft :: event_draft where
  "demo_draft = \<lparr>ed_conversation_id = ''conv_1'', ed_event_type = ''run_started'', ed_visibility = ''both'',
     ed_summary = text_of ''Run started'', ed_payload = JObj [], ed_evidence_refs = [], ed_case_id = None,
     ed_run_id = Some ''run_1'', ed_schema_version = 1, ed_timestamp = None, ed_event_id = ''evt_1''\<rparr>"

definition demo_row :: event_row where
  "demo_row = \<lparr>evr_event_id = ''evt_1'', evr_schema_version = 1, evr_sequence = 1, evr_timestamp = Aware 5,
     evr_conversation_id = ''conv_1'', evr_case_id = None, evr_run_id = Some ''run_1'',
     evr_event_type = ''run_started'', evr_visibility = ''both'', evr_summary = text_of ''Run started'',
     evr_payload = JObj [], evr_evidence_refs = []\<rparr>"

definition demo_before :: database where
  "demo_before = empty_database\<lparr>db_conversations := [demo_conversation]\<rparr>"

definition demo_after :: database where
  "demo_after = empty_database\<lparr>
     db_conversations := [demo_conversation\<lparr>cvr_next_event_sequence := 1, cvr_updated_at := Aware 6\<rparr>],
     db_events := [demo_row]\<rparr>"

definition demo_store :: "database \<Rightarrow> envelope list \<Rightarrow> event_store" where
  "demo_store d es = \<lparr>es_db = d, es_hub = [(7, ''conv_1'', es)]\<rparr>"

definition demo_sub :: "int \<Rightarrow> sub_phase \<Rightarrow> envelope list \<Rightarrow> subscription" where
  "demo_sub c p es = \<lparr>sb_queue_id = 7, sb_conversation_id = ''conv_1'', sb_cursor = c, sb_phase = p, sb_yielded = es\<rparr>"

lemmas demo_defs = demo_store_def demo_sub_def demo_before_def demo_after_def demo_conversation_def
  empty_database_def demo_row_def to_envelope_def

lemma demo_append:
  "event_append (demo_store demo_before []) (Aware 5) (Aware 6) demo_draft =
     Inr (to_envelope demo_row, demo_store demo_after [to_envelope demo_row])"
  by (simp add: event_append_def require_conversation_def get_conversation_def get_row_def require_row_def
      update_conversation_row_def update_row_def check_row_def conversation_table_def clash_def insert_event_def
      insert_row_def event_table_def refs_event_def has_row_def hub_publish_def demo_draft_def demo_defs Let_def)

lemma demo_query:
  "subscribe_step (demo_store demo_after q) (demo_sub 0 SP_QUERY []) =
     Some (Inr (demo_sub 0 (SP_BATCH [to_envelope demo_row] 1) [], demo_store demo_after q))"
  by (simp add: subscribe_step_def list_after_def batch_limit_def demo_defs)

lemma demo_replay:
  "subscribe_step (demo_store demo_after q) (demo_sub 0 (SP_BATCH [to_envelope demo_row] 1) []) =
     Some (Inr (demo_sub 1 (SP_BATCH [] 1) [to_envelope demo_row], demo_store demo_after q))"
  by (simp add: subscribe_step_def offer_def demo_defs)

lemma demo_live:
  "subscribe_step (demo_store demo_after q) (demo_sub 1 (SP_BATCH [] 1) es) =
     Some (Inr (demo_sub 1 SP_LIVE es, demo_store demo_after q))"
  by (simp add: subscribe_step_def batch_limit_def demo_defs)

lemma demo_duplicate:
  "subscribe_step (demo_store demo_after [to_envelope demo_row]) (demo_sub 1 SP_LIVE es) =
     Some (Inr (demo_sub 1 SP_LIVE es, demo_store demo_after []))"
  by (simp add: subscribe_step_def offer_def hub_queue_def hub_pop_def demo_defs)

lemma demo_run:
  "stream_step\<^sup>*\<^sup>* (demo_store demo_before [], demo_sub 0 SP_QUERY [])
     (demo_store demo_after [], demo_sub 1 SP_LIVE [to_envelope demo_row])"
  by (rule converse_rtranclp_into_rtranclp, rule append [OF demo_append],
      rule converse_rtranclp_into_rtranclp, rule own [OF demo_query],
      rule converse_rtranclp_into_rtranclp, rule own [OF demo_replay],
      rule converse_rtranclp_into_rtranclp, rule own [OF demo_live],
      rule converse_rtranclp_into_rtranclp, rule own [OF demo_duplicate], rule rtranclp.rtrancl_refl)

theorem subscriber_gets_every_event_once_witness:
  "subscribe_step (demo_store demo_after []) (demo_sub 1 SP_LIVE [to_envelope demo_row]) = None \<and>
   [to_envelope demo_row] = drop 0 (conversation_log demo_after ''conv_1'') \<and>
   map en_sequence [to_envelope demo_row] = [1..1]"
proof -
  have numbered: "events_numbered (es_db \<lparr>es_db = demo_before, es_hub = []\<rparr>)"
    by (simp add: events_numbered_def conversation_events_def last_sequence_def get_conversation_def get_row_def
        conversation_table_def demo_defs)
  have fresh: "hub_queue (es_hub \<lparr>es_db = demo_before, es_hub = []\<rparr>) 7 = None"
    by (simp add: hub_queue_def)
  have start: "subscribe_start \<lparr>es_db = demo_before, es_hub = []\<rparr> 7 ''conv_1'' 0 =
      Inr (demo_sub 0 SP_QUERY [], demo_store demo_before [])"
    by (simp add: subscribe_start_def hub_register_def demo_store_def demo_sub_def)
  have wait: "subscribe_step (demo_store demo_after []) (demo_sub 1 SP_LIVE [to_envelope demo_row]) = None"
    by (simp add: subscribe_step_def hub_queue_def demo_store_def demo_sub_def)
  have sub: "sb_yielded (demo_sub 1 SP_LIVE [to_envelope demo_row]) = [to_envelope demo_row]"
    "es_db (demo_store demo_after []) = demo_after"
    by (simp_all add: demo_sub_def demo_store_def)
  note result = subscriber_gets_every_event_once [OF numbered fresh start demo_run, unfolded sub]
  have "[to_envelope demo_row] = drop 0 (conversation_log demo_after ''conv_1'')"
    using result wait by (simp only: nat_0 simp_thms)
  moreover have "map en_sequence [to_envelope demo_row] = [1..1]"
    by (simp add: demo_row_def)
  ultimately show ?thesis using wait by blast
qed

end
