(* ===== verification/ReadResults.thy ===== *)
theory ReadResults
  imports ToolContracts
begin

text \<open>
  \<open>ToolResult[T].model_validate(result.model_dump())\<close>: a stored result of any tool is validated again as the
  result of one tool.  Extra fields are forbidden and the payload models require different fields, so only a
  payload of that tool passes; a missing payload passes for every tool.
\<close>

definition retype :: "(read_payload \<Rightarrow> 'p option) \<Rightarrow> read_result \<Rightarrow> 'p tool_result result" where
  "retype view r =
    (let with_payload = (\<lambda>p. envelope.extend (envelope.truncate r) (tool_result.fields p))
     in case tr_payload r of
          None \<Rightarrow> check_tool_result (with_payload None)
        | Some p \<Rightarrow> (case view p of
              None \<Rightarrow> Inl (ValueError ''payload'')
            | Some q \<Rightarrow> check_tool_result (with_payload (Some q))))"

text \<open>Dumping a payload and validating the dump: a dictionary passes like the payload it was dumped from.\<close>

fun plain :: "read_payload \<Rightarrow> read_payload" where
  "plain (RP_Dict p) = plain p"
| "plain p = p"

definition order_view :: "read_payload \<Rightarrow> order_context option" where
  "order_view p = (case plain p of RP_Order x \<Rightarrow> Some x | _ \<Rightarrow> None)"

definition timeline_view :: "read_payload \<Rightarrow> logistics_timeline option" where
  "timeline_view p = (case plain p of RP_Timeline x \<Rightarrow> Some x | _ \<Rightarrow> None)"

definition proof_view :: "read_payload \<Rightarrow> delivery_proof option" where
  "proof_view p = (case plain p of RP_Proof x \<Rightarrow> Some x | _ \<Rightarrow> None)"

definition alerts_view :: "read_payload \<Rightarrow> carrier_alerts option" where
  "alerts_view p = (case plain p of RP_Alerts x \<Rightarrow> Some x | _ \<Rightarrow> None)"

definition policy_view :: "read_payload \<Rightarrow> policy_search option" where
  "policy_view p = (case plain p of RP_Policy x \<Rightarrow> Some x | _ \<Rightarrow> None)"

definition tickets_view :: "read_payload \<Rightarrow> existing_tickets option" where
  "tickets_view p = (case plain p of RP_Tickets x \<Rightarrow> Some x | _ \<Rightarrow> None)"

text \<open>The stored JSON of a result, and \<open>ToolResult[Any]\<close> of stored JSON.\<close>

definition dumped :: "read_result \<Rightarrow> read_result" where
  "dumped r = r\<lparr>tr_payload := map_option plain (tr_payload r)\<rparr>"

definition reloaded :: "read_result \<Rightarrow> read_result" where
  "reloaded r = r\<lparr>tr_payload := map_option RP_Dict (tr_payload r)\<rparr>"

lemma retype_Inr:
  assumes "retype view r = Inr q"
  shows "envelope.truncate q = envelope.truncate r" and "valid_result q"
    and "tr_payload q = Option.bind (tr_payload r) view"
  using assms check_tool_result_valid check_tool_result_id
  by (fastforce simp: retype_def Let_def envelope.defs tool_result.defs split: option.splits)+

end
