(* ===== verification/ToolCache.thy ===== *)
theory ToolCache
  imports ToolContracts "HOL-Library.List_Lexorder" "HOL-Library.Char_ord"
begin

text \<open>
  The revision-aware Case cache of \<open>tools/cache.py\<close>.  The cache is polymorphic in the payload.  The set
  of keys whose last result was retryable is a list; the dictionaries are association lists.

  What the executor relies on is the locale \<open>read_cache\<close>: a completed or terminal result that is stored
  under a key is what the key then returns, a retryable one leaves the cache's answers unchanged, and no
  other key is touched.  \<open>CaseToolCache\<close> interprets it.
\<close>

section \<open>The cache\<close>

text \<open>\<open>json.dumps(arguments, sort_keys=True)\<close> identifies argument dictionaries up to the order of their
  keys: its model is the value with every object's keys sorted.\<close>

primrec normal_json :: "json \<Rightarrow> json" where
  "normal_json JNull = JNull"
| "normal_json (JBool b) = JBool b"
| "normal_json (JInt i) = JInt i"
| "normal_json (JNum x) = JNum x"
| "normal_json (JStr s) = JStr s"
| "normal_json (JText s) = JText s"
| "normal_json (JTime t) = JTime t"
| "normal_json (JList xs) = JList (map normal_json xs)"
| "normal_json (JObj kvs) = JObj (sort_key fst (map (map_prod (\<lambda>k. k) normal_json) kvs))"

definition normalize_tool_arguments :: "(string \<times> json) list \<Rightarrow> json" where
  "normalize_tool_arguments arguments = normal_json (JObj arguments)"

record cache_key =
  ck_case_id :: string
  ck_tool_name :: string
  ck_normalized_args :: json
  ck_source_revision :: string

record 'p case_tool_cache =
  cc_reusable :: "(cache_key \<times> 'p tool_result) list"
  cc_terminal_errors :: "(cache_key \<times> 'p tool_result) list"
  cc_actual_attempts :: "(cache_key \<times> nat) list"
  cc_last_result_retryable :: "cache_key list"

definition empty_cache :: "'p case_tool_cache" where
  "empty_cache = \<lparr>cc_reusable = [], cc_terminal_errors = [], cc_actual_attempts = [],
                  cc_last_result_retryable = []\<rparr>"

definition cache_get :: "'p case_tool_cache \<Rightarrow> cache_key \<Rightarrow> 'p tool_result option" where
  "cache_get c k =
    (case map_of (cc_reusable c) k of
       Some r \<Rightarrow> Some r | None \<Rightarrow> map_of (cc_terminal_errors c) k)"

definition cache_store ::
  "'p case_tool_cache \<Rightarrow> cache_key \<Rightarrow> 'p tool_result \<Rightarrow> 'p case_tool_cache result" where
  "cache_store c k r =
    (if tr_execution_status r = ES_SUCCESS then
       (if tr_evidence_availability r \<notin> {EA_PRESENT, EA_ABSENT}
          then Inl (ValueError ''only completed evidence is reusable'')
        else Inr (c\<lparr>cc_reusable := AList.update k r (cc_reusable c),
                    cc_last_result_retryable := removeAll k (cc_last_result_retryable c)\<rparr>))
     else if tr_execution_status r = ES_NON_RETRYABLE_ERROR then
       Inr (c\<lparr>cc_terminal_errors := AList.update k r (cc_terminal_errors c),
              cc_last_result_retryable := removeAll k (cc_last_result_retryable c)\<rparr>)
     else Inr (c\<lparr>cc_last_result_retryable := List.insert k (cc_last_result_retryable c)\<rparr>))"

definition cache_actual_attempts :: "'p case_tool_cache \<Rightarrow> cache_key \<Rightarrow> nat" where
  "cache_actual_attempts c k = (case map_of (cc_actual_attempts c) k of None \<Rightarrow> 0 | Some n \<Rightarrow> n)"

definition record_actual_attempt ::
  "'p case_tool_cache \<Rightarrow> cache_key \<Rightarrow> nat \<times> 'p case_tool_cache" where
  "record_actual_attempt c k =
    (let n = cache_actual_attempts c k + 1
     in (n, c\<lparr>cc_actual_attempts := AList.update k n (cc_actual_attempts c)\<rparr>))"

definition retry_exhausted :: "'p case_tool_cache \<Rightarrow> cache_key \<Rightarrow> bool" where
  "retry_exhausted c k \<longleftrightarrow>
     k \<in> set (cc_last_result_retryable c) \<and> 2 \<le> cache_actual_attempts c k"

definition invalidate_case :: "'p case_tool_cache \<Rightarrow> string \<Rightarrow> 'p case_tool_cache" where
  "invalidate_case c case_id =
    \<lparr>cc_reusable = filter (\<lambda>(k, v). ck_case_id k \<noteq> case_id) (cc_reusable c),
     cc_terminal_errors = filter (\<lambda>(k, v). ck_case_id k \<noteq> case_id) (cc_terminal_errors c),
     cc_actual_attempts = filter (\<lambda>(k, v). ck_case_id k \<noteq> case_id) (cc_actual_attempts c),
     cc_last_result_retryable = filter (\<lambda>k. ck_case_id k \<noteq> case_id) (cc_last_result_retryable c)\<rparr>"

definition cache_length :: "'p case_tool_cache \<Rightarrow> nat" where
  "cache_length c = length (cc_reusable c) + length (cc_terminal_errors c)"

section \<open>The interface\<close>

locale read_cache =
  fixes get :: "'c \<Rightarrow> 'k \<Rightarrow> 'p tool_result option"
    and put :: "'c \<Rightarrow> 'k \<Rightarrow> 'p tool_result \<Rightarrow> 'c result"
  assumes put_hit: "get c k = None \<Longrightarrow> put c k r = Inr c' \<Longrightarrow>
      tr_execution_status r \<noteq> ES_RETRYABLE_ERROR \<Longrightarrow> get c' k = Some r"
    and put_retryable: "put c k r = Inr c' \<Longrightarrow>
      tr_execution_status r = ES_RETRYABLE_ERROR \<Longrightarrow> get c' k' = get c k'"
    and put_other: "put c k r = Inr c' \<Longrightarrow> k' \<noteq> k \<Longrightarrow> get c' k' = get c k'"
    and put_valid: "valid_result r \<Longrightarrow> \<exists>c'. put c k r = Inr c'"
begin

text \<open>A sequence of stores, each after a miss, as the executor performs them.\<close>

fun fill :: "'c \<Rightarrow> ('k \<times> 'p tool_result) list \<Rightarrow> 'c result" where
  "fill c [] = Inr c"
| "fill c ((k, r) # krs) =
    (case get c k of Some _ \<Rightarrow> fill c krs | None \<Rightarrow> bindE (put c k r) (\<lambda>c'. fill c' krs))"

lemma hit_stable: "fill c krs = Inr c' \<Longrightarrow> get c k = Some r \<Longrightarrow> get c' k = Some r"
proof (induction c krs rule: fill.induct)
  case (2 c k1 r1 krs)
  then show ?case
    by (cases "get c k1") (auto simp: bindE_eq_Inr, metis option.distinct(1) put_other)
qed simp

lemma fill_origin:
  "fill c krs = Inr c' \<Longrightarrow> get c' k = Some r \<Longrightarrow>
     get c k = Some r \<or> (k, r) \<in> set krs \<and> tr_execution_status r \<noteq> ES_RETRYABLE_ERROR"
proof (induction c krs arbitrary: c' rule: fill.induct)
  case (2 c k1 r1 krs)
  show ?case
  proof (cases "get c k1")
    case None
    with 2 obtain d where d: "put c k1 r1 = Inr d" "fill d krs = Inr c'"
      by (auto simp: bindE_eq_Inr)
    have IH: "get d k = Some r \<or> (k, r) \<in> set krs \<and> tr_execution_status r \<noteq> ES_RETRYABLE_ERROR"
      using 2(1) [OF None d(2)] 2(4) by blast
    show ?thesis
    proof (cases "tr_execution_status r1 = ES_RETRYABLE_ERROR")
      case True
      then show ?thesis using IH put_retryable [OF d(1)] by auto
    next
      case False
      then show ?thesis using IH put_hit [OF None d(1)] put_other [OF d(1)]
        by (cases "k = k1") auto
    qed
  next
    case (Some _)
    with 2 show ?thesis by auto
  qed
qed simp

lemma fill_total:
  "\<forall>(k, r) \<in> set krs. valid_result r \<Longrightarrow> \<exists>c'. fill c krs = Inr c'"
proof (induction c krs rule: fill.induct)
  case (2 c k r krs)
  then show ?case using put_valid [of r c k] by (auto split: option.splits)
qed simp

end

lemma cache_get_store:
  assumes "cache_store c k r = Inr c'"
  shows "k' \<noteq> k \<Longrightarrow> cache_get c' k' = cache_get c k'"
    and "tr_execution_status r = ES_RETRYABLE_ERROR \<Longrightarrow> cache_get c' k' = cache_get c k'"
    and "cache_get c k = None \<Longrightarrow> tr_execution_status r \<noteq> ES_RETRYABLE_ERROR \<Longrightarrow> cache_get c' k = Some r"
  using assms by (cases "tr_execution_status r";
      auto simp: cache_store_def cache_get_def update_conv' split: if_splits option.splits)+

interpretation case_cache: read_cache cache_get cache_store
proof (unfold_locales, goal_cases)
  case (1 c k r c') then show ?case by (simp add: cache_get_store(3))
next
  case (2 c k r c' k') then show ?case by (simp add: cache_get_store(2))
next
  case (3 c k r c' k') then show ?case by (simp add: cache_get_store(1))
next
  case (4 r c k)
  then show ?case using valid_result_success [of r]
    by (cases "tr_evidence_availability r"; cases "tr_execution_status r")
      (auto simp: cache_store_def)
qed

section \<open>Reachable caches\<close>

text \<open>Every cache the program can have: the empty one, changed by the four operations.\<close>

inductive cache_reachable :: "'p case_tool_cache \<Rightarrow> bool" where
  Empty: "cache_reachable empty_cache"
| Store: "cache_reachable c \<Longrightarrow> cache_store c k r = Inr c' \<Longrightarrow> cache_reachable c'"
| Attempted: "cache_reachable c \<Longrightarrow> cache_reachable (snd (record_actual_attempt c k))"
| Invalidate: "cache_reachable c \<Longrightarrow> cache_reachable (invalidate_case c case_id)"

lemma map_of_filter_keys:
  "map_of (filter (\<lambda>(k, v). P k) d) k = (if P k then map_of d k else None)"
  by (induction d) auto

lemma invalidate_get:
  "cache_get (invalidate_case c case_id) k = (if ck_case_id k = case_id then None else cache_get c k)"
  by (simp add: cache_get_def invalidate_case_def map_of_filter_keys split: option.split)

lemma attempt_get [simp]: "cache_get (snd (record_actual_attempt c k)) k' = cache_get c k'"
  by (simp add: cache_get_def record_actual_attempt_def Let_def split: option.split)

text \<open>The two dictionaries only hold what their names say, and a reusable key is not retryable.\<close>

definition wf_cache :: "'p case_tool_cache \<Rightarrow> bool" where
  "wf_cache c \<longleftrightarrow>
     (\<forall>k r. map_of (cc_reusable c) k = Some r \<longrightarrow>
        tr_execution_status r = ES_SUCCESS \<and> tr_evidence_availability r \<noteq> EA_UNAVAILABLE) \<and>
     (\<forall>k r. map_of (cc_terminal_errors c) k = Some r \<longrightarrow>
        tr_execution_status r = ES_NON_RETRYABLE_ERROR)"

lemma cache_reachable_wf: "cache_reachable c \<Longrightarrow> wf_cache c"
proof (induction rule: cache_reachable.induct)
  case Empty
  then show ?case by (simp add: wf_cache_def empty_cache_def)
next
  case (Store c k r c')
  then show ?case
    by (cases "tr_execution_status r")
      (auto simp: wf_cache_def cache_store_def update_conv' split: if_splits)
next
  case (Attempted c k)
  then show ?case by (simp add: wf_cache_def record_actual_attempt_def Let_def)
next
  case (Invalidate c case_id)
  then show ?case by (auto simp: wf_cache_def invalidate_case_def map_of_filter_keys split: if_splits)
qed

text \<open>No retryable error is ever served from a cache the program can reach: what a lookup returns is
  completed evidence, present or absent, or a terminal error.\<close>

theorem cache_never_serves_retryable:
  assumes "cache_reachable c" and "cache_get c k = Some r"
  shows "tr_execution_status r = ES_SUCCESS \<and> tr_evidence_availability r \<noteq> EA_UNAVAILABLE \<or>
    tr_execution_status r = ES_NON_RETRYABLE_ERROR"
  using cache_reachable_wf [OF assms(1)] assms(2)
  by (auto simp: wf_cache_def cache_get_def split: option.splits)

definition sample_key :: cache_key where
  "sample_key = \<lparr>ck_case_id = ''c1'', ck_tool_name = ''get_order_context'',
     ck_normalized_args = JObj [], ck_source_revision = ''r''\<rparr>"

definition sample_hit :: "delivery_proof tool_result" where
  "sample_hit =
     \<lparr>tr_execution_status = ES_NON_RETRYABLE_ERROR, tr_evidence_availability = EA_UNAVAILABLE,
      tr_source_type = ''t'', tr_source_query_id = ''q'', tr_source_record_ids = [],
      tr_observed_at = Aware 0, tr_error_code = Some ''E'', tr_retryable = False,
      tr_result_hash = sample_digest, tr_untrusted_fields = [], tr_retrieval_status = None,
      tr_policy_resolution_status = None, tr_payload = None\<rparr>"

theorem cache_never_serves_retryable_witness:
  "\<exists>c. cache_reachable c \<and> cache_get c sample_key = Some sample_hit \<and>
     (tr_execution_status sample_hit = ES_SUCCESS \<and> tr_evidence_availability sample_hit \<noteq> EA_UNAVAILABLE \<or>
      tr_execution_status sample_hit = ES_NON_RETRYABLE_ERROR)"
proof -
  obtain c where c: "cache_store empty_cache sample_key sample_hit = Inr c"
    by (simp add: cache_store_def sample_hit_def)
  have "cache_get empty_cache sample_key = (None :: delivery_proof tool_result option)"
    by (simp add: cache_get_def empty_cache_def)
  then have g: "cache_get c sample_key = Some sample_hit"
    using cache_get_store(3) [OF c] by (simp add: sample_hit_def)
  have "cache_reachable c" using cache_reachable.Empty c by (rule cache_reachable.Store)
  with cache_never_serves_retryable [OF this g] g show ?thesis by blast
qed

end
