(* ===== verification/CaseFactService.thy ===== *)
theory CaseFactService
  imports Repository ReadResults ToolCache
begin

text \<open>
  The case-fact service of \<open>application/case_facts.py\<close>, which composes the pure rules of CaseFacts with the
  append-only tables.

  \<^item> A method that opens a transaction takes the database and returns the one to commit; \<open>Inl\<close> rolls back.
  \<^item> \<open>t i\<close> is the clock at the \<open>i\<close>-th reading of the method.  \<open>sha\<close> digests JSON, \<open>mh\<close> a message
    (\<open>message_hash\<close>), \<open>casefold\<close> is \<open>str.casefold\<close>.
  \<^item> A candidate is typed or an untrusted dictionary, which \<open>parse\<close> (the validation by Pydantic) reads.

  The lemmas show that whatever the service stores reloads: the rebuild that guards every read accepts the
  ledger entry that was written after the snapshot.
\<close>

section \<open>Rows as case-fact contracts\<close>

definition all_fact_values :: "fact_value list" where
  "all_fact_values = [FV_TRUE, FV_FALSE, FV_UNKNOWN]"

definition all_relation_hints :: "relation_hint list" where
  "all_relation_hints = [RH_NEW, RH_REPEAT, RH_CORRECTION, RH_WITHDRAWAL]"

definition fact_code_of :: "string \<Rightarrow> fact_code result" where
  "fact_code_of = member_of fact_code_value all_fact_codes ''fact_code''"

definition assertion_from_row :: "fact_assertion_row \<Rightarrow> fact_assertion result" where
  "assertion_from_row r =
    bindE (fact_code_of (far_fact_code r)) (\<lambda>code.
    bindE (member_of fact_value_value all_fact_values ''value'' (far_value r)) (\<lambda>v.
    bindE (member_of relation_hint_value all_relation_hints ''relation'' (far_relation r)) (\<lambda>rel.
      check_fact_assertion \<lparr>fa_assertion_id = far_assertion_id r, fa_case_id = far_case_id r, fa_fact_code = code,
        fa_value = v, fa_source_message_id = far_source_message_id r,
        fa_source_message_hash = far_source_message_hash r, fa_span_start = far_source_span_start r,
        fa_span_end = far_source_span_end r, fa_relation = rel, fa_supersedes = far_supersedes_assertion_id r,
        fa_extractor_kind = far_extractor_kind r, fa_extractor_version = far_extractor_version r,
        fa_context_tool_call_id = far_context_tool_call_id r, fa_context_result_hash = far_context_result_hash r,
        fa_sequence = far_assertion_sequence r, fa_recorded_at = far_recorded_at r\<rparr>)))"

definition check_fact_question :: "fact_question \<Rightarrow> fact_question result" where
  "check_fact_question q =
    (if fq_question_id q = [] \<or> length (fq_question_id q) > 64 then Inl (ValueError ''question_id'')
     else if fq_case_id q = [] \<or> length (fq_case_id q) > 64 then Inl (ValueError ''case_id'')
     else if \<not> opt_in is_sha256_hex (fq_context_result_hash q) then Inl (ValueError ''context_result_hash'')
     else Inr q)"

definition question_from_row :: "fact_question_row \<Rightarrow> fact_question result" where
  "question_from_row r =
    bindE (fact_code_of (fqr_fact_code r)) (\<lambda>code.
      check_fact_question \<lparr>fq_question_id = fqr_question_id r, fq_case_id = fqr_case_id r, fq_fact_code = code,
        fq_context_result_hash = fqr_context_result_hash r, fq_targeted_conflict = fqr_targeted_conflict r,
        fq_asked_at = fqr_asked_at r\<rparr>)"

definition check_merge_decision :: "merge_decision \<Rightarrow> merge_decision result" where
  "check_merge_decision m =
    (if md_reason_code m = [] \<or> length (md_reason_code m) > 96 then Inl (ValueError ''reason_code'')
     else if \<not> opt_in (\<lambda>a. a \<noteq> [] \<and> length a \<le> 64) (md_assertion_id m) then Inl (ValueError ''assertion_id'')
     else if \<not> opt_in is_sha256_hex (md_candidate_batch_hash m) then Inl (ValueError ''candidate_batch_hash'')
     else Inr m)"

section \<open>Delivery proof and integrity checks\<close>

definition proof_usable :: "delivery_proof tool_result \<Rightarrow> bool" where
  "proof_usable r \<longleftrightarrow> tr_execution_status r = ES_SUCCESS \<and> tr_evidence_availability r = EA_PRESENT \<and>
     (case tr_payload r of None \<Rightarrow> False
      | Some p \<Rightarrow> dp_pod_status p = DP_FOUND \<and> truthy (dp_recipient_type p))"

fun scan_proof :: "tool_call_row list \<Rightarrow> proof_context option result" where
  "scan_proof [] = Inr None"
| "scan_proof (row # rows) =
    (case (tcr_result_envelope row, tcr_result_hash row) of
       (Some env, Some h) \<Rightarrow>
         bindE (retype proof_view env) (\<lambda>r.
           if proof_usable r then
             (if tr_result_hash r \<noteq> h
                then Inl (CaseFactIntegrityError ''delivery-proof row/envelope hash parity failed'')
              else bindE (check_proof_context \<lparr>pc_tool_call_id = tcr_tool_call_id row, pc_result_hash = h,
                       pc_recipient_category = the (dp_recipient_type (the (tr_payload r)))\<rparr>)
                     (\<lambda>p. Inr (Some p)))
           else scan_proof rows)
     | _ \<Rightarrow> scan_proof rows)"

definition current_proof_context :: "database \<Rightarrow> string \<Rightarrow> proof_context option result" where
  "current_proof_context d case_id =
     scan_proof (rev (filter (\<lambda>r. tcr_tool_name r = ''get_delivery_proof'' \<and> tcr_actual_execution r \<and>
       tcr_completed_at r \<noteq> None) (list_tool_calls d (Some case_id) None)))"

definition load_current_proof_context :: "database \<Rightarrow> string \<Rightarrow> proof_context option result" where
  "load_current_proof_context d case_id =
     bindE (require_case d case_id) (\<lambda>_. current_proof_context d case_id)"

definition verify_message_hash :: "(utext \<Rightarrow> string) \<Rightarrow> database \<Rightarrow> fact_assertion \<Rightarrow> unit result" where
  "verify_message_hash mh d a =
    (case get_message d (fa_source_message_id a) of
       None \<Rightarrow> Inl (CaseFactIntegrityError ''assertion source message lost same-Case customer binding'')
     | Some m \<Rightarrow>
         if msr_case_id m \<noteq> Some (fa_case_id a) \<or> msr_role m \<noteq> ''customer''
           then Inl (CaseFactIntegrityError ''assertion source message lost same-Case customer binding'')
         else if mh (msr_content m) \<noteq> fa_source_message_hash a
           then Inl (CaseFactIntegrityError ''assertion source message hash parity failed'')
         else if int (length (msr_content m)) < fa_span_end a
           then Inl (CaseFactIntegrityError ''stored assertion source span is out of bounds'')
         else Inr ())"

definition decision_outcome :: "merge_decision \<Rightarrow> string" where
  "decision_outcome m =
    (if md_accepted m then ''accepted''
     else if md_reason_code m = ''NO_CANDIDATES'' then ''empty'' else ''rejected'')"

definition verify_consumption ::
  "(utext \<Rightarrow> string) \<Rightarrow> database \<Rightarrow> string \<Rightarrow> string list \<Rightarrow> string list \<Rightarrow> fact_consumption_row \<Rightarrow> unit result" where
  "verify_consumption mh d case_id question_ids assertion_ids c =
    (if fcr_question_id c \<notin> set question_ids \<or>
        (case get_message d (fcr_source_message_id c) of None \<Rightarrow> True
         | Some m \<Rightarrow> msr_case_id m \<noteq> Some case_id \<or> msr_role m \<noteq> ''customer'' \<or>
                     mh (msr_content m) \<noteq> fcr_source_message_hash c)
       then Inl (CaseFactIntegrityError ''Case Fact consumption provenance parity failed'')
     else (case check_merge_decision (fcr_decision_payload c) of
         Inl _ \<Rightarrow> Inl (CaseFactIntegrityError ''Case Fact consumption decision is malformed'')
       | Inr decision \<Rightarrow>
           if md_candidate_batch_hash decision \<noteq> Some (fcr_candidate_batch_hash c) \<or>
              md_reason_code decision \<noteq> fcr_reason_code c \<or> md_assertion_id decision \<noteq> fcr_assertion_id c
             then Inl (CaseFactIntegrityError ''Case Fact consumption decision parity failed'')
           else if fcr_outcome c \<noteq> decision_outcome decision
             then Inl (CaseFactIntegrityError ''Case Fact consumption outcome parity failed'')
           else if md_accepted decision \<noteq> (fcr_assertion_id c \<in> Some ` set assertion_ids)
             then Inl (CaseFactIntegrityError ''Case Fact consumption assertion parity failed'')
           else Inr ()))"

text \<open>A loop that only checks.\<close>

fun for_each :: "('x \<Rightarrow> unit result) \<Rightarrow> 'x list \<Rightarrow> unit result" where
  "for_each f [] = Inr ()"
| "for_each f (x # xs) = bindE (f x) (\<lambda>_. for_each f xs)"

lemma for_each_Inr: "for_each f xs = Inr () \<longleftrightarrow> (\<forall>x \<in> set xs. f x = Inr ())"
  by (induction xs) (auto simp: bindE_eq_Inr)

section \<open>Rebuild, load and store\<close>

definition rebuild_from_rows ::
  "(json \<Rightarrow> string) \<Rightarrow> (utext \<Rightarrow> string) \<Rightarrow> database \<Rightarrow> string \<Rightarrow> datetime \<Rightarrow> fact_snapshot result" where
  "rebuild_from_rows sha mh d case_id now =
    bindE (mapE assertion_from_row (list_case_fact_assertions d case_id)) (\<lambda>assertions.
    bindE (for_each (verify_message_hash mh d) assertions) (\<lambda>_.
    bindE (mapE question_from_row (list_case_fact_questions d case_id)) (\<lambda>questions.
    bindE (for_each (verify_consumption mh d case_id (map fq_question_id questions) (map fa_assertion_id assertions))
             (list_case_fact_message_consumptions d case_id)) (\<lambda>_.
    bindE (current_proof_context d case_id) (\<lambda>proof.
      rebuild_case_fact_snapshot sha case_id assertions questions proof now)))))"

text \<open>\<open>model_dump(mode="json", exclude={"rebuilt_at"})\<close>.\<close>

definition snapshot_projection :: "fact_snapshot \<Rightarrow> json \<times> string" where
  "snapshot_projection s =
     (canonical_snapshot (sn_case_id s) (sn_revision s) (sn_facts s) (sn_question_state s), sn_snapshot_hash s)"

definition load_snapshot ::
  "(json \<Rightarrow> string) \<Rightarrow> (utext \<Rightarrow> string) \<Rightarrow> database \<Rightarrow> datetime \<Rightarrow> string \<Rightarrow> bool \<Rightarrow> fact_snapshot result" where
  "load_snapshot sha mh d now case_id verify_stored =
    bindE (require_case d case_id) (\<lambda>_.
    bindE (rebuild_from_rows sha mh d case_id now) (\<lambda>rebuilt.
      case get_case_fact_snapshot d case_id of
        None \<Rightarrow> Inr rebuilt
      | Some stored \<Rightarrow>
          if \<not> verify_stored then Inr rebuilt
          else (case check_fact_snapshot (fsr_snapshot_payload stored) of
              Inl _ \<Rightarrow> Inl (CaseFactIntegrityError ''stored CaseFactSnapshot is malformed'')
            | Inr parsed \<Rightarrow>
                if fsr_revision stored \<noteq> int (sn_revision rebuilt) \<or>
                   fsr_snapshot_hash stored \<noteq> sn_snapshot_hash rebuilt \<or>
                   sn_snapshot_hash parsed \<noteq> sn_snapshot_hash rebuilt \<or>
                   snapshot_projection parsed \<noteq> snapshot_projection rebuilt
                  then Inl (CaseFactIntegrityError ''stored/rebuilt CaseFactSnapshot disagreement'')
                else Inr rebuilt)))"

definition load_assertions :: "database \<Rightarrow> string \<Rightarrow> fact_assertion list result" where
  "load_assertions d case_id = mapE assertion_from_row (list_case_fact_assertions d case_id)"

definition rebuild_and_store ::
  "(json \<Rightarrow> string) \<Rightarrow> (utext \<Rightarrow> string) \<Rightarrow> database \<Rightarrow> string \<Rightarrow> datetime \<Rightarrow> (fact_snapshot \<times> database) result" where
  "rebuild_and_store sha mh d case_id now =
    bindE (rebuild_from_rows sha mh d case_id now) (\<lambda>snapshot.
    bindE (store_case_fact_snapshot d snapshot) (\<lambda>(_, d'). Inr (snapshot, d')))"

definition initialize_case ::
  "(json \<Rightarrow> string) \<Rightarrow> (utext \<Rightarrow> string) \<Rightarrow> (nat \<Rightarrow> datetime) \<Rightarrow> database \<Rightarrow> string \<Rightarrow>
   (fact_snapshot \<times> database) result" where
  "initialize_case sha mh t d case_id = rebuild_and_store sha mh d case_id (t 0)"

definition refresh_snapshot ::
  "(json \<Rightarrow> string) \<Rightarrow> (utext \<Rightarrow> string) \<Rightarrow> (nat \<Rightarrow> datetime) \<Rightarrow> database \<Rightarrow> string \<Rightarrow>
   (fact_snapshot \<times> database) result" where
  "refresh_snapshot sha mh t d case_id = rebuild_and_store sha mh d case_id (t 0)"

section \<open>Candidates\<close>

definition extract_candidates ::
  "(utext \<Rightarrow> utext) \<Rightarrow> utext \<Rightarrow> fact_code \<Rightarrow> fact_assertion list \<Rightarrow> proof_context option \<Rightarrow>
   fact_candidate list result" where
  "extract_candidates casefold content code active proof =
     bindE (interpret_customer_reply casefold content code active proof) (\<lambda>c.
       Inr (case c of None \<Rightarrow> [] | Some x \<Rightarrow> [x]))"

datatype raw_candidate = Typed fact_candidate | Untrusted json

definition candidate_json :: "fact_candidate \<Rightarrow> json" where
  "candidate_json c = JObj [(''schema_version'', JStr ''v3b.fact_candidate.v1''),
     (''fact_code'', JStr (fact_code_value (cd_fact_code c))), (''value'', JStr (fact_value_value (cd_value c))),
     (''relation_hint'', JStr (relation_hint_value (cd_relation_hint c))),
     (''target_assertion_id'', json_opt_str (cd_target_assertion_id c)),
     (''source_span'', JObj [(''start'', JInt (cd_span_start c)), (''end'', JInt (cd_span_end c))])]"

definition stable_json_hash :: "(json \<Rightarrow> string) \<Rightarrow> json \<Rightarrow> string" where
  "stable_json_hash sha payload = sha (normal_json payload)"

definition candidate_batch_hash :: "(json \<Rightarrow> string) \<Rightarrow> raw_candidate list \<Rightarrow> string" where
  "candidate_batch_hash sha raw =
     stable_json_hash sha (JList (map (\<lambda>x. case x of Typed c \<Rightarrow> candidate_json c | Untrusted j \<Rightarrow> j) raw))"

definition validate_candidate_batch ::
  "(json \<Rightarrow> fact_candidate result) \<Rightarrow> raw_candidate list \<Rightarrow> fact_candidate list result" where
  "validate_candidate_batch parse raw =
    (if 2 < length raw
       then Inl (CaseFactError ''one customer message may produce at most two Case Fact candidates'')
     else mapE (\<lambda>x. case x of Typed c \<Rightarrow> Inr c | Untrusted j \<Rightarrow> parse j) raw)"

definition deterministic_extractor :: string where
  "deterministic_extractor = ''deterministic''"

definition extractor_version :: string where
  "extractor_version = ''case-fact-deterministic-v1''"

section \<open>Accepting a reply\<close>

text \<open>The arguments of \<open>accept_message\<close>, and its result.\<close>

record reply_args =
  ry_case_id :: string
  ry_source_message_id :: string
  ry_candidates :: "raw_candidate list"
  ry_extractor_kind :: string
  ry_extractor_version :: string

record acceptance =
  ac_snapshot :: fact_snapshot
  ac_merge_decision :: merge_decision

definition reply_guard :: "database \<Rightarrow> case_row \<Rightarrow> message_row \<Rightarrow> fact_question_row \<Rightarrow> unit result" where
  "reply_guard d c m q =
    (if get_case_fact_consumption_for_question d (fqr_question_id q) \<noteq> None
       then Inl (CaseFactError ''outstanding Case Fact question was already consumed'')
     else if msr_case_id m \<noteq> Some (icr_case_id c) \<or> msr_role m \<noteq> ''customer''
       then Inl (CaseFactError ''source_message_id must be customer-authored and bound to this Case'')
     else if instant (msr_created_at m) \<le> instant (fqr_asked_at q)
       then Inl (CaseFactError ''source message predates the outstanding Case Fact question'')
     else if map_option msr_message_id (last_opt (filter (\<lambda>r. msr_case_id r = Some (icr_case_id c) \<and>
            msr_role r = ''customer'') (list_messages d (icr_conversation_id c)))) \<noteq> Some (msr_message_id m)
       then Inl (CaseFactError ''source message is not the current customer reply'')
     else Inr ())"

definition refusal :: "string \<Rightarrow> string \<Rightarrow> merge_decision result" where
  "refusal reason_code batch_hash = check_merge_decision \<lparr>md_accepted = False, md_reason_code = reason_code,
     md_assertion_id = None, md_candidate_batch_hash = Some batch_hash\<rparr>"

definition candidate_fingerprint ::
  "(json \<Rightarrow> string) \<Rightarrow> string \<Rightarrow> string \<Rightarrow> string \<Rightarrow> fact_candidate \<Rightarrow> proof_context option \<Rightarrow> string" where
  "candidate_fingerprint sha case_id question_id message_id c bound_proof =
     stable_json_hash sha (JObj [(''case_id'', JStr case_id), (''question_id'', JStr question_id),
       (''source_message_id'', JStr message_id), (''candidate'', candidate_json c),
       (''context_result_hash'', json_opt_str (map_option pc_result_hash bound_proof))])"

definition accepted_assertion ::
  "(utext \<Rightarrow> string) \<Rightarrow> reply_args \<Rightarrow> message_row \<Rightarrow> fact_candidate \<Rightarrow> proof_context option \<Rightarrow> string \<Rightarrow> nat \<Rightarrow>
   datetime \<Rightarrow> fact_assertion" where
  "accepted_assertion mh a m c bound_proof fingerprint n now =
     \<lparr>fa_assertion_id = ''fact_'' @ take 24 fingerprint, fa_case_id = ry_case_id a, fa_fact_code = cd_fact_code c,
      fa_value = cd_value c, fa_source_message_id = ry_source_message_id a,
      fa_source_message_hash = mh (msr_content m), fa_span_start = cd_span_start c, fa_span_end = cd_span_end c,
      fa_relation = cd_relation_hint c, fa_supersedes = cd_target_assertion_id c,
      fa_extractor_kind = ry_extractor_kind a, fa_extractor_version = ry_extractor_version a,
      fa_context_tool_call_id = map_option pc_tool_call_id bound_proof,
      fa_context_result_hash = map_option pc_result_hash bound_proof,
      fa_sequence = int n + 1, fa_recorded_at = now\<rparr>"

definition is_case_fact_error :: "error \<Rightarrow> bool" where
  "is_case_fact_error e = (case e of CaseFactError _ \<Rightarrow> True | CaseFactIntegrityError _ \<Rightarrow> True | _ \<Rightarrow> False)"

text \<open>The decision over the candidates, with the database after a possible assertion.  The first handler
  catches everything, the second \<open>CaseFactError\<close> and its subclass.\<close>

definition merge_candidates ::
  "(json \<Rightarrow> string) \<Rightarrow> (utext \<Rightarrow> string) \<Rightarrow> (utext \<Rightarrow> utext) \<Rightarrow> (json \<Rightarrow> fact_candidate result) \<Rightarrow> datetime \<Rightarrow>
   database \<Rightarrow> reply_args \<Rightarrow> message_row \<Rightarrow> string \<Rightarrow> fact_code \<Rightarrow> fact_assertion list \<Rightarrow> proof_context option \<Rightarrow>
   (merge_decision \<times> database) result" where
  "merge_candidates sha mh casefold parse now d a m question_id outstanding existing proof =
    (let batch_hash = candidate_batch_hash sha (ry_candidates a);
         reject = (\<lambda>reason. bindE (refusal reason batch_hash) (\<lambda>dec. Inr (dec, d)))
     in case validate_candidate_batch parse (ry_candidates a) of
          Inl _ \<Rightarrow> reject ''CANDIDATE_SCHEMA_INVALID''
        | Inr [] \<Rightarrow> reject ''NO_CANDIDATES''
        | Inr (c # _ # _) \<Rightarrow> reject ''CANDIDATE_COUNT_REJECTED''
        | Inr [c] \<Rightarrow>
            (case validate_fact_candidate casefold c (ry_case_id a) (msr_case_id m) (msr_role m) (msr_content m)
                    outstanding (active_assertions existing) proof of
               Inl e \<Rightarrow> if is_case_fact_error e then reject ''CANDIDATE_DISAGREES_WITH_PERSISTED_CONTEXT'' else Inl e
             | Inr bound_proof \<Rightarrow>
                 (let fingerprint = candidate_fingerprint sha (ry_case_id a) question_id (ry_source_message_id a) c
                        bound_proof
                  in bindE (check_fact_assertion
                       (accepted_assertion mh a m c bound_proof fingerprint (length existing) now)) (\<lambda>assertion.
                     bindE (append_case_fact_assertion d assertion fingerprint) (\<lambda>(_, d').
                     bindE (check_merge_decision \<lparr>md_accepted = True,
                       md_reason_code = ''ACCEPTED_DETERMINISTIC_INTERPRETATION'',
                       md_assertion_id = Some (fa_assertion_id assertion),
                       md_candidate_batch_hash = Some batch_hash\<rparr>) (\<lambda>dec. Inr (dec, d')))))))"

definition consumption_row_of ::
  "(json \<Rightarrow> string) \<Rightarrow> (utext \<Rightarrow> string) \<Rightarrow> reply_args \<Rightarrow> message_row \<Rightarrow> string \<Rightarrow> merge_decision \<Rightarrow> datetime \<Rightarrow>
   fact_consumption_row" where
  "consumption_row_of sha mh a m question_id decision now =
    (let batch_hash = candidate_batch_hash sha (ry_candidates a)
     in \<lparr>fcr_consumption_id = ''consume_'' @ take 24 (stable_json_hash sha
           (JObj [(''case_id'', JStr (ry_case_id a)), (''question_id'', JStr question_id),
                  (''source_message_id'', JStr (ry_source_message_id a)),
                  (''candidate_batch_hash'', JStr batch_hash)])),
         fcr_case_id = ry_case_id a, fcr_question_id = question_id,
         fcr_source_message_id = ry_source_message_id a, fcr_source_message_hash = mh (msr_content m),
         fcr_candidate_batch_hash = batch_hash, fcr_outcome = decision_outcome decision,
         fcr_reason_code = md_reason_code decision, fcr_assertion_id = md_assertion_id decision,
         fcr_decision_payload = decision, fcr_recorded_at = now\<rparr>)"

text \<open>A message that was consumed before is answered again from the ledger; any other is merged, the snapshot
  is rebuilt, and the consumption is recorded.\<close>

definition replay_reply ::
  "(json \<Rightarrow> string) \<Rightarrow> (utext \<Rightarrow> string) \<Rightarrow> (nat \<Rightarrow> datetime) \<Rightarrow> database \<Rightarrow> reply_args \<Rightarrow> message_row \<Rightarrow> string \<Rightarrow>
   fact_consumption_row \<Rightarrow> (acceptance \<times> database) result" where
  "replay_reply sha mh t d a m question_id existing =
    (if fcr_case_id existing \<noteq> ry_case_id a \<or> fcr_question_id existing \<noteq> question_id \<or>
        fcr_source_message_hash existing \<noteq> mh (msr_content m) \<or>
        fcr_candidate_batch_hash existing \<noteq> candidate_batch_hash sha (ry_candidates a)
       then Inl (CaseFactError
         ''a consumed Case Fact message cannot be replayed with different authority inputs'')
     else bindE (rebuild_and_store sha mh d (ry_case_id a) (t 0)) (\<lambda>(snapshot, d').
          bindE (check_merge_decision (fcr_decision_payload existing)) (\<lambda>decision.
            Inr (\<lparr>ac_snapshot = snapshot, ac_merge_decision = decision\<rparr>, d'))))"

definition consume_reply ::
  "(json \<Rightarrow> string) \<Rightarrow> (utext \<Rightarrow> string) \<Rightarrow> (utext \<Rightarrow> utext) \<Rightarrow> (json \<Rightarrow> fact_candidate result) \<Rightarrow> (nat \<Rightarrow> datetime) \<Rightarrow>
   database \<Rightarrow> reply_args \<Rightarrow> message_row \<Rightarrow> string \<Rightarrow> fact_code \<Rightarrow> (acceptance \<times> database) result" where
  "consume_reply sha mh casefold parse t d a m question_id outstanding =
    bindE (load_assertions d (ry_case_id a)) (\<lambda>existing.
    bindE (current_proof_context d (ry_case_id a)) (\<lambda>proof.
    bindE (merge_candidates sha mh casefold parse (t 0) d a m question_id outstanding existing proof) (\<lambda>(decision, d1).
    bindE (rebuild_and_store sha mh d1 (ry_case_id a) (t 1)) (\<lambda>(snapshot, d2).
    bindE (append_case_fact_message_consumption d2 (consumption_row_of sha mh a m question_id decision (t 2)))
      (\<lambda>(_, d3). Inr (\<lparr>ac_snapshot = snapshot, ac_merge_decision = decision\<rparr>, d3))))))"

definition accept_message ::
  "(json \<Rightarrow> string) \<Rightarrow> (utext \<Rightarrow> string) \<Rightarrow> (utext \<Rightarrow> utext) \<Rightarrow> (json \<Rightarrow> fact_candidate result) \<Rightarrow> (nat \<Rightarrow> datetime) \<Rightarrow>
   database \<Rightarrow> reply_args \<Rightarrow> (acceptance \<times> database) result" where
  "accept_message sha mh casefold parse t d a =
    bindE (require_case d (ry_case_id a)) (\<lambda>c.
      if icr_case_state c \<noteq> ''awaiting_customer_input''
        then Inl (CaseFactError ''Case must be awaiting a business clarification reply'')
      else (case get_message d (ry_source_message_id a) of
          None \<Rightarrow> Inl (CaseFactError ''source_message_id was not found'')
        | Some m \<Rightarrow>
            (case last_opt (list_case_fact_questions d (ry_case_id a)) of
               None \<Rightarrow> Inl (CaseFactError ''Case has no outstanding Case Fact question'')
             | Some q \<Rightarrow>
                 bindE (fact_code_of (fqr_fact_code q)) (\<lambda>outstanding.
                   case get_case_fact_consumption_for_message d (ry_source_message_id a) of
                     Some existing \<Rightarrow> replay_reply sha mh t d a m (fqr_question_id q) existing
                   | None \<Rightarrow>
                       bindE (reply_guard d c m q) (\<lambda>_.
                         consume_reply sha mh casefold parse t d a m (fqr_question_id q) outstanding)))))"

section \<open>Asking a question\<close>

definition new_question ::
  "(json \<Rightarrow> string) \<Rightarrow> string \<Rightarrow> fact_code \<Rightarrow> proof_context option \<Rightarrow> fact_snapshot \<Rightarrow> datetime \<Rightarrow> fact_question" where
  "new_question sha case_id code proof snapshot now =
    (let targeted = (fe_status (sn_facts snapshot code) = FS_CONFLICT);
         context_hash = (if code = FC_LOCATION_CHECKED then map_option pc_result_hash proof else None)
     in \<lparr>fq_question_id = stable_question_id sha case_id code context_hash targeted, fq_case_id = case_id,
         fq_fact_code = code, fq_context_result_hash = context_hash, fq_targeted_conflict = targeted,
         fq_asked_at = now\<rparr>)"

definition record_question ::
  "(json \<Rightarrow> string) \<Rightarrow> (utext \<Rightarrow> string) \<Rightarrow> (nat \<Rightarrow> datetime) \<Rightarrow> database \<Rightarrow> string \<Rightarrow> fact_code \<Rightarrow>
   ((fact_question \<times> bool) \<times> database) result" where
  "record_question sha mh t d case_id code =
    bindE (require_case d case_id) (\<lambda>c.
    bindE (current_proof_context d case_id) (\<lambda>proof.
    bindE (rebuild_from_rows sha mh d case_id (t 0)) (\<lambda>snapshot.
    bindE (check_fact_question (new_question sha case_id code proof snapshot (t 1))) (\<lambda>question.
      case List.find (\<lambda>r. fqr_question_id r = fq_question_id question) (list_case_fact_questions d case_id) of
        Some existing \<Rightarrow> bindE (question_from_row existing) (\<lambda>q. Inr ((q, False), d))
      | None \<Rightarrow>
          if \<not> question_allowed snapshot code (nat (icr_business_clarification_count c))
            then Inl (CaseFactError ''Case Fact question is not allowed by repeat/budget policy'')
          else bindE (append_case_fact_question d question) (\<lambda>(_, d1).
               bindE (rebuild_and_store sha mh d1 case_id (t 2)) (\<lambda>(_, d2). Inr ((question, True), d2)))))))"

section \<open>What a rebuild reads\<close>

lemma rebuild_from_rows_cong:
  assumes "db_messages d' = db_messages d" "db_fact_assertions d' = db_fact_assertions d"
    "db_fact_questions d' = db_fact_questions d" "db_fact_consumptions d' = db_fact_consumptions d"
    "db_tool_calls d' = db_tool_calls d"
  shows "rebuild_from_rows sha mh d' case_id now = rebuild_from_rows sha mh d case_id now"
proof -
  have "get_message d' = get_message d" by (rule ext) (simp add: get_message_def assms)
  then have "verify_message_hash mh d' = verify_message_hash mh d"
    "verify_consumption mh d' k qs as = verify_consumption mh d k qs as" for k qs as
    by (intro ext; simp add: verify_message_hash_def verify_consumption_def)+
  then show ?thesis
    by (simp add: rebuild_from_rows_def list_case_fact_assertions_def list_case_fact_questions_def
        list_case_fact_message_consumptions_def current_proof_context_def list_tool_calls_def assms)
qed

text \<open>The time of a rebuild shows in \<open>rebuilt_at\<close> only.\<close>

lemma check_fact_snapshot_Inr:
  "check_fact_snapshot s = Inr r \<Longrightarrow> r = s \<and> (is_aware t \<longrightarrow>
     check_fact_snapshot (s\<lparr>sn_rebuilt_at := t\<rparr>) = Inr (s\<lparr>sn_rebuilt_at := t\<rparr>))"
  by (auto simp: check_fact_snapshot_def split: if_splits)

lemma rebuild_case_fact_snapshot_shape:
  assumes "rebuild_case_fact_snapshot sha k as qs p now = Inr s"
  obtains s0 where "sn_case_id s0 = k"
    "\<And>t. rebuild_case_fact_snapshot sha k as qs p t = check_fact_snapshot (s0\<lparr>sn_rebuilt_at := t\<rparr>)"
proof -
  from assms obtain ordered scan where a: "ordered_assertions as = Inr ordered"
      "foldE (scan_assertion k) \<lparr>sx_ids = [], sx_invalid = [], sx_superseders = []\<rparr> ordered = Inr scan"
    unfolding rebuild_case_fact_snapshot_def by (elim bindE_InrE)
  define facts where "facts = (\<lambda>code. entry_for code (filter (\<lambda>a. fa_fact_code a = code) ordered) p
      (code \<in> set (sx_invalid scan)) (code \<in> set (competing_codes scan)))"
  define states where "states = (\<lambda>code. question_state_for k qs code (facts code) p)"
  define revision where "revision = length ordered + length (filter (\<lambda>q. fq_case_id q = k) qs)"
  have shape: "rebuild_case_fact_snapshot sha k as qs p t =
      bindE (mapE (\<lambda>code. check_question_state (states code)) all_fact_codes) (\<lambda>_. check_fact_snapshot
        \<lparr>sn_case_id = k, sn_revision = revision, sn_facts = facts, sn_question_state = states,
         sn_snapshot_hash = sha (canonical_snapshot k revision facts states), sn_rebuilt_at = t\<rparr>)" for t
    unfolding rebuild_case_fact_snapshot_def a bindE_simps Let_def facts_def states_def revision_def ..
  from assms obtain us where m: "mapE (\<lambda>code. check_question_state (states code)) all_fact_codes = Inr us"
    unfolding shape by (elim bindE_InrE)
  show thesis
    by (rule that [of "\<lparr>sn_case_id = k, sn_revision = revision, sn_facts = facts, sn_question_state = states,
         sn_snapshot_hash = sha (canonical_snapshot k revision facts states), sn_rebuilt_at = now\<rparr>"])
      (simp_all only: shape m bindE_simps fact_snapshot.simps)
qed

lemma rebuild_snapshot_later:
  assumes r: "rebuild_case_fact_snapshot sha k as qs p now = Inr s" and t: "is_aware later"
  shows "rebuild_case_fact_snapshot sha k as qs p later = Inr (s\<lparr>sn_rebuilt_at := later\<rparr>)"
proof -
  from rebuild_case_fact_snapshot_shape [OF r] obtain s0 where s0:
    "rebuild_case_fact_snapshot sha k as qs p t = check_fact_snapshot (s0\<lparr>sn_rebuilt_at := t\<rparr>)" for t
    by metis
  from check_fact_snapshot_Inr [OF r [unfolded s0], of later] t show ?thesis unfolding s0 by auto
qed

lemma rebuild_case_fact_snapshot_valid:
  assumes r: "rebuild_case_fact_snapshot sha k as qs p now = Inr s"
  shows "check_fact_snapshot s = Inr s \<and> sn_case_id s = k"
proof -
  from rebuild_case_fact_snapshot_shape [OF r] obtain s0 where s0: "sn_case_id s0 = k"
    "rebuild_case_fact_snapshot sha k as qs p t = check_fact_snapshot (s0\<lparr>sn_rebuilt_at := t\<rparr>)" for t
    by metis
  from check_fact_snapshot_Inr [OF r [unfolded s0(2)]] r [unfolded s0(2)] s0(1) show ?thesis by auto
qed

lemma rebuild_from_rows_Inr:
  assumes "rebuild_from_rows sha mh d k now = Inr s"
  obtains as qs p where "mapE assertion_from_row (list_case_fact_assertions d k) = Inr as"
    "for_each (verify_message_hash mh d) as = Inr ()" "mapE question_from_row (list_case_fact_questions d k) = Inr qs"
    "for_each (verify_consumption mh d k (map fq_question_id qs) (map fa_assertion_id as))
       (list_case_fact_message_consumptions d k) = Inr ()"
    "current_proof_context d k = Inr p" "rebuild_case_fact_snapshot sha k as qs p now = Inr s"
  using assms by (auto simp: rebuild_from_rows_def bindE_eq_Inr)

section \<open>What the service stores reloads\<close>

lemma store_snapshot_get:
  assumes "store_case_fact_snapshot d s = Inr (row, d')"
  shows "\<exists>stored. get_case_fact_snapshot d' (sn_case_id s) = Some stored \<and> fsr_snapshot_payload stored = s \<and>
    fsr_revision stored = int (sn_revision s) \<and> fsr_snapshot_hash stored = sn_snapshot_hash s"
proof (cases "get_case_fact_snapshot d (sn_case_id s)")
  case None
  with assms obtain rows where "fsr_case_id row = sn_case_id s" "fsr_snapshot_payload row = s"
      "fsr_revision row = int (sn_revision s)" "fsr_snapshot_hash row = sn_snapshot_hash s"
    and d': "insert_row fact_snapshot_table (refs_fact_snapshot d row) (db_fact_snapshots d) row = Inr rows"
      "d' = d\<lparr>db_fact_snapshots := rows\<rparr>"
    by (auto simp: store_case_fact_snapshot_def insert_fact_snapshot_def Let_def bindE_eq_Inr)
  then show ?thesis
    using get_row_insert [OF d'(1), of "sn_case_id s"]
    by (simp add: get_case_fact_snapshot_def fact_snapshot_table_def)
next
  case (Some old)
  then have key: "fsr_case_id old = sn_case_id s" "old \<in> set (db_fact_snapshots d)"
    using get_row_key [of fact_snapshot_table "db_fact_snapshots d" "sn_case_id s" old]
    by (simp_all add: get_case_fact_snapshot_def fact_snapshot_table_def)
  from Some assms obtain rows where row: "row = old\<lparr>fsr_revision := int (sn_revision s),
      fsr_snapshot_hash := sn_snapshot_hash s, fsr_snapshot_payload := s, fsr_rebuilt_at := sn_rebuilt_at s\<rparr>"
    and d': "update_row fact_snapshot_table (db_fact_snapshots d) row = Inr rows"
      "d' = d\<lparr>db_fact_snapshots := rows\<rparr>"
    by (auto simp: store_case_fact_snapshot_def update_fact_snapshot_row_def Let_def bindE_eq_Inr split: if_splits)
  have "has_row fact_snapshot_table (db_fact_snapshots d) (tbl_key fact_snapshot_table row)"
    using imageI [OF key(2), of fsr_case_id] key(1) by (simp add: has_row_def fact_snapshot_table_def row)
  from get_row_update [OF d'(1) this, of "sn_case_id s"] key show ?thesis
    by (simp add: get_case_fact_snapshot_def fact_snapshot_table_def row d'(2))
qed

lemma rebuild_and_store_Inr:
  assumes "rebuild_and_store sha mh d k now = Inr (s, d')"
  obtains rows where "rebuild_from_rows sha mh d k now = Inr s" "d' = d\<lparr>db_fact_snapshots := rows\<rparr>"
    "sn_case_id s = k" "check_fact_snapshot s = Inr s"
    "\<exists>stored. get_case_fact_snapshot d' k = Some stored \<and> fsr_snapshot_payload stored = s \<and>
       fsr_revision stored = int (sn_revision s) \<and> fsr_snapshot_hash stored = sn_snapshot_hash s"
proof -
  from assms obtain row where r: "rebuild_from_rows sha mh d k now = Inr s"
    and st: "store_case_fact_snapshot d s = Inr (row, d')"
    by (auto simp: rebuild_and_store_def bindE_eq_Inr)
  from r obtain as qs p where "rebuild_case_fact_snapshot sha k as qs p now = Inr s"
    by (rule rebuild_from_rows_Inr)
  with rebuild_case_fact_snapshot_valid have v: "check_fact_snapshot s = Inr s" "sn_case_id s = k" by blast+
  from store_case_fact_snapshot_frame [OF st] obtain rows where "d' = d\<lparr>db_fact_snapshots := rows\<rparr>" ..
  with r v store_snapshot_get [OF st] show thesis by (intro that) auto
qed

text \<open>The comparison of \<open>load_snapshot\<close> succeeds on a snapshot that a rebuild still yields.\<close>

lemma load_snapshot_stored:
  assumes "require_case d k = Inr c"
    and "rebuild_from_rows sha mh d k now = Inr (s\<lparr>sn_rebuilt_at := now\<rparr>)" and "check_fact_snapshot s = Inr s"
    and "\<exists>stored. get_case_fact_snapshot d k = Some stored \<and> fsr_snapshot_payload stored = s \<and>
       fsr_revision stored = int (sn_revision s) \<and> fsr_snapshot_hash stored = sn_snapshot_hash s"
  shows "load_snapshot sha mh d now k verify = Inr (s\<lparr>sn_rebuilt_at := now\<rparr>)"
  using assms by (auto simp: load_snapshot_def snapshot_projection_def)

lemma rebuild_from_rows_later:
  assumes r: "rebuild_from_rows sha mh d k now = Inr s" and "is_aware later"
  shows "rebuild_from_rows sha mh d k later = Inr (s\<lparr>sn_rebuilt_at := later\<rparr>)"
  using r
proof (rule rebuild_from_rows_Inr)
  fix as qs p
  assume a: "mapE assertion_from_row (list_case_fact_assertions d k) = Inr as"
    "for_each (verify_message_hash mh d) as = Inr ()" "mapE question_from_row (list_case_fact_questions d k) = Inr qs"
    "for_each (verify_consumption mh d k (map fq_question_id qs) (map fa_assertion_id as))
       (list_case_fact_message_consumptions d k) = Inr ()"
    "current_proof_context d k = Inr p" "rebuild_case_fact_snapshot sha k as qs p now = Inr s"
  from rebuild_snapshot_later [OF a(6) assms(2)] show ?thesis
    by (simp only: rebuild_from_rows_def a bindE_simps)
qed

lemma rebuild_and_store_reloads:
  assumes "rebuild_and_store sha mh d k t = Inr (s, d')" and "require_case d k = Inr c" and "is_aware now"
  shows "load_snapshot sha mh d' now k verify = Inr (s\<lparr>sn_rebuilt_at := now\<rparr>)"
  using assms(1)
proof (rule rebuild_and_store_Inr)
  fix rows
  assume r: "rebuild_from_rows sha mh d k t = Inr s" and d': "d' = d\<lparr>db_fact_snapshots := rows\<rparr>"
    and v: "check_fact_snapshot s = Inr s" and st: "\<exists>stored. get_case_fact_snapshot d' k = Some stored \<and>
       fsr_snapshot_payload stored = s \<and> fsr_revision stored = int (sn_revision s) \<and>
       fsr_snapshot_hash stored = sn_snapshot_hash s"
  have "rebuild_from_rows sha mh d' k now = rebuild_from_rows sha mh d k now"
    by (rule rebuild_from_rows_cong) (simp_all add: d')
  with rebuild_from_rows_later [OF r assms(3)]
  have "rebuild_from_rows sha mh d' k now = Inr (s\<lparr>sn_rebuilt_at := now\<rparr>)" by simp
  moreover have "require_case d' k = Inr c" using assms(2) by (simp add: require_case_def get_case_def d')
  ultimately show ?thesis using v st by (intro load_snapshot_stored)
qed

text \<open>Assertions are stored under an identity derived from the fingerprint of their candidate; nothing but
  \<open>accept_message\<close> stores them.\<close>

definition facts_keyed :: "database \<Rightarrow> bool" where
  "facts_keyed d \<longleftrightarrow>
     (\<forall>r \<in> set (db_fact_assertions d). far_assertion_id r = ''fact_'' @ take 24 (far_candidate_fingerprint r))"

lemma append_assertion_listed:
  assumes "append_case_fact_assertion d x fp = Inr (row, d')" and "facts_keyed d"
    and "fa_assertion_id x = ''fact_'' @ take 24 fp"
  shows "fa_assertion_id x \<in> far_assertion_id ` set (list_case_fact_assertions d' (fa_case_id x)) \<and> facts_keyed d'"
proof (cases "find_case_fact_candidate d (fa_case_id x) fp")
  case None
  with assms show ?thesis
    by (auto simp: append_case_fact_assertion_def bindE_eq_Inr Let_def list_case_fact_assertions_def facts_keyed_def
        image_iff dest!: insert_fact_assertion_frame split: if_splits)
next
  case (Some old)
  with assms(1) have d': "d' = d" "row = old" by (auto simp: append_case_fact_assertion_def bindE_eq_Inr)
  from find_SomeD [OF Some [unfolded find_case_fact_candidate_def]] assms(2,3)
  show ?thesis unfolding d' by (auto simp: list_case_fact_assertions_def facts_keyed_def image_iff intro!: bexI [of _ old])
qed

lemma mapE_assertion_ids:
  "mapE assertion_from_row rows = Inr as \<Longrightarrow> map fa_assertion_id as = map far_assertion_id rows"
proof (induction rows arbitrary: as)
  case (Cons r rows)
  then obtain a as' where a: "assertion_from_row r = Inr a" "mapE assertion_from_row rows = Inr as'" "as = a # as'"
    by (auto simp: bindE_eq_Inr)
  from a(1) have "fa_assertion_id a = far_assertion_id r"
    by (auto simp: assertion_from_row_def bindE_eq_Inr check_fact_assertion_def split: if_splits)
  with Cons.IH [OF a(2)] a(3) show ?case by simp
qed simp

lemma check_merge_decision_id: "check_merge_decision m = Inr n \<Longrightarrow> n = m"
  by (simp add: check_merge_decision_def split: if_splits)

text \<open>What the ledger entry of a decision will be checked against.\<close>

definition decision_backed :: "database \<Rightarrow> string \<Rightarrow> string \<Rightarrow> merge_decision \<Rightarrow> bool" where
  "decision_backed d case_id batch_hash m \<longleftrightarrow>
     check_merge_decision m = Inr m \<and> md_candidate_batch_hash m = Some batch_hash \<and>
     (if md_accepted m
      then md_assertion_id m \<in> Some ` far_assertion_id ` set (list_case_fact_assertions d case_id)
      else md_assertion_id m = None)"

lemma refusal_backed:
  assumes "bindE (refusal reason h) (\<lambda>dec. Inr (dec, d)) = Inr (m, d1)"
  shows "d1 = d \<and> decision_backed d k h m"
  using assms check_merge_decision_id by (fastforce simp: refusal_def bindE_eq_Inr decision_backed_def)

lemma accepted_backed:
  assumes "bindE (check_fact_assertion (accepted_assertion mh a msg c bound fp n now)) (\<lambda>assertion.
      bindE (append_case_fact_assertion d assertion fp) (\<lambda>(_, d').
      bindE (check_merge_decision \<lparr>md_accepted = True, md_reason_code = reason,
        md_assertion_id = Some (fa_assertion_id assertion), md_candidate_batch_hash = Some h\<rparr>)
        (\<lambda>dec. Inr (dec, d')))) = Inr (m, d1)"
    and keyed: "facts_keyed d"
  shows "(\<exists>rows. d1 = d\<lparr>db_fact_assertions := rows\<rparr>) \<and> facts_keyed d1 \<and> decision_backed d1 (ry_case_id a) h m"
proof -
  from assms(1) obtain x row where x: "check_fact_assertion (accepted_assertion mh a msg c bound fp n now) = Inr x"
    and app: "append_case_fact_assertion d x fp = Inr (row, d1)"
    and m: "check_merge_decision \<lparr>md_accepted = True, md_reason_code = reason,
        md_assertion_id = Some (fa_assertion_id x), md_candidate_batch_hash = Some h\<rparr> = Inr m"
    by (auto simp: bindE_eq_Inr)
  from x have x': "x = accepted_assertion mh a msg c bound fp n now"
    by (simp add: check_fact_assertion_def split: if_splits)
  have id: "fa_assertion_id x = ''fact_'' @ take 24 fp" "fa_case_id x = ry_case_id a"
    by (simp_all add: x' accepted_assertion_def)
  from append_assertion_listed [OF app keyed id(1)] append_case_fact_assertion_frame [OF app] m check_merge_decision_id [OF m]
  show ?thesis unfolding id(2) by (simp add: decision_backed_def)
qed

lemma merge_candidates_backed:
  assumes "merge_candidates sha mh casefold parse now d a msg qid code existing proof = Inr (m, d1)"
    and "facts_keyed d"
  shows "(\<exists>rows. d1 = d\<lparr>db_fact_assertions := rows\<rparr>) \<and> facts_keyed d1 \<and>
    decision_backed d1 (ry_case_id a) (candidate_batch_hash sha (ry_candidates a)) m"
proof -
  let ?h = "candidate_batch_hash sha (ry_candidates a)"
  have same: "(\<exists>rows. d1 = d\<lparr>db_fact_assertions := rows\<rparr>) \<and> facts_keyed d1 \<and> decision_backed d1 (ry_case_id a) ?h m"
    if "bindE (refusal reason ?h) (\<lambda>dec. Inr (dec, d)) = Inr (m, d1)" for reason
    using refusal_backed [OF that, of "ry_case_id a"] assms(2) by (auto intro: exI [of _ "db_fact_assertions d"])
  show ?thesis
  proof (cases "validate_candidate_batch parse (ry_candidates a)")
    case (Inl e)
    with assms(1) show ?thesis by (intro same) (simp add: merge_candidates_def Let_def)
  next
    case (Inr cs)
    then consider "cs = []" | c x ys where "cs = c # x # ys" | c where "cs = [c]"
      by (metis neq_Nil_conv)
    then show ?thesis
    proof cases
      case 3
      let ?v = "validate_fact_candidate casefold c (ry_case_id a) (msr_case_id msg) (msr_role msg) (msr_content msg)
        code (active_assertions existing) proof"
      show ?thesis
      proof (cases ?v)
        case (Inl e)
        with assms(1) Inr 3 show ?thesis
          by (intro same) (simp add: merge_candidates_def Let_def split: if_splits)
      next
        case (Inr bound)
        with assms(1) \<open>validate_candidate_batch parse (ry_candidates a) = Inr cs\<close> 3 show ?thesis
          by (intro accepted_backed [OF _ assms(2)]) (simp only: merge_candidates_def Let_def sum.case list.case)
      qed
    qed (use assms(1) Inr in \<open>intro same, simp add: merge_candidates_def Let_def\<close>)+
  qed
qed

lemma mapE_question_ids: "mapE question_from_row rows = Inr qs \<Longrightarrow> map fq_question_id qs = map fqr_question_id rows"
proof (induction rows arbitrary: qs)
  case (Cons r rows)
  then obtain q qs' where q: "question_from_row r = Inr q" "mapE question_from_row rows = Inr qs'" "qs = q # qs'"
    by (auto simp: bindE_eq_Inr)
  from q(1) have "fq_question_id q = fqr_question_id r"
    by (auto simp: question_from_row_def bindE_eq_Inr check_fact_question_def split: if_splits)
  with Cons.IH [OF q(2)] q(3) show ?case by simp
qed simp

lemma verify_own_consumption:
  assumes "decision_backed d1 (ry_case_id a) (candidate_batch_hash sha (ry_candidates a)) m"
    and "mapE assertion_from_row (list_case_fact_assertions d1 (ry_case_id a)) = Inr as"
    and "get_message d (ry_source_message_id a) = Some msg"
    and "msr_case_id msg = Some (ry_case_id a)" "msr_role msg = ''customer''" and "qid \<in> set qids"
  shows "verify_consumption mh d (ry_case_id a) qids (map fa_assertion_id as)
    (consumption_row_of sha mh a msg qid m now) = Inr ()"
  using assms mapE_assertion_ids [OF assms(2)]
  by (cases "md_accepted m")
    (auto simp: verify_consumption_def consumption_row_of_def Let_def decision_backed_def image_image)

lemma append_consumption_Inr:
  assumes "append_case_fact_message_consumption d row = Inr (row', d')"
    and "get_case_fact_consumption_for_question d (fcr_question_id row) = None"
    and "get_case_fact_consumption_for_message d (fcr_source_message_id row) = None"
  shows "d' = d\<lparr>db_fact_consumptions := db_fact_consumptions d @ [row]\<rparr>"
  using assms by (auto simp: append_case_fact_message_consumption_def bindE_eq_Inr dest: insert_fact_consumption_frame)

lemma consume_reply_Inr:
  assumes run: "consume_reply sha mh casefold parse t d a msg qid code = Inr (r, d')" and keyed: "facts_keyed d"
    and msg: "get_message d (ry_source_message_id a) = Some msg" "msr_case_id msg = Some (ry_case_id a)"
      "msr_role msg = ''customer''"
    and q: "qid \<in> fqr_question_id ` set (list_case_fact_questions d (ry_case_id a))"
    and new: "get_case_fact_consumption_for_question d qid = None"
      "get_case_fact_consumption_for_message d (ry_source_message_id a) = None"
  obtains as ss where
    "d' = d\<lparr>db_fact_assertions := as, db_fact_snapshots := ss, db_fact_consumptions := db_fact_consumptions d @
       [consumption_row_of sha mh a msg qid (ac_merge_decision r) (t 2)]\<rparr>"
    "facts_keyed d'" "check_merge_decision (ac_merge_decision r) = Inr (ac_merge_decision r)"
    "check_fact_snapshot (ac_snapshot r) = Inr (ac_snapshot r)"
    "\<exists>stored. get_case_fact_snapshot d' (ry_case_id a) = Some stored \<and> fsr_snapshot_payload stored = ac_snapshot r \<and>
       fsr_revision stored = int (sn_revision (ac_snapshot r)) \<and>
       fsr_snapshot_hash stored = sn_snapshot_hash (ac_snapshot r)"
    "\<And>now. is_aware now \<Longrightarrow>
       rebuild_from_rows sha mh d' (ry_case_id a) now = Inr ((ac_snapshot r)\<lparr>sn_rebuilt_at := now\<rparr>)"
proof -
  let ?k = "ry_case_id a" and ?h = "candidate_batch_hash sha (ry_candidates a)"
  from run obtain existing pc m d1 s d2 row where
    m: "merge_candidates sha mh casefold parse (t 0) d a msg qid code existing pc = Inr (m, d1)"
    and st: "rebuild_and_store sha mh d1 ?k (t 1) = Inr (s, d2)"
    and app: "append_case_fact_message_consumption d2 (consumption_row_of sha mh a msg qid m (t 2)) = Inr (row, d')"
    and r: "r = \<lparr>ac_snapshot = s, ac_merge_decision = m\<rparr>"
    by (auto simp: consume_reply_def bindE_eq_Inr)
  let ?c = "consumption_row_of sha mh a msg qid m (t 2)"
  from merge_candidates_backed [OF m keyed] obtain as where d1: "d1 = d\<lparr>db_fact_assertions := as\<rparr>"
    and keyed1: "facts_keyed d1" and backed: "decision_backed d1 ?k ?h m" by blast
  from st obtain ss where rb: "rebuild_from_rows sha mh d1 ?k (t 1) = Inr s"
    and d2: "d2 = d1\<lparr>db_fact_snapshots := ss\<rparr>" and valid: "check_fact_snapshot s = Inr s"
    and stored: "\<exists>stored. get_case_fact_snapshot d2 ?k = Some stored \<and> fsr_snapshot_payload stored = s \<and>
       fsr_revision stored = int (sn_revision s) \<and> fsr_snapshot_hash stored = sn_snapshot_hash s"
    by (rule rebuild_and_store_Inr) blast
  have d': "d' = d2\<lparr>db_fact_consumptions := db_fact_consumptions d2 @ [?c]\<rparr>"
    using new by (intro append_consumption_Inr [OF app]) (simp_all add: d1 d2 consumption_row_of_def Let_def
        get_case_fact_consumption_for_question_def get_case_fact_consumption_for_message_def)
  have rebuilds: "rebuild_from_rows sha mh d' ?k now = Inr (s\<lparr>sn_rebuilt_at := now\<rparr>)" if now: "is_aware now" for now
    using rb
  proof (rule rebuild_from_rows_Inr)
    fix xs qs p
    assume x: "mapE assertion_from_row (list_case_fact_assertions d1 ?k) = Inr xs"
      "for_each (verify_message_hash mh d1) xs = Inr ()"
      "mapE question_from_row (list_case_fact_questions d1 ?k) = Inr qs"
      "for_each (verify_consumption mh d1 ?k (map fq_question_id qs) (map fa_assertion_id xs))
         (list_case_fact_message_consumptions d1 ?k) = Inr ()"
      "current_proof_context d1 ?k = Inr p" "rebuild_case_fact_snapshot sha ?k xs qs p (t 1) = Inr s"
    have same: "list_case_fact_assertions d' ?k = list_case_fact_assertions d1 ?k"
      "list_case_fact_questions d' ?k = list_case_fact_questions d1 ?k"
      "current_proof_context d' ?k = current_proof_context d1 ?k"
      by (simp_all add: d' d2 list_case_fact_assertions_def list_case_fact_questions_def current_proof_context_def
          list_tool_calls_def)
    have gm: "get_message d' = get_message d1" "get_message d1 = get_message d"
      by (intro ext; simp add: d' d2 d1 get_message_def)+
    have vm: "verify_message_hash mh d' = verify_message_hash mh d1"
      and vc: "verify_consumption mh d' = verify_consumption mh d1"
      by (intro ext; simp add: verify_message_hash_def verify_consumption_def gm)+
    have "set (list_case_fact_message_consumptions d' ?k) \<subseteq> insert ?c (set (list_case_fact_message_consumptions d1 ?k))"
      by (auto simp: d' d2 list_case_fact_message_consumptions_def)
    moreover have "qid \<in> set (map fq_question_id qs)"
      using q mapE_question_ids [OF x(3)] by (simp add: d1 list_case_fact_questions_def)
    then have "verify_consumption mh d1 ?k (map fq_question_id qs) (map fa_assertion_id xs) ?c = Inr ()"
      using msg by (intro verify_own_consumption [OF backed x(1)]) (simp_all add: gm)
    ultimately have "for_each (verify_consumption mh d1 ?k (map fq_question_id qs) (map fa_assertion_id xs))
         (list_case_fact_message_consumptions d' ?k) = Inr ()"
      using x(4) unfolding for_each_Inr by blast
    with rebuild_snapshot_later [OF x(6) now] show ?thesis
      by (simp only: rebuild_from_rows_def same vm vc x bindE_simps)
  qed
  show thesis
  proof (rule that [where as = as and ss = ss])
    show "d' = d\<lparr>db_fact_assertions := as, db_fact_snapshots := ss, db_fact_consumptions := db_fact_consumptions d @
       [consumption_row_of sha mh a msg qid (ac_merge_decision r) (t 2)]\<rparr>"
      by (simp add: d' d2 d1 r)
    show "facts_keyed d'" using keyed1 by (simp add: facts_keyed_def d' d2)
    show "check_merge_decision (ac_merge_decision r) = Inr (ac_merge_decision r)"
      using backed by (simp add: decision_backed_def r)
    show "check_fact_snapshot (ac_snapshot r) = Inr (ac_snapshot r)" using valid by (simp add: r)
    show "\<exists>stored. get_case_fact_snapshot d' ?k = Some stored \<and> fsr_snapshot_payload stored = ac_snapshot r \<and>
       fsr_revision stored = int (sn_revision (ac_snapshot r)) \<and>
       fsr_snapshot_hash stored = sn_snapshot_hash (ac_snapshot r)"
      using stored by (simp add: d' r get_case_fact_snapshot_def)
    show "rebuild_from_rows sha mh d' ?k now = Inr ((ac_snapshot r)\<lparr>sn_rebuilt_at := now\<rparr>)" if "is_aware now" for now
      using rebuilds [OF that] by (simp add: r)
  qed
qed

section \<open>Replaying a reply\<close>

text \<open>What holds of the database once the reply \<open>a\<close> has been answered with \<open>r\<close>.\<close>

definition answered ::
  "(json \<Rightarrow> string) \<Rightarrow> (utext \<Rightarrow> string) \<Rightarrow> database \<Rightarrow> reply_args \<Rightarrow> acceptance \<Rightarrow> bool" where
  "answered sha mh d a r \<longleftrightarrow>
     (\<exists>c m q code e stored. get_case d (ry_case_id a) = Some c \<and> icr_case_state c = ''awaiting_customer_input'' \<and>
        get_message d (ry_source_message_id a) = Some m \<and>
        last_opt (list_case_fact_questions d (ry_case_id a)) = Some q \<and> fact_code_of (fqr_fact_code q) = Inr code \<and>
        get_case_fact_consumption_for_message d (ry_source_message_id a) = Some e \<and>
        fcr_case_id e = ry_case_id a \<and> fcr_question_id e = fqr_question_id q \<and>
        fcr_source_message_hash e = mh (msr_content m) \<and>
        fcr_candidate_batch_hash e = candidate_batch_hash sha (ry_candidates a) \<and>
        check_merge_decision (fcr_decision_payload e) = Inr (ac_merge_decision r) \<and>
        check_fact_snapshot (ac_snapshot r) = Inr (ac_snapshot r) \<and> sn_case_id (ac_snapshot r) = ry_case_id a \<and>
        get_case_fact_snapshot d (ry_case_id a) = Some stored \<and> fsr_snapshot_payload stored = ac_snapshot r \<and>
        fsr_revision stored = int (sn_revision (ac_snapshot r)) \<and>
        fsr_snapshot_hash stored = sn_snapshot_hash (ac_snapshot r)) \<and>
     (\<forall>now. is_aware now \<longrightarrow>
        rebuild_from_rows sha mh d (ry_case_id a) now = Inr ((ac_snapshot r)\<lparr>sn_rebuilt_at := now\<rparr>))"

lemma store_same_revision:
  assumes "get_case_fact_snapshot d (sn_case_id s) = Some stored" and "fsr_revision stored = int (sn_revision s)"
    and "is_aware (sn_rebuilt_at s)"
  shows "\<exists>row rows. store_case_fact_snapshot d s = Inr (row, d\<lparr>db_fact_snapshots := rows\<rparr>)"
proof -
  have "clash fact_snapshot_table q r \<Longrightarrow> tbl_key fact_snapshot_table q = tbl_key fact_snapshot_table r" for q r
    by (simp add: clash_def fact_snapshot_table_def)
  then have "\<exists>rows. update_row fact_snapshot_table xs (stored\<lparr>fsr_revision := int (sn_revision s),
      fsr_snapshot_hash := sn_snapshot_hash s, fsr_snapshot_payload := s, fsr_rebuilt_at := sn_rebuilt_at s\<rparr>) = Inr rows"
    for xs using assms(3) by (auto simp: update_row_Inr check_row_Inr fact_snapshot_table_def)
  then obtain rows where "update_row fact_snapshot_table (db_fact_snapshots d)
      (stored\<lparr>fsr_revision := int (sn_revision s), fsr_snapshot_hash := sn_snapshot_hash s,
        fsr_snapshot_payload := s, fsr_rebuilt_at := sn_rebuilt_at s\<rparr>) = Inr rows" by blast
  then show ?thesis
    using assms(1,2) by (simp add: store_case_fact_snapshot_def update_fact_snapshot_row_def Let_def) blast
qed

lemma answered_replays:
  assumes ans: "answered sha mh d a r" and now: "is_aware (t 0)"
  shows "\<exists>rows. accept_message sha mh casefold parse t d a =
    Inr (r\<lparr>ac_snapshot := (ac_snapshot r)\<lparr>sn_rebuilt_at := t 0\<rparr>\<rparr>, d\<lparr>db_fact_snapshots := rows\<rparr>)"
proof -
  let ?s = "(ac_snapshot r)\<lparr>sn_rebuilt_at := t 0\<rparr>"
  from ans obtain c m q code e stored where
    a: "get_case d (ry_case_id a) = Some c" "icr_case_state c = ''awaiting_customer_input''"
      "get_message d (ry_source_message_id a) = Some m"
      "last_opt (list_case_fact_questions d (ry_case_id a)) = Some q" "fact_code_of (fqr_fact_code q) = Inr code"
      "get_case_fact_consumption_for_message d (ry_source_message_id a) = Some e"
    and e: "fcr_case_id e = ry_case_id a" "fcr_question_id e = fqr_question_id q"
      "fcr_source_message_hash e = mh (msr_content m)"
      "fcr_candidate_batch_hash e = candidate_batch_hash sha (ry_candidates a)"
      "check_merge_decision (fcr_decision_payload e) = Inr (ac_merge_decision r)"
    and s: "sn_case_id (ac_snapshot r) = ry_case_id a" "get_case_fact_snapshot d (ry_case_id a) = Some stored"
      "fsr_revision stored = int (sn_revision (ac_snapshot r))"
    unfolding answered_def by blast
  from ans now have rb: "rebuild_from_rows sha mh d (ry_case_id a) (t 0) = Inr ?s"
    unfolding answered_def by blast
  have "\<exists>row rows. store_case_fact_snapshot d ?s = Inr (row, d\<lparr>db_fact_snapshots := rows\<rparr>)"
    using s now by (intro store_same_revision [of _ _ stored]) simp_all
  then obtain rows where "rebuild_and_store sha mh d (ry_case_id a) (t 0) = Inr (?s, d\<lparr>db_fact_snapshots := rows\<rparr>)"
    by (auto simp: rebuild_and_store_def rb)
  then have "replay_reply sha mh t d a m (fqr_question_id q) e =
      Inr (\<lparr>ac_snapshot = ?s, ac_merge_decision = ac_merge_decision r\<rparr>, d\<lparr>db_fact_snapshots := rows\<rparr>)"
    by (simp add: replay_reply_def e)
  then show ?thesis using a by (auto simp: accept_message_def require_case_def require_row_def)
qed

lemma answered_loads:
  assumes "answered sha mh d a r" and "is_aware now"
  shows "load_snapshot sha mh d now (ry_case_id a) verify = Inr ((ac_snapshot r)\<lparr>sn_rebuilt_at := now\<rparr>)"
  using assms unfolding answered_def by (auto simp: require_case_def intro: load_snapshot_stored)

lemma replay_answered:
  assumes run: "replay_reply sha mh t d a m (fqr_question_id q) e = Inr (r, d')"
    and a: "get_case d (ry_case_id a) = Some c" "icr_case_state c = ''awaiting_customer_input''"
      "get_message d (ry_source_message_id a) = Some m"
      "last_opt (list_case_fact_questions d (ry_case_id a)) = Some q" "fact_code_of (fqr_fact_code q) = Inr code"
      "get_case_fact_consumption_for_message d (ry_source_message_id a) = Some e"
  shows "answered sha mh d' a r"
proof -
  from run obtain s dec where st: "rebuild_and_store sha mh d (ry_case_id a) (t 0) = Inr (s, d')"
    and dec: "check_merge_decision (fcr_decision_payload e) = Inr dec"
    and r: "r = \<lparr>ac_snapshot = s, ac_merge_decision = dec\<rparr>"
    and e: "fcr_case_id e = ry_case_id a" "fcr_question_id e = fqr_question_id q"
      "fcr_source_message_hash e = mh (msr_content m)"
      "fcr_candidate_batch_hash e = candidate_batch_hash sha (ry_candidates a)"
    unfolding replay_reply_def by (auto simp: bindE_eq_Inr split: if_splits)
  from st show ?thesis
  proof (rule rebuild_and_store_Inr)
    fix rows
    assume s: "rebuild_from_rows sha mh d (ry_case_id a) (t 0) = Inr s" "d' = d\<lparr>db_fact_snapshots := rows\<rparr>"
      "sn_case_id s = ry_case_id a" "check_fact_snapshot s = Inr s"
      "\<exists>stored. get_case_fact_snapshot d' (ry_case_id a) = Some stored \<and> fsr_snapshot_payload stored = s \<and>
         fsr_revision stored = int (sn_revision s) \<and> fsr_snapshot_hash stored = sn_snapshot_hash s"
    have "rebuild_from_rows sha mh d' (ry_case_id a) now = rebuild_from_rows sha mh d (ry_case_id a) now" for now
      by (rule rebuild_from_rows_cong) (simp_all add: s(2))
    with rebuild_from_rows_later [OF s(1)]
    have "\<forall>now. is_aware now \<longrightarrow> rebuild_from_rows sha mh d' (ry_case_id a) now = Inr (s\<lparr>sn_rebuilt_at := now\<rparr>)"
      by simp
    moreover have "get_case d' = get_case d" "get_message d' = get_message d"
      "list_case_fact_questions d' = list_case_fact_questions d"
      "get_case_fact_consumption_for_message d' = get_case_fact_consumption_for_message d"
      by (intro ext; simp add: s(2) get_case_def get_message_def list_case_fact_questions_def
          get_case_fact_consumption_for_message_def)+
    ultimately show ?thesis unfolding answered_def using a e dec s(3-5) by (auto simp: r)
  qed
qed

lemma consume_answered:
  assumes run: "consume_reply sha mh casefold parse t d a m (fqr_question_id q) code = Inr (r, d')"
    and a: "get_case d (ry_case_id a) = Some c" "icr_case_state c = ''awaiting_customer_input''"
      "get_message d (ry_source_message_id a) = Some m"
      "last_opt (list_case_fact_questions d (ry_case_id a)) = Some q" "fact_code_of (fqr_fact_code q) = Inr code"
      "get_case_fact_consumption_for_message d (ry_source_message_id a) = None"
    and g: "reply_guard d c m q = Inr ()" and keyed: "facts_keyed d"
  shows "answered sha mh d' a r"
proof -
  have c: "icr_case_id c = ry_case_id a"
    using get_row_key [OF a(1) [unfolded get_case_def]] by (simp add: case_table_def)
  from g c have m: "msr_case_id m = Some (ry_case_id a)" "msr_role m = ''customer''"
    and q: "get_case_fact_consumption_for_question d (fqr_question_id q) = None"
    by (simp_all add: reply_guard_def split: if_splits)
  have listed: "fqr_question_id q \<in> fqr_question_id ` set (list_case_fact_questions d (ry_case_id a))"
    using last_opt_SomeD [OF a(4)] by blast
  from run keyed a(3) m listed q a(6) show ?thesis
  proof (rule consume_reply_Inr)
    fix as ss
    let ?e = "consumption_row_of sha mh a m (fqr_question_id q) (ac_merge_decision r) (t 2)"
    assume d': "d' = d\<lparr>db_fact_assertions := as, db_fact_snapshots := ss,
        db_fact_consumptions := db_fact_consumptions d @ [?e]\<rparr>"
      and dec: "check_merge_decision (ac_merge_decision r) = Inr (ac_merge_decision r)"
      and s: "check_fact_snapshot (ac_snapshot r) = Inr (ac_snapshot r)"
        "\<exists>stored. get_case_fact_snapshot d' (ry_case_id a) = Some stored \<and> fsr_snapshot_payload stored = ac_snapshot r \<and>
           fsr_revision stored = int (sn_revision (ac_snapshot r)) \<and>
           fsr_snapshot_hash stored = sn_snapshot_hash (ac_snapshot r)"
      and rb: "\<And>now. is_aware now \<Longrightarrow>
         rebuild_from_rows sha mh d' (ry_case_id a) now = Inr ((ac_snapshot r)\<lparr>sn_rebuilt_at := now\<rparr>)"
    from rb [of "Aware 0"] have "sn_case_id (ac_snapshot r) = ry_case_id a"
      by (auto elim!: rebuild_from_rows_Inr dest!: rebuild_case_fact_snapshot_valid)
    moreover have "get_case d' = get_case d" "get_message d' = get_message d"
      "list_case_fact_questions d' = list_case_fact_questions d"
      by (intro ext; simp add: d' get_case_def get_message_def list_case_fact_questions_def)+
    moreover have "get_case_fact_consumption_for_message d' (ry_source_message_id a) = Some ?e"
      using a(6) by (simp add: d' get_case_fact_consumption_for_message_def find_snoc consumption_row_of_def Let_def)
    moreover have "fcr_case_id ?e = ry_case_id a" "fcr_question_id ?e = fqr_question_id q"
      "fcr_source_message_hash ?e = mh (msr_content m)" "fcr_decision_payload ?e = ac_merge_decision r"
      "fcr_candidate_batch_hash ?e = candidate_batch_hash sha (ry_candidates a)"
      by (simp_all add: consumption_row_of_def Let_def)
    ultimately show ?thesis unfolding answered_def using a dec s rb by auto
  qed
qed

lemma accept_message_answered:
  assumes run: "accept_message sha mh casefold parse t d a = Inr (r, d')" and keyed: "facts_keyed d"
  shows "answered sha mh d' a r"
proof -
  from run obtain c m q code where
    a: "get_case d (ry_case_id a) = Some c" "icr_case_state c = ''awaiting_customer_input''"
      "get_message d (ry_source_message_id a) = Some m"
      "last_opt (list_case_fact_questions d (ry_case_id a)) = Some q" "fact_code_of (fqr_fact_code q) = Inr code"
    and rest: "(case get_case_fact_consumption_for_message d (ry_source_message_id a) of
        Some existing \<Rightarrow> replay_reply sha mh t d a m (fqr_question_id q) existing
      | None \<Rightarrow> bindE (reply_guard d c m q) (\<lambda>_.
          consume_reply sha mh casefold parse t d a m (fqr_question_id q) code)) = Inr (r, d')"
    by (auto simp: accept_message_def require_case_def bindE_eq_Inr split: if_splits option.splits)
  show ?thesis
  proof (cases "get_case_fact_consumption_for_message d (ry_source_message_id a)")
    case None
    with rest have "reply_guard d c m q = Inr ()"
      "consume_reply sha mh casefold parse t d a m (fqr_question_id q) code = Inr (r, d')"
      by (auto simp: bindE_eq_Inr)
    with a None keyed show ?thesis by (blast intro: consume_answered)
  next
    case (Some e)
    with rest a show ?thesis by (auto intro: replay_answered)
  qed
qed

text \<open>C15. Once a reply is accepted, what the service stored is what it reads: loading the snapshot succeeds, with
  the integrity checks over messages, questions and the consumption ledger, and yields the accepted snapshot;
  and the same reply sent again is answered with the same decision and changes no table but the derived
  snapshots.\<close>

theorem accepted_reply_reloads_and_replays:
  assumes "facts_keyed d" and "accept_message sha mh casefold parse t d a = Inr (r, d')"
    and "is_aware now" and "is_aware (t' 0)"
  shows "load_snapshot sha mh d' now (ry_case_id a) verify = Inr ((ac_snapshot r)\<lparr>sn_rebuilt_at := now\<rparr>) \<and>
    (\<exists>rows. accept_message sha mh casefold' parse' t' d' a =
       Inr (r\<lparr>ac_snapshot := (ac_snapshot r)\<lparr>sn_rebuilt_at := t' 0\<rparr>\<rparr>, d'\<lparr>db_fact_snapshots := rows\<rparr>))"
proof -
  have "answered sha mh d' a r" using assms(1,2) by (intro accept_message_answered)
  then show ?thesis using answered_loads answered_replays assms(3,4) by blast
qed

text \<open>A case that has asked whether the parcel is still missing, and the reply "\<open>not received\<close>".\<close>

definition reply_database :: database where
  "reply_database = empty_database\<lparr>
     db_conversations := [\<lparr>cvr_conversation_id = ''conv1'', cvr_customer_id = ''cust1'',
       cvr_fixture_customer_key = ''cust1'', cvr_fixture_version = ''fixture-v1'', cvr_llm_mode = ''mock'',
       cvr_active_case_id = Some ''case1'', cvr_next_event_sequence = 0, cvr_created_at = Aware 0,
       cvr_updated_at = Aware 0\<rparr>],
     db_messages := [\<lparr>msr_message_id = ''msg1'', msr_conversation_id = ''conv1'', msr_case_id = Some ''case1'',
       msr_run_id = None, msr_role = ''customer'', msr_content = w_missing, msr_trace_id = None,
       msr_created_at = Aware 2\<rparr>],
     db_cases := [\<lparr>icr_case_id = ''case1'', icr_conversation_id = ''conv1'', icr_customer_id = ''cust1'',
       icr_related_case_id = None, icr_authorized_order_id = ''ORD-001'', icr_target_shipment_id = None,
       icr_reported_issue_type = ''signed_not_received'', icr_canonical_issue_type = ''signed_not_received'',
       icr_issue_type_revision_history = [], icr_case_state = ''awaiting_customer_input'', icr_case_outcome = None,
       icr_reason_code = None, icr_business_clarification_count = 1, icr_actual_read_tool_execution_count = 0,
       icr_agent_planning_turn_count = 0, icr_active_proposal_id = None, icr_revision = 1,
       icr_created_at = Aware 0, icr_updated_at = Aware 0, icr_closed_at = None\<rparr>],
     db_fact_questions := [\<lparr>fqr_question_id = ''q1'', fqr_case_id = ''case1'',
       fqr_fact_code = ''customer_still_reports_missing'', fqr_context_result_hash = None,
       fqr_targeted_conflict = False, fqr_asked_at = Aware 1\<rparr>]\<rparr>"

definition missing_reply :: reply_args where
  "missing_reply = \<lparr>ry_case_id = ''case1'', ry_source_message_id = ''msg1'',
     ry_candidates = [Typed \<lparr>cd_fact_code = FC_STILL_MISSING, cd_value = FV_TRUE, cd_relation_hint = RH_NEW,
       cd_target_assertion_id = None, cd_span_start = 0, cd_span_end = 3\<rparr>],
     ry_extractor_kind = deterministic_extractor, ry_extractor_version = extractor_version\<rparr>"

definition accept_sample :: "(acceptance \<times> database) result" where
  "accept_sample = accept_message (\<lambda>_. w_hash) (\<lambda>_. w_hash) (\<lambda>x. x) (\<lambda>_. Inl (ValueError ''candidate''))
     (\<lambda>_. Aware 3) reply_database missing_reply"

text \<open>The sample accepts: the steps of the method, one by one.\<close>

lemmas sample_tables = get_row_def case_table_def message_table_def fact_assertion_table_def fact_question_table_def
  fact_consumption_table_def fact_snapshot_table_def tool_call_table_def empty_database_def insert_row_def check_row_def
  clash_def has_row_def has_opt_row_def opt_list_def reply_database_def require_case_def require_row_def get_case_def
  get_message_def Let_def

definition reply_assertion :: fact_assertion where
  "reply_assertion = (w_assertion (''fact_'' @ take 24 w_hash) FC_STILL_MISSING FV_TRUE RH_NEW None 1)
     \<lparr>fa_source_message_id := ''msg1'', fa_span_end := 3, fa_recorded_at := Aware 3\<rparr>"

definition reply_assertion_row :: fact_assertion_row where
  "reply_assertion_row = \<lparr>far_assertion_id = ''fact_'' @ take 24 w_hash, far_case_id = ''case1'',
     far_fact_code = ''customer_still_reports_missing'', far_value = ''true'', far_source_message_id = ''msg1'',
     far_source_message_hash = w_hash, far_source_span_start = 0, far_source_span_end = 3, far_relation = ''new'',
     far_supersedes_assertion_id = None, far_extractor_kind = ''deterministic'',
     far_extractor_version = ''case-fact-deterministic-v1'', far_context_tool_call_id = None,
     far_context_result_hash = None, far_assertion_sequence = 1, far_candidate_fingerprint = w_hash,
     far_recorded_at = Aware 3\<rparr>"

definition reply_decision :: merge_decision where
  "reply_decision = \<lparr>md_accepted = True, md_reason_code = ''ACCEPTED_DETERMINISTIC_INTERPRETATION'',
     md_assertion_id = Some (fa_assertion_id reply_assertion), md_candidate_batch_hash = Some w_hash\<rparr>"

abbreviation merged_database :: database where
  "merged_database \<equiv> reply_database\<lparr>db_fact_assertions := [reply_assertion_row]\<rparr>"

lemma w_hash_hex: "is_sha256_hex w_hash" by code_simp

lemma reply_checks:
  "check_fact_assertion reply_assertion = Inr reply_assertion"
  "check_merge_decision reply_decision = Inr reply_decision"
  by (simp_all add: reply_assertion_def w_assertion_def check_fact_assertion_def w_hash_hex opt_in_def
      targeted_relation_def reply_decision_def check_merge_decision_def)

lemma reply_interpreted: "authoritative_interpretation (\<lambda>x. x) w_missing FC_STILL_MISSING [] None =
   Inr \<lparr>cd_fact_code = FC_STILL_MISSING, cd_value = FV_TRUE, cd_relation_hint = RH_NEW,
       cd_target_assertion_id = None, cd_span_start = 0, cd_span_end = 3\<rparr>"
  by (simp add: w_missing_def authoritative_interpretation_def supported_value_def cue_simps is_space_def
      check_fact_candidate_def targeted_relation_def opt_in_def)

lemma reply_appended:
  "append_case_fact_assertion reply_database reply_assertion w_hash = Inr (reply_assertion_row, merged_database)"
  by (simp add: append_case_fact_assertion_def reply_assertion_def w_assertion_def reply_assertion_row_def
      find_case_fact_candidate_def list_case_fact_assertions_def insert_fact_assertion_def refs_fact_assertion_def
      sample_tables)

lemma reply_merged:
  "merge_candidates (\<lambda>_. w_hash) (\<lambda>_. w_hash) (\<lambda>x. x) parse (Aware 3) reply_database missing_reply
    (hd (db_messages reply_database)) ''q1'' FC_STILL_MISSING [] None = Inr (reply_decision, merged_database)"
proof -
  let ?c = "\<lparr>cd_fact_code = FC_STILL_MISSING, cd_value = FV_TRUE, cd_relation_hint = RH_NEW,
       cd_target_assertion_id = None, cd_span_start = 0, cd_span_end = 3\<rparr>" and ?m = "hd (db_messages reply_database)"
  have "validate_candidate_batch parse (ry_candidates missing_reply) = Inr [?c]"
    by (simp add: missing_reply_def validate_candidate_batch_def)
  moreover have "msr_content ?m = w_missing" "msr_role ?m = ''customer''"
     "msr_case_id ?m = Some ''case1''" "ry_case_id missing_reply = ''case1''"
    by (simp_all add: reply_database_def missing_reply_def)
  moreover have "accepted_assertion (\<lambda>_. w_hash) missing_reply ?m ?c None w_hash 0 (Aware 3) = reply_assertion"
    by (simp add: accepted_assertion_def missing_reply_def reply_assertion_def w_assertion_def
        deterministic_extractor_def extractor_version_def)
  ultimately show ?thesis
    by (simp add: merge_candidates_def Let_def validate_fact_candidate_def active_assertions_def reply_interpreted
      candidate_fingerprint_def candidate_batch_hash_def stable_json_hash_def reply_appended reply_checks(1)
      reply_checks(2) [unfolded reply_decision_def] reply_decision_def)
qed

lemma reply_no_proof: "current_proof_context reply_database k = Inr None"
  "current_proof_context merged_database k = Inr None"
  by (simp_all add: current_proof_context_def list_tool_calls_def sample_tables)

lemma reply_read_back: "assertion_from_row reply_assertion_row = Inr reply_assertion"
proof -
  let ?r = reply_assertion_row
  have "\<lparr>fa_assertion_id = far_assertion_id ?r, fa_case_id = far_case_id ?r, fa_fact_code = FC_STILL_MISSING,
      fa_value = FV_TRUE, fa_source_message_id = far_source_message_id ?r,
      fa_source_message_hash = far_source_message_hash ?r, fa_span_start = far_source_span_start ?r,
      fa_span_end = far_source_span_end ?r, fa_relation = RH_NEW, fa_supersedes = far_supersedes_assertion_id ?r,
      fa_extractor_kind = far_extractor_kind ?r, fa_extractor_version = far_extractor_version ?r,
      fa_context_tool_call_id = far_context_tool_call_id ?r, fa_context_result_hash = far_context_result_hash ?r,
      fa_sequence = far_assertion_sequence ?r, fa_recorded_at = far_recorded_at ?r\<rparr> = reply_assertion"
    by (simp add: reply_assertion_row_def reply_assertion_def w_assertion_def)
  moreover have "fact_code_of (far_fact_code reply_assertion_row) = Inr FC_STILL_MISSING"
    "member_of fact_value_value all_fact_values ''value'' (far_value reply_assertion_row) = Inr FV_TRUE"
    "member_of relation_hint_value all_relation_hints ''relation'' (far_relation reply_assertion_row) = Inr RH_NEW"
    by (simp_all add: fact_code_of_def member_of_def all_fact_codes_def all_fact_values_def all_relation_hints_def reply_assertion_row_def)
  ultimately show ?thesis by (simp add: assertion_from_row_def reply_checks)
qed

lemma reply_question_read:
  "\<exists>q. mapE question_from_row (list_case_fact_questions merged_database ''case1'') = Inr [q] \<and> fq_fact_code q = FC_STILL_MISSING \<and> fq_case_id q = ''case1'' \<and> \<not> fq_targeted_conflict q"
  by (simp add: list_case_fact_questions_def sample_tables question_from_row_def fact_code_of_def member_of_def all_fact_codes_def check_fact_question_def opt_in_def)

lemma reply_rebuilt_pure:
  assumes "fq_fact_code q = FC_STILL_MISSING" "fq_case_id q = ''case1''" "\<not> fq_targeted_conflict q" 
  shows "\<exists>s. rebuild_case_fact_snapshot (\<lambda>_. w_hash) ''case1'' [reply_assertion] [q] None (Aware 3) = Inr s"
  using assms
  by (simp add: rebuild_case_fact_snapshot_def ordered_assertions_def scan_assertion_def reply_assertion_def w_assertion_def Let_def all_fact_codes_def
   check_question_state_def question_state_for_def check_fact_snapshot_def w_hash_hex)

lemma reply_rebuilt: "\<exists>s. rebuild_from_rows (\<lambda>_. w_hash) (\<lambda>_. w_hash) merged_database ''case1'' (Aware 3) = Inr s"
proof -
  have "list_case_fact_assertions merged_database ''case1'' = [reply_assertion_row]"
    "list_case_fact_message_consumptions merged_database ''case1'' = []"
    by (simp_all add: list_case_fact_assertions_def list_case_fact_message_consumptions_def sample_tables reply_assertion_row_def)
  moreover have "verify_message_hash (\<lambda>_. w_hash) merged_database reply_assertion = Inr ()"
    by (simp add: verify_message_hash_def sample_tables reply_assertion_def w_assertion_def w_missing_def)
  ultimately show ?thesis using reply_question_read reply_rebuilt_pure by (fastforce simp: rebuild_from_rows_def reply_read_back reply_no_proof)
qed

lemma reply_stored:
  "\<exists>s row. rebuild_and_store (\<lambda>_. w_hash) (\<lambda>_. w_hash) merged_database ''case1'' (Aware 3) =
     Inr (s, merged_database\<lparr>db_fact_snapshots := [row]\<rparr>)"
proof -
  from reply_rebuilt obtain s where s: "rebuild_from_rows (\<lambda>_. w_hash) (\<lambda>_. w_hash) merged_database ''case1'' (Aware 3) = Inr s" ..
  then have "check_fact_snapshot s = Inr s" "sn_case_id s = ''case1''"
    by (auto elim!: rebuild_from_rows_Inr dest!: rebuild_case_fact_snapshot_valid)
  then have "\<exists>row. store_case_fact_snapshot merged_database s = Inr (row, merged_database\<lparr>db_fact_snapshots := [row]\<rparr>)"
    by (simp add: store_case_fact_snapshot_def get_case_fact_snapshot_def insert_fact_snapshot_def refs_fact_snapshot_def
        sample_tables check_fact_snapshot_def split: if_splits)
  with s show ?thesis by (auto simp: rebuild_and_store_def)
qed

lemma reply_consumed:
  "\<exists>row d. append_case_fact_message_consumption (merged_database\<lparr>db_fact_snapshots := xs\<rparr>)
     (consumption_row_of (\<lambda>_. w_hash) (\<lambda>_. w_hash) missing_reply (hd (db_messages reply_database)) ''q1'' reply_decision (Aware 3)) =
     Inr (row, d)"
  by (simp add: append_case_fact_message_consumption_def consumption_row_of_def missing_reply_def reply_decision_def
      get_case_fact_consumption_for_question_def get_case_fact_consumption_for_message_def insert_fact_consumption_def
      refs_fact_consumption_def sample_tables reply_assertion_row_def reply_assertion_def w_assertion_def decision_outcome_def)

lemma accept_sample_accepts: "\<exists>r d. accept_sample = Inr (r, d) \<and> ac_merge_decision r = reply_decision"
proof -
  let ?m = "hd (db_messages reply_database)" and ?c = "hd (db_cases reply_database)"
    and ?q = "hd (db_fact_questions reply_database)"
  obtain s row d where s: "rebuild_and_store (\<lambda>_. w_hash) (\<lambda>_. w_hash) merged_database ''case1'' (Aware 3) =
       Inr (s, merged_database\<lparr>db_fact_snapshots := [row]\<rparr>)"
    using reply_stored by blast
  obtain row' d where c: "append_case_fact_message_consumption (merged_database\<lparr>db_fact_snapshots := [row]\<rparr>)
     (consumption_row_of (\<lambda>_. w_hash) (\<lambda>_. w_hash) missing_reply ?m ''q1'' reply_decision (Aware 3)) = Inr (row', d)"
    using reply_consumed by blast
  have id: "ry_case_id missing_reply = ''case1''" "ry_source_message_id missing_reply = ''msg1''"
    by (simp_all add: missing_reply_def)
  have a: "require_case reply_database ''case1'' = Inr ?c" "icr_case_state ?c = ''awaiting_customer_input''"
    "get_message reply_database ''msg1'' = Some ?m"
    "last_opt (list_case_fact_questions reply_database ''case1'') = Some ?q"
    "fact_code_of (fqr_fact_code ?q) = Inr FC_STILL_MISSING" "fqr_question_id ?q = ''q1''"
    "get_case_fact_consumption_for_message reply_database ''msg1'' = None" "load_assertions reply_database ''case1'' = Inr []"
    by (simp_all add: sample_tables list_case_fact_questions_def last_opt_def fact_code_of_def member_of_def
        all_fact_codes_def get_case_fact_consumption_for_message_def load_assertions_def list_case_fact_assertions_def)
  have g: "reply_guard reply_database ?c ?m ?q = Inr ()"
    by (simp add: reply_guard_def sample_tables list_messages_def last_opt_def get_case_fact_consumption_for_question_def)
  show ?thesis
    by (simp add: accept_sample_def accept_message_def id a g consume_reply_def reply_no_proof reply_merged s c)
qed

theorem accepted_reply_reloads_and_replays_witness:
  "\<exists>r d. accept_sample = Inr (r, d) \<and> md_accepted (ac_merge_decision r) \<and>
     load_snapshot (\<lambda>_. w_hash) (\<lambda>_. w_hash) d (Aware 4) ''case1'' True =
       Inr ((ac_snapshot r)\<lparr>sn_rebuilt_at := Aware 4\<rparr>)"
proof -
  obtain r d where r: "accept_sample = Inr (r, d)" "ac_merge_decision r = reply_decision"
    using accept_sample_accepts by blast
  have "facts_keyed reply_database" by (simp add: facts_keyed_def sample_tables)
  from accepted_reply_reloads_and_replays [OF this r(1) [unfolded accept_sample_def], of "Aware 4" "\<lambda>_. Aware 4" True]
  have "load_snapshot (\<lambda>_. w_hash) (\<lambda>_. w_hash) d (Aware 4) (ry_case_id missing_reply) True =
      Inr ((ac_snapshot r)\<lparr>sn_rebuilt_at := Aware 4\<rparr>)" by simp
  moreover have "ry_case_id missing_reply = ''case1''" by (simp add: missing_reply_def)
  moreover have "md_accepted (ac_merge_decision r)" by (simp add: r(2) reply_decision_def)
  ultimately show ?thesis using r(1) by auto
qed

end
