(* ===== verification/Actions.thy ===== *)
theory Actions
  imports DomainModels ToolCache
begin

text \<open>
  \<open>actions/service.py\<close>: the immutable proposal, the identities derived from it, and the evidence snapshot
  that a confirmation compares.

  \<^item> \<open>sha\<close> is the digest of a JSON value, \<open>sha_text\<close> the digest of the UTF-8 encoding of a text.
  \<^item> \<open>case_fact_identity or {}\<close> is \<open>json_or_empty\<close>: \<open>None\<close> and the empty dictionary are the empty dictionary.

  The lemmas show that a proposal that is built is valid, that its evidence hash is the one a confirmation
  recomputes, and that the identities of its action and ticket depend on nothing but the proposal's own.
\<close>

definition json_or_empty :: "json option \<Rightarrow> json" where
  "json_or_empty j = (case j of None \<Rightarrow> JObj [] | Some x \<Rightarrow> x)"

definition evidence_snapshot_hash ::
  "(json \<Rightarrow> string) \<Rightarrow> (string \<times> string) list \<Rightarrow> json \<Rightarrow> json option \<Rightarrow> string" where
  "evidence_snapshot_hash sha critical_result_hashes execution_parameters case_fact_identity =
     sha (normal_json (JObj
       [(''critical_result_hashes'', JObj (map (map_prod (\<lambda>k. k) JStr) critical_result_hashes)),
        (''execution_parameters'', execution_parameters),
        (''case_fact_identity'', json_or_empty case_fact_identity)]))"

definition proposal_parameters :: "string \<Rightarrow> issue_type \<Rightarrow> json \<Rightarrow> string option \<Rightarrow> json" where
  "proposal_parameters order_id issue policy_binding target_shipment_id =
     JObj ([(''order_id'', JStr order_id), (''issue_type'', JStr (issue_type_value issue)),
            (''policy_binding'', policy_binding)] @
           (case target_shipment_id of None \<Rightarrow> [] | Some sid \<Rightarrow> [(''target_shipment_id'', JStr sid)]))"

definition customer_visible_effect :: "string \<Rightarrow> string option \<Rightarrow> utext" where
  "customer_visible_effect order_id target_shipment_id =
     [20026, 34394, 25311, 35746, 21333, 32] @ text_of order_id @
     (if truthy target_shipment_id then [32, 30340, 21253, 35065, 32] @ text_of (the target_shipment_id) else []) @
     [32, 21019, 24314, 19968, 24352, 29289, 27969, 26680, 26597, 24037, 21333, 65307,
      19981, 20250, 36864, 27454, 12289, 36180, 20184, 25110, 20462, 25913, 35746,
      21333, 12290]"

text \<open>The arguments of \<open>build_proposal\<close>.\<close>

record proposal_args =
  pa_proposal_id :: string
  pa_case_id :: string
  pa_version :: int
  pa_order_id :: string
  pa_issue_type :: issue_type
  pa_evidence_refs :: "evidence_ref list"
  pa_critical_result_hashes :: "(string \<times> string) list"
  pa_policy_binding :: json
  pa_target_shipment_id :: "string option"
  pa_case_fact_identity :: "json option"
  pa_now :: datetime

definition after_minutes :: "int \<Rightarrow> datetime \<Rightarrow> datetime" where
  "after_minutes n t =
    (case t of Aware i \<Rightarrow> Aware (i + n * microseconds_per_minute)
     | Naive i \<Rightarrow> Naive (i + n * microseconds_per_minute))"

definition build_proposal :: "(json \<Rightarrow> string) \<Rightarrow> proposal_args \<Rightarrow> action_proposal result" where
  "build_proposal sha a =
    (let parameters = proposal_parameters (pa_order_id a) (pa_issue_type a) (pa_policy_binding a)
                        (pa_target_shipment_id a)
     in check_proposal
       \<lparr>ap_proposal_id = pa_proposal_id a, ap_case_id = pa_case_id a, ap_version = pa_version a,
        ap_proposal_state = PS_PENDING_CONFIRMATION, ap_action_type = CREATE_LOGISTICS_INVESTIGATION_TICKET,
        ap_execution_parameters = parameters,
        ap_customer_visible_effect = customer_visible_effect (pa_order_id a) (pa_target_shipment_id a),
        ap_evidence_refs = pa_evidence_refs a,
        ap_evidence_snapshot_hash =
          evidence_snapshot_hash sha (pa_critical_result_hashes a) parameters (pa_case_fact_identity a),
        ap_case_fact_identity = json_or_empty (pa_case_fact_identity a),
        ap_created_at = pa_now a, ap_expires_at = after_minutes 15 (pa_now a)\<rparr>)"

section \<open>Stable identities\<close>

definition int_str :: "int \<Rightarrow> string" where
  "int_str i = (if i < 0 then ''-'' @ nat_str (nat (- i)) else nat_str (nat i))"

definition action_digest :: "(utext \<Rightarrow> string) \<Rightarrow> action_proposal \<Rightarrow> string" where
  "action_digest sha_text p =
     sha_text (text_of (ap_proposal_id p @ '':'' @ int_str (ap_version p) @ '':'' @
       action_type_value (ap_action_type p)))"

definition stable_action_identity :: "(utext \<Rightarrow> string) \<Rightarrow> action_proposal \<Rightarrow> string \<times> string" where
  "stable_action_identity sha_text p =
    (let digest = action_digest sha_text p in (''act_'' @ take 24 digest, ''idem_'' @ digest))"

definition build_ready_action :: "(utext \<Rightarrow> string) \<Rightarrow> action_proposal \<Rightarrow> action_execution result" where
  "build_ready_action sha_text p =
    (let (action_id, idempotency_key) = stable_action_identity sha_text p
     in check_action \<lparr>ax_action_id = action_id, ax_proposal_id = ap_proposal_id p, ax_action_state = AS_READY,
          ax_idempotency_key = idempotency_key, ax_submitted_at = None, ax_verified_at = None,
          ax_error_code = None\<rparr>)"

text \<open>\<open>str.upper\<close> of the digits of a digest.\<close>

definition upper_hex :: "string \<Rightarrow> string" where
  "upper_hex = map (\<lambda>c. if c \<in> set ''abcdef'' then char_of (of_char c - 32 :: nat) else c)"

definition stable_ticket_id :: "(utext \<Rightarrow> string) \<Rightarrow> string \<Rightarrow> string" where
  "stable_ticket_id sha_text idempotency_key =
     ''TKT-SYN-'' @ upper_hex (take 12 (sha_text (text_of idempotency_key)))"

section \<open>What a proposal promises\<close>

lemma after_minutes_simps [simp]:
  "is_aware (after_minutes n t) = is_aware t"
  "instant (after_minutes n t) = instant t + n * microseconds_per_minute"
  by (simp_all add: after_minutes_def split: datetime.splits)

lemma effect_nonempty [simp]: "customer_visible_effect order_id sid \<noteq> []"
  by (simp add: customer_visible_effect_def)

text \<open>A proposal is refused only for its own identity, its version, an overlong effect, missing evidence or a
  naive clock: its lifetime is always the required one.\<close>

lemma build_proposal_iff:
  "(\<exists>p. build_proposal sha a = Inr p) \<longleftrightarrow>
     pa_proposal_id a \<noteq> [] \<and> pa_case_id a \<noteq> [] \<and> 1 \<le> pa_version a \<and>
     length (customer_visible_effect (pa_order_id a) (pa_target_shipment_id a)) \<le> 2000 \<and>
     pa_evidence_refs a \<noteq> [] \<and> is_aware (pa_now a) \<and>
     is_sha256_hex (evidence_snapshot_hash sha (pa_critical_result_hashes a)
       (proposal_parameters (pa_order_id a) (pa_issue_type a) (pa_policy_binding a) (pa_target_shipment_id a))
       (pa_case_fact_identity a))"
  by (auto simp: build_proposal_def check_proposal_def Let_def proposal_lifetime_def)

lemma build_proposal_hash:
  assumes "build_proposal sha a = Inr p"
  shows "ap_evidence_snapshot_hash p =
    evidence_snapshot_hash sha (pa_critical_result_hashes a) (ap_execution_parameters p)
      (Some (ap_case_fact_identity p))"
  using assms check_proposal_id
  by (fastforce simp: build_proposal_def Let_def evidence_snapshot_hash_def json_or_empty_def)

lemma build_ready_action_identity:
  assumes "build_ready_action sha_text p = Inr a"
  shows "ax_action_id a = fst (stable_action_identity sha_text p)"
    and "ax_idempotency_key a = snd (stable_action_identity sha_text p)"
    and "ax_proposal_id a = ap_proposal_id p" and "ax_action_state a = AS_READY"
  using check_action_id [OF assms [unfolded build_ready_action_def Let_def case_prod_beta]] by simp_all

end
