(* ===== verification/PolicyRag.thy ===== *)
theory PolicyRag
  imports PolicyCorpus "HOL-Library.Product_Lexorder"
begin

text \<open>
  Retrieval and resolution of policy, \<open>policy/rag.py\<close>: the vector index over the corpus, the ranking of its
  entries, the resolver that reloads the canonical clause, and the binding that a proposal carries.

  \<^item> The embedding model is third-party: \<open>encode\<close> maps texts to vectors or fails.  Vectors and scores are
    rationals, the rounding of binary floating point is left out, and so is the test double's \<open>encode\<close>.
  \<^item> The index store is a record of the file's content (when it parses to a valid index) and of the cached
    index; \<open>build_or_load\<close> returns the store after it.  Its lock orders threads and is not modelled.
  \<^item> The measured latencies and \<open>index_built_at\<close> are arguments.

  The lemmas show that whatever index is loaded mirrors the corpus entry by entry, hence that retrieval
  cannot make the resolver fail on a citation, that a payload which is verified for the Gate carries the
  facts of the one clause in force, and that its binding validates exactly while that clause is in force.
\<close>

section \<open>The index\<close>

record embedding_descriptor =
  em_mode :: string
  em_package :: string
  em_package_version :: string
  em_model_id :: string
  em_model_revision :: string
  em_normalized_cosine :: bool

definition descriptor_json :: "embedding_descriptor \<Rightarrow> json" where
  "descriptor_json d =
     JObj [(''mode'', JStr (em_mode d)), (''package'', JStr (em_package d)),
           (''package_version'', JStr (em_package_version d)), (''model_id'', JStr (em_model_id d)),
           (''model_revision'', JStr (em_model_revision d)),
           (''normalized_cosine'', JBool (em_normalized_cosine d))]"

record index_manifest =
  im_index_format_version :: string
  im_chunker_version :: string
  im_corpus_version :: string
  im_corpus_digest :: string
  im_embedding :: embedding_descriptor
  im_vector_dimension :: nat
  im_index_content_digest :: string
  im_index_built_at :: datetime
  im_content_hashes :: "string list"

definition check_index_manifest :: "index_manifest \<Rightarrow> index_manifest result" where
  "check_index_manifest m =
    (if \<not> is_sha256_hex (im_corpus_digest m) then Inl (ValueError ''corpus_digest'')
     else if im_vector_dimension m < 1 then Inl (ValueError ''vector_dimension'')
     else if \<not> is_sha256_hex (im_index_content_digest m) then Inl (ValueError ''index_content_digest'')
     else if im_content_hashes m = [] then Inl (ValueError ''content_hashes'')
     else if \<not> is_aware (im_index_built_at m) then Inl (ValueError ''index_built_at must be timezone-aware'')
     else if \<not> distinct (im_content_hashes m)
       then Inl (ValueError ''index content_hashes must not contain duplicates'')
     else Inr m)"

record indexed_clause =
  ie_document_id :: string
  ie_policy_version :: string
  ie_clause_id :: string
  ie_source_hash :: string
  ie_passage_hash :: string
  ie_vector :: "rat list"

definition check_indexed_clause :: "indexed_clause \<Rightarrow> indexed_clause result" where
  "check_indexed_clause e =
    (if ie_document_id e = [] \<or> ie_policy_version e = [] \<or> ie_clause_id e = [] then Inl (ValueError ''identity'')
     else if \<not> is_sha256_hex (ie_source_hash e) then Inl (ValueError ''source_hash'')
     else if \<not> is_sha256_hex (ie_passage_hash e) then Inl (ValueError ''passage_hash'')
     else if ie_vector e = [] then Inl (ValueError ''vector'')
     else Inr e)"

record vector_index =
  vi_manifest :: index_manifest
  vi_entries :: "indexed_clause list"

definition check_vector_index :: "vector_index \<Rightarrow> vector_index result" where
  "check_vector_index i =
     bindE (check_index_manifest (vi_manifest i)) (\<lambda>_.
     bindE (mapE check_indexed_clause (vi_entries i)) (\<lambda>_.
       if vi_entries i = [] then Inl (ValueError ''entries'') else Inr i))"

definition index_format_version :: string where
  "index_format_version = ''policy-vector-index-v2''"

definition chunker_version :: string where
  "chunker_version = ''policy-clause-chunk-v3-region''"

definition passage_hash :: "(json \<Rightarrow> string) \<Rightarrow> policy_clause \<Rightarrow> string" where
  "passage_hash sha c = sha (JObj [(''retrieval_text'', JText (retrieval_text c))])"

definition entry_dump :: "indexed_clause \<Rightarrow> json" where
  "entry_dump e =
     JObj [(''document_id'', JStr (ie_document_id e)), (''policy_version'', JStr (ie_policy_version e)),
           (''clause_id'', JStr (ie_clause_id e)), (''source_hash'', JStr (ie_source_hash e)),
           (''passage_hash'', JStr (ie_passage_hash e)), (''vector'', JList (map JNum (ie_vector e)))]"

definition index_content_digest ::
  "(json \<Rightarrow> string) \<Rightarrow> string \<Rightarrow> string \<Rightarrow> embedding_descriptor \<Rightarrow> nat \<Rightarrow> string list \<Rightarrow> indexed_clause list \<Rightarrow> string" where
  "index_content_digest sha version digest embedding dimension hashes entries =
     sha (JObj [(''index_format_version'', JStr index_format_version), (''chunker_version'', JStr chunker_version),
                (''corpus_version'', JStr version), (''corpus_digest'', JStr digest),
                (''embedding'', descriptor_json embedding), (''vector_dimension'', JInt (int dimension)),
                (''content_hashes'', JList (map JStr hashes)), (''entries'', JList (map entry_dump entries))])"

definition manifest_dump :: "index_manifest \<Rightarrow> json" where
  "manifest_dump m =
     JObj [(''index_format_version'', JStr (im_index_format_version m)),
           (''chunker_version'', JStr (im_chunker_version m)), (''corpus_version'', JStr (im_corpus_version m)),
           (''corpus_digest'', JStr (im_corpus_digest m)), (''embedding'', descriptor_json (im_embedding m)),
           (''vector_dimension'', JInt (int (im_vector_dimension m))),
           (''index_content_digest'', JStr (im_index_content_digest m)),
           (''index_built_at'', json_time (im_index_built_at m)),
           (''content_hashes'', JList (map JStr (im_content_hashes m)))]"

definition index_digest :: "(json \<Rightarrow> string) \<Rightarrow> vector_index \<Rightarrow> string" where
  "index_digest sha i =
     sha (JObj [(''manifest'', manifest_dump (vi_manifest i)), (''entries'', JList (map entry_dump (vi_entries i)))])"

text \<open>Does an entry mirror a clause?\<close>

definition entry_matches :: "(json \<Rightarrow> string) \<Rightarrow> nat \<Rightarrow> policy_clause \<Rightarrow> indexed_clause \<Rightarrow> bool" where
  "entry_matches sha dimension c e \<longleftrightarrow>
     \<not> (ie_document_id e \<noteq> pl_document_id c \<or> ie_policy_version e \<noteq> pf_policy_version (pl_facts c) \<or>
        ie_clause_id e \<noteq> pl_clause_id c \<or> ie_source_hash e \<noteq> pl_content_hash c \<or>
        ie_passage_hash e \<noteq> passage_hash sha c \<or> length (ie_vector e) \<noteq> dimension)"

definition matches_current ::
  "(json \<Rightarrow> string) \<Rightarrow> policy_corpus \<Rightarrow> embedding_descriptor \<Rightarrow> vector_index \<Rightarrow> bool" where
  "matches_current sha v descriptor i =
    (let m = vi_manifest i in
     if im_index_format_version m \<noteq> index_format_version \<or> im_chunker_version m \<noteq> chunker_version \<or>
        im_corpus_version m \<noteq> pv_corpus_version v \<or> im_corpus_digest m \<noteq> corpus_digest sha v \<or>
        im_embedding m \<noteq> descriptor \<or> im_content_hashes m \<noteq> map pl_content_hash (pv_clauses v) \<or>
        length (vi_entries i) \<noteq> length (pv_clauses v)
       then False
     else if \<not> list_all (\<lambda>(c, e). entry_matches sha (im_vector_dimension m) c e) (zip (pv_clauses v) (vi_entries i))
       then False
     else im_index_content_digest m =
       index_content_digest sha (im_corpus_version m) (im_corpus_digest m) (im_embedding m)
         (im_vector_dimension m) (im_content_hashes m) (vi_entries i))"

type_synonym encoder = "utext list \<Rightarrow> rat list list result"

definition index_entry :: "(json \<Rightarrow> string) \<Rightarrow> policy_clause \<Rightarrow> rat list \<Rightarrow> indexed_clause" where
  "index_entry sha c vector =
     \<lparr>ie_document_id = pl_document_id c, ie_policy_version = pf_policy_version (pl_facts c),
      ie_clause_id = pl_clause_id c, ie_source_hash = pl_content_hash c, ie_passage_hash = passage_hash sha c,
      ie_vector = vector\<rparr>"

definition build_index ::
  "(json \<Rightarrow> string) \<Rightarrow> policy_corpus \<Rightarrow> embedding_descriptor \<Rightarrow> encoder \<Rightarrow> datetime \<Rightarrow> vector_index result" where
  "build_index sha v descriptor encode now =
    (case encode (map retrieval_text (pv_clauses v)) of
       Inl (PolicyRetrievalUnavailable code retryable) \<Rightarrow> Inl (PolicyRetrievalUnavailable code retryable)
     | Inl _ \<Rightarrow> Inl (PolicyRetrievalUnavailable ''POLICY_INDEX_BUILD_FAILED'' True)
     | Inr vectors \<Rightarrow>
         if length vectors \<noteq> length (pv_clauses v)
           then Inl (PolicyRetrievalUnavailable ''POLICY_INDEX_VECTOR_COUNT_MISMATCH'' False)
         else
          (let dimension = (if vectors = [] then 0 else length (hd vectors)) in
           if dimension < 1 \<or> list_ex (\<lambda>x. length x \<noteq> dimension) vectors
             then Inl (PolicyRetrievalUnavailable ''POLICY_INDEX_DIMENSION_MISMATCH'' False)
           else
            (let entries = map2 (index_entry sha) (pv_clauses v) vectors;
                 hashes = map pl_content_hash (pv_clauses v)
             in check_vector_index
                  \<lparr>vi_manifest = \<lparr>im_index_format_version = index_format_version,
                     im_chunker_version = chunker_version, im_corpus_version = pv_corpus_version v,
                     im_corpus_digest = corpus_digest sha v, im_embedding = descriptor,
                     im_vector_dimension = dimension,
                     im_index_content_digest = index_content_digest sha (pv_corpus_version v)
                       (corpus_digest sha v) descriptor dimension hashes entries,
                     im_index_built_at = now, im_content_hashes = hashes\<rparr>,
                   vi_entries = entries\<rparr>)))"

record index_store =
  xs_file :: "vector_index option"
  xs_cached :: "vector_index option"

definition load_if_current ::
  "(json \<Rightarrow> string) \<Rightarrow> policy_corpus \<Rightarrow> embedding_descriptor \<Rightarrow> index_store \<Rightarrow> vector_index option" where
  "load_if_current sha v descriptor st =
    (case xs_file st of
       None \<Rightarrow> None
     | Some loaded \<Rightarrow> if matches_current sha v descriptor loaded then Some loaded else None)"

definition build_or_load ::
  "(json \<Rightarrow> string) \<Rightarrow> policy_corpus \<Rightarrow> embedding_descriptor \<Rightarrow> encoder \<Rightarrow> datetime \<Rightarrow> index_store \<Rightarrow>
   vector_index result \<times> index_store" where
  "build_or_load sha v descriptor encode now st =
    (case xs_cached st of
       Some i \<Rightarrow> (Inr i, st)
     | None \<Rightarrow>
         (case load_if_current sha v descriptor st of
            Some i \<Rightarrow> (Inr i, st\<lparr>xs_cached := Some i\<rparr>)
          | None \<Rightarrow>
              (case build_index sha v descriptor encode now of
                 Inl e \<Rightarrow> (Inl e, st)
               | Inr i \<Rightarrow> (Inr i, \<lparr>xs_file = Some i, xs_cached = Some i\<rparr>))))"

section \<open>Ranking\<close>

record retrieved_candidate =
  rc_document_id :: string
  rc_policy_version :: string
  rc_clause_id :: string
  rc_source_hash :: string
  rc_passage_hash :: string
  rc_score :: rat
  rc_rank :: nat

definition cosine :: "rat list \<Rightarrow> rat list \<Rightarrow> rat result" where
  "cosine xs ys =
    (if length xs \<noteq> length ys then Inl (PolicyRetrievalUnavailable ''POLICY_INDEX_DIMENSION_MISMATCH'' False)
     else Inr (sum_list (map2 (*) xs ys)))"

definition candidate_of :: "rat list \<Rightarrow> indexed_clause \<Rightarrow> retrieved_candidate result" where
  "candidate_of query e =
     bindE (cosine query (ie_vector e)) (\<lambda>score.
     Inr \<lparr>rc_document_id = ie_document_id e, rc_policy_version = ie_policy_version e,
          rc_clause_id = ie_clause_id e, rc_source_hash = ie_source_hash e,
          rc_passage_hash = ie_passage_hash e, rc_score = score, rc_rank = 0\<rparr>)"

definition rank_candidates :: "nat \<Rightarrow> vector_index \<Rightarrow> rat list \<Rightarrow> retrieved_candidate list result" where
  "rank_candidates top_k i query =
     bindE (mapE (candidate_of query) (vi_entries i)) (\<lambda>cs.
     let ranked = take top_k (sort_key (\<lambda>c. (- rc_score c, rc_clause_id c)) cs)
     in Inr (map2 (\<lambda>position c. c\<lparr>rc_rank := position\<rparr>) [1..<Suc (length ranked)] ranked))"

section \<open>Resolution\<close>

record resolved_policy =
  rv_status :: "policy_resolution_status option"
  rv_retrieval_miss :: bool
  rv_facts :: "policy_facts option"
  rv_citation :: "verified_citation option"
  rv_selected_rank :: "nat option"
  rv_selected_similarity :: "rat option"

definition no_resolution :: resolved_policy where
  "no_resolution = \<lparr>rv_status = None, rv_retrieval_miss = False, rv_facts = None, rv_citation = None,
     rv_selected_rank = None, rv_selected_similarity = None\<rparr>"

definition within_effective_window :: "policy_facts \<Rightarrow> datetime \<Rightarrow> bool" where
  "within_effective_window f evaluated_at =
    (if instant evaluated_at < instant (pf_effective_from f) then False
     else (case pf_effective_to f of None \<Rightarrow> True | Some t \<Rightarrow> instant evaluated_at < instant t))"

text \<open>\<open>" ".join(text.split())[:280]\<close>.\<close>

fun split_words :: "utext \<Rightarrow> utext \<Rightarrow> utext list" where
  "split_words word [] = (if word = [] then [] else [rev word])"
| "split_words word (c # cs) =
    (if is_space c then (if word = [] then split_words [] cs else rev word # split_words [] cs)
     else split_words (c # word) cs)"

fun join_words :: "utext list \<Rightarrow> utext" where
  "join_words [] = []"
| "join_words [w] = w"
| "join_words (w # ws) = w @ 32 # join_words ws"

definition citation_excerpt_max_chars :: nat where
  "citation_excerpt_max_chars = 280"

definition controlled_citation_excerpt :: "policy_clause \<Rightarrow> utext" where
  "controlled_citation_excerpt c = take citation_excerpt_max_chars (join_words (split_words [] (pl_human_text c)))"

definition is_active_authority_clause :: "policy_clause \<Rightarrow> issue_type \<Rightarrow> string \<Rightarrow> string \<Rightarrow> datetime \<Rightarrow> bool" where
  "is_active_authority_clause c issue level region evaluated_at \<longleftrightarrow>
     \<not> pl_poisoned c \<and> pf_issue_type (pl_facts c) = issue \<and> pf_service_level (pl_facts c) = level \<and>
     pf_region (pl_facts c) = region \<and> within_effective_window (pl_facts c) evaluated_at"

definition canonical_candidate ::
  "(json \<Rightarrow> string) \<Rightarrow> policy_corpus \<Rightarrow> retrieved_candidate \<Rightarrow> (retrieved_candidate \<times> policy_clause) result" where
  "canonical_candidate sha v k =
    (case corpus_lookup v (rc_policy_version k) (rc_clause_id k) of
       None \<Rightarrow> Inl (PolicyRetrievalUnavailable ''POLICY_CITATION_NOT_FOUND'' False)
     | Some c \<Rightarrow>
         if pl_document_id c \<noteq> rc_document_id k \<or> pl_content_hash c \<noteq> rc_source_hash k \<or>
            passage_hash sha c \<noteq> rc_passage_hash k
           then Inl (PolicyRetrievalUnavailable ''POLICY_CITATION_HASH_MISMATCH'' False)
         else Inr (k, c))"

definition authority_set :: "policy_corpus \<Rightarrow> issue_type \<Rightarrow> string \<Rightarrow> string \<Rightarrow> datetime \<Rightarrow> policy_clause list" where
  "authority_set v issue level region evaluated_at =
     filter (\<lambda>c. is_active_authority_clause c issue level region evaluated_at) (pv_clauses v)"

definition citation_of :: "(json \<Rightarrow> string) \<Rightarrow> policy_clause \<Rightarrow> verified_citation" where
  "citation_of sha c =
    (let f = pl_facts c; excerpt = controlled_citation_excerpt c in
     \<lparr>vc_document_id = pl_document_id c, vc_document_title = pl_document_title c,
      vc_policy_version = pf_policy_version f, vc_clause_id = pf_clause_id f,
      vc_source_hash = pl_content_hash c,
      vc_display_summary = pl_document_title c @ text_of '' / '' @ text_of (pf_policy_version f) @
        text_of '' / '' @ text_of (pf_clause_id f),
      vc_excerpt = excerpt,
      vc_excerpt_hash = sha (JObj [(''source_hash'', JStr (pl_content_hash c)), (''excerpt'', JText excerpt)])\<rparr>)"

definition check_citation :: "verified_citation \<Rightarrow> verified_citation result" where
  "check_citation c =
    (if vc_document_id c = [] then Inl (ValueError ''document_id'')
     else if vc_document_title c = [] then Inl (ValueError ''document_title'')
     else if vc_policy_version c = [] then Inl (ValueError ''policy_version'')
     else if vc_clause_id c = [] then Inl (ValueError ''clause_id'')
     else if \<not> is_sha256_hex (vc_source_hash c) then Inl (ValueError ''source_hash'')
     else if vc_display_summary c = [] \<or> 500 < length (vc_display_summary c) then Inl (ValueError ''display_summary'')
     else if vc_excerpt c = [] \<or> 320 < length (vc_excerpt c) then Inl (ValueError ''excerpt'')
     else if \<not> is_sha256_hex (vc_excerpt_hash c) then Inl (ValueError ''excerpt_hash'')
     else Inr c)"

lemma check_citation_Inr: "check_citation c = Inr d \<Longrightarrow> d = c"
  by (simp add: check_citation_def split: if_splits)

lemma check_citation_Inl: "check_citation c = Inl e \<Longrightarrow> \<exists>m. e = ValueError m"
  by (auto simp: check_citation_def split: if_splits)

definition resolve_policy ::
  "(json \<Rightarrow> string) \<Rightarrow> policy_corpus \<Rightarrow> retrieved_candidate list \<Rightarrow> issue_type \<Rightarrow> string \<Rightarrow> string \<Rightarrow> datetime \<Rightarrow>
   resolved_policy result" where
  "resolve_policy sha v candidates issue level region evaluated_at =
     bindE (mapE (canonical_candidate sha v) candidates) (\<lambda>canonical.
     let authorities = authority_set v issue level region evaluated_at in
     if 1 < length authorities then
       (if 1 < length (remdups (map (\<lambda>c. pf_policy_version (pl_facts c)) authorities))
        then Inr (no_resolution\<lparr>rv_status := Some PR_VERSION_CONFLICT\<rparr>)
        else Inl (PolicyRetrievalUnavailable ''POLICY_DUPLICATE_ACTIVE_CLAUSE'' False))
     else
      (case authorities of
         [] \<Rightarrow> Inr (no_resolution\<lparr>rv_status := Some PR_NOT_APPLICABLE\<rparr>)
       | authority # _ \<Rightarrow>
           (case List.find (\<lambda>(k, c). resolution_key c = resolution_key authority) canonical of
              None \<Rightarrow> Inr (no_resolution\<lparr>rv_retrieval_miss := True\<rparr>)
            | Some (selected, _) \<Rightarrow>
                bindE (check_citation (citation_of sha authority)) (\<lambda>citation.
                  Inr \<lparr>rv_status = Some PR_APPLICABLE, rv_retrieval_miss = False,
                       rv_facts = Some (pl_facts authority), rv_citation = Some citation,
                       rv_selected_rank = Some (rc_rank selected),
                       rv_selected_similarity = Some (rc_score selected)\<rparr>))))"

section \<open>The service\<close>

record policy_rag =
  pr_corpus :: policy_corpus
  pr_descriptor :: embedding_descriptor
  pr_encode :: encoder
  pr_top_k :: nat
  pr_min_similarity :: rat

definition policy_rag_contract_version :: string where
  "policy_rag_contract_version = ''policy-rag-v2.1''"

definition rag_source_revision :: "(json \<Rightarrow> string) \<Rightarrow> policy_rag \<Rightarrow> string" where
  "rag_source_revision sha rag =
     pv_corpus_version (pr_corpus rag) @ '':'' @ corpus_digest sha (pr_corpus rag) @ '':'' @
     policy_rag_contract_version"

text \<open>What every payload of one search shares; \<open>lat\<close> holds the two latencies.\<close>

definition search_payload ::
  "(json \<Rightarrow> string) \<Rightarrow> policy_rag \<Rightarrow> vector_index \<Rightarrow> retrieved_candidate list \<Rightarrow> string \<Rightarrow> issue_type \<Rightarrow>
   string \<Rightarrow> string \<Rightarrow> datetime \<Rightarrow> rat \<times> rat \<Rightarrow> retrieval_status \<Rightarrow> resolved_policy \<Rightarrow> policy_search" where
  "search_payload sha rag i candidates order_id issue level region evaluated_at lat status resolved =
     \<lparr>ps_order_id = order_id, ps_issue_type = issue, ps_service_level = level, ps_region = region,
      ps_evaluated_at = evaluated_at, ps_retrieval_status = status,
      ps_policy_resolution_status = rv_status resolved,
      ps_corpus_version = pv_corpus_version (pr_corpus rag), ps_corpus_digest = corpus_digest sha (pr_corpus rag),
      ps_index_format_version = im_index_format_version (vi_manifest i),
      ps_index_digest = index_digest sha i,
      ps_index_content_digest = im_index_content_digest (vi_manifest i),
      ps_embedding_model_id = em_model_id (pr_descriptor rag),
      ps_embedding_model_revision = em_model_revision (pr_descriptor rag),
      ps_retrieval_mode = em_mode (pr_descriptor rag),
      ps_candidate_clause_ids = map rc_clause_id candidates,
      ps_candidate_count = int (length candidates),
      ps_selected_rank = map_option int (rv_selected_rank resolved),
      ps_selected_similarity = rv_selected_similarity resolved,
      ps_top_1_score = (case candidates of [] \<Rightarrow> None | c # _ \<Rightarrow> Some (rc_score c)),
      ps_retrieval_threshold = pr_min_similarity rag,
      ps_policy_fact_snapshot = rv_facts resolved,
      ps_policy_fact_snapshot_hash = map_option (material_snapshot_hash sha) (rv_facts resolved),
      ps_citation = rv_citation resolved,
      ps_retrieval_latency_ms = fst lat, ps_resolver_latency_ms = snd lat\<rparr>"

definition excerpt_digest :: "(json \<Rightarrow> string) \<Rightarrow> string \<Rightarrow> utext \<Rightarrow> string" where
  "excerpt_digest sha source excerpt =
     sha (JObj [(''source_hash'', JStr source), (''excerpt'', JText excerpt)])"

definition checked_payload :: "(json \<Rightarrow> string) \<Rightarrow> policy_search \<Rightarrow> policy_search result" where
  "checked_payload sha = check_policy_search (excerpt_digest sha) (material_snapshot_hash sha)"

definition no_hit_payload ::
  "(json \<Rightarrow> string) \<Rightarrow> policy_rag \<Rightarrow> vector_index \<Rightarrow> retrieved_candidate list \<Rightarrow> string \<Rightarrow> issue_type \<Rightarrow>
   string \<Rightarrow> string \<Rightarrow> datetime \<Rightarrow> rat \<times> rat \<Rightarrow> policy_search result" where
  "no_hit_payload sha rag i candidates order_id issue level region evaluated_at lat =
     checked_payload sha
       (search_payload sha rag i candidates order_id issue level region evaluated_at lat RT_NO_HIT no_resolution)"

definition search_with_index ::
  "(json \<Rightarrow> string) \<Rightarrow> policy_rag \<Rightarrow> vector_index \<Rightarrow> utext \<Rightarrow> string \<Rightarrow> issue_type \<Rightarrow> string \<Rightarrow> string \<Rightarrow>
   datetime \<Rightarrow> rat \<times> rat \<Rightarrow> policy_search result" where
  "search_with_index sha rag i query order_id issue level region evaluated_at lat =
    (case bindE (pr_encode rag [query]) (\<lambda>vectors.
            case vectors of [] \<Rightarrow> Inl (ValueError ''list index out of range'')
            | q # _ \<Rightarrow> rank_candidates (pr_top_k rag) i q) of
       Inl (PolicyRetrievalUnavailable code retryable) \<Rightarrow> Inl (PolicyRetrievalUnavailable code retryable)
     | Inl _ \<Rightarrow> Inl (PolicyRetrievalUnavailable ''POLICY_RETRIEVAL_QUERY_FAILED'' True)
     | Inr candidates \<Rightarrow>
         if candidates = [] \<or> rc_score (hd candidates) < pr_min_similarity rag
           then no_hit_payload sha rag i candidates order_id issue level region evaluated_at (fst lat, 0)
         else
          bindE (resolve_policy sha (pr_corpus rag) candidates issue level region evaluated_at) (\<lambda>resolved.
            if rv_retrieval_miss resolved
              then no_hit_payload sha rag i candidates order_id issue level region evaluated_at lat
            else if rv_status resolved = None
              then Inl (PolicyRetrievalUnavailable ''POLICY_RESOLUTION_STATUS_MISSING'' False)
            else checked_payload sha
              (search_payload sha rag i candidates order_id issue level region evaluated_at lat RT_HIT resolved)))"

definition query_prefix :: utext where
  "query_prefix = [20026, 36825, 20010, 21477, 23376, 29983, 25104, 34920, 31034, 20197, 29992,
                   20110, 26816, 32034, 30456, 20851, 25991, 31456, 65306]"

definition search_query :: "issue_type \<Rightarrow> string \<Rightarrow> string \<Rightarrow> utext" where
  "search_query issue level region =
    (let issue_text = (if issue = SIGNED_NOT_RECEIVED
           then [26174, 31034, 31614, 25910, 20294, 23458, 25143, 20173, 26410, 25910, 21040]
           else [29289, 27969, 36712, 36857, 38271, 26102, 38388, 27809, 26377, 26356, 26032]);
         service_text = (if level = ''standard'' then [26631, 20934, 37197, 36865]
           else if level = ''express'' then [21152, 24613, 37197, 36865]
           else if level = ''economy'' then [32463, 27982, 37197, 36865]
           else text_of level)
     in query_prefix @ [24403, 21069, 34394, 25311, 35746, 21333, 26381, 21153, 31561, 32423, 20026, 32] @ service_text @
        text_of '' ('' @ text_of level @ text_of '')'' @ [65307] @
        [21306, 22495, 20026, 32] @ text_of region @ [65307, 38656, 35201, 26597, 35810, 32] @ issue_text @
        text_of '' / '' @ text_of (issue_type_value issue) @
        [32, 30340, 29616, 34892, 29289, 27969, 26680, 26597, 25919, 31574, 12290])"

definition rag_search ::
  "(json \<Rightarrow> string) \<Rightarrow> policy_rag \<Rightarrow> index_store \<Rightarrow> datetime \<Rightarrow> string \<Rightarrow> issue_type \<Rightarrow> string \<Rightarrow> string \<Rightarrow>
   datetime \<Rightarrow> rat \<times> rat \<Rightarrow> policy_search result \<times> index_store" where
  "rag_search sha rag st now order_id issue level region evaluated_at lat =
    (case build_or_load sha (pr_corpus rag) (pr_descriptor rag) (pr_encode rag) now st of
       (Inl e, st') \<Rightarrow> (Inl e, st')
     | (Inr i, st') \<Rightarrow>
         (search_with_index sha rag i (search_query issue level region) order_id issue level region
            evaluated_at lat, st'))"

section \<open>The binding of a proposal\<close>

definition policy_binding :: "(json \<Rightarrow> string) \<Rightarrow> policy_search \<Rightarrow> json option" where
  "policy_binding sha p =
    (if \<not> verified_for_gate (material_snapshot_hash sha) p then None
     else case ps_policy_fact_snapshot p of
            None \<Rightarrow> None
          | Some f \<Rightarrow>
              Some (JObj [(''policy_version'', JStr (pf_policy_version f)), (''clause_id'', JStr (pf_clause_id f)),
                          (''policy_source_hash'', JStr (pf_source_hash f)), (''region'', JStr (pf_region f)),
                          (''policy_fact_snapshot'', material_snapshot f),
                          (''policy_fact_snapshot_hash'', json_opt_str (ps_policy_fact_snapshot_hash p))]))"

definition binding_keys :: "string list" where
  "binding_keys = [''policy_version'', ''clause_id'', ''policy_source_hash'', ''region'',
     ''policy_fact_snapshot'', ''policy_fact_snapshot_hash'']"

definition validate_policy_binding ::
  "(json \<Rightarrow> string) \<Rightarrow> policy_corpus \<Rightarrow> json option \<Rightarrow> issue_type \<Rightarrow> string \<Rightarrow> string \<Rightarrow> datetime \<Rightarrow> bool" where
  "validate_policy_binding sha v binding issue level region evaluated_at =
    (case binding of
       Some (JObj kvs) \<Rightarrow>
         if set (map fst kvs) \<noteq> set binding_keys then False
         else
          (case (json_str (map_of kvs ''policy_version''), json_str (map_of kvs ''clause_id''),
                 json_str (map_of kvs ''policy_source_hash''), json_str (map_of kvs ''region''),
                 json_str (map_of kvs ''policy_fact_snapshot_hash'')) of
             (Some version, Some clause_id, Some source_hash, Some binding_region, Some snapshot_hash) \<Rightarrow>
               (case corpus_lookup v version clause_id of
                  None \<Rightarrow> False
                | Some c \<Rightarrow>
                    if pl_poisoned c \<or> pl_content_hash c \<noteq> source_hash then False
                    else
                     (case policy_facts_of_json (the (map_of kvs ''policy_fact_snapshot'')) of
                        Inl _ \<Rightarrow> False
                      | Inr persisted \<Rightarrow>
                          let facts = pl_facts c in
                          facts = persisted \<and> material_snapshot_hash sha facts = snapshot_hash \<and>
                          pf_issue_type facts = issue \<and> pf_service_level facts = level \<and>
                          pf_region facts = region \<and> binding_region = region \<and>
                          within_effective_window facts evaluated_at))
           | _ \<Rightarrow> False)
     | _ \<Rightarrow> False)"

section \<open>The index mirrors the corpus\<close>

definition index_mirrors :: "(json \<Rightarrow> string) \<Rightarrow> policy_corpus \<Rightarrow> vector_index \<Rightarrow> bool" where
  "index_mirrors sha v i \<longleftrightarrow>
     list_all2 (entry_matches sha (im_vector_dimension (vi_manifest i))) (pv_clauses v) (vi_entries i)"

lemma matches_current_mirrors: "matches_current sha v d i \<Longrightarrow> index_mirrors sha v i"
  by (auto simp: matches_current_def index_mirrors_def list_all2_iff list_all_iff Let_def split: if_splits)

lemma build_index_mirrors:
  assumes "build_index sha v d encode now = Inr i"
  shows "index_mirrors sha v i"
proof -
  from assms obtain vectors where "length vectors = length (pv_clauses v)"
    and dim: "\<not> list_ex (\<lambda>x. length x \<noteq> im_vector_dimension (vi_manifest i)) vectors"
    and entries: "vi_entries i = map2 (index_entry sha) (pv_clauses v) vectors"
    by (auto simp: build_index_def check_vector_index_def Let_def bindE_eq_Inr
        split: sum.splits error.splits if_splits)
  then have "n < length (pv_clauses v) \<Longrightarrow> length (vectors ! n) = im_vector_dimension (vi_manifest i)" for n
    by (auto simp: list_ex_iff)
  with \<open>length vectors = length (pv_clauses v)\<close> show ?thesis
    by (auto simp: index_mirrors_def list_all2_conv_all_nth entries entry_matches_def index_entry_def)
qed

text \<open>The store keeps a mirroring index, and whatever it hands out mirrors the corpus.\<close>

definition store_ok :: "(json \<Rightarrow> string) \<Rightarrow> policy_corpus \<Rightarrow> index_store \<Rightarrow> bool" where
  "store_ok sha v st \<longleftrightarrow> (case xs_cached st of None \<Rightarrow> True | Some i \<Rightarrow> index_mirrors sha v i)"

lemma build_or_load_mirrors:
  assumes "build_or_load sha v d encode now st = (r, st')" "store_ok sha v st"
  shows "store_ok sha v st' \<and> (\<forall>i. r = Inr i \<longrightarrow> index_mirrors sha v i)"
  using assms
  by (auto simp: build_or_load_def load_if_current_def store_ok_def
      dest: matches_current_mirrors build_index_mirrors build_index_mirrors [OF sym] split: option.splits sum.splits if_splits)

section \<open>Candidates resolve\<close>

definition names_clause :: "(json \<Rightarrow> string) \<Rightarrow> policy_corpus \<Rightarrow> retrieved_candidate \<Rightarrow> bool" where
  "names_clause sha v k \<longleftrightarrow>
     (\<exists>c \<in> set (pv_clauses v). rc_document_id k = pl_document_id c \<and>
        (rc_policy_version k, rc_clause_id k) = resolution_key c \<and> rc_source_hash k = pl_content_hash c \<and>
        rc_passage_hash k = passage_hash sha c)"

lemma canonical_candidate_Inr:
  assumes "check_policy_corpus v = Inr v" "names_clause sha v k"
  shows "\<exists>c. canonical_candidate sha v k = Inr (k, c) \<and> c \<in> set (pv_clauses v) \<and>
    (rc_policy_version k, rc_clause_id k) = resolution_key c"
proof -
  from assms(2) obtain c where c: "c \<in> set (pv_clauses v)" "rc_document_id k = pl_document_id c"
    "(rc_policy_version k, rc_clause_id k) = resolution_key c" "rc_source_hash k = pl_content_hash c"
    "rc_passage_hash k = passage_hash sha c"
    unfolding names_clause_def by blast
  with corpus_lookup_own [OF assms(1) c(1)] show ?thesis
    by (auto simp: canonical_candidate_def resolution_key_def)
qed

lemma mapE_canonical:
  assumes "check_policy_corpus v = Inr v" "\<forall>k \<in> set ks. names_clause sha v k"
  shows "\<exists>cs. mapE (canonical_candidate sha v) ks = Inr cs \<and> map fst cs = ks \<and>
    (\<forall>(k, c) \<in> set cs. c \<in> set (pv_clauses v) \<and> (rc_policy_version k, rc_clause_id k) = resolution_key c)"
  using assms(2)
proof (induction ks)
  case (Cons k ks)
  then obtain cs where "mapE (canonical_candidate sha v) ks = Inr cs" "map fst cs = ks"
    "\<forall>(k, c) \<in> set cs. c \<in> set (pv_clauses v) \<and> (rc_policy_version k, rc_clause_id k) = resolution_key c"
    by auto
  moreover from Cons.prems obtain c where "canonical_candidate sha v k = Inr (k, c)" "c \<in> set (pv_clauses v)"
    "(rc_policy_version k, rc_clause_id k) = resolution_key c"
    using canonical_candidate_Inr [OF assms(1)] by (meson list.set_intros(1))
  ultimately show ?case by (intro exI [of _ "(k, c) # cs"]) simp
qed simp

lemma candidate_of_names:
  assumes "index_mirrors sha v i" "e \<in> set (vi_entries i)" "candidate_of query e = Inr k"
  shows "names_clause sha v k"
proof -
  from assms(1,2) obtain c where "c \<in> set (pv_clauses v)"
    "entry_matches sha (im_vector_dimension (vi_manifest i)) c e"
    unfolding index_mirrors_def by (metis list_all2_conv_all_nth in_set_conv_nth)
  with assms(3) show ?thesis
    unfolding names_clause_def resolution_key_def
    by (intro bexI [of _ c]) (auto simp: candidate_of_def bindE_eq_Inr entry_matches_def)
qed

lemma mapE_member: "mapE f xs = Inr ys \<Longrightarrow> y \<in> set ys \<Longrightarrow> \<exists>x \<in> set xs. f x = Inr y"
  by (induction xs arbitrary: ys) (auto simp: bindE_eq_Inr)

lemma rank_candidates_names:
  assumes "index_mirrors sha v i" "rank_candidates top_k i query = Inr ks" "k \<in> set ks"
  shows "names_clause sha v k"
proof -
  from assms(2) obtain cs where cs: "mapE (candidate_of query) (vi_entries i) = Inr cs"
    and ks: "ks = (let ranked = take top_k (sort_key (\<lambda>c. (- rc_score c, rc_clause_id c)) cs)
      in map2 (\<lambda>position c. c\<lparr>rc_rank := position\<rparr>) [1..<Suc (length ranked)] ranked)"
    by (auto simp: rank_candidates_def bindE_eq_Inr Let_def)
  from ks assms(3) obtain c p where "c \<in> set cs" "k = c\<lparr>rc_rank := p\<rparr>"
    by (auto simp: Let_def dest!: set_zip_rightD in_set_takeD)
  with mapE_member [OF cs] candidate_of_names [OF assms(1)] show ?thesis
    by (fastforce simp: names_clause_def)
qed

text \<open>Retrieval from a mirroring index cannot make the resolver fail on a citation.\<close>

lemma resolve_ranked:
  assumes "check_policy_corpus v = Inr v" "index_mirrors sha v i" "rank_candidates top_k i query = Inr ks"
  shows "\<exists>canonical. mapE (canonical_candidate sha v) ks = Inr canonical \<and> map fst canonical = ks"
  using mapE_canonical [OF assms(1)] rank_candidates_names [OF assms(2,3)] by blast

section \<open>Authority\<close>

lemma canonical_candidate_InrD:
  "canonical_candidate sha v k = Inr (k', c) \<Longrightarrow>
     k' = k \<and> c \<in> set (pv_clauses v) \<and> (rc_policy_version k, rc_clause_id k) = resolution_key c"
  by (cases "corpus_lookup v (rc_policy_version k) (rc_clause_id k)")
     (auto simp: canonical_candidate_def dest!: corpus_lookup_SomeD split: if_splits)

lemma resolve_applicable:
  assumes "resolve_policy sha v ks issue level region t = Inr r" "rv_status r = Some PR_APPLICABLE"
  shows "\<exists>c k. authority_set v issue level region t = [c] \<and> rv_facts r = Some (pl_facts c) \<and>
    rv_citation r = Some (citation_of sha c) \<and> k \<in> set ks \<and>
    (rc_policy_version k, rc_clause_id k) = resolution_key c"
proof -
  from assms(1) obtain canonical where canonical: "mapE (canonical_candidate sha v) ks = Inr canonical"
    by (auto simp: resolve_policy_def bindE_eq_Inr)
  have origin: "(k, c) \<in> set canonical \<Longrightarrow> k \<in> set ks \<and> (rc_policy_version k, rc_clause_id k) = resolution_key c"
    for k c using mapE_member [OF canonical, of "(k, c)"] canonical_candidate_InrD by fastforce
  from assms canonical obtain c k d where one: "authority_set v issue level region t = [c]"
    and found: "List.find (\<lambda>(k, d). resolution_key d = resolution_key c) canonical = Some (k, d)"
    and r: "rv_facts r = Some (pl_facts c)" "rv_citation r = Some (citation_of sha c)"
    by (auto simp: resolve_policy_def Let_def no_resolution_def bindE_eq_Inr dest!: check_citation_Inr
        split: if_splits list.splits option.splits prod.splits)
  from find_SomeD [OF found] have "(k, d) \<in> set canonical" "resolution_key d = resolution_key c" by auto
  with origin [of k d] one r show ?thesis by (metis (mono_tags))
qed

lemma checked_payload_Inr: "checked_payload sha p = Inr q \<Longrightarrow> q = p"
  by (auto simp: checked_payload_def check_policy_search_def split: if_splits option.splits)

lemma no_hit_not_verified:
  "no_hit_payload sha rag i ks order_id issue level region t lat = Inr p \<Longrightarrow> \<not> verified_for_gate mhash p"
  by (auto simp: no_hit_payload_def search_payload_def verified_for_gate_def dest!: checked_payload_Inr)

lemma search_verified:
  assumes "search_with_index sha rag i query order_id issue level region t lat = Inr p"
    "verified_for_gate mhash p"
  obtains ks r where "resolve_policy sha (pr_corpus rag) ks issue level region t = Inr r"
    "rv_status r = Some PR_APPLICABLE"
    "p = search_payload sha rag i ks order_id issue level region t lat RT_HIT r"
proof -
  note no = no_hit_not_verified [of sha rag i _ order_id issue level region t _ p mhash]
  from assms(1) obtain ks where ks:
    "(if ks = [] \<or> rc_score (hd ks) < pr_min_similarity rag
        then no_hit_payload sha rag i ks order_id issue level region t (fst lat, 0)
      else bindE (resolve_policy sha (pr_corpus rag) ks issue level region t) (\<lambda>resolved.
            if rv_retrieval_miss resolved
              then no_hit_payload sha rag i ks order_id issue level region t lat
            else if rv_status resolved = None
              then Inl (PolicyRetrievalUnavailable ''POLICY_RESOLUTION_STATUS_MISSING'' False)
            else checked_payload sha
              (search_payload sha rag i ks order_id issue level region t lat RT_HIT resolved))) = Inr p"
    unfolding search_with_index_def by (auto split: sum.splits error.splits)
  obtain la lb where lat: "lat = (la, lb)" by (cases lat)
  from ks assms(2) no obtain r where r: "resolve_policy sha (pr_corpus rag) ks issue level region t = Inr r"
    "checked_payload sha (search_payload sha rag i ks order_id issue level region t lat RT_HIT r) = Inr p"
    by (auto simp: lat bindE_eq_Inr split: if_splits)
  from checked_payload_Inr [OF r(2)] have p: "p = search_payload sha rag i ks order_id issue level region t lat RT_HIT r" .
  with assms(2) have "rv_status r = Some PR_APPLICABLE"
    by (simp add: verified_for_gate_def search_payload_def)
  with r(1) p show ?thesis by (intro that)
qed


lemma rag_search_Inr:
  assumes "rag_search sha rag st now order_id issue level region t lat = (Inr p, st')"
  obtains i where
    "build_or_load sha (pr_corpus rag) (pr_descriptor rag) (pr_encode rag) now st = (Inr i, st')"
    "search_with_index sha rag i (search_query issue level region) order_id issue level region t lat = Inr p"
  using assms by (auto simp: rag_search_def split: prod.splits sum.splits)

lemma authority_setD:
  "c \<in> set (authority_set v issue level region t) \<Longrightarrow>
     c \<in> set (pv_clauses v) \<and> is_active_authority_clause c issue level region t"
  by (simp add: authority_set_def)

text \<open>C18. Only the canonical corpus speaks for policy.  When a search answers with a payload that the Gate
  may use, exactly one clause of the corpus is in force for the trusted issue, service level, region and
  time; it is not a quarantined clause, the facts in the payload are its facts, and the citation is built
  from it.  What the retriever returned only decides whether that clause was recalled at all.\<close>

theorem verified_payload_is_canonical:
  assumes "rag_search sha rag st now order_id issue level region t lat = (Inr p, st')"
    "verified_for_gate (material_snapshot_hash sha) p"
  shows "\<exists>c. authority_set (pr_corpus rag) issue level region t = [c] \<and> \<not> pl_poisoned c \<and>
    within_effective_window (pl_facts c) t \<and>
    ps_policy_fact_snapshot p = Some (pl_facts c) \<and> ps_citation p = Some (citation_of sha c) \<and>
    ps_issue_type p = pf_issue_type (pl_facts c) \<and> ps_service_level p = pf_service_level (pl_facts c) \<and>
    ps_region p = pf_region (pl_facts c) \<and> pl_clause_id c \<in> set (ps_candidate_clause_ids p)"
proof -
  from assms(1) obtain i where
    "search_with_index sha rag i (search_query issue level region) order_id issue level region t lat = Inr p"
    by (rule rag_search_Inr)
  from this assms(2) obtain ks r where r: "resolve_policy sha (pr_corpus rag) ks issue level region t = Inr r"
    "rv_status r = Some PR_APPLICABLE"
    "p = search_payload sha rag i ks order_id issue level region t lat RT_HIT r"
    by (rule search_verified)
  from resolve_applicable [OF r(1,2)] obtain c k where c: "authority_set (pr_corpus rag) issue level region t = [c]"
    "rv_facts r = Some (pl_facts c)" "rv_citation r = Some (citation_of sha c)" "k \<in> set ks"
    "rc_clause_id k = pl_clause_id c" by (auto simp: resolution_key_def)
  then have "is_active_authority_clause c issue level region t"
    using authority_setD [of c "pr_corpus rag" issue level region t] by simp
  moreover have "pl_clause_id c \<in> rc_clause_id ` set ks" using c(4,5) by (metis imageI)
  ultimately show ?thesis using c(1-3) r(3)
    by (intro exI [of _ c]) (auto simp: search_payload_def is_active_authority_clause_def)
qed

definition citation_failure :: "error \<Rightarrow> bool" where
  "citation_failure e \<longleftrightarrow>
     e \<in> {PolicyRetrievalUnavailable ''POLICY_CITATION_NOT_FOUND'' False,
          PolicyRetrievalUnavailable ''POLICY_CITATION_HASH_MISMATCH'' False}"

lemma no_hit_error:
  "no_hit_payload sha rag i ks order_id issue level region t lat = Inl e \<Longrightarrow> \<exists>m. e = ValueError m"
  by (auto simp: no_hit_payload_def checked_payload_def check_policy_search_def split: if_splits option.splits prod.splits)

lemma checked_payload_error: "checked_payload sha p = Inl e \<Longrightarrow> \<exists>m. e = ValueError m"
  by (auto simp: checked_payload_def check_policy_search_def split: if_splits option.splits prod.splits)

lemma build_index_error:
  assumes "\<And>texts e. encode texts = Inl e \<Longrightarrow> \<not> citation_failure e" "build_index sha v d encode now = Inl e"
  shows "\<not> citation_failure e"
proof -
  have index_error: "check_vector_index i = Inl e \<Longrightarrow> \<exists>m. e = ValueError m" for i
  proof -
    have "mapE check_indexed_clause es = Inl e \<Longrightarrow> \<exists>m. e = ValueError m" for es
      by (induction es) (auto simp: bindE_eq_Inl check_indexed_clause_def split: if_splits)
    then show "check_vector_index i = Inl e \<Longrightarrow> \<exists>m. e = ValueError m"
      by (auto simp: check_vector_index_def check_index_manifest_def bindE_eq_Inl split: if_splits)
  qed
  with assms show ?thesis
    by (auto simp: build_index_def Let_def citation_failure_def split: sum.splits error.splits if_splits
        dest!: index_error)
qed

text \<open>C19. Retrieval works over a faithful copy of the corpus.  Whatever index is cached, read from the file or
  built anew mirrors the validated corpus entry by entry, so a search never fails because a candidate
  cites an unknown clause or one whose digest differs; the store keeps that guarantee for the next search.
  (The embedding model is assumed not to raise the resolver's own integrity codes.)\<close>

theorem retrieval_never_breaks_citations:
  assumes corpus: "check_policy_corpus (pr_corpus rag) = Inr (pr_corpus rag)"
    and store: "store_ok sha (pr_corpus rag) st"
    and encode: "\<And>texts e. pr_encode rag texts = Inl e \<Longrightarrow> \<not> citation_failure e"
    and run: "rag_search sha rag st now order_id issue level region t lat = (r, st')"
  shows "store_ok sha (pr_corpus rag) st' \<and> (\<forall>e. r = Inl e \<longrightarrow> \<not> citation_failure e)"
proof -
  obtain ri where ri: "build_or_load sha (pr_corpus rag) (pr_descriptor rag) (pr_encode rag) now st = (ri, st')"
    using run by (auto simp: rag_search_def split: prod.splits sum.splits)
  note mirrors = build_or_load_mirrors [OF ri store]
  have "\<not> citation_failure e" if r: "r = Inl e" for e
  proof (cases ri)
    case (Inl e')
    with run ri r have "build_or_load sha (pr_corpus rag) (pr_descriptor rag) (pr_encode rag) now st = (Inl e, st')"
      by (auto simp: rag_search_def)
    then have "build_index sha (pr_corpus rag) (pr_descriptor rag) (pr_encode rag) now = Inl e"
      by (auto simp: build_or_load_def split: option.splits sum.splits)
    with encode show ?thesis by (rule build_index_error)
  next
    case (Inr i)
    with mirrors have i: "index_mirrors sha (pr_corpus rag) i" by simp
    from run ri r Inr have search: "search_with_index sha rag i (search_query issue level region) order_id issue
        level region t lat = Inl e" by (auto simp: rag_search_def)
    let ?retrieved = "bindE (pr_encode rag [search_query issue level region]) (\<lambda>vectors.
        case vectors of [] \<Rightarrow> Inl (ValueError ''list index out of range'')
        | q # _ \<Rightarrow> rank_candidates (pr_top_k rag) i q)"
    show ?thesis
    proof (cases ?retrieved)
      case (Inl e')
      have rank: "rank_candidates k i q = Inl e' \<Longrightarrow> \<not> citation_failure e'" for k q
      proof -
        have "mapE (candidate_of q) es = Inl e' \<Longrightarrow> \<not> citation_failure e'" for es
          by (induction es) (auto simp: bindE_eq_Inl candidate_of_def cosine_def citation_failure_def split: if_splits)
        then show "rank_candidates k i q = Inl e' \<Longrightarrow> \<not> citation_failure e'"
          by (auto simp: rank_candidates_def bindE_eq_Inl Let_def)
      qed
      moreover have "\<not> citation_failure (ValueError m)" for m by (simp add: citation_failure_def)
      ultimately have "\<not> citation_failure e'"
        using Inl encode by (fastforce simp: bindE_eq_Inl neq_Nil_conv split: list.splits)
      with search Inl show ?thesis
        by (auto simp: search_with_index_def citation_failure_def split: error.splits)
    next
      case (Inr ks)
      then obtain q where ranked: "rank_candidates (pr_top_k rag) i q = Inr ks"
        by (fastforce simp: bindE_eq_Inr neq_Nil_conv split: list.splits)
      from resolve_ranked [OF corpus i ranked]
      have resolve: "resolve_policy sha (pr_corpus rag) ks issue level region t = Inl e' \<Longrightarrow> \<not> citation_failure e'" for e'
        by (auto simp: resolve_policy_def Let_def bindE_eq_Inl citation_failure_def dest!: check_citation_Inl
            split: if_splits list.splits option.splits)
      show ?thesis
      proof (cases "ks = [] \<or> rc_score (hd ks) < pr_min_similarity rag")
        case True
        with search Inr show ?thesis
          by (auto simp: search_with_index_def citation_failure_def dest!: no_hit_error)
      next
        case False
        with search Inr have "bindE (resolve_policy sha (pr_corpus rag) ks issue level region t) (\<lambda>resolved.
            if rv_retrieval_miss resolved
              then no_hit_payload sha rag i ks order_id issue level region t lat
            else if rv_status resolved = None
              then Inl (PolicyRetrievalUnavailable ''POLICY_RESOLUTION_STATUS_MISSING'' False)
            else checked_payload sha
              (search_payload sha rag i ks order_id issue level region t lat RT_HIT resolved)) = Inl e"
          by (simp add: search_with_index_def)
        with resolve show ?thesis
          unfolding bindE_eq_Inl
          by (auto simp: citation_failure_def dest!: no_hit_error checked_payload_error split: if_splits)
      qed
    qed
  qed
  with mirrors show ?thesis by blast
qed

text \<open>C20. The policy binding stored in a proposal survives the way through JSON: for the issue, service level
  and region of the search that produced it, it validates against the same corpus exactly as long as the
  clause it was taken from is in force.\<close>

theorem binding_valid_while_in_force:
  assumes corpus: "check_policy_corpus (pr_corpus rag) = Inr (pr_corpus rag)"
    and clauses: "list_all (\<lambda>c. check_policy_facts (pl_facts c) = Inr (pl_facts c) \<and>
      check_policy_clause c = Inr c) (pv_clauses (pr_corpus rag))"
    and run: "rag_search sha rag st now order_id issue level region t lat = (Inr p, st')"
    and bound: "policy_binding sha p = Some binding"
  shows "\<exists>f. ps_policy_fact_snapshot p = Some f \<and> within_effective_window f t \<and>
    (\<forall>t'. validate_policy_binding sha (pr_corpus rag) (Some binding) issue level region t' \<longleftrightarrow>
       within_effective_window f t')"
proof -
  from bound have verified: "verified_for_gate (material_snapshot_hash sha) p"
    by (auto simp: policy_binding_def split: if_splits)
  from run obtain i where
    "search_with_index sha rag i (search_query issue level region) order_id issue level region t lat = Inr p"
    by (rule rag_search_Inr)
  from this verified obtain ks r where r: "resolve_policy sha (pr_corpus rag) ks issue level region t = Inr r"
    "rv_status r = Some PR_APPLICABLE"
    "p = search_payload sha rag i ks order_id issue level region t lat RT_HIT r"
    by (rule search_verified)
  from resolve_applicable [OF r(1,2)] obtain c where c: "authority_set (pr_corpus rag) issue level region t = [c]"
    "rv_facts r = Some (pl_facts c)" by blast
  then have active: "c \<in> set (pv_clauses (pr_corpus rag))" "is_active_authority_clause c issue level region t"
    using authority_setD [of c "pr_corpus rag" issue level region t] by auto
  with clauses have ok: "check_policy_facts (pl_facts c) = Inr (pl_facts c)"
    "pl_clause_id c = pf_clause_id (pl_facts c)" "pl_content_hash c = pf_source_hash (pl_facts c)"
    by (auto simp: list_all_iff check_policy_clause_def split: if_splits)
  from bound verified r(3) c(2) have binding: "binding =
      JObj [(''policy_version'', JStr (pf_policy_version (pl_facts c))), (''clause_id'', JStr (pf_clause_id (pl_facts c))),
            (''policy_source_hash'', JStr (pf_source_hash (pl_facts c))), (''region'', JStr (pf_region (pl_facts c))),
            (''policy_fact_snapshot'', material_snapshot (pl_facts c)),
            (''policy_fact_snapshot_hash'', JStr (material_snapshot_hash sha (pl_facts c)))]"
    by (simp add: policy_binding_def search_payload_def json_opt_str_def)
  have look: "corpus_lookup (pr_corpus rag) (pf_policy_version (pl_facts c)) (pf_clause_id (pl_facts c)) = Some c"
    using corpus_lookup_own [OF corpus active(1)] ok(2) by simp
  have "validate_policy_binding sha (pr_corpus rag) (Some binding) issue level region t' \<longleftrightarrow>
      within_effective_window (pl_facts c) t'" for t'
    using active(2) look ok policy_facts_roundtrip [OF ok(1)]
    unfolding validate_policy_binding_def binding
    by (simp add: binding_keys_def Let_def is_active_authority_clause_def)
  with active(2) c(2) r(3) show ?thesis
    by (intro exI [of _ "pl_facts c"]) (simp add: search_payload_def is_active_authority_clause_def)
qed


section \<open>The authored corpus is unambiguous\<close>

text \<open>May both sources be in force at the same time for the same request?\<close>

definition sources_overlap :: "clause_source \<Rightarrow> clause_source \<Rightarrow> bool" where
  "sources_overlap a b \<longleftrightarrow>
     \<not> cs_poisoned a \<and> \<not> cs_poisoned b \<and> cs_service_level a = cs_service_level b \<and>
     cs_issue_type a = cs_issue_type b \<and> cs_region a = cs_region b \<and>
     (case cs_effective_to a of None \<Rightarrow> True | Some t \<Rightarrow> instant (cs_effective_from b) < instant t) \<and>
     (case cs_effective_to b of None \<Rightarrow> True | Some t \<Rightarrow> instant (cs_effective_from a) < instant t)"

lemma active_overlap:
  assumes "is_active_authority_clause (raw_clause sha a) issue level region t"
    "is_active_authority_clause (raw_clause sha b) issue level region t"
  shows "sources_overlap a b"
  using assms
  by (auto simp: is_active_authority_clause_def sources_overlap_def clause_facts_def within_effective_window_def
      split: if_splits option.splits)

type_synonym source_window = "bool \<times> string \<times> issue_type \<times> string \<times> int \<times> int option"

definition window_of :: "clause_source \<Rightarrow> source_window" where
  "window_of s = (cs_poisoned s, cs_service_level s, cs_issue_type s, cs_region s,
     instant (cs_effective_from s), map_option instant (cs_effective_to s))"

fun windows_overlap :: "source_window \<Rightarrow> source_window \<Rightarrow> bool" where
  "windows_overlap (p, l, i, r, f, u) (p', l', i', r', f', u') \<longleftrightarrow>
     \<not> p \<and> \<not> p' \<and> l = l' \<and> i = i' \<and> r = r' \<and>
     (case u of None \<Rightarrow> True | Some t \<Rightarrow> f' < t) \<and> (case u' of None \<Rightarrow> True | Some t \<Rightarrow> f < t)"

lemma sources_overlap_window: "sources_overlap a b \<longleftrightarrow> windows_overlap (window_of a) (window_of b)"
  by (auto simp: sources_overlap_def window_of_def split: option.splits)

text \<open>Clauses in force at the same time have different versions; and but for the clauses that start in 2027
  and those of the conflict test no two are in force at the same time.\<close>

definition version_windows :: "clause_source list \<Rightarrow> (string \<times> source_window) list" where
  "version_windows ss = map (\<lambda>s. (cs_document_version s, window_of s)) ss"

lemma clauses_v1_versions:
  "sorted_wrt (\<lambda>(v, a) (v', b). \<not> windows_overlap a b \<or> v \<noteq> v') (version_windows clauses_v1)"
  by (simp add: version_windows_def clauses_v1_defs clause_source.make_def window_of_def date_simps)

definition new_year_2027 :: datetime where
  "new_year_2027 = utc_date 2027 1 1"

definition settled_window :: "source_window \<Rightarrow> bool" where
  "settled_window w = (case w of (_, l, _, _, f, _) \<Rightarrow> l \<noteq> ''conflict_test'' \<and> f < instant new_year_2027)"

lemma clauses_v1_settled:
  "sorted_wrt (\<lambda>a b. \<not> windows_overlap a b) (filter settled_window (map window_of clauses_v1))"
  by (simp add: clauses_v1_defs clause_source.make_def window_of_def settled_window_def new_year_2027_def date_simps)

lemma filter_at_most_one:
  "sorted_wrt (\<lambda>a b. \<not> R a b) xs \<Longrightarrow> (\<And>a b. P a \<Longrightarrow> P b \<Longrightarrow> R a b) \<Longrightarrow> length (filter P xs) \<le> 1"
proof (induction xs)
  case (Cons x xs)
  show ?case
  proof (cases "P x")
    case True
    with Cons.prems have "filter P xs = []" by (auto simp: filter_empty_conv)
    then show ?thesis by simp
  next
    case False
    with Cons show ?thesis by simp
  qed
qed simp

lemma authority_set_v1:
  "authority_set (corpus_v1 sha) issue level region t =
     map (raw_clause sha) (filter (\<lambda>s. is_active_authority_clause (raw_clause sha s) issue level region t) clauses_v1)"
  by (simp add: authority_set_def corpus_v1_def filter_map comp_def)

lemma authority_v1_single:
  assumes "instant t < instant new_year_2027" "level \<noteq> ''conflict_test''"
  shows "length (authority_set (corpus_v1 sha) issue level region t) \<le> 1"
proof -
  let ?P = "\<lambda>s. is_active_authority_clause (raw_clause sha s) issue level region t"
  let ?S = "\<lambda>s. settled_window (window_of s)"
  have "?P s \<Longrightarrow> ?S s" for s
    using assms by (auto simp: is_active_authority_clause_def clause_facts_def settled_window_def window_of_def
        within_effective_window_def split: if_splits)
  then have "filter ?P clauses_v1 = filter ?P (filter ?S clauses_v1)" by (auto intro!: filter_cong)
  moreover have "sorted_wrt (\<lambda>a b. \<not> sources_overlap a b) (filter ?S clauses_v1)"
    using clauses_v1_settled by (simp add: filter_map sorted_wrt_map comp_def sources_overlap_window)
  then have "length (filter ?P (filter ?S clauses_v1)) \<le> 1"
    by (rule filter_at_most_one) (rule active_overlap)
  ultimately show ?thesis by (simp add: authority_set_v1)
qed

lemma authority_v1_versions:
  assumes "1 < length (authority_set (corpus_v1 sha) issue level region t)"
  shows "1 < length (remdups (map (\<lambda>c. pf_policy_version (pl_facts c)) (authority_set (corpus_v1 sha) issue level region t)))"
proof -
  let ?P = "\<lambda>s. is_active_authority_clause (raw_clause sha s) issue level region t"
  let ?ss = "filter ?P clauses_v1"
  have "sorted_wrt (\<lambda>a b. \<not> sources_overlap a b \<or> cs_document_version a \<noteq> cs_document_version b) clauses_v1"
    using clauses_v1_versions by (simp add: version_windows_def sorted_wrt_map sources_overlap_window)
  then have versions: "sorted_wrt (\<lambda>a b. \<not> sources_overlap a b \<or> cs_document_version a \<noteq> cs_document_version b) ?ss"
    by (rule sorted_wrt_filter)
  from assms obtain a b rest where ss: "?ss = a # b # rest"
    by (auto simp: authority_set_v1 numeral_2_eq_2 Suc_le_length_iff less_eq_Suc_le)
  have "a \<in> set ?ss" "b \<in> set ?ss" unfolding ss by simp_all
  then have "?P a" "?P b" by simp_all
  then have "sources_overlap a b" by (rule active_overlap)
  with versions ss have "cs_document_version a \<noteq> cs_document_version b" by simp
  then have "{cs_document_version a, cs_document_version b} \<subseteq> set (map cs_document_version ?ss)"
    "card {cs_document_version a, cs_document_version b} = 2" using ss by auto
  then have "2 \<le> card (set (map cs_document_version ?ss))" by (metis card_mono List.finite_set)
  then show ?thesis
    by (simp add: authority_set_v1 comp_def clause_facts_def length_remdups_card_conv)
qed

text \<open>C21. The authored corpus is built and passes its own verification for every digest function.  On it the
  resolver never fails with two active clauses of one version; and before 2027 no request has more than
  one clause in force, except for the service level that was made to test version conflicts.\<close>

theorem authored_corpus_unambiguous:
  assumes "\<And>j. is_sha256_hex (sha j)"
  shows "\<exists>v. build_policy_corpus_v1 sha = Inr v \<and> verify_corpus v = Inr () \<and> length (pv_clauses v) = 26 \<and>
    (\<forall>issue level region t. instant t < instant new_year_2027 \<longrightarrow> level \<noteq> ''conflict_test'' \<longrightarrow>
       length (authority_set v issue level region t) \<le> 1) \<and>
    (\<forall>ks issue level region t.
       resolve_policy sha v ks issue level region t \<noteq>
       Inl (PolicyRetrievalUnavailable ''POLICY_DUPLICATE_ACTIVE_CLAUSE'' False))"
proof -
  have count: "length (pv_clauses (corpus_v1 sha)) = 26"
    by (simp add: corpus_v1_def clauses_v1_defs)
  have canonical: "mapE (canonical_candidate sha v) ks = Inl e \<Longrightarrow> citation_failure e" for v ks e
    by (induction ks) (auto simp: bindE_eq_Inl canonical_candidate_def citation_failure_def split: option.splits if_splits)
  have "resolve_policy sha (corpus_v1 sha) ks issue level region t \<noteq>
      Inl (PolicyRetrievalUnavailable ''POLICY_DUPLICATE_ACTIVE_CLAUSE'' False)" for ks issue level region t
    using authority_v1_versions [of sha issue level region t]
    by (auto simp: resolve_policy_def Let_def bindE_eq_Inl citation_failure_def split: if_splits list.splits option.splits
        dest!: canonical check_citation_Inl)
  then show ?thesis
    using build_corpus_v1 [OF assms] corpus_v1_verified [OF assms] count authority_v1_single [of _ _ sha]
    by (intro exI [of _ "corpus_v1 sha"] conjI allI impI) (assumption | blast)+
qed

text \<open>From the start of 2027 the authored corpus has two versions in force for the standard service level
  in its region: the announced clauses begin while the current ones have no end.  The resolver then answers
  every retrievable standard request with a version conflict, so no standard ticket can be proposed.\<close>

theorem standard_policy_conflicts_from_2027:
  assumes "instant new_year_2027 \<le> instant t" "\<forall>k \<in> set ks. names_clause sha (corpus_v1 sha) k"
  shows "\<exists>r. resolve_policy sha (corpus_v1 sha) ks issue ''standard'' ''cn-east'' t = Inr r \<and>
    rv_status r = Some PR_VERSION_CONFLICT \<and> rv_facts r = None"
proof -
  let ?P = "\<lambda>s. is_active_authority_clause (raw_clause sha s) issue ''standard'' ''cn-east'' t"
  have "1 < length (filter ?P clauses_v1)"
    using assms(1)
    by (cases issue) (simp_all add: clauses_v1_defs clause_source.make_def is_active_authority_clause_def
        clause_facts_def within_effective_window_def new_year_2027_def date_simps)
  then have many: "1 < length (authority_set (corpus_v1 sha) issue ''standard'' ''cn-east'' t)"
    by (simp add: authority_set_v1)
  from mapE_canonical [OF corpus_v1_checked assms(2)] obtain canonical
    where "mapE (canonical_candidate sha (corpus_v1 sha)) ks = Inr canonical" by blast
  with many authority_v1_versions [OF many] show ?thesis
    by (simp add: resolve_policy_def Let_def no_resolution_def)
qed

section \<open>Witnesses\<close>

definition w_digest :: string where
  "w_digest = replicate 64 (CHR ''b'')"

definition w_sha :: "json \<Rightarrow> string" where
  "w_sha j = w_digest"

lemma w_sha_simps [simp]: "w_sha j = w_digest" "is_sha256_hex w_digest"
  by (simp_all add: w_sha_def w_digest_def is_sha256_hex_def is_hex_digit_def list_all_iff)

definition w_source :: clause_source where
  "w_source = clause_source.make ''D'' ''v1'' [116] ''C1'' [97, 98] STALLED_TRACKING ''standard'' True
     [''timeline''] (Aware 0) ''cn-east'' (Some (Aware 1000)) (Some 48) False"

definition w_clause :: policy_clause where
  "w_clause = raw_clause w_sha w_source"

definition w_rag :: policy_rag where
  "w_rag = \<lparr>pr_corpus = \<lparr>pv_corpus_version = ''test'', pv_source_declaration = policy_source_declaration,
       pv_clauses = [w_clause]\<rparr>,
     pr_descriptor = \<lparr>em_mode = ''fake_test'', em_package = ''p'', em_package_version = ''1'', em_model_id = ''m'',
       em_model_revision = ''r'', em_normalized_cosine = True\<rparr>,
     pr_encode = (\<lambda>texts. Inr (map (\<lambda>_. [1]) texts)), pr_top_k = 3, pr_min_similarity = 1 / 2\<rparr>"

definition w_store :: index_store where
  "w_store = \<lparr>xs_file = None, xs_cached = None\<rparr>"

definition w_search :: "policy_search result \<times> index_store" where
  "w_search = rag_search w_sha w_rag w_store (Aware 5) ''O1'' STALLED_TRACKING ''standard'' ''cn-east'' (Aware 10) (1, 1)"

lemma w_clause_simps [simp]:
  "pl_document_id w_clause = ''D''" "pl_clause_id w_clause = ''C1''" "pl_content_hash w_clause = w_digest"
  "pl_document_version w_clause = ''v1''" "\<not> pl_poisoned w_clause" "pl_document_title w_clause = [116]"
  "pl_policy_source w_clause = policy_source_declaration"
  "pl_facts w_clause = \<lparr>pf_eligible = True, pf_stalled_after_hours = Some 48, pf_required_evidence_codes = [''timeline''],
     pf_effective_from = Aware 0, pf_effective_to = Some (Aware 1000), pf_service_level = ''standard'',
     pf_region = ''cn-east'', pf_policy_version = ''v1'', pf_clause_id = ''C1'', pf_source_hash = w_digest,
     pf_issue_type = STALLED_TRACKING\<rparr>"
  by (simp_all add: w_clause_def w_source_def clause_source.make_def clause_facts_def raw_clause_def)

lemma w_clause_good:
  "check_policy_facts (pl_facts w_clause) = Inr (pl_facts w_clause) \<and> check_policy_clause w_clause = Inr w_clause"
  using clause_facts_good [of w_sha w_source] raw_clause_good [of w_sha w_source]
  by (simp add: w_clause_def w_source_def clause_source.make_def good_source_def)

lemma w_corpus_ok: "check_policy_corpus (pr_corpus w_rag) = Inr (pr_corpus w_rag)"
  by (simp add: w_rag_def check_policy_corpus_def)

definition w_index :: vector_index where
  "w_index =
     \<lparr>vi_manifest = \<lparr>im_index_format_version = index_format_version, im_chunker_version = chunker_version,
        im_corpus_version = ''test'', im_corpus_digest = w_digest, im_embedding = pr_descriptor w_rag,
        im_vector_dimension = 1, im_index_content_digest = w_digest, im_index_built_at = Aware 5,
        im_content_hashes = [w_digest]\<rparr>, vi_entries = [index_entry w_sha w_clause [1]]\<rparr>"

lemma w_build: "build_index w_sha (pr_corpus w_rag) (pr_descriptor w_rag) (pr_encode w_rag) (Aware 5) = Inr w_index"
  by (simp add: build_index_def w_rag_def Let_def check_vector_index_def check_index_manifest_def
      check_indexed_clause_def index_content_digest_def corpus_digest_def index_entry_def passage_hash_def w_index_def)

lemma w_rank: "rank_candidates 3 w_index [1] = Inr [\<lparr>rc_document_id = ''D'', rc_policy_version = ''v1'',
    rc_clause_id = ''C1'', rc_source_hash = w_digest, rc_passage_hash = w_digest, rc_score = 1, rc_rank = 1\<rparr>]"
  by (simp add: rank_candidates_def w_index_def Let_def candidate_of_def cosine_def index_entry_def passage_hash_def)

lemma w_citation: "check_citation (citation_of w_sha w_clause) = Inr (citation_of w_sha w_clause)"
proof -
  have "controlled_citation_excerpt w_clause = [97, 98]"
    by (simp add: controlled_citation_excerpt_def citation_excerpt_max_chars_def w_clause_def raw_clause_def w_source_def
        clause_source.make_def is_space_def)
  then show ?thesis by (simp add: check_citation_def citation_of_def Let_def text_of_def)
qed

lemma w_resolve:
  "resolve_policy w_sha (pr_corpus w_rag) [\<lparr>rc_document_id = ''D'', rc_policy_version = ''v1'',
    rc_clause_id = ''C1'', rc_source_hash = w_digest, rc_passage_hash = w_digest, rc_score = 1, rc_rank = 1\<rparr>]
    STALLED_TRACKING ''standard'' ''cn-east'' (Aware 10) =
   Inr \<lparr>rv_status = Some PR_APPLICABLE, rv_retrieval_miss = False, rv_facts = Some (pl_facts w_clause),
     rv_citation = Some (citation_of w_sha w_clause), rv_selected_rank = Some 1, rv_selected_similarity = Some 1\<rparr>"
  by (simp add: resolve_policy_def w_rag_def canonical_candidate_def corpus_lookup_def passage_hash_def
      authority_set_def is_active_authority_clause_def within_effective_window_def Let_def w_citation)

lemma w_search_ok:
  "\<exists>p. w_search = (Inr p, \<lparr>xs_file = Some w_index, xs_cached = Some w_index\<rparr>) \<and>
     verified_for_gate (material_snapshot_hash w_sha) p \<and> ps_policy_fact_snapshot p = Some (pl_facts w_clause)"
proof -
  have encode: "pr_encode w_rag [q] = Inr [[1]]" "pr_top_k w_rag = 3" "pr_min_similarity w_rag = 1 / 2" for q
    by (simp_all add: w_rag_def)
  show ?thesis
    using w_build w_rank w_resolve
    by (simp add: w_search_def rag_search_def build_or_load_def load_if_current_def w_store_def
        search_with_index_def encode checked_payload_def check_policy_search_def search_payload_def
        policy_search_fields_def opt_in_def citation_of_def excerpt_digest_def material_snapshot_hash_def
        verified_for_gate_def w_index_def index_format_version_def index_digest_def corpus_digest_def w_rag_def)
qed


lemma verified_payload_is_canonical_witness:
  "\<exists>p. fst w_search = Inr p \<and> ps_citation p = Some (citation_of w_sha w_clause) \<and>
     ''C1'' \<in> set (ps_candidate_clause_ids p)"
proof -
  from w_search_ok obtain p st' where p: "w_search = (Inr p, st')" "verified_for_gate (material_snapshot_hash w_sha) p"
    by blast
  from verified_payload_is_canonical [OF p(1) [unfolded w_search_def] p(2)] obtain c where
    c: "authority_set (pr_corpus w_rag) STALLED_TRACKING ''standard'' ''cn-east'' (Aware 10) = [c]"
    "ps_citation p = Some (citation_of w_sha c)" "pl_clause_id c \<in> set (ps_candidate_clause_ids p)" by blast
  from c(1) authority_setD [of c "pr_corpus w_rag" STALLED_TRACKING "''standard''" "''cn-east''" "Aware 10"]
  have "c = w_clause" by (simp add: w_rag_def)
  with c show ?thesis unfolding p(1) by simp
qed

lemma retrieval_never_breaks_citations_witness:
  "store_ok w_sha (pr_corpus w_rag) (snd w_search) \<and> xs_cached (snd w_search) = Some w_index"
proof -
  from w_search_ok obtain p where p: "w_search = (Inr p, \<lparr>xs_file = Some w_index, xs_cached = Some w_index\<rparr>)"
    by blast
  have "store_ok w_sha (pr_corpus w_rag) w_store" by (simp add: store_ok_def w_store_def)
  from retrieval_never_breaks_citations [OF w_corpus_ok this _ p [unfolded w_search_def]] show ?thesis
    unfolding p by (simp add: w_rag_def)
qed

lemma binding_valid_while_in_force_witness:
  "\<exists>p b. fst w_search = Inr p \<and> policy_binding w_sha p = Some b \<and>
     validate_policy_binding w_sha (pr_corpus w_rag) (Some b) STALLED_TRACKING ''standard'' ''cn-east'' (Aware 999) \<and>
     \<not> validate_policy_binding w_sha (pr_corpus w_rag) (Some b) STALLED_TRACKING ''standard'' ''cn-east'' (Aware 1000)"
proof -
  from w_search_ok obtain p st' where p: "w_search = (Inr p, st')" "verified_for_gate (material_snapshot_hash w_sha) p"
    "ps_policy_fact_snapshot p = Some (pl_facts w_clause)" by blast
  then obtain b where b: "policy_binding w_sha p = Some b" by (simp add: policy_binding_def)
  have "list_all (\<lambda>c. check_policy_facts (pl_facts c) = Inr (pl_facts c) \<and> check_policy_clause c = Inr c)
      (pv_clauses (pr_corpus w_rag))"
    using w_clause_good by (simp add: w_rag_def del: w_clause_simps)
  from binding_valid_while_in_force [OF w_corpus_ok this p(1) [unfolded w_search_def] b] p(3)
  have valid: "validate_policy_binding w_sha (pr_corpus w_rag) (Some b) STALLED_TRACKING ''standard'' ''cn-east'' t \<longleftrightarrow>
      within_effective_window (pl_facts w_clause) t" for t by (simp del: w_clause_simps)
  from b show ?thesis
    unfolding p(1) by (simp add: valid within_effective_window_def)
qed

lemma authored_corpus_unambiguous_witness:
  "\<exists>v. build_policy_corpus_v1 w_sha = Inr v \<and>
     length (authority_set v SIGNED_NOT_RECEIVED ''standard'' ''cn-east'' (utc_date 2026 8 29)) \<le> 1"
proof -
  have "instant (utc_date 2026 8 29) < instant new_year_2027" by (simp add: new_year_2027_def date_simps)
  with authored_corpus_unambiguous [of w_sha] show ?thesis by auto
qed

lemma standard_policy_conflicts_from_2027_witness:
  "\<exists>r. resolve_policy w_sha (corpus_v1 w_sha) [] SIGNED_NOT_RECEIVED ''standard'' ''cn-east'' (utc_date 2027 1 1) = Inr r \<and>
     rv_status r = Some PR_VERSION_CONFLICT"
  using standard_policy_conflicts_from_2027 [of "utc_date 2027 1 1" "[]" w_sha SIGNED_NOT_RECEIVED]
  by (auto simp: new_year_2027_def)

end
