(* ===== verification/Service.thy ===== *)
theory Service
  imports EventStore CaseFactService Actions FixtureStore PolicyRag Dispositions
begin

text \<open>
  What the request handlers of \<open>application/service.py\<close> share: their state, transactions, events and runs.

  \<^item> \<open>app_state\<close> is the database with its event hub, the fixtures and the cached reads of the cases; a handler
    is a function from it to a result and the state after it, since what was committed before an exception
    stays committed.
  \<^item> \<open>with session.begin()\<close> is \<open>transaction\<close>: an exception inside rolls the database back.
  \<^item> \<open>app_env\<close> holds what does not change: digests, settings, the policy service, and what the clock and
    \<open>uuid4\<close> answer at their \<open>n\<close>-th reading.  An operation of the repository is given a reading for every place
    where it may take one; nothing is assumed of the order of readings.
  \<^item> A handler runs under the lock of its conversation and is one function; what handlers of other
    conversations do at its suspension points is not modelled.  Pacing only delays.

  The lemmas give the rules by which an invariant of every outcome, exceptional or not, is proved along a
  handler, and the parts of the database that events and runs leave alone.
\<close>

section \<open>State and effects\<close>

record app_env =
  ae_sha :: "json \<Rightarrow> string"
  ae_sha_text :: "utext \<Rightarrow> string"
  ae_dump_proof :: "proof_fixture \<Rightarrow> json"
  ae_casefold :: "utext \<Rightarrow> utext"
  ae_clock :: "nat \<Rightarrow> datetime"
  ae_hex :: "nat \<Rightarrow> string"
  ae_fault_seed :: string
  ae_evaluated_at :: datetime
  ae_max_case_reads :: int
  ae_max_case_turns :: int
  ae_rag :: policy_rag

record app_state =
  sv_events :: event_store
  sv_fixtures :: fixture_store
  sv_caches :: "(string \<times> read_payload case_tool_cache) list"
  sv_tick :: nat

type_synonym 'a app = "app_state \<Rightarrow> 'a result \<times> app_state"

definition sv_db :: "app_state \<Rightarrow> database" where
  "sv_db s = es_db (sv_events s)"

definition put_db :: "database \<Rightarrow> app_state \<Rightarrow> app_state" where
  "put_db d s = s\<lparr>sv_events := (sv_events s)\<lparr>es_db := d\<rparr>\<rparr>"

definition returnA :: "'a \<Rightarrow> 'a app" where
  "returnA x s = (Inr x, s)"

definition raiseA :: "error \<Rightarrow> 'a app" where
  "raiseA e s = (Inl e, s)"

definition bindA :: "'a app \<Rightarrow> ('a \<Rightarrow> 'b app) \<Rightarrow> 'b app" where
  "bindA m f s = (case m s of (Inl e, s') \<Rightarrow> (Inl e, s') | (Inr x, s') \<Rightarrow> f x s')"

definition thenA :: "'a app \<Rightarrow> 'b app \<Rightarrow> 'b app" where
  "thenA m n = bindA m (\<lambda>_. n)"

text \<open>An expression over the state, and a change of the fixtures.\<close>

definition readA :: "(app_state \<Rightarrow> 'a result) \<Rightarrow> 'a app" where
  "readA f s = (f s, s)"

definition read_db :: "(database \<Rightarrow> 'a result) \<Rightarrow> 'a app" where
  "read_db f = readA (\<lambda>s. f (sv_db s))"

definition on_fixtures :: "(fixture_store \<Rightarrow> ('a \<times> fixture_store) result) \<Rightarrow> 'a app" where
  "on_fixtures f s = (case f (sv_fixtures s) of
     Inl e \<Rightarrow> (Inl e, s) | Inr (x, fx) \<Rightarrow> (Inr x, s\<lparr>sv_fixtures := fx\<rparr>))"

definition on_db :: "(database \<Rightarrow> ('a \<times> database) result) \<Rightarrow> 'a app" where
  "on_db f s = (case f (sv_db s) of Inl e \<Rightarrow> (Inl e, s) | Inr (x, d) \<Rightarrow> (Inr x, put_db d s))"

definition transaction :: "'a app \<Rightarrow> 'a app" where
  "transaction m s = (case m s of (Inl e, s') \<Rightarrow> (Inl e, put_db (sv_db s) s') | (Inr x, s') \<Rightarrow> (Inr x, s'))"

text \<open>\<open>try: m except Exception: h\<close>, where \<open>h\<close> says which exceptions it handles.\<close>

definition catchA :: "'a app \<Rightarrow> (error \<Rightarrow> 'a app) \<Rightarrow> 'a app" where
  "catchA m h s = (case m s of (Inl e, s') \<Rightarrow> h e s' | (Inr x, s') \<Rightarrow> (Inr x, s'))"

definition utc_now :: "app_env \<Rightarrow> datetime app" where
  "utc_now env s = (Inr (ae_clock env (sv_tick s)), s\<lparr>sv_tick := Suc (sv_tick s)\<rparr>)"

definition uuid4_hex :: "app_env \<Rightarrow> string app" where
  "uuid4_hex env s = (Inr (ae_hex env (sv_tick s)), s\<lparr>sv_tick := Suc (sv_tick s)\<rparr>)"

text \<open>An operation of the repository with its clock readings; \<open>repo\<close> takes one.\<close>

definition repo :: "app_env \<Rightarrow> (datetime \<Rightarrow> database \<Rightarrow> ('a \<times> database) result) \<Rightarrow> 'a app" where
  "repo env f = bindA (utc_now env) (\<lambda>t. on_db (f t))"

definition new_id_app :: "app_env \<Rightarrow> string \<Rightarrow> string app" where
  "new_id_app env kind = bindA (uuid4_hex env) (\<lambda>h. returnA (new_id kind h))"

section \<open>Events\<close>

fun disposition_value :: "customer_disposition \<Rightarrow> string" where
  "disposition_value CD_ANSWER = ''ANSWER''"
| "disposition_value CD_WAIT = ''WAIT''"
| "disposition_value CD_CLARIFY = ''CLARIFY''"
| "disposition_value CD_INVESTIGATE = ''INVESTIGATE''"
| "disposition_value CD_ESCALATE = ''ESCALATE''"

text \<open>\<open>self.events.append(EventDraft(...))\<close> with the arguments the handlers pass.\<close>

definition emit_with ::
  "app_env \<Rightarrow> evidence_ref list \<Rightarrow> string \<Rightarrow> string option \<Rightarrow> string option \<Rightarrow> string \<Rightarrow> string \<Rightarrow> utext \<Rightarrow>
   (string \<times> json) list \<Rightarrow> unit app" where
  "emit_with env evidence_refs conversation_id case_id run_id event_type visibility summary payload =
    bindA (uuid4_hex env) (\<lambda>h.
    bindA (utc_now env) (\<lambda>now.
    bindA (utc_now env) (\<lambda>now' s.
      let draft = \<lparr>ed_conversation_id = conversation_id, ed_event_type = event_type, ed_visibility = visibility,
            ed_summary = summary, ed_payload = JObj payload, ed_evidence_refs = evidence_refs, ed_case_id = case_id,
            ed_run_id = run_id, ed_schema_version = 1, ed_timestamp = None, ed_event_id = new_id ''evt'' h\<rparr>
      in case bindE (check_event_draft draft) (event_append (sv_events s) now now') of
           Inl e \<Rightarrow> (Inl e, s)
         | Inr (_, es) \<Rightarrow> (Inr (), s\<lparr>sv_events := es\<rparr>))))"

abbreviation emit ::
  "app_env \<Rightarrow> string \<Rightarrow> string option \<Rightarrow> string option \<Rightarrow> string \<Rightarrow> string \<Rightarrow> utext \<Rightarrow>
   (string \<times> json) list \<Rightarrow> unit app" where
  "emit env \<equiv> emit_with env []"

section \<open>Runs\<close>

definition say :: "app_env \<Rightarrow> string \<Rightarrow> string option \<Rightarrow> string \<Rightarrow> utext \<Rightarrow> message_row app" where
  "say env conversation_id case_id run_id reply =
    bindA (uuid4_hex env) (\<lambda>h. repo env (\<lambda>t d.
      add_message d h t conversation_id ''assistant'' reply None case_id (Some run_id) None None))"

definition run_succeeds :: "app_env \<Rightarrow> string \<Rightarrow> run_row app" where
  "run_succeeds env run_id = repo env (\<lambda>t d. update_run d t run_id ''succeeded'' None None None None)"

definition start_run :: "app_env \<Rightarrow> string \<Rightarrow> string \<Rightarrow> string option \<Rightarrow> unit app" where
  "start_run env conversation_id run_id case_id =
    thenA (transaction (repo env (\<lambda>t d. update_run d t run_id ''running'' None None None None)))
      (emit env conversation_id case_id (Some run_id) ''run_started'' ''developer'' (text_of ''Run started'') [])"

definition fail_run ::
  "app_env \<Rightarrow> string \<Rightarrow> string \<Rightarrow> string \<Rightarrow> string \<Rightarrow> string \<Rightarrow> string option \<Rightarrow> bool \<Rightarrow> int option \<Rightarrow> int option \<Rightarrow>
   unit app" where
  "fail_run env conversation_id run_id failure_code event_type summary case_id retryable turns reads =
    thenA (transaction (repo env (\<lambda>t d. update_run d t run_id ''failed'' turns reads (Some failure_code) None)))
      (emit env conversation_id case_id (Some run_id) event_type ''both'' (text_of summary)
         [(''failure_code'', JStr failure_code), (''retryable'', JBool retryable)])"

definition emit_customer_reply ::
  "app_env \<Rightarrow> string \<Rightarrow> string \<Rightarrow> utext \<Rightarrow> string option \<Rightarrow> string \<Rightarrow> string option \<Rightarrow> customer_disposition \<Rightarrow>
   unit app" where
  "emit_customer_reply env conversation_id run_id reply case_id reply_kind reply_version disposition =
    emit env conversation_id case_id (Some run_id) ''customer_reply_created'' ''customer'' reply
      ([(''customer_text'', JText reply), (''reply_kind'', JStr reply_kind),
        (''customer_disposition'', JStr (disposition_value disposition))] @
       (case reply_version of None \<Rightarrow> [] | Some v \<Rightarrow> [(''reply_version'', JStr v)]))"

definition emit_run_succeeded :: "app_env \<Rightarrow> string \<Rightarrow> string \<Rightarrow> string option \<Rightarrow> unit app" where
  "emit_run_succeeded env conversation_id run_id case_id =
     emit env conversation_id case_id (Some run_id) ''run_succeeded'' ''developer'' (text_of ''Run completed'') []"

definition emit_reply_and_success ::
  "app_env \<Rightarrow> string \<Rightarrow> string \<Rightarrow> utext \<Rightarrow> string option \<Rightarrow> string \<Rightarrow> string option \<Rightarrow> customer_disposition \<Rightarrow>
   unit app" where
  "emit_reply_and_success env conversation_id run_id reply case_id reply_kind reply_version disposition =
    thenA (emit_customer_reply env conversation_id run_id reply case_id reply_kind reply_version disposition)
      (emit_run_succeeded env conversation_id run_id case_id)"

definition complete_without_case ::
  "app_env \<Rightarrow> string \<Rightarrow> string \<Rightarrow> utext \<Rightarrow> customer_disposition \<Rightarrow> string \<Rightarrow> string option \<Rightarrow> unit app" where
  "complete_without_case env conversation_id run_id reply disposition reply_kind reply_version =
    thenA (transaction (thenA (say env conversation_id None run_id reply) (run_succeeds env run_id)))
      (emit_reply_and_success env conversation_id run_id reply None reply_kind reply_version disposition)"

text \<open>\<open>_observed_run_usage\<close>: the planning turns and actual reads that the durable records show.\<close>

definition observed_run_usage :: "string \<Rightarrow> string \<Rightarrow> (int \<times> int) app" where
  "observed_run_usage conversation_id run_id =
    read_db (\<lambda>d. bindE (list_after d conversation_id 0 5000) (\<lambda>events.
      Inr (int (length (filter (\<lambda>e. en_run_id e = Some run_id \<and> en_event_type e = ''agent_turn_started'') events)),
           int (length (filter tcr_actual_execution (list_tool_calls d None (Some run_id)))))))"

definition create_action_run :: "app_env \<Rightarrow> string \<Rightarrow> string \<Rightarrow> string \<Rightarrow> (string \<times> string) app" where
  "create_action_run env case_id run_kind trace_id =
    bindA (new_id_app env ''run'') (\<lambda>run_id.
    bindA (transaction (bindA (read_db (\<lambda>d. require_case d case_id)) (\<lambda>c.
      thenA (bindA (uuid4_hex env) (\<lambda>h. repo env (\<lambda>t d. create_run d h t None
          ((run_defaults (icr_conversation_id c) run_kind)\<lparr>ra_run_id := Some run_id, ra_case_id := Some case_id,
             ra_trace_id := Some trace_id\<rparr>))))
        (returnA (icr_conversation_id c))))) (\<lambda>conversation_id.
    thenA (start_run env conversation_id run_id (Some case_id)) (returnA (run_id, conversation_id))))"

section \<open>Case updates\<close>

text \<open>\<open>repository.update_case(case_id, expected_revision=current.revision, case_state=..., ...)\<close> on the row that
  \<open>require_case\<close> has just answered.\<close>

definition move_case :: "app_env \<Rightarrow> string \<Rightarrow> (case_row \<Rightarrow> case_update) \<Rightarrow> case_row app" where
  "move_case env case_id u =
    bindA (read_db (\<lambda>d. require_case d case_id)) (\<lambda>c.
      repo env (\<lambda>t d. update_case d t case_id ((u c)\<lparr>cu_expected_revision := Some (icr_revision c)\<rparr>)))"

definition to_state :: "case_state \<Rightarrow> case_update" where
  "to_state st = no_case_update\<lparr>cu_case_state := Some (case_state_value st)\<rparr>"

definition closing :: "case_outcome \<Rightarrow> string \<Rightarrow> case_update" where
  "closing outcome reason = (to_state CS_CLOSED)\<lparr>cu_case_outcome := Some (Some (case_outcome_value outcome)),
     cu_reason_code := Some (Some reason)\<rparr>"

definition case_closed_payload :: "case_outcome option \<Rightarrow> string option \<Rightarrow> customer_disposition \<Rightarrow> (string \<times> json) list" where
  "case_closed_payload outcome reason disposition =
     [(''case_state'', JStr ''closed''), (''case_outcome'', json_opt_str (map_option case_outcome_value outcome)),
      (''reason_code'', json_opt_str reason), (''customer_disposition'', JStr (disposition_value disposition))]"

section \<open>Assigning a case to a run and a message\<close>

text \<open>\<open>run.case_id = case_id\<close> and \<open>message.case_id = case_id\<close> on rows of the session.\<close>

definition update_message_row :: "database \<Rightarrow> message_row \<Rightarrow> database result" where
  "update_message_row d r =
     bindE (update_row message_table (db_messages d) r) (\<lambda>rows. Inr (d\<lparr>db_messages := rows\<rparr>))"

definition link_run :: "database \<Rightarrow> string \<Rightarrow> string \<Rightarrow> (run_row \<times> database) result" where
  "link_run d run_id case_id =
    bindE (require_run d run_id) (\<lambda>r.
      let row = r\<lparr>rnr_case_id := Some case_id\<rparr>
      in if \<not> refs_run d row then Inl (IntegrityError ''FOREIGN KEY constraint failed'')
         else bindE (update_run_row d row) (\<lambda>d'. Inr (row, d')))"

definition link_message :: "database \<Rightarrow> string \<Rightarrow> string \<Rightarrow> (unit \<times> database) result" where
  "link_message d message_id case_id =
    (case get_message d message_id of
       None \<Rightarrow> Inr ((), d)
     | Some m \<Rightarrow>
         (let row = m\<lparr>msr_case_id := Some case_id\<rparr>
          in if \<not> refs_message d row then Inl (IntegrityError ''FOREIGN KEY constraint failed'')
             else bindE (update_message_row d row) (\<lambda>d'. Inr ((), d'))))"

lemma link_run_frame: "link_run d rid cid = Inr (row, d') \<Longrightarrow> \<exists>x. d' = d\<lparr>db_runs := x\<rparr>"
  by (auto simp: link_run_def bindE_eq_Inr Let_def split: if_splits dest!: update_run_row_frame)

lemma link_message_frame: "link_message d mid cid = Inr (u, d') \<Longrightarrow> \<exists>x. d' = d\<lparr>db_messages := x\<rparr>"
proof (cases "get_message d mid")
  case None
  then show "link_message d mid cid = Inr (u, d') \<Longrightarrow> ?thesis"
    by (simp add: link_message_def exI [of _ "db_messages d"])
next
  case (Some m)
  then show "link_message d mid cid = Inr (u, d') \<Longrightarrow> ?thesis"
    by (auto simp: link_message_def update_message_row_def bindE_eq_Inr Let_def split: if_splits)
qed

lemma link_run_wf: "wf_db d \<Longrightarrow> link_run d rid cid = Inr (row, d') \<Longrightarrow> wf_db d'"
  by (auto simp: link_run_def bindE_eq_Inr Let_def split: if_splits dest: update_run_row_wf)

lemma link_message_wf:
  assumes "wf_db d" and "link_message d mid cid = Inr (u, d')"
  shows "wf_db d'"
proof (cases "get_message d mid")
  case None
  with assms show ?thesis by (simp add: link_message_def)
next
  case (Some m)
  with assms(2) obtain rows where rows: "update_row message_table (db_messages d) (m\<lparr>msr_case_id := Some cid\<rparr>) = Inr rows"
    and d': "d' = d\<lparr>db_messages := rows\<rparr>" and refs: "refs_message d (m\<lparr>msr_case_id := Some cid\<rparr>)"
    by (auto simp: link_message_def update_message_row_def bindE_eq_Inr Let_def split: if_splits)
  have old: "table_ok message_table (db_messages d)" using assms(1) by (simp add: wf_db_def)
  have "refs_message d r" if "r \<in> set rows" for r
    using that update_row_set [OF rows] refs assms(1) by (auto simp: wf_db_def)
  then show ?thesis unfolding d'
    by (rule conjunct1 [OF wf_set_messages [OF assms(1) table_ok_update [OF old rows] update_row_keys [OF rows]]])
qed

text \<open>The writes of a handler to its database.\<close>

inductive store_step :: "database \<Rightarrow> database \<Rightarrow> bool" where
  of_repository: "repository_step d d' \<Longrightarrow> store_step d d'"
| of_link_run: "link_run d rid cid = Inr (row, d') \<Longrightarrow> store_step d d'"
| of_link_message: "link_message d mid cid = Inr (u, d') \<Longrightarrow> store_step d d'"

lemma store_step_wf: "store_step d d' \<Longrightarrow> wf_db d \<Longrightarrow> wf_db d'"
  by (auto elim!: store_step.cases dest: repository_step_wf link_run_wf link_message_wf)

lemma store_step_numbered: "store_step d d' \<Longrightarrow> events_numbered d \<Longrightarrow> events_numbered d'"
  by (auto elim!: store_step.cases dest: repository_step_numbered)
    (auto dest!: link_run_frame link_message_frame simp: events_numbered_def conversation_events_def
      last_sequence_def get_conversation_def)

lemma store_step_log: "store_step d d' \<Longrightarrow> conversation_log d' k = conversation_log d k"
  by (auto elim!: store_step.cases simp: repository_step_log)
    (auto dest!: link_run_frame link_message_frame simp: conversation_log_def conversation_events_def)

section \<open>Relations between the state before and after\<close>

lemma sv_db_simps [simp]:
  "sv_db (put_db d s) = d" "put_db d (put_db e s) = put_db d s" "put_db (sv_db s) s = s"
  "sv_fixtures (put_db d s) = sv_fixtures s" "sv_caches (put_db d s) = sv_caches s" "sv_tick (put_db d s) = sv_tick s"
  "sv_db (s\<lparr>sv_tick := n\<rparr>) = sv_db s" "sv_db (s\<lparr>sv_fixtures := fx\<rparr>) = sv_db s" "sv_db (s\<lparr>sv_caches := cs\<rparr>) = sv_db s"
  "sv_db (s\<lparr>sv_events := es\<rparr>) = es_db es"
  by (simp_all add: sv_db_def put_db_def)

lemma effect_simps [simp]:
  "returnA x s = (Inr x, s)" "raiseA e s = (Inl e, s)" "readA f s = (f s, s)" "read_db g s = (g (sv_db s), s)"
  by (simp_all add: returnA_def raiseA_def readA_def read_db_def)

text \<open>\<open>related R m\<close>: every outcome of \<open>m\<close>, exceptional or not, is related to the state it began in.\<close>

definition related :: "(app_state \<Rightarrow> app_state \<Rightarrow> bool) \<Rightarrow> 'a app \<Rightarrow> bool" where
  "related R m \<longleftrightarrow> (\<forall>s. R s (snd (m s)))"

lemma relatedD: "related R m \<Longrightarrow> m s = (r, s') \<Longrightarrow> R s s'"
  unfolding related_def by (metis snd_conv)

text \<open>The steps that a handler takes on the database: one operation of the repository, or one event.\<close>

inductive db_step :: "database \<Rightarrow> database \<Rightarrow> bool" where
  of_store: "store_step d d' \<Longrightarrow> db_step d d'"
| of_events: "event_append s n n' e = Inr (v, s') \<Longrightarrow> db_step (es_db s) (es_db s')"

locale outcome_relation =
  fixes R :: "app_state \<Rightarrow> app_state \<Rightarrow> bool"
  assumes refl: "R s s"
    and trans: "R s s' \<Longrightarrow> R s' s'' \<Longrightarrow> R s s''"
    and tick: "R s (s\<lparr>sv_tick := n\<rparr>)"
    and rollback: "R s s' \<Longrightarrow> R s (put_db (sv_db s) s')"
    and caches: "R s (s\<lparr>sv_caches := cs\<rparr>)"
begin

lemma related_return: "related R (returnA x)" "related R (raiseA e)" "related R (readA f)" "related R (read_db g)"
  by (simp_all add: related_def refl)

lemma related_clock: "related R (utc_now env)" "related R (uuid4_hex env)"
  by (simp_all add: related_def utc_now_def uuid4_hex_def tick)

lemma related_bind:
  assumes "related R m" and "\<And>x. related R (f x)"
  shows "related R (bindA m f)"
  unfolding related_def
proof
  fix s
  obtain r s1 where m: "m s = (r, s1)" by force
  with assms(1) have "R s s1" by (rule relatedD)
  moreover have "R s1 (snd (f x s1))" for x using assms(2) by (simp add: related_def)
  ultimately show "R s (snd (bindA m f s))"
    by (cases r) (auto simp: bindA_def m intro: trans)
qed

lemma related_read_bind: "(\<And>s x. f s = Inr x \<Longrightarrow> related R (g x)) \<Longrightarrow> related R (bindA (readA f) g)"
  by (auto simp: related_def bindA_def refl split: sum.splits)

lemma related_then: "related R m \<Longrightarrow> related R n \<Longrightarrow> related R (thenA m n)"
  unfolding thenA_def by (rule related_bind)

lemma related_new_id: "related R (new_id_app env kind)"
  unfolding new_id_app_def by (intro related_bind related_clock related_return)

lemma related_transaction:
  assumes "related R m"
  shows "related R (transaction m)"
  unfolding related_def
proof
  fix s
  obtain r s1 where m: "m s = (r, s1)" by force
  with assms have "R s s1" by (rule relatedD)
  then show "R s (snd (transaction m s))" by (cases r) (simp_all add: transaction_def m rollback)
qed

lemma related_catch:
  assumes "related R m" and "\<And>e. related R (h e)"
  shows "related R (catchA m h)"
  unfolding related_def
proof
  fix s
  obtain r s1 where m: "m s = (r, s1)" by force
  with assms(1) have "R s s1" by (rule relatedD)
  moreover have "R s1 (snd (h e s1))" for e using assms(2) by (simp add: related_def)
  ultimately show "R s (snd (catchA m h s))" by (cases r) (auto simp: catchA_def m intro: trans)
qed

lemma related_on_db:
  assumes "\<And>s x d. f (sv_db s) = Inr (x, d) \<Longrightarrow> R s (put_db d s)"
  shows "related R (on_db f)"
  using assms by (auto simp: related_def on_db_def refl split: sum.splits prod.splits)

lemma related_repo:
  assumes "\<And>t s x d. f t (sv_db s) = Inr (x, d) \<Longrightarrow> R s (put_db d s)"
  shows "related R (repo env f)"
  unfolding repo_def by (intro related_bind related_clock related_on_db assms)

lemma related_on_fixtures:
  assumes "\<And>s x fx. f (sv_fixtures s) = Inr (x, fx) \<Longrightarrow> R s (s\<lparr>sv_fixtures := fx\<rparr>)"
  shows "related R (on_fixtures f)"
  using assms by (auto simp: related_def on_fixtures_def refl split: sum.splits prod.splits)

lemma related_emit:
  assumes "\<And>s n n' e v es. event_append (sv_events s) n n' e = Inr (v, es) \<Longrightarrow> R s (s\<lparr>sv_events := es\<rparr>)"
  shows "related R (emit_with env refs k c r ty vis summary payload)"
  unfolding emit_with_def
  by (intro related_bind related_clock)
    (auto simp: related_def refl Let_def bindE_eq_Inr intro: assms split: sum.splits prod.splits)

lemmas related_basic = related_return related_clock related_bind related_then related_new_id related_transaction
  related_catch

end

section \<open>Handlers act through the repository\<close>

text \<open>A quiet operation of the repository writes no ticket and creates no action.\<close>

definition action_ids :: "database \<Rightarrow> (string \<times> string) list" where
  "action_ids d = map (\<lambda>r. (aer_action_id r, aer_proposal_id r)) (db_actions d)"

definition quiet_step :: "database \<Rightarrow> database \<Rightarrow> bool" where
  "quiet_step d d' \<longleftrightarrow> store_step d d' \<and> db_tickets d' = db_tickets d \<and>
     (wf_db d \<longrightarrow> action_ids d' = action_ids d)"

lemma quiet_stepI:
  "repository_step d d' \<Longrightarrow> db_tickets d' = db_tickets d \<Longrightarrow> db_actions d' = db_actions d \<Longrightarrow> quiet_step d d'"
  by (simp add: quiet_step_def action_ids_def of_repository)

lemma update_action_state_quiet:
  assumes u: "update_action_state d n aid st ec sa va t = Inr (row', d')"
  shows "quiet_step d d'"
proof -
  from u obtain row where row: "get_action d aid = Some row" "aer_action_id row' = aer_action_id row"
    "aer_proposal_id row' = aer_proposal_id row" and d': "update_action_row d row' = Inr d'"
    by (auto simp: update_action_state_def Let_def bindE_eq_Inr guard_Inr)
  note acts = update_action_row_frame [OF d']
  have "action_ids d' = action_ids d" if wf: "wf_db d"
  proof -
    from wf have ok: "table_ok action_table (db_actions d)" by (simp add: wf_db_def)
    have stored: "get_row action_table (db_actions d) aid = Some row" using row(1) by (simp add: get_action_def)
    have "q = row" if "q \<in> set (db_actions d)" "aer_action_id q = aer_action_id row" for q
    proof -
      from get_row_key [OF stored] that have "tbl_key action_table q = aid" by (simp add: action_table_def)
      with get_row_iff [OF ok, of aid q] stored that(1) show "q = row" by simp
    qed
    then show ?thesis using row by (auto simp: action_ids_def acts action_table_def)
  qed
  with step_update_action_state [OF u] show ?thesis by (simp add: quiet_step_def acts of_repository)
qed

text \<open>What a relation needs so that every part of a handler that neither creates an action nor writes a ticket
  respects it.\<close>

locale handler_relation = outcome_relation +
  assumes quiet: "quiet_step (sv_db s) d \<Longrightarrow> R s (put_db d s)"
    and event: "event_append (sv_events s) n n' e = Inr (v, es) \<Longrightarrow> R s (s\<lparr>sv_events := es\<rparr>)"
begin

lemma related_event: "related R (emit_with env refs k c r ty vis summary payload)"
  by (rule related_emit) (rule event)

lemma quiet_steps: "quiet_step\<^sup>*\<^sup>* d d' \<Longrightarrow> sv_db s = d \<Longrightarrow> R s (put_db d' s)"
proof (induction rule: rtranclp_induct)
  case base
  then show ?case using refl [of s] by auto
next
  case (step d1 d2)
  have "R (put_db d1 s) (put_db d2 (put_db d1 s))" by (rule quiet) (simp add: step)
  with step show ?case by (auto intro: trans)
qed

lemma related_add_message: "related R (repo env (\<lambda>t d. add_message d h t k role m mid c r tr w))"
  by (rule related_repo) (auto intro!: quiet quiet_stepI intro: step_add_message dest: add_message_frame)

lemma related_update_case: "related R (repo env (\<lambda>t d. update_case d t cid u))"
  by (rule related_repo) (auto intro!: quiet quiet_stepI intro: step_update_case dest: update_case_frame)

lemma related_create_run: "related R (repo env (\<lambda>t d. create_run d h t r args))"
  by (rule related_repo) (auto intro!: quiet quiet_stepI intro: step_create_run dest: create_run_frame)

lemma related_update_run: "related R (repo env (\<lambda>t d. update_run d t rid st pt ar fc w))"
  by (rule related_repo) (auto intro!: quiet quiet_stepI intro: step_update_run dest: update_run_frame)

lemma related_update_proposal_state: "related R (repo env (\<lambda>t d. update_proposal_state d t pid st sb w))"
  by (rule related_repo) (auto intro!: quiet quiet_stepI intro: step_update_proposal_state dest: update_proposal_state_frame)

lemma related_update_action_state: "related R (repo env (\<lambda>t d. update_action_state d t aid st ec sa va w))"
  by (rule related_repo) (blast intro: quiet update_action_state_quiet)

lemma related_move_case: "related R (move_case env cid u)"
  unfolding move_case_def by (intro related_basic related_update_case)

lemma related_say: "related R (say env k c r reply)"
  unfolding say_def by (intro related_basic related_add_message)

lemma related_run_succeeds: "related R (run_succeeds env r)"
  unfolding run_succeeds_def by (rule related_update_run)

lemma related_runs:
  "related R (start_run env k r c)" "related R (fail_run env k r fc ty summary c ret turns reads)"
  unfolding start_run_def fail_run_def by (intro related_basic related_update_run related_event)+

lemma related_replies:
  "related R (emit_customer_reply env k r reply c kind v disp)" "related R (emit_run_succeeded env k r c)"
  "related R (emit_reply_and_success env k r reply c kind v disp)"
  unfolding emit_reply_and_success_def emit_customer_reply_def emit_run_succeeded_def
  by (intro related_basic related_event)+

lemma related_complete_without_case: "related R (complete_without_case env k r reply disp kind v)"
  unfolding complete_without_case_def by (intro related_basic related_say related_run_succeeds related_replies)

lemma related_create_action_run: "related R (create_action_run env cid kind tr)"
  unfolding create_action_run_def
  by (intro related_basic related_create_run related_runs) 

lemmas related_parts = related_basic related_event related_add_message related_update_case related_create_run
  related_update_run related_update_proposal_state related_update_action_state
  related_move_case related_say related_run_succeeds related_runs related_replies related_complete_without_case
  related_create_action_run

end

text \<open>The database of every outcome is reached by operations of the repository and appended events.\<close>

definition stepwise :: "app_state \<Rightarrow> app_state \<Rightarrow> bool" where
  "stepwise s s' \<longleftrightarrow> db_step\<^sup>*\<^sup>* (sv_db s) (sv_db s')"

interpretation stepwise: handler_relation stepwise
proof unfold_locales
  fix s :: app_state and d :: database
  assume "quiet_step (sv_db s) d"
  then show "stepwise s (put_db d s)" by (auto simp: stepwise_def quiet_step_def intro: of_store)
next
  fix s :: app_state and n n' e v es
  assume "event_append (sv_events s) n n' e = Inr (v, es)"
  then have "db_step (es_db (sv_events s)) (es_db es)" by (rule of_events)
  then show "stepwise s (s\<lparr>sv_events := es\<rparr>)" by (auto simp: stepwise_def sv_db_def)
qed (auto simp: stepwise_def)

lemma db_steps_wf: "db_step\<^sup>*\<^sup>* d d' \<Longrightarrow> wf_db d \<Longrightarrow> wf_db d'"
  by (induction rule: rtranclp_induct) (auto elim!: db_step.cases dest: store_step_wf event_append_wf)

lemma db_steps_numbered: "db_step\<^sup>*\<^sup>* d d' \<Longrightarrow> events_numbered d \<Longrightarrow> events_numbered d'"
  by (induction rule: rtranclp_induct) (auto elim!: db_step.cases dest: store_step_numbered event_append_numbered)

lemma db_steps_log: "db_step\<^sup>*\<^sup>* d d' \<Longrightarrow> prefix (conversation_log d k) (conversation_log d' k)"
proof (induction rule: rtranclp_induct)
  case (step d1 d2)
  from step(2) have "prefix (conversation_log d1 k) (conversation_log d2 k)"
    by cases (auto simp: store_step_log event_append_log)
  with step.IH show ?case by (rule prefix_order.trans)
qed simp

text \<open>No ticket is written and the fixtures stay.\<close>

definition no_ticket :: "app_state \<Rightarrow> app_state \<Rightarrow> bool" where
  "no_ticket s s' \<longleftrightarrow> db_tickets (sv_db s') = db_tickets (sv_db s) \<and> sv_fixtures s' = sv_fixtures s"

lemma event_append_touches:
  "event_append s n n' e = Inr (v, s') \<Longrightarrow> \<exists>x y. es_db s' = (es_db s)\<lparr>db_conversations := x, db_events := y\<rparr>"
  by (drule event_append_Inr) (auto dest!: update_conversation_row_frame insert_event_frame)

interpretation no_ticket: handler_relation no_ticket
proof unfold_locales
  fix s :: app_state and n n' e v es
  assume "event_append (sv_events s) n n' e = Inr (v, es)"
  from event_append_touches [OF this] show "no_ticket s (s\<lparr>sv_events := es\<rparr>)"
    by (auto simp: no_ticket_def sv_db_def)
qed (auto simp: no_ticket_def quiet_step_def)

text \<open>Only runs, events and the conversation's counters change.\<close>

definition same_business :: "app_state \<Rightarrow> app_state \<Rightarrow> bool" where
  "same_business s s' \<longleftrightarrow> sv_fixtures s' = sv_fixtures s \<and>
     (\<exists>cs rs es. sv_db s' = (sv_db s)\<lparr>db_conversations := cs, db_runs := rs, db_events := es\<rparr>)"

lemma same_business_refl: "same_business s s"
  unfolding same_business_def
  by (intro conjI exI [of _ "db_conversations (sv_db s)"] exI [of _ "db_runs (sv_db s)"] exI [of _ "db_events (sv_db s)"]) simp_all

interpretation same_business: outcome_relation same_business
proof unfold_locales
  fix s s' s'' :: app_state
  assume "same_business s s'" "same_business s' s''"
  then show "same_business s s''" unfolding same_business_def by (elim conjE exE) auto
next
  fix s :: app_state and n
  show "same_business s (s\<lparr>sv_tick := n\<rparr>)" using same_business_refl [of s] by (simp add: same_business_def)
next
  fix s :: app_state and cs
  show "same_business s (s\<lparr>sv_caches := cs\<rparr>)" using same_business_refl [of s] by (simp add: same_business_def)
next
  fix s s' :: app_state
  assume "same_business s s'"
  then show "same_business s (put_db (sv_db s) s')" using same_business_refl [of s] by (simp add: same_business_def)
qed (rule same_business_refl)

end
