(* ===== verification/Confirmation.thy ===== *)
theory Confirmation
  imports Service
begin

text \<open>
  Confirming and declining a proposal, and the one place that writes a ticket: \<open>confirm_proposal\<close>,
  \<open>_submit_and_verify_ticket_action\<close>, \<open>_record_scripted_action_fault\<close>, \<open>decline_proposal\<close> and their helpers
  in \<open>application/service.py\<close>.

  \<^item> A handler is cut where the code commits: the checks that read, the evidence that is compared, the
    confirmation that is committed, the write and its read-back.
  \<^item> Dictionaries are equal up to the order of their keys, so they are compared through \<open>normal_json\<close>.
  \<^item> The message, the retryable flag and the trace id of an \<open>ApplicationError\<close> are not modelled.
\<close>

section \<open>Re-evaluating the persisted evidence\<close>

definition current_source_revision :: "app_env \<Rightarrow> fixture_store \<Rightarrow> string \<Rightarrow> string \<Rightarrow> string result" where
  "current_source_revision env fx order_id tool_name =
    (if tool_name = ''search_after_sales_policy'' then Inr (rag_source_revision (ae_sha env) (ae_rag env))
     else source_revision (ae_sha env) (ae_dump_proof env) fx order_id tool_name)"

text \<open>The results of the rows by tool; \<open>None\<close> as soon as one is incomplete or its source has changed.\<close>

fun collect_results ::
  "app_env \<Rightarrow> fixture_store \<Rightarrow> string \<Rightarrow> tool_call_row list \<Rightarrow> (string \<times> read_result) list \<Rightarrow>
   (string \<times> read_result) list option result" where
  "collect_results env fx order_id [] results = Inr (Some results)"
| "collect_results env fx order_id (row # rows) results =
    (case (tcr_result_envelope row, tcr_source_version row) of
       (Some env', Some version) \<Rightarrow>
         bindE (current_source_revision env fx order_id (tcr_tool_name row)) (\<lambda>current.
           if version \<noteq> current then Inr None
           else bindE (check_tool_result env') (\<lambda>r.
             collect_results env fx order_id rows (AList.update (tcr_tool_name row) r results)))
     | _ \<Rightarrow> Inr None)"

definition business_demo :: "fixture_store \<Rightarrow> bool" where
  "business_demo fx \<longleftrightarrow> fs_fixture_version fx = ''business-demo-v1''"

definition required_results :: "fixture_store \<Rightarrow> issue_type \<Rightarrow> string list" where
  "required_results fx issue =
     [''get_order_context'', ''get_logistics_timeline'', ''search_after_sales_policy'',
      ''get_existing_logistics_tickets''] @
     (if issue = SIGNED_NOT_RECEIVED then [''get_delivery_proof''] else [])"

definition typed_result :: "(read_payload \<Rightarrow> 'p option) \<Rightarrow> (string \<times> read_result) list \<Rightarrow> string \<Rightarrow> 'p tool_result result" where
  "typed_result view results tool = retype view (the (map_of results tool))"

text \<open>The facts that the gate is asked about again.  The fields that are not results keep their defaults.\<close>

definition default_common :: "string option \<Rightarrow> common_facts" where
  "default_common target = \<lparr>cf_authorization_valid = True, cf_budget_exceeded = False,
     cf_evidence_scope_matches_case = True, cf_requested_action_supported = True, cf_structural_conflict = False,
     cf_directed_refresh_completed = False, cf_critical_retry_exhausted = False, cf_target_shipment_id = target\<rparr>"

definition persisted_signed_facts ::
  "(string \<times> read_result) list \<Rightarrow> string option \<Rightarrow> policy_search tool_result \<Rightarrow> gate_facts result" where
  "persisted_signed_facts results target policy =
    bindE (typed_result order_view results ''get_order_context'') (\<lambda>order.
    bindE (typed_result timeline_view results ''get_logistics_timeline'') (\<lambda>timeline.
    bindE (typed_result proof_view results ''get_delivery_proof'') (\<lambda>pod.
    bindE (typed_result tickets_view results ''get_existing_logistics_tickets'') (\<lambda>tickets.
      Inr (SignedFacts (common_facts.extend (default_common target)
        (signed_evidence.fields order timeline pod tickets policy True False False)))))))"

definition persisted_stalled_facts ::
  "fixture_store \<Rightarrow> (string \<times> read_result) list \<Rightarrow> string option \<Rightarrow> policy_search tool_result \<Rightarrow> gate_facts result" where
  "persisted_stalled_facts fx results target policy =
    bindE (if business_demo fx \<and> map_of results ''get_carrier_service_alerts'' \<noteq> None
           then bindE (typed_result alerts_view results ''get_carrier_service_alerts'') (\<lambda>a. Inr (Some a))
           else Inr None) (\<lambda>alerts.
    bindE (typed_result order_view results ''get_order_context'') (\<lambda>order.
    bindE (typed_result timeline_view results ''get_logistics_timeline'') (\<lambda>timeline.
    bindE (typed_result tickets_view results ''get_existing_logistics_tickets'') (\<lambda>tickets.
      Inr (StalledFacts (common_facts.extend (default_common target)
        (stalled_evidence.fields order timeline tickets policy alerts)))))))"

definition evidence_rows :: "database \<Rightarrow> case_row \<Rightarrow> proposal_row \<Rightarrow> tool_call_row list" where
  "evidence_rows d c p =
     filter (\<lambda>r. tcr_tool_call_id r \<in> set (filter (\<lambda>i. i \<noteq> []) (map er_tool_call_id (apr_evidence_refs p))))
       (list_tool_calls d (Some (icr_case_id c)) None)"

definition revalidate_results ::
  "app_env \<Rightarrow> fixture_store \<Rightarrow> issue_type \<Rightarrow> string option \<Rightarrow> json option \<Rightarrow> (string \<times> read_result) list \<Rightarrow>
   gate_result option result" where
  "revalidate_results env fx issue target binding results =
    (if list_ex (\<lambda>tool. map_of results tool = None) (required_results fx issue) then Inr None
     else bindE (typed_result policy_view results ''search_after_sales_policy'') (\<lambda>policy.
       case tr_payload policy of
         None \<Rightarrow> Inr None
       | Some payload \<Rightarrow>
           if map_option normal_json (policy_binding (ae_sha env) payload) \<noteq> map_option normal_json binding
             then Inr None
           else bindE (if issue = SIGNED_NOT_RECEIVED then persisted_signed_facts results target policy
                       else persisted_stalled_facts fx results target policy) (\<lambda>facts.
                bindE (evaluate_evidence_gate (material_snapshot_hash (ae_sha env)) issue facts)
                  (\<lambda>g. Inr (Some g)))))"

definition revalidate_gate ::
  "app_env \<Rightarrow> database \<Rightarrow> fixture_store \<Rightarrow> case_row \<Rightarrow> proposal_row \<Rightarrow> gate_result option result" where
  "revalidate_gate env d fx c p =
    bindE (issue_type_of (icr_canonical_issue_type c)) (\<lambda>issue.
      let target = icr_target_shipment_id c;
          bound_target = (case jget (apr_execution_parameters p) ''target_shipment_id'' of None \<Rightarrow> JNull | Some j \<Rightarrow> j);
          binding = jget (apr_execution_parameters p) ''policy_binding''
      in if bound_target \<noteq> json_opt_str target then Inr None
         else bindE (get_authorized_order fx (icr_authorized_order_id c)) (\<lambda>trusted_order.
           if \<not> validate_policy_binding (ae_sha env) (pr_corpus (ae_rag env)) binding issue
                (of_service_level trusted_order) (of_region trusted_order) (ae_evaluated_at env)
             then Inr None
           else bindE (collect_results env fx (icr_authorized_order_id c) (evidence_rows d c p) []) (\<lambda>results.
             case results of
               None \<Rightarrow> Inr None
             | Some rs \<Rightarrow> revalidate_results env fx issue target binding rs)))"

section \<open>Guards of a confirmation\<close>

definition validate_pending_proposal :: "proposal_row \<Rightarrow> case_row \<Rightarrow> int \<Rightarrow> datetime \<Rightarrow> unit result" where
  "validate_pending_proposal p c version now =
    (if apr_version p \<noteq> version then Inl (ApplicationError ''PROPOSAL_VERSION_CONFLICT'' 409)
     else if apr_proposal_state p \<noteq> ''pending_confirmation'' then Inl (ApplicationError ''PROPOSAL_NOT_PENDING'' 409)
     else if instant (apr_expires_at p) \<le> instant now then Inl (ApplicationError ''PROPOSAL_EXPIRED'' 409)
     else if icr_case_state c \<noteq> ''awaiting_customer_confirmation'' \<or>
             icr_active_proposal_id c \<noteq> Some (apr_proposal_id p)
       then Inl (ApplicationError ''PROPOSAL_NOT_ACTIVE'' 409)
     else Inr ())"

definition check_confirmable ::
  "fixture_store \<Rightarrow> proposal_row \<Rightarrow> case_row \<Rightarrow> int \<Rightarrow> datetime \<Rightarrow> unit result" where
  "check_confirmable fx p c version now =
    bindE (validate_pending_proposal p c version now) (\<lambda>_.
    bindE (authorize_order (icr_customer_id c) (icr_authorized_order_id c) (get_order_for_authorization fx))
      (\<lambda>_. Inr ()))"

definition load_proposal_and_case :: "string \<Rightarrow> (proposal_row \<times> case_row) app" where
  "load_proposal_and_case proposal_id =
    read_db (\<lambda>d. bindE (require_proposal d proposal_id) (\<lambda>p.
      bindE (require_case d (apr_case_id p)) (\<lambda>c. Inr (p, c))))"

definition case_of_proposal :: "string \<Rightarrow> string app" where
  "case_of_proposal proposal_id =
    read_db (\<lambda>d. case get_proposal d proposal_id of
      None \<Rightarrow> Inl (ApplicationError ''PROPOSAL_NOT_FOUND'' 404) | Some p \<Rightarrow> Inr (apr_case_id p))"

text \<open>Leaving a proposal: its state, the case waits for a retry, and the event.\<close>

definition abandon_proposal ::
  "app_env \<Rightarrow> string \<Rightarrow> string \<Rightarrow> string \<Rightarrow> string \<Rightarrow> proposal_state \<Rightarrow> datetime \<Rightarrow> string \<Rightarrow> utext \<Rightarrow> unit app" where
  "abandon_proposal env proposal_id case_id conversation_id run_id st now event_type summary =
    thenA (transaction
        (thenA (repo env (\<lambda>t d. update_proposal_state d t proposal_id (proposal_state_value st) None (Some now)))
          (move_case env case_id (\<lambda>_. to_state CS_AWAITING_RETRY))))
      (emit env conversation_id (Some case_id) (Some run_id) event_type ''both'' summary
        [(''proposal_id'', JStr proposal_id)])"

definition expire_proposal :: "app_env \<Rightarrow> string \<Rightarrow> string \<Rightarrow> string \<Rightarrow> string \<Rightarrow> datetime \<Rightarrow> unit app" where
  "expire_proposal env proposal_id case_id conversation_id run_id now =
    abandon_proposal env proposal_id case_id conversation_id run_id PS_EXPIRED now ''proposal_expired''
      [24453, 30830, 35748, 25805, 20316, 24050, 36807, 26399]"

definition expire_if_expired ::
  "app_env \<Rightarrow> error \<Rightarrow> string \<Rightarrow> string \<Rightarrow> string \<Rightarrow> string \<Rightarrow> datetime \<Rightarrow> unit app" where
  "expire_if_expired env e proposal_id case_id conversation_id run_id now =
    (if e = ApplicationError ''PROPOSAL_EXPIRED'' 409
     then expire_proposal env proposal_id case_id conversation_id run_id now else returnA ())"

definition reject_confirmation ::
  "app_env \<Rightarrow> error \<Rightarrow> string \<Rightarrow> string \<Rightarrow> string \<Rightarrow> string \<Rightarrow> datetime \<Rightarrow> unit app" where
  "reject_confirmation env e proposal_id case_id conversation_id run_id now =
    thenA (expire_if_expired env e proposal_id case_id conversation_id run_id now)
      (thenA (fail_run env conversation_id run_id ''PROPOSAL_REVALIDATION_FAILED'' ''run_failed''
          ''Proposal confirmation was rejected safely'' (Some case_id) False None None)
        (raiseA (case e of ApplicationError _ _ \<Rightarrow> e | _ \<Rightarrow> ApplicationError ''PROPOSAL_REVALIDATION_FAILED'' 409)))"

definition reject_duplicate :: "app_env \<Rightarrow> string \<Rightarrow> string \<Rightarrow> string \<Rightarrow> unit app" where
  "reject_duplicate env case_id conversation_id run_id =
    thenA (fail_run env conversation_id run_id ''ACTIVE_TICKET_ALREADY_EXISTS'' ''run_failed''
        ''Duplicate active ticket prevented execution'' (Some case_id) False None None)
      (raiseA (ApplicationError ''ACTIVE_TICKET_ALREADY_EXISTS'' 409))"

definition reject_changed_evidence ::
  "app_env \<Rightarrow> string \<Rightarrow> string \<Rightarrow> string \<Rightarrow> string \<Rightarrow> datetime \<Rightarrow> unit app" where
  "reject_changed_evidence env proposal_id case_id conversation_id run_id now =
    thenA (abandon_proposal env proposal_id case_id conversation_id run_id PS_INVALIDATED now ''proposal_invalidated''
        [20851, 38190, 35777, 25454, 24050, 21464, 21270, 65292, 21407, 25552, 26696,
         19981, 20877, 26377, 25928])
      (thenA (fail_run env conversation_id run_id ''PROPOSAL_EVIDENCE_CHANGED'' ''run_failed''
          ''Proposal evidence changed before confirmation'' (Some case_id) False None None)
        (raiseA (ApplicationError ''PROPOSAL_EVIDENCE_CHANGED'' 409)))"

definition confirm_checks ::
  "app_env \<Rightarrow> proposal_row \<Rightarrow> case_row \<Rightarrow> int \<Rightarrow> datetime \<Rightarrow> string \<Rightarrow> string \<Rightarrow> string \<Rightarrow> unit app" where
  "confirm_checks env p c version now case_id conversation_id run_id =
    bindA (readA (\<lambda>s. Inr (check_confirmable (sv_fixtures s) p c version now))) (\<lambda>checked.
      case checked of
        Inl e \<Rightarrow> reject_confirmation env e (apr_proposal_id p) case_id conversation_id run_id now
      | Inr _ \<Rightarrow>
          bindA (read_db (\<lambda>d. Inr (get_active_ticket d (icr_authorized_order_id c) (icr_canonical_issue_type c)
              (icr_target_shipment_id c)))) (\<lambda>ticket.
            if ticket \<noteq> None then reject_duplicate env case_id conversation_id run_id else returnA ()))"

definition current_fact_identity :: "app_env \<Rightarrow> string \<Rightarrow> json option app" where
  "current_fact_identity env case_id =
    bindA (utc_now env) (\<lambda>t.
      catchA (read_db (\<lambda>d. bindE (load_snapshot (ae_sha env) (ae_sha_text env) d t case_id True)
          (\<lambda>s. Inr (Some (material_identity s)))))
        (\<lambda>e. case e of CaseFactIntegrityError _ \<Rightarrow> returnA None | _ \<Rightarrow> raiseA e))"

definition evidence_unchanged :: "app_env \<Rightarrow> gate_result option \<Rightarrow> json option \<Rightarrow> proposal_row \<Rightarrow> bool" where
  "evidence_unchanged env gate identity p \<longleftrightarrow>
    (case (gate, identity) of
       (Some g, Some i) \<Rightarrow>
         gr_decision g = Some GD_PROPOSE_TICKET \<and> normal_json i = normal_json (apr_case_fact_identity p) \<and>
         evidence_snapshot_hash (ae_sha env) (gr_critical_result_hashes g) (apr_execution_parameters p) (Some i) =
           apr_evidence_snapshot_hash p
     | _ \<Rightarrow> False)"

definition confirm_evidence ::
  "app_env \<Rightarrow> proposal_row \<Rightarrow> case_row \<Rightarrow> datetime \<Rightarrow> string \<Rightarrow> string \<Rightarrow> string \<Rightarrow> unit app" where
  "confirm_evidence env p c now case_id conversation_id run_id =
    bindA (readA (\<lambda>s. revalidate_gate env (sv_db s) (sv_fixtures s) c p)) (\<lambda>gate.
    bindA (current_fact_identity env (icr_case_id c)) (\<lambda>identity.
      if evidence_unchanged env gate identity p then returnA ()
      else reject_changed_evidence env (apr_proposal_id p) case_id conversation_id run_id now))"

definition confirm_write ::
  "app_env \<Rightarrow> proposal_row \<Rightarrow> action_execution \<Rightarrow> datetime \<Rightarrow> string \<Rightarrow> case_row app" where
  "confirm_write env p action now case_id =
    transaction
      (thenA (repo env (\<lambda>t d. update_proposal_state d t (apr_proposal_id p) ''confirmed'' None (Some now)))
      (thenA (bindA (utc_now env) (\<lambda>t. repo env (\<lambda>t' d. create_action d t t' action)))
        (move_case env case_id (\<lambda>_. to_state CS_EXECUTING_ACTION))))"

definition commit_confirmation ::
  "app_env \<Rightarrow> proposal_row \<Rightarrow> int \<Rightarrow> datetime \<Rightarrow> string \<Rightarrow> string \<Rightarrow> string \<Rightarrow> action_execution app" where
  "commit_confirmation env p version now case_id conversation_id run_id =
    bindA (readA (\<lambda>_. bindE (proposal_to_domain p) (build_ready_action (ae_sha_text env)))) (\<lambda>action.
    thenA (confirm_write env p action now case_id)
    (thenA (emit env conversation_id (Some case_id) (Some run_id) ''proposal_confirmed'' ''both''
        [24050, 30830, 35748, 21019, 24314, 29289, 27969, 26680, 26597, 24037, 21333]
        [(''proposal_id'', JStr (apr_proposal_id p)), (''proposal_version'', JInt version),
         (''customer_disposition'', JStr (disposition_value CD_INVESTIGATE))])
      (returnA action)))"

section \<open>Writing the ticket\<close>

record action_args =
  aa_action_id :: string
  aa_idempotency_key :: string
  aa_case_id :: string
  aa_conversation_id :: string
  aa_customer_id :: string
  aa_authorized_order_id :: string
  aa_issue_type :: issue_type
  aa_run_id :: string
  aa_proposal_id :: string
  aa_target_shipment_id :: "string option"

record transition_response =
  tp_run_id :: string
  tp_case_id :: string
  tp_proposal_id :: string
  tp_proposal_state :: string
  tp_customer_disposition :: customer_disposition
  tp_events_url :: string

definition events_url :: "string \<Rightarrow> string" where
  "events_url conversation_id = ''/v1/conversations/'' @ conversation_id @ ''/events''"

definition action_transition_response :: "action_args \<Rightarrow> customer_disposition \<Rightarrow> transition_response" where
  "action_transition_response a disposition =
     \<lparr>tp_run_id = aa_run_id a, tp_case_id = aa_case_id a, tp_proposal_id = aa_proposal_id a,
      tp_proposal_state = ''confirmed'', tp_customer_disposition = disposition,
      tp_events_url = events_url (aa_conversation_id a)\<rparr>"

definition emit_case_closed ::
  "app_env \<Rightarrow> action_args \<Rightarrow> string \<Rightarrow> case_outcome option \<Rightarrow> string option \<Rightarrow> customer_disposition \<Rightarrow> unit app" where
  "emit_case_closed env a summary outcome reason disposition =
    emit env (aa_conversation_id a) (Some (aa_case_id a)) (Some (aa_run_id a)) ''case_closed'' ''both''
      (text_of summary) (case_closed_payload outcome reason disposition)"

text \<open>What a scripted fault leads to: the new state of the case and how it ends, if it does, and the reply.\<close>

definition fault_effect ::
  "action_state \<Rightarrow> (case_state \<times> case_outcome option \<times> string option \<times> utext) result" where
  "fault_effect st =
    (case st of
       AS_FAILED_RETRYABLE \<Rightarrow> Inr (CS_AWAITING_RETRY, None, None, 
      [29289, 27969, 26680, 26597, 35831, 27714, 26242, 26102, 26410, 33021, 25552,
       20132, 65292, 21487, 20197, 20351, 29992, 21407, 22788, 29702, 35831, 27714,
       37325, 35797, 12290])
     | AS_FAILED_TERMINAL \<Rightarrow> Inr (CS_CLOSED, Some CO_FAILED, Some ''ACTION_FAILED_TERMINAL'',
         [29289, 27969, 26680, 26597, 35831, 27714, 26410, 33021, 25552, 20132, 65292,
          31995, 32479, 19981, 20250, 33258, 21160, 37325, 22797, 25805, 20316, 65292,
          35831, 32852, 31995, 20154, 24037, 25903, 25345, 12290])
     | AS_UNCERTAIN \<Rightarrow> Inr (CS_CLOSED, Some CO_UNCERTAIN, Some ''ACTION_WRITE_RESULT_UNCERTAIN'',
         [36825, 27425, 22788, 29702, 35831, 27714, 21487, 33021, 24050, 32463, 25552,
          20132, 65292, 20294, 30446, 21069, 26080, 27861, 30830, 35748, 32467, 26524,
          12290, 35831, 19981, 35201, 37325, 22797, 25805, 20316, 65292, 21487, 20197,
          32852, 31995, 20154, 24037, 25903, 25345, 32487, 32493, 26680, 23545, 12290])
     | _ \<Rightarrow> Inl (RuntimeError ''unsupported scripted action fault state''))"

definition end_case :: "case_state \<Rightarrow> case_outcome option \<Rightarrow> string option \<Rightarrow> case_update" where
  "end_case st outcome reason =
    (if st = CS_CLOSED
     then (to_state st)\<lparr>cu_case_outcome := Some (map_option case_outcome_value outcome), cu_reason_code := Some reason\<rparr>
     else to_state st)"

definition record_scripted_action_fault ::
  "app_env \<Rightarrow> action_args \<Rightarrow> action_fault \<Rightarrow> transition_response app" where
  "record_scripted_action_fault env a f =
    bindA (readA (\<lambda>_. fault_effect (af_action_state f))) (\<lambda>(st, outcome, reason, reply).
      let act = action_state_value (af_action_state f);
          disposition = project_customer_disposition None (Some (case_state_value st))
            (map_option case_outcome_value outcome) None (Some act) reason
      in thenA (transaction
             (thenA (bindA (utc_now env) (\<lambda>t'. repo env (\<lambda>t d.
                 update_action_state d t (aa_action_id a) act (Some (af_error_code f)) None None (Some t'))))
             (thenA (move_case env (aa_case_id a) (\<lambda>_. end_case st outcome reason))
             (thenA (say env (aa_conversation_id a) (Some (aa_case_id a)) (aa_run_id a) reply)
               (run_succeeds env (aa_run_id a))))))
         (thenA (emit_customer_reply env (aa_conversation_id a) (aa_run_id a) reply (Some (aa_case_id a))
             ''action_result'' None disposition)
         (thenA (emit env (aa_conversation_id a) (Some (aa_case_id a)) (Some (aa_run_id a))
             (if af_action_state f = AS_UNCERTAIN then ''action_uncertain'' else ''action_failed'') ''both'' reply
             [(''action_id'', JStr (aa_action_id a)), (''action_state'', JStr act),
              (''error_code'', JStr (af_error_code f)),
              (''retry_allowed'', JBool (af_action_state f = AS_FAILED_RETRYABLE)),
              (''customer_disposition'', JStr (disposition_value disposition))])
         (thenA (emit_run_succeeded env (aa_conversation_id a) (aa_run_id a) (Some (aa_case_id a)))
         (thenA (if st = CS_CLOSED
              then emit_case_closed env a ''Investigation closed after deterministic action outcome'' outcome reason
                disposition
              else returnA ())
           (returnA (action_transition_response a disposition)))))))"

definition ticket_details :: "string option \<Rightarrow> json" where
  "ticket_details target =
     JObj [(''source'', JStr ''confirmed_customer_proposal''), (''target_shipment_id'', json_opt_str target)]"

definition submit_write :: "app_env \<Rightarrow> action_args \<Rightarrow> string \<Rightarrow> datetime \<Rightarrow> action_fault option \<Rightarrow> unit app" where
  "submit_write env a ticket_id submitted_at fault =
    transaction
      (thenA (repo env (\<lambda>t d. update_action_state d t (aa_action_id a) ''submitted'' None (Some submitted_at) None
          (Some submitted_at)))
        (case fault of
           Some _ \<Rightarrow> returnA ()
         | None \<Rightarrow> thenA (repo env (\<lambda>t d. create_ticket d t ticket_id (aa_case_id a) (aa_action_id a)
               (aa_customer_id a) (aa_authorized_order_id a) (issue_type_value (aa_issue_type a))
               (aa_idempotency_key a) (aa_target_shipment_id a) (ticket_details (aa_target_shipment_id a))
               (Some submitted_at))) (returnA ())))"

definition fixture_ticket :: "action_args \<Rightarrow> string \<Rightarrow> datetime \<Rightarrow> logistics_ticket result" where
  "fixture_ticket a ticket_id submitted_at =
    check_logistics_ticket \<lparr>lg_ticket_id = ticket_id, lg_order_id = aa_authorized_order_id a,
      lg_issue_type = aa_issue_type a, lg_ticket_status = ''open'', lg_created_at = submitted_at,
      lg_target_shipment_id = aa_target_shipment_id a, lg_stage = None, lg_next_update_at = None, lg_status = None,
      lg_opened_at = None, lg_last_updated_at = None, lg_target_order_id = None, lg_is_active = None,
      lg_updated_at = None\<rparr>"

definition uncertain_reply :: utext where
  "uncertain_reply = [36825, 27425, 22788, 29702, 35831, 27714, 21487, 33021, 24050, 32463, 25552,
                      20132, 65292, 20294, 30446, 21069, 36824, 26080, 27861, 30830, 35748, 32467,
                      26524, 12290, 35831, 19981, 35201, 37325, 22797, 25805, 20316, 65292, 21487,
                      20197, 32852, 31995, 20154, 24037, 25903, 25345, 32487, 32493, 26680, 23545, 12290]"

definition created_reply :: "string \<Rightarrow> utext" where
  "created_reply ticket_id =
     [24050, 32463, 20026, 20320, 21457, 36215, 29289, 27969, 26680, 26597, 12290,
      29289, 27969, 26041, 20250, 32487, 32493, 30830, 35748, 21253, 35065, 21435,
      21521, 65292, 35831, 20445, 30041, 22788, 29702, 32534, 21495, 32] @ text_of ticket_id @ [65292, 26080, 38656, 37325, 22797, 25552, 20132, 12290]"

definition read_back_missing :: "app_env \<Rightarrow> action_args \<Rightarrow> run_row app" where
  "read_back_missing env a =
    thenA (bindA (utc_now env) (\<lambda>t'. repo env (\<lambda>t d. update_action_state d t (aa_action_id a) ''uncertain''
        (Some ''TICKET_READ_BACK_UNAVAILABLE'') None None (Some t'))))
    (thenA (move_case env (aa_case_id a) (\<lambda>_. closing CO_UNCERTAIN ''ACTION_READ_BACK_UNAVAILABLE''))
    (thenA (say env (aa_conversation_id a) (Some (aa_case_id a)) (aa_run_id a) uncertain_reply)
      (run_succeeds env (aa_run_id a))))"

definition read_back_found :: "app_env \<Rightarrow> action_args \<Rightarrow> string \<Rightarrow> run_row app" where
  "read_back_found env a ticket_id =
    thenA (bindA (utc_now env) (\<lambda>verified_at. repo env (\<lambda>t d. update_action_state d t (aa_action_id a) ''succeeded''
        None None (Some verified_at) (Some verified_at))))
    (thenA (move_case env (aa_case_id a) (\<lambda>_. closing CO_TICKET_CREATED ''LOGISTICS_TICKET_CREATED_AND_VERIFIED''))
    (thenA (say env (aa_conversation_id a) (Some (aa_case_id a)) (aa_run_id a) (created_reply ticket_id))
      (run_succeeds env (aa_run_id a))))"

definition read_back :: "app_env \<Rightarrow> action_args \<Rightarrow> string \<Rightarrow> bool app" where
  "read_back env a ticket_id =
    transaction (bindA (read_db (\<lambda>d. Inr (get_ticket_by_idempotency_key d (aa_idempotency_key a)))) (\<lambda>ticket.
      if ticket = None then thenA (read_back_missing env a) (returnA False)
      else thenA (read_back_found env a ticket_id) (returnA True)))"

definition report_uncertain :: "app_env \<Rightarrow> action_args \<Rightarrow> transition_response app" where
  "report_uncertain env a =
    thenA (emit_customer_reply env (aa_conversation_id a) (aa_run_id a) uncertain_reply (Some (aa_case_id a))
        ''action_result'' None CD_ESCALATE)
    (thenA (emit env (aa_conversation_id a) (Some (aa_case_id a)) (Some (aa_run_id a)) ''action_uncertain'' ''both''
        (text_of ''Ticket write result is uncertain'')
        [(''action_id'', JStr (aa_action_id a)), (''action_state'', JStr ''uncertain''), (''retry_allowed'', JBool False),
         (''customer_disposition'', JStr (disposition_value CD_ESCALATE))])
    (thenA (emit_run_succeeded env (aa_conversation_id a) (aa_run_id a) (Some (aa_case_id a)))
    (thenA (emit_case_closed env a ''Investigation closed with uncertain action outcome'' (Some CO_UNCERTAIN)
        (Some ''ACTION_READ_BACK_UNAVAILABLE'') CD_ESCALATE)
      (returnA (action_transition_response a CD_ESCALATE)))))"

definition report_verified :: "app_env \<Rightarrow> action_args \<Rightarrow> string \<Rightarrow> transition_response app" where
  "report_verified env a ticket_id =
    thenA (emit_customer_reply env (aa_conversation_id a) (aa_run_id a) (created_reply ticket_id) (Some (aa_case_id a))
        ''action_result'' None CD_INVESTIGATE)
    (thenA (emit env (aa_conversation_id a) (Some (aa_case_id a)) (Some (aa_run_id a)) ''action_verified'' ''both''
        [29289, 27969, 26680, 26597, 24037, 21333, 24050, 21019, 24314, 24182, 39564, 35777]
        [(''action_id'', JStr (aa_action_id a)), (''action_state'', JStr ''succeeded''), (''ticket_id'', JStr ticket_id),
         (''target_shipment_id'', json_opt_str (aa_target_shipment_id a)), (''read_back_verified'', JBool True),
         (''customer_disposition'', JStr (disposition_value CD_INVESTIGATE))])
    (thenA (emit_run_succeeded env (aa_conversation_id a) (aa_run_id a) (Some (aa_case_id a)))
    (thenA (emit_case_closed env a ''Investigation closed after verified ticket creation'' (Some CO_TICKET_CREATED)
        (Some ''LOGISTICS_TICKET_CREATED_AND_VERIFIED'') CD_INVESTIGATE)
      (returnA (action_transition_response a CD_INVESTIGATE)))))"

definition verify_ticket :: "app_env \<Rightarrow> action_args \<Rightarrow> string \<Rightarrow> datetime \<Rightarrow> transition_response app" where
  "verify_ticket env a ticket_id submitted_at =
    thenA (on_fixtures (\<lambda>fx. bindE (fixture_ticket a ticket_id submitted_at) (add_ticket fx)))
    (bindA (read_back env a ticket_id) (\<lambda>found.
      if found then report_verified env a ticket_id else report_uncertain env a))"

definition submit_and_verify_ticket_action :: "app_env \<Rightarrow> action_args \<Rightarrow> transition_response app" where
  "submit_and_verify_ticket_action env a =
    bindA (utc_now env) (\<lambda>submitted_at.
      let ticket_id = stable_ticket_id (ae_sha_text env) (aa_idempotency_key a)
      in bindA (on_fixtures (\<lambda>fx. Inr (consume_action_fault fx (ae_fault_seed env)))) (\<lambda>fault.
         thenA (submit_write env a ticket_id submitted_at fault)
         (thenA (emit env (aa_conversation_id a) (Some (aa_case_id a)) (Some (aa_run_id a)) ''action_submitted''
             ''developer'' (text_of ''Simulated ticket write submitted'')
             [(''action_id'', JStr (aa_action_id a)), (''action_state'', JStr ''submitted'')])
           (case fault of
              Some f \<Rightarrow> record_scripted_action_fault env a f
            | None \<Rightarrow> verify_ticket env a ticket_id submitted_at))))"

section \<open>The handlers\<close>

definition confirmed_args ::
  "proposal_row \<Rightarrow> case_row \<Rightarrow> action_execution \<Rightarrow> string \<Rightarrow> string \<Rightarrow> string \<Rightarrow> action_args result" where
  "confirmed_args p c action case_id conversation_id run_id =
    bindE (issue_type_of (icr_canonical_issue_type c)) (\<lambda>issue.
      Inr \<lparr>aa_action_id = ax_action_id action, aa_idempotency_key = ax_idempotency_key action, aa_case_id = case_id,
        aa_conversation_id = conversation_id, aa_customer_id = icr_customer_id c,
        aa_authorized_order_id = icr_authorized_order_id c, aa_issue_type = issue, aa_run_id = run_id,
        aa_proposal_id = apr_proposal_id p, aa_target_shipment_id = icr_target_shipment_id c\<rparr>)"

definition confirm_proposal :: "app_env \<Rightarrow> string \<Rightarrow> int \<Rightarrow> transition_response app" where
  "confirm_proposal env proposal_id version =
    bindA (new_id_app env ''trc'') (\<lambda>trace_id.
    bindA (case_of_proposal proposal_id) (\<lambda>case_id.
    bindA (create_action_run env case_id ''confirmation'' trace_id) (\<lambda>(run_id, conversation_id).
    bindA (utc_now env) (\<lambda>now.
    bindA (load_proposal_and_case proposal_id) (\<lambda>(p, c).
    thenA (confirm_checks env p c version now case_id conversation_id run_id)
    (thenA (confirm_evidence env p c now case_id conversation_id run_id)
    (bindA (commit_confirmation env p version now case_id conversation_id run_id) (\<lambda>action.
     bindA (readA (\<lambda>_. confirmed_args p c action case_id conversation_id run_id))
       (submit_and_verify_ticket_action env)))))))))"

definition declined_reply :: utext where
  "declined_reply = [22909, 30340, 65292, 36825, 27425, 20808, 19981, 21457, 36215, 29289, 27969,
                     26680, 26597, 65292, 27809, 26377, 25552, 20132, 20219, 20309, 22788, 29702,
                     35831, 27714, 12290]"

definition reject_decline ::
  "app_env \<Rightarrow> error \<Rightarrow> string \<Rightarrow> string \<Rightarrow> string \<Rightarrow> string \<Rightarrow> datetime \<Rightarrow> unit app" where
  "reject_decline env e proposal_id case_id conversation_id run_id now =
    thenA (expire_if_expired env e proposal_id case_id conversation_id run_id now)
      (thenA (fail_run env conversation_id run_id ''PROPOSAL_DECLINE_REJECTED'' ''run_failed''
          ''Proposal decline was rejected safely'' (Some case_id) False None None)
        (raiseA e))"

definition commit_decline :: "app_env \<Rightarrow> string \<Rightarrow> datetime \<Rightarrow> string \<Rightarrow> string \<Rightarrow> string \<Rightarrow> run_row app" where
  "commit_decline env proposal_id now case_id conversation_id run_id =
    transaction
      (thenA (repo env (\<lambda>t d. update_proposal_state d t proposal_id ''declined'' None (Some now)))
      (thenA (move_case env case_id (\<lambda>_. closing CO_RESOLVED_NO_ACTION ''CUSTOMER_DECLINED_PROPOSAL''))
      (thenA (say env conversation_id (Some case_id) run_id declined_reply)
        (run_succeeds env run_id))))"

definition report_declined :: "app_env \<Rightarrow> string \<Rightarrow> int \<Rightarrow> string \<Rightarrow> string \<Rightarrow> string \<Rightarrow> transition_response app" where
  "report_declined env proposal_id version case_id conversation_id run_id =
    thenA (emit env conversation_id (Some case_id) (Some run_id) ''proposal_declined'' ''both''
        [23458, 25143, 36873, 25321, 26242, 19981, 21457, 36215, 29289, 27969, 26680, 26597]
        [(''proposal_id'', JStr proposal_id), (''proposal_version'', JInt version),
         (''customer_disposition'', JStr (disposition_value CD_ANSWER))])
    (thenA (emit_reply_and_success env conversation_id run_id declined_reply (Some case_id) ''investigation_result''
        None CD_ANSWER)
    (thenA (emit env conversation_id (Some case_id) (Some run_id) ''case_closed'' ''both''
        (text_of ''Investigation closed after customer declined'')
        (case_closed_payload (Some CO_RESOLVED_NO_ACTION) (Some ''CUSTOMER_DECLINED_PROPOSAL'') CD_ANSWER))
      (returnA \<lparr>tp_run_id = run_id, tp_case_id = case_id, tp_proposal_id = proposal_id,
         tp_proposal_state = ''declined'', tp_customer_disposition = CD_ANSWER,
         tp_events_url = events_url conversation_id\<rparr>)))"

definition decline_proposal :: "app_env \<Rightarrow> string \<Rightarrow> int \<Rightarrow> transition_response app" where
  "decline_proposal env proposal_id version =
    bindA (new_id_app env ''trc'') (\<lambda>trace_id.
    bindA (case_of_proposal proposal_id) (\<lambda>case_id.
    bindA (create_action_run env case_id ''decline'' trace_id) (\<lambda>(run_id, conversation_id).
    bindA (utc_now env) (\<lambda>now.
    bindA (read_db (\<lambda>d. bindE (require_proposal d proposal_id) (\<lambda>p. bindE (require_case d case_id) (\<lambda>c.
        Inr (validate_pending_proposal p c version now))))) (\<lambda>valid.
    thenA (case valid of
         Inl e \<Rightarrow> reject_decline env e proposal_id case_id conversation_id run_id now
       | Inr _ \<Rightarrow> returnA ())
    (thenA (commit_decline env proposal_id now case_id conversation_id run_id)
      (report_declined env proposal_id version case_id conversation_id run_id)))))))"

section \<open>What every outcome respects\<close>

context handler_relation
begin

lemma related_cases:
  "(\<And>e. r = Inl e \<Longrightarrow> related R (f e)) \<Longrightarrow> (\<And>x. r = Inr x \<Longrightarrow> related R (g x)) \<Longrightarrow> related R (case_sum f g r)"
  "related R m \<Longrightarrow> related R n \<Longrightarrow> related R (if b then m else n)"
  by (simp_all split: sum.split)

lemma related_abandon: "related R (abandon_proposal env pid cid k r st now ty summary)"
  unfolding abandon_proposal_def by (intro related_parts related_update_proposal_state related_event)

lemma related_rejections:
  "related R (reject_confirmation env e pid cid k r now)" "related R (reject_duplicate env cid k r)"
  "related R (reject_changed_evidence env pid cid k r now)" "related R (reject_decline env e pid cid k r now)"
  unfolding reject_confirmation_def reject_duplicate_def reject_changed_evidence_def reject_decline_def
    expire_if_expired_def expire_proposal_def
  by (intro related_parts related_cases related_abandon)+

lemma related_confirm_checks: "related R (confirm_checks env p c version now cid k r)"
  unfolding confirm_checks_def by (intro related_parts related_cases related_rejections)

lemma related_current_fact_identity: "related R (current_fact_identity env cid)"
  unfolding current_fact_identity_def by (intro related_parts) (auto intro!: related_parts split: error.split)

lemma related_confirm_evidence: "related R (confirm_evidence env p c now cid k r)"
  unfolding confirm_evidence_def by (intro related_parts related_cases related_rejections related_current_fact_identity)

lemma related_load: "related R (load_proposal_and_case pid)" "related R (case_of_proposal pid)"
  unfolding load_proposal_and_case_def case_of_proposal_def by (intro related_parts)+

lemma related_scripted_fault: "related R (record_scripted_action_fault env a f)"
  unfolding record_scripted_action_fault_def emit_case_closed_def Let_def split_def
  by (intro related_parts related_cases)

lemma related_read_back: "related R (read_back env a ticket_id)"
  unfolding read_back_def read_back_missing_def read_back_found_def by (intro related_parts related_cases)

lemma related_reports: "related R (report_uncertain env a)" "related R (report_verified env a ticket_id)"
  unfolding report_uncertain_def report_verified_def emit_case_closed_def by (intro related_parts)+

lemma related_decline_proposal: "related R (decline_proposal env pid version)"
  unfolding decline_proposal_def commit_decline_def report_declined_def split_def
  by (intro related_parts related_cases related_rejections related_load)

end

text \<open>A confirmation creates the action of its proposal.\<close>

context handler_relation
begin

lemma related_confirm_write:
  assumes "\<And>s t t' row d. create_action (sv_db s) t t' action = Inr (row, d) \<Longrightarrow> R s (put_db d s)"
  shows "related R (confirm_write env p action now cid)"
  unfolding confirm_write_def by (intro related_parts) (rule related_repo, rule assms)

end

lemma proposal_to_domain_id: "proposal_to_domain r = Inr p \<Longrightarrow> ap_proposal_id p = apr_proposal_id r"
  by (auto simp: proposal_to_domain_def check_proposal_def Let_def bindE_eq_Inr guard_Inr split: if_splits)

lemma ready_action_of_proposal:
  "bindE (proposal_to_domain p) (build_ready_action h) = Inr action \<Longrightarrow> ax_proposal_id action = apr_proposal_id p"
  by (auto simp: bindE_eq_Inr dest!: build_ready_action_identity(3) proposal_to_domain_id)

locale committing_relation = handler_relation +
  assumes confirm_write: "ax_proposal_id action = apr_proposal_id p \<Longrightarrow> related R (confirm_write env p action now cid)"
begin

lemma related_commit_confirmation: "related R (commit_confirmation env p version now cid k r)"
  unfolding commit_confirmation_def
  by (intro related_read_bind related_parts confirm_write) (rule ready_action_of_proposal)

end

text \<open>The write changes the fixtures and adds a ticket.\<close>

locale fixture_relation = committing_relation +
  assumes fixtures: "R s (s\<lparr>sv_fixtures := fx\<rparr>)"
begin

lemma related_fixtures: "related R (on_fixtures f)"
  by (intro related_on_fixtures fixtures)

lemma related_verify_ticket: "related R (verify_ticket env a ticket_id submitted_at)"
  unfolding verify_ticket_def
  by (intro related_parts related_cases related_fixtures related_read_back related_reports)

end

locale writing_relation = fixture_relation +
  assumes ticket: "create_ticket (sv_db s) n tid cid aid cu oid it key sh det t = Inr (row, d) \<Longrightarrow> R s (put_db d s)"
begin

lemma related_submit_write: "related R (submit_write env a ticket_id submitted_at fault)"
  unfolding submit_write_def
  by (intro related_parts; cases fault; simp; intro related_parts related_repo; (rule ticket)?; simp)

lemma related_submit: "related R (submit_and_verify_ticket_action env a)"
  unfolding submit_and_verify_ticket_action_def Let_def
  by (intro related_parts related_submit_write related_fixtures)
    (auto intro: related_scripted_fault related_verify_ticket split: option.split)

lemma related_confirm_proposal: "related R (confirm_proposal env pid version)"
  unfolding confirm_proposal_def split_def
  by (intro related_parts related_load related_confirm_checks related_confirm_evidence related_commit_confirmation
      related_submit)

end

interpretation stepwise: writing_relation stepwise
proof unfold_locales
  show "related stepwise (confirm_write env p action now cid)"
    if "ax_proposal_id action = apr_proposal_id p" for env p action now cid
    by (rule stepwise.related_confirm_write) (auto simp: stepwise_def intro!: of_store of_repository step_create_action)
qed (auto simp: stepwise_def intro!: of_store of_repository step_create_ticket)

interpretation no_ticket: committing_relation no_ticket
  by unfold_locales
    (rule no_ticket.related_confirm_write, auto simp: no_ticket_def dest!: create_action_frame)

definition same_tickets :: "app_state \<Rightarrow> app_state \<Rightarrow> bool" where
  "same_tickets s s' \<longleftrightarrow> db_tickets (sv_db s') = db_tickets (sv_db s)"

interpretation same_tickets: handler_relation same_tickets
proof unfold_locales
  fix s :: app_state and n n' e v es
  assume "event_append (sv_events s) n n' e = Inr (v, es)"
  from event_append_touches [OF this] show "same_tickets s (s\<lparr>sv_events := es\<rparr>)"
    by (auto simp: same_tickets_def sv_db_def)
qed (auto simp: same_tickets_def quiet_step_def)

interpretation same_tickets: fixture_relation same_tickets
proof unfold_locales
  show "related same_tickets (confirm_write env p action now cid)"
    if "ax_proposal_id action = apr_proposal_id p" for env p action now cid
    by (rule same_tickets.related_confirm_write) (auto simp: same_tickets_def dest!: create_action_frame)
qed (simp add: same_tickets_def)

section \<open>The ticket that is written\<close>

text \<open>Nothing or one ticket is appended, and the ticket is the one the arguments describe.\<close>

definition writes_at_most :: "action_args \<Rightarrow> app_state \<Rightarrow> app_state \<Rightarrow> bool" where
  "writes_at_most a s s' \<longleftrightarrow> same_tickets s s' \<or>
     (\<exists>t. db_tickets (sv_db s') = db_tickets (sv_db s) @ [t] \<and> tkr_case_id t = aa_case_id a \<and>
        tkr_customer_id t = aa_customer_id a \<and> tkr_authorized_order_id t = aa_authorized_order_id a \<and>
        tkr_target_shipment_id t = aa_target_shipment_id a \<and>
        tkr_issue_type t = issue_type_value (aa_issue_type a) \<and> tkr_idempotency_key t = aa_idempotency_key a)"

lemma writes_refl: "same_tickets s s' \<Longrightarrow> writes_at_most a s s'"
  by (simp add: writes_at_most_def)

lemma writes_before: "same_tickets s s1 \<Longrightarrow> writes_at_most a s1 s' \<Longrightarrow> writes_at_most a s s'"
  by (auto simp: writes_at_most_def same_tickets_def)

lemma writes_after: "writes_at_most a s s1 \<Longrightarrow> same_tickets s1 s' \<Longrightarrow> writes_at_most a s s'"
  by (auto simp: writes_at_most_def same_tickets_def)

lemma create_ticket_writes:
  assumes "create_ticket (sv_db s) n tid (aa_case_id a) (aa_action_id a) (aa_customer_id a)
    (aa_authorized_order_id a) (issue_type_value (aa_issue_type a)) (aa_idempotency_key a)
    (aa_target_shipment_id a) det t = Inr (row, d)"
  shows "writes_at_most a s (put_db d s)"
  using assms by (auto simp: create_ticket_def writes_at_most_def same_tickets_def Let_def bindE_eq_Inr insert_ticket_def
      insert_row_def guard_Inr split: option.splits if_splits)

text \<open>Sequencing a part that writes no ticket with one that may.\<close>

lemma writes_bind_quiet:
  assumes "related same_tickets m" and "\<And>x. related (writes_at_most a) (f x)"
  shows "related (writes_at_most a) (bindA m f)"
  unfolding related_def
proof
  fix s
  obtain r s1 where m: "m s = (r, s1)" by force
  with assms(1) have "same_tickets s s1" by (rule relatedD)
  moreover have "writes_at_most a s1 (snd (f x s1))" for x using assms(2) by (simp add: related_def)
  ultimately show "writes_at_most a s (snd (bindA m f s))"
    by (cases r) (auto simp: bindA_def m intro: writes_before writes_refl)
qed

lemma writes_bind:
  assumes "related (writes_at_most a) m" and "\<And>x. related same_tickets (f x)"
  shows "related (writes_at_most a) (bindA m f)"
  unfolding related_def
proof
  fix s
  obtain r s1 where m: "m s = (r, s1)" by force
  with assms(1) have "writes_at_most a s s1" by (rule relatedD)
  moreover have "same_tickets s1 (snd (f x s1))" for x using assms(2) by (simp add: related_def)
  ultimately show "writes_at_most a s (snd (bindA m f s))"
    by (cases r) (auto simp: bindA_def m intro: writes_after)
qed

lemma writes_transaction:
  assumes "related (writes_at_most a) m"
  shows "related (writes_at_most a) (transaction m)"
  unfolding related_def
proof
  fix s
  obtain r s1 where m: "m s = (r, s1)" by force
  with assms have "writes_at_most a s s1" by (rule relatedD)
  then show "writes_at_most a s (snd (transaction m s))"
    by (cases r) (simp_all add: transaction_def m writes_refl same_tickets_def)
qed

lemma writes_quiet: "related same_tickets m \<Longrightarrow> related (writes_at_most a) m"
  by (auto simp: related_def writes_refl)

lemma create_ticket_related:
  "related (writes_at_most a) (repo env (\<lambda>t d. create_ticket d t ticket_id (aa_case_id a) (aa_action_id a)
     (aa_customer_id a) (aa_authorized_order_id a) (issue_type_value (aa_issue_type a)) (aa_idempotency_key a)
     (aa_target_shipment_id a) det created))"
  unfolding repo_def
  by (intro writes_bind_quiet same_tickets.related_clock)
    (auto simp: related_def on_db_def writes_refl same_tickets_def intro: create_ticket_writes
      split: sum.splits prod.splits)

lemma submit_write_writes: "related (writes_at_most a) (submit_write env a ticket_id submitted_at fault)"
  unfolding submit_write_def thenA_def
  by (intro writes_transaction writes_bind_quiet same_tickets.related_update_action_state)
    (cases fault; simp; intro writes_bind create_ticket_related writes_quiet same_tickets.related_return)

lemma submit_writes: "related (writes_at_most a) (submit_and_verify_ticket_action env a)"
  unfolding submit_and_verify_ticket_action_def Let_def thenA_def
  by (intro writes_bind_quiet writes_bind submit_write_writes same_tickets.related_fixtures same_tickets.related_parts)
    (auto intro: same_tickets.related_scripted_fault same_tickets.related_verify_ticket split: option.split)

section \<open>What was checked before\<close>

definition wrote :: "app_state \<Rightarrow> app_state \<Rightarrow> bool" where
  "wrote s s' \<longleftrightarrow> \<not> same_tickets s s'"

lemma wrote_bind:
  assumes "bindA m f s = (r, s')" and "related same_tickets m" and "wrote s s'"
  obtains x s1 where "m s = (Inr x, s1)" "same_tickets s s1" "f x s1 = (r, s')" "wrote s1 s'"
proof -
  obtain q s1 where m: "m s = (q, s1)" by force
  with assms(2) have s1: "same_tickets s s1" by (rule relatedD)
  show thesis
  proof (cases q)
    case (Inl e)
    with m assms(1,3) s1 show thesis by (simp add: bindA_def wrote_def)
  next
    case (Inr x)
    with m assms(1) have "f x s1 = (r, s')" by (simp add: bindA_def)
    moreover from s1 assms(3) have "wrote s1 s'" by (simp add: wrote_def same_tickets_def)
    ultimately show thesis using that m s1 Inr by simp
  qed
qed

text \<open>Opening the run of a handler changes nothing that its checks read.\<close>

lemma same_business_db:
  "\<exists>cs rs es. d = (sv_db s)\<lparr>db_conversations := cs, db_runs := rs, db_events := es\<rparr> \<Longrightarrow> same_business s (put_db d s)"
  by (simp add: same_business_def)

lemma same_business_run: "d = (sv_db s)\<lparr>db_runs := rs\<rparr> \<Longrightarrow> same_business s (put_db d s)"
  by (rule same_business_db, intro exI [of _ "db_conversations (sv_db s)"] exI [of _ rs] exI [of _ "db_events (sv_db s)"])
    simp

lemma same_business_event:
  fixes s :: app_state
  assumes "event_append (sv_events s) n n' e = Inr (v, es)"
  shows "same_business s (s\<lparr>sv_events := es\<rparr>)"
proof -
  from event_append_touches [OF assms] obtain x y
    where "es_db es = (sv_db s)\<lparr>db_conversations := x, db_events := y\<rparr>" by (auto simp: sv_db_def)
  then show ?thesis unfolding same_business_def
    by (intro conjI exI [of _ x] exI [of _ "db_runs (sv_db s)"] exI [of _ y]) simp_all
qed

lemma opening_same_business: "related same_business (create_action_run env cid kind trace_id)"
proof -
  have "related same_business (repo env (\<lambda>t d. create_run d h t r args))" for h r args
    by (rule same_business.related_repo) (auto dest!: create_run_frame intro: same_business_run)
  moreover have "related same_business (repo env (\<lambda>t d. update_run d t rid st pt ar fc w))" for rid st pt ar fc w
    by (rule same_business.related_repo) (auto dest!: update_run_frame intro: same_business_run)
  moreover have "related same_business (emit env k c r ty vis summary payload)" for k c r ty vis summary payload
    by (rule same_business.related_emit) (rule same_business_event)
  ultimately show ?thesis unfolding create_action_run_def start_run_def
    by (intro same_business.related_basic)
qed

lemma same_business_trans [trans]: "same_business s s' \<Longrightarrow> same_business s' s'' \<Longrightarrow> same_business s s''"
  by (rule same_business.trans)

lemma same_business_reads:
  assumes "same_business s s'"
  shows "get_proposal (sv_db s') = get_proposal (sv_db s)" "get_case (sv_db s') = get_case (sv_db s)"
    "get_active_ticket (sv_db s') = get_active_ticket (sv_db s)" "sv_fixtures s' = sv_fixtures s"
    "revalidate_gate env (sv_db s') fx c p = revalidate_gate env (sv_db s) fx c p"
    "load_snapshot sha mh (sv_db s') t cid b = load_snapshot sha mh (sv_db s) t cid b"
proof -
  from assms obtain cs rs es where d: "sv_db s' = (sv_db s)\<lparr>db_conversations := cs, db_runs := rs, db_events := es\<rparr>"
    and fx: "sv_fixtures s' = sv_fixtures s" by (auto simp: same_business_def)
  have "rebuild_from_rows sha mh (sv_db s') cid t = rebuild_from_rows sha mh (sv_db s) cid t"
    by (rule rebuild_from_rows_cong) (simp_all add: d)
  moreover show "get_proposal (sv_db s') = get_proposal (sv_db s)" "get_case (sv_db s') = get_case (sv_db s)"
    by (simp_all add: get_proposal_def get_case_def d)
  moreover show "get_active_ticket (sv_db s') = get_active_ticket (sv_db s)"
    by (intro ext) (simp add: get_active_ticket_def d)
  moreover show "sv_fixtures s' = sv_fixtures s" by (rule fx)
  moreover have "evidence_rows (sv_db s') c p = evidence_rows (sv_db s) c p"
    by (simp add: evidence_rows_def list_tool_calls_def d)
  then show "revalidate_gate env (sv_db s') fx c p = revalidate_gate env (sv_db s) fx c p"
    by (simp only: revalidate_gate_def)
  ultimately show "load_snapshot sha mh (sv_db s') t cid b = load_snapshot sha mh (sv_db s) t cid b"
    by (simp add: load_snapshot_def require_case_def get_case_fact_snapshot_def d)
qed

text \<open>A rejection always ends in an exception, so what follows it saw the checks pass.\<close>

definition raises :: "'a app \<Rightarrow> bool" where
  "raises m \<longleftrightarrow> (\<forall>s. \<exists>e s'. m s = (Inl e, s'))"

lemma raises_intros: "raises (raiseA e)" "raises n \<Longrightarrow> raises (thenA m n)"
  by (auto simp: raises_def thenA_def bindA_def split: prod.splits sum.splits)

lemma raisesD: "raises m \<Longrightarrow> m s \<noteq> (Inr x, s')"
  by (auto simp: raises_def) (metis prod.inject sum.distinct(1))

lemma rejections_raise:
  "raises (reject_confirmation env e pid cid k r now)" "raises (reject_duplicate env cid k r)"
  "raises (reject_changed_evidence env pid cid k r now)" "raises (reject_decline env e pid cid k r now)"
  unfolding reject_confirmation_def reject_duplicate_def reject_changed_evidence_def reject_decline_def
  by (intro raises_intros)+

lemma confirm_checks_passed:
  assumes "confirm_checks env p c version now cid k r s = (Inr x, s1)"
  shows "check_confirmable (sv_fixtures s) p c version now = Inr ()"
    "get_active_ticket (sv_db s) (icr_authorized_order_id c) (icr_canonical_issue_type c) (icr_target_shipment_id c) = None"
    "s1 = s"
  using assms by (auto simp: confirm_checks_def bindA_def rejections_raise [THEN raisesD] split: sum.splits if_splits)

lemma check_confirmable_facts:
  assumes "check_confirmable fx p c version now = Inr ()"
  shows "apr_version p = version" "apr_proposal_state p = ''pending_confirmation''"
    "instant now < instant (apr_expires_at p)" "icr_case_state c = ''awaiting_customer_confirmation''"
    "icr_active_proposal_id c = Some (apr_proposal_id p)"
    "\<exists>order. authorize_order (icr_customer_id c) (icr_authorized_order_id c) (get_order_for_authorization fx) = Inr order"
  using assms unfolding check_confirmable_def validate_pending_proposal_def
  by (auto simp: bindE_eq_Inr split: if_splits)

lemma current_fact_identity_some:
  assumes "current_fact_identity env cid s = (Inr (Some j), s1)"
  obtains n f where "load_snapshot (ae_sha env) (ae_sha_text env) (sv_db s) (ae_clock env n) cid True = Inr f"
    "j = material_identity f" "same_business s s1"
proof -
  obtain q s2 where t: "utc_now env s = (q, s2)" by force
  have s2: "q = Inr (ae_clock env (sv_tick s))" "same_business s s2"
    using t same_business.related_clock(1) [of env] by (auto simp: utc_now_def dest: relatedD)
  have db: "sv_db s2 = sv_db s" using t by (auto simp: utc_now_def)
  show thesis
  proof (cases "load_snapshot (ae_sha env) (ae_sha_text env) (sv_db s) (ae_clock env (sv_tick s)) cid True")
    case (Inr f)
    with assms s2 db that show thesis
      by (auto simp: current_fact_identity_def bindA_def t catchA_def)
  next
    case (Inl e)
    with assms s2 db show thesis
      by (auto simp: current_fact_identity_def bindA_def t catchA_def split: error.splits)
  qed
qed

lemma confirm_evidence_passed:
  assumes "confirm_evidence env p c now cid k r s = (Inr x, s1)"
  obtains g n f where "revalidate_gate env (sv_db s) (sv_fixtures s) c p = Inr (Some g)"
    "gr_decision g = Some GD_PROPOSE_TICKET"
    "load_snapshot (ae_sha env) (ae_sha_text env) (sv_db s) (ae_clock env n) (icr_case_id c) True = Inr f"
    "normal_json (material_identity f) = normal_json (apr_case_fact_identity p)"
    "evidence_snapshot_hash (ae_sha env) (gr_critical_result_hashes g) (apr_execution_parameters p)
       (Some (material_identity f)) = apr_evidence_snapshot_hash p"
    "same_business s s1"
proof -
  from assms obtain gate where g: "revalidate_gate env (sv_db s) (sv_fixtures s) c p = Inr gate"
    by (auto simp: confirm_evidence_def bindA_def split: sum.splits)
  obtain q s2 where i: "current_fact_identity env (icr_case_id c) s = (q, s2)" by force
  from assms obtain identity where q: "q = Inr identity" "evidence_unchanged env gate identity p" "s1 = s2"
    by (cases q) (auto simp: confirm_evidence_def bindA_def g i rejections_raise [THEN raisesD] split: if_splits)
  from q(2) obtain g' j where "gate = Some g'" "identity = Some j"
    by (auto simp: evidence_unchanged_def split: option.splits)
  with q i g that show thesis
    by (auto simp: evidence_unchanged_def elim!: current_fact_identity_some)
qed

lemma issue_type_of_Inr: "issue_type_of v = Inr i \<Longrightarrow> issue_type_value i = v"
  by (auto simp: issue_type_of_def split: if_splits)

lemma confirmed_args_Inr:
  assumes "confirmed_args p c action cid k r = Inr a"
  shows "aa_case_id a = cid" "aa_customer_id a = icr_customer_id c"
    "aa_authorized_order_id a = icr_authorized_order_id c" "aa_target_shipment_id a = icr_target_shipment_id c"
    "issue_type_value (aa_issue_type a) = icr_canonical_issue_type c" "aa_conversation_id a = k"
  using assms by (auto simp: confirmed_args_def bindE_eq_Inr issue_type_of_Inr)

text \<open>A confirmation that writes went through every part.\<close>

lemma confirm_wrote:
  assumes "confirm_proposal env pid version s = (r, s')" and "wrote s s'"
  obtains tid s1 cid s2 ids s3 now s4 pc s5 u s6 v s7 action s8 a s9 where
    "new_id_app env ''trc'' s = (Inr tid, s1)" "case_of_proposal pid s1 = (Inr cid, s2)"
    "create_action_run env cid ''confirmation'' tid s2 = (Inr ids, s3)" "utc_now env s3 = (Inr now, s4)"
    "load_proposal_and_case pid s4 = (Inr pc, s5)"
    "confirm_checks env (fst pc) (snd pc) version now cid (snd ids) (fst ids) s5 = (Inr u, s6)"
    "confirm_evidence env (fst pc) (snd pc) now cid (snd ids) (fst ids) s6 = (Inr v, s7)"
    "readA (\<lambda>_. confirmed_args (fst pc) (snd pc) action cid (snd ids) (fst ids)) s8 = (Inr a, s9)"
    "submit_and_verify_ticket_action env a s9 = (r, s')" "same_tickets s s9" "wrote s9 s'"
proof -
  note parts = same_tickets.related_parts same_tickets.related_load same_tickets.related_confirm_checks
    same_tickets.related_confirm_evidence same_tickets.related_commit_confirmation
  show thesis using assms unfolding confirm_proposal_def thenA_def split_def
    by - ((erule wrote_bind, (intro parts)[1], assumption)+, rule that; (assumption | simp add: same_tickets_def))
qed

lemma confirm_wrote_checked:
  assumes "confirm_proposal env pid version s = (r, s')" and "wrote s s'"
  obtains p c m k rid action a s4 u s6 v s7 s9 where
    "get_proposal (sv_db s) pid = Some p" "get_case (sv_db s) (apr_case_id p) = Some c" "same_business s s4"
    "confirm_checks env p c version (ae_clock env m) (apr_case_id p) k rid s4 = (Inr u, s6)"
    "confirm_evidence env p c (ae_clock env m) (apr_case_id p) k rid s6 = (Inr v, s7)"
    "confirmed_args p c action (apr_case_id p) k rid = Inr a"
    "submit_and_verify_ticket_action env a s9 = (r, s')" "same_tickets s s9" "wrote s9 s'"
proof -
  from assms obtain tid s1 cid s2 ids s3 now s4 pc s5 u s6 v s7 action s8 a s9 where
    id1: "new_id_app env ''trc'' s = (Inr tid, s1)" and cid: "case_of_proposal pid s1 = (Inr cid, s2)" and
    opened: "create_action_run env cid ''confirmation'' tid s2 = (Inr ids, s3)" and now: "utc_now env s3 = (Inr now, s4)" and
    pc: "load_proposal_and_case pid s4 = (Inr pc, s5)" and
    rest: "confirm_checks env (fst pc) (snd pc) version now cid (snd ids) (fst ids) s5 = (Inr u, s6)"
      "confirm_evidence env (fst pc) (snd pc) now cid (snd ids) (fst ids) s6 = (Inr v, s7)"
      "readA (\<lambda>_. confirmed_args (fst pc) (snd pc) action cid (snd ids) (fst ids)) s8 = (Inr a, s9)"
      "submit_and_verify_ticket_action env a s9 = (r, s')" "same_tickets s s9" "wrote s9 s'"
    by (rule confirm_wrote)
  have b1: "same_business s s1" by (rule relatedD [OF same_business.related_new_id id1])
  have "s2 = s1" using cid by (simp add: case_of_proposal_def)
  note b1
  also have "same_business s1 s3" using relatedD [OF opening_same_business opened] \<open>s2 = s1\<close> by simp
  also have "same_business s3 s4" by (rule relatedD [OF same_business.related_clock(1) now])
  finally have b4: "same_business s s4" .
  obtain p c where [simp]: "pc = (p, c)" by force
  have p: "get_proposal (sv_db s) pid = Some p" and c: "get_case (sv_db s) (apr_case_id p) = Some c" and [simp]: "s5 = s4"
    using pc by (auto simp: load_proposal_and_case_def bindE_eq_Inr require_proposal_def require_case_def
        require_row_def same_business_reads [OF b4] split: option.splits)
  moreover have "cid = apr_case_id p"
    using cid p by (auto simp: case_of_proposal_def same_business_reads [OF b1])
  moreover have "now = ae_clock env (sv_tick s3)" using now by (simp add: utc_now_def)
  ultimately show thesis using b4 rest
    by (intro that [of p c s4 "sv_tick s3" "snd ids" "fst ids" u s6 v s7 action a s9]) simp_all
qed

lemma proposal_key: "get_proposal d pid = Some p \<Longrightarrow> apr_proposal_id p = pid"
  by (auto simp: get_proposal_def proposal_table_def dest!: get_row_key)

lemma case_key: "get_case d cid = Some c \<Longrightarrow> icr_case_id c = cid"
  by (auto simp: get_case_def case_table_def dest!: get_row_key)

text \<open>C2. A confirmation writes nothing, or exactly one ticket; and then, in the state it began in, the proposal
  was pending, unexpired and of the confirmed version, its case was waiting for it, the customer owned the
  order, no ticket was active for the target, the persisted evidence still leads the gate to propose a ticket,
  the customer's facts are those of the proposal and the hash binding both is unchanged.  The ticket is for
  the case, customer, order, target and issue that were checked.\<close>

theorem ticket_only_on_confirmed_evidence:
  "db_tickets (sv_db (snd (confirm_proposal env pid version s))) = db_tickets (sv_db s) \<or>
   (\<exists>p c g f t m n order.
      get_proposal (sv_db s) pid = Some p \<and> apr_version p = version \<and> apr_proposal_state p = ''pending_confirmation'' \<and>
      instant (ae_clock env m) < instant (apr_expires_at p) \<and>
      get_case (sv_db s) (apr_case_id p) = Some c \<and> icr_case_state c = ''awaiting_customer_confirmation'' \<and>
      icr_active_proposal_id c = Some pid \<and>
      authorize_order (icr_customer_id c) (icr_authorized_order_id c)
        (get_order_for_authorization (sv_fixtures s)) = Inr order \<and>
      get_active_ticket (sv_db s) (icr_authorized_order_id c) (icr_canonical_issue_type c)
        (icr_target_shipment_id c) = None \<and>
      revalidate_gate env (sv_db s) (sv_fixtures s) c p = Inr (Some g) \<and> gr_decision g = Some GD_PROPOSE_TICKET \<and>
      load_snapshot (ae_sha env) (ae_sha_text env) (sv_db s) (ae_clock env n) (apr_case_id p) True = Inr f \<and>
      normal_json (material_identity f) = normal_json (apr_case_fact_identity p) \<and>
      evidence_snapshot_hash (ae_sha env) (gr_critical_result_hashes g) (apr_execution_parameters p)
        (Some (material_identity f)) = apr_evidence_snapshot_hash p \<and>
      db_tickets (sv_db (snd (confirm_proposal env pid version s))) = db_tickets (sv_db s) @ [t] \<and>
      tkr_case_id t = apr_case_id p \<and> tkr_customer_id t = icr_customer_id c \<and>
      tkr_authorized_order_id t = icr_authorized_order_id c \<and>
      tkr_target_shipment_id t = icr_target_shipment_id c \<and> tkr_issue_type t = icr_canonical_issue_type c)"
proof -
  obtain r s' where run: "confirm_proposal env pid version s = (r, s')" by force
  show ?thesis
  proof (cases "wrote s s'")
    case True
    with run obtain p c m k rid action a s4 u s6 v s7 s9 where
      p: "get_proposal (sv_db s) pid = Some p" and c: "get_case (sv_db s) (apr_case_id p) = Some c" and
      b: "same_business s s4" and
      checks: "confirm_checks env p c version (ae_clock env m) (apr_case_id p) k rid s4 = (Inr u, s6)" and
      evidence: "confirm_evidence env p c (ae_clock env m) (apr_case_id p) k rid s6 = (Inr v, s7)" and
      a: "confirmed_args p c action (apr_case_id p) k rid = Inr a" and
      submit: "submit_and_verify_ticket_action env a s9 = (r, s')" and quiet: "same_tickets s s9" "wrote s9 s'"
      by (rule confirm_wrote_checked)
    note reads = same_business_reads [OF b] proposal_key [OF p] case_key [OF c]
    note passed = confirm_checks_passed [OF checks, unfolded reads]
    obtain g n f where "revalidate_gate env (sv_db s) (sv_fixtures s) c p = Inr (Some g)"
      "gr_decision g = Some GD_PROPOSE_TICKET"
      "load_snapshot (ae_sha env) (ae_sha_text env) (sv_db s) (ae_clock env n) (apr_case_id p) True = Inr f"
      "normal_json (material_identity f) = normal_json (apr_case_fact_identity p)"
      "evidence_snapshot_hash (ae_sha env) (gr_critical_result_hashes g) (apr_execution_parameters p)
         (Some (material_identity f)) = apr_evidence_snapshot_hash p"
      using evidence unfolding passed(3) by (rule confirm_evidence_passed) (simp add: reads)
    moreover obtain t where "db_tickets (sv_db s') = db_tickets (sv_db s) @ [t]" "tkr_case_id t = apr_case_id p"
      "tkr_customer_id t = icr_customer_id c" "tkr_authorized_order_id t = icr_authorized_order_id c"
      "tkr_target_shipment_id t = icr_target_shipment_id c" "tkr_issue_type t = icr_canonical_issue_type c"
      using relatedD [OF submit_writes submit] quiet
      by (auto simp: writes_at_most_def wrote_def same_tickets_def confirmed_args_Inr [OF a])
    ultimately show ?thesis using p c passed(2) check_confirmable_facts [OF passed(1)] run
      by (intro disjI2) (simp add: reads, blast)
  next
    case False
    with run show ?thesis by (simp add: wrote_def same_tickets_def)
  qed
qed

end
