(* ===== verification/ToolBudget.thy ===== *)
theory ToolBudget
  imports Prelude
begin

text \<open>
  The counters of \<open>tools/budget.py\<close>.  A method that may raise returns the new counters or the
  exception; since it raises before it changes anything, the counters survive a refused call, which is
  what \<open>run_schedule\<close> says.  The property counts the calls that succeed in an arbitrary schedule.
\<close>

record tool_budget =
  tb_case_planning_turns :: int
  tb_run_planning_turns :: int
  tb_actual_read_tool_executions :: int

definition max_case_planning_turns :: int where "max_case_planning_turns = 16"
definition max_run_planning_turns :: int where "max_run_planning_turns = 8"
definition max_actual_read_tool_executions :: int where "max_actual_read_tool_executions = 6"

lemmas budget_limits = max_case_planning_turns_def max_run_planning_turns_def
  max_actual_read_tool_executions_def

definition tool_budget_init :: "int \<Rightarrow> int \<Rightarrow> int \<Rightarrow> tool_budget result" where
  "tool_budget_init case_turns run_turns executions =
    (if \<not> (0 \<le> case_turns \<and> case_turns \<le> max_case_planning_turns)
       then Inl (ValueError ''invalid initial Case planning-turn count'')
     else if \<not> (0 \<le> run_turns \<and> run_turns \<le> max_run_planning_turns)
       then Inl (ValueError ''invalid initial Run planning-turn count'')
     else if \<not> (0 \<le> executions \<and> executions \<le> max_actual_read_tool_executions)
       then Inl (ValueError ''invalid initial read-tool execution count'')
     else Inr \<lparr>tb_case_planning_turns = case_turns, tb_run_planning_turns = run_turns,
               tb_actual_read_tool_executions = executions\<rparr>)"

definition record_planning_turn :: "tool_budget \<Rightarrow> tool_budget result" where
  "record_planning_turn b =
    (if max_case_planning_turns \<le> tb_case_planning_turns b
       then Inl (ToolBudgetExceeded ''CASE_PLANNING_TURN_BUDGET_EXCEEDED'')
     else if max_run_planning_turns \<le> tb_run_planning_turns b
       then Inl (ToolBudgetExceeded ''RUN_PLANNING_TURN_BUDGET_EXCEEDED'')
     else Inr (b\<lparr>tb_case_planning_turns := tb_case_planning_turns b + 1,
                 tb_run_planning_turns := tb_run_planning_turns b + 1\<rparr>))"

definition record_actual_execution :: "tool_budget \<Rightarrow> tool_budget result" where
  "record_actual_execution b =
    (if max_actual_read_tool_executions \<le> tb_actual_read_tool_executions b
       then Inl (ToolBudgetExceeded ''READ_TOOL_EXECUTION_BUDGET_EXCEEDED'')
     else Inr (b\<lparr>tb_actual_read_tool_executions := tb_actual_read_tool_executions b + 1\<rparr>))"

definition reset_run :: "tool_budget \<Rightarrow> tool_budget" where
  "reset_run b = b\<lparr>tb_run_planning_turns := 0\<rparr>"

section \<open>Schedules\<close>

datatype budget_op = BO_Plan | BO_Execute | BO_Reset

fun budget_step :: "tool_budget \<Rightarrow> budget_op \<Rightarrow> tool_budget result" where
  "budget_step b BO_Plan = record_planning_turn b"
| "budget_step b BO_Execute = record_actual_execution b"
| "budget_step b BO_Reset = Inr (reset_run b)"

text \<open>The calls of a schedule that succeed, and the counters after it.\<close>

fun run_schedule :: "tool_budget \<Rightarrow> budget_op list \<Rightarrow> budget_op list \<times> tool_budget" where
  "run_schedule b [] = ([], b)"
| "run_schedule b (op # ops) =
    (case budget_step b op of
       Inl _ \<Rightarrow> run_schedule b ops
     | Inr b' \<Rightarrow> (let (done, b'') = run_schedule b' ops in (op # done, b'')))"

definition wf_budget :: "tool_budget \<Rightarrow> bool" where
  "wf_budget b \<longleftrightarrow>
     0 \<le> tb_case_planning_turns b \<and> tb_case_planning_turns b \<le> max_case_planning_turns \<and>
     0 \<le> tb_run_planning_turns b \<and> tb_run_planning_turns b \<le> max_run_planning_turns \<and>
     0 \<le> tb_actual_read_tool_executions b \<and>
     tb_actual_read_tool_executions b \<le> max_actual_read_tool_executions"

lemma wf_budget_init: "tool_budget_init c r e = Inr b \<Longrightarrow> wf_budget b"
  by (auto simp: tool_budget_init_def wf_budget_def split: if_splits)

lemma wf_budget_step: "wf_budget b \<Longrightarrow> budget_step b op = Inr b' \<Longrightarrow> wf_budget b'"
  by (cases op) (auto simp: record_planning_turn_def record_actual_execution_def reset_run_def
      wf_budget_def budget_limits split: if_splits)

lemma wf_schedule: "wf_budget b \<Longrightarrow> wf_budget (snd (run_schedule b ops))"
  by (induction b ops rule: run_schedule.induct)
    (auto split: sum.splits prod.splits dest: wf_budget_step)

lemma schedule_counts:
  "int (count_list (fst (run_schedule b ops)) BO_Execute) + tb_actual_read_tool_executions b =
     tb_actual_read_tool_executions (snd (run_schedule b ops)) \<and>
   int (count_list (fst (run_schedule b ops)) BO_Plan) + tb_case_planning_turns b =
     tb_case_planning_turns (snd (run_schedule b ops))"
proof (induction b ops rule: run_schedule.induct)
  case (2 b op ops)
  then show ?case
    by (cases op) (auto simp: record_planning_turn_def record_actual_execution_def reset_run_def
        split: prod.splits if_splits)
qed simp

text \<open>C24. Whatever schedule of planning turns, read executions and Run resets a Case goes through, at
  most six executions and sixteen planning turns ever succeed, less what the Case had used before, and
  the counters stay within their limits.\<close>

theorem budget_bounds_every_schedule:
  assumes "tool_budget_init c r e = Inr b"
  shows "int (count_list (fst (run_schedule b ops)) BO_Execute) \<le> 6 - e \<and>
    int (count_list (fst (run_schedule b ops)) BO_Plan) \<le> 16 - c \<and>
    wf_budget (snd (run_schedule b ops))"
proof -
  have "wf_budget (snd (run_schedule b ops))" using wf_budget_init [OF assms] by (rule wf_schedule)
  moreover have "tb_actual_read_tool_executions b = e \<and> tb_case_planning_turns b = c"
    using assms by (auto simp: tool_budget_init_def split: if_splits)
  ultimately show ?thesis using schedule_counts [of b ops]
    by (auto simp: wf_budget_def budget_limits)
qed

theorem budget_bounds_every_schedule_witness:
  "\<exists>b. tool_budget_init 0 0 4 = Inr b \<and>
     fst (run_schedule b [BO_Execute, BO_Plan, BO_Execute, BO_Execute, BO_Plan]) = [BO_Execute, BO_Plan, BO_Execute, BO_Plan] \<and>
     int (count_list (fst (run_schedule b [BO_Execute, BO_Plan, BO_Execute, BO_Execute, BO_Plan])) BO_Execute) \<le> 6 - 4"
proof -
  obtain b where b: "tool_budget_init 0 0 4 = Inr b"
    by (simp add: tool_budget_init_def budget_limits)
  moreover have "fst (run_schedule b [BO_Execute, BO_Plan, BO_Execute, BO_Execute, BO_Plan]) = [BO_Execute, BO_Plan, BO_Execute, BO_Plan]"
    using b by (auto simp: tool_budget_init_def budget_limits record_actual_execution_def
        record_planning_turn_def)
  ultimately show ?thesis
    using budget_bounds_every_schedule [OF b, of "[BO_Execute, BO_Plan, BO_Execute, BO_Execute, BO_Plan]"] by blast
qed

text \<open>Within one Run, that is between two resets, at most eight planning turns succeed.\<close>

lemma run_planning_bounded:
  assumes "wf_budget b" and "BO_Reset \<notin> set ops"
  shows "int (count_list (fst (run_schedule b ops)) BO_Plan) \<le> 8 - tb_run_planning_turns b"
proof -
  have "int (count_list (fst (run_schedule b ops)) BO_Plan) + tb_run_planning_turns b =
      tb_run_planning_turns (snd (run_schedule b ops))"
    using assms(2)
  proof (induction b ops rule: run_schedule.induct)
    case (2 b op ops)
    then show ?case
      by (cases op) (auto simp: record_planning_turn_def record_actual_execution_def
          split: prod.splits if_splits)
  qed simp
  with wf_schedule [OF assms(1), of ops] show ?thesis by (auto simp: wf_budget_def budget_limits)
qed

end
