(* ===== verification/GovernedTools.thy ===== *)
theory GovernedTools
  imports DomainModels FixtureStore ToolBudget ToolCache
begin

text \<open>
  The governed read tools of \<open>tools/service.py\<close>: the six adapters of \<open>SyntheticReadToolCatalog\<close> and the
  executor \<open>GovernedToolExecutor\<close> that validates the model's arguments, authorizes, caches, meters and
  dispatches every read.

  \<^item> A result of any tool is a \<open>read_payload tool_result\<close>; \<open>RP_Order\<close> and the others tag the payload.
  \<^item> Digests and canonical dumps are the fields of \<open>hashing\<close>.  \<open>PolicyRagService.search\<close> is the field
    \<open>ct_search\<close> of the catalog: it answers with a payload or with the retryable flag and the code of a
    \<open>PolicyRetrievalUnavailable\<close>.
  \<^item> \<open>model_validate(fault.model_dump())\<close> rebuilds the same envelope with an empty payload.
  \<^item> A method of the executor returns its result or exception together with the executor after it, since
    the counters change before a read may raise.
\<close>

section \<open>Tools\<close>

definition read_tool_names :: "string list" where
  "read_tool_names =
     [''get_order_context'', ''get_logistics_timeline'', ''get_delivery_proof'',
      ''get_carrier_service_alerts'', ''search_after_sales_policy'', ''get_existing_logistics_tickets'']"

definition issue_tools :: "string list" where
  "issue_tools = [''search_after_sales_policy'', ''get_existing_logistics_tickets'']"

definition issue_restricted_tool :: "string \<Rightarrow> issue_type option" where
  "issue_restricted_tool tool =
    (if tool = ''get_delivery_proof'' then Some SIGNED_NOT_RECEIVED
     else if tool = ''get_carrier_service_alerts'' then Some STALLED_TRACKING
     else None)"

record hashing =
  hx_sha :: "json \<Rightarrow> string"
  hx_dump_proof :: "proof_fixture \<Rightarrow> json"
  hx_dump_payload :: "read_payload \<Rightarrow> json"

type_synonym arguments = "(string \<times> json) list"

definition query_id :: "hashing \<Rightarrow> trusted_context \<Rightarrow> string \<Rightarrow> arguments \<Rightarrow> nat \<Rightarrow> string" where
  "query_id hx context tool args attempt =
     ''qry_'' @ take 20 (hx_sha hx (normal_json (JObj
       [(''fixture_version'', JStr (tc_fixture_version context)),
        (''fault_seed'', JStr (tc_fault_seed context)),
        (''case_id'', JStr (tc_case_id context)),
        (''tool_name'', JStr tool),
        (''arguments'', JObj args),
        (''attempt'', JInt (int attempt))])))"

record read_catalog =
  ct_store :: fixture_store
  ct_policy_revision :: string
  ct_search ::
    "string \<Rightarrow> issue_type \<Rightarrow> string \<Rightarrow> string \<Rightarrow> datetime \<Rightarrow> (bool \<times> string) + policy_search"

definition catalog_source_revision :: "hashing \<Rightarrow> read_catalog \<Rightarrow> string \<Rightarrow> string \<Rightarrow> string result" where
  "catalog_source_revision hx cat order_id tool =
    (if tool = ''search_after_sales_policy'' then Inr (ct_policy_revision cat)
     else source_revision (hx_sha hx) (hx_dump_proof hx) (ct_store cat) order_id tool)"

definition catalog_authorize :: "read_catalog \<Rightarrow> trusted_context \<Rightarrow> string \<Rightarrow> grant result" where
  "catalog_authorize cat context order_id =
     authorize_order (tc_customer_id context) order_id (get_order_for_authorization (ct_store cat))"

definition fault_result ::
  "hashing \<Rightarrow> read_catalog \<Rightarrow> trusted_context \<Rightarrow> string \<Rightarrow> arguments \<Rightarrow> nat \<Rightarrow>
   read_result result option" where
  "fault_result hx cat context tool args attempt =
     map_option
       (\<lambda>fault. failed (hx_sha hx) (ff_execution_status fault = ES_RETRYABLE_ERROR) tool
                 (query_id hx context tool args attempt) (tc_evaluated_at context)
                 (ff_error_code fault)
                 (if tool = ''search_after_sales_policy'' then Some RT_UNAVAILABLE else None))
       (get_fault (ct_store cat) (tc_fault_seed context) tool attempt)"

text \<open>What every adapter does first: reauthorize, then answer with a scripted fault if there is one.\<close>

definition governed_read ::
  "hashing \<Rightarrow> read_catalog \<Rightarrow> trusted_context \<Rightarrow> string \<Rightarrow> string \<Rightarrow> arguments \<Rightarrow> nat \<Rightarrow>
   read_result result \<Rightarrow> read_result result" where
  "governed_read hx cat context tool order_id args attempt rest =
     bindE (catalog_authorize cat context order_id) (\<lambda>_.
       case fault_result hx cat context tool args attempt of Some fault \<Rightarrow> fault | None \<Rightarrow> rest)"

definition read_completed ::
  "hashing \<Rightarrow> trusted_context \<Rightarrow> string \<Rightarrow> string \<Rightarrow> arguments \<Rightarrow> nat \<Rightarrow> evidence_availability \<Rightarrow>
   read_payload \<Rightarrow> string list \<Rightarrow> string list \<Rightarrow> read_result result" where
  "read_completed hx context source tool args attempt av payload ids untrusted =
     completed (hx_sha hx) (hx_dump_payload hx) av source (query_id hx context tool args attempt)
       (tc_evaluated_at context) (Some payload) ids untrusted None None"

definition order_args :: "string \<Rightarrow> arguments" where
  "order_args order_id = [(''order_id'', JStr order_id)]"

definition issue_args :: "string \<Rightarrow> issue_type \<Rightarrow> arguments" where
  "issue_args order_id issue =
     [(''order_id'', JStr order_id), (''issue_type'', JStr (issue_type_value issue))]"

section \<open>The six adapters\<close>

definition get_order_context ::
  "hashing \<Rightarrow> read_catalog \<Rightarrow> trusted_context \<Rightarrow> string \<Rightarrow> nat \<Rightarrow> read_result result" where
  "get_order_context hx cat context order_id attempt =
    (let args = order_args order_id in
     governed_read hx cat context ''get_order_context'' order_id args attempt
      (bindE (get_authorized_order (ct_store cat) order_id) (\<lambda>o'.
       bindE (shipment_summary_rows (ct_store cat) order_id) (\<lambda>rows.
       bindE (check_order_context
               \<lparr>oc_order_id = of_order_id o', oc_order_status = of_order_status o',
                oc_tracking_number = of_tracking_number o',
                oc_service_level = of_service_level o', oc_region = of_region o',
                oc_shipped_at = of_shipped_at o', oc_delivered_at = of_delivered_at o',
                oc_shipments = rows\<rparr>) (\<lambda>payload.
       read_completed hx context ''order'' ''get_order_context'' args attempt EA_PRESENT
         (RP_Order payload) [of_order_id o'] [])))))"

definition indexed_fields :: "string \<Rightarrow> string \<Rightarrow> ('a \<Rightarrow> bool) \<Rightarrow> 'a list \<Rightarrow> string list" where
  "indexed_fields pre post P xs =
     map (\<lambda>(i, x). pre @ nat_str i @ post) (filter (\<lambda>(i, x). P x) (enumerate 0 xs))"

definition get_logistics_timeline ::
  "hashing \<Rightarrow> read_catalog \<Rightarrow> trusted_context \<Rightarrow> string \<Rightarrow> nat \<Rightarrow> read_result result" where
  "get_logistics_timeline hx cat context order_id attempt =
    (let args = order_args order_id in
     governed_read hx cat context ''get_logistics_timeline'' order_id args attempt
      (let events = get_timeline (ct_store cat) order_id None;
           last_update = latest (map te_occurred_at events)
       in
       bindE (shipment_timelines (ct_store cat) order_id (tc_evaluated_at context)) (\<lambda>packages.
       bindE (check_logistics_timeline
               \<lparr>lt_order_id = order_id, lt_events = events, lt_last_update_at = last_update,
                lt_hours_since_last_update =
                  map_option (hours_between (tc_evaluated_at context)) last_update,
                lt_shipment_timelines = packages\<rparr>) (\<lambda>payload.
       read_completed hx context ''logistics_timeline'' ''get_logistics_timeline'' args attempt
         (if events = [] then EA_ABSENT else EA_PRESENT) (RP_Timeline payload)
         (map te_event_id events)
         (indexed_fields ''events.'' ''.note'' (\<lambda>e. truthy (te_note e)) events)))))"

definition read_delivery_proof ::
  "hashing \<Rightarrow> read_catalog \<Rightarrow> trusted_context \<Rightarrow> string \<Rightarrow> nat \<Rightarrow> read_result result" where
  "read_delivery_proof hx cat context order_id attempt =
    (let args = order_args order_id in
     governed_read hx cat context ''get_delivery_proof'' order_id args attempt
      (case get_delivery_proof (ct_store cat) order_id (tc_target_shipment_id context) of
         None \<Rightarrow>
           bindE (check_delivery_proof
                   \<lparr>dp_order_id = order_id, dp_shipment_id = tc_target_shipment_id context,
                    dp_pod_status = DP_NOT_FOUND, dp_recipient_type = None, dp_signed_at = None,
                    dp_note = None\<rparr>) (\<lambda>payload.
           read_completed hx context ''delivery_proof'' ''get_delivery_proof'' args attempt EA_ABSENT
             (RP_Proof payload) [] [])
       | Some proof \<Rightarrow>
           bindE (check_delivery_proof
                   \<lparr>dp_order_id = order_id, dp_shipment_id = px_shipment_id proof,
                    dp_pod_status = DP_FOUND, dp_recipient_type = px_recipient_type proof,
                    dp_signed_at = px_signed_at proof, dp_note = px_note proof\<rparr>) (\<lambda>payload.
           read_completed hx context ''delivery_proof'' ''get_delivery_proof'' args attempt EA_PRESENT
             (RP_Proof payload) [px_proof_id proof]
             (if truthy (px_note proof) then [''note''] else []))))"

definition get_carrier_service_alerts ::
  "hashing \<Rightarrow> read_catalog \<Rightarrow> trusted_context \<Rightarrow> string \<Rightarrow> nat \<Rightarrow> read_result result" where
  "get_carrier_service_alerts hx cat context order_id attempt =
    (let args = order_args order_id in
     governed_read hx cat context ''get_carrier_service_alerts'' order_id args attempt
      (let alerts = get_carrier_alerts (ct_store cat) order_id in
       read_completed hx context ''carrier_alerts'' ''get_carrier_service_alerts'' args attempt
         (if alerts = [] then EA_ABSENT else EA_PRESENT)
         (RP_Alerts \<lparr>cap_order_id = order_id, cap_alerts = alerts\<rparr>)
         (map ca_alert_id alerts)
         (indexed_fields ''alerts.'' ''.description'' (\<lambda>_. True) alerts)))"

definition search_after_sales_policy ::
  "hashing \<Rightarrow> read_catalog \<Rightarrow> trusted_context \<Rightarrow> string \<Rightarrow> issue_type \<Rightarrow> nat \<Rightarrow> read_result result" where
  "search_after_sales_policy hx cat context order_id issue attempt =
    (let args = issue_args order_id issue in
     governed_read hx cat context ''search_after_sales_policy'' order_id args attempt
      (bindE (get_authorized_order (ct_store cat) order_id) (\<lambda>o'.
       case ct_search cat order_id issue (of_service_level o') (of_region o')
              (tc_evaluated_at context) of
         Inl (retryable, code) \<Rightarrow>
           failed (hx_sha hx) retryable ''after_sales_policy_rag''
             (query_id hx context ''search_after_sales_policy'' args attempt)
             (tc_evaluated_at context) code (Some RT_UNAVAILABLE)
       | Inr found \<Rightarrow>
           let payload = (case fs_policy_resolution_override (ct_store cat) of
                            None \<Rightarrow> found
                          | Some ov \<Rightarrow>
                              if ps_retrieval_status found = RT_HIT
                              then found\<lparr>ps_policy_resolution_status := Some ov,
                                         ps_policy_fact_snapshot := None,
                                         ps_policy_fact_snapshot_hash := None,
                                         ps_citation := None\<rparr>
                              else found)
           in completed (hx_sha hx) (hx_dump_payload hx) EA_PRESENT ''after_sales_policy_rag''
                (query_id hx context ''search_after_sales_policy'' args attempt)
                (tc_evaluated_at context) (Some (RP_Policy payload))
                (case ps_citation payload of None \<Rightarrow> [] | Some c \<Rightarrow> [vc_clause_id c]) []
                (Some (ps_retrieval_status payload)) (ps_policy_resolution_status payload))))"

definition get_existing_logistics_tickets ::
  "hashing \<Rightarrow> read_catalog \<Rightarrow> trusted_context \<Rightarrow> string \<Rightarrow> issue_type \<Rightarrow> nat \<Rightarrow> read_result result" where
  "get_existing_logistics_tickets hx cat context order_id issue attempt =
    (let args = issue_args order_id issue;
         target = tc_target_shipment_id context
     in
     governed_read hx cat context ''get_existing_logistics_tickets'' order_id args attempt
      (let tickets = get_active_tickets (ct_store cat) order_id issue target in
       bindE (get_active_investigations (ct_store cat) order_id issue target) (\<lambda>investigations.
       read_completed hx context ''logistics_tickets'' ''get_existing_logistics_tickets'' args attempt
         (if tickets \<noteq> [] \<or> investigations \<noteq> [] then EA_PRESENT else EA_ABSENT)
         (RP_Tickets \<lparr>et_order_id = order_id, et_issue_type = issue, et_active_tickets = tickets,
                      et_existing_investigations = investigations\<rparr>)
         (map lg_ticket_id tickets @ map ei_case_id investigations) [])))"

section \<open>The executor\<close>

record executor =
  gx_trusted :: trusted_context
  gx_catalog :: read_catalog
  gx_cache :: "read_payload case_tool_cache"
  gx_budget :: tool_budget

definition executor_init ::
  "trusted_context \<Rightarrow> read_catalog \<Rightarrow> read_payload case_tool_cache \<Rightarrow> tool_budget \<Rightarrow> executor result" where
  "executor_init trusted cat cache budget =
    (if tc_fixture_version trusted \<noteq> fs_fixture_version (ct_store cat)
       then Inl (ValueError ''trusted fixture_version does not match the fixture store'')
     else Inr \<lparr>gx_trusted = trusted, gx_catalog = cat, gx_cache = cache, gx_budget = budget\<rparr>)"

definition on_agent_turn :: "executor \<Rightarrow> executor result" where
  "on_agent_turn g =
     bindE (record_planning_turn (gx_budget g)) (\<lambda>b. Inr (g\<lparr>gx_budget := b\<rparr>))"

definition validate_arguments :: "trusted_context \<Rightarrow> string \<Rightarrow> arguments \<Rightarrow> string option" where
  "validate_arguments trusted tool args =
    (if tool \<notin> set read_tool_names then Some ''TOOL_NOT_ALLOWED''
     else if set (map fst args) \<noteq>
          (if tool \<in> set issue_tools then {''order_id'', ''issue_type''} else {''order_id''})
       then Some ''INVALID_TOOL_ARGUMENTS''
     else if map_of args ''order_id'' \<noteq> Some (JStr (tc_authorized_order_id trusted))
       then Some ''TOOL_SCOPE_MISMATCH''
     else if (case issue_restricted_tool tool of None \<Rightarrow> False
              | Some required \<Rightarrow> tc_canonical_issue_type trusted \<noteq> required)
       then Some ''TOOL_NOT_RELEVANT_TO_ISSUE''
     else if tool \<in> set issue_tools \<and>
          map_of args ''issue_type'' \<noteq> Some (JStr (issue_type_value (tc_canonical_issue_type trusted)))
       then Some ''TOOL_SCOPE_MISMATCH''
     else None)"

definition blocked_result :: "hashing \<Rightarrow> trusted_context \<Rightarrow> string \<Rightarrow> string \<Rightarrow> read_result result" where
  "blocked_result hx trusted tool code =
    (let safe_name = (if tool \<in> set read_tool_names then tool else ''governed_tool'')
     in failed (hx_sha hx) False safe_name
          (query_id hx trusted safe_name [(''blocked'', JBool True)] 0)
          (tc_evaluated_at trusted) code None)"

text \<open>The string of a validated argument; \<open>validate_arguments\<close> has established that it is one.\<close>

definition arg_str :: "arguments \<Rightarrow> string \<Rightarrow> string" where
  "arg_str args k = (case map_of args k of Some (JStr s) \<Rightarrow> s | _ \<Rightarrow> [])"

definition dispatch ::
  "hashing \<Rightarrow> read_catalog \<Rightarrow> trusted_context \<Rightarrow> string \<Rightarrow> arguments \<Rightarrow> nat \<Rightarrow> read_result result" where
  "dispatch hx cat trusted tool args attempt =
    (let order_id = arg_str args ''order_id'' in
     if tool \<in> set issue_tools then
       bindE (issue_type_of (arg_str args ''issue_type'')) (\<lambda>issue.
         if tool = ''search_after_sales_policy''
           then search_after_sales_policy hx cat trusted order_id issue attempt
         else get_existing_logistics_tickets hx cat trusted order_id issue attempt)
     else if tool = ''get_order_context'' then get_order_context hx cat trusted order_id attempt
     else if tool = ''get_logistics_timeline'' then get_logistics_timeline hx cat trusted order_id attempt
     else if tool = ''get_delivery_proof'' then read_delivery_proof hx cat trusted order_id attempt
     else if tool = ''get_carrier_service_alerts''
       then get_carrier_service_alerts hx cat trusted order_id attempt
     else Inl (KeyError tool))"

definition cache_key_for :: "trusted_context \<Rightarrow> string \<Rightarrow> arguments \<Rightarrow> string \<Rightarrow> cache_key" where
  "cache_key_for trusted tool args revision =
     \<lparr>ck_case_id = tc_case_id trusted, ck_tool_name = tool,
      ck_normalized_args = normalize_tool_arguments args, ck_source_revision = revision\<rparr>"

definition execute_result ::
  "hashing \<Rightarrow> executor \<Rightarrow> string \<Rightarrow> arguments \<Rightarrow> read_result result \<times> executor" where
  "execute_result hx g tool args =
    (let trusted = gx_trusted g; cat = gx_catalog g;
         blocked = (\<lambda>code g'. (blocked_result hx trusted tool code, g'))
     in
     case validate_arguments trusted tool args of
       Some code \<Rightarrow> blocked code g
     | None \<Rightarrow>
        (case authorize_order (tc_customer_id trusted) (arg_str args ''order_id'')
                (get_order_for_authorization (ct_store cat)) of
           Inl (AuthorizationError code) \<Rightarrow> blocked code g
         | Inl e \<Rightarrow> (Inl e, g)
         | Inr granted \<Rightarrow>
            (case catalog_source_revision hx cat (ag_order_id granted) tool of
               Inl e \<Rightarrow> (Inl e, g)
             | Inr revision \<Rightarrow>
                (let key = cache_key_for trusted tool args revision in
                 case cache_get (gx_cache g) key of
                   Some hit \<Rightarrow> (Inr hit, g)
                 | None \<Rightarrow>
                    if retry_exhausted (gx_cache g) key then blocked ''TOOL_RETRY_EXHAUSTED'' g
                    else
                     (case record_actual_execution (gx_budget g) of
                        Inl (ToolBudgetExceeded code) \<Rightarrow> blocked code g
                      | Inl e \<Rightarrow> (Inl e, g)
                      | Inr b \<Rightarrow>
                         (let (attempt, c) = record_actual_attempt (gx_cache g) key;
                              g' = g\<lparr>gx_budget := b, gx_cache := c\<rparr>
                          in case dispatch hx cat trusted tool args attempt of
                               Inl (AuthorizationError code) \<Rightarrow> blocked code g'
                             | Inl e \<Rightarrow> (Inl e, g')
                             | Inr r \<Rightarrow>
                                (case cache_store c key r of
                                   Inl e \<Rightarrow> (Inl e, g')
                                 | Inr c' \<Rightarrow> (Inr r, g'\<lparr>gx_cache := c'\<rparr>))))))))"

definition retry_exhausted_for :: "hashing \<Rightarrow> executor \<Rightarrow> string \<Rightarrow> arguments \<Rightarrow> bool result" where
  "retry_exhausted_for hx g tool args =
    (let order_id = tc_authorized_order_id (gx_trusted g) in
     if tool \<notin> set read_tool_names then Inr False
     else if map_of args ''order_id'' \<noteq> Some (JStr order_id) then Inr False
     else bindE (catalog_source_revision hx (gx_catalog g) order_id tool) (\<lambda>revision.
       Inr (retry_exhausted (gx_cache g) (cache_key_for (gx_trusted g) tool args revision))))"

section \<open>What a read can answer\<close>

text \<open>Payload construction and dispatch raise only \<open>ValueError\<close> and \<open>KeyError\<close>; authorization alone
  raises \<open>AuthorizationError\<close>.\<close>

fun data_error :: "error \<Rightarrow> bool" where
  "data_error (ValueError _) = True"
| "data_error (KeyError _) = True"
| "data_error _ = False"

definition only_data_errors :: "'a result \<Rightarrow> bool" where
  "only_data_errors r \<longleftrightarrow> (\<forall>e. r = Inl e \<longrightarrow> data_error e)"

named_theorems data_rules "results that raise only data errors"

lemma only_data_Inr [data_rules]: "only_data_errors (Inr x)"
  by (simp add: only_data_errors_def)

lemma only_data_bind [data_rules]:
  "only_data_errors r \<Longrightarrow> (\<And>x. r = Inr x \<Longrightarrow> only_data_errors (f x)) \<Longrightarrow> only_data_errors (bindE r f)"
  by (cases r) (auto simp: only_data_errors_def)

lemma only_data_map [data_rules]:
  "(\<And>x. only_data_errors (f x)) \<Longrightarrow> only_data_errors (mapE f xs)"
  by (induction xs) (auto intro!: data_rules)

lemma only_data_checks [data_rules]:
  "only_data_errors (check_order_context c)" "only_data_errors (check_shipment_summary h)"
  "only_data_errors (check_shipment_timeline st)" "only_data_errors (check_logistics_timeline lt)"
  "only_data_errors (check_delivery_proof p)" "only_data_errors (check_tool_result r)"
  by (auto simp: only_data_errors_def check_order_context_def check_shipment_summary_def
      check_shipment_timeline_def check_logistics_timeline_def check_delivery_proof_def
      check_tool_result_def split: if_splits)

lemma only_data_investigation [data_rules]: "only_data_errors (check_existing_investigation e)"
  by (simp add: only_data_errors_def check_existing_investigation_def Let_def)

lemma only_data_completed [data_rules]: "only_data_errors (completed sha dump av t q obs p ids un rs ps)"
  by (auto simp: completed_def only_data_errors_def check_tool_result_def split: if_splits)

lemma only_data_failed [data_rules]: "only_data_errors (failed sha rt t q obs code rs)"
  by (simp add: failed_def Let_def data_rules)

lemma only_data_read_completed [data_rules]:
  "only_data_errors (read_completed hx ctx src tool args n av p ids un)"
  by (simp add: read_completed_def data_rules)

lemma only_data_store [data_rules]:
  "only_data_errors (get_authorized_order s oid)" "only_data_errors (issue_type_of v)"
  by (auto simp: only_data_errors_def get_authorized_order_def issue_type_of_def
      split: option.splits)

lemma only_data_rows [data_rules]:
  "only_data_errors (shipment_summary_rows s oid)" "only_data_errors (shipment_timelines s oid now)"
  "only_data_errors (get_active_investigations s oid issue target)"
  by (auto simp: shipment_summary_rows_def shipment_timelines_def get_active_investigations_def
      Let_def intro!: data_rules)

lemma only_data_if [data_rules]:
  "only_data_errors x \<Longrightarrow> only_data_errors y \<Longrightarrow> only_data_errors (if c then x else y)"
  by simp

lemma only_data_option [data_rules]:
  "only_data_errors x \<Longrightarrow> (\<And>z. only_data_errors (k z)) \<Longrightarrow>
     only_data_errors (case v of None \<Rightarrow> x | Some z \<Rightarrow> k z)"
  by (cases v) simp_all

lemma only_data_sum [data_rules]:
  "(\<And>a b. only_data_errors (f a b)) \<Longrightarrow> (\<And>z. only_data_errors (k z)) \<Longrightarrow>
     only_data_errors (case v of Inl (a, b) \<Rightarrow> f a b | Inr z \<Rightarrow> k z)"
  by (cases v) (simp_all split: prod.split)

lemma only_data_unknown_tool [data_rules]: "only_data_errors (Inl (KeyError tool))"
  by (simp add: only_data_errors_def)

lemma only_data_governed:
  assumes "catalog_authorize cat ctx oid = Inr g" and "only_data_errors rest"
  shows "only_data_errors (governed_read hx cat ctx tool oid args n rest)"
  using assms by (auto simp: governed_read_def fault_result_def intro: data_rules split: option.split)

lemma dispatch_data_errors:
  assumes "catalog_authorize cat ctx (arg_str args ''order_id'') = Inr g"
  shows "only_data_errors (dispatch hx cat ctx tool args n)"
  unfolding dispatch_def get_order_context_def get_logistics_timeline_def read_delivery_proof_def
    get_carrier_service_alerts_def search_after_sales_policy_def
    get_existing_logistics_tickets_def Let_def
  by (intro only_data_governed [OF assms] data_rules)

text \<open>Every result that is returned has passed the envelope's validation.\<close>

definition returns_valid :: "read_result result \<Rightarrow> bool" where
  "returns_valid x \<longleftrightarrow> (\<forall>r. x = Inr r \<longrightarrow> valid_result r)"

named_theorems valid_rules "results that are valid when returned"

lemma returns_valid_Inl [valid_rules]: "returns_valid (Inl e)"
  by (simp add: returns_valid_def)

lemma returns_valid_bind [valid_rules]:
  "(\<And>x. returns_valid (f x)) \<Longrightarrow> returns_valid (bindE r f)"
  by (cases r) (auto simp: returns_valid_def)

lemma returns_valid_completed [valid_rules]:
  "returns_valid (completed sha dump av t q obs p ids un rs ps)"
  by (auto simp: returns_valid_def dest: completed_valid)

lemma returns_valid_failed [valid_rules]: "returns_valid (failed sha rt t q obs code rs)"
  by (auto simp: returns_valid_def dest: failed_valid)

lemma returns_valid_read_completed [valid_rules]:
  "returns_valid (read_completed hx ctx src tool args n av p ids un)"
  by (simp add: read_completed_def valid_rules)

lemma returns_valid_if [valid_rules]:
  "returns_valid x \<Longrightarrow> returns_valid y \<Longrightarrow> returns_valid (if c then x else y)"
  by simp

lemma returns_valid_option [valid_rules]:
  "returns_valid x \<Longrightarrow> (\<And>z. returns_valid (k z)) \<Longrightarrow>
     returns_valid (case v of None \<Rightarrow> x | Some z \<Rightarrow> k z)"
  by (cases v) simp_all

lemma returns_valid_sum [valid_rules]:
  "(\<And>a b. returns_valid (f a b)) \<Longrightarrow> (\<And>z. returns_valid (k z)) \<Longrightarrow>
     returns_valid (case v of Inl (a, b) \<Rightarrow> f a b | Inr z \<Rightarrow> k z)"
  by (cases v) (simp_all split: prod.split)

lemma returns_valid_governed [valid_rules]:
  "returns_valid rest \<Longrightarrow> returns_valid (governed_read hx cat ctx tool oid args n rest)"
  by (auto simp: governed_read_def fault_result_def intro!: valid_rules split: option.split)

lemma dispatch_valid: "dispatch hx cat ctx tool args n = Inr r \<Longrightarrow> valid_result r"
proof -
  have "returns_valid (dispatch hx cat ctx tool args n)"
    unfolding dispatch_def get_order_context_def get_logistics_timeline_def read_delivery_proof_def
      get_carrier_service_alerts_def search_after_sales_policy_def
      get_existing_logistics_tickets_def Let_def
    by (intro valid_rules)
  then show "dispatch hx cat ctx tool args n = Inr r \<Longrightarrow> valid_result r"
    by (simp add: returns_valid_def)
qed

section \<open>The shape of a call\<close>

text \<open>Two catalogs that agree on who owns which order and on the source revisions; the records behind them
  may differ.\<close>

definition same_authority :: "hashing \<Rightarrow> read_catalog \<Rightarrow> read_catalog \<Rightarrow> bool" where
  "same_authority hx cat cat' \<longleftrightarrow>
     get_order_for_authorization (ct_store cat') = get_order_for_authorization (ct_store cat) \<and>
     catalog_source_revision hx cat' = catalog_source_revision hx cat"

text \<open>A call either leaves the executor as it was and is answered without the records of the source, or
  it is one metered source read.\<close>

lemma execute_cases:
  obtains (same) "snd (execute_result hx g tool args) = g"
      "\<And>cat'. same_authority hx (gx_catalog g) cat' \<Longrightarrow> execute_result hx (g\<lparr>gx_catalog := cat'\<rparr>) tool args =
         (fst (execute_result hx g tool args), g\<lparr>gx_catalog := cat'\<rparr>)"
  | (source_read) granted revision key b n c where
      "validate_arguments (gx_trusted g) tool args = None"
      "authorize_order (tc_customer_id (gx_trusted g)) (arg_str args ''order_id'')
         (get_order_for_authorization (ct_store (gx_catalog g))) = Inr granted"
      "catalog_source_revision hx (gx_catalog g) (ag_order_id granted) tool = Inr revision"
      "key = cache_key_for (gx_trusted g) tool args revision"
      "cache_get (gx_cache g) key = None"
      "\<not> retry_exhausted (gx_cache g) key"
      "record_actual_execution (gx_budget g) = Inr b"
      "record_actual_attempt (gx_cache g) key = (n, c)"
      "execute_result hx g tool args =
        (case dispatch hx (gx_catalog g) (gx_trusted g) tool args n of
           Inl e \<Rightarrow> (Inl e, g\<lparr>gx_budget := b, gx_cache := c\<rparr>)
         | Inr r \<Rightarrow> (Inr r, g\<lparr>gx_budget := b, gx_cache := projr (cache_store c key r)\<rparr>))"
proof (cases "validate_arguments (gx_trusted g) tool args")
  case (Some code)
  then show thesis by (intro same) (simp_all add: execute_result_def same_authority_def Let_def)
next
  case valid: None
  show thesis
  proof (cases rule: authorize_order_cases [of "tc_customer_id (gx_trusted g)"
        "arg_str args ''order_id''" "get_order_for_authorization (ct_store (gx_catalog g))"])
    case denied
    with valid show thesis by (intro same) (simp_all add: execute_result_def same_authority_def Let_def)
  next
    case (granted r)
    define gr where "gr = \<lparr>ag_customer_id = tc_customer_id (gx_trusted g),
      ag_order_id = ow_order_id r, ag_source_revision = ow_source_revision r\<rparr>"
    have auth: "authorize_order (tc_customer_id (gx_trusted g)) (arg_str args ''order_id'')
        (get_order_for_authorization (ct_store (gx_catalog g))) = Inr gr"
      using granted by (simp add: gr_def)
    show thesis
    proof (cases "catalog_source_revision hx (gx_catalog g) (ag_order_id gr) tool")
      case (Inl e)
      with valid auth show thesis by (intro same) (simp_all add: execute_result_def same_authority_def Let_def)
    next
      case rev: (Inr revision)
      define key where "key = cache_key_for (gx_trusted g) tool args revision"
      show thesis
      proof (cases "cache_get (gx_cache g) key = None \<and> \<not> retry_exhausted (gx_cache g) key")
        case False
        with valid auth rev show thesis
          by (intro same) (auto simp: execute_result_def same_authority_def Let_def key_def split: option.split)
      next
        case miss: True
        show thesis
        proof (cases "record_actual_execution (gx_budget g)")
          case (Inl e)
          then have "e = ToolBudgetExceeded ''READ_TOOL_EXECUTION_BUDGET_EXCEEDED''"
            by (simp add: record_actual_execution_def split: if_splits)
          with Inl valid auth rev miss show thesis
            by (intro same) (simp_all add: execute_result_def same_authority_def Let_def key_def)
        next
          case budget: (Inr b)
          obtain n c where attempt: "record_actual_attempt (gx_cache g) key = (n, c)"
            by (cases "record_actual_attempt (gx_cache g) key")
          have data: "\<And>e. dispatch hx (gx_catalog g) (gx_trusted g) tool args n = Inl e \<Longrightarrow> data_error e"
            using dispatch_data_errors [of "gx_catalog g" "gx_trusted g" args gr] auth
            by (auto simp: only_data_errors_def catalog_authorize_def)
          have store: "\<And>r. dispatch hx (gx_catalog g) (gx_trusted g) tool args n = Inr r \<Longrightarrow>
              \<exists>c'. cache_store c key r = Inr c'"
            by (rule case_cache.put_valid) (rule dispatch_valid)
          show thesis
          proof (rule source_read [OF valid auth rev key_def _ _ budget attempt])
            show "execute_result hx g tool args =
              (case dispatch hx (gx_catalog g) (gx_trusted g) tool args n of
                 Inl e \<Rightarrow> (Inl e, g\<lparr>gx_budget := b, gx_cache := c\<rparr>)
               | Inr r \<Rightarrow> (Inr r, g\<lparr>gx_budget := b, gx_cache := projr (cache_store c key r)\<rparr>))"
            proof (cases "dispatch hx (gx_catalog g) (gx_trusted g) tool args n")
              case (Inl e)
              with data [OF Inl] valid auth rev miss budget attempt show ?thesis
                by (cases e) (simp_all add: execute_result_def Let_def key_def)
            next
              case (Inr r)
              with store [OF Inr] valid auth rev miss budget attempt show ?thesis
                by (auto simp: execute_result_def Let_def key_def)
            qed
          qed (use miss in auto)
        qed
      qed
    qed
  qed
qed

lemma execute_frame:
  "gx_trusted (snd (execute_result hx g tool args)) = gx_trusted g \<and>
   gx_catalog (snd (execute_result hx g tool args)) = gx_catalog g"
  by (rule execute_cases [of hx g tool args]) (auto split: sum.split)

lemma record_attempt_get:
  "record_actual_attempt c k = (n, c') \<Longrightarrow> cache_get c' k' = cache_get c k'"
  using attempt_get [of c k k'] by simp

text \<open>A source read that returned: what was stored, and where.\<close>

lemma stored_result:
  assumes "cache_get c key = None" and "record_actual_attempt c key = (n, c1)"
    and "valid_result r" and "tr_execution_status r \<noteq> ES_RETRYABLE_ERROR"
  shows "cache_get (projr (cache_store c1 key r)) key = Some r"
proof -
  obtain c2 where c2: "cache_store c1 key r = Inr c2"
    using case_cache.put_valid [OF assms(3)] by blast
  moreover have "cache_get c1 key = None" using assms record_attempt_get by metis
  ultimately show ?thesis using case_cache.put_hit [OF _ c2 assms(4)] by simp
qed

lemma execute_hit:
  assumes "validate_arguments (gx_trusted g) tool args = None"
    and "authorize_order (tc_customer_id (gx_trusted g)) (arg_str args ''order_id'')
           (get_order_for_authorization (ct_store (gx_catalog g))) = Inr granted"
    and "catalog_source_revision hx (gx_catalog g) (ag_order_id granted) tool = Inr revision"
    and "cache_get (gx_cache g) (cache_key_for (gx_trusted g) tool args revision) = Some r"
  shows "execute_result hx g tool args = (Inr r, g)"
  using assms by (simp add: execute_result_def Let_def)

section \<open>Properties\<close>

text \<open>Repeating a governed call whose answer was not a retryable error returns the very same answer
  and changes nothing: no budget, no attempt and no source read is spent on it, whatever the arguments
  and whether the first call was served, blocked or denied.\<close>

theorem repeated_call_is_free:
  assumes "execute_result hx g tool args = (Inr r, g')"
    and "tr_execution_status r \<noteq> ES_RETRYABLE_ERROR"
  shows "execute_result hx g' tool args = (Inr r, g')"
proof (cases rule: execute_cases [of hx g tool args])
  case same
  with assms(1) have "g' = g" by simp
  with assms(1) show ?thesis by simp
next
  case (source_read granted revision key b n c)
  from source_read(9) assms(1) have
    r: "dispatch hx (gx_catalog g) (gx_trusted g) tool args n = Inr r" and
    g': "g' = g\<lparr>gx_budget := b, gx_cache := projr (cache_store c key r)\<rparr>"
    by (auto split: sum.splits)
  have "cache_get (gx_cache g') key = Some r"
    using stored_result [OF source_read(5,8) dispatch_valid [OF r] assms(2)] g' by simp
  then show ?thesis
    using source_read(1-4) g' by (intro execute_hit) auto
qed

definition sample_hashing :: hashing where
  "sample_hashing = \<lparr>hx_sha = (\<lambda>_. sample_digest), hx_dump_proof = (\<lambda>_. JNull),
                     hx_dump_payload = (\<lambda>_. JNull)\<rparr>"

definition sample_trusted :: trusted_context where
  "sample_trusted =
     \<lparr>tc_customer_id = ''alice'', tc_conversation_id = ''conv'', tc_case_id = ''case'',
      tc_run_id = ''run'', tc_authorized_order_id = ''O1'', tc_canonical_issue_type = STALLED_TRACKING,
      tc_fixture_version = ''v1'', tc_fault_seed = ''none'', tc_evaluated_at = Aware 100,
      tc_trace_id = ''t'', tc_target_shipment_id = None\<rparr>"

definition sample_executor :: "string \<Rightarrow> executor" where
  "sample_executor customer =
     \<lparr>gx_trusted = sample_trusted\<lparr>tc_customer_id := customer\<rparr>,
      gx_catalog = \<lparr>ct_store = sample_store, ct_policy_revision = ''p'',
                    ct_search = (\<lambda>_ _ _ _ _. Inl (True, ''DOWN''))\<rparr>,
      gx_cache = empty_cache,
      gx_budget = \<lparr>tb_case_planning_turns = 0, tb_run_planning_turns = 0,
                   tb_actual_read_tool_executions = 0\<rparr>\<rparr>"

lemmas sample_exec_defs = sample_hashing_def sample_trusted_def sample_executor_def sample_store_def
  fixture_store_init_def dict_of_def sample_fixture_order_def

text \<open>A read of the sample order succeeds and costs one execution.\<close>

lemma sample_read_succeeds:
  "case execute_result sample_hashing (sample_executor ''alice'') ''get_order_context'' (order_args ''O1'') of
     (Inr r, g') \<Rightarrow> tr_execution_status r = ES_SUCCESS \<and>
       tb_actual_read_tool_executions (gx_budget g') = 1
   | _ \<Rightarrow> False"
  by code_simp

theorem repeated_call_is_free_witness:
  "\<exists>r g'. execute_result sample_hashing (sample_executor ''alice'') ''get_order_context'' (order_args ''O1'') =
       (Inr r, g') \<and> tb_actual_read_tool_executions (gx_budget g') = 1 \<and>
     execute_result sample_hashing g' ''get_order_context'' (order_args ''O1'') = (Inr r, g')"
proof -
  obtain r g' where call: "execute_result sample_hashing (sample_executor ''alice'')
      ''get_order_context'' (order_args ''O1'') = (Inr r, g')"
    and ok: "tr_execution_status r = ES_SUCCESS" "tb_actual_read_tool_executions (gx_budget g') = 1"
    using sample_read_succeeds by (auto split: prod.splits sum.splits)
  with repeated_call_is_free [OF call] show ?thesis by auto
qed

text \<open>C25. Authorization does not disclose: on an order that the customer does not own in the store,
  whether it belongs to someone else or does not exist, every call of every tool is refused before the
  cache, the budget and the sources are consulted, with an answer that does not depend on the store.\<close>

theorem foreign_orders_are_invisible:
  assumes "owned_view (tc_customer_id (gx_trusted g)) (get_order_for_authorization (ct_store (gx_catalog g)))
      (tc_authorized_order_id (gx_trusted g)) = None"
  shows "execute_result hx g tool args =
    (blocked_result hx (gx_trusted g) tool
       (case validate_arguments (gx_trusted g) tool args of
          Some code \<Rightarrow> code | None \<Rightarrow> order_not_found_or_forbidden), g)"
proof (cases "validate_arguments (gx_trusted g) tool args")
  case (Some code)
  then show ?thesis by (simp add: execute_result_def Let_def)
next
  case None
  then have "arg_str args ''order_id'' = tc_authorized_order_id (gx_trusted g)"
    by (auto simp: validate_arguments_def arg_str_def split: if_splits)
  with assms have "authorize_order (tc_customer_id (gx_trusted g)) (arg_str args ''order_id'')
      (get_order_for_authorization (ct_store (gx_catalog g))) =
      Inl (AuthorizationError order_not_found_or_forbidden)"
    by (auto simp: owned_view_def authorize_order_def split: option.splits if_splits)
  with None show ?thesis by (simp add: execute_result_def Let_def)
qed

theorem foreign_orders_are_invisible_witness:
  "execute_result sample_hashing (sample_executor ''mallory'') ''get_order_context'' (order_args ''O1'') =
     (blocked_result sample_hashing (gx_trusted (sample_executor ''mallory'')) ''get_order_context''
        ''ORDER_NOT_FOUND_OR_FORBIDDEN'', sample_executor ''mallory'')"
proof -
  have "validate_arguments (gx_trusted (sample_executor ''mallory'')) ''get_order_context''
      (order_args ''O1'') = None"
    by (simp add: validate_arguments_def read_tool_names_def issue_tools_def order_args_def
        issue_restricted_tool_def sample_executor_def sample_trusted_def)
  with foreign_orders_are_invisible [of "sample_executor ''mallory''" sample_hashing
      "''get_order_context''" "order_args ''O1''"]
  show ?thesis
    by (simp add: owned_view_def get_order_for_authorization_def ownership_of_def
        order_not_found_or_forbidden_def sample_executor_def sample_trusted_def
        sample_fixture_order_def)
qed

section \<open>Metering\<close>

text \<open>A conversation of calls on one executor; it stops at the first exception.\<close>

fun execute_all :: "hashing \<Rightarrow> executor \<Rightarrow> (string \<times> arguments) list \<Rightarrow> executor result" where
  "execute_all hx g [] = Inr g"
| "execute_all hx g ((tool, args) # calls) =
    (case execute_result hx g tool args of
       (Inl e, _) \<Rightarrow> Inl e
     | (Inr _, g') \<Rightarrow> execute_all hx g' calls)"

definition metered :: "executor \<Rightarrow> bool" where
  "metered g \<longleftrightarrow> wf_budget (gx_budget g) \<and>
    (\<forall>k. cache_actual_attempts (gx_cache g) k \<le> 2 \<and>
      (cache_actual_attempts (gx_cache g) k = 0 \<or> cache_get (gx_cache g) k \<noteq> None \<or>
       k \<in> set (cc_last_result_retryable (gx_cache g))))"

lemma metered_attempts:
  "metered g \<Longrightarrow> cache_actual_attempts (gx_cache g) k \<le> 2 \<and>
     (cache_actual_attempts (gx_cache g) k = 0 \<or> cache_get (gx_cache g) k \<noteq> None \<or>
      k \<in> set (cc_last_result_retryable (gx_cache g)))"
  by (simp add: metered_def)

lemma cache_attempts_store:
  "cache_store c k r = Inr c' \<Longrightarrow> cache_actual_attempts c' k' = cache_actual_attempts c k'"
  by (auto simp: cache_store_def cache_actual_attempts_def split: if_splits)

lemma record_attempt_attempts:
  "record_actual_attempt c k = (n, c') \<Longrightarrow>
     cache_actual_attempts c' k' = (if k' = k then cache_actual_attempts c k + 1 else cache_actual_attempts c k')"
  by (auto simp: record_actual_attempt_def cache_actual_attempts_def Let_def update_conv')

lemma record_attempt_retryable:
  "record_actual_attempt c k = (n, c') \<Longrightarrow> cc_last_result_retryable c' = cc_last_result_retryable c"
  by (auto simp: record_actual_attempt_def Let_def)

lemma cache_store_retryable:
  "cache_store c k r = Inr c' \<Longrightarrow>
     set (cc_last_result_retryable c') =
       (if tr_execution_status r = ES_RETRYABLE_ERROR then insert k (set (cc_last_result_retryable c))
        else set (cc_last_result_retryable c) - {k})"
  by (cases "tr_execution_status r") (auto simp: cache_store_def split: if_splits)

lemma metered_step:
  assumes "metered g" and call: "execute_result hx g tool args = (Inr r, g')"
  shows "metered g'"
proof (cases rule: execute_cases [of hx g tool args])
  case same
  with assms show ?thesis by simp
next
  case (source_read granted revision key b n c)
  from source_read(9) call have
    r: "dispatch hx (gx_catalog g) (gx_trusted g) tool args n = Inr r" and
    g': "g' = g\<lparr>gx_budget := b, gx_cache := projr (cache_store c key r)\<rparr>"
    by (auto split: sum.splits)
  obtain c' where c': "cache_store c key r = Inr c'"
    using case_cache.put_valid [OF dispatch_valid [OF r]] by blast
  have budget: "wf_budget b"
    using assms(1) wf_budget_step [of "gx_budget g" BO_Execute b] source_read(7)
    by (simp add: metered_def)
  note old = metered_attempts [OF assms(1)]
  have fewer: "cache_actual_attempts (gx_cache g) key < 2"
    using old [of key] source_read(5,6) by (auto simp: retry_exhausted_def)
  have "cache_actual_attempts c' k \<le> 2 \<and> (cache_actual_attempts c' k = 0 \<or> cache_get c' k \<noteq> None \<or>
       k \<in> set (cc_last_result_retryable c'))" for k
  proof (cases "k = key")
    case True
    have "tr_execution_status r \<noteq> ES_RETRYABLE_ERROR \<Longrightarrow> cache_get c' key = Some r"
      using stored_result [OF source_read(5,8) dispatch_valid [OF r]] c' by simp
    then show ?thesis
      using True fewer cache_attempts_store [OF c'] record_attempt_attempts [OF source_read(8)]
        cache_store_retryable [OF c'] by auto
  next
    case False
    then have "cache_get c' k = cache_get (gx_cache g) k"
      using case_cache.put_other [OF c'] record_attempt_get [OF source_read(8)] by metis
    then show ?thesis
      using False old [of k] cache_attempts_store [OF c'] record_attempt_attempts [OF source_read(8)]
        cache_store_retryable [OF c'] record_attempt_retryable [OF source_read(8)] by auto
  qed
  with budget g' c' show ?thesis by (simp add: metered_def)
qed

lemma metered_all: "execute_all hx g calls = Inr g' \<Longrightarrow> metered g \<Longrightarrow> metered g'"
proof (induction hx g calls rule: execute_all.induct)
  case (2 hx g tool args calls)
  then show ?case by (auto split: prod.splits sum.splits dest: metered_step)
qed simp

lemma record_execution_counts:
  "record_actual_execution b = Inr b' \<Longrightarrow> wf_budget b \<Longrightarrow>
     tb_actual_read_tool_executions b' = tb_actual_read_tool_executions b + 1 \<and>
     tb_actual_read_tool_executions b' \<le> 6"
  by (auto simp: record_actual_execution_def wf_budget_def budget_limits split: if_splits)

lemma record_attempt_number:
  "record_actual_attempt c k = (n, c') \<Longrightarrow> n = cache_actual_attempts c k + 1"
  by (auto simp: record_actual_attempt_def Let_def)

lemma source_call:
  assumes "record_actual_attempt (gx_cache g) key = (n, c)"
    and "execute_result hx g tool args =
      (case dispatch hx (gx_catalog g) (gx_trusted g) tool args n of
         Inl e \<Rightarrow> (Inl e, g\<lparr>gx_budget := b, gx_cache := c\<rparr>)
       | Inr r \<Rightarrow> (Inr r, g\<lparr>gx_budget := b, gx_cache := projr (cache_store c key r)\<rparr>))"
    and "execute_result hx g tool args = (r, g')"
  shows "r = dispatch hx (gx_catalog g) (gx_trusted g) tool args n \<and> gx_budget g' = b \<and>
    cache_actual_attempts (gx_cache g') key = cache_actual_attempts (gx_cache g) key + 1"
proof (cases "dispatch hx (gx_catalog g) (gx_trusted g) tool args n")
  case (Inl e)
  with assms show ?thesis using record_attempt_attempts [OF assms(1)] by simp
next
  case (Inr a)
  obtain c' where "cache_store c key a = Inr c'"
    using case_cache.put_valid [OF dispatch_valid [OF Inr]] by blast
  with Inr assms show ?thesis
    using record_attempt_attempts [OF assms(1)] cache_attempts_store [of c key a c'] by simp
qed

text \<open>C26. On an executor that has served any calls of its Case from an empty cache and a well-formed
  budget, the next call is free or metered.  A free call changes nothing, and its answer does not depend
  on the source: it is the same over any catalog that agrees on who owns which order and on the source
  revisions.  A metered call adds one to the executions, which stay within six, and one to the attempts
  of its own query, which had no cached answer and stay within two, and its answer is the source's for
  that attempt.\<close>

theorem reads_are_metered:
  assumes "executor_init trusted cat empty_cache b = Inr g0" and "wf_budget b"
    and "execute_all hx g0 calls = Inr g" and "execute_result hx g tool args = (r, g')"
    and "same_authority hx (gx_catalog g) cat'"
  shows "(g' = g \<and> execute_result hx (g\<lparr>gx_catalog := cat'\<rparr>) tool args = (r, g\<lparr>gx_catalog := cat'\<rparr>)) \<or>
    (tb_actual_read_tool_executions (gx_budget g') = tb_actual_read_tool_executions (gx_budget g) + 1 \<and>
     tb_actual_read_tool_executions (gx_budget g') \<le> 6 \<and>
     (\<exists>k. ck_tool_name k = tool \<and> ck_normalized_args k = normalize_tool_arguments args \<and>
        cache_get (gx_cache g) k = None \<and>
        cache_actual_attempts (gx_cache g') k = cache_actual_attempts (gx_cache g) k + 1 \<and>
        cache_actual_attempts (gx_cache g') k \<le> 2 \<and>
        r = dispatch hx (gx_catalog g) (gx_trusted g) tool args (cache_actual_attempts (gx_cache g') k)))"
proof -
  have "metered g0"
    using assms(1,2)
    by (auto simp: executor_init_def metered_def cache_actual_attempts_def empty_cache_def
        split: if_splits)
  then have "metered g" by (rule metered_all [OF assms(3)])
  show ?thesis
  proof (cases rule: execute_cases [of hx g tool args])
    case same
    from same(1) same(2) [OF assms(5)] assms(4) show ?thesis by simp
  next
    case (source_read granted revision key b' n c)
    have n: "n = cache_actual_attempts (gx_cache g) key + 1"
      by (rule record_attempt_number [OF source_read(8)])
    have counts: "tb_actual_read_tool_executions b' = tb_actual_read_tool_executions (gx_budget g) + 1 \<and>
        tb_actual_read_tool_executions b' \<le> 6"
      using record_execution_counts [OF source_read(7)] \<open>metered g\<close> by (simp add: metered_def)
    have fewer: "cache_actual_attempts (gx_cache g) key < 2"
      using metered_attempts [OF \<open>metered g\<close>, of key] source_read(5,6)
      by (auto simp: retry_exhausted_def)
    have g': "gx_budget g' = b'" "cache_actual_attempts (gx_cache g') key = n"
      "r = dispatch hx (gx_catalog g) (gx_trusted g) tool args n"
      using source_call [OF source_read(8,9) assms(4)] n by simp_all
    show ?thesis
      using counts g' n fewer source_read(4,5)
      by (intro disjI2 conjI exI [of _ key]) (simp_all add: cache_key_for_def)
  qed
qed

text \<open>Of three searches that stay down two reach the source; the third and every later one are refused,
  also when the source would answer by then.\<close>

definition sample_searches :: "(string \<times> arguments) list" where
  "sample_searches =
     replicate 3 (''search_after_sales_policy'', issue_args ''O1'' STALLED_TRACKING)"

lemma sample_executor_init:
  "executor_init (gx_trusted (sample_executor c)) (gx_catalog (sample_executor c)) empty_cache
     (gx_budget (sample_executor c)) = Inr (sample_executor c)"
  by (simp add: executor_init_def sample_exec_defs)

lemma sample_executor_budget: "wf_budget (gx_budget (sample_executor c))"
  by (simp add: wf_budget_def budget_limits sample_executor_def)

definition other_source :: read_catalog where
  "other_source = (gx_catalog (sample_executor ''alice''))\<lparr>ct_search := \<lambda>_ _ _ _ _. Inl (False, ''GONE'')\<rparr>"

lemma sample_searches_third:
  "case execute_all sample_hashing (sample_executor ''alice'') sample_searches of
     Inr g \<Rightarrow> tb_actual_read_tool_executions (gx_budget g) = 2 \<and>
       tb_actual_read_tool_executions (gx_budget
         (snd (execute_result sample_hashing g ''search_after_sales_policy''
            (issue_args ''O1'' STALLED_TRACKING)))) = 2
   | Inl _ \<Rightarrow> False"
  by code_simp

lemma catalog_all:
  "execute_all hx g calls = Inr g' \<Longrightarrow> gx_catalog g' = gx_catalog g"
proof (induction hx g calls rule: execute_all.induct)
  case (2 hx g tool args calls)
  then show ?case
    using execute_frame [of hx g tool args] by (auto split: prod.splits sum.splits)
qed simp

theorem reads_are_metered_witness:
  "\<exists>g r. execute_all sample_hashing (sample_executor ''alice'') sample_searches = Inr g \<and>
     execute_result sample_hashing g ''search_after_sales_policy'' (issue_args ''O1'' STALLED_TRACKING) = (r, g) \<and>
     execute_result sample_hashing (g\<lparr>gx_catalog := other_source\<rparr>) ''search_after_sales_policy''
       (issue_args ''O1'' STALLED_TRACKING) = (r, g\<lparr>gx_catalog := other_source\<rparr>)"
proof -
  obtain g where g: "execute_all sample_hashing (sample_executor ''alice'') sample_searches = Inr g"
    and two: "tb_actual_read_tool_executions (gx_budget (snd (execute_result sample_hashing g
      ''search_after_sales_policy'' (issue_args ''O1'' STALLED_TRACKING)))) =
      tb_actual_read_tool_executions (gx_budget g)"
    using sample_searches_third by (auto split: sum.splits)
  obtain r g' where call: "execute_result sample_hashing g ''search_after_sales_policy''
      (issue_args ''O1'' STALLED_TRACKING) = (r, g')" by (cases "execute_result sample_hashing g
      ''search_after_sales_policy'' (issue_args ''O1'' STALLED_TRACKING)")
  have "same_authority sample_hashing (gx_catalog g) other_source"
    by (simp add: catalog_all [OF g] same_authority_def other_source_def sample_executor_def
        catalog_source_revision_def fun_eq_iff)
  from reads_are_metered [OF sample_executor_init sample_executor_budget g call this] two call g
  show ?thesis by auto
qed

end
