(* ===== verification/Investigations.thy ===== *)
theory Investigations
  imports Confirmation Routing GovernedTools
begin

text \<open>
  What becomes of an investigation: \<open>_load_case_cache\<close>, \<open>_apply_investigation_result\<close>,
  \<open>_revise_issue_and_continue_investigation\<close>, \<open>_close_after_investigation\<close> and their helpers in
  \<open>application/service.py\<close>.

  \<^item> \<open>services\<close> holds what the handlers call and the development does not define: the coordinator
    \<open>investigate\<close> and the live triage, which ask a language model, the parsing of untrusted candidates and the
    Unicode tables, with the settings of the handlers.
  \<^item> The cache of a case is shared with the coordinator; it lives in \<open>sv_caches\<close> under the case.
  \<^item> \<open>_iso\<close> is applied to aware times only.  An executed tool call has a string as its \<open>order_id\<close>, any other
    value is read as absent.
\<close>

section \<open>Times as text\<close>

fun padded :: "nat \<Rightarrow> int \<Rightarrow> string" where
  "padded 0 n = []"
| "padded (Suc k) n = padded k (n div 10) @ [char_of (48 + nat (n mod 10))]"

text \<open>The civil date of a day counted from 1970-01-01, in years that begin in March.\<close>

definition civil_date :: "int \<Rightarrow> int \<times> int \<times> int" where
  "civil_date days =
    (let z = days + 719468;
         era = z div 146097;
         doe = z mod 146097;
         yoe = (doe - doe div 1460 + doe div 36524 - doe div 146096) div 365;
         doy = doe - (365 * yoe + yoe div 4 - yoe div 100);
         mp = (5 * doy + 2) div 153;
         m = (if mp < 10 then mp + 3 else mp - 9)
     in (yoe + era * 400 + (if m \<le> 2 then 1 else 0), m, doy - (153 * mp + 2) div 5 + 1))"

definition iso_date :: "int \<Rightarrow> string" where
  "iso_date days = (case civil_date days of (y, m, d) \<Rightarrow> padded 4 y @ ''-'' @ padded 2 m @ ''-'' @ padded 2 d)"

definition iso_clock :: "int \<Rightarrow> string" where
  "iso_clock us =
    (let s = us div 1000000
     in padded 2 (s div 3600) @ '':'' @ padded 2 (s div 60 mod 60) @ '':'' @ padded 2 (s mod 60) @
        (if us mod 1000000 = 0 then [] else ''.'' @ padded 6 (us mod 1000000)))"

definition iso :: "datetime \<Rightarrow> string" where
  "iso t = iso_date (instant t div 86400000000) @ ''T'' @ iso_clock (instant t mod 86400000000) @ ''Z''"

definition iso_or :: "utext \<Rightarrow> datetime option \<Rightarrow> utext" where
  "iso_or otherwise t = (case t of None \<Rightarrow> otherwise | Some x \<Rightarrow> text_of (iso x))"

section \<open>Details of the evidence for the reply\<close>

definition case_detail_text ::
  "string \<Rightarrow> datetime \<Rightarrow> datetime \<Rightarrow> datetime option \<Rightarrow> string option \<Rightarrow> utext" where
  "case_detail_text stage opened_at updated_at next_update_at target =
    [24403, 21069, 38454, 27573, 65306] @ text_of stage @ [65307, 24320, 22987, 22788, 29702, 26102, 38388, 65306] @ text_of (iso opened_at) @
    [65307, 26368, 36817, 26356, 26032, 26102, 38388, 65306] @ text_of (iso updated_at) @ [65307, 19979, 19968, 27425, 39044, 35745, 26356, 26032, 26102, 38388, 65306] @
    iso_or [24453, 23450] next_update_at @ [65307, 30446, 26631, 21253, 35065, 65306] @
    (if truthy target then text_of (the target) else [25972, 21333]) @ [12290]"

definition existing_case_detail :: "read_result option \<Rightarrow> utext option" where
  "existing_case_detail result =
    (case result of
       None \<Rightarrow> None
     | Some r \<Rightarrow>
        (case retype tickets_view r of
           Inl _ \<Rightarrow> None
         | Inr typed \<Rightarrow>
            (case tr_payload typed of
               None \<Rightarrow> None
             | Some p \<Rightarrow>
                (case (et_existing_investigations p, et_active_tickets p) of
                   (i # _, _) \<Rightarrow> Some (case_detail_text (ei_stage i) (opt_or (ei_opened_at i) (ei_updated_at i))
                     (opt_or (ei_last_updated_at i) (ei_updated_at i)) (ei_next_update_at i) (ei_target_shipment_id i))
                 | ([], t # _) \<Rightarrow> Some (case_detail_text
                     (str_or (lg_stage t) (str_or (lg_status t) (lg_ticket_status t)))
                     (opt_or (lg_opened_at t) (lg_created_at t)) (opt_or (lg_last_updated_at t) (lg_created_at t))
                     (lg_next_update_at t) (lg_target_shipment_id t))
                 | ([], []) \<Rightarrow> None))))"

fun alert_status_value :: "alert_status \<Rightarrow> string" where
  "alert_status_value Alert_Active = ''active''"
| "alert_status_value Alert_Resolved = ''resolved''"

definition carrier_alert_detail :: "read_result option \<Rightarrow> utext option" where
  "carrier_alert_detail result =
    (case result of
       None \<Rightarrow> None
     | Some r \<Rightarrow>
        (case retype alerts_view r of
           Inl _ \<Rightarrow> None
         | Inr typed \<Rightarrow>
            (case tr_payload typed of
               None \<Rightarrow> None
             | Some p \<Rightarrow>
                (case filter (\<lambda>a. alert_active_at a (tr_observed_at typed)) (cap_alerts p) of
                   [] \<Rightarrow> None
                 | a # _ \<Rightarrow> Some ([25215, 36816, 21830] @ text_of (ca_impact_area a) @ [33539, 22260, 24403, 21069, 23384, 22312, 36816, 36755, 24322, 24120, 65288] @
                     text_of (alert_status_value (ca_status a)) @ [65289, 65292, 39044, 35745, 24674, 22797, 65306] @
                     iso_or [24453, 23450] (ca_expected_recovery_at a) @ [12290])))))"

section \<open>The services a handler calls\<close>

record investigation_args =
  nv_trusted :: trusted_context
  nv_customer_message :: utext
  nv_case_planning_turns :: int
  nv_run_planning_turns :: int
  nv_case_read_executions :: int
  nv_investigation_pass :: int
  nv_customer_still_reports_missing :: bool
  nv_reception_locations_checked :: bool
  nv_delivery_location_conflict :: bool
  nv_case_fact_snapshot :: fact_snapshot

definition investigation_call :: "trusted_context \<Rightarrow> utext \<Rightarrow> fact_snapshot \<Rightarrow> investigation_args" where
  "investigation_call trusted message facts =
     \<lparr>nv_trusted = trusted, nv_customer_message = message, nv_case_planning_turns = 0, nv_run_planning_turns = 0,
      nv_case_read_executions = 0, nv_investigation_pass = 0, nv_customer_still_reports_missing = True,
      nv_reception_locations_checked = False, nv_delivery_location_conflict = False,
      nv_case_fact_snapshot = facts\<rparr>"

record investigation_output =
  io_gate_result :: gate_result
  io_evidence_refs :: "evidence_ref list"
  io_tool_results :: "(string \<times> read_result) list"
  io_planning_turns :: int
  io_case_planning_turns :: int
  io_run_read_tool_executions :: int
  io_actual_read_tool_executions :: int
  io_budget_exhausted :: bool
  io_strategy :: string

record services =
  sc_investigate :: "investigation_args \<Rightarrow> investigation_output app"
  sc_parse_candidate :: "json \<Rightarrow> fact_candidate result"
  sc_live_triage :: "utext \<Rightarrow> app_state \<Rightarrow> triage_result result"
  sc_word :: "nat \<Rightarrow> bool"
  sc_digit :: "nat \<Rightarrow> bool"
  sc_llm_mode :: string
  sc_max_message_chars :: nat
  sc_max_business_clarifications :: int

section \<open>Facts and caches\<close>

definition load_facts :: "app_env \<Rightarrow> string \<Rightarrow> fact_snapshot app" where
  "load_facts env case_id =
     bindA (utc_now env) (\<lambda>t. read_db (\<lambda>d. load_snapshot (ae_sha env) (ae_sha_text env) d t case_id True))"

text \<open>An operation of the fact service with the readings of the clock that it may take.\<close>

definition clocked :: "app_env \<Rightarrow> nat \<Rightarrow> ((nat \<Rightarrow> datetime) \<Rightarrow> database \<Rightarrow> ('a \<times> database) result) \<Rightarrow> 'a app" where
  "clocked env k f s = on_db (f (\<lambda>i. ae_clock env (sv_tick s + i))) (s\<lparr>sv_tick := sv_tick s + k\<rparr>)"

definition refresh_facts :: "app_env \<Rightarrow> string \<Rightarrow> fact_snapshot app" where
  "refresh_facts env case_id =
     clocked env 1 (\<lambda>t d. refresh_snapshot (ae_sha env) (ae_sha_text env) t d case_id)"

definition call_order_id :: "tool_call_row \<Rightarrow> string" where
  "call_order_id row = (case jget (tcr_normalized_args row) ''order_id'' of Some (JStr s) \<Rightarrow> s | _ \<Rightarrow> [])"

definition call_key :: "string \<Rightarrow> tool_call_row \<Rightarrow> string \<Rightarrow> cache_key" where
  "call_key case_id row revision =
     \<lparr>ck_case_id = case_id, ck_tool_name = tcr_tool_name row,
      ck_normalized_args = normal_json (tcr_normalized_args row), ck_source_revision = revision\<rparr>"

fun load_rows ::
  "app_env \<Rightarrow> fixture_store \<Rightarrow> string \<Rightarrow> tool_call_row list \<Rightarrow> read_payload case_tool_cache \<Rightarrow>
   read_payload case_tool_cache result" where
  "load_rows env fx case_id [] cache = Inr cache"
| "load_rows env fx case_id (row # rows) cache =
    (case (tcr_result_envelope row, tcr_source_version row) of
       (Some result, Some version) \<Rightarrow>
         if \<not> tcr_actual_execution row \<or> call_order_id row = [] then load_rows env fx case_id rows cache
         else bindE (current_source_revision env fx (call_order_id row) (tcr_tool_name row)) (\<lambda>current.
           let key = call_key case_id row current;
               counted = snd (record_actual_attempt cache key)
           in if version \<noteq> current then load_rows env fx case_id rows counted
              else bindE (check_tool_result result) (\<lambda>r.
                   bindE (cache_store counted key (reloaded r)) (load_rows env fx case_id rows)))
     | _ \<Rightarrow> load_rows env fx case_id rows cache)"

definition load_case_cache :: "app_env \<Rightarrow> database \<Rightarrow> fixture_store \<Rightarrow> string \<Rightarrow> read_payload case_tool_cache result" where
  "load_case_cache env d fx case_id = load_rows env fx case_id (list_tool_calls d (Some case_id) None) empty_cache"

definition with_case_cache :: "app_env \<Rightarrow> string \<Rightarrow> unit app" where
  "with_case_cache env case_id s =
    (case map_of (sv_caches s) case_id of
       Some _ \<Rightarrow> (Inr (), s)
     | None \<Rightarrow>
        (case load_case_cache env (sv_db s) (sv_fixtures s) case_id of
           Inl e \<Rightarrow> (Inl e, s)
         | Inr cache \<Rightarrow> (Inr (), s\<lparr>sv_caches := AList.update case_id cache (sv_caches s)\<rparr>)))"

section \<open>Calling the coordinator\<close>

definition trusted_scope :: "app_env \<Rightarrow> investigation_case \<Rightarrow> string \<Rightarrow> string \<Rightarrow> trusted_context app" where
  "trusted_scope env c run_id trace_id =
    readA (\<lambda>s. check_trusted_context
      \<lparr>tc_customer_id = ic_customer_id c, tc_conversation_id = ic_conversation_id c, tc_case_id = ic_case_id c,
       tc_run_id = run_id, tc_authorized_order_id = ic_authorized_order_id c,
       tc_canonical_issue_type = ic_canonical_issue_type c,
       tc_fixture_version = fs_fixture_version (sv_fixtures s), tc_fault_seed = ae_fault_seed env,
       tc_evaluated_at = ae_evaluated_at env, tc_trace_id = trace_id,
       tc_target_shipment_id = ic_target_shipment_id c\<rparr>)"

definition usage :: "int \<Rightarrow> int \<Rightarrow> case_update \<Rightarrow> case_update" where
  "usage reads turns u = u\<lparr>cu_actual_read_tool_execution_count := Some reads,
     cu_agent_planning_turn_count := Some turns\<rparr>"

text \<open>What every caller does when the coordinator raises; \<open>merge\<close> combines the counters of the case with those of
  the run.\<close>

definition investigation_failed ::
  "app_env \<Rightarrow> string \<Rightarrow> string \<Rightarrow> string \<Rightarrow> string \<Rightarrow> string \<Rightarrow> (int \<Rightarrow> int \<Rightarrow> int) \<Rightarrow> 'a app" where
  "investigation_failed env case_id conversation_id run_id failure_code summary merge =
    bindA (observed_run_usage conversation_id run_id) (\<lambda>(turns, reads).
    thenA (transaction (move_case env case_id (\<lambda>c. usage
        (min (ae_max_case_reads env) (merge (icr_actual_read_tool_execution_count c) reads))
        (min (ae_max_case_turns env) (merge (icr_agent_planning_turn_count c) turns)) (to_state CS_AWAITING_RETRY))))
    (thenA (fail_run env conversation_id run_id failure_code ''run_failed'' summary (Some case_id) True
        (Some turns) (Some reads))
      (raiseA (ApplicationError ''INVESTIGATION_RUNTIME_FAILURE'' 503))))"

definition investigate_or_fail ::
  "app_env \<Rightarrow> services \<Rightarrow> fact_snapshot app \<Rightarrow> (fact_snapshot \<Rightarrow> investigation_args) \<Rightarrow> string \<Rightarrow> string \<Rightarrow> string \<Rightarrow>
   string \<Rightarrow> string \<Rightarrow> (int \<Rightarrow> int \<Rightarrow> int) \<Rightarrow> investigation_output app" where
  "investigate_or_fail env sc facts args case_id conversation_id run_id failure_code summary merge =
    catchA (bindA facts (\<lambda>f. sc_investigate sc (args f)))
      (\<lambda>_. investigation_failed env case_id conversation_id run_id failure_code summary merge)"

section \<open>Closing\<close>

definition finish_run :: "app_env \<Rightarrow> string \<Rightarrow> investigation_output \<Rightarrow> run_row app" where
  "finish_run env run_id output = repo env (\<lambda>t d. update_run d t run_id ''succeeded'' (Some (io_planning_turns output))
     (Some (io_run_read_tool_executions output)) None None)"

definition output_usage :: "investigation_output \<Rightarrow> case_update \<Rightarrow> case_update" where
  "output_usage output = usage (io_actual_read_tool_executions output) (io_case_planning_turns output)"

text \<open>The transaction that ends a run of the case \<open>c\<close>: the case, the message and the run.\<close>

definition settle_rows ::
  "app_env \<Rightarrow> investigation_case \<Rightarrow> string \<Rightarrow> investigation_output \<Rightarrow> (case_row \<Rightarrow> case_update) \<Rightarrow> utext \<Rightarrow> run_row app" where
  "settle_rows env c run_id output update reply =
    thenA (move_case env (ic_case_id c) (\<lambda>row. output_usage output (update row)))
      (thenA (say env (ic_conversation_id c) (Some (ic_case_id c)) run_id reply)
        (finish_run env run_id output))"

definition settle_case ::
  "app_env \<Rightarrow> investigation_case \<Rightarrow> string \<Rightarrow> investigation_output \<Rightarrow> (case_row \<Rightarrow> case_update) \<Rightarrow> utext \<Rightarrow> run_row app" where
  "settle_case env c run_id output update reply = transaction (settle_rows env c run_id output update reply)"

definition close_after_investigation ::
  "app_env \<Rightarrow> investigation_case \<Rightarrow> string \<Rightarrow> investigation_output \<Rightarrow> case_outcome \<Rightarrow> string \<Rightarrow> utext \<Rightarrow> unit app" where
  "close_after_investigation env c run_id output outcome reason reply =
    (let disposition = project_customer_disposition None None (Some (case_outcome_value outcome)) None None (Some reason)
     in thenA (settle_case env c run_id output (\<lambda>_. closing outcome reason) reply)
       (thenA (emit_reply_and_success env (ic_conversation_id c) run_id reply (Some (ic_case_id c))
           ''investigation_result'' None disposition)
         (emit env (ic_conversation_id c) (Some (ic_case_id c)) (Some run_id) ''case_closed'' ''both''
           (text_of ''Investigation closed'') (case_closed_payload (Some outcome) (Some reason) disposition))))"

definition clarification_limit_reply :: utext where
  "clarification_limit_reply =
     [36825, 27425, 29289, 27969, 26680, 26597, 24050, 32463, 36798, 21040, 21487,
      36861, 38382, 27425, 25968, 19978, 38480, 65292, 20026, 36991, 20813, 22522,
      20110, 19981, 23436, 25972, 20449, 24687, 32487, 32493, 33258, 21160, 21028,
      26029, 65292, 35831, 32852, 31995, 20154, 24037, 25903, 25345, 12290]"

definition question_exhausted_reply :: utext where
  "question_exhausted_reply =
     [29616, 26377, 28548, 28165, 20449, 24687, 20173, 19981, 30830, 23450, 25110,
      20114, 30456, 20914, 31361, 65292, 20026, 36991, 20813, 37325, 22797, 36861,
      38382, 21644, 38169, 35823, 21028, 26029, 65292, 35831, 32852, 31995, 20154,
      24037, 25903, 25345, 12290]"

definition revision_reply :: utext where
  "revision_reply = [35746, 21333, 29366, 24577, 19982, 26368, 21021, 25551, 36848, 19981, 19968,
                     33268, 65292, 35831, 37325, 26032, 36873, 25321, 23545, 24212, 30340, 29289,
                     27969, 24322, 24120, 31867, 22411, 12290]"

section \<open>Proposing\<close>

fun each_app :: "('a \<Rightarrow> 'b app) \<Rightarrow> 'a list \<Rightarrow> unit app" where
  "each_app f [] = returnA ()"
| "each_app f (x # xs) = thenA (f x) (each_app f xs)"

definition next_version :: "proposal_row list \<Rightarrow> int" where
  "next_version prior = (if prior = [] then 0 else Max (set (map apr_version prior))) + 1"

definition pending_ids :: "proposal_row list \<Rightarrow> string list" where
  "pending_ids prior = map apr_proposal_id (filter (\<lambda>p. apr_proposal_state p = ''pending_confirmation'') prior)"

definition proposal_args_of ::
  "investigation_case \<Rightarrow> investigation_output \<Rightarrow> gate_result \<Rightarrow> json \<Rightarrow> fact_snapshot option \<Rightarrow> string \<Rightarrow> int \<Rightarrow> datetime \<Rightarrow>
   proposal_args" where
  "proposal_args_of c output gate binding facts proposal_id version now =
     \<lparr>pa_proposal_id = proposal_id, pa_case_id = ic_case_id c, pa_version = version,
      pa_order_id = ic_authorized_order_id c, pa_issue_type = ic_canonical_issue_type c,
      pa_evidence_refs = io_evidence_refs output, pa_critical_result_hashes = gr_critical_result_hashes gate,
      pa_policy_binding = binding, pa_target_shipment_id = ic_target_shipment_id c,
      pa_case_fact_identity = Some (case facts of None \<Rightarrow> JObj [] | Some f \<Rightarrow> material_identity f), pa_now = now\<rparr>"

definition store_proposal ::
  "app_env \<Rightarrow> investigation_case \<Rightarrow> string \<Rightarrow> investigation_output \<Rightarrow> action_proposal \<Rightarrow> string list \<Rightarrow> utext \<Rightarrow>
   datetime \<Rightarrow> run_row app" where
  "store_proposal env c run_id output p superseded reply now =
    transaction
      (thenA (read_db (\<lambda>d. require_case d (ic_case_id c)))
      (thenA (each_app (\<lambda>previous. repo env (\<lambda>t d.
          update_proposal_state d t previous ''superseded'' (Some (ap_proposal_id p)) (Some now))) superseded)
      (thenA (on_db (\<lambda>d. create_proposal d p))
        (settle_rows env c run_id output (\<lambda>_. (to_state CS_AWAITING_CUSTOMER_CONFIRMATION)
            \<lparr>cu_active_proposal_id := Some (Some (ap_proposal_id p))\<rparr>) reply))))"

definition report_proposal ::
  "app_env \<Rightarrow> investigation_case \<Rightarrow> string \<Rightarrow> action_proposal \<Rightarrow> string list \<Rightarrow> utext \<Rightarrow> customer_disposition \<Rightarrow> unit app" where
  "report_proposal env c run_id p superseded reply disposition =
    (let k = ic_conversation_id c; cid = Some (ic_case_id c); rid = Some run_id
     in thenA (emit_with env (ap_evidence_refs p) k cid rid ''action_recommended'' ''developer''
          (text_of ''Agent recommended deterministic ticket evaluation'')
          [(''action_type'', JStr (action_type_value (ap_action_type p)))])
       (thenA (each_app (\<lambda>previous. emit env k cid rid ''proposal_superseded'' ''both'' [26032, 30340, 35777, 25454, 25552, 26696, 24050, 26367, 25442, 26087, 25552, 26696]
          [(''proposal_id'', JStr previous), (''superseded_by_proposal_id'', JStr (ap_proposal_id p))]) superseded)
       (thenA (emit_customer_reply env k run_id reply cid ''investigation_result'' None disposition)
       (thenA (emit_with env (ap_evidence_refs p) k cid rid ''proposal_created'' ''both'' 
      [31561, 24453, 20320, 30830, 35748, 21019, 24314, 29289, 27969, 26680, 26597,
       24037, 21333]
          [(''proposal_id'', JStr (ap_proposal_id p)), (''proposal_version'', JInt (ap_version p)),
           (''authorized_order_id'', JStr (ic_authorized_order_id c)),
           (''target_shipment_id'', json_opt_str (ic_target_shipment_id c)),
           (''canonical_issue_type'', JStr (issue_type_value (ic_canonical_issue_type c))),
           (''customer_disposition'', JStr (disposition_value disposition)),
           (''rationale'', JText (ap_customer_visible_effect p)), (''expires_at'', JStr (iso (ap_expires_at p)))])
         (emit_run_succeeded env k run_id cid)))))"

definition propose_ticket ::
  "app_env \<Rightarrow> investigation_case \<Rightarrow> string \<Rightarrow> investigation_output \<Rightarrow> gate_result \<Rightarrow> json \<Rightarrow> fact_snapshot option \<Rightarrow>
   utext \<Rightarrow> customer_disposition \<Rightarrow> unit app" where
  "propose_ticket env c run_id output gate binding facts reply disposition =
    bindA (utc_now env) (\<lambda>now.
    bindA (new_id_app env ''prop'') (\<lambda>proposal_id.
    bindA (read_db (\<lambda>d. Inr (list_proposals d (ic_case_id c)))) (\<lambda>prior.
    bindA (readA (\<lambda>_. build_proposal (ae_sha env)
        (proposal_args_of c output gate binding facts proposal_id (next_version prior) now))) (\<lambda>p.
    thenA (store_proposal env c run_id output p (pending_ids prior) reply now)
      (report_proposal env c run_id p (pending_ids prior) reply disposition)))))"

section \<open>Asking the customer\<close>

definition question_open :: "fact_snapshot \<Rightarrow> bool" where
  "question_open earlier \<longleftrightarrow>
     qu_status (sn_question_state earlier FC_LOCATION_CHECKED) \<in> {QS_UNANSWERED, QS_CONFLICT_REQUIRES_CLARIFICATION}"

text \<open>The recorded question, and whether it is new; \<open>None\<close> when the facts refuse another question.\<close>

definition ask_location :: "app_env \<Rightarrow> string \<Rightarrow> (fact_question \<times> bool) option app" where
  "ask_location env case_id =
    catchA
      (bindA (load_facts env case_id) (\<lambda>earlier.
       bindA (clocked env 3 (\<lambda>t d. record_question (ae_sha env) (ae_sha_text env) t d case_id FC_LOCATION_CHECKED))
         (\<lambda>(q, created). returnA (if \<not> created \<and> \<not> question_open earlier then None else Some (q, created)))))
      (\<lambda>e. if is_case_fact_error e then returnA None else raiseA e)"

definition request_clarification ::
  "app_env \<Rightarrow> investigation_case \<Rightarrow> string \<Rightarrow> investigation_output \<Rightarrow> utext \<Rightarrow> unit app" where
  "request_clarification env c run_id output reply =
    (let close = close_after_investigation env c run_id output CO_HUMAN_SUPPORT_REQUIRED
     in bindA (read_db (\<lambda>d. require_case d (ic_case_id c))) (\<lambda>row.
       if 2 \<le> icr_business_clarification_count row
         then close ''BUSINESS_CLARIFICATION_LIMIT_REACHED'' clarification_limit_reply
       else bindA (ask_location env (ic_case_id c)) (\<lambda>asked.
         case asked of
           None \<Rightarrow> close ''CASE_FACT_QUESTION_EXHAUSTED'' question_exhausted_reply
         | Some (q, created) \<Rightarrow>
             thenA (settle_case env c run_id output (\<lambda>row. (to_state CS_AWAITING_CUSTOMER_INPUT)
                 \<lparr>cu_business_clarification_count :=
                    Some (icr_business_clarification_count row + (if created then 1 else 0))\<rparr>) reply)
             (thenA (emit env (ic_conversation_id c) (Some (ic_case_id c)) (Some run_id)
                 ''business_clarification_requested'' ''both'' reply
                 [(''customer_text'', JText reply), (''question_id'', JStr (fq_question_id q)),
                  (''fact_code'', JStr (fact_code_value (fq_fact_code q))),
                  (''customer_disposition'', JStr (disposition_value CD_CLARIFY))])
               (emit env (ic_conversation_id c) (Some (ic_case_id c)) (Some run_id) ''run_succeeded'' ''developer''
                 (text_of ''Investigation paused for customer input'') [])))))"

section \<open>Applying the result\<close>

definition human_support :: "gate_result \<Rightarrow> string \<Rightarrow> gate_result" where
  "human_support gate reason = \<lparr>gr_decision = Some GD_REQUIRE_HUMAN_SUPPORT, gr_reason_code = reason,
     gr_revised_issue_type = None, gr_critical_result_hashes = gr_critical_result_hashes gate\<rparr>"

definition refreshed_gate :: "app_env \<Rightarrow> string \<Rightarrow> gate_result \<Rightarrow> (gate_result \<times> fact_snapshot option) app" where
  "refreshed_gate env case_id gate =
    catchA (bindA (refresh_facts env case_id) (\<lambda>f. returnA (gate, Some f)))
      (\<lambda>e. case e of
         CaseFactIntegrityError _ \<Rightarrow> returnA (human_support gate ''CASE_FACT_REBUILD_INTEGRITY_FAILED'', None)
       | _ \<Rightarrow> raiseA e)"

definition bound_policy :: "app_env \<Rightarrow> investigation_output \<Rightarrow> json option result" where
  "bound_policy env output =
    (case map_of (io_tool_results output) ''search_after_sales_policy'' of
       None \<Rightarrow> Inr None
     | Some r \<Rightarrow> bindE (retype policy_view r) (\<lambda>typed.
         Inr (Option.bind (tr_payload typed) (policy_binding (ae_sha env)))))"

text \<open>The decision that counts, with the policy it is bound to: a proposal without a policy goes to a human.\<close>

definition bound_gate :: "app_env \<Rightarrow> investigation_output \<Rightarrow> gate_result \<Rightarrow> (gate_result \<times> json option) result" where
  "bound_gate env output gate =
    (if gr_decision gate = Some GD_PROPOSE_TICKET
     then bindE (bound_policy env output) (\<lambda>binding.
       if binding = None then Inr (human_support gate ''PROPOSAL_POLICY_BINDING_MISSING'', None)
       else Inr (gate, binding))
     else Inr (gate, None))"

definition gate_reply ::
  "investigation_case \<Rightarrow> investigation_output \<Rightarrow> gate_decision \<Rightarrow> string \<Rightarrow> blocked_fragment list \<Rightarrow> utext" where
  "gate_reply c output decision reason fragments =
     render_gate_reply (ic_authorized_order_id c) (ic_canonical_issue_type c) decision reason fragments
       (ic_target_shipment_id c)
       (existing_case_detail (map_of (io_tool_results output) ''get_existing_logistics_tickets''))
       (carrier_alert_detail (map_of (io_tool_results output) ''get_carrier_service_alerts''))"

definition conclude ::
  "app_env \<Rightarrow> investigation_case \<Rightarrow> string \<Rightarrow> policy_decision \<Rightarrow> investigation_output \<Rightarrow> gate_result \<Rightarrow>
   fact_snapshot option \<Rightarrow> unit app" where
  "conclude env c run_id decision output gate facts =
    (if gr_decision gate = None then raiseA (RuntimeError ''Evidence Gate produced no decision'')
     else bindA (readA (\<lambda>_. bound_gate env output gate)) (\<lambda>(bound, binding).
       let d = the (gr_decision bound);
           reason = gr_reason_code bound;
           disposition = project_customer_disposition (Some (gate_decision_value d)) None None None None (Some reason);
           reply = gate_reply c output d reason (pd_blocked_fragments decision)
       in if d = GD_PROPOSE_TICKET then
            (case binding of
               None \<Rightarrow> raiseA (RuntimeError ''proposal gate requires a verified policy binding'')
             | Some b \<Rightarrow> propose_ticket env c run_id output bound b facts reply disposition)
          else if d = GD_REQUEST_BUSINESS_CLARIFICATION then request_clarification env c run_id output reply
          else if d = GD_RETRY_LATER then
            thenA (settle_case env c run_id output (\<lambda>_. to_state CS_AWAITING_RETRY) reply)
              (emit_reply_and_success env (ic_conversation_id c) run_id reply (Some (ic_case_id c))
                 ''investigation_result'' None CD_WAIT)
          else close_after_investigation env c run_id output
            (if d = GD_REQUIRE_HUMAN_SUPPORT then CO_HUMAN_SUPPORT_REQUIRED else CO_RESOLVED_NO_ACTION) reason reply))"

definition apply_final ::
  "app_env \<Rightarrow> investigation_case \<Rightarrow> string \<Rightarrow> policy_decision \<Rightarrow> investigation_output \<Rightarrow> unit app" where
  "apply_final env c run_id decision output =
    bindA (refreshed_gate env (ic_case_id c) (io_gate_result output)) (\<lambda>(gate, facts).
      if gr_revised_issue_type gate \<noteq> None
        then close_after_investigation env c run_id output CO_HUMAN_SUPPORT_REQUIRED
          ''ISSUE_REVISION_REQUIRES_NEW_INVESTIGATION'' revision_reply
      else conclude env c run_id decision output gate facts)"

section \<open>Revising the issue\<close>

definition intent_of_issue :: "string \<Rightarrow> triage_intent" where
  "intent_of_issue v = (if v = ''signed_not_received'' then TI_SIGNED_NOT_RECEIVED else TI_STALLED_TRACKING)"

text \<open>The transaction: the counters, then the appended revision of the row they leave.\<close>

definition store_revision ::
  "app_env \<Rightarrow> investigation_case \<Rightarrow> investigation_output \<Rightarrow> issue_type \<Rightarrow> string \<Rightarrow> datetime \<Rightarrow> investigation_case app" where
  "store_revision env c output issue reason revised_at =
    transaction
      (bindA (read_db (\<lambda>d. require_case d (ic_case_id c))) (\<lambda>current.
       thenA (repo env (\<lambda>t d. update_case d t (ic_case_id c)
           ((output_usage output no_case_update)\<lparr>cu_expected_revision := Some (icr_revision current)\<rparr>)))
      (bindA (read_db (\<lambda>d. require_case d (ic_case_id c))) (\<lambda>after_usage.
       bindA (repo env (\<lambda>t d. append_issue_revision d t (ic_case_id c) (issue_type_value issue)
           \<lparr>ir_reported = intent_of_issue (icr_reported_issue_type current),
            ir_canonical = intent_of_issue (issue_type_value issue), ir_reason_code = reason,
            ir_revised_at = revised_at, ir_evidence_refs = io_evidence_refs output\<rparr>
           (Some (icr_revision after_usage)))) (\<lambda>revised.
         readA (\<lambda>_. case_to_domain revised))))))"

definition revised_message :: "issue_type \<Rightarrow> utext" where
  "revised_message issue =
    (if issue = SIGNED_NOT_RECEIVED
     then [35746, 21333, 29366, 24577, 24050, 30001, 26381, 21153, 31471, 26680, 23545,
           20026, 24050, 31614, 25910, 12290, 35831, 25353, 20462, 27491, 21518, 30340,
           26174, 31034, 31614, 25910, 20294, 26410, 25910, 21040, 38382, 39064, 32487,
           32493, 25910, 38598, 24517, 35201, 35777, 25454, 12290]
     else [35746, 21333, 29366, 24577, 24050, 30001, 26381, 21153, 31471, 26680, 23545,
           20026, 20173, 22312, 36816, 36755, 20013, 12290, 35831, 25353, 20462, 27491,
           21518, 30340, 29289, 27969, 20572, 28382, 38382, 39064, 32487, 32493, 25910,
           38598, 24517, 35201, 35777, 25454, 12290])"

definition revise_and_continue ::
  "app_env \<Rightarrow> services \<Rightarrow> investigation_case \<Rightarrow> string \<Rightarrow> policy_decision \<Rightarrow> investigation_output \<Rightarrow> issue_type \<Rightarrow> string \<Rightarrow>
   unit app" where
  "revise_and_continue env sc c run_id decision output issue reason =
    bindA (utc_now env) (\<lambda>revised_at.
    bindA (store_revision env c output issue reason revised_at) (\<lambda>revised.
    thenA (emit_with env (io_evidence_refs output) (ic_conversation_id c) (Some (ic_case_id c)) (Some run_id)
        ''case_issue_revised'' ''both'' 
      [35746, 21333, 29366, 24577, 20462, 27491, 20102, 26412, 27425, 29289, 27969,
       26680, 26597, 31867, 22411]
        [(''reported_issue_type'', JStr (issue_type_value (ic_canonical_issue_type c))),
         (''canonical_issue_type'', JStr (issue_type_value issue)), (''reason_code'', JStr reason)])
    (bindA (new_id_app env ''trc'') (\<lambda>trace_id.
     bindA (trusted_scope env (revised\<lparr>ic_canonical_issue_type := issue\<rparr>) run_id trace_id) (\<lambda>trusted.
     thenA (with_case_cache env (ic_case_id c))
    (bindA (investigate_or_fail env sc (refresh_facts env (ic_case_id revised))
        (\<lambda>f. (investigation_call trusted (revised_message issue) f)
           \<lparr>nv_case_planning_turns := ic_planning_turns revised, nv_run_planning_turns := io_planning_turns output,
            nv_case_read_executions := ic_read_tool_executions revised, nv_investigation_pass := 1\<rparr>)
        (ic_case_id c) (ic_conversation_id revised) run_id ''ISSUE_REVISION_INVESTIGATION_FAILURE''
        ''Corrected investigation failed safely'' max)
      (apply_final env revised run_id decision)))))))"

definition revisable :: "triage_intent \<Rightarrow> issue_type option" where
  "revisable intent = (case intent of TI_STALLED_TRACKING \<Rightarrow> Some STALLED_TRACKING
     | TI_SIGNED_NOT_RECEIVED \<Rightarrow> Some SIGNED_NOT_RECEIVED | _ \<Rightarrow> None)"

definition apply_investigation_result ::
  "app_env \<Rightarrow> services \<Rightarrow> investigation_case \<Rightarrow> string \<Rightarrow> policy_decision \<Rightarrow> investigation_output \<Rightarrow> unit app" where
  "apply_investigation_result env sc c run_id decision output =
    bindA (refreshed_gate env (ic_case_id c) (io_gate_result output)) (\<lambda>(gate, facts).
      case gr_revised_issue_type gate of
        None \<Rightarrow> conclude env c run_id decision output gate facts
      | Some intent \<Rightarrow>
         (case revisable intent of
            Some issue \<Rightarrow> revise_and_continue env sc c run_id decision output issue (gr_reason_code gate)
          | None \<Rightarrow> close_after_investigation env c run_id output CO_HUMAN_SUPPORT_REQUIRED
              ''ISSUE_REVISION_REQUIRES_NEW_INVESTIGATION'' revision_reply))"

section \<open>The fact service takes quiet steps\<close>

lemma quiet_fact_steps:
  "store_case_fact_snapshot d sn = Inr (row, d') \<Longrightarrow> quiet_step d d'"
  "append_case_fact_assertion d a fp = Inr (arow, d') \<Longrightarrow> quiet_step d d'"
  "append_case_fact_question d q = Inr (qrow, d') \<Longrightarrow> quiet_step d d'"
  "append_case_fact_message_consumption d c = Inr (crow, d') \<Longrightarrow> quiet_step d d'"
  by (rule quiet_stepI, erule step_store_case_fact_snapshot, auto dest!: store_case_fact_snapshot_frame)
    (rule quiet_stepI, erule step_append_case_fact_assertion, auto dest!: append_case_fact_assertion_frame,
     rule quiet_stepI, erule step_append_case_fact_question, auto dest!: append_case_fact_question_frame,
     rule quiet_stepI, erule step_append_case_fact_message_consumption, auto dest!: append_case_fact_message_consumption_frame)

lemma rebuild_and_store_quiet: "rebuild_and_store sha mh d cid t = Inr (sn, d') \<Longrightarrow> quiet_step d d'"
  by (auto simp: rebuild_and_store_def bindE_eq_Inr intro: quiet_fact_steps)

lemma merge_candidates_quiet:
  "merge_candidates sha mh cf ps now d a m q code ex pr = Inr (dec, d') \<Longrightarrow> quiet_step\<^sup>*\<^sup>* d d'"
  by (auto simp: merge_candidates_def bindE_eq_Inr Let_def split: sum.splits list.splits if_splits
      intro: quiet_fact_steps)

lemma accept_message_quiet:
  "accept_message sha mh cf ps t d a = Inr (ac, d') \<Longrightarrow> quiet_step\<^sup>*\<^sup>* d d'"
proof -
  have replay: "replay_reply sha mh t d a m q ex = Inr (ac, d') \<Longrightarrow> quiet_step\<^sup>*\<^sup>* d d'" for m q ex
    by (auto simp: replay_reply_def bindE_eq_Inr split: if_splits dest!: rebuild_and_store_quiet)
  have consume: "quiet_step\<^sup>*\<^sup>* d d'" if run: "consume_reply sha mh cf ps t d a m q code = Inr (ac, d')" for m q code
  proof -
    from run obtain dec d1 sn d2 crow ex pr where
      1: "merge_candidates sha mh cf ps (t 0) d a m q code ex pr = Inr (dec, d1)" and
      2: "rebuild_and_store sha mh d1 (ry_case_id a) (t 1) = Inr (sn, d2)" and
      3: "append_case_fact_message_consumption d2 (consumption_row_of sha mh a m q dec (t 2)) = Inr (crow, d')"
      by (auto simp: consume_reply_def bindE_eq_Inr)
    show ?thesis using merge_candidates_quiet [OF 1] rebuild_and_store_quiet [OF 2] quiet_fact_steps(4) [OF 3]
      by (blast intro: rtranclp.rtrancl_into_rtrancl)
  qed
  assume "accept_message sha mh cf ps t d a = Inr (ac, d')"
  then show ?thesis
    by (auto simp: accept_message_def bindE_eq_Inr split: option.splits if_splits dest: replay consume)
qed

lemma record_question_quiet:
  assumes "record_question sha mh t d cid code = Inr (q, d')"
  shows "quiet_step\<^sup>*\<^sup>* d d'"
  using assms
  by (auto simp: record_question_def bindE_eq_Inr split: option.splits if_splits
      dest!: quiet_fact_steps(3) rebuild_and_store_quiet)

lemma refresh_snapshot_quiet:
  "refresh_snapshot sha mh t d cid = Inr (sn, d') \<Longrightarrow> quiet_step\<^sup>*\<^sup>* d d'"
  "initialize_case sha mh t d cid = Inr (sn, d') \<Longrightarrow> quiet_step\<^sup>*\<^sup>* d d'"
  by (auto simp: refresh_snapshot_def initialize_case_def dest!: rebuild_and_store_quiet)

lemma proposal_steps_quiet:
  "create_proposal d p = Inr (row, d') \<Longrightarrow> quiet_step d d'"
  "append_issue_revision d n cid it rv er = Inr (crow, d') \<Longrightarrow> quiet_step d d'"
  by (rule quiet_stepI, erule step_create_proposal, auto dest!: create_proposal_frame)
    (rule quiet_stepI, erule step_append_issue_revision, auto dest!: append_issue_revision_frame)

section \<open>Every outcome\<close>

context handler_relation
begin

lemma related_clocked:
  assumes "\<And>t d x d'. f t d = Inr (x, d') \<Longrightarrow> quiet_step\<^sup>*\<^sup>* d d'"
  shows "related R (clocked env k f)"
proof -
  have step: "R s (put_db d s)" if "f t (sv_db s) = Inr (x, d)" for s t x d
    using assms [OF that] by (rule quiet_steps) simp
  have "R s (snd (on_db (f t) (s\<lparr>sv_tick := n\<rparr>)))" for s t n
    using trans [OF tick step [of t "s\<lparr>sv_tick := n\<rparr>"]] by (auto simp: on_db_def tick split: sum.split)
  then show ?thesis by (simp add: related_def clocked_def)
qed

lemma related_facts: "related R (load_facts env cid)" "related R (refresh_facts env cid)"
  unfolding load_facts_def refresh_facts_def
  by (intro related_parts) (rule related_clocked, rule refresh_snapshot_quiet)

lemma related_with_case_cache: "related R (with_case_cache env cid)"
  by (auto simp: related_def with_case_cache_def refl caches split: option.split sum.split)

lemma related_each_app: "(\<And>x. related R (f x)) \<Longrightarrow> related R (each_app f xs)"
  by (induction xs) (auto intro: related_parts)

lemma related_investigation_failed: "related R (investigation_failed env cid k rid code summary merge)"
  unfolding investigation_failed_def observed_run_usage_def split_def by (intro related_parts)

lemma related_investigate:
  assumes "\<And>a. related R (sc_investigate sc a)" and "related R facts"
  shows "related R (investigate_or_fail env sc facts args cid k rid code summary merge)"
  unfolding investigate_or_fail_def by (intro related_parts assms related_investigation_failed)

lemma related_settle: "related R (settle_rows env c rid out u reply)" "related R (settle_case env c rid out u reply)"
  unfolding settle_case_def settle_rows_def finish_run_def by (intro related_parts)+

lemma related_close: "related R (close_after_investigation env c rid out oc reason reply)"
  unfolding close_after_investigation_def Let_def by (intro related_parts related_settle)

lemma related_propose: "related R (propose_ticket env c rid out g b fs reply disp)"
proof -
  have "related R (on_db (\<lambda>d. create_proposal d p))" for p
    by (rule related_on_db) (rule quiet, erule proposal_steps_quiet)
  then have "related R (store_proposal env c rid out p ids reply now)" for p ids now
    unfolding store_proposal_def by (intro related_parts related_each_app related_settle)
  moreover have "related R (report_proposal env c rid p ids reply disp)" for p ids
    unfolding report_proposal_def Let_def by (intro related_parts related_each_app)
  ultimately show ?thesis unfolding propose_ticket_def by (intro related_parts)
qed

lemma related_ask_location: "related R (ask_location env cid)"
  unfolding ask_location_def split_def
  by (intro related_parts related_facts related_cases) (rule related_clocked, rule record_question_quiet)

lemma related_request_clarification: "related R (request_clarification env c rid out reply)"
  unfolding request_clarification_def Let_def
  by (intro related_parts related_cases related_close related_ask_location)
    (auto intro!: related_parts related_settle related_close split: option.split)

lemma related_refreshed_gate: "related R (refreshed_gate env cid g)"
  unfolding refreshed_gate_def
  by (intro related_parts related_facts) (auto intro!: related_parts split: error.split)

lemma related_conclude: "related R (conclude env c rid dec out g fs)"
  unfolding conclude_def Let_def split_def
  by (intro related_cases related_parts related_request_clarification related_close related_settle)
    (auto intro!: related_parts related_propose split: option.split)

lemma related_apply_final: "related R (apply_final env c rid dec out)"
  unfolding apply_final_def split_def
  by (intro related_cases related_parts related_refreshed_gate related_close related_conclude)

lemma related_store_revision: "related R (store_revision env c out issue reason t)"
  unfolding store_revision_def
  by (intro related_parts) (rule related_repo, rule quiet, erule proposal_steps_quiet)

lemma related_revise:
  assumes "\<And>a. related R (sc_investigate sc a)"
  shows "related R (revise_and_continue env sc c rid dec out issue reason)"
  unfolding revise_and_continue_def trusted_scope_def
  by (intro related_parts related_store_revision related_with_case_cache related_investigate related_facts
      related_apply_final assms)

lemma related_apply:
  assumes "\<And>a. related R (sc_investigate sc a)"
  shows "related R (apply_investigation_result env sc c rid dec out)"
  unfolding apply_investigation_result_def split_def
  by (intro related_parts related_refreshed_gate)
    (auto intro!: related_conclude related_revise assms related_close split: option.split)

end

end
