(* ===== verification/CaseHandlers.thy ===== *)
theory CaseHandlers
  imports Investigations
begin

text \<open>
  The handlers that continue an existing case (\<open>application/service.py\<close>): \<open>retry_case\<close>, the reply to a question
  about a fact (\<open>_continue_business_clarification\<close>) and the reply to the question which parcel is meant
  (\<open>_continue_target_shipment_clarification\<close>), with the selection of the parcel.

  \<^item> A handler of a case answers a \<open>case_reply\<close>: the run it has driven, or the transition of its proposal.
  \<^item> The two regular expressions of the selection are \<open>ordinal_at\<close> and \<open>package_at\<close>, tried at every position
    from the left; \<open>\s*\<close> needs no backtracking, since no token starts with a space.
  \<^item> \<open>next(...)\<close> without a result is \<open>None\<close> of \<open>outstanding_fact\<close>, instead of a \<open>StopIteration\<close>.
\<close>

section \<open>What a message says of a parcel\<close>

definition delivery_location_conflict :: "app_env \<Rightarrow> utext \<Rightarrow> bool" where
  "delivery_location_conflict env message =
    (let normalized = ae_casefold env message
     in contains_any normalized [[21069, 21488], [38376, 21355], [37051, 23621], [23478, 20154], [20195, 25910, 28857], [24555, 36882, 26588], [26588]] \<and>
        contains_any normalized
          [[27809, 26377, 25105, 30340, 21253, 35065], [27809, 25214, 21040, 25105, 30340, 21253, 35065], [30830, 35748, 27809, 26377], [20063, 27809, 26377], [36825, 37324, 27809, 26377], [19981, 22312, 21069, 21488],
           [19981, 22312, 38376, 21355], [19981, 22312, 37051, 23621], [19981, 22312, 23478, 20154], [19981, 22312, 20195, 25910, 28857], [19981, 22312, 26588]])"

text \<open>\<open>re.search\<close>: the first position at which the pattern matches.\<close>

fun search_text :: "(utext \<Rightarrow> 'a option) \<Rightarrow> utext \<Rightarrow> 'a option" where
  "search_text f [] = f []"
| "search_text f (c # cs) = (case f (c # cs) of Some x \<Rightarrow> Some x | None \<Rightarrow> search_text f cs)"

definition ordinal_at :: "utext \<Rightarrow> nat option" where
  "ordinal_at text =
    (if \<not> prefix [31532] text then None
     else (case dropWhile is_space (drop 1 text) of
        [] \<Rightarrow> None
      | token # rest \<Rightarrow>
          if token \<in> set [19968, 20108, 19977, 22235, 49, 50, 51, 52] \<and>
             list_ex (\<lambda>unit. prefix unit (dropWhile is_space rest)) [[20010], [20214], [21253, 35065]]
          then Some token else None))"

definition package_at :: "utext \<Rightarrow> nat option" where
  "package_at text =
    (case List.find (\<lambda>word. prefix word text) [[21253, 35065], text_of ''parcel'', text_of ''package''] of
       None \<Rightarrow> None
     | Some word \<Rightarrow>
        (case dropWhile is_space (drop (length word) text) of
           [] \<Rightarrow> None
         | token # _ \<Rightarrow> if token \<in> set (text_of ''abc123'') then Some token else None))"

definition digit_value :: "nat \<Rightarrow> int" where
  "digit_value token = int token - int (of_char (CHR ''0''))"

definition ordinal_value :: "nat \<Rightarrow> int" where
  "ordinal_value token =
    (case map_of (zip [19968, 20108, 19977, 22235] [1, 2, 3, 4]) token of Some n \<Rightarrow> n | None \<Rightarrow> digit_value token)"

definition package_value :: "nat \<Rightarrow> int" where
  "package_value token =
    (if token \<in> set (text_of ''abc'') then int token - int (of_char (CHR ''a'')) + 1 else digit_value token)"

definition named_sequence :: "utext \<Rightarrow> int option" where
  "named_sequence normalized =
    (case search_text ordinal_at normalized of
       Some token \<Rightarrow> Some (ordinal_value token)
     | None \<Rightarrow> map_option package_value (search_text package_at normalized))"

section \<open>Selecting the parcel\<close>

definition is_partial_shipment_report :: "issue_type \<Rightarrow> utext \<Rightarrow> bool" where
  "is_partial_shipment_report issue normalized \<longleftrightarrow> issue = STALLED_TRACKING \<and>
     contains_any normalized [[21482, 25910, 21040, 19968, 37096, 20998], [37096, 20998, 25910, 21040], [23569, 20102, 19968, 20010], [20998, 21253, 35065]]"

definition ordered_shipments :: "fixture_store \<Rightarrow> string \<Rightarrow> shipment_record list" where
  "ordered_shipments fx order_id = sort_key sh_package_sequence (get_shipments fx order_id)"

text \<open>The message contains the number of the parcel or its tracking number.\<close>

definition names_shipment :: "app_env \<Rightarrow> utext \<Rightarrow> shipment_record \<Rightarrow> bool" where
  "names_shipment env normalized sh \<longleftrightarrow>
     contains normalized (ae_casefold env (text_of (sh_shipment_id sh))) \<or>
     contains normalized (ae_casefold env (text_of (sh_tracking_number sh)))"

definition named_shipment :: "app_env \<Rightarrow> utext \<Rightarrow> shipment_record list \<Rightarrow> shipment_record option" where
  "named_shipment env normalized shipments =
    (case List.find (names_shipment env normalized) shipments of
       Some sh \<Rightarrow> Some sh
     | None \<Rightarrow> Option.bind (named_sequence normalized) (\<lambda>n. List.find (\<lambda>sh. sh_package_sequence sh = n) shipments))"

definition the_only :: "'a list \<Rightarrow> 'a option" where
  "the_only xs = (case xs of [x] \<Rightarrow> Some x | _ \<Rightarrow> None)"

definition is_stalled :: "shipment_record \<Rightarrow> bool" where
  "is_stalled sh \<longleftrightarrow> sh_shipment_status sh = ''stalled''"

definition select_target_shipment :: "app_env \<Rightarrow> fixture_store \<Rightarrow> string \<Rightarrow> issue_type \<Rightarrow> utext \<Rightarrow> string option" where
  "select_target_shipment env fx order_id issue message =
    (let shipments = ordered_shipments fx order_id;
         normalized = ae_casefold env message
     in if shipments = [] then None
        else map_option sh_shipment_id
          (case named_shipment env normalized shipments of
             Some sh \<Rightarrow> Some sh
           | None \<Rightarrow>
               if is_partial_shipment_report issue normalized then the_only (filter is_stalled shipments)
               else the_only shipments))"

definition partial_shipment_candidate_ids :: "app_env \<Rightarrow> fixture_store \<Rightarrow> string \<Rightarrow> issue_type \<Rightarrow> utext \<Rightarrow> string list" where
  "partial_shipment_candidate_ids env fx order_id issue message =
    (if \<not> is_partial_shipment_report issue (ae_casefold env message) then []
     else map sh_shipment_id (filter (\<lambda>sh. sh_shipment_status sh \<in> {''stalled'', ''in_transit'', ''out_for_delivery''})
       (ordered_shipments fx order_id)))"

definition needs_partial_shipment_clarification :: "app_env \<Rightarrow> fixture_store \<Rightarrow> string \<Rightarrow> issue_type \<Rightarrow> utext \<Rightarrow> bool" where
  "needs_partial_shipment_clarification env fx order_id issue message \<longleftrightarrow>
     is_partial_shipment_report issue (ae_casefold env message) \<and> 1 < length (get_shipments fx order_id) \<and>
     length (filter is_stalled (get_shipments fx order_id)) \<noteq> 1"

definition is_target_shipment_clarification_case :: "fixture_store \<Rightarrow> investigation_case \<Rightarrow> bool" where
  "is_target_shipment_clarification_case fx c \<longleftrightarrow>
     ic_canonical_issue_type c = STALLED_TRACKING \<and> ic_target_shipment_id c = None \<and>
     1 < length (get_shipments fx (ic_authorized_order_id c)) \<and> 0 < ic_business_clarifications c"

section \<open>Replies and decisions\<close>

record run_reply =
  rr_run_id :: string
  rr_case_id :: "string option"
  rr_events_url :: string
  rr_customer_disposition :: "customer_disposition option"

datatype case_reply = Driven run_reply | Moved transition_response

definition driven :: "string \<Rightarrow> string \<Rightarrow> string \<Rightarrow> run_reply" where
  "driven run_id case_id conversation_id = \<lparr>rr_run_id = run_id, rr_case_id = Some case_id,
     rr_events_url = events_url conversation_id, rr_customer_disposition = None\<rparr>"

definition continuation_decision :: "investigation_case \<Rightarrow> string \<Rightarrow> policy_decision" where
  "continuation_decision c reason = \<lparr>pd_route = PT_SUPPORTED_LOGISTICS, pd_supported = True,
     pd_canonical_issue_type = Some (ic_canonical_issue_type c), pd_authorized_order_id = Some (ic_authorized_order_id c),
     pd_blocked_fragments = [], pd_risk_flags = [], pd_reason_code = reason\<rparr>"

definition limit_closed_payload :: "(string \<times> json) list" where
  "limit_closed_payload = [(''case_state'', JStr ''closed''), (''case_outcome'', JStr ''human_support_required''),
     (''reason_code'', JStr ''BUSINESS_CLARIFICATION_LIMIT_REACHED'')]"

definition report_limit_closed :: "app_env \<Rightarrow> string \<Rightarrow> string \<Rightarrow> string \<Rightarrow> unit app" where
  "report_limit_closed env conversation_id case_id run_id =
    emit env conversation_id (Some case_id) (Some run_id) ''case_closed'' ''both''
      (text_of ''Investigation closed after business clarification limit'') limit_closed_payload"

text \<open>Investigating with the scope of the case \<open>c\<close> and applying what comes of it.\<close>

definition investigate_case ::
  "app_env \<Rightarrow> services \<Rightarrow> investigation_case \<Rightarrow> string \<Rightarrow> string \<Rightarrow> fact_snapshot app \<Rightarrow>
   (trusted_context \<Rightarrow> fact_snapshot \<Rightarrow> investigation_args) \<Rightarrow> string \<Rightarrow> string \<Rightarrow> string \<Rightarrow> run_reply app" where
  "investigate_case env sc c run_id trace_id facts args failure_code summary reason =
    bindA (trusted_scope env c run_id trace_id) (\<lambda>trusted.
    thenA (with_case_cache env (ic_case_id c))
    (bindA (investigate_or_fail env sc facts (args trusted) (ic_case_id c) (ic_conversation_id c) run_id
        failure_code summary (+)) (\<lambda>output.
     thenA (apply_investigation_result env sc c run_id (continuation_decision c reason) output)
       (returnA (driven run_id (ic_case_id c) (ic_conversation_id c))))))"

section \<open>Asking which parcel is meant\<close>

definition which_parcel_reply :: utext where
  "which_parcel_reply =
     [36825, 20010, 35746, 21333, 26377, 22810, 20010, 21253, 35065, 65292, 25105,
      36824, 19981, 33021, 23433, 20840, 21028, 26029, 20320, 35828, 30340, 26159,
      21738, 19968, 20010, 12290, 35831, 35828, 26126, 31532, 20960, 20010, 21253,
      35065, 65292, 25110, 25552, 20379, 23545, 24212, 30340, 21253, 35065, 21495, 47,
      36816, 21333, 21495, 65307, 25105, 21482, 20250, 26680, 26597, 20320, 25351,
      23450, 30340, 21253, 35065, 12290]"

text \<open>The transaction: the case waits for the answer, or is closed when it has asked as often as it may.\<close>

definition store_parcel_question ::
  "app_env \<Rightarrow> services \<Rightarrow> string \<Rightarrow> string \<Rightarrow> (string \<times> utext \<times> customer_disposition) app" where
  "store_parcel_question env sc case_id run_id =
    transaction
      (bindA (read_db (\<lambda>d. require_case d case_id)) (\<lambda>current.
       let exhausted = sc_max_business_clarifications sc \<le> icr_business_clarification_count current;
           reply = (if exhausted then clarification_limit_reply else which_parcel_reply);
           update = (if exhausted then closing CO_HUMAN_SUPPORT_REQUIRED ''BUSINESS_CLARIFICATION_LIMIT_REACHED''
             else (to_state CS_AWAITING_CUSTOMER_INPUT)
               \<lparr>cu_business_clarification_count := Some (icr_business_clarification_count current + 1)\<rparr>)
       in thenA (repo env (\<lambda>t d. update_case d t case_id (update\<lparr>cu_expected_revision := Some (icr_revision current)\<rparr>)))
         (bindA (read_db (\<lambda>d. require_case d case_id)) (\<lambda>c.
          thenA (say env (icr_conversation_id c) (Some case_id) run_id reply)
         (thenA (run_succeeds env run_id)
           (returnA (icr_conversation_id c, reply, if exhausted then CD_ESCALATE else CD_CLARIFY)))))))"

definition request_target_shipment_clarification ::
  "app_env \<Rightarrow> services \<Rightarrow> string \<Rightarrow> string \<Rightarrow> string list \<Rightarrow> run_reply app" where
  "request_target_shipment_clarification env sc case_id run_id candidates =
    bindA (store_parcel_question env sc case_id run_id) (\<lambda>(conversation_id, reply, disposition).
    thenA (emit env conversation_id (Some case_id) (Some run_id) ''business_clarification_requested'' ''both'' reply
        [(''customer_text'', JText reply), (''clarification_kind'', JStr ''target_shipment''),
         (''candidate_shipment_ids'', JList (map JStr candidates)),
         (''customer_disposition'', JStr (disposition_value disposition))])
    (thenA (emit_run_succeeded env conversation_id run_id (Some case_id))
    (thenA (if disposition = CD_ESCALATE then report_limit_closed env conversation_id case_id run_id else returnA ())
      (returnA \<lparr>rr_run_id = run_id, rr_case_id = Some case_id, rr_events_url = events_url conversation_id,
         rr_customer_disposition = Some disposition\<rparr>))))"

definition candidate_parcels :: "app_env \<Rightarrow> fixture_store \<Rightarrow> investigation_case \<Rightarrow> utext \<Rightarrow> string list" where
  "candidate_parcels env fx c message =
    (case partial_shipment_candidate_ids env fx (ic_authorized_order_id c) (ic_canonical_issue_type c) message of
       [] \<Rightarrow> map sh_shipment_id (ordered_shipments fx (ic_authorized_order_id c))
     | ids \<Rightarrow> ids)"

definition store_target :: "app_env \<Rightarrow> string \<Rightarrow> string \<Rightarrow> investigation_case app" where
  "store_target env case_id shipment_id =
    transaction
      (thenA (move_case env case_id (\<lambda>_. (to_state CS_INVESTIGATING)\<lparr>cu_target_shipment_id := Some (Some shipment_id)\<rparr>))
        (read_db (\<lambda>d. bindE (require_case d case_id) case_to_domain)))"

definition continue_target_shipment_clarification ::
  "app_env \<Rightarrow> services \<Rightarrow> investigation_case \<Rightarrow> string \<Rightarrow> utext \<Rightarrow> string \<Rightarrow> run_reply app" where
  "continue_target_shipment_clarification env sc c run_id message trace_id =
    bindA (read_db (\<lambda>d. require_case d (ic_case_id c))) (\<lambda>current.
      if sc_max_business_clarifications sc \<le> icr_business_clarification_count current
        then request_target_shipment_clarification env sc (ic_case_id c) run_id []
      else bindA (readA (\<lambda>s. Inr (select_target_shipment env (sv_fixtures s) (ic_authorized_order_id c)
          (ic_canonical_issue_type c) message))) (\<lambda>selected.
        case selected of
          None \<Rightarrow> bindA (readA (\<lambda>s. Inr (candidate_parcels env (sv_fixtures s) c message)))
            (request_target_shipment_clarification env sc (ic_case_id c) run_id)
        | Some shipment_id \<Rightarrow>
            bindA (store_target env (ic_case_id c) shipment_id) (\<lambda>resolved.
            thenA (emit env (ic_conversation_id resolved) (Some (ic_case_id resolved)) (Some run_id)
                ''target_shipment_selected'' ''both'' 
      [23458, 25143, 28548, 28165, 20102, 26412, 27425, 29289, 27969, 26680, 26597,
       30340, 30446, 26631, 21253, 35065]
                [(''target_shipment_id'', JStr shipment_id)])
              (investigate_case env sc resolved run_id trace_id (load_facts env (ic_case_id c))
                (\<lambda>trusted f. (investigation_call trusted message f)
                  \<lparr>nv_case_planning_turns := ic_planning_turns resolved,
                   nv_case_read_executions := ic_read_tool_executions resolved,
                   nv_investigation_pass := ic_business_clarifications resolved\<rparr>)
                ''TARGET_CLARIFICATION_INVESTIGATION_FAILURE'' ''Target-resolved investigation failed safely''
                ''TARGET_SHIPMENT_CLARIFICATION_RESOLVED''))))"

section \<open>Taking a reply to a question about a fact\<close>

definition outstanding_fact :: "fact_snapshot \<Rightarrow> fact_code option" where
  "outstanding_fact s = List.find (\<lambda>code.
     qu_status (sn_question_state s code) \<in> {QS_UNANSWERED, QS_CONFLICT_REQUIRES_CLARIFICATION, QS_UNKNOWN_EXHAUSTED} \<and>
     0 < qu_asks (sn_question_state s code)) all_fact_codes"

definition reply_candidates :: "app_env \<Rightarrow> database \<Rightarrow> string \<Rightarrow> utext \<Rightarrow> fact_snapshot \<Rightarrow> fact_code \<Rightarrow> fact_candidate list result" where
  "reply_candidates env d case_id message earlier code =
    bindE (load_assertions d case_id) (\<lambda>assertions.
    bindE (load_current_proof_context d case_id) (\<lambda>proof.
      extract_candidates (ae_casefold env) message code
        (filter (\<lambda>a. fa_assertion_id a \<in> set (fe_active_assertion_ids (sn_facts earlier code))) assertions) proof))"

text \<open>The candidates are typed, so that the parser of untyped ones is never asked.\<close>

definition reply_arguments :: "string \<Rightarrow> string \<Rightarrow> fact_candidate list \<Rightarrow> reply_args" where
  "reply_arguments case_id source_message_id candidates = \<lparr>ry_case_id = case_id,
     ry_source_message_id = source_message_id, ry_candidates = map Typed candidates,
     ry_extractor_kind = deterministic_extractor, ry_extractor_version = extractor_version\<rparr>"

definition take_reply :: "app_env \<Rightarrow> services \<Rightarrow> string \<Rightarrow> string \<Rightarrow> utext \<Rightarrow> acceptance option app" where
  "take_reply env sc case_id source_message_id message =
    bindA (load_facts env case_id) (\<lambda>earlier.
      case outstanding_fact earlier of
        None \<Rightarrow> returnA None
      | Some code \<Rightarrow>
          bindA (read_db (\<lambda>d. reply_candidates env d case_id message earlier code)) (\<lambda>candidates.
          bindA (clocked env 3 (\<lambda>t d. accept_message (ae_sha env) (ae_sha_text env) (ae_casefold env)
              (sc_parse_candidate sc) t d (reply_arguments case_id source_message_id candidates)))
            (\<lambda>accepted. returnA (Some accepted))))"

definition merge_decision_payload :: "merge_decision \<Rightarrow> (string \<times> json) list" where
  "merge_decision_payload m =
     [(''accepted'', JBool (md_accepted m)), (''reason_code'', JStr (md_reason_code m)),
      (''assertion_id'', json_opt_str (md_assertion_id m)),
      (''candidate_batch_hash'', json_opt_str (md_candidate_batch_hash m))]"

definition rejected_merge :: "string \<Rightarrow> merge_decision" where
  "rejected_merge reason = \<lparr>md_accepted = False, md_reason_code = reason, md_assertion_id = None,
     md_candidate_batch_hash = None\<rparr>"

definition report_merge :: "app_env \<Rightarrow> string \<Rightarrow> string \<Rightarrow> string \<Rightarrow> string \<Rightarrow> merge_decision \<Rightarrow> unit app" where
  "report_merge env conversation_id case_id run_id summary m =
    emit env conversation_id (Some case_id) (Some run_id) ''case_fact_merge_decided'' ''developer'' (text_of summary)
      (merge_decision_payload m)"

definition fact_integrity_failed :: "app_env \<Rightarrow> string \<Rightarrow> string \<Rightarrow> string \<Rightarrow> 'a app" where
  "fact_integrity_failed env conversation_id case_id run_id =
    thenA (report_merge env conversation_id case_id run_id ''Case Fact integrity disagreement rejected safely''
        (rejected_merge ''CASE_FACT_INTEGRITY_FAILED''))
    (thenA (fail_run env conversation_id run_id ''CASE_FACT_INTEGRITY_FAILED'' ''run_failed''
        ''Case Fact reconstruction failed closed'' (Some case_id) False None None)
      (raiseA (ApplicationError ''CASE_FACT_INTEGRITY_FAILED'' 409)))"

text \<open>The facts after the reply: a rejected reply only rebuilds them, a disagreement ends the run.\<close>

definition merge_reply ::
  "app_env \<Rightarrow> services \<Rightarrow> investigation_case \<Rightarrow> string \<Rightarrow> string \<Rightarrow> utext \<Rightarrow> (fact_snapshot \<times> merge_decision) app" where
  "merge_reply env sc c run_id source_message_id message =
    (let rejected = (\<lambda>reason. bindA (refresh_facts env (ic_case_id c)) (\<lambda>f. returnA (f, rejected_merge reason)))
     in bindA (catchA
          (bindA (take_reply env sc (ic_case_id c) source_message_id message) (\<lambda>taken.
             returnA (map_option (\<lambda>a. (ac_snapshot a, ac_merge_decision a)) taken)))
          (\<lambda>e. case e of
             CaseFactIntegrityError _ \<Rightarrow> fact_integrity_failed env (ic_conversation_id c) (ic_case_id c) run_id
           | CaseFactError _ \<Rightarrow> bindA (rejected ''CANDIDATE_REJECTED'') (\<lambda>r. returnA (Some r))
           | _ \<Rightarrow> raiseA e))
        (\<lambda>r. case r of Some x \<Rightarrow> returnA x | None \<Rightarrow> rejected ''NO_OUTSTANDING_FACT_QUESTION''))"

section \<open>Continuing a clarification\<close>

definition close_at_limit :: "app_env \<Rightarrow> investigation_case \<Rightarrow> string \<Rightarrow> run_reply app" where
  "close_at_limit env c run_id =
    thenA (transaction
      (thenA (move_case env (ic_case_id c) (\<lambda>_. closing CO_HUMAN_SUPPORT_REQUIRED ''BUSINESS_CLARIFICATION_LIMIT_REACHED''))
      (thenA (say env (ic_conversation_id c) (Some (ic_case_id c)) run_id clarification_limit_reply)
        (run_succeeds env run_id))))
    (thenA (emit_reply_and_success env (ic_conversation_id c) run_id clarification_limit_reply (Some (ic_case_id c))
        ''business_clarification_limit'' None CD_ESCALATE)
    (thenA (report_limit_closed env (ic_conversation_id c) (ic_case_id c) run_id)
      (returnA (driven run_id (ic_case_id c) (ic_conversation_id c)))))"

definition continuation_call ::
  "app_env \<Rightarrow> investigation_case \<Rightarrow> utext \<Rightarrow> trusted_context \<Rightarrow> fact_snapshot \<Rightarrow> investigation_args" where
  "continuation_call env c message trusted f = (investigation_call trusted message f)
     \<lparr>nv_case_planning_turns := ic_planning_turns c, nv_case_read_executions := ic_read_tool_executions c,
      nv_investigation_pass := ic_business_clarifications c,
      nv_customer_still_reports_missing := (fe_status (sn_facts f FC_STILL_MISSING) \<noteq> FS_KNOWN_FALSE),
      nv_reception_locations_checked := (fe_status (sn_facts f FC_LOCATION_CHECKED) = FS_KNOWN_TRUE),
      nv_delivery_location_conflict := delivery_location_conflict env message\<rparr>"

definition continue_business_clarification ::
  "app_env \<Rightarrow> services \<Rightarrow> investigation_case \<Rightarrow> string \<Rightarrow> string \<Rightarrow> utext \<Rightarrow> string \<Rightarrow> run_reply app" where
  "continue_business_clarification env sc c run_id source_message_id message trace_id =
    bindA (read_db (\<lambda>d. require_case d (ic_case_id c))) (\<lambda>current.
    bindA (readA (\<lambda>_. case_to_domain current)) (\<lambda>refreshed.
    bindA (readA (\<lambda>s. Inr (is_target_shipment_clarification_case (sv_fixtures s) refreshed))) (\<lambda>of_parcel.
      if of_parcel then continue_target_shipment_clarification env sc refreshed run_id message trace_id
      else if 2 \<le> icr_business_clarification_count current then close_at_limit env c run_id
      else bindA (merge_reply env sc c run_id source_message_id message) (\<lambda>(facts, decision).
        thenA (report_merge env (ic_conversation_id c) (ic_case_id c) run_id
            (if md_accepted decision then ''Case Fact candidate accepted''
             else ''Case Fact candidate rejected safely'') decision)
          (investigate_case env sc refreshed run_id trace_id (returnA facts)
            (continuation_call env refreshed message)
            ''BUSINESS_CLARIFICATION_INVESTIGATION_FAILURE'' ''Business clarification investigation failed safely''
            ''BUSINESS_CLARIFICATION_CONTINUATION'')))))"

section \<open>Retrying a case\<close>

datatype retry_plan = Resume action_row | Reinvestigate investigation_case utext

definition default_retry_message :: utext where
  "default_retry_message = [35831, 32487, 32493, 35843, 26597, 24403, 21069, 29289, 27969, 24322, 24120, 12290]"

text \<open>The failed action to resume, if there is one.\<close>

definition retryable_action :: "case_row \<Rightarrow> action_row list \<Rightarrow> action_row option result" where
  "retryable_action c actions =
    (if icr_case_state c \<noteq> ''awaiting_retry'' then Inl (ApplicationError ''CASE_NOT_RETRYABLE'' 409)
     else if list_ex (\<lambda>a. aer_action_state a \<in> {''submitted'', ''uncertain''}) actions
       then Inl (ApplicationError ''ACTION_RETRY_UNSAFE'' 409)
     else (case filter (\<lambda>a. aer_action_state a = ''failed_retryable'') actions of
         [] \<Rightarrow> Inr None
       | [a] \<Rightarrow> Inr (Some a)
       | _ \<Rightarrow> Inl (ApplicationError ''ACTION_RETRY_CONFLICT'' 409)))"

definition last_customer_message :: "database \<Rightarrow> case_row \<Rightarrow> utext" where
  "last_customer_message d c =
    (case last_opt (filter (\<lambda>m. msr_role m = ''customer'' \<and> msr_case_id m = Some (icr_case_id c))
        (list_messages d (icr_conversation_id c))) of
       None \<Rightarrow> default_retry_message
     | Some m \<Rightarrow> msr_content m)"

definition case_found :: "string \<Rightarrow> case_row app" where
  "case_found case_id = read_db (\<lambda>d. case get_case d case_id of
     None \<Rightarrow> Inl (ApplicationError ''INVESTIGATION_CASE_NOT_FOUND'' 404) | Some c \<Rightarrow> Inr c)"

definition start_retry ::
  "app_env \<Rightarrow> string \<Rightarrow> string \<Rightarrow> case_row \<Rightarrow> action_row option \<Rightarrow> (string \<times> case_row \<times> retry_plan) app" where
  "start_retry env case_id trace_id c action =
    bindA (new_id_app env ''run'') (\<lambda>run_id.
    thenA (bindA (uuid4_hex env) (\<lambda>h. repo env (\<lambda>t d. create_run d h t None
        ((run_defaults (icr_conversation_id c) ''retry'')\<lparr>ra_run_id := Some run_id, ra_case_id := Some case_id,
           ra_trace_id := Some trace_id\<rparr>))))
    (bindA (read_db (\<lambda>d. Inr (last_customer_message d c))) (\<lambda>message.
     thenA (repo env (\<lambda>t d. update_case d t case_id
         ((to_state (if action = None then CS_INVESTIGATING else CS_EXECUTING_ACTION))
           \<lparr>cu_expected_revision := Some (icr_revision c)\<rparr>)))
     (case action of
        Some a \<Rightarrow> returnA (run_id, c, Resume a)
      | None \<Rightarrow> bindA (read_db (\<lambda>d. bindE (require_case d case_id) case_to_domain)) (\<lambda>scope.
          returnA (run_id, c, Reinvestigate scope message))))))"

definition open_retry :: "app_env \<Rightarrow> string \<Rightarrow> string \<Rightarrow> (string \<times> case_row \<times> retry_plan) app" where
  "open_retry env case_id trace_id =
    transaction
      (bindA (case_found case_id) (\<lambda>c.
       bindA (read_db (\<lambda>d. retryable_action c (list_actions d case_id)))
         (start_retry env case_id trace_id c)))"

definition resumed_args :: "case_row \<Rightarrow> action_row \<Rightarrow> string \<Rightarrow> action_args result" where
  "resumed_args c a run_id =
    bindE (issue_type_of (icr_canonical_issue_type c)) (\<lambda>issue.
      Inr \<lparr>aa_action_id = aer_action_id a, aa_idempotency_key = aer_idempotency_key a, aa_case_id = icr_case_id c,
        aa_conversation_id = icr_conversation_id c, aa_customer_id = icr_customer_id c,
        aa_authorized_order_id = icr_authorized_order_id c, aa_issue_type = issue, aa_run_id = run_id,
        aa_proposal_id = aer_proposal_id a, aa_target_shipment_id = icr_target_shipment_id c\<rparr>)"

definition run_plan :: "app_env \<Rightarrow> services \<Rightarrow> string \<Rightarrow> string \<Rightarrow> case_row \<Rightarrow> retry_plan \<Rightarrow> case_reply app" where
  "run_plan env sc trace_id run_id c plan =
    (case plan of
       Resume a \<Rightarrow>
         bindA (readA (\<lambda>_. resumed_args c a run_id)) (\<lambda>args.
         bindA (submit_and_verify_ticket_action env args) (\<lambda>r. returnA (Moved r)))
     | Reinvestigate scope message \<Rightarrow>
         bindA (investigate_case env sc scope run_id trace_id (load_facts env (ic_case_id scope))
             (\<lambda>trusted f. (investigation_call trusted message f)
               \<lparr>nv_case_planning_turns := ic_planning_turns scope,
                nv_case_read_executions := ic_read_tool_executions scope\<rparr>)
             ''INVESTIGATION_RUNTIME_FAILURE'' ''Retry investigation failed safely'' ''AUTHORIZED_RETRY'')
           (\<lambda>r. returnA (Driven r)))"

definition retry_case :: "app_env \<Rightarrow> services \<Rightarrow> string \<Rightarrow> case_reply app" where
  "retry_case env sc case_id =
    bindA (new_id_app env ''trc'') (\<lambda>trace_id.
    thenA (case_found case_id)
    (bindA (open_retry env case_id trace_id) (\<lambda>(run_id, c, plan).
     thenA (start_run env (icr_conversation_id c) run_id (Some case_id))
       (run_plan env sc trace_id run_id c plan))))"

section \<open>What every outcome respects\<close>

context handler_relation
begin

lemma related_fact_failure: "related R (report_merge env k cid rid summary m)" "related R (fact_integrity_failed env k cid rid)"
  unfolding report_merge_def fact_integrity_failed_def by (intro related_parts)+

lemma related_limit: "related R (report_limit_closed env k cid rid)" "related R (close_at_limit env c rid)"
  unfolding report_limit_closed_def close_at_limit_def by (intro related_parts)+

lemma related_request_target: "related R (request_target_shipment_clarification env sc cid rid ids)"
  unfolding request_target_shipment_clarification_def store_parcel_question_def Let_def split_def
  by (intro related_parts related_cases related_limit)

lemma related_store_target: "related R (store_target env cid sid)"
  unfolding store_target_def by (intro related_parts)

lemma related_investigate_case:
  assumes "\<And>a. related R (sc_investigate sc a)" and "related R facts"
  shows "related R (investigate_case env sc c rid tid facts args code summary reason)"
  unfolding investigate_case_def trusted_scope_def
  by (intro related_parts related_with_case_cache related_investigate related_apply assms)

lemma related_continue_target:
  assumes "\<And>a. related R (sc_investigate sc a)"
  shows "related R (continue_target_shipment_clarification env sc c rid msg tid)"
  unfolding continue_target_shipment_clarification_def
  by (intro related_parts related_cases related_request_target)
    (auto intro!: related_parts related_request_target related_store_target related_investigate_case assms related_facts
      split: option.split)

lemma related_take_reply: "related R (take_reply env sc cid mid msg)"
  unfolding take_reply_def
  by (intro related_parts related_facts)
    (auto intro!: related_parts related_clocked accept_message_quiet split: option.split)

lemma related_merge_reply: "related R (merge_reply env sc c rid mid msg)"
  unfolding merge_reply_def Let_def
  by (intro related_parts related_take_reply)
    (auto intro!: related_parts related_facts related_fact_failure split: option.split error.split)

lemma related_continue_business:
  assumes "\<And>a. related R (sc_investigate sc a)"
  shows "related R (continue_business_clarification env sc c rid mid msg tid)"
  unfolding continue_business_clarification_def split_def
  by (intro related_parts related_cases related_continue_target related_limit related_merge_reply related_fact_failure
      related_investigate_case assms)

lemma related_open_retry: "related R (open_retry env cid tid)" "related R (case_found cid)"
  unfolding open_retry_def start_retry_def case_found_def
  by (intro related_parts) (auto intro!: related_parts split: option.split)

end

context writing_relation
begin

lemma related_retry_case:
  assumes "\<And>a. related R (sc_investigate sc a)"
  shows "related R (retry_case env sc cid)"
  unfolding retry_case_def run_plan_def split_def
  by (intro related_parts related_open_retry)
    (auto intro!: related_parts related_submit related_investigate_case related_facts assms split: retry_plan.split)

end

end
