(* ===== verification/Triage.thy ===== *)
theory Triage
  imports DomainModels
begin

text \<open>
  The entry of a customer message: \<open>agents/triage.py\<close> without the call of the live model.

  \<^item> \<open>unicode\<close> holds what Python takes from the Unicode tables: \<open>str.casefold\<close>, the word characters of
    \<open>\b\<close> and the decimal digits of \<open>\d\<close>.
  \<^item> A pattern maps the character before a position and the text from there on to the length of its match.
    \<open>find_all\<close> is \<open>findall\<close> and \<open>sub_all\<close> is \<open>subn\<close>: from the left, without overlaps.
  \<^item> Where a pattern can match several lengths, \<open>longest\<close> tries the greedy one first, as backtracking does.
  \<^item> Under \<open>IGNORECASE\<close> the class \<open>[A-Z]\<close> has, beside the ASCII letters, the four letters that fold to one of
    them.  An order id is the UTF-8 encoding of the matched text.
\<close>

section \<open>Patterns\<close>

record unicode =
  uc_casefold :: "utext \<Rightarrow> utext"
  uc_word :: "nat \<Rightarrow> bool"
  uc_digit :: "nat \<Rightarrow> bool"

type_synonym pattern = "nat option \<Rightarrow> utext \<Rightarrow> nat option"

fun find_all :: "pattern \<Rightarrow> nat option \<Rightarrow> nat \<Rightarrow> utext \<Rightarrow> utext list" where
  "find_all p prev skip [] = []"
| "find_all p prev (Suc k) (c # cs) = find_all p (Some c) k cs"
| "find_all p prev 0 (c # cs) =
    (case p prev (c # cs) of
       None \<Rightarrow> find_all p (Some c) 0 cs
     | Some n \<Rightarrow> take n (c # cs) # find_all p (Some c) (n - 1) cs)"

fun sub_all :: "pattern \<Rightarrow> utext \<Rightarrow> nat option \<Rightarrow> nat \<Rightarrow> utext \<Rightarrow> utext" where
  "sub_all p repl prev skip [] = []"
| "sub_all p repl prev (Suc k) (c # cs) = sub_all p repl (Some c) k cs"
| "sub_all p repl prev 0 (c # cs) =
    (case p prev (c # cs) of
       None \<Rightarrow> c # sub_all p repl (Some c) 0 cs
     | Some n \<Rightarrow> repl @ sub_all p repl (Some c) (n - 1) cs)"

definition opt_holds :: "('a \<Rightarrow> bool) \<Rightarrow> 'a option \<Rightarrow> bool" where
  "opt_holds p x = (case x of None \<Rightarrow> False | Some y \<Rightarrow> p y)"

definition next_char :: "utext \<Rightarrow> nat option" where
  "next_char text = (case text of [] \<Rightarrow> None | c # _ \<Rightarrow> Some c)"

text \<open>\<open>\b\<close> between the characters before and after a position.\<close>

definition boundary :: "unicode \<Rightarrow> nat option \<Rightarrow> nat option \<Rightarrow> bool" where
  "boundary u prev after \<longleftrightarrow> opt_holds (uc_word u) prev \<noteq> opt_holds (uc_word u) after"

definition boundary_at :: "unicode \<Rightarrow> utext \<Rightarrow> nat \<Rightarrow> bool" where
  "boundary_at u text n = boundary u (next_char (drop (n - 1) text)) (next_char (drop n text))"

text \<open>The longest of the lengths from \<open>least\<close> to \<open>most\<close> at which the pattern goes on.\<close>

definition longest :: "nat \<Rightarrow> nat \<Rightarrow> (nat \<Rightarrow> 'a option) \<Rightarrow> 'a option" where
  "longest least most continue = Option.bind (List.find (\<lambda>n. continue n \<noteq> None) (rev [least..<Suc most])) continue"

definition is_letter :: "nat \<Rightarrow> bool" where
  "is_letter c \<longleftrightarrow> c \<in> {65..90} \<or> c \<in> {97..122} \<or> c \<in> {304, 305, 383, 8490}"

definition is_ascii_digit :: "nat \<Rightarrow> bool" where
  "is_ascii_digit c \<longleftrightarrow> c \<in> {48..57}"

definition upper_letter :: "nat \<Rightarrow> nat" where
  "upper_letter c = (if c \<in> {97..122} then c - 32 else if c = 305 then 73 else if c = 383 then 83 else c)"

section \<open>Order ids and personal data\<close>

definition order_id_char :: "nat \<Rightarrow> bool" where
  "order_id_char c \<longleftrightarrow> is_letter c \<or> is_ascii_digit c \<or> c = of_char (CHR ''-'')"

definition order_id_at :: "unicode \<Rightarrow> pattern" where
  "order_id_at u prev text =
    (if boundary u prev (next_char text) \<and> map upper_letter (take 4 text) = text_of ''ORD-''
     then let run = length (takeWhile order_id_char (drop 4 text))
          in longest 5 (4 + run) (\<lambda>n. if boundary_at u text n then Some n else None)
     else None)"

definition phone_at :: "unicode \<Rightarrow> pattern" where
  "phone_at u prev text =
    (case text of
       a # b # cs \<Rightarrow>
         if \<not> opt_holds (uc_digit u) prev \<and> a = 49 \<and> b \<in> {51..57} \<and> 9 \<le> length cs \<and>
            list_all (uc_digit u) (take 9 cs) \<and> \<not> opt_holds (uc_digit u) (next_char (drop 9 cs))
         then Some 11 else None
     | _ \<Rightarrow> None)"

definition local_char :: "nat \<Rightarrow> bool" where
  "local_char c \<longleftrightarrow> is_letter c \<or> is_ascii_digit c \<or> c \<in> set (text_of ''._%+-'')"

definition domain_char :: "nat \<Rightarrow> bool" where
  "domain_char c \<longleftrightarrow> is_letter c \<or> is_ascii_digit c \<or> c \<in> set (text_of ''.-'')"

text \<open>After the \<open>@\<close>: the domain, a dot, and at least two letters up to a boundary.\<close>

definition domain_end :: "unicode \<Rightarrow> utext \<Rightarrow> nat \<Rightarrow> nat option" where
  "domain_end u text start =
    longest 1 (length (takeWhile domain_char (drop start text))) (\<lambda>n.
      if next_char (drop (start + n) text) \<noteq> Some (of_char (CHR ''.'')) then None
      else (let letters = start + n + 1
            in longest 2 (length (takeWhile is_letter (drop letters text)))
                 (\<lambda>k. if boundary_at u text (letters + k) then Some (letters + k) else None)))"

definition email_at :: "unicode \<Rightarrow> pattern" where
  "email_at u prev text =
    (let run = length (takeWhile local_char text)
     in if boundary u prev (next_char text) \<and> 0 < run \<and> next_char (drop run text) = Some (of_char (CHR ''@''))
        then domain_end u text (run + 1) else None)"

definition hidden_text :: utext where
  "hidden_text = [91, 24050, 38544, 34255, 30340, 20010, 20154, 20449, 24687, 93]"

text \<open>The character with its UTF-8 bytes; nothing beyond three bytes is ever encoded.\<close>

definition utf8 :: "nat \<Rightarrow> string" where
  "utf8 c =
    (if c < 128 then [char_of c]
     else if c < 2048 then [char_of (192 + c div 64), char_of (128 + c mod 64)]
     else [char_of (224 + c div 4096), char_of (128 + c div 64 mod 64), char_of (128 + c mod 64)])"

definition literal_order_ids :: "unicode \<Rightarrow> utext \<Rightarrow> string list" where
  "literal_order_ids u content =
     take 16 (dict_fromkeys (map (\<lambda>m. concat (map utf8 (map upper_letter m))) (find_all (order_id_at u) None 0 content)))"

section \<open>Cues\<close>

definition override_cues :: "utext list" where
  "override_cues =
    [[24573, 30053, 35268, 21017],
     [24573, 30053, 20043, 21069],
     [24573, 30053, 31995, 32479],
     [32469, 36807, 25351, 20196],
     text_of ''system prompt'',
     text_of ''developer message'',
     text_of ''ignore previous'',
     text_of ''ignore all'']"

definition prohibited_topic_cues :: "utext list" where
  "prohibited_topic_cues =
    [[36864, 27454],
     [36180, 20607],
     [34917, 20607],
     [36864, 36135],
     [25442, 36135],
     text_of ''refund'',
     text_of ''compensate'',
     text_of ''return'',
     text_of ''exchange'']"

definition prohibited_action_cues :: "utext list" where
  "prohibited_action_cues =
    [[35201, 36864, 27454],
     [32473, 25105, 36864, 27454],
     [24110, 25105, 36864, 27454],
     [24182, 36864, 27454],
     [30003, 35831, 36864, 27454],
     [31435, 21363, 36864, 27454],
     [39532, 19978, 36864, 27454],
     [35201, 36180, 20607],
     [32473, 25105, 36180, 20607],
     [24110, 25105, 36180, 20607],
     [30003, 35831, 36180, 20607],
     [35201, 36864, 36135],
     [24110, 25105, 36864, 36135],
     [30003, 35831, 36864, 36135],
     [35201, 25442, 36135],
     [24110, 25105, 25442, 36135],
     [30003, 35831, 25442, 36135],
     text_of ''refund me'',
     text_of ''compensate me'']"

definition refund_return_info_cues :: "utext list" where
  "refund_return_info_cues =
    [[24590, 20040, 36864, 27454],
     [22914, 20309, 36864, 27454],
     [36864, 27454, 27969, 31243],
     [36864, 27454, 35268, 21017],
     [36864, 27454, 25919, 31574],
     [24590, 20040, 36864, 36135],
     [22914, 20309, 36864, 36135],
     [36864, 36135, 27969, 31243],
     [36864, 36135, 35268, 21017],
     [36864, 36135, 25919, 31574],
     [25442, 36135, 27969, 31243],
     [36180, 20184, 35268, 21017],
     text_of ''refund policy'',
     text_of ''return policy'']"

definition signed_cues :: "utext list" where
  "signed_cues =
    [[31614, 25910],
     [24050, 36865, 36798],
     [26174, 31034, 36865, 36798],
     text_of ''delivered'',
     text_of ''signed'']"

definition missing_parcel_cues :: "utext list" where
  "missing_parcel_cues =
    [[27809, 25910, 21040],
     [27809, 26377, 25910, 21040],
     [26410, 25910, 21040],
     [25214, 19981, 21040],
     [27809, 25343, 21040],
     text_of ''not received'',
     text_of ''missing'']"

definition stalled_cues :: "utext list" where
  "stalled_cues =
    [[27809, 26356, 26032],
     [26410, 26356, 26032],
     [27809, 26377, 26356, 26032],
     [27809, 26377, 29289, 27969, 26356, 26032],
     [29289, 27969, 27809, 26377, 26356, 26032],
     [19981, 21160, 20102],
     [21345, 20303],
     [21345, 22312],
     [20572, 28382],
     [19968, 30452, 22312, 36816, 36755],
     [21482, 25910, 21040, 19968, 37096, 20998],
     [21097, 19979, 30340, 21253, 35065],
     text_of ''no update'',
     text_of ''stalled'']"

definition logistics_cues :: "utext list" where
  "logistics_cues =
    [[24555, 36882],
     [29289, 27969],
     [21253, 35065],
     [36816, 21333],
     [37197, 36865],
     [35746, 21333],
     text_of ''tracking'',
     text_of ''parcel'']"

definition capability_help_cues :: "utext list" where
  "capability_help_cues =
    [[33021, 24110, 25105, 20570, 20160, 20040],
     [33021, 24110, 25105, 20160, 20040],
     [21487, 20197, 20570, 20160, 20040],
     [25903, 25345, 20160, 20040],
     [20320, 20250, 20160, 20040],
     text_of ''what can you do'']"

definition order_id_help_cues :: "utext list" where
  "order_id_help_cues =
    [[35746, 21333, 21495, 22312, 21738, 37324],
     [35746, 21333, 21495, 22312, 21738],
     [24590, 20040, 25214, 35746, 21333, 21495],
     [22914, 20309, 25214, 35746, 21333, 21495],
     [35746, 21333, 21495, 26159, 20160, 20040],
     text_of ''where is my order id'']"

definition tracking_status_cues :: "utext list" where
  "tracking_status_cues =
    [[29289, 27969, 21040, 21738],
     [24555, 36882, 21040, 21738],
     [21253, 35065, 21040, 21738],
     [26597, 19979, 29289, 27969],
     [26597, 19968, 19979, 29289, 27969],
     [29616, 22312, 20160, 20040, 24773, 20917],
     [24403, 21069, 20160, 20040, 24773, 20917],
     text_of ''where is my package'']"

definition delivery_eta_cues :: "utext list" where
  "delivery_eta_cues =
    [[20160, 20040, 26102, 20505, 21040],
     [22810, 20037, 33021, 21040],
     [20960, 22825, 36865, 21040],
     [39044, 35745, 36865, 36798],
     [22823, 27010, 20160, 20040, 26102, 20505],
     text_of ''when will it arrive'']"

definition change_delivery_cues :: "utext list" where
  "change_delivery_cues =
    [[25913, 22320, 22336],
     [20462, 25913, 22320, 22336],
     [25442, 22320, 22336],
     [25913, 25910, 36135, 22320, 22336],
     [20462, 25913, 25910, 36135, 22320, 22336],
     [25913, 30005, 35805],
     [20462, 25913, 25910, 36135, 30005, 35805],
     [25913, 25910, 20214, 20154],
     [37197, 36865, 22791, 27880],
     text_of ''change address'']"

definition human_support_cues :: "utext list" where
  "human_support_cues =
    [[20154, 24037, 23458, 26381],
     [25214, 20154, 24037],
     [36716, 20154, 24037],
     [32852, 31995, 20154, 24037],
     text_of ''human support'',
     text_of ''human agent'']"

definition thanks_close_cues :: "utext list" where
  "thanks_close_cues =
    [[35874, 35874],
     [24863, 35874],
     [30693, 36947, 20102],
     [26126, 30333, 20102],
     [20877, 35265],
     text_of ''thank you'',
     text_of ''thanks'',
     text_of ''goodbye'']"

definition help_cues :: "utext list" where
  "help_cues =
    [[26377, 38382, 39064],
     [24322, 24120],
     [24590, 20040, 21150],
     text_of ''help'']"

section \<open>Classification\<close>

definition known_risk_flags :: "string list" where
  "known_risk_flags = [''instruction_override_attempt'', ''prohibited_action_request'', ''multiple_order_ids'',
     ''unnecessary_personal_data'']"

definition deterministic_risk_flags :: "unicode \<Rightarrow> utext \<Rightarrow> string list \<Rightarrow> string list" where
  "deterministic_risk_flags u content order_ids =
    (let lowered = uc_casefold u content;
         observed = (if contains_any lowered override_cues then [''instruction_override_attempt''] else []) @
           (if contains_any lowered prohibited_action_cues then [''prohibited_action_request''] else []) @
           (if 1 < length order_ids then [''multiple_order_ids''] else []) @
           (if find_all (phone_at u) None 0 content \<noteq> [] \<or> find_all (email_at u) None 0 content \<noteq> []
            then [''unnecessary_personal_data''] else [])
     in filter (\<lambda>flag. flag \<in> set observed) known_risk_flags)"

definition normalize_triage_result :: "unicode \<Rightarrow> utext \<Rightarrow> triage_result \<Rightarrow> triage_result result" where
  "normalize_triage_result u content r =
    (let order_ids = literal_order_ids u content;
         observed = set (tg_risk_flags r) \<inter> set known_risk_flags \<union> set (deterministic_risk_flags u content order_ids)
     in check_triage_result \<lparr>tg_intent = tg_intent r, tg_risk_flags = filter (\<lambda>flag. flag \<in> observed) known_risk_flags,
          tg_order_ids_mentioned = order_ids, tg_confidence = tg_confidence r\<rparr>)"

text \<open>The branches of \<open>classify_mock\<close> over the lowered message and whether it mentions an order.\<close>

definition mock_intent :: "utext \<Rightarrow> bool \<Rightarrow> triage_intent \<times> rat" where
  "mock_intent lowered mentions_order =
    (let has = contains_any lowered;
         stalled = has stalled_cues;
         missing = has missing_parcel_cues;
         signed = (missing \<and> (has signed_cues \<or> \<not> stalled));
         logistics = (mentions_order \<or> has logistics_cues);
         prohibited_action = has prohibited_action_cues;
         refund_return_info = (has refund_return_info_cues \<or> has prohibited_topic_cues \<and> \<not> prohibited_action)
     in if signed then (TI_SIGNED_NOT_RECEIVED, 98 / 100)
        else if stalled then (TI_STALLED_TRACKING, 96 / 100)
        else if has capability_help_cues then (TI_CAPABILITY_HELP, 94 / 100)
        else if has order_id_help_cues then (TI_ORDER_ID_HELP, 96 / 100)
        else if has human_support_cues then (TI_HUMAN_SUPPORT_REQUEST, 98 / 100)
        else if has delivery_eta_cues then (TI_DELIVERY_ETA_INFO, 92 / 100)
        else if has change_delivery_cues then (TI_CHANGE_DELIVERY_INFO, 96 / 100)
        else if refund_return_info then (TI_REFUND_RETURN_INFO, 94 / 100)
        else if has thanks_close_cues then (TI_THANKS_CLOSE, 96 / 100)
        else if has tracking_status_cues then (TI_TRACKING_STATUS_QUERY, 9 / 10)
        else if logistics \<and> prohibited_action then (TI_PROHIBITED, 91 / 100)
        else if logistics \<and> has help_cues then (TI_AMBIGUOUS, 72 / 100)
        else if logistics then (TI_OTHER_LOGISTICS, 78 / 100)
        else if prohibited_action then (TI_PROHIBITED, 86 / 100)
        else (TI_OUT_OF_SCOPE, 93 / 100))"

definition classify_mock :: "unicode \<Rightarrow> utext \<Rightarrow> triage_result result" where
  "classify_mock u content =
    (let order_ids = literal_order_ids u content
     in case mock_intent (uc_casefold u content) (order_ids \<noteq> []) of
          (intent, confidence) \<Rightarrow> check_triage_result \<lparr>tg_intent = intent,
            tg_risk_flags = deterministic_risk_flags u content order_ids, tg_order_ids_mentioned = order_ids,
            tg_confidence = confidence\<rparr>)"

section \<open>Validation of a message\<close>

record validated_message =
  vm_content :: utext
  vm_trace_content :: utext
  vm_had_unnecessary_personal_data :: bool

definition strip_text :: "utext \<Rightarrow> utext" where
  "strip_text text = rev (dropWhile is_space (rev (dropWhile is_space text)))"

fun decimal_text :: "nat \<Rightarrow> utext" where
  "decimal_text n = (if n < 10 then [48 + n] else decimal_text (n div 10) @ [48 + n mod 10])"

declare decimal_text.simps [simp del]

definition redact :: "unicode \<Rightarrow> utext \<Rightarrow> utext" where
  "redact u text = sub_all (email_at u) hidden_text None 0 (sub_all (phone_at u) hidden_text None 0 text)"

text \<open>\<open>Inl\<close> is the message of a \<open>MessageValidationError\<close>.\<close>

definition validate_customer_message :: "unicode \<Rightarrow> nat \<Rightarrow> utext \<Rightarrow> utext + validated_message" where
  "validate_customer_message u max_chars content =
    (let normalized = strip_text content;
         without_phones = sub_all (phone_at u) hidden_text None 0 normalized
     in if normalized = [] then Inl [35831, 36755, 20837, 38656, 35201, 26680, 26597, 30340, 29289, 27969, 38382,
                                     39064, 12290]
        else if max_chars < length normalized then Inl ([28040, 24687, 19981, 33021, 36229, 36807, 32] @ decimal_text max_chars @ [32, 20010, 23383, 31526, 12290])
        else Inr \<lparr>vm_content = normalized, vm_trace_content = redact u normalized,
          vm_had_unnecessary_personal_data = (find_all (phone_at u) None 0 normalized \<noteq> [] \<or>
            find_all (email_at u) None 0 without_phones \<noteq> [])\<rparr>)"

section \<open>What the classification keeps\<close>

lemma literal_order_ids_accepted: "length (literal_order_ids u content) \<le> 16" "distinct (literal_order_ids u content)"
  by (simp_all add: literal_order_ids_def distinct_take)

lemma known_flags_accepted: "length (filter P known_risk_flags) \<le> 16" "distinct (filter P known_risk_flags)"
  using length_filter_le [of P known_risk_flags] by (simp_all add: known_risk_flags_def)

lemma risk_flags_known: "set (deterministic_risk_flags u content ids) \<subseteq> set known_risk_flags"
  by (auto simp: deterministic_risk_flags_def Let_def)

lemma check_triage_accepts:
  assumes "length (tg_risk_flags t) \<le> 16" "length (tg_order_ids_mentioned t) \<le> 16" "0 \<le> tg_confidence t"
    "tg_confidence t \<le> 1" "distinct (tg_risk_flags t)" "distinct (tg_order_ids_mentioned t)"
  shows "check_triage_result t = Inr t"
  using assms by (simp add: check_triage_result_def)

lemma check_triage_bounds: "check_triage_result t = Inr r \<Longrightarrow> 0 \<le> tg_confidence t \<and> tg_confidence t \<le> 1"
  by (auto simp: check_triage_result_def split: if_splits)

text \<open>C39. Whatever a live model answers within its schema, the result that counts is accepted and keeps the model's
  intent and confidence; it mentions exactly the order ids that are literally in the message, in place of the model's;
  and its risk flags are, in their canonical order, those that the server observes in the message together with the
  known ones among the model's: a model can neither add an order nor hide a risk, but it can raise a known flag.\<close>

theorem model_adds_no_order_and_hides_no_risk:
  assumes "check_triage_result r = Inr r"
  shows "\<exists>t. normalize_triage_result u content r = Inr t \<and> tg_intent t = tg_intent r \<and>
    tg_confidence t = tg_confidence r \<and> tg_order_ids_mentioned t = literal_order_ids u content \<and>
    tg_risk_flags t = filter (\<lambda>flag. flag \<in> set (deterministic_risk_flags u content (literal_order_ids u content)) \<union>
      set (tg_risk_flags r)) known_risk_flags \<and>
    set (tg_risk_flags t) = set (deterministic_risk_flags u content (literal_order_ids u content)) \<union>
      (set (tg_risk_flags r) \<inter> set known_risk_flags)"
proof -
  let ?known = "set (tg_risk_flags r) \<inter> set known_risk_flags"
  let ?observed = "set (deterministic_risk_flags u content (literal_order_ids u content))"
  have "filter (\<lambda>flag. flag \<in> ?known \<union> ?observed) known_risk_flags =
      filter (\<lambda>flag. flag \<in> ?observed \<union> set (tg_risk_flags r)) known_risk_flags"
    by (rule filter_cong) auto
  then show ?thesis
    using check_triage_bounds [OF assms] risk_flags_known [of u content "literal_order_ids u content"]
    by (simp add: normalize_triage_result_def Let_def check_triage_accepts known_flags_accepted literal_order_ids_accepted)
      auto
qed

lemma mock_confidence: "0 \<le> snd (mock_intent l b) \<and> snd (mock_intent l b) \<le> 1"
  by (simp add: mock_intent_def Let_def)

lemma classify_mock_total:
  "\<exists>t. classify_mock u content = Inr t \<and> tg_order_ids_mentioned t = literal_order_ids u content"
proof -
  have "length (deterministic_risk_flags u content ids) \<le> 16 \<and> distinct (deterministic_risk_flags u content ids)" for ids
    using known_flags_accepted by (simp add: deterministic_risk_flags_def Let_def)
  then show ?thesis
    using mock_confidence [of "uc_casefold u content" "literal_order_ids u content \<noteq> []"]
    by (simp add: classify_mock_def Let_def split_def check_triage_accepts literal_order_ids_accepted)
qed

lemma longest_Some: "longest l m f = Some x \<Longrightarrow> \<exists>n \<ge> l. n \<le> m \<and> f n = Some x"
  by (auto simp: longest_def Option.bind_eq_Some_conv dest!: find_SomeD) (auto intro: less_imp_le)

section \<open>Order ids next to other letters\<close>

text \<open>An order id must be delimited by a boundary of words.  Chinese characters are word characters: an id that is
  followed by one without a space is not found, and of an id with a hyphen only the part before the hyphen is.\<close>

text \<open>What is used of the Unicode tables.\<close>

definition unicode_sound :: "unicode \<Rightarrow> bool" where
  "unicode_sound u \<longleftrightarrow> (\<forall>c \<in> {48..57}. uc_digit u c) \<and> (\<forall>c. uc_digit u c \<longrightarrow> uc_word u c) \<and>
     (\<forall>c. is_letter c \<longrightarrow> uc_word u c) \<and> list_all (\<lambda>c. \<not> uc_digit u c) hidden_text"

definition demo_unicode :: unicode where
  "demo_unicode = \<lparr>uc_casefold = (\<lambda>t. t), uc_word = (\<lambda>c. is_letter c \<or> is_ascii_digit c \<or> 128 \<le> c),
    uc_digit = is_ascii_digit\<rparr>"

lemma demo_unicode_sound: "unicode_sound demo_unicode"
  by (auto simp: unicode_sound_def demo_unicode_def is_ascii_digit_def hidden_text_def)

lemma boundary_at_Suc:
  "n < length msg \<Longrightarrow> boundary_at u msg (Suc n) \<longleftrightarrow>
    uc_word u (msg ! n) \<noteq> opt_holds (uc_word u) (next_char (drop (Suc n) msg))"
  by (simp add: boundary_at_def boundary_def opt_holds_def next_char_def Cons_nth_drop_Suc [symmetric])

lemma longest_None: "(\<And>n. l \<le> n \<Longrightarrow> n \<le> m \<Longrightarrow> f n = None) \<Longrightarrow> longest l m f = None"
  by (cases "longest l m f") (fastforce dest: longest_Some)+

lemma takeWhile_before: "list_all P xs \<Longrightarrow> \<not> P c \<Longrightarrow> takeWhile P (xs @ c # ys) = xs"
  by (induction xs) auto

text \<open>C40. An order id of letters and digits that a word character follows at once, as Chinese text without a space
  does, is not recognised, whatever precedes and follows.\<close>

theorem glued_order_id_not_found:
  assumes "unicode_sound u" and "list_all (\<lambda>c. is_letter c \<or> is_ascii_digit c) run"
    and "uc_word u c" and "\<not> order_id_char c"
  shows "order_id_at u prev (text_of ''ORD-'' @ run @ c # rest) = None"
proof -
  let ?msg = "text_of ''ORD-'' @ run @ c # rest"
  have four: "length (text_of ''ORD-'') = 4" by (simp add: text_of_def)
  have words: "list_all (uc_word u) (run @ [c])"
    using assms by (auto simp: list_all_iff unicode_sound_def is_ascii_digit_def)
  have run: "length (takeWhile order_id_char (drop 4 ?msg)) = length run"
    using assms(2,4) by (subst takeWhile_before [symmetric, of order_id_char run c rest])
      (auto simp: four list_all_iff order_id_char_def)
  have "\<not> boundary_at u ?msg n" if "5 \<le> n" "n \<le> 4 + length run" for n
  proof -
    define k where "k = n - 5"
    have n: "n = Suc (4 + k)" "k < length run" using that by (auto simp: k_def)
    have here: "?msg ! (4 + k) = (run @ [c]) ! k" using n by (simp add: nth_append four)
    have "drop (Suc (4 + k)) ?msg = drop (Suc k) (run @ [c]) @ rest" using n by (simp add: four)
    then have after: "next_char (drop (Suc (4 + k)) ?msg) = Some ((run @ [c]) ! Suc k)"
      using n by (simp add: next_char_def Cons_nth_drop_Suc [symmetric, of "Suc k" "run @ [c]"] del: drop_append)
    have "uc_word u ((run @ [c]) ! k)" "uc_word u ((run @ [c]) ! Suc k)"
      using words n(2) unfolding list_all_length by simp_all
    then have "uc_word u (?msg ! (4 + k)) = opt_holds (uc_word u) (next_char (drop (Suc (4 + k)) ?msg))"
      unfolding here after by (simp add: opt_holds_def)
    moreover have "4 + k < length ?msg" using n(2) by (simp add: four)
    ultimately show ?thesis unfolding n(1) by (simp only: boundary_at_Suc)
  qed
  then have "longest 5 (4 + length run) (\<lambda>n. if boundary_at u ?msg n then Some n else None) = None"
    by (intro longest_None) simp
  then show ?thesis unfolding order_id_at_def Let_def run by simp
qed

theorem glued_order_id_not_found_witness:
  "order_id_at demo_unicode None (text_of ''ORD-'' @ text_of ''001'' @ 27809 # []) = None"
proof (rule glued_order_id_not_found [OF demo_unicode_sound])
  show "list_all (\<lambda>c. is_letter c \<or> is_ascii_digit c) (text_of ''001'')"
    unfolding list_all_iff by (simp add: is_ascii_digit_def text_of_def)
  show "uc_word demo_unicode 27809" by (simp add: demo_unicode_def)
  show "\<not> order_id_char 27809" by (simp add: order_id_char_def is_letter_def is_ascii_digit_def)
qed

theorem model_adds_no_order_and_hides_no_risk_witness:
  "\<exists>t. normalize_triage_result demo_unicode (text_of ''hi'')
      \<lparr>tg_intent = TI_OUT_OF_SCOPE, tg_risk_flags = [], tg_order_ids_mentioned = [''ORD-9''], tg_confidence = 1\<rparr> =
      Inr t \<and> tg_order_ids_mentioned t = []"
proof -
  have "literal_order_ids demo_unicode (text_of ''hi'') = []"
    by (simp add: literal_order_ids_def text_of_def order_id_at_def)
  with model_adds_no_order_and_hides_no_risk [of "\<lparr>tg_intent = TI_OUT_OF_SCOPE, tg_risk_flags = [],
      tg_order_ids_mentioned = [''ORD-9''], tg_confidence = 1\<rparr>" demo_unicode "text_of ''hi''"]
  show ?thesis by (auto simp: check_triage_result_def)
qed

section \<open>No telephone number is stored\<close>

definition keeps_digit_runs :: "unicode \<Rightarrow> pattern \<Rightarrow> bool" where
  "keeps_digit_runs u p \<longleftrightarrow> (\<forall>prev msg n. p prev msg = Some n \<longrightarrow> 0 < n \<and> n \<le> length msg \<and>
     \<not> (opt_holds (uc_digit u) prev \<and> opt_holds (uc_digit u) (next_char msg)) \<and>
     \<not> opt_holds (uc_digit u) (next_char (drop n msg)))"

lemma takeWhile_length_iff:
  "length (takeWhile D xs) = n \<longleftrightarrow> n \<le> length xs \<and> list_all D (take n xs) \<and> \<not> opt_holds D (next_char (drop n xs))"
proof (induction xs arbitrary: n)
  case Nil
  then show ?case by (simp add: next_char_def opt_holds_def)
next
  case (Cons x xs)
  then show ?case by (cases n) (auto simp: next_char_def opt_holds_def)
qed

text \<open>Whether a telephone number starts here depends on the run of digits that starts here.\<close>

lemma phone_at_run:
  assumes "unicode_sound u"
  shows "phone_at u prev msg \<noteq> None \<longleftrightarrow> \<not> opt_holds (uc_digit u) prev \<and>
    (let run = takeWhile (uc_digit u) msg in length run = 11 \<and> run ! 0 = 49 \<and> run ! 1 \<in> {51..57})"
proof (cases "\<exists>a b cs. msg = a # b # cs \<and> uc_digit u a \<and> uc_digit u b")
  case True
  then obtain a b cs where t: "msg = a # b # cs" "uc_digit u a" "uc_digit u b" by blast
  have run: "takeWhile (uc_digit u) msg = a # b # takeWhile (uc_digit u) cs" using t by simp
  have "phone_at u prev msg \<noteq> None \<longleftrightarrow>
      \<not> opt_holds (uc_digit u) prev \<and> a = 49 \<and> b \<in> {51..57} \<and> length (takeWhile (uc_digit u) cs) = 9"
    unfolding takeWhile_length_iff by (simp add: phone_at_def t)
  then show ?thesis by (simp add: run Let_def) auto
next
  case False
  have "phone_at u prev msg = None"
  proof (rule ccontr)
    assume "phone_at u prev msg \<noteq> None"
    then obtain a b cs where t: "msg = a # b # cs" "a = 49" "b \<in> {51..57}"
      by (auto simp: phone_at_def split: list.splits if_splits)
    with assms have "uc_digit u a" "uc_digit u b" by (simp_all add: unicode_sound_def)
    with t False show False by blast
  qed
  moreover have "length (takeWhile (uc_digit u) msg) < 2"
    using False by (cases msg; cases "tl msg") auto
  ultimately show ?thesis by (auto simp: Let_def)
qed

lemma phone_keeps_digit_runs: "keeps_digit_runs u (phone_at u)"
  by (auto simp: keeps_digit_runs_def phone_at_def split: list.splits if_splits)

lemma domain_end_Some:
  assumes "domain_end u msg start = Some n"
  shows "start < n \<and> n \<le> length msg \<and> is_letter (msg ! (n - 1)) \<and> boundary_at u msg n"
proof -
  from longest_Some [OF assms [unfolded domain_end_def]] obtain k where
    "(if next_char (drop (start + k) msg) \<noteq> Some (of_char (CHR ''.'')) then None
      else (let letters = start + k + 1
            in longest 2 (length (takeWhile is_letter (drop letters msg)))
                 (\<lambda>k. if boundary_at u msg (letters + k) then Some (letters + k) else None))) = Some n" by blast
  then have "longest 2 (length (takeWhile is_letter (drop (start + k + 1) msg)))
      (\<lambda>j. if boundary_at u msg (start + k + 1 + j) then Some (start + k + 1 + j) else None) = Some n"
    by (simp only: Let_def split: if_splits) simp_all
  from longest_Some [OF this] obtain m where
    m: "2 \<le> m" "m \<le> length (takeWhile is_letter (drop (start + k + 1) msg))" and
    found: "(if boundary_at u msg (start + k + 1 + m) then Some (start + k + 1 + m) else None) = Some n"
    by (elim exE conjE)
  from found have n: "n = start + k + 1 + m" "boundary_at u msg n" by (simp_all split: if_splits)
  let ?run = "takeWhile is_letter (drop (start + k + 1) msg)"
  have "length ?run \<le> length (drop (start + k + 1) msg)" by (rule length_takeWhile_le)
  then have "m \<le> length msg - (start + k + 1)" using m(2) unfolding length_drop by (rule order_trans [rotated])
  then have len: "n \<le> length msg" using m(1) n(1) by arith
  have "?run ! (m - 1) \<in> set ?run" using m by (intro nth_mem) linarith
  then have "is_letter (?run ! (m - 1))" by (rule set_takeWhileD [THEN conjunct2])
  moreover have "?run ! (m - 1) = msg ! (n - 1)"
    using m n len by (simp add: takeWhile_nth)
  ultimately show ?thesis using len n m by simp
qed

lemma email_keeps_digit_runs:
  assumes "unicode_sound u"
  shows "keeps_digit_runs u (email_at u)"
  unfolding keeps_digit_runs_def
proof (intro allI impI)
  fix prev msg n
  assume run: "email_at u prev msg = Some n"
  then have start: "boundary u prev (next_char msg)"
    and tail: "domain_end u msg (length (takeWhile local_char msg) + 1) = Some n"
    by (auto simp: email_at_def Let_def split: if_splits)
  note n = domain_end_Some [OF tail]
  have words: "uc_digit u c \<Longrightarrow> uc_word u c" "is_letter c \<Longrightarrow> uc_word u c" for c
    using assms by (simp_all add: unicode_sound_def)
  have "\<not> (opt_holds (uc_digit u) prev \<and> opt_holds (uc_digit u) (next_char msg))"
    using start words by (auto simp: boundary_def opt_holds_def split: option.splits)
  moreover have "drop (n - 1) msg = msg ! (n - 1) # drop n msg"
    using n by (metis Cons_nth_drop_Suc Suc_diff_1 diff_less gr_implies_not0 le_less_trans less_le_trans not_gr0 zero_less_one)
  then have "\<not> opt_holds (uc_digit u) (next_char (drop n msg))"
    using n words by (auto simp: boundary_at_def boundary_def opt_holds_def next_char_def split: option.splits list.splits)
  ultimately show "0 < n \<and> n \<le> length msg \<and>
     \<not> (opt_holds (uc_digit u) prev \<and> opt_holds (uc_digit u) (next_char msg)) \<and>
     \<not> opt_holds (uc_digit u) (next_char (drop n msg))" using n by auto
qed

text \<open>Going on after a match, and inside the replacement.\<close>

lemma sub_all_skip:
  "k < length msg \<Longrightarrow> sub_all p repl prev (Suc k) msg = sub_all p repl (Some (msg ! k)) 0 (drop (Suc k) msg)"
proof (induction k arbitrary: prev msg)
  case 0
  then show ?case by (cases msg) auto
next
  case (Suc k)
  then show ?case by (cases msg) auto
qed

lemma find_all_skip:
  "k < length msg \<Longrightarrow> find_all p prev (Suc k) msg = find_all p (Some (msg ! k)) 0 (drop (Suc k) msg)"
proof (induction k arbitrary: prev msg)
  case 0
  then show ?case by (cases msg) auto
next
  case (Suc k)
  then show ?case by (cases msg) auto
qed

lemma find_all_drop:
  "find_all p prev 0 msg = [] \<Longrightarrow> k < length msg \<Longrightarrow> find_all p (Some (msg ! k)) 0 (drop (Suc k) msg) = []"
proof (induction k arbitrary: prev msg)
  case 0
  then show ?case by (cases msg) (auto split: option.splits)
next
  case (Suc k)
  then show ?case by (cases msg) (auto split: option.splits)
qed

lemma phone_at_nondigit: "unicode_sound u \<Longrightarrow> \<not> uc_digit u c \<Longrightarrow> phone_at u prev (c # cs) = None"
  using phone_at_run [of u prev "c # cs"] by auto

lemma find_all_nondigits:
  assumes "unicode_sound u" and "list_all (\<lambda>c. \<not> uc_digit u c) repl" and "repl \<noteq> []"
  shows "find_all (phone_at u) prev 0 (repl @ msg) = find_all (phone_at u) (Some (last repl)) 0 msg"
  using assms(2,3)
proof (induction repl arbitrary: prev)
  case (Cons c repl)
  then show ?case by (cases repl) (simp_all add: phone_at_nondigit [OF assms(1)])
qed simp

text \<open>A substitution that respects runs of digits keeps the run at the start of what follows a digit.\<close>

lemma sub_all_run:
  assumes "keeps_digit_runs u p" and "list_all (\<lambda>c. \<not> uc_digit u c) repl" and "repl \<noteq> []"
  shows "opt_holds (uc_digit u) prev \<Longrightarrow> takeWhile (uc_digit u) (sub_all p repl prev 0 msg) = takeWhile (uc_digit u) msg"
proof (induction msg arbitrary: prev)
  case (Cons c cs)
  have next_c: "next_char (c # cs) = Some c" by (simp add: next_char_def)
  show ?case
  proof (cases "p prev (c # cs)")
    case None
    then show ?thesis using Cons.IH [of "Some c"] by (simp add: opt_holds_def)
  next
    case (Some n)
    have "\<not> uc_digit u c"
      using assms(1) [unfolded keeps_digit_runs_def, rule_format, OF Some] Cons.prems
      by (simp add: next_c opt_holds_def)
    then show ?thesis using Some assms(2,3) by (cases repl) simp_all
  qed
qed simp

lemma sub_all_free_of_phones:
  assumes "unicode_sound u" and "keeps_digit_runs u p" and "list_all (\<lambda>c. \<not> uc_digit u c) repl" and "repl \<noteq> []"
  shows "p = phone_at u \<or> find_all (phone_at u) prev 0 msg = [] \<Longrightarrow>
    opt_holds (uc_digit u) prev = opt_holds (uc_digit u) prev' \<or> \<not> opt_holds (uc_digit u) (next_char msg) \<Longrightarrow>
    find_all (phone_at u) prev' 0 (sub_all p repl prev 0 msg) = []"
proof (induction "length msg" arbitrary: msg prev prev' rule: less_induct)
  case less
  show ?case
  proof (cases msg)
    case (Cons c cs)
    show ?thesis
    proof (cases "p prev msg")
      case None
      let ?rest = "sub_all p repl (Some c) 0 cs"
      have free: "phone_at u prev msg = None" "p = phone_at u \<or> find_all (phone_at u) (Some c) 0 cs = []"
        using less.prems(1) None Cons by (auto split: option.splits)
      have "phone_at u prev' (c # ?rest) = None"
      proof (cases "uc_digit u c")
        case True
        have "takeWhile (uc_digit u) (c # ?rest) = takeWhile (uc_digit u) msg"
          using sub_all_run [OF assms(2-4), of "Some c" cs] True Cons by (simp add: opt_holds_def)
        moreover have "opt_holds (uc_digit u) prev = opt_holds (uc_digit u) prev'"
          using less.prems(2) True Cons by (simp add: next_char_def opt_holds_def)
        ultimately show ?thesis
          using free(1) phone_at_run [OF assms(1), of prev msg] phone_at_run [OF assms(1), of prev' "c # ?rest"] by metis
      qed (rule phone_at_nondigit [OF assms(1)])
      moreover have "find_all (phone_at u) (Some c) 0 ?rest = []"
        using less.hyps [of cs "Some c" "Some c"] free(2) Cons by simp
      ultimately show ?thesis using None Cons by simp
    next
      case (Some n)
      with assms(2) have n: "0 < n" "n \<le> length msg" "\<not> opt_holds (uc_digit u) (next_char (drop n msg))"
        by (auto simp: keeps_digit_runs_def)
      obtain prev2 where rest: "sub_all p repl (Some c) (n - 1) cs = sub_all p repl prev2 0 (drop n msg)"
        and free: "p = phone_at u \<or> find_all (phone_at u) prev2 0 (drop n msg) = []"
      proof (cases "n - 1")
        case 0
        with n have "n = 1" by simp
        with that [of "Some c"] less.prems(1) Cons show thesis by (simp split: option.splits)
      next
        case (Suc k)
        from Suc n have whole: "n = Suc (Suc k)" by simp
        with n Cons have k: "k < length cs" "drop (Suc k) cs = drop n msg" "Suc k < length msg" "n = Suc (Suc k)" by auto
        show thesis
        proof (rule that)
          show "sub_all p repl (Some c) (n - 1) cs = sub_all p repl (Some (cs ! k)) 0 (drop n msg)"
            using sub_all_skip [OF k(1)] k Suc by simp
          show "p = phone_at u \<or> find_all (phone_at u) (Some (cs ! k)) 0 (drop n msg) = []"
            using less.prems(1) find_all_drop [OF _ k(3), of "phone_at u" prev] by (auto simp: k(4) Cons)
        qed
      qed
      have "find_all (phone_at u) (Some (last repl)) 0 (sub_all p repl prev2 0 (drop n msg)) = []"
        using less.hyps [of "drop n msg" prev2 "Some (last repl)"] free n by auto
      then show ?thesis using Some Cons rest find_all_nondigits [OF assms(1,3,4)] by simp
    qed
  qed simp
qed

text \<open>C12. The text of a validated message that is stored and told to the client holds no telephone number any
  more: eleven digits that start as a mobile number and stand alone.  Neither redaction can make two runs of
  digits into one.\<close>

theorem stored_message_hides_phones:
  assumes "unicode_sound u" and "validate_customer_message u limit content = Inr v"
  shows "find_all (phone_at u) None 0 (vm_trace_content v) = []"
proof -
  have hidden: "list_all (\<lambda>c. \<not> uc_digit u c) hidden_text" "hidden_text \<noteq> []"
    using assms(1) by (simp_all add: unicode_sound_def) (simp add: hidden_text_def)
  from assms(2) have "vm_trace_content v = redact u (strip_text content)"
    by (auto simp: validate_customer_message_def Let_def split: if_splits)
  then show ?thesis unfolding redact_def
    using sub_all_free_of_phones [OF assms(1) email_keeps_digit_runs [OF assms(1)] hidden]
      sub_all_free_of_phones [OF assms(1) phone_keeps_digit_runs hidden]
    by simp
qed

theorem stored_message_hides_phones_witness:
  "\<exists>v. validate_customer_message demo_unicode 100 (text_of ''call 13800138000'') = Inr v \<and>
    find_all (phone_at demo_unicode) None 0 (vm_trace_content v) = []"
proof -
  have "\<not> isl (validate_customer_message demo_unicode 100 (text_of ''call 13800138000''))"
    by (simp add: validate_customer_message_def Let_def strip_text_def is_space_def text_of_def)
  then obtain v where "validate_customer_message demo_unicode 100 (text_of ''call 13800138000'') = Inr v"
    by (auto simp: isl_def split: sum.splits) (metis sum.exhaust)
  with stored_message_hides_phones [OF demo_unicode_sound this] show ?thesis by blast
qed

end
