(* ===== verification/MessageHandlers.thy ===== *)
theory MessageHandlers
  imports CaseHandlers Triage
begin

text \<open>
  The handlers of a customer message (\<open>application/service.py\<close>): \<open>submit_message\<close> with every way it ends,
  \<open>_create_and_investigate_case\<close>, the conversation that precedes it, and the tickets that a restart loads.

  \<^item> \<open>opened_message\<close> is what the first transaction of \<open>submit_message\<close> leaves in local variables.
  \<^item> \<open>triage.classify\<close> is the deterministic classifier in mock mode and the normalized answer of the live model
    otherwise.
  \<^item> The dictionaries that the handlers return are \<open>run_reply\<close>s, those of the read models are \<open>json\<close>.
\<close>

section \<open>Receiving a message\<close>

definition unicode_of :: "app_env \<Rightarrow> services \<Rightarrow> unicode" where
  "unicode_of env sc = \<lparr>uc_casefold = ae_casefold env, uc_word = sc_word sc, uc_digit = sc_digit sc\<rparr>"

definition reject_message :: "app_env \<Rightarrow> string \<Rightarrow> utext \<Rightarrow> 'a app" where
  "reject_message env conversation_id summary =
    bindA (read_db (\<lambda>d. Inr (get_conversation d conversation_id \<noteq> None))) (\<lambda>exists.
    thenA (if exists then emit env conversation_id None None ''message_rejected'' ''both'' summary
        [(''reason_code'', JStr ''INVALID_CUSTOMER_MESSAGE'')] else returnA ())
      (raiseA (ApplicationError ''INVALID_CUSTOMER_MESSAGE'' 400)))"

record opened_message =
  om_customer_id :: string
  om_active_case :: "case_row option"
  om_run_id :: string
  om_message_id :: string

definition om_case_id :: "opened_message \<Rightarrow> string option" where
  "om_case_id o' = map_option icr_case_id (om_active_case o')"

text \<open>A message is taken when no case is open, or when the open one waits for the customer.\<close>

definition open_case_for_message :: "database \<Rightarrow> string \<Rightarrow> (conversation_row \<times> case_row option) result" where
  "open_case_for_message d conversation_id =
    (case get_conversation d conversation_id of
       None \<Rightarrow> Inl (ApplicationError ''CONVERSATION_NOT_FOUND'' 404)
     | Some conversation \<Rightarrow>
        (case get_active_case d conversation_id of
           None \<Rightarrow> Inr (conversation, None)
         | Some c \<Rightarrow>
             if icr_case_state c \<noteq> ''awaiting_customer_input''
               then Inl (ApplicationError ''ACTIVE_CASE_REQUIRES_RESOLUTION'' 409)
             else Inr (conversation, Some c)))"

definition open_message :: "app_env \<Rightarrow> string \<Rightarrow> validated_message \<Rightarrow> string \<Rightarrow> opened_message app" where
  "open_message env conversation_id v trace_id =
    transaction
      (bindA (read_db (\<lambda>d. open_case_for_message d conversation_id)) (\<lambda>(conversation, active).
       bindA (new_id_app env ''run'') (\<lambda>run_id.
       bindA (uuid4_hex env) (\<lambda>h.
       bindA (repo env (\<lambda>t d. add_message d h t conversation_id ''customer'' (vm_trace_content v) None
           (map_option icr_case_id active) (Some run_id) (Some trace_id) None)) (\<lambda>message.
       thenA (bindA (uuid4_hex env) (\<lambda>h'. repo env (\<lambda>t d. create_run d h' t None
           ((run_defaults conversation_id ''message'')\<lparr>ra_run_id := Some run_id,
              ra_case_id := map_option icr_case_id active, ra_trace_id := Some trace_id\<rparr>))))
         (returnA \<lparr>om_customer_id = cvr_customer_id conversation, om_active_case = active, om_run_id = run_id,
            om_message_id = msr_message_id message\<rparr>))))))"

definition receive_message :: "app_env \<Rightarrow> string \<Rightarrow> validated_message \<Rightarrow> opened_message \<Rightarrow> unit app" where
  "receive_message env conversation_id v om =
    thenA (emit env conversation_id (om_case_id om) (Some (om_run_id om)) ''message_received'' ''both''
        (text_of ''Customer message accepted'')
        [(''message_id'', JStr (om_message_id om)), (''customer_text'', JText (vm_trace_content v)),
         (''personal_data_redacted'', JBool (vm_had_unnecessary_personal_data v))])
      (start_run env conversation_id (om_run_id om) (om_case_id om))"

section \<open>Triage and policy\<close>

definition classify :: "app_env \<Rightarrow> services \<Rightarrow> utext \<Rightarrow> triage_result app" where
  "classify env sc content =
    (if sc_llm_mode sc = ''mock'' then readA (\<lambda>_. classify_mock (unicode_of env sc) content)
     else bindA (readA (sc_live_triage sc content)) (\<lambda>r. readA (\<lambda>_. normalize_triage_result (unicode_of env sc) content r)))"

definition classify_or_fail :: "app_env \<Rightarrow> services \<Rightarrow> string \<Rightarrow> string \<Rightarrow> utext \<Rightarrow> triage_result app" where
  "classify_or_fail env sc conversation_id run_id content =
    catchA (classify env sc content) (\<lambda>_.
      thenA (fail_run env conversation_id run_id ''TRIAGE_PROVIDER_FAILURE'' ''triage_failed''
          ''Triage failed; no tool was called'' None True None None)
        (raiseA (ApplicationError ''TRIAGE_PROVIDER_FAILURE'' 503)))"

text \<open>A second ambiguous request in a row goes to a human.\<close>

definition enforce_entry_clarification_limit :: "database \<Rightarrow> string \<Rightarrow> policy_decision \<Rightarrow> policy_decision" where
  "enforce_entry_clarification_limit d conversation_id decision =
    (if pd_route decision \<noteq> PT_AMBIGUOUS then decision
     else (case last_opt (list_policy_decisions d conversation_id) of
         None \<Rightarrow> decision
       | Some previous \<Rightarrow>
           if pdr_route previous \<noteq> ''ambiguous'' then decision
           else decision\<lparr>pd_reason_code := ''ENTRY_CLARIFICATION_EXHAUSTED''\<rparr>))"

definition store_decision ::
  "app_env \<Rightarrow> string \<Rightarrow> string \<Rightarrow> string \<Rightarrow> triage_result \<Rightarrow> policy_decision \<Rightarrow> policy_decision app" where
  "store_decision env conversation_id message_id run_id triage routed =
    transaction
      (bindA (read_db (\<lambda>d. Inr (enforce_entry_clarification_limit d conversation_id routed))) (\<lambda>decision.
       bindA (uuid4_hex env) (\<lambda>h.
       bindA (repo env (\<lambda>t d. create_triage_record d h t triage conversation_id message_id run_id None 1 None)) (\<lambda>row.
       bindA (uuid4_hex env) (\<lambda>h'.
       thenA (repo env (\<lambda>t d. create_policy_decision d h' t conversation_id message_id (trr_triage_id row) run_id
           (policy_route_value (pd_route decision)) (pd_supported decision) (pd_reason_code decision) None
           (map_option issue_type_value (pd_canonical_issue_type decision)) (pd_authorized_order_id decision)
           (map fragment_json (pd_blocked_fragments decision)) (pd_risk_flags decision) None))
         (returnA decision))))))"

definition fragment_payload :: "blocked_fragment \<Rightarrow> (string \<times> json) list" where
  "fragment_payload f = [(''category'', JStr (bf_category f)), (''order_id'', json_opt_str (bf_order_id f))]"

definition emit_triage_and_policy :: "app_env \<Rightarrow> string \<Rightarrow> string \<Rightarrow> triage_result \<Rightarrow> policy_decision \<Rightarrow> unit app" where
  "emit_triage_and_policy env conversation_id run_id triage decision =
    thenA (emit env conversation_id None (Some run_id) ''triage_completed'' ''developer''
        (text_of (''Triage classified '' @ triage_intent_value (tg_intent triage)))
        [(''intent'', JStr (triage_intent_value (tg_intent triage))),
         (''risk_flags'', JList (map JStr (tg_risk_flags triage))),
         (''order_ids_mentioned'', JList (map JStr (tg_order_ids_mentioned triage))),
         (''confidence'', JNum (tg_confidence triage))])
    (thenA (each_app (\<lambda>f. emit env conversation_id None (Some run_id) ''request_fragment_blocked'' ''developer''
        (text_of (''Blocked request fragment: '' @ bf_category f)) (fragment_payload f)) (pd_blocked_fragments decision))
      (emit env conversation_id None (Some run_id) ''policy_decided'' ''developer''
        (text_of (''Policy route: '' @ policy_route_value (pd_route decision)))
        [(''route'', JStr (policy_route_value (pd_route decision))), (''supported'', JBool (pd_supported decision)),
         (''reason_code'', JStr (pd_reason_code decision)),
         (''authorized_order_id'', json_opt_str (pd_authorized_order_id decision)),
         (''canonical_issue_type'', json_opt_str (map_option issue_type_value (pd_canonical_issue_type decision)))]))"

definition decide_message ::
  "app_env \<Rightarrow> services \<Rightarrow> string \<Rightarrow> validated_message \<Rightarrow> opened_message \<Rightarrow> (triage_result \<times> policy_decision) app" where
  "decide_message env sc conversation_id v om =
    thenA (emit env conversation_id None (Some (om_run_id om)) ''triage_started'' ''developer''
        (text_of ''Lightweight triage started'') [])
    (bindA (classify_or_fail env sc conversation_id (om_run_id om) (vm_content v)) (\<lambda>triage.
     bindA (readA (\<lambda>s. route_triage (om_customer_id om) triage (sv_fixtures s))) (\<lambda>routed.
     bindA (store_decision env conversation_id (om_message_id om) (om_run_id om) triage routed) (\<lambda>decision.
     thenA (emit_triage_and_policy env conversation_id (om_run_id om) triage decision)
       (returnA (triage, decision))))))"

section \<open>Opening a case\<close>

definition related_case :: "database \<Rightarrow> string \<Rightarrow> string \<Rightarrow> issue_type \<Rightarrow> string option" where
  "related_case d conversation_id order_id issue =
    map_option icr_case_id (List.find (\<lambda>c. icr_case_state c = ''closed'' \<and> icr_authorized_order_id c = order_id \<and>
      icr_canonical_issue_type c = issue_type_value issue) (rev (list_cases d conversation_id)))"

definition new_case ::
  "string \<Rightarrow> string \<Rightarrow> string \<Rightarrow> string \<Rightarrow> issue_type \<Rightarrow> string option \<Rightarrow> string option \<Rightarrow> investigation_case result" where
  "new_case case_id conversation_id customer_id order_id issue earlier target =
    check_case \<lparr>ic_case_id = case_id, ic_conversation_id = conversation_id, ic_customer_id = customer_id,
      ic_authorized_order_id = order_id, ic_canonical_issue_type = issue, ic_case_state = CS_INVESTIGATING,
      ic_case_outcome = None, ic_reason_code = None, ic_related_case_id = earlier, ic_business_clarifications = 0,
      ic_planning_turns = 0, ic_read_tool_executions = 0, ic_issue_type_revision_history = [],
      ic_target_shipment_id = target\<rparr>"

definition store_case :: "app_env \<Rightarrow> investigation_case \<Rightarrow> string \<Rightarrow> string \<Rightarrow> unit app" where
  "store_case env c run_id message_id =
    transaction
      (thenA (repo env (\<lambda>t d. create_case d t c (Some (issue_type_value (ic_canonical_issue_type c))) None))
      (thenA (on_db (\<lambda>d. link_run d run_id (ic_case_id c)))
        (on_db (\<lambda>d. link_message d message_id (ic_case_id c)))))"

definition initialize_facts :: "app_env \<Rightarrow> string \<Rightarrow> fact_snapshot app" where
  "initialize_facts env case_id =
     clocked env 1 (\<lambda>t d. initialize_case (ae_sha env) (ae_sha_text env) t d case_id)"

definition open_case ::
  "app_env \<Rightarrow> string \<Rightarrow> opened_message \<Rightarrow> string \<Rightarrow> issue_type \<Rightarrow> utext \<Rightarrow> (investigation_case \<times> fact_snapshot) app" where
  "open_case env conversation_id om order_id issue message =
    bindA (readA (\<lambda>s. Inr (select_target_shipment env (sv_fixtures s) order_id issue message))) (\<lambda>target.
    bindA (new_id_app env ''case'') (\<lambda>case_id.
    bindA (read_db (\<lambda>d. Inr (related_case d conversation_id order_id issue))) (\<lambda>earlier.
    bindA (readA (\<lambda>_. new_case case_id conversation_id (om_customer_id om) order_id issue earlier target)) (\<lambda>c.
    thenA (store_case env c (om_run_id om) (om_message_id om))
    (bindA (initialize_facts env case_id) (\<lambda>facts.
     thenA (emit env conversation_id (Some case_id) (Some (om_run_id om)) ''case_created'' ''both''
         (text_of ''Logistics investigation created'')
         [(''authorized_order_id'', JStr order_id), (''canonical_issue_type'', JStr (issue_type_value issue)),
          (''target_shipment_id'', json_opt_str target), (''case_state'', JStr ''investigating'')])
       (returnA (c, facts))))))))"

definition acknowledge :: "app_env \<Rightarrow> investigation_case \<Rightarrow> string \<Rightarrow> unit app" where
  "acknowledge env c run_id =
    (let reply = render_investigation_ack (ic_authorized_order_id c) (ic_canonical_issue_type c) (ic_target_shipment_id c)
     in thenA (transaction (say env (ic_conversation_id c) (Some (ic_case_id c)) run_id reply))
          (emit_customer_reply env (ic_conversation_id c) run_id reply (Some (ic_case_id c)) ''investigation_ack'' None
            CD_ANSWER))"

text \<open>A new case starts with an empty cache; \<open>setdefault\<close>.\<close>

definition fresh_cache :: "string \<Rightarrow> unit app" where
  "fresh_cache case_id s =
    (Inr (), if map_of (sv_caches s) case_id = None then s\<lparr>sv_caches := AList.update case_id empty_cache (sv_caches s)\<rparr>
             else s)"

definition create_and_investigate_case ::
  "app_env \<Rightarrow> services \<Rightarrow> string \<Rightarrow> opened_message \<Rightarrow> utext \<Rightarrow> policy_decision \<Rightarrow> string \<Rightarrow> run_reply app" where
  "create_and_investigate_case env sc conversation_id om message decision trace_id =
    (case (pd_authorized_order_id decision, pd_canonical_issue_type decision) of
       (Some order_id, Some issue) \<Rightarrow>
         bindA (open_case env conversation_id om order_id issue message) (\<lambda>(c, facts).
         thenA (acknowledge env c (om_run_id om))
         (bindA (readA (\<lambda>s. Inr (ic_target_shipment_id c = None \<and>
              needs_partial_shipment_clarification env (sv_fixtures s) order_id issue message))) (\<lambda>unclear.
          if unclear then bindA (readA (\<lambda>s. Inr (candidate_parcels env (sv_fixtures s) c message)))
            (request_target_shipment_clarification env sc (ic_case_id c) (om_run_id om))
          else bindA (trusted_scope env c (om_run_id om) trace_id) (\<lambda>trusted.
            thenA (fresh_cache (ic_case_id c))
            (bindA (investigate_or_fail env sc (returnA facts)
                (\<lambda>f. (investigation_call trusted message f)
                  \<lparr>nv_delivery_location_conflict := delivery_location_conflict env message\<rparr>)
                (ic_case_id c) conversation_id (om_run_id om) ''INVESTIGATION_RUNTIME_FAILURE''
                ''Investigation failed safely; no action was proposed'' (+)) (\<lambda>output.
             thenA (apply_investigation_result env sc c (om_run_id om) decision output)
               (returnA (driven (om_run_id om) (ic_case_id c) conversation_id))))))))
     | _ \<Rightarrow> raiseA (RuntimeError ''supported policy decision lacks canonical scope''))"

section \<open>The message handler\<close>

definition without_case :: "string \<Rightarrow> string \<Rightarrow> run_reply" where
  "without_case run_id conversation_id = \<lparr>rr_run_id = run_id, rr_case_id = None,
     rr_events_url = events_url conversation_id, rr_customer_disposition = None\<rparr>"

definition answer_without_case ::
  "app_env \<Rightarrow> string \<Rightarrow> string \<Rightarrow> utext \<Rightarrow> policy_decision \<Rightarrow> string \<Rightarrow> string option \<Rightarrow> run_reply app" where
  "answer_without_case env conversation_id run_id reply decision kind version =
    thenA (complete_without_case env conversation_id run_id reply
        (project_customer_disposition None None None None None (Some (pd_reason_code decision))) kind version)
      (returnA (without_case run_id conversation_id))"

text \<open>What follows once the message is decided: a reply without a case, or a case that is investigated.\<close>

definition answer_decision ::
  "app_env \<Rightarrow> services \<Rightarrow> string \<Rightarrow> opened_message \<Rightarrow> utext \<Rightarrow> string \<Rightarrow> triage_result \<Rightarrow> policy_decision \<Rightarrow> run_reply app" where
  "answer_decision env sc conversation_id om content trace_id triage decision =
    (if pd_route decision = PT_STANDARD_REPLY then
       bindA (readA (\<lambda>_. render_standard_reply (tg_intent triage) decision)) (\<lambda>reply.
         answer_without_case env conversation_id (om_run_id om) reply decision ''standard_business_reply''
           (Some standard_reply_version))
     else if \<not> pd_supported decision then
       answer_without_case env conversation_id (om_run_id om) (render_policy_reply decision) decision
         ''investigation_result'' None
     else create_and_investigate_case env sc conversation_id om content decision trace_id)"

definition answer_message ::
  "app_env \<Rightarrow> services \<Rightarrow> string \<Rightarrow> validated_message \<Rightarrow> opened_message \<Rightarrow> string \<Rightarrow> run_reply app" where
  "answer_message env sc conversation_id v om trace_id =
    bindA (decide_message env sc conversation_id v om) (\<lambda>(triage, decision).
      answer_decision env sc conversation_id om (vm_content v) trace_id triage decision)"

definition submit_message :: "app_env \<Rightarrow> services \<Rightarrow> string \<Rightarrow> utext \<Rightarrow> run_reply app" where
  "submit_message env sc conversation_id content =
    bindA (new_id_app env ''trc'') (\<lambda>trace_id.
      case validate_customer_message (unicode_of env sc) (sc_max_message_chars sc) content of
        Inl summary \<Rightarrow> reject_message env conversation_id summary
      | Inr v \<Rightarrow>
          bindA (open_message env conversation_id v trace_id) (\<lambda>om.
          thenA (receive_message env conversation_id v om)
          (case om_active_case om of
             Some row \<Rightarrow> bindA (readA (\<lambda>_. case_to_domain row)) (\<lambda>c.
               continue_business_clarification env sc c (om_run_id om) (om_message_id om) (vm_content v) trace_id)
           | None \<Rightarrow> answer_message env sc conversation_id v om trace_id)))"

section \<open>What every outcome respects\<close>

lemma link_quiet:
  "link_run d rid cid = Inr (row, d') \<Longrightarrow> quiet_step d d'"
  "link_message d mid cid = Inr (u, d') \<Longrightarrow> quiet_step d d'"
  using link_run_frame [of d rid cid row d'] link_message_frame [of d mid cid u d']
  by (auto simp: quiet_step_def action_ids_def intro: of_link_run of_link_message)

context handler_relation
begin

lemma related_reject_message: "related R (reject_message env k summary)"
  unfolding reject_message_def by (intro related_parts related_cases)

lemma related_open_message: "related R (open_message env k v tid)" "related R (receive_message env k v om)"
  unfolding open_message_def receive_message_def split_def by (intro related_parts)+

lemma related_records:
  "related R (repo env (\<lambda>t d. create_triage_record d h t tri k mid rid i sv w))"
  "related R (repo env (\<lambda>t d. create_policy_decision d h t k mid trid rid rt sp rc i it oid bf rf w))"
  "related R (repo env (\<lambda>t d. create_case d t c ri w))"
  by (rule related_repo, auto intro!: quiet quiet_stepI intro: step_create_triage_record dest: create_triage_record_frame)
    (rule related_repo, auto intro!: quiet quiet_stepI intro: step_create_policy_decision dest: create_policy_decision_frame,
     rule related_repo, auto intro!: quiet quiet_stepI intro: step_create_case dest: create_case_frame)

lemma related_decide: "related R (decide_message env sc k v om)"
  unfolding decide_message_def classify_or_fail_def classify_def store_decision_def emit_triage_and_policy_def
  by (intro related_parts related_cases related_each_app related_records)

lemma related_open_case: "related R (open_case env k om oid issue msg)"
proof -
  have "related R (on_db (\<lambda>d. link_run d rid cid))" "related R (on_db (\<lambda>d. link_message d mid cid))" for rid mid cid
    by (rule related_on_db, rule quiet, erule link_quiet)+
  moreover have "related R (initialize_facts env cid)" for cid
    unfolding initialize_facts_def by (rule related_clocked) (rule refresh_snapshot_quiet)
  ultimately show ?thesis unfolding open_case_def store_case_def by (intro related_parts related_records)
qed

lemma related_fresh_cache: "related R (fresh_cache cid)"
  by (simp add: related_def fresh_cache_def refl caches)

lemma related_create_and_investigate:
  assumes "\<And>a. related R (sc_investigate sc a)"
  shows "related R (create_and_investigate_case env sc k om msg dec tid)"
proof -
  have "related R (acknowledge env c rid)" for c rid
    unfolding acknowledge_def Let_def by (intro related_parts)
  then show ?thesis unfolding create_and_investigate_case_def trusted_scope_def
    by (auto intro!: related_parts related_cases related_open_case related_request_target related_fresh_cache
        related_investigate related_apply assms split: option.split)
qed

lemma related_submit_message:
  assumes "\<And>a. related R (sc_investigate sc a)"
  shows "related R (submit_message env sc k content)"
proof -
  have "related R (answer_message env sc k v om tid)" for v om tid
    unfolding answer_message_def answer_decision_def answer_without_case_def split_def
    by (intro related_parts related_cases related_decide related_create_and_investigate assms)
  then show ?thesis unfolding submit_message_def
    by (auto intro!: related_parts related_cases related_open_message related_reject_message related_continue_business
        assms split: option.split)
qed

end

section \<open>What the answer depends on\<close>

lemma entry_limit_same:
  "same_but_ids d d' \<Longrightarrow> same_but_ids (enforce_entry_clarification_limit db k d) (enforce_entry_clarification_limit db k d')"
  by (auto simp: enforce_entry_clarification_limit_def same_but_ids_def split: option.split)

lemma conclude_cong: "same_but_ids d d' \<Longrightarrow> conclude env c rid d = conclude env c rid d'"
  by (simp only: fun_eq_iff conclude_def gate_reply_def gate_reply_cong simp_thms)

lemma apply_final_cong: "same_but_ids d d' \<Longrightarrow> apply_final env c rid d = apply_final env c rid d'"
  by (simp only: fun_eq_iff apply_final_def conclude_cong simp_thms)

lemma apply_result_cong:
  assumes "same_but_ids d d'"
  shows "apply_investigation_result env sc c rid d = apply_investigation_result env sc c rid d'"
  by (simp only: fun_eq_iff apply_investigation_result_def revise_and_continue_def conclude_cong [OF assms]
      apply_final_cong [OF assms] simp_thms)

lemma create_case_cong:
  assumes "same_but_ids d d'"
  shows "create_and_investigate_case env sc k om content d = create_and_investigate_case env sc k om content d'"
proof -
  from assms have "pd_authorized_order_id d = pd_authorized_order_id d'" "pd_canonical_issue_type d = pd_canonical_issue_type d'"
    by (simp_all add: same_but_ids_def)
  then show ?thesis
    by (simp only: fun_eq_iff create_and_investigate_case_def apply_result_cong [OF assms] simp_thms)
qed

lemma answer_cong:
  assumes "same_but_ids d d'" and "tg_intent t' = tg_intent t" and "pd_supported d \<Longrightarrow> content' = content"
  shows "answer_decision env sc k om content trace_id t d = answer_decision env sc k om content' trace_id t' d'"
proof -
  have "pd_route d = pd_route d'" "pd_supported d = pd_supported d'" "pd_reason_code d = pd_reason_code d'"
    using assms(1) by (simp_all add: same_but_ids_def)
  with assms(2,3) create_case_cong [OF assms(1), of env sc k om] show ?thesis
    by (auto simp: answer_decision_def answer_without_case_def policy_reply_cong [OF assms(1)]
        standard_reply_cong [OF assms(1)])
qed

text \<open>C36. Foreign orders stay invisible in what the application does for a message once it is decided.  Take two
  messages with the same intent and the same blocked risks, which mention the same orders of the customer in the same
  order, and both or neither mention any other order.  Then, after the limit on entry clarifications, everything that
  follows is the same, whichever the other orders are and whether they exist: the reply, the case that is opened, what
  is written and every event.  The texts of the two messages may differ too, unless the request is supported and its
  investigation is handed the text.\<close>

theorem reply_hides_foreign_orders:
  assumes "same_mentions c s s' (tg_order_ids_mentioned t) (tg_order_ids_mentioned t')"
    and "tg_intent t' = tg_intent t" and "risk_fragments t' = risk_fragments t"
    and "route_triage c t s = Inr d" and "route_triage c t' s' = Inr d'"
    and "pd_supported d \<Longrightarrow> content' = content"
  shows "answer_decision env sc k om content trace_id t (enforce_entry_clarification_limit db k d) =
    answer_decision env sc k om content' trace_id t' (enforce_entry_clarification_limit db k d')"
proof (rule answer_cong [OF entry_limit_same assms(2)])
  show "same_but_ids d d'" using assms(1-5) by (rule route_same_but_ids)
  assume "pd_supported (enforce_entry_clarification_limit db k d)"
  then have "pd_supported d"
    by (auto simp: enforce_entry_clarification_limit_def split: if_splits option.splits)
  then show "content' = content" by (rule assms(6))
qed

text \<open>One order of somebody else, against two that do not exist.\<close>

definition mentioning :: "string list \<Rightarrow> triage_result" where
  "mentioning oids = \<lparr>tg_intent = TI_SIGNED_NOT_RECEIVED, tg_risk_flags = [''prohibited_action_request''],
     tg_order_ids_mentioned = oids, tg_confidence = 1\<rparr>"

lemma mentioning_unsupported:
  "\<exists>d. route_triage ''CUST-9'' (mentioning [of_order_id sample_fixture_order]) sample_store = Inr d \<and> \<not> pd_supported d"
  by (simp add: route_triage_def Let_def mention_order_owns sample_owns mentioning_def sample_fixture_order_def
      supported_issue_def)

theorem reply_hides_foreign_orders_witness:
  "\<exists>d d'. route_triage ''CUST-9'' (mentioning [of_order_id sample_fixture_order]) sample_store = Inr d \<and>
     route_triage ''CUST-9'' (mentioning [''ORD-404'', ''ORD-405'']) sample_store = Inr d' \<and>
     (\<forall>env sc k om trace_id db.
        answer_decision env sc k om (text_of ''mine?'') trace_id (mentioning [of_order_id sample_fixture_order])
          (enforce_entry_clarification_limit db k d) =
        answer_decision env sc k om (text_of ''or these?'') trace_id (mentioning [''ORD-404'', ''ORD-405''])
          (enforce_entry_clarification_limit db k d'))"
proof -
  let ?t = "mentioning [of_order_id sample_fixture_order]" and ?t' = "mentioning [''ORD-404'', ''ORD-405'']"
  obtain d where d: "route_triage ''CUST-9'' ?t sample_store = Inr d" "\<not> pd_supported d"
    using mentioning_unsupported by blast
  obtain d' where d': "route_triage ''CUST-9'' ?t' sample_store = Inr d'" using route_triage_total by metis
  have mentions: "same_mentions ''CUST-9'' sample_store sample_store (tg_order_ids_mentioned ?t) (tg_order_ids_mentioned ?t')"
    by (simp add: same_mentions_def sample_owns mentioning_def sample_fixture_order_def)
  have same: "tg_intent ?t' = tg_intent ?t" "risk_fragments ?t' = risk_fragments ?t"
    by (simp_all add: mentioning_def risk_fragments_def)
  show ?thesis
    using reply_hides_foreign_orders [OF mentions same d(1) d'] d d' by blast
qed

end
