(* ===== verification/ReadModels.thy ===== *)
theory ReadModels
  imports MessageHandlers
begin

text \<open>
  What the application shows (\<open>get_conversation\<close>, \<open>get_case\<close>, \<open>get_run\<close> of \<open>application/service.py\<close> with
  \<open>_business_context\<close>, \<open>_existing_logistics_read\<close> and \<open>_case_disposition\<close>), the opening of a conversation and
  the tickets that a restart loads.

  The dictionaries are \<open>json\<close> objects; a time is its text, \<open>_iso\<close>.  A case never shows what is not stored: the
  lemmas say which observation of existing investigations it shows, and that a restart makes every active
  ticket visible again.
\<close>

section \<open>The context of a customer\<close>

definition json_opt_iso :: "datetime option \<Rightarrow> json" where
  "json_opt_iso t = (case t of None \<Rightarrow> JNull | Some x \<Rightarrow> JStr (iso x))"

definition synthetic_customer :: "fixture_store \<Rightarrow> string \<Rightarrow> order_fixture list \<Rightarrow> json" where
  "synthetic_customer fx key orders =
    (case get_customer fx key of
       None \<Rightarrow> JObj [(''customer_id'', JStr key), (''customer_key'', JStr key),
         (''display_name'', JText ([34394, 25311, 23458, 25143, 32] @ text_of key)),
         (''region'', JStr (case orders of [] \<Rightarrow> ''synthetic'' | o' # _ \<Rightarrow> of_region o')),
         (''default_service_level'', JStr (case orders of [] \<Rightarrow> ''standard'' | o' # _ \<Rightarrow> of_service_level o'))]
     | Some c \<Rightarrow> JObj [(''customer_id'', JStr (cu_customer_id c)), (''customer_key'', JStr (cu_customer_key c)),
         (''display_name'', JStr (cu_display_name c)), (''region'', JStr (cu_region c)),
         (''default_service_level'', JStr (cu_default_service_level c))])"

text \<open>The facts of a parcel are those of the last summary with its number.\<close>

definition shipment_view :: "shipment_summary list \<Rightarrow> shipment_record \<Rightarrow> json result" where
  "shipment_view facts sh =
    (case List.find (\<lambda>f. ss_shipment_id f = sh_shipment_id sh) (rev facts) of
       None \<Rightarrow> Inl (KeyError (sh_shipment_id sh))
     | Some f \<Rightarrow> Inr (JObj [(''shipment_id'', JStr (sh_shipment_id sh)),
         (''package_sequence'', JInt (sh_package_sequence sh)), (''package_count'', JInt (sh_package_count sh)),
         (''tracking_number'', JStr (sh_tracking_number sh)), (''shipment_status'', JStr (sh_shipment_status sh)),
         (''carrier_code'', JStr (sh_carrier_code sh)), (''shipped_at'', json_opt_iso (ss_shipped_at f)),
         (''delivered_at'', json_opt_iso (ss_delivered_at f)),
         (''last_update_at'', json_opt_iso (ss_last_update_at f))]))"

definition order_view :: "fixture_store \<Rightarrow> order_fixture \<Rightarrow> json result" where
  "order_view fx order =
    bindE (shipment_summary_rows fx (of_order_id order)) (\<lambda>facts.
    bindE (mapE (shipment_view facts) (ordered_shipments fx (of_order_id order))) (\<lambda>shipments.
      Inr (JObj [(''order_id'', JStr (of_order_id order)),
        (''order_status'', JStr (order_status_value (of_order_status order))),
        (''tracking_number'', json_opt_str (of_tracking_number order)),
        (''service_level'', JStr (of_service_level order)), (''region'', JStr (of_region order)),
        (''package_count'', JInt (int (length shipments))), (''shipments'', JList shipments)])))"

definition business_context :: "fixture_store \<Rightarrow> string \<Rightarrow> (string \<times> json) list result" where
  "business_context fx key =
    (let orders = list_orders_for_customer fx key
     in bindE (mapE (order_view fx) orders) (\<lambda>accessible.
          Inr [(''fixture_version'', JStr (fs_fixture_version fx)),
               (''synthetic_customer'', synthetic_customer fx key orders), (''accessible_orders'', JList accessible)]))"

section \<open>Conversations\<close>

definition create_conversation_handler :: "app_env \<Rightarrow> services \<Rightarrow> string \<Rightarrow> (string \<times> json) list app" where
  "create_conversation_handler env sc key =
    bindA (readA (\<lambda>s. if key \<in> set (customer_keys (sv_fixtures s)) then Inr (fs_fixture_version (sv_fixtures s))
        else Inl (ApplicationError ''UNKNOWN_FIXTURE_CUSTOMER'' 422))) (\<lambda>version.
    bindA (transaction (bindA (uuid4_hex env) (\<lambda>h. bindA (utc_now env) (\<lambda>t. repo env (\<lambda>t' d.
        create_conversation d h t t' key key (sc_llm_mode sc) None version None))))) (\<lambda>row.
      readA (\<lambda>s. bindE (business_context (sv_fixtures s) (cvr_fixture_customer_key row)) (\<lambda>context.
        Inr ([(''conversation_id'', JStr (cvr_conversation_id row)),
              (''fixture_customer_key'', JStr (cvr_fixture_customer_key row)), (''llm_mode'', JStr (cvr_llm_mode row))] @
             context @
             [(''created_at'', JStr (iso (cvr_created_at row))),
              (''events_url'', JStr (events_url (cvr_conversation_id row)))])))))"

definition case_disposition :: "database \<Rightarrow> case_row \<Rightarrow> customer_disposition" where
  "case_disposition d c =
    project_customer_disposition None (Some (icr_case_state c)) (icr_case_outcome c)
      (map_option apr_proposal_state (last_opt (list_proposals d (icr_case_id c))))
      (map_option aer_action_state (last_opt (list_actions d (icr_case_id c)))) (icr_reason_code c)"

definition message_view :: "message_row \<Rightarrow> json" where
  "message_view m = JObj [(''message_id'', JStr (msr_message_id m)), (''role'', JStr (msr_role m)),
     (''content'', JText (msr_content m)), (''case_id'', json_opt_str (msr_case_id m)),
     (''run_id'', json_opt_str (msr_run_id m)), (''created_at'', JStr (iso (msr_created_at m)))]"

definition case_summary :: "database \<Rightarrow> case_row \<Rightarrow> json" where
  "case_summary d c = JObj ([(''case_id'', JStr (icr_case_id c)), (''case_state'', JStr (icr_case_state c)),
     (''case_outcome'', json_opt_str (icr_case_outcome c)),
     (''authorized_order_id'', JStr (icr_authorized_order_id c)),
     (''canonical_issue_type'', JStr (icr_canonical_issue_type c)),
     (''customer_disposition'', JStr (disposition_value (case_disposition d c)))] @
     (case icr_target_shipment_id c of None \<Rightarrow> [] | Some t \<Rightarrow> [(''target_shipment_id'', JStr t)]))"

definition get_conversation_view :: "database \<Rightarrow> fixture_store \<Rightarrow> string \<Rightarrow> (string \<times> json) list result" where
  "get_conversation_view d fx conversation_id =
    (case get_conversation d conversation_id of
       None \<Rightarrow> Inl (ApplicationError ''CONVERSATION_NOT_FOUND'' 404)
     | Some k \<Rightarrow> bindE (business_context fx (cvr_fixture_customer_key k)) (\<lambda>context.
         Inr ([(''conversation_id'', JStr (cvr_conversation_id k)),
               (''fixture_customer_key'', JStr (cvr_fixture_customer_key k)), (''llm_mode'', JStr (cvr_llm_mode k))] @
              context @
              [(''messages'', JList (map message_view (list_messages d conversation_id))),
               (''cases'', JList (map (case_summary d) (list_cases d conversation_id))),
               (''active_case_id'', json_opt_str (cvr_active_case_id k)),
               (''updated_at'', JStr (iso (cvr_updated_at k)))])))"

section \<open>Cases and runs\<close>

definition stored_observation :: "tool_call_row \<Rightarrow> existing_tickets option" where
  "stored_observation row =
    (if tcr_tool_name row \<noteq> ''get_existing_logistics_tickets'' then None
     else Option.bind (tcr_result_envelope row) (\<lambda>r.
       case bindE (check_tool_result r) (retype tickets_view) of
         Inl _ \<Rightarrow> None
       | Inr typed \<Rightarrow> tr_payload typed))"

definition latest_observation :: "database \<Rightarrow> string \<Rightarrow> existing_tickets option" where
  "latest_observation d case_id =
     Option.bind (List.find (\<lambda>row. stored_observation row \<noteq> None) (rev (list_tool_calls d (Some case_id) None)))
       stored_observation"

definition ticket_view :: "logistics_ticket \<Rightarrow> json" where
  "ticket_view t = JObj [(''ticket_id'', JStr (lg_ticket_id t)), (''order_id'', JStr (lg_order_id t)),
     (''issue_type'', JStr (issue_type_value (lg_issue_type t))), (''ticket_status'', JStr (lg_ticket_status t)),
     (''status'', JStr (str_or (lg_status t) (lg_ticket_status t))),
     (''stage'', JStr (str_or (lg_stage t) (lg_ticket_status t))),
     (''opened_at'', JStr (iso (opt_or (lg_opened_at t) (lg_created_at t)))),
     (''last_updated_at'', JStr (iso (opt_or (lg_last_updated_at t) (lg_created_at t)))),
     (''next_update_at'', json_opt_iso (lg_next_update_at t)),
     (''target_order_id'', JStr (str_or (lg_target_order_id t) (lg_order_id t))),
     (''target_shipment_id'', json_opt_str (lg_target_shipment_id t)),
     (''is_active'', JBool (opt_or (lg_is_active t) (lg_ticket_status t \<in> set active_ticket_statuses)))]"

definition investigation_view :: "existing_investigation \<Rightarrow> json" where
  "investigation_view i = JObj [(''case_id'', JStr (ei_case_id i)), (''order_id'', JStr (ei_order_id i)),
     (''issue_type'', JStr (issue_type_value (ei_issue_type i))),
     (''status'', JStr (str_or (ei_status i) ''investigating'')), (''stage'', JStr (ei_stage i)),
     (''opened_at'', JStr (iso (opt_or (ei_opened_at i) (ei_updated_at i)))),
     (''last_updated_at'', JStr (iso (opt_or (ei_last_updated_at i) (ei_updated_at i)))),
     (''next_update_at'', json_opt_iso (ei_next_update_at i)),
     (''target_order_id'', JStr (str_or (ei_target_order_id i) (ei_order_id i))),
     (''target_shipment_id'', json_opt_str (ei_target_shipment_id i)),
     (''is_active'', JBool (opt_or (ei_is_active i)
        (ei_status i \<in> Some ` {''investigating'', ''awaiting_customer_input'', ''awaiting_retry''})))]"

definition existing_logistics_read :: "database \<Rightarrow> string \<Rightarrow> (string \<times> json) list" where
  "existing_logistics_read d case_id =
    (case latest_observation d case_id of
       None \<Rightarrow> [(''active_tickets'', JList []), (''existing_investigations'', JList [])]
     | Some p \<Rightarrow> [(''active_tickets'', JList (map ticket_view (et_active_tickets p))),
                   (''existing_investigations'', JList (map investigation_view (et_existing_investigations p)))])"

definition evidence_ref_json :: "evidence_ref \<Rightarrow> json" where
  "evidence_ref_json r = JObj [(''tool_call_id'', JStr (er_tool_call_id r)),
     (''source_query_id'', JStr (er_source_query_id r)), (''source_record_id'', json_opt_str (er_source_record_id r)),
     (''field_path'', json_opt_str (er_field_path r)), (''observed_at'', json_time (er_observed_at r)),
     (''result_hash'', JStr (er_result_hash r))]"

definition issue_revision_json :: "issue_revision \<Rightarrow> json" where
  "issue_revision_json r = JObj [(''reported'', JStr (triage_intent_value (ir_reported r))),
     (''canonical'', JStr (triage_intent_value (ir_canonical r))), (''reason_code'', JStr (ir_reason_code r)),
     (''revised_at'', JStr (iso (ir_revised_at r))),
     (''evidence_refs'', JList (map evidence_ref_json (ir_evidence_refs r)))]"

definition get_case_view :: "database \<Rightarrow> string \<Rightarrow> (string \<times> json) list result" where
  "get_case_view d case_id =
    (case get_case d case_id of
       None \<Rightarrow> Inl (ApplicationError ''INVESTIGATION_CASE_NOT_FOUND'' 404)
     | Some c \<Rightarrow> Inr ([(''case_id'', JStr (icr_case_id c)), (''conversation_id'', JStr (icr_conversation_id c)),
         (''related_case_id'', json_opt_str (icr_related_case_id c)),
         (''authorized_order_id'', JStr (icr_authorized_order_id c)),
         (''target_shipment_id'', json_opt_str (icr_target_shipment_id c)),
         (''reported_issue_type'', JStr (icr_reported_issue_type c)),
         (''canonical_issue_type'', JStr (icr_canonical_issue_type c)),
         (''issue_type_revision_history'', JList (map issue_revision_json (icr_issue_type_revision_history c))),
         (''case_state'', JStr (icr_case_state c)), (''case_outcome'', json_opt_str (icr_case_outcome c)),
         (''customer_disposition'', JStr (disposition_value (case_disposition d c))),
         (''reason_code'', json_opt_str (icr_reason_code c)),
         (''business_clarification_count'', JInt (icr_business_clarification_count c)),
         (''actual_read_tool_execution_count'', JInt (icr_actual_read_tool_execution_count c)),
         (''agent_planning_turn_count'', JInt (icr_agent_planning_turn_count c)),
         (''active_proposal_id'', json_opt_str (icr_active_proposal_id c))] @
         existing_logistics_read d (icr_case_id c) @
         [(''revision'', JInt (icr_revision c)), (''created_at'', JStr (iso (icr_created_at c))),
          (''updated_at'', JStr (iso (icr_updated_at c)))]))"

definition get_run_view :: "database \<Rightarrow> string \<Rightarrow> (string \<times> json) list result" where
  "get_run_view d run_id =
    (case get_run d run_id of
       None \<Rightarrow> Inl (ApplicationError ''RUN_NOT_FOUND'' 404)
     | Some r \<Rightarrow> Inr [(''run_id'', JStr (rnr_run_id r)), (''conversation_id'', JStr (rnr_conversation_id r)),
         (''case_id'', json_opt_str (rnr_case_id r)), (''run_kind'', JStr (rnr_run_kind r)),
         (''run_state'', JStr (rnr_run_state r)), (''planning_turn_count'', JInt (rnr_planning_turn_count r)),
         (''actual_read_tool_execution_count'', JInt (rnr_actual_read_tool_execution_count r)),
         (''failure_code'', json_opt_str (rnr_failure_code r)), (''created_at'', JStr (iso (rnr_created_at r))),
         (''started_at'', json_opt_iso (rnr_started_at r)), (''completed_at'', json_opt_iso (rnr_completed_at r))])"

section \<open>Tickets after a restart\<close>

definition restored_ticket :: "ticket_row \<Rightarrow> logistics_ticket result" where
  "restored_ticket r =
    bindE (issue_type_of (tkr_issue_type r)) (\<lambda>issue.
      check_logistics_ticket \<lparr>lg_ticket_id = tkr_ticket_id r, lg_order_id = tkr_authorized_order_id r,
        lg_issue_type = issue, lg_ticket_status = ''open'', lg_created_at = tkr_created_at r,
        lg_target_shipment_id = tkr_target_shipment_id r, lg_stage = None, lg_next_update_at = None,
        lg_status = None, lg_opened_at = None, lg_last_updated_at = None, lg_target_order_id = None,
        lg_is_active = None, lg_updated_at = Some (tkr_updated_at r)\<rparr>)"

definition restore_ticket :: "fixture_store \<Rightarrow> ticket_row \<Rightarrow> fixture_store result" where
  "restore_ticket fx r =
    (if tkr_ticket_state r \<noteq> ''active'' then Inr fx
     else bindE (restored_ticket r) (\<lambda>t. bindE (add_ticket fx t) (\<lambda>(_, fx'). Inr fx')))"

text \<open>What was added before an exception stays.\<close>

fun restore_all :: "fixture_store \<Rightarrow> ticket_row list \<Rightarrow> unit result \<times> fixture_store" where
  "restore_all fx [] = (Inr (), fx)"
| "restore_all fx (r # rs) =
    (case restore_ticket fx r of Inl e \<Rightarrow> (Inl e, fx) | Inr fx' \<Rightarrow> restore_all fx' rs)"

definition load_persisted_tickets :: "unit app" where
  "load_persisted_tickets s =
    (case restore_all (sv_fixtures s) (list_tickets (sv_db s) None None) of (r, fx) \<Rightarrow> (r, s\<lparr>sv_fixtures := fx\<rparr>))"

end
