(* ===== verification/RowLifecycle.thy ===== *)
theory RowLifecycle
  imports Repository
begin

text \<open>
  What the repository guarantees of the rows it manages.

  \<^item> Refinement: read through their state columns, runs, proposals and actions only move along the lifecycle
    tables of \<open>domain/transitions.py\<close>, whatever operation of the repository runs.
  \<^item> Type: every database that operations reach from the empty one satisfies the declared constraints.
  \<^item> Round trips: the domain snapshot that creates a row is the one its \<open>*_to_domain\<close> reads back.
  \<^item> A closed case keeps its state, outcome and reason.  Open cases do not follow the domain's table: the
    repository has no table for them.
\<close>

section \<open>State columns\<close>

lemma member_of_Inr: "member_of val ms f s = Inr m \<Longrightarrow> val m = s \<and> m \<in> set ms"
  by (auto simp: member_of_def split: option.splits dest: find_SomeD)

lemma member_of_value:
  assumes "\<And>x y. val x = val y \<longleftrightarrow> x = y" and "m \<in> set ms"
  shows "member_of val ms f (val m) = Inr m"
proof -
  have "List.find (\<lambda>x. val x = val m) ms \<noteq> None" using assms(2) by (auto simp: find_None_iff)
  then show ?thesis using assms(1) by (auto simp: member_of_def dest: find_SomeD)
qed

lemma run_state_value_inject [simp]: "run_state_value x = run_state_value y \<longleftrightarrow> x = y"
  by (cases x; cases y; simp)

lemma run_states_complete: "s \<in> set all_run_states"
  by (cases s; simp add: all_run_states_def)

lemma proposal_states_complete: "s \<in> set all_proposal_states"
  by (cases s; simp add: all_proposal_states_def)

lemma action_states_complete: "s \<in> set all_action_states"
  by (cases s; simp add: all_action_states_def)

lemma case_states_complete: "s \<in> set all_case_states"
  by (cases s; simp add: all_case_states_def)

lemma case_outcomes_complete: "s \<in> set all_case_outcomes"
  by (cases s; simp add: all_case_outcomes_def)

lemmas members_complete = run_states_complete proposal_states_complete action_states_complete
  case_states_complete case_outcomes_complete

lemma row_step_allowed_cases:
  "row_step_allowed allowed s t e = Inr () \<Longrightarrow> t = s \<or> (\<exists>ts. map_of allowed s = Some ts \<and> t \<in> set ts)"
  by (auto simp: row_step_allowed_def split: if_splits option.splits)

lemma run_row_step:
  "row_step_allowed run_row_allowed (run_state_value s) t e = Inr () \<Longrightarrow>
   \<exists>s'. t = run_state_value s' \<and> (s' = s \<or> s' \<in> set (run_transitions s))"
  by (drule row_step_allowed_cases, cases s) (auto simp: run_row_allowed_def intro: exI [of _ RS_RUNNING]
      exI [of _ RS_SUCCEEDED] exI [of _ RS_FAILED] exI [of _ RS_QUEUED])

lemma proposal_row_step:
  "row_step_allowed proposal_row_allowed (proposal_state_value s) t e = Inr () \<Longrightarrow>
   \<exists>s'. t = proposal_state_value s' \<and> (s' = s \<or> s' \<in> set (proposal_transitions s))"
  by (drule row_step_allowed_cases, cases s) (auto simp: proposal_row_allowed_def
      intro: exI [of _ PS_PENDING_CONFIRMATION] exI [of _ PS_CONFIRMED] exI [of _ PS_DECLINED]
      exI [of _ PS_SUPERSEDED] exI [of _ PS_EXPIRED] exI [of _ PS_INVALIDATED])

lemma action_row_step:
  "row_step_allowed action_row_allowed (action_state_value s) t e = Inr () \<Longrightarrow>
   \<exists>s'. t = action_state_value s' \<and> (s' = s \<or> s' \<in> set (action_transitions s))"
  by (drule row_step_allowed_cases, cases s) (auto simp: action_row_allowed_def
      intro: exI [of _ AS_READY] exI [of _ AS_SUBMITTED] exI [of _ AS_SUCCEEDED]
      exI [of _ AS_FAILED_RETRYABLE] exI [of _ AS_FAILED_TERMINAL] exI [of _ AS_UNCERTAIN])

text \<open>A state column with a guarded update: the row is read back as the member that its column names, and the
  dictionary of allowed steps is the domain's table, up to staying.\<close>

definition stored_state :: "('s \<Rightarrow> string) \<Rightarrow> 's list \<Rightarrow> ('r \<Rightarrow> string) \<Rightarrow> 'r option \<Rightarrow> 's option" where
  "stored_state val members column row =
    (case row of None \<Rightarrow> None | Some r \<Rightarrow> List.find (\<lambda>s. val s = column r) members)"

definition follows :: "('s \<Rightarrow> 's list) \<Rightarrow> 's option \<Rightarrow> 's option \<Rightarrow> bool" where
  "follows table s s' \<longleftrightarrow> (\<forall>x. s = Some x \<longrightarrow> (\<exists>y. s' = Some y \<and> (y = x \<or> y \<in> set (table x))))"

lemma follows_refl [simp]: "follows table s s"
  by (simp add: follows_def)

lemma follows_None [simp]: "follows table None s"
  by (simp add: follows_def)

lemma stored_state_None [simp]: "stored_state val members column None = None"
  by (simp add: stored_state_def)

lemma find_eq_member: "m \<in> set ms \<Longrightarrow> List.find (\<lambda>x. x = m) ms = Some m"
  by (induction ms) auto

locale row_machine =
  fixes val :: "'s \<Rightarrow> string" and members :: "'s list" and column :: "'r \<Rightarrow> string"
    and table :: "'s \<Rightarrow> 's list" and allowed :: "(string \<times> string list) list"
  assumes val_inject: "val x = val y \<longleftrightarrow> x = y"
    and complete: "s \<in> set members"
    and row_step: "row_step_allowed allowed (val s) t e = Inr () \<Longrightarrow>
      \<exists>s'. t = val s' \<and> (s' = s \<or> s' \<in> set (table s))"
begin

lemma stored_state_Some:
  "stored_state val members column row = Some s \<longleftrightarrow> (\<exists>r. row = Some r \<and> column r = val s)"
  by (auto simp: stored_state_def val_inject complete find_eq_member split: option.splits dest!: find_SomeD)

lemma update_follows:
  assumes "row_step_allowed allowed (column old) (column new) e = Inr ()"
  shows "follows table (stored_state val members column (Some old)) (stored_state val members column (Some new))"
  unfolding follows_def
proof (intro allI impI)
  fix x assume "stored_state val members column (Some old) = Some x"
  with assms row_step [of x "column new" e]
  show "\<exists>y. stored_state val members column (Some new) = Some y \<and> (y = x \<or> y \<in> set (table x))"
    by (auto simp: stored_state_Some)
qed

text \<open>Along any chain of such steps a terminal state is never left.\<close>

lemma terminal_stays:
  assumes "table x = []" and "follows table (Some x) s"
  shows "s = Some x"
  using assms by (auto simp: follows_def)

end

interpretation run_rows: row_machine run_state_value all_run_states rnr_run_state run_transitions run_row_allowed
  by unfold_locales (simp_all add: members_complete run_row_step)

interpretation proposal_rows: row_machine proposal_state_value all_proposal_states apr_proposal_state
    proposal_transitions proposal_row_allowed
  by unfold_locales (simp_all add: members_complete proposal_row_step)

interpretation action_rows: row_machine action_state_value all_action_states aer_action_state action_transitions
    action_row_allowed
  by unfold_locales (simp_all add: members_complete action_row_step)

definition run_state_in :: "database \<Rightarrow> string \<Rightarrow> run_state option" where
  "run_state_in d k = stored_state run_state_value all_run_states rnr_run_state (get_run d k)"

definition proposal_state_in :: "database \<Rightarrow> string \<Rightarrow> proposal_state option" where
  "proposal_state_in d k = stored_state proposal_state_value all_proposal_states apr_proposal_state (get_proposal d k)"

definition action_state_in :: "database \<Rightarrow> string \<Rightarrow> action_state option" where
  "action_state_in d k = stored_state action_state_value all_action_states aer_action_state (get_action d k)"

lemmas state_in_defs = run_state_in_def proposal_state_in_def action_state_in_def

section \<open>Lookups across one operation\<close>

lemma insert_run_get:
  "insert_run d r = Inr d' \<Longrightarrow> get_run d' k = (if k = rnr_run_id r then Some r else get_run d k)"
  by (auto simp: insert_run_def bindE_eq_Inr get_run_def get_row_insert) (simp_all add: run_table_def)

lemma insert_proposal_get:
  "insert_proposal d r = Inr d' \<Longrightarrow> get_proposal d' k = (if k = apr_proposal_id r then Some r else get_proposal d k)"
  by (auto simp: insert_proposal_def bindE_eq_Inr get_proposal_def get_row_insert) (simp_all add: proposal_table_def)

lemma insert_action_get:
  "insert_action d r = Inr d' \<Longrightarrow> get_action d' k = (if k = aer_action_id r then Some r else get_action d k)"
  by (auto simp: insert_action_def bindE_eq_Inr get_action_def get_row_insert) (simp_all add: action_table_def)

lemma insert_run_fresh: "insert_run d r = Inr d' \<Longrightarrow> get_run d (rnr_run_id r) = None"
  by (auto simp: insert_run_def bindE_eq_Inr get_run_def dest!: insert_fresh) (simp add: run_table_def)

lemma insert_proposal_fresh: "insert_proposal d r = Inr d' \<Longrightarrow> get_proposal d (apr_proposal_id r) = None"
  by (auto simp: insert_proposal_def bindE_eq_Inr get_proposal_def dest!: insert_fresh) (simp add: proposal_table_def)

lemma insert_action_fresh: "insert_action d r = Inr d' \<Longrightarrow> get_action d (aer_action_id r) = None"
  by (auto simp: insert_action_def bindE_eq_Inr get_action_def dest!: insert_fresh) (simp add: action_table_def)

lemma update_run_get:
  "update_run_row d r = Inr d' \<Longrightarrow> get_run d (rnr_run_id r) \<noteq> None \<Longrightarrow>
   get_run d' k = (if k = rnr_run_id r then Some r else get_run d k)"
  using get_row_update [of run_table "db_runs d" r]
  by (auto simp: update_run_row_def bindE_eq_Inr get_run_def has_row_get) (simp_all add: run_table_def)

lemma update_proposal_get:
  "update_proposal_row d r = Inr d' \<Longrightarrow> get_proposal d (apr_proposal_id r) \<noteq> None \<Longrightarrow>
   get_proposal d' k = (if k = apr_proposal_id r then Some r else get_proposal d k)"
  using get_row_update [of proposal_table "db_proposals d" r]
  by (auto simp: update_proposal_row_def bindE_eq_Inr get_proposal_def has_row_get) (simp_all add: proposal_table_def)

lemma update_action_get:
  "update_action_row d r = Inr d' \<Longrightarrow> get_action d (aer_action_id r) \<noteq> None \<Longrightarrow>
   get_action d' k = (if k = aer_action_id r then Some r else get_action d k)"
  using get_row_update [of action_table "db_actions d" r]
  by (auto simp: update_action_row_def bindE_eq_Inr get_action_def has_row_get) (simp_all add: action_table_def)

text \<open>Updates keep the key and follow the row's table.\<close>

lemma update_run_get_run:
  assumes wf: "wf_db d" and u: "update_run d n rid st pt ar fc t = Inr (row', d')"
  shows "\<exists>row. get_run d rid = Some row \<and> rnr_run_state row' = st \<and>
    (\<exists>e. row_step_allowed run_row_allowed (rnr_run_state row) st e = Inr ()) \<and>
    (\<forall>k. get_run d' k = (if k = rid then Some row' else get_run d k))"
proof -
  from u obtain row where row: "get_run d rid = Some row" and d': "update_run_row d row' = Inr d'"
    and same: "rnr_run_id row' = rnr_run_id row" "rnr_run_state row' = st"
    and step: "row_step_allowed run_row_allowed (rnr_run_state row) st
      (InvalidStateTransitionError ''Run cannot transition'') = Inr ()"
    by (auto simp: update_run_def require_run_def Let_def bindE_eq_Inr guard_Inr)
  have key: "rnr_run_id row' = rid" using stored_run [OF wf row] same by simp
  show ?thesis using update_run_get [OF d'] row same(2) step unfolding key by auto
qed

lemma update_proposal_state_get_proposal:
  assumes wf: "wf_db d" and u: "update_proposal_state d n pid st sb t = Inr (row', d')"
  shows "\<exists>row. get_proposal d pid = Some row \<and> apr_proposal_state row' = st \<and>
    (\<exists>e. row_step_allowed proposal_row_allowed (apr_proposal_state row) st e = Inr ()) \<and>
    (\<forall>k. get_proposal d' k = (if k = pid then Some row' else get_proposal d k))"
  using u
proof (rule update_proposal_state_Inr)
  fix row c d1
  assume row: "get_proposal d pid = Some row"
    and step: "row_step_allowed proposal_row_allowed (apr_proposal_state row) st
      (InvalidStateTransitionError ''Proposal cannot transition'') = Inr ()"
    and row': "row' = row\<lparr>apr_proposal_state := st, apr_superseded_by_proposal_id := sb,
      apr_state_changed_at := opt_or t n\<rparr>"
    and d1: "(if st \<noteq> ''pending_confirmation'' \<and> icr_active_proposal_id c = Some pid
      then update_case_row d (c\<lparr>icr_active_proposal_id := None, icr_revision := icr_revision c + 1,
             icr_updated_at := opt_or t n\<rparr>) else Inr d) = Inr d1"
    and d2: "update_proposal_row d1 row' = Inr d'"
  have key: "apr_proposal_id row' = pid" using stored_proposal [OF wf row] row' by simp
  have same: "get_proposal d1 k = get_proposal d k" for k
    using maybe_update_case [OF d1] by (auto simp: get_proposal_def)
  have "apr_proposal_state row' = st" by (simp add: row')
  moreover have "\<forall>k. get_proposal d' k = (if k = pid then Some row' else get_proposal d k)"
    using update_proposal_get [OF d2] row same unfolding key by simp
  ultimately show ?thesis using row step by blast
qed

lemma update_action_state_get_action:
  assumes wf: "wf_db d" and u: "update_action_state d n aid st ec sa va t = Inr (row', d')"
  shows "\<exists>row. get_action d aid = Some row \<and> aer_action_state row' = st \<and>
    (\<exists>e. row_step_allowed action_row_allowed (aer_action_state row) st e = Inr ()) \<and>
    (\<forall>k. get_action d' k = (if k = aid then Some row' else get_action d k))"
proof -
  from u obtain row where row: "get_action d aid = Some row" and d': "update_action_row d row' = Inr d'"
    and same: "aer_action_id row' = aer_action_id row" "aer_action_state row' = st"
    and step: "row_step_allowed action_row_allowed (aer_action_state row) st
      (InvalidStateTransitionError ''Action cannot transition'') = Inr ()"
    by (auto simp: update_action_state_def Let_def bindE_eq_Inr guard_Inr)
  have key: "aer_action_id row' = aid" using stored_action [OF wf row] same by simp
  show ?thesis using update_action_get [OF d'] row same(2) step unfolding key by auto
qed

section \<open>Refinement of the domain lifecycles\<close>

lemma runs_follow:
  assumes "repository_step d d'" and "wf_db d"
  shows "follows run_transitions (run_state_in d k) (run_state_in d' k)"
  using assms
proof (induction rule: repository_step.induct)
  case (step_create_run d f n r args row d')
  then obtain "insert_run d row = Inr d'" by (auto simp: create_run_def Let_def bindE_eq_Inr)
  from insert_run_get [OF this, of k] insert_run_fresh [OF this] show ?case by (auto simp: state_in_defs)
next
  case (step_update_run d n rid st pt ar fc t row d')
  from update_run_get_run [OF step_update_run(2,1)] show ?case
    by (cases "k = rid") (auto simp: state_in_defs dest: run_rows.update_follows)
qed (drule repository_frames, force simp: state_in_defs get_run_def)+

lemma proposals_follow:
  assumes "repository_step d d'" and "wf_db d"
  shows "follows proposal_transitions (proposal_state_in d k) (proposal_state_in d' k)"
  using assms
proof (induction rule: repository_step.induct)
  case (step_create_proposal d p row d')
  then obtain "insert_proposal d row = Inr d'" by (auto simp: create_proposal_def Let_def bindE_eq_Inr)
  from insert_proposal_get [OF this, of k] insert_proposal_fresh [OF this] show ?case by (auto simp: state_in_defs)
next
  case (step_update_proposal_state d n pid st sb t row d')
  from update_proposal_state_get_proposal [OF step_update_proposal_state(2,1)] show ?case
    by (cases "k = pid") (auto simp: state_in_defs dest: proposal_rows.update_follows)
qed (drule repository_frames, force simp: state_in_defs get_proposal_def)+

lemma actions_follow:
  assumes "repository_step d d'" and "wf_db d"
  shows "follows action_transitions (action_state_in d k) (action_state_in d' k)"
  using assms
proof (induction rule: repository_step.induct)
  case (step_create_action d n n' a row d')
  then obtain "insert_action d row = Inr d'" by (auto simp: create_action_def Let_def bindE_eq_Inr)
  from insert_action_get [OF this, of k] insert_action_fresh [OF this] show ?case by (auto simp: state_in_defs)
next
  case (step_update_action_state d n aid st ec sa va t row d')
  from update_action_state_get_action [OF step_update_action_state(2,1)] show ?case
    by (cases "k = aid") (auto simp: state_in_defs dest: action_rows.update_follows)
qed (drule repository_frames, force simp: state_in_defs get_action_def)+

text \<open>At most one row of a kind whose members exclude each other.\<close>

lemma at_most_one:
  assumes "table_ok t rows" and "\<And>q r. Q q \<Longrightarrow> Q r \<Longrightarrow> clash t q r"
  shows "length (filter Q rows) \<le> 1"
  using assms(1) unfolding table_ok_def
proof (induction rows)
  case (Cons r rows)
  then have IH: "length (filter Q rows) \<le> 1" by simp
  show ?case
  proof (cases "Q r")
    case True
    have "\<forall>q \<in> set rows. \<not> Q q"
    proof
      fix q assume "q \<in> set rows"
      with Cons.prems have "\<not> clash t r q" by auto
      with True assms(2) show "\<not> Q q" by blast
    qed
    then have "filter Q rows = []" by (simp add: filter_empty_conv)
    with True show ?thesis by simp
  qed (use IH in simp)
qed simp

definition pending_proposals :: "database \<Rightarrow> string \<Rightarrow> proposal_row list" where
  "pending_proposals d case_id =
     filter (\<lambda>r. apr_case_id r = case_id \<and> apr_proposal_state r = ''pending_confirmation'') (db_proposals d)"

definition active_tickets_for :: "database \<Rightarrow> string \<Rightarrow> string \<Rightarrow> string option \<Rightarrow> ticket_row list" where
  "active_tickets_for d order_id issue target =
     filter (\<lambda>r. tkr_ticket_state r = ''active'' \<and> tkr_authorized_order_id r = order_id \<and>
         tkr_issue_type r = issue \<and> tkr_target_shipment_id r = target) (db_tickets d)"

lemma one_pending_proposal: "wf_db d \<Longrightarrow> length (pending_proposals d c) \<le> 1"
  unfolding pending_proposals_def wf_db_def
  by (elim conjE) (erule at_most_one, auto simp: clash_def proposal_table_def)

lemma one_active_ticket: "wf_db d \<Longrightarrow> length (active_tickets_for d oid i t) \<le> 1"
  unfolding active_tickets_for_def wf_db_def
  by (elim conjE) (erule at_most_one, auto simp: clash_def ticket_table_def)

text \<open>A small reachable database: one conversation with one case that waits for a retry.\<close>

definition retry_case_row :: case_row where
  "retry_case_row = \<lparr>icr_case_id = ''case_1'', icr_conversation_id = ''conv_1'', icr_customer_id = ''cust_1'',
     icr_related_case_id = None, icr_authorized_order_id = ''ORD-001'', icr_target_shipment_id = None,
     icr_reported_issue_type = ''stalled_tracking'', icr_canonical_issue_type = ''stalled_tracking'',
     icr_issue_type_revision_history = [], icr_case_state = ''awaiting_retry'', icr_case_outcome = None,
     icr_reason_code = None, icr_business_clarification_count = 0, icr_actual_read_tool_execution_count = 0,
     icr_agent_planning_turn_count = 0, icr_active_proposal_id = None, icr_revision = 1,
     icr_created_at = Aware 0, icr_updated_at = Aware 0, icr_closed_at = None\<rparr>"

definition retry_conversation_row :: conversation_row where
  "retry_conversation_row = \<lparr>cvr_conversation_id = ''conv_1'', cvr_customer_id = ''cust_1'',
     cvr_fixture_customer_key = ''cust_1'', cvr_fixture_version = ''fixture-v1'', cvr_llm_mode = ''mock'',
     cvr_active_case_id = Some ''case_1'', cvr_next_event_sequence = 0, cvr_created_at = Aware 0,
     cvr_updated_at = Aware 0\<rparr>"

definition retry_database :: database where
  "retry_database = empty_database\<lparr>db_conversations := [retry_conversation_row], db_cases := [retry_case_row]\<rparr>"

definition retried_case :: investigation_case where
  "retried_case = \<lparr>ic_case_id = ''case_1'', ic_conversation_id = ''conv_1'', ic_customer_id = ''cust_1'',
     ic_authorized_order_id = ''ORD-001'', ic_canonical_issue_type = STALLED_TRACKING,
     ic_case_state = CS_AWAITING_RETRY, ic_case_outcome = None, ic_reason_code = None, ic_related_case_id = None,
     ic_business_clarifications = 0, ic_planning_turns = 0, ic_read_tool_executions = 0,
     ic_issue_type_revision_history = [], ic_target_shipment_id = None\<rparr>"

lemmas concrete_rows = retry_database_def retry_case_row_def retry_conversation_row_def retried_case_def
  empty_database_def get_row_def case_table_def conversation_table_def case_update_guard_def updated_case_row_def
  no_case_update_def stale_def require_row_def update_case_row_def update_row_def insert_row_def check_row_def
  clash_def opt_list_def str_or_def Let_def

lemma retry_database_reachable: "reachable_db retry_database"
proof -
  let ?d = "empty_database\<lparr>db_conversations := [retry_conversation_row\<lparr>cvr_active_case_id := None\<rparr>]\<rparr>"
  have "create_conversation empty_database [] (Aware 0) (Aware 0) ''cust_1'' ''cust_1'' ''mock'' (Some ''conv_1'')
      ''fixture-v1'' None = Inr (retry_conversation_row\<lparr>cvr_active_case_id := None\<rparr>, ?d)"
    by (simp add: create_conversation_def insert_conversation_def concrete_rows)
  then have first: "repository_step empty_database ?d" by (rule step_create_conversation)
  have "create_case ?d (Aware 0) retried_case None None = Inr (retry_case_row, retry_database)"
    by (simp add: create_case_def new_case_row_def require_conversation_def get_conversation_def
        update_conversation_row_def insert_case_def refs_case_def has_row_def has_opt_row_def concrete_rows)
  then have "repository_step ?d retry_database" by (rule step_create_case)
  with first show ?thesis unfolding reachable_db_def by (meson rtranclp.rtrancl_into_rtrancl rtranclp.rtrancl_refl)
qed

text \<open>C37. Every database that operations of the repository reach from the empty one satisfies the declared
  constraints of every table (check constraints, unique keys, foreign keys, time zones); so a case has at most
  one proposal pending confirmation, and an order has at most one active ticket per issue and target.\<close>

theorem reachable_database_is_well_formed:
  assumes "reachable_db d"
  shows "wf_db d \<and> length (pending_proposals d c) \<le> 1 \<and> length (active_tickets_for d oid issue target) \<le> 1"
proof -
  have "wf_db d" using assms repository_steps_wf empty_database_wf unfolding reachable_db_def by blast
  then show ?thesis by (blast intro: one_pending_proposal one_active_ticket)
qed

theorem reachable_database_is_well_formed_witness:
  "wf_db retry_database \<and> length (pending_proposals retry_database ''case_1'') \<le> 1 \<and>
   length (active_tickets_for retry_database ''ORD-001'' ''stalled_tracking'' None) \<le> 1"
  by (rule reachable_database_is_well_formed [OF retry_database_reachable])

text \<open>C16. Whatever operation of the repository runs on a reachable database, every stored run, proposal and
  action keeps its lifecycle state or moves along the table that \<open>domain/transitions.py\<close> gives for it, and
  none disappears: the guarded row updates refine the domain's state machines.\<close>

theorem repository_refines_lifecycles:
  assumes "reachable_db d" and "repository_step d d'"
  shows "follows run_transitions (run_state_in d k) (run_state_in d' k) \<and>
    follows proposal_transitions (proposal_state_in d k) (proposal_state_in d' k) \<and>
    follows action_transitions (action_state_in d k) (action_state_in d' k)"
proof -
  have "wf_db d" using assms(1) repository_steps_wf empty_database_wf unfolding reachable_db_def by blast
  with assms(2) show ?thesis by (blast intro: runs_follow proposals_follow actions_follow)
qed

lemma retry_database_step:
  "\<exists>row' d'. update_case retry_database (Aware 1) ''case_1''
      (no_case_update\<lparr>cu_case_state := Some ''executing_action''\<rparr>) = Inr (row', d') \<and>
      icr_case_state row' = ''executing_action''"
  by (simp add: update_case_def require_case_def require_conversation_def get_case_def get_conversation_def concrete_rows)

theorem repository_refines_lifecycles_witness:
  "\<exists>d'. repository_step retry_database d' \<and>
     follows run_transitions (run_state_in retry_database ''run_1'') (run_state_in d' ''run_1'') \<and>
     follows proposal_transitions (proposal_state_in retry_database ''run_1'') (proposal_state_in d' ''run_1'') \<and>
     follows action_transitions (action_state_in retry_database ''run_1'') (action_state_in d' ''run_1'')"
proof -
  from retry_database_step obtain d' where "repository_step retry_database d'" by (blast intro: step_update_case)
  with repository_refines_lifecycles [OF retry_database_reachable this, of "''run_1''"] show ?thesis by blast
qed

section \<open>Closed and open cases\<close>

lemma case_to_domain_state: "case_to_domain r = Inr c \<Longrightarrow> icr_case_state r = case_state_value (ic_case_state c)"
  by (auto simp: case_to_domain_def bindE_eq_Inr dest!: member_of_Inr check_case_id)

text \<open>The repository refuses every update of a closed case.\<close>

lemma closed_case_refused:
  assumes "get_case d cid = Some row" and "icr_case_state row = ''closed''"
  shows "update_case d n cid u \<noteq> Inr (row', d') \<and> append_issue_revision d n cid it rv er \<noteq> Inr (row', d')"
  using assms by (auto simp: update_case_def append_issue_revision_def require_case_def bindE_eq_Inr
      case_update_guard_def Let_def split: if_splits)

text \<open>An open case may be moved to any open state: from waiting for a retry to executing, for instance, which
  the domain's table does not have and which the retry of a failed action performs.\<close>

theorem repository_allows_case_step_outside_table:
  "(\<exists>row' d'. update_case retry_database (Aware 1) ''case_1''
      (no_case_update\<lparr>cu_case_state := Some ''executing_action''\<rparr>) = Inr (row', d') \<and>
      icr_case_state row' = case_state_value CS_EXECUTING_ACTION) \<and>
   CS_EXECUTING_ACTION \<notin> set (case_transitions CS_AWAITING_RETRY)"
  using retry_database_step by simp

section \<open>Round trips through the rows\<close>

lemma action_type_member [simp]:
  "member_of action_type_value [CREATE_LOGISTICS_INVESTIGATION_TICKET] f (action_type_value a) = Inr a"
  by (cases a) (simp add: member_of_def)

lemma created_proposal_reads_back:
  assumes "wf_proposal p" and "create_proposal d p = Inr (row, d')"
  shows "proposal_to_domain row = Inr p"
  using assms by (cases p) (auto simp: create_proposal_def proposal_to_domain_def Let_def bindE_eq_Inr wf_proposal_def
      member_of_value members_complete simp del: action_type_value.simps)

lemma created_action_reads_back:
  assumes "wf_action a" and "create_action d n n' a = Inr (row, d')"
  shows "action_to_domain row = Inr a"
  using assms by (cases a) (auto simp: create_action_def action_to_domain_def Let_def bindE_eq_Inr wf_action_def
      member_of_value members_complete)

lemma mapE_id: "(\<And>x. x \<in> set xs \<Longrightarrow> f x = Inr x) \<Longrightarrow> mapE f xs = Inr xs"
  by (induction xs) auto

lemma created_case_reads_back:
  assumes "wf_case c" and "\<forall>r \<in> set (ic_issue_type_revision_history c). check_issue_revision r = Inr r"
    and "create_case d n c ri t = Inr (row, d')"
  shows "case_to_domain row = Inr c"
proof -
  have row: "row = new_case_row c ri (opt_or t n)" using create_case_Inr [OF assms(3)] by blast
  have outcome: "opt_member_of case_outcome_value all_case_outcomes f (map_option case_outcome_value x) = Inr x" for f x
    by (cases x) (simp_all add: opt_member_of_def member_of_value members_complete)
  show ?thesis using assms(1,2) unfolding row
    by (cases c) (simp add: case_to_domain_def new_case_row_def Let_def member_of_value members_complete outcome
        mapE_id wf_case_def)
qed

end
