(* ===== verification/ConfirmationOutcome.thy ===== *)
theory ConfirmationOutcome
  imports Confirmation RowLifecycle
begin

text \<open>
  What the handlers of \<open>Confirmation\<close> leave behind: the database is well formed after every outcome, a decline
  ends the proposal and its case without a ticket, and runs of both handlers on concrete databases.
\<close>

section \<open>Every outcome\<close>

definition sound_after :: "app_state \<Rightarrow> app_state \<Rightarrow> bool" where
  "sound_after s s' \<longleftrightarrow> wf_db (sv_db s') \<and> events_numbered (sv_db s') \<and>
     (\<forall>k. prefix (conversation_log (sv_db s) k) (conversation_log (sv_db s') k))"

lemma stepwise_sound:
  assumes "related stepwise m" and "wf_db (sv_db s)" and "events_numbered (sv_db s)"
  shows "sound_after s (snd (m s))"
  using assms unfolding related_def stepwise_def sound_after_def
  by (blast intro: db_steps_wf db_steps_numbered db_steps_log)

section \<open>Declining\<close>

lemma bindA_Inr: "bindA m f s = (Inr y, s') \<longleftrightarrow> (\<exists>x s1. m s = (Inr x, s1) \<and> f x s1 = (Inr y, s'))"
  by (auto simp: bindA_def split: prod.splits sum.splits)

lemma thenA_Inr: "thenA m n s = (Inr y, s') \<longleftrightarrow> (\<exists>x s1. m s = (Inr x, s1) \<and> n s1 = (Inr y, s'))"
  by (simp add: thenA_def bindA_Inr)

lemma transaction_Inr: "transaction m s = (Inr y, s') \<longleftrightarrow> m s = (Inr y, s')"
  by (auto simp: transaction_def split: prod.splits sum.splits)

lemma repo_Inr: "repo env f s = (Inr y, s') \<Longrightarrow> \<exists>t d. f t (sv_db s) = Inr (y, d) \<and> sv_db s' = d"
  by (auto simp: repo_def bindA_Inr on_db_def utc_now_def split: sum.splits)

lemma update_case_get_case:
  assumes "wf_db d" and "update_case d n cid u = Inr (row', d')"
  shows "\<exists>row. get_case d cid = Some row \<and> get_case d' cid = Some row' \<and>
    row' = updated_case_row u (opt_or (cu_updated_at u) n) row"
  using assms(2)
proof (rule update_case_Inr)
  fix row c d1
  assume row: "get_case d cid = Some row" and row': "row' = updated_case_row u (opt_or (cu_updated_at u) n) row"
    and d1: "(if icr_case_state row' = ''closed'' \<and> cvr_active_case_id c = Some cid
      then update_conversation_row d (c\<lparr>cvr_active_case_id := None, cvr_updated_at := opt_or (cu_updated_at u) n\<rparr>)
      else Inr d) = Inr d1" and d2: "update_case_row d1 row' = Inr d'"
  have same: "db_cases d1 = db_cases d" using maybe_update_conversation [OF d1] by auto
  have key: "tbl_key case_table row' = cid"
    using case_key [OF row] by (simp add: row' updated_case_row_def case_table_def Let_def)
  have "has_row case_table (db_cases d) cid" using row by (simp add: has_row_get get_case_def)
  with d2 have "get_case d' cid = Some row'"
    by (auto simp: update_case_row_def bindE_eq_Inr same get_case_def key dest!: get_row_update [where k = cid])
  with row row' show ?thesis by blast
qed

text \<open>What is true after the commit stays true: later parts write runs, messages and events only.\<close>

definition declined_in :: "database \<Rightarrow> string \<Rightarrow> string \<Rightarrow> bool" where
  "declined_in d pid cid \<longleftrightarrow>
     (\<exists>p c. get_proposal d pid = Some p \<and> apr_proposal_state p = ''declined'' \<and>
        get_case d cid = Some c \<and> icr_case_state c = ''closed'' \<and>
        icr_case_outcome c = Some ''resolved_no_action'' \<and>
        icr_reason_code c = Some ''CUSTOMER_DECLINED_PROPOSAL'')"

definition keeps_decisions :: "app_state \<Rightarrow> app_state \<Rightarrow> bool" where
  "keeps_decisions s s' \<longleftrightarrow>
     db_proposals (sv_db s') = db_proposals (sv_db s) \<and> db_cases (sv_db s') = db_cases (sv_db s)"

lemma declined_in_kept: "keeps_decisions s s' \<Longrightarrow> declined_in (sv_db s) pid cid \<Longrightarrow> declined_in (sv_db s') pid cid"
  by (simp add: keeps_decisions_def declined_in_def get_proposal_def get_case_def)

interpretation keeps_decisions: outcome_relation keeps_decisions
  by unfold_locales (auto simp: keeps_decisions_def)

lemma keeps_decisions_parts:
  "related keeps_decisions (say env k c r reply)" "related keeps_decisions (run_succeeds env r)"
  "related keeps_decisions (emit env k c ro ty vis summary payload)"
proof -
  show "related keeps_decisions (say env k c r reply)" unfolding say_def
    by (intro keeps_decisions.related_basic keeps_decisions.related_repo)
      (auto simp: keeps_decisions_def dest!: add_message_frame)
  show "related keeps_decisions (run_succeeds env r)" unfolding run_succeeds_def
    by (rule keeps_decisions.related_repo) (auto simp: keeps_decisions_def dest!: update_run_frame)
  show "related keeps_decisions (emit env k c ro ty vis summary payload)"
  proof (rule keeps_decisions.related_emit)
    fix s :: app_state and n n' e v es
    assume "event_append (sv_events s) n n' e = Inr (v, es)"
    from event_append_touches [OF this] show "keeps_decisions s (s\<lparr>sv_events := es\<rparr>)"
      by (auto simp: keeps_decisions_def sv_db_def)
  qed
qed

lemma keeps_decisions_report: "related keeps_decisions (report_declined env pid version cid k rid)"
  unfolding report_declined_def emit_reply_and_success_def emit_customer_reply_def emit_run_succeeded_def
  by (intro keeps_decisions.related_basic keeps_decisions_parts)

lemma commit_decline_Inr:
  assumes "commit_decline env pid now cid k rid s = (Inr x, s')" and "wf_db (sv_db s)"
  shows "declined_in (sv_db s') pid cid"
proof -
  from assms(1) obtain p s1 c s2 s3 m where
    1: "repo env (\<lambda>t d. update_proposal_state d t pid ''declined'' None (Some now)) s = (Inr p, s1)" and
    2: "move_case env cid (\<lambda>_. closing CO_RESOLVED_NO_ACTION ''CUSTOMER_DECLINED_PROPOSAL'') s1 = (Inr c, s2)" and
    3: "say env k (Some cid) rid declined_reply s2 = (Inr m, s3)" and 4: "run_succeeds env rid s3 = (Inr x, s')"
    unfolding commit_decline_def transaction_Inr thenA_Inr by blast
  from repo_Inr [OF 1] obtain t where u: "update_proposal_state (sv_db s) t pid ''declined'' None (Some now) = Inr (p, sv_db s1)"
    by auto
  have wf1: "wf_db (sv_db s1)" using update_proposal_state_wf [OF assms(2) u] by simp
  have p: "get_proposal (sv_db s1) pid = Some p" "apr_proposal_state p = ''declined''"
    using update_proposal_state_get_proposal [OF assms(2) u] by auto
  from 2 obtain t' q where v: "update_case (sv_db s1) t' cid
      ((closing CO_RESOLVED_NO_ACTION ''CUSTOMER_DECLINED_PROPOSAL'')\<lparr>cu_expected_revision := Some q\<rparr>) = Inr (c, sv_db s2)"
    by (auto simp: move_case_def bindA_Inr dest!: repo_Inr)
  from update_case_get_case [OF wf1 v] update_case_frame [OF v] p have "declined_in (sv_db s2) pid cid"
    by (auto simp: declined_in_def get_proposal_def updated_case_row_def Let_def closing_def to_state_def no_case_update_def)
  then show ?thesis
    using relatedD [OF keeps_decisions_parts(1) 3] relatedD [OF keeps_decisions_parts(2) 4] by (blast intro: declined_in_kept)
qed

text \<open>A decline that answers.\<close>

lemma wf_after: "related stepwise m \<Longrightarrow> m s = (r, s') \<Longrightarrow> wf_db (sv_db s) \<Longrightarrow> wf_db (sv_db s')"
  by (drule (1) relatedD) (auto simp: stepwise_def intro: db_steps_wf)

lemma opening_reads:
  assumes "new_id_app env ''trc'' s = (Inr tid, s1)" and "case_of_proposal pid s1 = (Inr cid, s2)"
    and "create_action_run env cid kind tid s2 = (Inr ids, s3)" and "utc_now env s3 = (Inr now, s4)"
  shows "same_business s s4" "cid = apr_case_id (the (get_proposal (sv_db s) pid))" "\<exists>m. now = ae_clock env m"
    "wf_db (sv_db s) \<Longrightarrow> wf_db (sv_db s4)"
proof -
  have b1: "same_business s s1" by (rule relatedD [OF same_business.related_new_id assms(1)])
  have [simp]: "s2 = s1" using assms(2) by (simp add: case_of_proposal_def)
  note b1
  also have "same_business s1 s3" using relatedD [OF opening_same_business assms(3)] by simp
  also have "same_business s3 s4" by (rule relatedD [OF same_business.related_clock(1) assms(4)])
  finally show "same_business s s4" .
  show "cid = apr_case_id (the (get_proposal (sv_db s) pid))"
    using assms(2) by (auto simp: case_of_proposal_def same_business_reads [OF b1] split: option.splits)
  show "\<exists>m. now = ae_clock env m" using assms(4) by (auto simp: utc_now_def)
  assume "wf_db (sv_db s)"
  then have "wf_db (sv_db s2)" using wf_after [OF stepwise.related_new_id assms(1)] by simp
  then have "wf_db (sv_db s3)" by (rule wf_after [OF stepwise.related_create_action_run assms(3)])
  then show "wf_db (sv_db s4)" by (rule wf_after [OF stepwise.related_clock(1) assms(4)])
qed

lemma decline_answers:
  assumes run: "decline_proposal env pid version s = (Inr resp, s')" and wf: "wf_db (sv_db s)"
  shows "declined_in (sv_db s') pid (tp_case_id resp) \<and> tp_proposal_state resp = ''declined'' \<and>
    (\<exists>p c m. get_proposal (sv_db s) pid = Some p \<and> get_case (sv_db s) (apr_case_id p) = Some c \<and>
       tp_case_id resp = apr_case_id p \<and> validate_pending_proposal p c version (ae_clock env m) = Inr ())"
proof -
  from run obtain tid s1 cid s2 ids s3 now s4 valid s5 u s6 x s7 where
    o: "new_id_app env ''trc'' s = (Inr tid, s1)" "case_of_proposal pid s1 = (Inr cid, s2)"
      "create_action_run env cid ''decline'' tid s2 = (Inr ids, s3)" "utc_now env s3 = (Inr now, s4)" and
    valid: "read_db (\<lambda>d. bindE (require_proposal d pid) (\<lambda>p. bindE (require_case d cid) (\<lambda>c.
        Inr (validate_pending_proposal p c version now)))) s4 = (Inr valid, s5)" and
    rejected: "(case valid of Inl e \<Rightarrow> reject_decline env e pid cid (snd ids) (fst ids) now
      | Inr _ \<Rightarrow> returnA ()) s5 = (Inr u, s6)" and
    commit: "commit_decline env pid now cid (snd ids) (fst ids) s6 = (Inr x, s7)" and
    report: "report_declined env pid version cid (snd ids) (fst ids) s7 = (Inr resp, s')"
    unfolding decline_proposal_def bindA_Inr thenA_Inr split_def by blast
  note opened = opening_reads [OF o]
  have ok: "valid = Inr ()" "s6 = s5" "s5 = s4"
    using rejected valid by (auto simp: rejections_raise [THEN raisesD] split: sum.splits)
  from valid obtain p c where p: "get_proposal (sv_db s) pid = Some p" and c: "get_case (sv_db s) cid = Some c"
    and v: "validate_pending_proposal p c version now = Inr ()"
    by (auto simp: ok bindE_eq_Inr require_proposal_def require_case_def require_row_def
        same_business_reads [OF opened(1)] split: option.splits)
  from commit_decline_Inr [OF commit] opened(4) wf have "declined_in (sv_db s7) pid cid" by (simp add: ok)
  with relatedD [OF keeps_decisions_report report] have "declined_in (sv_db s') pid cid" by (rule declined_in_kept)
  moreover have "tp_case_id resp = cid" "tp_proposal_state resp = ''declined''"
    using report by (auto simp: report_declined_def thenA_Inr)
  ultimately show ?thesis using p c v opened(2,3) by auto
qed

text \<open>C17. Whatever becomes of a decline, no ticket is written and the fixtures stay; and when it answers, the
  proposal was pending, unexpired, of the given version and the one its case waited for, it is declined now,
  and its case is closed as resolved without an action.\<close>

theorem decline_closes_without_ticket:
  assumes "wf_db (sv_db s)"
  shows "db_tickets (sv_db (snd (decline_proposal env pid version s))) = db_tickets (sv_db s) \<and>
    sv_fixtures (snd (decline_proposal env pid version s)) = sv_fixtures s \<and>
    (\<forall>resp. fst (decline_proposal env pid version s) = Inr resp \<longrightarrow>
       tp_proposal_state resp = ''declined'' \<and>
       declined_in (sv_db (snd (decline_proposal env pid version s))) pid (tp_case_id resp) \<and>
       (\<exists>p c m. get_proposal (sv_db s) pid = Some p \<and> get_case (sv_db s) (apr_case_id p) = Some c \<and>
          tp_case_id resp = apr_case_id p \<and> validate_pending_proposal p c version (ae_clock env m) = Inr ()))"
proof -
  obtain r s' where run: "decline_proposal env pid version s = (r, s')" by force
  from relatedD [OF no_ticket.related_decline_proposal run]
  have "db_tickets (sv_db s') = db_tickets (sv_db s) \<and> sv_fixtures s' = sv_fixtures s" by (simp add: no_ticket_def)
  then show ?thesis using run decline_answers [of env pid version s _ s'] assms by auto
qed

text \<open>After every outcome of confirming or declining a proposal, exceptions at any point included, the
  database satisfies every declared constraint, the events of every conversation are numbered without gaps,
  and the log of every conversation has only grown at its end.\<close>

theorem handlers_keep_database_sound:
  assumes "wf_db (sv_db s)" and "events_numbered (sv_db s)"
  shows "sound_after s (snd (confirm_proposal env pid version s)) \<and>
    sound_after s (snd (decline_proposal env pid version s))"
  using assms stepwise_sound stepwise.related_confirm_proposal stepwise.related_decline_proposal by blast

section \<open>Clarified receptions\<close>

text \<open>A confirmation asks the gate without the customer's facts.  Where the proof of delivery names a reception
  point the answer is never to propose a ticket, whatever else the results say: a proposal that was made after
  the customer had checked the reception points cannot be confirmed.\<close>

lemma unclarified_extension:
  "clarification_due (common_facts.extend (default_common target)
     (signed_evidence.fields order timeline pod tickets policy True False False)) \<longleftrightarrow>
   (\<exists>p. tr_payload pod = Some p \<and> dp_pod_status p = DP_FOUND \<and>
      dp_recipient_type p \<in> Some ` set reception_recipient_types)"
  by (simp add: clarification_due_def common_facts.defs signed_evidence.defs default_common_def)

lemma persisted_facts_unclarified:
  assumes "persisted_signed_facts results target policy = Inr facts"
    and "typed_result proof_view results ''get_delivery_proof'' = Inr pod" and "tr_payload pod = Some payload"
    and "dp_pod_status payload = DP_FOUND" and "dp_recipient_type payload \<in> Some ` set reception_recipient_types"
  shows "\<exists>f. facts = SignedFacts f \<and> clarification_due f"
  using assms(1) unfolding persisted_signed_facts_def
proof (elim bindE_InrE)
  fix order timeline pod' tickets
  assume "typed_result proof_view results ''get_delivery_proof'' = Inr pod'"
  with assms(2) have "pod' = pod" by simp
  moreover assume "Inr (SignedFacts (common_facts.extend (default_common target)
        (signed_evidence.fields order timeline pod' tickets policy True False False))) = Inr facts"
  ultimately show ?thesis using assms(3-5) unclarified_extension by blast
qed

lemma clarified_reception_never_proposes:
  assumes "persisted_signed_facts results target policy = Inr facts"
    and "typed_result proof_view results ''get_delivery_proof'' = Inr pod" and "tr_payload pod = Some payload"
    and "dp_pod_status payload = DP_FOUND" and "dp_recipient_type payload \<in> Some ` set reception_recipient_types"
    and "evaluate_evidence_gate mhash SIGNED_NOT_RECEIVED facts = Inr g"
  shows "gr_decision g \<noteq> Some GD_PROPOSE_TICKET"
proof -
  from persisted_facts_unclarified [OF assms(1-5)] obtain f where f: "facts = SignedFacts f" "clarification_due f" by blast
  from assms(6) have "g = evaluate_signed_not_received mhash f" by (simp add: f(1))
  with f(2) show ?thesis by (simp add: evaluate_signed_proposes signed_proposable_def)
qed

section \<open>A run\<close>

definition demo_env :: app_env where
  "demo_env = \<lparr>ae_sha = w_sha, ae_sha_text = (\<lambda>_. w_digest), ae_dump_proof = (\<lambda>_. JNull), ae_casefold = (\<lambda>t. t),
     ae_clock = (\<lambda>n. Aware 10), ae_hex = (\<lambda>n. replicate n CHR ''a''), ae_fault_seed = ''seed'',
     ae_evaluated_at = Aware 10, ae_max_case_reads = 6, ae_max_case_turns = 16, ae_rag = w_rag\<rparr>"

definition waiting_case :: case_row where
  "waiting_case = retry_case_row\<lparr>icr_case_state := ''awaiting_customer_confirmation'',
     icr_active_proposal_id := Some ''prop_1''\<rparr>"

definition demo_proposal :: proposal_row where
  "demo_proposal = \<lparr>apr_proposal_id = ''prop_1'', apr_conversation_id = ''conv_1'', apr_case_id = ''case_1'',
     apr_version = 1, apr_proposal_state = ''pending_confirmation'',
     apr_action_type = ''create_logistics_investigation_ticket'', apr_execution_parameters = JObj [],
     apr_customer_visible_effect = [], apr_evidence_refs = [], apr_evidence_snapshot_hash = w_digest,
     apr_case_fact_identity = JNull, apr_superseded_by_proposal_id = None, apr_created_at = Aware 0,
     apr_expires_at = Aware 100, apr_state_changed_at = Aware 0\<rparr>"

definition waiting_database :: database where
  "waiting_database = empty_database\<lparr>db_conversations := [retry_conversation_row], db_cases := [waiting_case],
     db_proposals := [demo_proposal]\<rparr>"

definition waiting_state :: app_state where
  "waiting_state = \<lparr>sv_events = \<lparr>es_db = waiting_database, es_hub = []\<rparr>, sv_fixtures = sample_store,
     sv_caches = [], sv_tick = 0\<rparr>"

lemmas demo_run_defs = waiting_state_def waiting_database_def waiting_case_def demo_proposal_def retry_case_row_def
  retry_conversation_row_def empty_database_def

lemma waiting_database_wf: "wf_db waiting_database"
  by (simp add: wf_db_def table_ok_def check_row_def clash_def case_table_def conversation_table_def proposal_table_def
      refs_case_def refs_proposal_def has_row_def has_opt_row_def opt_list_def demo_run_defs)

lemma waiting_database_numbered: "events_numbered waiting_database"
  by (simp add: events_numbered_def conversation_events_def last_sequence_def get_conversation_def get_row_def
      conversation_table_def demo_run_defs)

lemma waiting_state_db: "sv_db waiting_state = waiting_database"
  by (simp add: waiting_state_def sv_db_def)

theorem decline_closes_without_ticket_witness:
  "db_tickets (sv_db (snd (decline_proposal demo_env ''prop_1'' 1 waiting_state))) = [] \<and>
   sv_fixtures (snd (decline_proposal demo_env ''prop_1'' 1 waiting_state)) = sample_store"
  using decline_closes_without_ticket [of waiting_state demo_env "''prop_1''" 1] waiting_database_wf
  by (simp add: waiting_state_db) (simp add: demo_run_defs)

theorem handlers_keep_database_sound_witness:
  "sound_after waiting_state (snd (confirm_proposal demo_env ''prop_1'' 1 waiting_state)) \<and>
   sound_after waiting_state (snd (decline_proposal demo_env ''prop_1'' 1 waiting_state))"
  by (rule handlers_keep_database_sound) (simp_all add: waiting_state_db waiting_database_wf waiting_database_numbered)

end
