(* ===== verification/AdaptiveTypes.thy ===== *)
theory AdaptiveTypes
  imports GovernedTools
begin

text \<open>
  The contracts of \<open>application/adaptive_core.py\<close>: the enumerations, the requirement registry and the
  evidence progress snapshot with its digest.

  \<^item> \<open>requirements: dict[EvidenceRequirementCode, RequirementProgress]\<close> always holds every code, so it is
    a function; \<open>for code in EvidenceRequirementCode\<close> runs over \<open>all_requirements\<close>, which is also the
    enumeration of the type in the class \<open>enum\<close>.
  \<^item> \<open>_canonical_json\<close> is \<open>normal_json\<close>, and \<open>sha\<close> its digest.
  \<^item> A dictionary of arguments is an association list; two are equal when their normal forms are.
\<close>

section \<open>Enumerations\<close>

datatype observation_action = OA_CALL_TOOL | OA_FINISH

fun observation_action_value :: "observation_action \<Rightarrow> string" where
  "observation_action_value OA_CALL_TOOL = ''call_tool''"
| "observation_action_value OA_FINISH = ''finish''"

datatype selector_kind = SK_AGENT | SK_WORKFLOW

datatype observation_reason =
    OR_FIRST_REQUIRED_OBSERVATION
  | OR_MISSING_REQUIRED_EVIDENCE
  | OR_OBSERVATION_CONDITIONAL_BRANCH
  | OR_OPTIONAL_EXPLANATORY_CONTEXT
  | OR_FINALIZATION_REQUESTED

datatype requirement_code =
    RC_ORDER_STATUS
  | RC_TRACKING_TIMELINE
  | RC_DELIVERY_PROOF
  | RC_POLICY_APPLICABILITY
  | RC_ACTIVE_TICKET_STATUS
  | RC_CARRIER_ALERT_CONTEXT

fun requirement_code_value :: "requirement_code \<Rightarrow> string" where
  "requirement_code_value RC_ORDER_STATUS = ''ORDER_STATUS''"
| "requirement_code_value RC_TRACKING_TIMELINE = ''TRACKING_TIMELINE''"
| "requirement_code_value RC_DELIVERY_PROOF = ''DELIVERY_PROOF''"
| "requirement_code_value RC_POLICY_APPLICABILITY = ''POLICY_APPLICABILITY''"
| "requirement_code_value RC_ACTIVE_TICKET_STATUS = ''ACTIVE_TICKET_STATUS''"
| "requirement_code_value RC_CARRIER_ALERT_CONTEXT = ''CARRIER_ALERT_CONTEXT''"

definition all_requirements :: "requirement_code list" where
  "all_requirements =
     [RC_ORDER_STATUS, RC_TRACKING_TIMELINE, RC_DELIVERY_PROOF, RC_POLICY_APPLICABILITY,
      RC_ACTIVE_TICKET_STATUS, RC_CARRIER_ALERT_CONTEXT]"

lemma all_requirements_UNIV: "set all_requirements = UNIV"
proof -
  have "c \<in> set all_requirements" for c by (cases c) (simp_all add: all_requirements_def)
  then show ?thesis by auto
qed

instantiation requirement_code :: enum
begin

definition enum_requirement_code :: "requirement_code list" where
  "enum_requirement_code = all_requirements"

definition enum_all_requirement_code :: "(requirement_code \<Rightarrow> bool) \<Rightarrow> bool" where
  "enum_all_requirement_code P \<longleftrightarrow> list_all P all_requirements"

definition enum_ex_requirement_code :: "(requirement_code \<Rightarrow> bool) \<Rightarrow> bool" where
  "enum_ex_requirement_code P \<longleftrightarrow> list_ex P all_requirements"

instance
proof
  show "UNIV = set (Enum.enum :: requirement_code list)"
    by (simp add: enum_requirement_code_def all_requirements_UNIV)
  show "distinct (Enum.enum :: requirement_code list)"
    by (simp add: enum_requirement_code_def all_requirements_def)
  show "Enum.enum_all P \<longleftrightarrow> Ball UNIV P" for P :: "requirement_code \<Rightarrow> bool"
    by (simp add: enum_all_requirement_code_def list_all_iff all_requirements_UNIV)
  show "Enum.enum_ex P \<longleftrightarrow> Bex UNIV P" for P :: "requirement_code \<Rightarrow> bool"
    by (simp add: enum_ex_requirement_code_def list_ex_iff all_requirements_UNIV)
qed

end

datatype applicability = RA_REQUIRED | RA_OPTIONAL | RA_NOT_REQUIRED

fun applicability_value :: "applicability \<Rightarrow> string" where
  "applicability_value RA_REQUIRED = ''required''"
| "applicability_value RA_OPTIONAL = ''optional''"
| "applicability_value RA_NOT_REQUIRED = ''not_required''"

datatype progress_status =
    EP_MISSING
  | EP_SATISFIED_PRESENT
  | EP_SATISFIED_ABSENT
  | EP_RETRY_PENDING
  | EP_UNAVAILABLE_FINAL
  | EP_CONFLICT

fun progress_status_value :: "progress_status \<Rightarrow> string" where
  "progress_status_value EP_MISSING = ''missing''"
| "progress_status_value EP_SATISFIED_PRESENT = ''satisfied_present''"
| "progress_status_value EP_SATISFIED_ABSENT = ''satisfied_absent''"
| "progress_status_value EP_RETRY_PENDING = ''retry_pending''"
| "progress_status_value EP_UNAVAILABLE_FINAL = ''unavailable_final''"
| "progress_status_value EP_CONFLICT = ''conflict''"

definition satisfied_statuses :: "progress_status set" where
  "satisfied_statuses = {EP_SATISFIED_PRESENT, EP_SATISFIED_ABSENT}"

datatype gate_readiness = GR_NOT_EVALUABLE | GR_EVALUABLE

fun gate_readiness_value :: "gate_readiness \<Rightarrow> string" where
  "gate_readiness_value GR_NOT_EVALUABLE = ''not_evaluable''"
| "gate_readiness_value GR_EVALUABLE = ''evaluable''"

datatype recovery_route = RR_REPLAN | RR_RETRY_EXACT | RR_FINALIZE | RR_SAFE_STOP

datatype recovery_reason =
    RX_REPLAN_REQUIRED
  | RX_RETRYABLE_TOOL_FAILURE
  | RX_GATE_READY
  | RX_BUDGET_EXHAUSTED
  | RX_INTEGRITY_CONFLICT
  | RX_SOURCE_REVISION_CHANGED_DURING_RETRY
  | RX_STUCK_REPEATED_DECISION
  | RX_STUCK_NO_EVIDENCE_PROGRESS
  | RX_PREMATURE_FINISH
  | RX_INVALID_OBSERVATION

section \<open>Budget snapshot and canonical arguments\<close>

definition check_budget_snapshot :: "tool_budget \<Rightarrow> tool_budget result" where
  "check_budget_snapshot b =
    (if \<not> (0 \<le> tb_case_planning_turns b \<and> tb_case_planning_turns b \<le> 16)
       then Inl (ValueError ''case_planning_turns'')
     else if \<not> (0 \<le> tb_run_planning_turns b \<and> tb_run_planning_turns b \<le> 8)
       then Inl (ValueError ''run_planning_turns'')
     else if \<not> (0 \<le> tb_actual_read_tool_executions b \<and> tb_actual_read_tool_executions b \<le> 6)
       then Inl (ValueError ''actual_read_tool_executions'')
     else Inr b)"

lemma check_budget_snapshot_wf: "wf_budget b \<Longrightarrow> check_budget_snapshot b = Inr b"
  by (simp add: check_budget_snapshot_def wf_budget_def budget_limits)

definition canonical_arguments_hash :: "(json \<Rightarrow> string) \<Rightarrow> arguments \<Rightarrow> string" where
  "canonical_arguments_hash sha args = sha (normal_json (JObj args))"

definition same_arguments :: "arguments \<Rightarrow> arguments \<Rightarrow> bool" where
  "same_arguments a b \<longleftrightarrow> normal_json (JObj a) = normal_json (JObj b)"

lemma same_arguments_hash:
  "same_arguments a b \<Longrightarrow> canonical_arguments_hash sha a = canonical_arguments_hash sha b"
  by (simp add: same_arguments_def canonical_arguments_hash_def)

definition decision_fingerprint ::
  "(json \<Rightarrow> string) \<Rightarrow> observation_action \<Rightarrow> string option \<Rightarrow> arguments \<Rightarrow> requirement_code list \<Rightarrow>
   string \<Rightarrow> string" where
  "decision_fingerprint sha action tool args addresses progress_hash =
     sha (normal_json (JObj
       [(''action'', JStr (observation_action_value action)),
        (''tool_name'', json_opt_str tool),
        (''canonical_arguments'', JObj args),
        (''addresses'', JList (map (JStr \<circ> requirement_code_value) addresses)),
        (''evidence_progress_hash'', JStr progress_hash)]))"

section \<open>The requirement registry\<close>

definition tool_to_requirement :: "string \<Rightarrow> requirement_code option" where
  "tool_to_requirement = map_of
     [(''get_order_context'', RC_ORDER_STATUS),
      (''get_logistics_timeline'', RC_TRACKING_TIMELINE),
      (''get_delivery_proof'', RC_DELIVERY_PROOF),
      (''search_after_sales_policy'', RC_POLICY_APPLICABILITY),
      (''get_existing_logistics_tickets'', RC_ACTIVE_TICKET_STATUS),
      (''get_carrier_service_alerts'', RC_CARRIER_ALERT_CONTEXT)]"

fun requirement_to_tool :: "requirement_code \<Rightarrow> string" where
  "requirement_to_tool RC_ORDER_STATUS = ''get_order_context''"
| "requirement_to_tool RC_TRACKING_TIMELINE = ''get_logistics_timeline''"
| "requirement_to_tool RC_DELIVERY_PROOF = ''get_delivery_proof''"
| "requirement_to_tool RC_POLICY_APPLICABILITY = ''search_after_sales_policy''"
| "requirement_to_tool RC_ACTIVE_TICKET_STATUS = ''get_existing_logistics_tickets''"
| "requirement_to_tool RC_CARRIER_ALERT_CONTEXT = ''get_carrier_service_alerts''"

lemma tool_to_requirement_iff: "tool_to_requirement t = Some c \<longleftrightarrow> t = requirement_to_tool c"
  by (cases c) (auto simp: tool_to_requirement_def)

lemma tool_to_requirement_domain: "tool_to_requirement t \<noteq> None \<longleftrightarrow> t \<in> set read_tool_names"
  by (auto simp: tool_to_requirement_def read_tool_names_def)

fun required_by_issue :: "issue_type \<Rightarrow> requirement_code list" where
  "required_by_issue SIGNED_NOT_RECEIVED =
     [RC_ORDER_STATUS, RC_TRACKING_TIMELINE, RC_DELIVERY_PROOF, RC_POLICY_APPLICABILITY,
      RC_ACTIVE_TICKET_STATUS]"
| "required_by_issue STALLED_TRACKING =
     [RC_ORDER_STATUS, RC_TRACKING_TIMELINE, RC_POLICY_APPLICABILITY, RC_ACTIVE_TICKET_STATUS]"

definition requirement_registry :: "issue_type \<Rightarrow> requirement_code \<Rightarrow> applicability" where
  "requirement_registry issue code =
    (if issue = STALLED_TRACKING \<and> code = RC_CARRIER_ALERT_CONTEXT then RA_OPTIONAL
     else if code \<in> set (required_by_issue issue) then RA_REQUIRED else RA_NOT_REQUIRED)"

definition required_observation_tools :: "issue_type \<Rightarrow> string list" where
  "required_observation_tools issue =
     map requirement_to_tool
       (filter (\<lambda>c. requirement_registry issue c = RA_REQUIRED) all_requirements)"

lemma registry_required:
  "requirement_registry issue c = RA_REQUIRED \<longleftrightarrow> c \<in> set (required_by_issue issue)"
  by (cases issue; cases c) (simp_all add: requirement_registry_def)

section \<open>Evidence progress\<close>

record requirement_progress =
  rp_applicability :: applicability
  rp_status :: progress_status
  rp_supporting_tool_call_ids :: "string list"
  rp_evidence_ref_ids :: "string list"
  rp_result_hashes :: "string list"
  rp_source_versions :: "string list"

definition check_requirement_progress :: "requirement_progress \<Rightarrow> requirement_progress result" where
  "check_requirement_progress p =
    (if \<not> distinct (rp_supporting_tool_call_ids p)
       then Inl (ValueError ''supporting_tool_call_ids must not contain duplicates'')
     else if \<not> distinct (rp_evidence_ref_ids p)
       then Inl (ValueError ''evidence_ref_ids must not contain duplicates'')
     else if \<not> distinct (rp_result_hashes p)
       then Inl (ValueError ''result_hashes must not contain duplicates'')
     else if \<not> distinct (rp_source_versions p)
       then Inl (ValueError ''source_versions must not contain duplicates'')
     else Inr p)"

definition empty_requirement :: "requirement_code \<Rightarrow> issue_type \<Rightarrow> requirement_progress" where
  "empty_requirement code issue =
     \<lparr>rp_applicability = requirement_registry issue code, rp_status = EP_MISSING,
      rp_supporting_tool_call_ids = [], rp_evidence_ref_ids = [], rp_result_hashes = [],
      rp_source_versions = []\<rparr>"

record progress_snapshot =
  pg_case_id :: string
  pg_run_id :: string
  pg_canonical_issue_type :: issue_type
  pg_revision :: nat
  pg_requirements :: "requirement_code \<Rightarrow> requirement_progress"
  pg_gate_readiness :: gate_readiness
  pg_missing_required_codes :: "requirement_code list"
  pg_terminal_trigger_codes :: "string list"
  pg_last_actual_tool_call_id :: "string option"
  pg_snapshot_hash :: string
  pg_rebuilt_at :: datetime

definition requirement_json :: "requirement_progress \<Rightarrow> json" where
  "requirement_json p =
     JObj [(''applicability'', JStr (applicability_value (rp_applicability p))),
           (''status'', JStr (progress_status_value (rp_status p))),
           (''supporting_tool_call_ids'', JList (map JStr (rp_supporting_tool_call_ids p))),
           (''evidence_ref_ids'', JList (map JStr (rp_evidence_ref_ids p))),
           (''result_hashes'', JList (map JStr (rp_result_hashes p))),
           (''source_versions'', JList (map JStr (rp_source_versions p)))]"

definition snapshot_payload :: "progress_snapshot \<Rightarrow> json" where
  "snapshot_payload s =
     JObj [(''schema_version'', JStr ''v3a.evidence_progress.v1''),
           (''case_id'', JStr (pg_case_id s)),
           (''run_id'', JStr (pg_run_id s)),
           (''canonical_issue_type'', JStr (issue_type_value (pg_canonical_issue_type s))),
           (''revision'', JInt (int (pg_revision s))),
           (''requirements'', JObj (map (\<lambda>c. (requirement_code_value c,
                                           requirement_json (pg_requirements s c))) all_requirements)),
           (''gate_readiness'', JStr (gate_readiness_value (pg_gate_readiness s))),
           (''missing_required_codes'',
              JList (map (JStr \<circ> requirement_code_value) (pg_missing_required_codes s))),
           (''terminal_trigger_codes'', JList (map JStr (pg_terminal_trigger_codes s))),
           (''last_actual_tool_call_id'', json_opt_str (pg_last_actual_tool_call_id s))]"

definition progress_snapshot_hash :: "(json \<Rightarrow> string) \<Rightarrow> progress_snapshot \<Rightarrow> string" where
  "progress_snapshot_hash sha s = sha (normal_json (snapshot_payload s))"

definition check_progress_snapshot ::
  "(json \<Rightarrow> string) \<Rightarrow> progress_snapshot \<Rightarrow> progress_snapshot result" where
  "check_progress_snapshot sha s =
    (if pg_case_id s = [] \<or> length (pg_case_id s) > 64 then Inl (ValueError ''case_id'')
     else if pg_run_id s = [] \<or> length (pg_run_id s) > 64 then Inl (ValueError ''run_id'')
     else if \<not> is_sha256_hex (pg_snapshot_hash s) then Inl (ValueError ''snapshot_hash'')
     else if \<not> is_aware (pg_rebuilt_at s)
       then Inl (ValueError ''rebuilt_at must be timezone-aware'')
     else if \<not> distinct (pg_missing_required_codes s)
       then Inl (ValueError ''missing_required_codes must not contain duplicates'')
     else if progress_snapshot_hash sha s \<noteq> pg_snapshot_hash s
       then Inl (ValueError ''snapshot_hash does not match canonical progress'')
     else Inr s)"

text \<open>The digest covers everything but itself and the rebuild time.\<close>

lemma progress_hash_ignores [simp]:
  "progress_snapshot_hash sha (s\<lparr>pg_snapshot_hash := h\<rparr>) = progress_snapshot_hash sha s"
  "progress_snapshot_hash sha (s\<lparr>pg_rebuilt_at := t\<rparr>) = progress_snapshot_hash sha s"
  by (simp_all add: progress_snapshot_hash_def snapshot_payload_def)

end
