(* ===== verification/AdaptiveReducer.thy ===== *)
theory AdaptiveReducer
  imports AdaptiveTypes "HOL-Library.Product_Lexorder"
begin

text \<open>
  \<open>EvidenceProgressReducer\<close> of \<open>application/adaptive_core.py\<close>: evidence progress is rebuilt from the
  complete history of tool calls, their envelopes and their evidence references.

  \<^item> \<open>tool_call\<close> is a persisted row: the fields that \<open>_field\<close> reads, optional where a row may lack them.
    \<open>tl_result_envelope\<close> is the outcome of \<open>_parse_tool_result\<close>, \<open>tl_requested_at\<close> is \<open>str(requested_at)\<close>,
    \<open>tl_normalized_args\<close> is \<open>None\<close> when the field is not a mapping.
  \<^item> The loop over the ordered calls is a fold of \<open>reduce_call\<close> over \<open>reduce_state\<close>; every \<open>continue\<close> is
    a branch that returns the state.

  The lemmas follow the loop: where a satisfied status comes from, that trigger codes only accumulate,
  and that a conflict always leaves a trigger code.
\<close>

section \<open>Histories\<close>

record tool_call =
  tl_tool_call_id :: string
  tl_case_id :: "string option"
  tl_run_id :: "string option"
  tl_tool_name :: "string option"
  tl_normalized_args :: "arguments option"
  tl_result_hash :: "string option"
  tl_result_envelope :: "envelope option"
  tl_execution_status :: "string option"
  tl_evidence_availability :: "string option"
  tl_source_version :: "string option"
  tl_attempt_number :: "int option"
  tl_actual_execution :: bool
  tl_requested_at :: "string option"

definition attempt_of :: "tool_call \<Rightarrow> int" where
  "attempt_of c = (case tl_attempt_number c of None \<Rightarrow> 1 | Some n \<Rightarrow> if n = 0 then 1 else n)"

record retry_directive =
  rd_retry_of_tool_call_id :: string
  rd_tool_name :: string
  rd_canonical_arguments :: arguments
  rd_canonical_arguments_hash :: string
  rd_source_version :: string
  rd_issued_from_progress_hash :: string

definition next_attempt_number :: int where
  "next_attempt_number = 2"

definition check_retry_directive ::
  "(json \<Rightarrow> string) \<Rightarrow> retry_directive \<Rightarrow> retry_directive result" where
  "check_retry_directive sha d =
    (if rd_retry_of_tool_call_id d = [] \<or> length (rd_retry_of_tool_call_id d) > 128
       then Inl (ValueError ''retry_of_tool_call_id'')
     else if rd_tool_name d = [] \<or> length (rd_tool_name d) > 96 then Inl (ValueError ''tool_name'')
     else if \<not> is_sha256_hex (rd_canonical_arguments_hash d)
       then Inl (ValueError ''canonical_arguments_hash'')
     else if rd_source_version d = [] \<or> length (rd_source_version d) > 128
       then Inl (ValueError ''source_version'')
     else if \<not> is_sha256_hex (rd_issued_from_progress_hash d)
       then Inl (ValueError ''issued_from_progress_hash'')
     else if canonical_arguments_hash sha (rd_canonical_arguments d) \<noteq> rd_canonical_arguments_hash d
       then Inl (ValueError ''retry canonical_arguments_hash does not match arguments'')
     else Inr d)"

definition evidence_refs_for :: "evidence_ref list \<Rightarrow> string \<Rightarrow> string option \<Rightarrow> evidence_ref list" where
  "evidence_refs_for refs call_id result_hash =
     filter (\<lambda>r. er_tool_call_id r = call_id \<and>
                 (result_hash = None \<or> Some (er_result_hash r) = result_hash)) refs"

definition ref_identity :: "evidence_ref \<Rightarrow> string" where
  "ref_identity r = er_tool_call_id r @ '':'' @ er_source_query_id r @ '':'' @
     str_or (er_source_record_id r) []"

section \<open>Building a snapshot\<close>

definition add_new :: "string list \<Rightarrow> string option \<Rightarrow> string list" where
  "add_new values item =
    (case item of None \<Rightarrow> values | Some x \<Rightarrow> if x \<in> set values then values else values @ [x])"

definition merge_progress ::
  "requirement_progress \<Rightarrow> progress_status \<Rightarrow> string \<Rightarrow> string option \<Rightarrow> string option \<Rightarrow> string list \<Rightarrow>
   requirement_progress" where
  "merge_progress current status call_id result_hash source_version ref_ids =
     current\<lparr>rp_status := status,
             rp_supporting_tool_call_ids := add_new (rp_supporting_tool_call_ids current) (Some call_id),
             rp_evidence_ref_ids := dict_fromkeys (rp_evidence_ref_ids current @ ref_ids),
             rp_result_hashes := add_new (rp_result_hashes current) result_hash,
             rp_source_versions := add_new (rp_source_versions current) source_version\<rparr>"

definition build_progress ::
  "(json \<Rightarrow> string) \<Rightarrow> string \<Rightarrow> string \<Rightarrow> issue_type \<Rightarrow> nat \<Rightarrow> (requirement_code \<Rightarrow> requirement_progress) \<Rightarrow>
   string list \<Rightarrow> string option \<Rightarrow> datetime \<Rightarrow> progress_snapshot" where
  "build_progress sha case_id run_id issue revision requirements terminal last_actual rebuilt_at =
    (let missing = filter (\<lambda>c. rp_status (requirements c) \<notin> satisfied_statuses)
                     (required_by_issue issue);
         conflicts = list_ex (\<lambda>c. rp_status (requirements c) = EP_CONFLICT) all_requirements;
         provisional =
           \<lparr>pg_case_id = case_id, pg_run_id = run_id, pg_canonical_issue_type = issue,
            pg_revision = revision, pg_requirements = requirements,
            pg_gate_readiness = (if missing = [] \<and> \<not> conflicts then GR_EVALUABLE else GR_NOT_EVALUABLE),
            pg_missing_required_codes = missing, pg_terminal_trigger_codes = terminal,
            pg_last_actual_tool_call_id = last_actual, pg_snapshot_hash = replicate 64 (CHR ''0''),
            pg_rebuilt_at = rebuilt_at\<rparr>
     in provisional\<lparr>pg_snapshot_hash := progress_snapshot_hash sha provisional\<rparr>)"

definition initial_progress ::
  "(json \<Rightarrow> string) \<Rightarrow> string \<Rightarrow> string \<Rightarrow> issue_type \<Rightarrow> datetime \<Rightarrow> progress_snapshot" where
  "initial_progress sha case_id run_id issue rebuilt_at =
     build_progress sha case_id run_id issue 0 (\<lambda>c. empty_requirement c issue) [] None rebuilt_at"

section \<open>The loop\<close>

record reduce_state =
  rs_states :: "requirement_code \<Rightarrow> requirement_progress"
  rs_terminal :: "string list"
  rs_last_actual :: "string option"
  rs_retry_origin_seen :: bool
  rs_retry_attempt_seen :: bool

definition reduce_start :: "issue_type \<Rightarrow> reduce_state" where
  "reduce_start issue =
     \<lparr>rs_states = (\<lambda>c. empty_requirement c issue), rs_terminal = [], rs_last_actual = None,
      rs_retry_origin_seen = False, rs_retry_attempt_seen = False\<rparr>"

definition trigger :: "string \<Rightarrow> reduce_state \<Rightarrow> reduce_state" where
  "trigger code s = s\<lparr>rs_terminal := rs_terminal s @ [code]\<rparr>"

definition mark_conflict :: "requirement_code \<Rightarrow> string \<Rightarrow> reduce_state \<Rightarrow> reduce_state" where
  "mark_conflict code reason s =
     trigger reason (s\<lparr>rs_states := (rs_states s)(code := (rs_states s code)\<lparr>rp_status := EP_CONFLICT\<rparr>)\<rparr>)"

definition args_match :: "tool_call \<Rightarrow> retry_directive \<Rightarrow> bool" where
  "args_match call d =
    (case tl_normalized_args call of None \<Rightarrow> False
     | Some args \<Rightarrow> same_arguments args (rd_canonical_arguments d))"

text \<open>The retry checks: the new flags, or the conflict that ends the iteration.\<close>

definition retry_check ::
  "retry_directive option \<Rightarrow> requirement_code \<Rightarrow> tool_call \<Rightarrow> reduce_state \<Rightarrow> reduce_state + reduce_state" where
  "retry_check pending code call s =
    (case pending of
       None \<Rightarrow> Inr s
     | Some d \<Rightarrow>
         if rd_retry_of_tool_call_id d = tl_tool_call_id call then
          (let s' = s\<lparr>rs_retry_origin_seen := True\<rparr> in
           if \<not> tl_actual_execution call \<or> attempt_of call \<noteq> 1 \<or>
              tl_tool_name call \<noteq> Some (rd_tool_name d) \<or> \<not> args_match call d \<or>
              tl_source_version call \<noteq> Some (rd_source_version d)
             then Inl (mark_conflict code ''RETRY_IDENTITY_CONFLICT'' s')
           else Inr s')
         else if rs_retry_origin_seen s \<and> \<not> rs_retry_attempt_seen s then
          (if tl_actual_execution call then
            (if attempt_of call \<noteq> 2 \<or> tl_tool_name call \<noteq> Some (rd_tool_name d) \<or>
                \<not> args_match call d \<or> tl_source_version call \<noteq> Some (rd_source_version d)
               then Inl (mark_conflict code ''RETRY_IDENTITY_CONFLICT'' s)
             else Inr (s\<lparr>rs_retry_attempt_seen := True\<rparr>))
           else Inr s)
         else Inr s)"

definition accept_success ::
  "evidence_ref list \<Rightarrow> requirement_code \<Rightarrow> tool_call \<Rightarrow> reduce_state \<Rightarrow> reduce_state" where
  "accept_success refs code call s =
    (let current = rs_states s code;
         result_hash = tl_result_hash call;
         matching = evidence_refs_for refs (tl_tool_call_id call) result_hash
     in
     if map_option tr_result_hash (tl_result_envelope call) \<noteq> result_hash \<or>
        tl_result_envelope call = None
       then mark_conflict code ''RESULT_HASH_MISMATCH'' s
     else if matching = [] then mark_conflict code ''MISSING_EVIDENCE_REF'' s
     else if rp_status current \<in> satisfied_statuses \<and> rp_result_hashes current \<noteq> [] \<and>
        result_hash \<notin> Some ` set (rp_result_hashes current)
       then mark_conflict code ''CONTRADICTORY_SUCCESS'' s
     else if rp_status current \<in> satisfied_statuses \<and> rp_source_versions current \<noteq> [] \<and>
        tl_source_version call \<notin> Some ` set (rp_source_versions current)
       then mark_conflict code ''SOURCE_REVISION_CONFLICT'' s
     else s\<lparr>rs_states := (rs_states s)(code :=
            merge_progress current
              (if tl_evidence_availability call = Some (evidence_availability_value EA_PRESENT)
               then EP_SATISFIED_PRESENT else EP_SATISFIED_ABSENT)
              (tl_tool_call_id call) result_hash (tl_source_version call)
              (map ref_identity matching))\<rparr>)"

definition accept_failure ::
  "retry_directive option \<Rightarrow> requirement_code \<Rightarrow> tool_call \<Rightarrow> reduce_state \<Rightarrow> reduce_state" where
  "accept_failure pending code call s =
    (let valid_retry = (case pending of None \<Rightarrow> False
                        | Some d \<Rightarrow> rd_retry_of_tool_call_id d = tl_tool_call_id call);
         status = (if valid_retry \<and> attempt_of call = 1 then EP_RETRY_PENDING
                   else EP_UNAVAILABLE_FINAL)
     in s\<lparr>rs_states := (rs_states s)(code :=
            merge_progress (rs_states s code) status (tl_tool_call_id call)
              (if truthy (tl_result_hash call) then tl_result_hash call else None)
              (tl_source_version call) [])\<rparr>)"

definition reduce_call ::
  "string \<Rightarrow> string \<Rightarrow> issue_type \<Rightarrow> evidence_ref list \<Rightarrow> retry_directive option \<Rightarrow> reduce_state \<Rightarrow>
   tool_call \<Rightarrow> reduce_state" where
  "reduce_call case_id run_id issue refs pending s call =
    (if (tl_case_id call \<noteq> None \<and> tl_case_id call \<noteq> Some case_id) \<or>
        (tl_run_id call \<noteq> None \<and> tl_run_id call \<noteq> Some run_id)
       then trigger ''TOOL_CALL_SCOPE_MISMATCH'' s
     else
      (case tool_to_requirement (case tl_tool_name call of None \<Rightarrow> [] | Some t \<Rightarrow> t) of
         None \<Rightarrow> trigger ''UNKNOWN_TOOL'' s
       | Some code \<Rightarrow>
          (let s1 = (if tl_actual_execution call
                     then s\<lparr>rs_last_actual := (if tl_tool_call_id call \<noteq> [] then Some (tl_tool_call_id call)
                                              else rs_last_actual s)\<rparr>
                     else s)
           in
           if requirement_registry issue code = RA_NOT_REQUIRED
             then trigger (''IRRELEVANT_TOOL:'' @ the (tl_tool_name call)) s1
           else
            (case retry_check pending code call s1 of
               Inl s2 \<Rightarrow> s2
             | Inr s2 \<Rightarrow>
                 if tl_execution_status call = Some (execution_status_value ES_SUCCESS) \<and>
                    tl_evidence_availability call \<in>
                      Some ` evidence_availability_value ` {EA_PRESENT, EA_ABSENT}
                   then accept_success refs code call s2
                 else if tl_evidence_availability call = Some (evidence_availability_value EA_UNAVAILABLE) \<and>
                    tl_execution_status call \<in>
                      Some ` execution_status_value ` {ES_RETRYABLE_ERROR, ES_NON_RETRYABLE_ERROR}
                   then accept_failure pending code call s2
                 else mark_conflict code ''MALFORMED_TOOL_RESULT'' s2))))"

text \<open>Rows that all carry their request time are ordered by it; a bare list keeps its order.\<close>

definition order_calls :: "tool_call list \<Rightarrow> tool_call list" where
  "order_calls calls =
    (if list_all (\<lambda>c. tl_requested_at c \<noteq> None) calls
     then sort_key (\<lambda>c. (the (tl_requested_at c), tl_tool_call_id c)) calls
     else calls)"

definition revision_of :: "tool_call list \<Rightarrow> nat" where
  "revision_of calls =
     length (filter (\<lambda>c. tl_actual_execution c \<and> tl_execution_status c \<noteq> None) calls)"

definition rebuild_progress ::
  "(json \<Rightarrow> string) \<Rightarrow> string \<Rightarrow> string \<Rightarrow> issue_type \<Rightarrow> tool_call list \<Rightarrow> evidence_ref list \<Rightarrow>
   retry_directive option \<Rightarrow> datetime \<Rightarrow> progress_snapshot" where
  "rebuild_progress sha case_id run_id issue calls refs pending rebuilt_at =
    (let ordered = order_calls calls;
         s = foldl (reduce_call case_id run_id issue refs pending) (reduce_start issue) ordered;
         terminal = rs_terminal s @
           (if pending \<noteq> None \<and> \<not> rs_retry_origin_seen s then [''RETRY_ORIGIN_MISSING''] else [])
     in build_progress sha case_id run_id issue (revision_of ordered) (rs_states s)
          (dict_fromkeys terminal) (rs_last_actual s) rebuilt_at)"

section \<open>What one call changes\<close>

abbreviation status_of :: "reduce_state \<Rightarrow> requirement_code \<Rightarrow> progress_status" where
  "status_of s c \<equiv> rp_status (rs_states s c)"

lemmas reduce_defs = trigger_def mark_conflict_def merge_progress_def

text \<open>A call that backs a satisfied requirement: it belongs to this Case and Run, it succeeded with
  completed evidence, its envelope has the recorded digest, and a reference of the history binds both.\<close>

definition backs ::
  "string \<Rightarrow> string \<Rightarrow> evidence_ref list \<Rightarrow> requirement_code \<Rightarrow> tool_call \<Rightarrow> bool" where
  "backs case_id run_id refs code call \<longleftrightarrow>
     tl_case_id call \<in> {None, Some case_id} \<and> tl_run_id call \<in> {None, Some run_id} \<and>
     tl_tool_name call = Some (requirement_to_tool code) \<and>
     tl_execution_status call = Some ''success'' \<and>
     tl_evidence_availability call \<in> {Some ''present'', Some ''absent''} \<and>
     (\<exists>env r. tl_result_envelope call = Some env \<and> tl_result_hash call = Some (tr_result_hash env) \<and>
        r \<in> set refs \<and> er_tool_call_id r = tl_tool_call_id call \<and>
        er_result_hash r = tr_result_hash env)"

lemma retry_check_states:
  "retry_check pending code call s = Inr s' \<Longrightarrow> rs_states s' = rs_states s \<and> rs_terminal s' = rs_terminal s"
  "retry_check pending code call s = Inl s' \<Longrightarrow>
     rs_states s' = (rs_states s)(code := (rs_states s code)\<lparr>rp_status := EP_CONFLICT\<rparr>) \<and>
     rs_terminal s' = rs_terminal s @ [''RETRY_IDENTITY_CONFLICT'']"
  by (auto simp: retry_check_def reduce_defs Let_def split: option.splits if_splits)

lemma accept_success_backed:
  assumes "rp_status (rs_states (accept_success refs code call s) c) \<in> satisfied_statuses"
  shows "status_of s c \<in> satisfied_statuses \<or>
    c = code \<and> (\<exists>env r. tl_result_envelope call = Some env \<and>
      tl_result_hash call = Some (tr_result_hash env) \<and> r \<in> set refs \<and>
      er_tool_call_id r = tl_tool_call_id call \<and> er_result_hash r = tr_result_hash env)"
proof (cases "c = code")
  case False
  with assms show ?thesis
    by (auto simp: accept_success_def Let_def reduce_defs split: if_splits)
next
  case True
  show ?thesis
  proof (cases "tl_result_envelope call = None \<or>
      map_option tr_result_hash (tl_result_envelope call) \<noteq> tl_result_hash call \<or>
      evidence_refs_for refs (tl_tool_call_id call) (tl_result_hash call) = []")
    case True
    with assms \<open>c = code\<close> show ?thesis
      by (auto simp: accept_success_def Let_def reduce_defs satisfied_statuses_def split: if_splits)
  next
    case False
    then obtain env where env: "tl_result_envelope call = Some env"
      "tl_result_hash call = Some (tr_result_hash env)" by auto
    moreover obtain r where "r \<in> set (evidence_refs_for refs (tl_tool_call_id call) (tl_result_hash call))"
      using False by (metis list.set_intros(1) neq_Nil_conv)
    ultimately show ?thesis using True by (auto simp: evidence_refs_for_def)
  qed
qed

lemma accept_failure_status:
  "rp_status (rs_states (accept_failure pending code call s) c) \<in> satisfied_statuses \<Longrightarrow>
     status_of s c \<in> satisfied_statuses"
  by (auto simp: accept_failure_def Let_def reduce_defs satisfied_statuses_def split: if_splits)

lemma mark_conflict_status:
  "rp_status (rs_states (mark_conflict code reason s) c) \<in> satisfied_statuses \<Longrightarrow>
     status_of s c \<in> satisfied_statuses"
  by (auto simp: reduce_defs satisfied_statuses_def split: if_splits)

definition in_scope :: "string \<Rightarrow> string \<Rightarrow> tool_call \<Rightarrow> bool" where
  "in_scope case_id run_id call \<longleftrightarrow>
     tl_case_id call \<in> {None, Some case_id} \<and> tl_run_id call \<in> {None, Some run_id}"

text \<open>The five ways in which one iteration can end.\<close>

lemma reduce_call_cases:
  obtains (triggered) reason where
      "rs_states (reduce_call case_id run_id issue refs pending s call) = rs_states s"
      "rs_terminal (reduce_call case_id run_id issue refs pending s call) = rs_terminal s @ [reason]"
  | (conflict) code reason where
      "rs_states (reduce_call case_id run_id issue refs pending s call) =
        (rs_states s)(code := (rs_states s code)\<lparr>rp_status := EP_CONFLICT\<rparr>)"
      "rs_terminal (reduce_call case_id run_id issue refs pending s call) = rs_terminal s @ [reason]"
  | (success) code s2 where
      "rs_states s2 = rs_states s" "rs_terminal s2 = rs_terminal s"
      "in_scope case_id run_id call" "tl_tool_name call = Some (requirement_to_tool code)"
      "tl_execution_status call = Some ''success''"
      "tl_evidence_availability call \<in> {Some ''present'', Some ''absent''}"
      "reduce_call case_id run_id issue refs pending s call = accept_success refs code call s2"
  | (failure) code s2 where
      "rs_states s2 = rs_states s" "rs_terminal s2 = rs_terminal s"
      "in_scope case_id run_id call" "tl_tool_name call = Some (requirement_to_tool code)"
      "reduce_call case_id run_id issue refs pending s call = accept_failure pending code call s2"
proof (cases "in_scope case_id run_id call")
  case False
  then have "reduce_call case_id run_id issue refs pending s call =
      trigger ''TOOL_CALL_SCOPE_MISMATCH'' s"
    by (auto simp: reduce_call_def in_scope_def)
  then show thesis by (intro triggered) (simp_all add: trigger_def)
next
  case scope: True
  then have scope': "\<not> ((tl_case_id call \<noteq> None \<and> tl_case_id call \<noteq> Some case_id) \<or>
      (tl_run_id call \<noteq> None \<and> tl_run_id call \<noteq> Some run_id))"
    by (auto simp: in_scope_def)
  show thesis
  proof (cases "tool_to_requirement (case tl_tool_name call of None \<Rightarrow> [] | Some t \<Rightarrow> t)")
    case None
    then have "reduce_call case_id run_id issue refs pending s call = trigger ''UNKNOWN_TOOL'' s"
      unfolding reduce_call_def if_not_P [OF scope'] by simp
    then show thesis by (intro triggered) (simp_all add: trigger_def)
  next
    case tool: (Some code)
    then have name: "tl_tool_name call = Some (requirement_to_tool code)"
      by (cases "tl_tool_name call"; cases code) (auto simp: tool_to_requirement_iff)
    define s1 where "s1 = (if tl_actual_execution call
        then s\<lparr>rs_last_actual := (if tl_tool_call_id call \<noteq> [] then Some (tl_tool_call_id call)
                                 else rs_last_actual s)\<rparr> else s)"
    have s1: "rs_states s1 = rs_states s" "rs_terminal s1 = rs_terminal s" by (simp_all add: s1_def)
    show thesis
    proof (cases "requirement_registry issue code = RA_NOT_REQUIRED")
      case True
      with tool have "reduce_call case_id run_id issue refs pending s call =
          trigger (''IRRELEVANT_TOOL:'' @ the (tl_tool_name call)) s1"
        unfolding reduce_call_def if_not_P [OF scope'] by (simp add: s1_def)
      with s1 show thesis by (intro triggered) (simp_all add: trigger_def)
    next
      case relevant: False
      show thesis
      proof (cases "retry_check pending code call s1")
        case (Inl s2)
        with tool relevant have "reduce_call case_id run_id issue refs pending s call = s2"
          unfolding reduce_call_def if_not_P [OF scope'] by (simp add: s1_def)
        with retry_check_states(2) [OF Inl] s1 show thesis by (intro conflict) auto
      next
        case (Inr s2)
        note s2 = retry_check_states(1) [OF Inr, unfolded s1]
        let ?ok = "tl_execution_status call = Some ''success'' \<and>
          tl_evidence_availability call \<in> {Some ''present'', Some ''absent''}"
        have step: "reduce_call case_id run_id issue refs pending s call =
          (if ?ok then accept_success refs code call s2
           else if tl_evidence_availability call = Some ''unavailable'' \<and>
             tl_execution_status call \<in> {Some ''retryable_error'', Some ''non_retryable_error''}
             then accept_failure pending code call s2
           else mark_conflict code ''MALFORMED_TOOL_RESULT'' s2)"
          using tool relevant Inr unfolding reduce_call_def if_not_P [OF scope'] by (auto simp: s1_def)
        show thesis
        proof (cases ?ok)
          case True
          with step s2 scope name show thesis by (intro success [of s2 code]) auto
        next
          case False
          show thesis
          proof (cases "tl_evidence_availability call = Some ''unavailable'' \<and>
             tl_execution_status call \<in> {Some ''retryable_error'', Some ''non_retryable_error''}")
            case True
            with step s2 scope name False show thesis by (intro failure [of s2 code]) auto
          next
            case malformed: False
            with step False have "reduce_call case_id run_id issue refs pending s call =
                mark_conflict code ''MALFORMED_TOOL_RESULT'' s2" by auto
            with s2 show thesis by (intro conflict) (auto simp: reduce_defs)
          qed
        qed
      qed
    qed
  qed
qed

lemma reduce_call_backed:
  assumes "rp_status (rs_states (reduce_call case_id run_id issue refs pending s call) c) \<in> satisfied_statuses"
  shows "status_of s c \<in> satisfied_statuses \<or> backs case_id run_id refs c call"
proof (cases rule: reduce_call_cases [of case_id run_id issue refs pending s call])
  case (triggered reason)
  with assms show ?thesis by simp
next
  case (conflict code reason)
  with assms show ?thesis by (auto simp: satisfied_statuses_def split: if_splits)
next
  case (success code s2)
  with assms accept_success_backed [of refs code call s2 c] show ?thesis
    by (auto simp: backs_def in_scope_def)
next
  case (failure code s2)
  with assms accept_failure_status [of pending code call s2 c] show ?thesis by simp
qed

lemma accept_success_terminal:
  "\<exists>xs. rs_terminal (accept_success refs code call s) = rs_terminal s @ xs \<and>
     (xs = [] \<longrightarrow> (\<forall>c. rp_status (rs_states (accept_success refs code call s) c) = EP_CONFLICT \<longrightarrow>
        status_of s c = EP_CONFLICT))"
  by (auto simp: accept_success_def Let_def reduce_defs)

lemma accept_failure_terminal:
  "rs_terminal (accept_failure pending code call s) = rs_terminal s"
  "rp_status (rs_states (accept_failure pending code call s) c) = EP_CONFLICT \<Longrightarrow>
     status_of s c = EP_CONFLICT"
  by (auto simp: accept_failure_def Let_def reduce_defs split: if_splits)

text \<open>Trigger codes only accumulate, and a new conflict adds one.\<close>

lemma reduce_call_terminal:
  "\<exists>xs. rs_terminal (reduce_call case_id run_id issue refs pending s call) = rs_terminal s @ xs \<and>
     (xs = [] \<longrightarrow> (\<forall>c. rp_status (rs_states (reduce_call case_id run_id issue refs pending s call) c) =
        EP_CONFLICT \<longrightarrow> status_of s c = EP_CONFLICT))"
proof (cases rule: reduce_call_cases [of case_id run_id issue refs pending s call])
  case (success code s2)
  with accept_success_terminal [of refs code call s2] show ?thesis by simp
next
  case (failure code s2)
  with accept_failure_terminal [of pending code call s2] show ?thesis by auto
qed auto

section \<open>The whole history\<close>

abbreviation reduce_all ::
  "string \<Rightarrow> string \<Rightarrow> issue_type \<Rightarrow> evidence_ref list \<Rightarrow> retry_directive option \<Rightarrow> reduce_state \<Rightarrow>
   tool_call list \<Rightarrow> reduce_state" where
  "reduce_all case_id run_id issue refs pending s calls \<equiv>
     foldl (reduce_call case_id run_id issue refs pending) s calls"

lemma reduce_all_backed:
  "status_of (reduce_all case_id run_id issue refs pending s calls) c \<in> satisfied_statuses \<Longrightarrow>
     status_of s c \<in> satisfied_statuses \<or> (\<exists>call \<in> set calls. backs case_id run_id refs c call)"
proof (induction calls rule: rev_induct)
  case (snoc call calls)
  then show ?case by (auto dest: reduce_call_backed)
qed simp

lemma reduce_all_terminal:
  "\<exists>xs. rs_terminal (reduce_all case_id run_id issue refs pending s calls) = rs_terminal s @ xs"
proof (induction calls rule: rev_induct)
  case (snoc call calls)
  then show ?case
    using reduce_call_terminal [of case_id run_id issue refs pending
        "reduce_all case_id run_id issue refs pending s calls" call] by auto
qed simp

lemma reduce_all_conflict:
  "status_of (reduce_all case_id run_id issue refs pending (reduce_start issue) calls) c = EP_CONFLICT \<Longrightarrow>
     rs_terminal (reduce_all case_id run_id issue refs pending (reduce_start issue) calls) \<noteq> []"
proof (induction calls rule: rev_induct)
  case Nil
  then show ?case by (simp add: reduce_start_def empty_requirement_def)
next
  case (snoc call calls)
  then show ?case
    using reduce_call_terminal [of case_id run_id issue refs pending
        "reduce_all case_id run_id issue refs pending (reduce_start issue) calls" call] by auto
qed

lemma set_order_calls [simp]: "set (order_calls calls) = set calls"
  by (simp add: order_calls_def)

lemma build_readiness:
  "pg_gate_readiness (build_progress sha case_id run_id issue n reqs ts l t) = GR_EVALUABLE \<longleftrightarrow>
     (\<forall>c \<in> set (required_by_issue issue). rp_status (reqs c) \<in> satisfied_statuses) \<and>
     (\<forall>c. rp_status (reqs c) \<noteq> EP_CONFLICT)"
  by (auto simp: build_progress_def Let_def filter_empty_conv list_ex_iff all_requirements_UNIV)

lemma build_fields [simp]:
  "pg_requirements (build_progress sha case_id run_id issue n reqs ts l t) = reqs"
  "pg_terminal_trigger_codes (build_progress sha case_id run_id issue n reqs ts l t) = ts"
  "pg_revision (build_progress sha case_id run_id issue n reqs ts l t) = n"
  "pg_case_id (build_progress sha case_id run_id issue n reqs ts l t) = case_id"
  "pg_run_id (build_progress sha case_id run_id issue n reqs ts l t) = run_id"
  "pg_canonical_issue_type (build_progress sha case_id run_id issue n reqs ts l t) = issue"
  by (simp_all add: build_progress_def Let_def)

section \<open>Properties\<close>

text \<open>C27. The gate becomes evaluable only on evidence: if progress rebuilt from a history is evaluable,
  every required code of the issue is backed by a call of that history which belongs to this Case and
  Run, succeeded with completed evidence through the one tool of that code, and carries an envelope and
  a reference with the same digest; and no requirement is in conflict.\<close>

theorem evaluable_only_on_evidence:
  assumes "pg_gate_readiness (rebuild_progress sha case_id run_id issue calls refs pending t) = GR_EVALUABLE"
  shows "(\<forall>c \<in> set (required_by_issue issue). \<exists>call \<in> set calls. backs case_id run_id refs c call) \<and>
    (\<forall>c. rp_status (pg_requirements
            (rebuild_progress sha case_id run_id issue calls refs pending t) c) \<noteq> EP_CONFLICT)"
proof -
  let ?s = "reduce_all case_id run_id issue refs pending (reduce_start issue) (order_calls calls)"
  have ready: "(\<forall>c \<in> set (required_by_issue issue). status_of ?s c \<in> satisfied_statuses) \<and>
      (\<forall>c. status_of ?s c \<noteq> EP_CONFLICT)"
    using assms by (simp add: rebuild_progress_def Let_def build_readiness)
  have "status_of (reduce_start issue) c \<notin> satisfied_statuses" for c
    by (simp add: reduce_start_def empty_requirement_def satisfied_statuses_def)
  then have "\<forall>c \<in> set (required_by_issue issue). \<exists>call \<in> set calls. backs case_id run_id refs c call"
    using ready reduce_all_backed [of case_id run_id issue refs pending "reduce_start issue"
        "order_calls calls"] by auto
  with ready show ?thesis by (simp add: rebuild_progress_def Let_def)
qed

definition sample_envelope :: envelope where
  "sample_envelope =
     \<lparr>tr_execution_status = ES_SUCCESS, tr_evidence_availability = EA_PRESENT,
      tr_source_type = ''t'', tr_source_query_id = ''q'', tr_source_record_ids = [],
      tr_observed_at = Aware 0, tr_error_code = None, tr_retryable = False,
      tr_result_hash = sample_digest, tr_untrusted_fields = [], tr_retrieval_status = None,
      tr_policy_resolution_status = None\<rparr>"

definition sample_read_call :: "nat \<Rightarrow> requirement_code \<Rightarrow> tool_call" where
  "sample_read_call i code =
     \<lparr>tl_tool_call_id = nat_str i, tl_case_id = Some ''case'', tl_run_id = Some ''run'',
      tl_tool_name = Some (requirement_to_tool code), tl_normalized_args = Some [],
      tl_result_hash = Some sample_digest,
      tl_result_envelope = Some sample_envelope,
      tl_execution_status = Some ''success'', tl_evidence_availability = Some ''present'',
      tl_source_version = Some ''v'', tl_attempt_number = Some 1, tl_actual_execution = True,
      tl_requested_at = None\<rparr>"

definition sample_ref :: "nat \<Rightarrow> evidence_ref" where
  "sample_ref i =
     \<lparr>er_tool_call_id = nat_str i, er_source_query_id = ''q'', er_source_record_id = None,
      er_field_path = None, er_observed_at = Aware 0, er_result_hash = sample_digest\<rparr>"

definition sample_history :: "tool_call list" where
  "sample_history = map2 sample_read_call [0..<4] (required_by_issue STALLED_TRACKING)"

definition sample_progress :: progress_snapshot where
  "sample_progress =
     rebuild_progress (\<lambda>_. sample_digest) ''case'' ''run'' STALLED_TRACKING sample_history
       (map sample_ref [0..<4]) None (Aware 0)"

lemma sample_progress_evaluable:
  "pg_gate_readiness sample_progress = GR_EVALUABLE \<and> pg_terminal_trigger_codes sample_progress = []"
  by code_simp

theorem evaluable_only_on_evidence_witness:
  "\<exists>call \<in> set sample_history. backs ''case'' ''run'' (map sample_ref [0..<4]) RC_POLICY_APPLICABILITY call"
  using evaluable_only_on_evidence [of "\<lambda>_. sample_digest" "''case''" "''run''" STALLED_TRACKING
      sample_history "map sample_ref [0..<4]" None "Aware 0"] sample_progress_evaluable
  unfolding sample_progress_def by auto

text \<open>Trigger codes are sticky: of a history that keeps its order, every code raised by a prefix is
  still raised by the whole, so no later read can clear an integrity conflict; and a requirement in
  conflict always comes with a code.\<close>

theorem trigger_codes_are_sticky:
  assumes "order_calls calls = calls" and "order_calls (calls @ later) = calls @ later"
    and "pending = None"
  shows "set (pg_terminal_trigger_codes (rebuild_progress sha case_id run_id issue calls refs pending t))
      \<subseteq> set (pg_terminal_trigger_codes
          (rebuild_progress sha case_id run_id issue (calls @ later) refs pending t')) \<and>
    (\<forall>c. rp_status (pg_requirements (rebuild_progress sha case_id run_id issue calls refs pending t) c) =
       EP_CONFLICT \<longrightarrow>
     pg_terminal_trigger_codes (rebuild_progress sha case_id run_id issue calls refs pending t) \<noteq> [])"
proof -
  let ?s = "reduce_all case_id run_id issue refs pending (reduce_start issue) calls"
  obtain xs where "rs_terminal (reduce_all case_id run_id issue refs pending ?s later) = rs_terminal ?s @ xs"
    using reduce_all_terminal by blast
  then show ?thesis
    using assms reduce_all_conflict [of case_id run_id issue refs pending calls]
    by (auto simp: rebuild_progress_def Let_def)
qed

theorem trigger_codes_are_sticky_witness:
  "''MISSING_EVIDENCE_REF'' \<in> set (pg_terminal_trigger_codes
     (rebuild_progress (\<lambda>_. sample_digest) ''case'' ''run'' STALLED_TRACKING
        ([sample_read_call 0 RC_ORDER_STATUS] @ [sample_read_call 1 RC_ORDER_STATUS]) [sample_ref 1] None
        (Aware 0)))"
proof -
  have "''MISSING_EVIDENCE_REF'' \<in> set (pg_terminal_trigger_codes
     (rebuild_progress (\<lambda>_. sample_digest) ''case'' ''run'' STALLED_TRACKING
        [sample_read_call 0 RC_ORDER_STATUS] [sample_ref 1] None (Aware 0)))"
    by code_simp
  then show ?thesis
    using trigger_codes_are_sticky [of "[sample_read_call 0 RC_ORDER_STATUS]"
        "[sample_read_call 1 RC_ORDER_STATUS]" None "\<lambda>_. sample_digest" "''case''" "''run''"
        STALLED_TRACKING "[sample_ref 1]" "Aware 0" "Aware 0"]
    by (auto simp: order_calls_def sample_read_call_def)
qed

end
