(* ===== verification/AdaptiveControl.thy ===== *)
theory AdaptiveControl
  imports AdaptiveReducer
begin

text \<open>
  The control part of \<open>application/adaptive_core.py\<close>: the candidate validator, the router, the exact
  retry and the guards.

  \<^item> A candidate that fails \<open>NextObservationCandidate.model_validate\<close> is \<open>None\<close>.
  \<^item> \<open>CandidateValidationResult\<close> is the type \<open>candidate_validation\<close>.  The identifier and the clock that
    \<open>uuid4\<close> and \<open>_now\<close> deliver are parameters, as is the digest \<open>sha\<close>.
  \<^item> \<open>source_version != pending_retry.source_version\<close> compares an optional string with a string.
\<close>

section \<open>Contracts\<close>

record candidate =
  cn_action :: observation_action
  cn_tool_name :: "string option"
  cn_addresses :: "requirement_code list"
  cn_reason_code :: observation_reason

definition check_candidate :: "candidate \<Rightarrow> candidate result" where
  "check_candidate c =
    (if cn_tool_name c \<notin> insert None (Some ` set read_tool_names) then Inl (ValueError ''tool_name'')
     else if \<not> distinct (cn_addresses c)
       then Inl (ValueError ''addresses must not contain duplicates'')
     else if cn_action c = OA_FINISH then
       (if cn_tool_name c \<noteq> None \<or> cn_addresses c \<noteq> []
          then Inl (ValueError ''finish candidate must not carry a tool or evidence address'')
        else if cn_reason_code c \<noteq> OR_FINALIZATION_REQUESTED
          then Inl (ValueError ''finish candidate requires FINALIZATION_REQUESTED'')
        else Inr c)
     else if \<not> truthy (cn_tool_name c) then Inl (ValueError ''call_tool candidate requires tool_name'')
     else if cn_reason_code c = OR_FINALIZATION_REQUESTED
       then Inl (ValueError ''call_tool candidate cannot request finalization'')
     else Inr c)"

record observation_summary =
  os_tool_name :: string
  os_execution_status :: string
  os_evidence_availability :: string
  os_result_hash :: string
  os_source_version :: "string option"

definition check_observation_summary :: "observation_summary \<Rightarrow> observation_summary result" where
  "check_observation_summary s =
    (if os_tool_name s = [] \<or> length (os_tool_name s) > 96 then Inl (ValueError ''tool_name'')
     else if os_execution_status s = [] \<or> length (os_execution_status s) > 32
       then Inl (ValueError ''execution_status'')
     else if os_evidence_availability s = [] \<or> length (os_evidence_availability s) > 24
       then Inl (ValueError ''evidence_availability'')
     else if \<not> is_sha256_hex (os_result_hash s) then Inl (ValueError ''result_hash'')
     else if \<not> opt_in (\<lambda>v. length v \<le> 128) (os_source_version s)
       then Inl (ValueError ''source_version'')
     else Inr s)"

record decision_context =
  dx_case_id :: string
  dx_run_id :: string
  dx_canonical_issue_type :: issue_type
  dx_authorized_order_id :: string
  dx_customer_message :: utext
  dx_case_fact_snapshot :: "json option"
  dx_evidence_progress :: progress_snapshot
  dx_latest_observation :: "observation_summary option"
  dx_allowed_tools :: "string list"
  dx_remaining_budget :: tool_budget
  dx_prior_decision_fingerprints :: "string list"
  dx_prompt_policy_version :: "string option"

definition short_id :: "nat \<Rightarrow> string \<Rightarrow> bool" where
  "short_id n s \<longleftrightarrow> s \<noteq> [] \<and> length s \<le> n"

definition check_decision_context :: "decision_context \<Rightarrow> decision_context result" where
  "check_decision_context x =
    (if \<not> short_id 64 (dx_case_id x) then Inl (ValueError ''case_id'')
     else if \<not> short_id 64 (dx_run_id x) then Inl (ValueError ''run_id'')
     else if \<not> short_id 64 (dx_authorized_order_id x) then Inl (ValueError ''authorized_order_id'')
     else if length (dx_customer_message x) > 4000 then Inl (ValueError ''customer_message'')
     else if length (dx_prior_decision_fingerprints x) > 8
       then Inl (ValueError ''prior_decision_fingerprints'')
     else if \<not> opt_in (\<lambda>v. length v \<le> 128) (dx_prompt_policy_version x)
       then Inl (ValueError ''prompt_policy_version'')
     else if \<not> distinct (dx_allowed_tools x)
       then Inl (ValueError ''allowed_tools must not contain duplicates'')
     else if list_ex (\<lambda>t. t \<notin> set read_tool_names) (dx_allowed_tools x)
       then Inl (ValueError ''allowed_tools contains a tool outside the shared registry'')
     else Inr x)"

definition build_decision_context ::
  "trusted_context \<Rightarrow> utext \<Rightarrow> progress_snapshot \<Rightarrow> tool_budget \<Rightarrow> observation_summary option \<Rightarrow>
   string list \<Rightarrow> string option \<Rightarrow> json option \<Rightarrow> decision_context result" where
  "build_decision_context trusted message progress budget latest_obs prior prompt facts =
     bindE (check_budget_snapshot budget) (\<lambda>b.
       check_decision_context
         \<lparr>dx_case_id = tc_case_id trusted, dx_run_id = tc_run_id trusted,
          dx_canonical_issue_type = tc_canonical_issue_type trusted,
          dx_authorized_order_id = tc_authorized_order_id trusted,
          dx_customer_message = message, dx_case_fact_snapshot = facts,
          dx_evidence_progress = progress, dx_latest_observation = latest_obs,
          dx_allowed_tools = sort read_tool_names, dx_remaining_budget = b,
          dx_prior_decision_fingerprints = prior, dx_prompt_policy_version = prompt\<rparr>)"

record next_observation =
  nx_decision_id :: string
  nx_selector_kind :: selector_kind
  nx_case_id :: string
  nx_run_id :: string
  nx_planning_turn :: int
  nx_action :: observation_action
  nx_tool_name :: "string option"
  nx_canonical_arguments :: arguments
  nx_canonical_arguments_hash :: string
  nx_addresses :: "requirement_code list"
  nx_reason_code :: observation_reason
  nx_evidence_progress_revision :: nat
  nx_evidence_progress_hash :: string
  nx_decision_fingerprint :: string
  nx_validated_at :: datetime

definition check_next_observation ::
  "(json \<Rightarrow> string) \<Rightarrow> next_observation \<Rightarrow> next_observation result" where
  "check_next_observation sha n =
    (if \<not> short_id 128 (nx_decision_id n) then Inl (ValueError ''decision_id'')
     else if \<not> short_id 64 (nx_case_id n) then Inl (ValueError ''case_id'')
     else if \<not> short_id 64 (nx_run_id n) then Inl (ValueError ''run_id'')
     else if \<not> (1 \<le> nx_planning_turn n \<and> nx_planning_turn n \<le> 16)
       then Inl (ValueError ''planning_turn'')
     else if \<not> opt_in (\<lambda>t. length t \<le> 96) (nx_tool_name n) then Inl (ValueError ''tool_name'')
     else if \<not> is_sha256_hex (nx_canonical_arguments_hash n)
       then Inl (ValueError ''canonical_arguments_hash'')
     else if \<not> is_sha256_hex (nx_evidence_progress_hash n)
       then Inl (ValueError ''evidence_progress_hash'')
     else if \<not> is_sha256_hex (nx_decision_fingerprint n)
       then Inl (ValueError ''decision_fingerprint'')
     else if \<not> is_aware (nx_validated_at n)
       then Inl (ValueError ''validated_at must be timezone-aware'')
     else if \<not> distinct (nx_addresses n)
       then Inl (ValueError ''addresses must not contain duplicates'')
     else if nx_action n = OA_FINISH \<and> (nx_tool_name n \<noteq> None \<or> nx_canonical_arguments n \<noteq> [])
       then Inl (ValueError ''finish observation must not carry tool arguments'')
     else if nx_action n \<noteq> OA_FINISH \<and> nx_tool_name n = None
       then Inl (ValueError ''call_tool observation requires tool_name'')
     else if canonical_arguments_hash sha (nx_canonical_arguments n) \<noteq> nx_canonical_arguments_hash n
       then Inl (ValueError ''canonical_arguments_hash does not match arguments'')
     else if decision_fingerprint sha (nx_action n) (nx_tool_name n) (nx_canonical_arguments n)
               (nx_addresses n) (nx_evidence_progress_hash n) \<noteq> nx_decision_fingerprint n
       then Inl (ValueError ''decision_fingerprint does not match normalized identity'')
     else Inr n)"

section \<open>The validator\<close>

datatype candidate_validation = Accepted next_observation | Rejected string

text \<open>The checks of a tool call; \<open>None\<close> when the call passes.\<close>

definition call_rejection ::
  "string list \<Rightarrow> decision_context \<Rightarrow> candidate \<Rightarrow> string option" where
  "call_rejection allowed_tools context c =
    (let tool = (case cn_tool_name c of None \<Rightarrow> [] | Some t \<Rightarrow> t);
         issue = dx_canonical_issue_type context
     in
     if tool \<notin> set allowed_tools \<or> tool \<notin> set (dx_allowed_tools context)
       then Some ''TOOL_NOT_ALLOWED''
     else if tool = ''get_delivery_proof'' \<and> issue \<noteq> SIGNED_NOT_RECEIVED
       then Some ''TOOL_NOT_RELEVANT_TO_ISSUE''
     else if tool = ''get_carrier_service_alerts'' \<and> issue \<noteq> STALLED_TRACKING
       then Some ''TOOL_NOT_RELEVANT_TO_ISSUE''
     else
      (case tool_to_requirement tool of
         None \<Rightarrow> Some ''TOOL_NOT_ALLOWED''
       | Some code \<Rightarrow>
           if cn_addresses c = [] then Some ''MISSING_EVIDENCE_ADDRESS''
           else if cn_addresses c \<noteq> [code] then Some ''INVALID_EVIDENCE_REQUIREMENT''
           else
            (let status = rp_status (pg_requirements (dx_evidence_progress context) code) in
             if status \<in> satisfied_statuses then Some ''DUPLICATE_COMPLETED_READ''
             else if status = EP_UNAVAILABLE_FINAL then Some ''RETRY_EXHAUSTED''
             else if status = EP_CONFLICT then Some ''EVIDENCE_PROGRESS_CONFLICT''
             else None)))"

definition server_arguments :: "decision_context \<Rightarrow> string \<Rightarrow> arguments" where
  "server_arguments context tool =
    (if tool \<in> set issue_tools
     then issue_args (dx_authorized_order_id context) (dx_canonical_issue_type context)
     else order_args (dx_authorized_order_id context))"

definition validate_candidate ::
  "(json \<Rightarrow> string) \<Rightarrow> string \<Rightarrow> datetime \<Rightarrow> string list \<Rightarrow> candidate option \<Rightarrow> decision_context \<Rightarrow>
   selector_kind \<Rightarrow> trusted_context option \<Rightarrow> retry_directive option \<Rightarrow> bool option \<Rightarrow>
   candidate_validation result" where
  "validate_candidate sha new_id now allowed_tools candidate context kind trusted pending gate_ready =
    (case candidate of
       None \<Rightarrow> Inr (Rejected ''INVALID_CANDIDATE_SCHEMA'')
     | Some c \<Rightarrow>
        (let progress = dx_evidence_progress context;
             ready = (case gate_ready of
                        None \<Rightarrow> pg_gate_readiness progress = GR_EVALUABLE | Some b \<Rightarrow> b);
             budget = dx_remaining_budget context
         in
         if (case trusted of None \<Rightarrow> False
             | Some t \<Rightarrow> dx_case_id context \<noteq> tc_case_id t \<or> dx_run_id context \<noteq> tc_run_id t \<or>
                 dx_authorized_order_id context \<noteq> tc_authorized_order_id t \<or>
                 dx_canonical_issue_type context \<noteq> tc_canonical_issue_type t)
           then Inr (Rejected ''ACTIVE_CASE_RUN_MISMATCH'')
         else if pending \<noteq> None then Inr (Rejected ''PENDING_EXACT_RETRY'')
         else if 16 \<le> tb_case_planning_turns budget \<or> 8 \<le> tb_run_planning_turns budget
           then Inr (Rejected ''PLANNING_BUDGET_EXCEEDED'')
         else
          (case (if cn_action c = OA_FINISH then
                   (if \<not> ready then Some ''PREMATURE_FINISH''
                    else if cn_addresses c \<noteq> [] \<or> cn_reason_code c \<noteq> OR_FINALIZATION_REQUESTED
                      then Some ''INVALID_EVIDENCE_REQUIREMENT''
                    else None)
                 else call_rejection allowed_tools context c) of
             Some code \<Rightarrow> Inr (Rejected code)
           | None \<Rightarrow>
              (let tool = (if cn_action c = OA_FINISH then None else cn_tool_name c);
                   args = (case tool of None \<Rightarrow> [] | Some t \<Rightarrow> server_arguments context t);
                   fp = decision_fingerprint sha (cn_action c) tool args (cn_addresses c)
                          (pg_snapshot_hash progress)
               in
               if fp \<in> set (dx_prior_decision_fingerprints context)
                 then Inr (Rejected ''STUCK_REPEATED_DECISION'')
               else
                 bindE (check_next_observation sha
                   \<lparr>nx_decision_id = ''dec_'' @ new_id, nx_selector_kind = kind,
                    nx_case_id = dx_case_id context, nx_run_id = dx_run_id context,
                    nx_planning_turn = tb_run_planning_turns budget + 1,
                    nx_action = cn_action c, nx_tool_name = tool,
                    nx_canonical_arguments = args,
                    nx_canonical_arguments_hash = canonical_arguments_hash sha args,
                    nx_addresses = cn_addresses c, nx_reason_code = cn_reason_code c,
                    nx_evidence_progress_revision = pg_revision progress,
                    nx_evidence_progress_hash = pg_snapshot_hash progress,
                    nx_decision_fingerprint = fp, nx_validated_at = now\<rparr>)
                   (\<lambda>n. Inr (Accepted n))))))"

definition validate_or_raise ::
  "(json \<Rightarrow> string) \<Rightarrow> string \<Rightarrow> datetime \<Rightarrow> string list \<Rightarrow> candidate option \<Rightarrow> decision_context \<Rightarrow>
   selector_kind \<Rightarrow> trusted_context option \<Rightarrow> retry_directive option \<Rightarrow> bool option \<Rightarrow>
   next_observation result" where
  "validate_or_raise sha new_id now allowed candidate context kind trusted pending ready =
     bindE (validate_candidate sha new_id now allowed candidate context kind trusted pending ready)
       (\<lambda>v. case v of Accepted n \<Rightarrow> Inr n
             | Rejected code \<Rightarrow> Inl (ObservationValidationError code))"

section \<open>The router\<close>

record recovery_decision =
  rv_recovery_id :: string
  rv_case_id :: string
  rv_run_id :: string
  rv_route :: recovery_route
  rv_reason_code :: recovery_reason
  rv_trigger_tool_call_id :: "string option"
  rv_trigger_result_hash :: "string option"
  rv_progress_before_hash :: string
  rv_progress_after_hash :: string
  rv_retry_directive :: "retry_directive option"
  rv_budget_snapshot :: tool_budget
  rv_decided_at :: datetime

definition check_recovery_decision :: "recovery_decision \<Rightarrow> recovery_decision result" where
  "check_recovery_decision d =
    (if \<not> short_id 128 (rv_recovery_id d) then Inl (ValueError ''recovery_id'')
     else if \<not> short_id 64 (rv_case_id d) then Inl (ValueError ''case_id'')
     else if \<not> short_id 64 (rv_run_id d) then Inl (ValueError ''run_id'')
     else if \<not> opt_in is_sha256_hex (rv_trigger_result_hash d)
       then Inl (ValueError ''trigger_result_hash'')
     else if \<not> is_sha256_hex (rv_progress_before_hash d)
       then Inl (ValueError ''evidence_progress_before_hash'')
     else if \<not> is_sha256_hex (rv_progress_after_hash d)
       then Inl (ValueError ''evidence_progress_after_hash'')
     else if \<not> is_aware (rv_decided_at d)
       then Inl (ValueError ''decided_at must be timezone-aware'')
     else if rv_route d = RR_RETRY_EXACT \<and> rv_retry_directive d = None
       then Inl (ValueError ''retry_exact requires a RetryDirective'')
     else if rv_route d \<noteq> RR_RETRY_EXACT \<and> rv_retry_directive d \<noteq> None
       then Inl (ValueError ''only retry_exact may carry a RetryDirective'')
     else Inr d)"

text \<open>The observation that triggered the routing.\<close>

record route_trigger =
  tg_tool_call_id :: "string option"
  tg_result_hash :: "string option"
  tg_tool_name :: "string option"
  tg_arguments :: arguments
  tg_attempt_number :: int
  tg_result :: "envelope option"
  tg_source_version :: "string option"

definition retryable_result :: "envelope \<Rightarrow> bool" where
  "retryable_result r \<longleftrightarrow> tr_execution_status r = ES_RETRYABLE_ERROR \<and>
     tr_evidence_availability r = EA_UNAVAILABLE \<and> tr_retryable r"

definition retry_due :: "route_trigger \<Rightarrow> bool" where
  "retry_due tg \<longleftrightarrow>
     (case tg_result tg of None \<Rightarrow> False | Some r \<Rightarrow> retryable_result r) \<and>
     tg_attempt_number tg \<le> 1 \<and> tg_tool_call_id tg \<noteq> None \<and> tg_tool_name tg \<noteq> None \<and>
     tg_source_version tg \<noteq> None"

definition route_choice ::
  "(json \<Rightarrow> string) \<Rightarrow> string \<Rightarrow> string \<Rightarrow> progress_snapshot \<Rightarrow> progress_snapshot \<Rightarrow> tool_budget \<Rightarrow>
   route_trigger \<Rightarrow> retry_directive option \<Rightarrow> nat \<Rightarrow>
   (recovery_route \<times> recovery_reason \<times> retry_directive option) result" where
  "route_choice sha case_id run_id before after budget tg pending same_turns =
    (if pg_case_id before \<noteq> case_id \<or> pg_case_id after \<noteq> case_id \<or> pg_run_id before \<noteq> run_id \<or>
        pg_run_id after \<noteq> run_id \<or> pg_canonical_issue_type before \<noteq> pg_canonical_issue_type after
       then Inr (RR_SAFE_STOP, RX_INTEGRITY_CONFLICT, None)
     else if pg_terminal_trigger_codes after \<noteq> []
       then Inr (RR_SAFE_STOP, RX_INTEGRITY_CONFLICT, None)
     else if 16 \<le> tb_case_planning_turns budget \<or> 8 \<le> tb_run_planning_turns budget \<or>
        6 \<le> tb_actual_read_tool_executions budget
       then Inr (RR_SAFE_STOP, RX_BUDGET_EXHAUSTED, None)
     else if (case pending of None \<Rightarrow> False
              | Some d \<Rightarrow> tg_source_version tg \<noteq> Some (rd_source_version d))
       then Inr (RR_SAFE_STOP, RX_SOURCE_REVISION_CHANGED_DURING_RETRY, None)
     else if pending \<noteq> None \<or> retry_due tg then
       (case pending of
          Some d \<Rightarrow> Inr (RR_RETRY_EXACT, RX_RETRYABLE_TOOL_FAILURE, Some d)
        | None \<Rightarrow>
            bindE (check_retry_directive sha
              \<lparr>rd_retry_of_tool_call_id = the (tg_tool_call_id tg),
               rd_tool_name = the (tg_tool_name tg),
               rd_canonical_arguments = tg_arguments tg,
               rd_canonical_arguments_hash = canonical_arguments_hash sha (tg_arguments tg),
               rd_source_version = the (tg_source_version tg),
               rd_issued_from_progress_hash = pg_snapshot_hash after\<rparr>)
              (\<lambda>d. Inr (RR_RETRY_EXACT, RX_RETRYABLE_TOOL_FAILURE, Some d)))
     else if pg_gate_readiness after = GR_EVALUABLE then Inr (RR_FINALIZE, RX_GATE_READY, None)
     else if 2 \<le> same_turns then Inr (RR_SAFE_STOP, RX_STUCK_NO_EVIDENCE_PROGRESS, None)
     else Inr (RR_REPLAN, RX_REPLAN_REQUIRED, None))"

definition route_observation ::
  "(json \<Rightarrow> string) \<Rightarrow> string \<Rightarrow> datetime \<Rightarrow> string \<Rightarrow> string \<Rightarrow> progress_snapshot \<Rightarrow> progress_snapshot \<Rightarrow>
   tool_budget \<Rightarrow> route_trigger \<Rightarrow> retry_directive option \<Rightarrow> nat \<Rightarrow> recovery_decision result" where
  "route_observation sha new_id now case_id run_id before after budget tg pending same_turns =
     bindE (route_choice sha case_id run_id before after budget tg pending same_turns)
       (\<lambda>(route, reason, directive).
         check_recovery_decision
           \<lparr>rv_recovery_id = ''rec_'' @ new_id, rv_case_id = case_id, rv_run_id = run_id,
            rv_route = route, rv_reason_code = reason,
            rv_trigger_tool_call_id = tg_tool_call_id tg,
            rv_trigger_result_hash = tg_result_hash tg,
            rv_progress_before_hash = pg_snapshot_hash before,
            rv_progress_after_hash = pg_snapshot_hash after,
            rv_retry_directive = directive, rv_budget_snapshot = budget, rv_decided_at = now\<rparr>)"

section \<open>Exact retry\<close>

definition issue_exact_retry ::
  "(json \<Rightarrow> string) \<Rightarrow> string \<Rightarrow> string \<Rightarrow> arguments \<Rightarrow> string \<Rightarrow> string \<Rightarrow> string \<Rightarrow> bool \<Rightarrow> int \<Rightarrow>
   string \<Rightarrow> retry_directive option result" where
  "issue_exact_retry sha call_id tool args source_version execution_status availability retryable
     attempt_number progress_hash =
    (if tool \<notin> set read_tool_names \<or> source_version = [] \<or>
        execution_status \<noteq> execution_status_value ES_RETRYABLE_ERROR \<or>
        availability \<noteq> evidence_availability_value EA_UNAVAILABLE \<or> \<not> retryable \<or>
        attempt_number \<noteq> 1
       then Inr None
     else bindE (check_retry_directive sha
            \<lparr>rd_retry_of_tool_call_id = call_id, rd_tool_name = tool, rd_canonical_arguments = args,
             rd_canonical_arguments_hash = canonical_arguments_hash sha args,
             rd_source_version = source_version,
             rd_issued_from_progress_hash = progress_hash\<rparr>) (\<lambda>d. Inr (Some d)))"

definition validate_exact_retry ::
  "(json \<Rightarrow> string) \<Rightarrow> retry_directive \<Rightarrow> string \<Rightarrow> arguments \<Rightarrow> string \<Rightarrow> int \<Rightarrow> unit result" where
  "validate_exact_retry sha d tool args source_version attempt_number =
    (if attempt_number \<noteq> next_attempt_number
       then Inl (ObservationValidationError ''RETRY_ATTEMPT_NUMBER_MISMATCH'')
     else if tool \<noteq> rd_tool_name d
       then Inl (ObservationValidationError ''RETRY_TOOL_MISMATCH'')
     else if canonical_arguments_hash sha args \<noteq> rd_canonical_arguments_hash d \<or>
        \<not> same_arguments args (rd_canonical_arguments d)
       then Inl (ObservationValidationError ''RETRY_ARGUMENTS_MISMATCH'')
     else if source_version \<noteq> rd_source_version d
       then Inl (ObservationValidationError ''SOURCE_REVISION_CHANGED_DURING_RETRY'')
     else Inr ())"

record retry_controller =
  xc_directive :: retry_directive
  xc_executed :: bool

definition retry_controller_init :: "retry_directive \<Rightarrow> retry_controller" where
  "retry_controller_init d = \<lparr>xc_directive = d, xc_executed = False\<rparr>"

definition validate_next ::
  "(json \<Rightarrow> string) \<Rightarrow> retry_controller \<Rightarrow> string \<Rightarrow> arguments \<Rightarrow> string \<Rightarrow> int \<Rightarrow> retry_controller result" where
  "validate_next sha c tool args source_version attempt_number =
    (if xc_executed c then Inl (ObservationValidationError ''TOOL_RETRY_EXHAUSTED'')
     else bindE (validate_exact_retry sha (xc_directive c) tool args source_version attempt_number)
            (\<lambda>_. Inr (c\<lparr>xc_executed := True\<rparr>)))"

section \<open>Guards\<close>

record guard =
  gd_last_fingerprint :: "string option"
  gd_last_progress_hash :: "string option"
  gd_repeated_fingerprint_count :: nat
  gd_unchanged_selector_turns :: nat
  gd_corrective_turns_used :: nat

definition guard_init :: guard where
  "guard_init = \<lparr>gd_last_fingerprint = None, gd_last_progress_hash = None,
     gd_repeated_fingerprint_count = 0, gd_unchanged_selector_turns = 0, gd_corrective_turns_used = 0\<rparr>"

definition observe_decision :: "guard \<Rightarrow> string \<Rightarrow> string \<Rightarrow> recovery_reason option \<times> guard" where
  "observe_decision g fingerprint progress_hash =
    (if Some fingerprint = gd_last_fingerprint g \<and> Some progress_hash = gd_last_progress_hash g then
       (let g' = g\<lparr>gd_repeated_fingerprint_count := gd_repeated_fingerprint_count g + 1\<rparr> in
        if 2 \<le> gd_repeated_fingerprint_count g' then (Some RX_STUCK_REPEATED_DECISION, g')
        else (None, g'\<lparr>gd_last_fingerprint := Some fingerprint,
                       gd_last_progress_hash := Some progress_hash\<rparr>))
     else (None, g\<lparr>gd_repeated_fingerprint_count := 0, gd_last_fingerprint := Some fingerprint,
                   gd_last_progress_hash := Some progress_hash\<rparr>))"

definition observe_selector_turn :: "guard \<Rightarrow> string \<Rightarrow> string \<Rightarrow> recovery_reason option \<times> guard" where
  "observe_selector_turn g before after =
    (let g' = g\<lparr>gd_unchanged_selector_turns :=
                  (if before = after then gd_unchanged_selector_turns g + 1 else 0)\<rparr>
     in (if 2 \<le> gd_unchanged_selector_turns g' then Some RX_STUCK_NO_EVIDENCE_PROGRESS else None, g'))"

definition allow_correction :: "guard \<Rightarrow> bool \<times> guard" where
  "allow_correction g =
    (if 1 \<le> gd_corrective_turns_used g then (False, g)
     else (True, g\<lparr>gd_corrective_turns_used := 1\<rparr>))"

section \<open>Accepted observations\<close>

lemma check_next_observation_id:
  "check_next_observation sha n = Inr m \<Longrightarrow> m = n \<and> check_next_observation sha n = Inr n"
  by (simp add: check_next_observation_def split: if_splits)

lemma call_rejection_None:
  assumes "call_rejection allowed context c = None"
  obtains code where "cn_tool_name c = Some (requirement_to_tool code)"
    "requirement_to_tool code \<in> set allowed" "requirement_to_tool code \<in> set (dx_allowed_tools context)"
    "cn_addresses c = [code]"
    "issue_restricted_tool (requirement_to_tool code) \<in> {None, Some (dx_canonical_issue_type context)}"
    "rp_status (pg_requirements (dx_evidence_progress context) code) \<in> {EP_MISSING, EP_RETRY_PENDING}"
proof (cases "tool_to_requirement (case cn_tool_name c of None \<Rightarrow> [] | Some t \<Rightarrow> t)")
  case None
  with assms show thesis by (simp add: call_rejection_def Let_def split: if_splits)
next
  case (Some code)
  then have name: "cn_tool_name c = Some (requirement_to_tool code)"
    by (cases "cn_tool_name c"; cases code) (auto simp: tool_to_requirement_iff)
  have code: "tool_to_requirement (requirement_to_tool code) = Some code"
    by (simp add: tool_to_requirement_iff)
  have restricted: "issue_restricted_tool (requirement_to_tool code) \<in>
      {None, Some (dx_canonical_issue_type context)}"
    using assms by (cases code; auto simp: call_rejection_def Let_def name issue_restricted_tool_def
        split: if_splits)
  have "rp_status (pg_requirements (dx_evidence_progress context) code) \<in> {EP_MISSING, EP_RETRY_PENDING}"
    using assms by (cases "rp_status (pg_requirements (dx_evidence_progress context) code)")
      (auto simp: call_rejection_def Let_def name code satisfied_statuses_def split: if_splits)
  with assms restricted show thesis
    by (intro that [OF name]) (auto simp: call_rejection_def Let_def name code split: if_splits)
qed

text \<open>Unfolding an acceptance: every rejecting branch contributes the negation of its guard.\<close>

lemma accepted_if: "(if b then Inr (Rejected x) else k) = Inr (Accepted n) \<longleftrightarrow> \<not> b \<and> k = Inr (Accepted n)"
  by simp

lemma accepted_case:
  "(case v of None \<Rightarrow> k | Some code \<Rightarrow> Inr (Rejected code)) = Inr (Accepted n) \<longleftrightarrow>
     v = None \<and> k = Inr (Accepted n)"
  by (cases v) simp_all

lemma accepted_bind:
  "bindE (check_next_observation sha m) (\<lambda>n. Inr (Accepted n)) = Inr (Accepted n) \<longleftrightarrow>
     n = m \<and> check_next_observation sha m = Inr m"
  by (auto simp: bindE_eq_Inr dest: check_next_observation_id)

lemma validate_accepted:
  assumes "validate_candidate sha new_id now allowed cand context kind trusted pending ready = Inr (Accepted n)"
  obtains c where "cand = Some c" "pending = None"
    "tb_case_planning_turns (dx_remaining_budget context) < 16"
    "tb_run_planning_turns (dx_remaining_budget context) < 8"
    "\<And>t. trusted = Some t \<Longrightarrow> dx_case_id context = tc_case_id t \<and> dx_run_id context = tc_run_id t \<and>
       dx_authorized_order_id context = tc_authorized_order_id t \<and>
       dx_canonical_issue_type context = tc_canonical_issue_type t"
    "if cn_action c = OA_FINISH
     then nx_tool_name n = None \<and> nx_addresses n = [] \<and>
       (case ready of None \<Rightarrow> pg_gate_readiness (dx_evidence_progress context) = GR_EVALUABLE
        | Some b \<Rightarrow> b)
     else call_rejection allowed context c = None \<and> nx_tool_name n = cn_tool_name c"
    "nx_action n = cn_action c" "nx_addresses n = cn_addresses c"
    "nx_canonical_arguments n =
       (case nx_tool_name n of None \<Rightarrow> [] | Some t \<Rightarrow> server_arguments context t)"
    "nx_decision_fingerprint n \<notin> set (dx_prior_decision_fingerprints context)"
    "check_next_observation sha n = Inr n"
proof (cases cand)
  case None
  with assms show thesis by (simp add: validate_candidate_def)
next
  case (Some c)
  note facts = assms [unfolded validate_candidate_def Some Let_def option.case accepted_if
      accepted_case accepted_bind]
  show thesis
  proof (rule that [OF Some])
    show "pending = None" using facts by simp
    show "if cn_action c = OA_FINISH
     then nx_tool_name n = None \<and> nx_addresses n = [] \<and>
       (case ready of None \<Rightarrow> pg_gate_readiness (dx_evidence_progress context) = GR_EVALUABLE
        | Some b \<Rightarrow> b)
     else call_rejection allowed context c = None \<and> nx_tool_name n = cn_tool_name c"
      using facts by (cases "cn_action c = OA_FINISH") (auto split: if_splits)
    show "nx_canonical_arguments n =
       (case nx_tool_name n of None \<Rightarrow> [] | Some t \<Rightarrow> server_arguments context t)"
      using facts by simp
  qed (use facts in \<open>auto simp: not_le\<close>)
qed

text \<open>C28. Whatever a selector proposes, an accepted tool observation is a call that the governed executor
  admits: its arguments are the ones the server builds from the Case, they pass the executor's own
  argument validation, the tool addresses the one requirement it serves, that requirement is still
  missing or waiting for its retry, and neither the planning budget nor a pending exact retry forbids
  it.\<close>

theorem accepted_observation_is_executable:
  assumes "validate_candidate sha new_id now allowed cand context kind (Some trusted) pending ready =
      Inr (Accepted n)"
    and "nx_tool_name n = Some tool"
  shows "validate_arguments trusted tool (nx_canonical_arguments n) = None \<and>
    nx_canonical_arguments n = server_arguments context tool \<and>
    (\<exists>code. nx_addresses n = [code] \<and> tool = requirement_to_tool code \<and>
       rp_status (pg_requirements (dx_evidence_progress context) code) \<in> {EP_MISSING, EP_RETRY_PENDING}) \<and>
    tool \<in> set (dx_allowed_tools context) \<and> pending = None \<and>
    tb_case_planning_turns (dx_remaining_budget context) < 16 \<and>
    tb_run_planning_turns (dx_remaining_budget context) < 8"
proof (cases rule: validate_accepted [OF assms(1)])
  case (1 c)
  have action: "cn_action c \<noteq> OA_FINISH" and rej: "call_rejection allowed context c = None"
    and name: "cn_tool_name c = Some tool"
    using 1(6) assms(2) by (auto split: if_splits)
  have args: "nx_canonical_arguments n = server_arguments context tool"
    using 1(9) assms(2) by simp
  note ids = 1(5) [OF refl]
  from rej show ?thesis
  proof (cases rule: call_rejection_None)
    case (1 code)
    then have tool: "tool = requirement_to_tool code" using name by simp
    have "validate_arguments trusted tool (server_arguments context tool) = None"
      using 1(5) ids unfolding tool
      by (cases code) (auto simp: validate_arguments_def server_arguments_def read_tool_names_def
          issue_tools_def order_args_def issue_args_def issue_restricted_tool_def)
    then show ?thesis using 1 tool args \<open>pending = None\<close> \<open>nx_addresses n = cn_addresses c\<close>
        \<open>tb_case_planning_turns (dx_remaining_budget context) < 16\<close>
        \<open>tb_run_planning_turns (dx_remaining_budget context) < 8\<close> by auto
  qed
qed

text \<open>C29. A finish is accepted only when the gate is ready: the readiness is the one of the evidence
  progress, unless the caller supplies its own verdict, which then decides alone (the investigation
  supplies \<open>True\<close> after the order has contradicted the reported issue, and nothing otherwise).  A finish
  carries no tool, no arguments and no address, and no decision is accepted twice at the same progress:
  the accepted fingerprint is never among the earlier ones.\<close>

theorem accepted_finish_is_ready:
  assumes "validate_candidate sha new_id now allowed cand context kind trusted pending gate_ready =
      Inr (Accepted n)"
  shows "(nx_action n = OA_FINISH \<longrightarrow>
      (case gate_ready of
         None \<Rightarrow> pg_gate_readiness (dx_evidence_progress context) = GR_EVALUABLE | Some ready \<Rightarrow> ready) \<and>
      nx_tool_name n = None \<and> nx_canonical_arguments n = [] \<and> nx_addresses n = []) \<and>
    nx_decision_fingerprint n \<notin> set (dx_prior_decision_fingerprints context) \<and>
    nx_decision_fingerprint n = decision_fingerprint sha (nx_action n) (nx_tool_name n)
      (nx_canonical_arguments n) (nx_addresses n) (nx_evidence_progress_hash n)"
proof (cases rule: validate_accepted [OF assms])
  case (1 c)
  then show ?thesis by (auto simp: check_next_observation_def split: if_splits)
qed

text \<open>A context and a candidate that the validator accepts.\<close>

definition sample_candidate :: candidate where
  "sample_candidate =
     \<lparr>cn_action = OA_CALL_TOOL, cn_tool_name = Some ''get_carrier_service_alerts'',
      cn_addresses = [RC_CARRIER_ALERT_CONTEXT],
      cn_reason_code = OR_OPTIONAL_EXPLANATORY_CONTEXT\<rparr>"

definition sample_finish :: candidate where
  "sample_finish =
     \<lparr>cn_action = OA_FINISH, cn_tool_name = None, cn_addresses = [],
      cn_reason_code = OR_FINALIZATION_REQUESTED\<rparr>"

definition sample_context :: decision_context where
  "sample_context =
     \<lparr>dx_case_id = ''case'', dx_run_id = ''run'', dx_canonical_issue_type = STALLED_TRACKING,
      dx_authorized_order_id = ''O1'', dx_customer_message = [], dx_case_fact_snapshot = None,
      dx_evidence_progress = sample_progress, dx_latest_observation = None,
      dx_allowed_tools = sort read_tool_names,
      dx_remaining_budget = \<lparr>tb_case_planning_turns = 4, tb_run_planning_turns = 4,
                             tb_actual_read_tool_executions = 4\<rparr>,
      dx_prior_decision_fingerprints = [], dx_prompt_policy_version = None\<rparr>"

definition validates :: "candidate \<Rightarrow> candidate_validation result" where
  "validates c = validate_candidate (\<lambda>_. sample_digest) ''1'' (Aware 0) read_tool_names (Some c)
     sample_context SK_AGENT (Some sample_trusted) None None"

lemma sample_candidate_accepted:
  "case validates sample_candidate of
     Inr (Accepted n) \<Rightarrow> nx_tool_name n = Some ''get_carrier_service_alerts'' | _ \<Rightarrow> False"
  by code_simp

lemma sample_finish_accepted:
  "case validates sample_finish of Inr (Accepted n) \<Rightarrow> nx_action n = OA_FINISH | _ \<Rightarrow> False"
  by code_simp

theorem accepted_observation_is_executable_witness:
  "\<exists>n. validates sample_candidate = Inr (Accepted n) \<and>
     validate_arguments sample_trusted ''get_carrier_service_alerts'' (nx_canonical_arguments n) = None"
proof -
  obtain n where n: "validates sample_candidate = Inr (Accepted n)"
    "nx_tool_name n = Some ''get_carrier_service_alerts''"
    using sample_candidate_accepted by (auto split: sum.splits candidate_validation.splits)
  from accepted_observation_is_executable [OF n(1) [unfolded validates_def] n(2)] n(1)
  show ?thesis by blast
qed

theorem accepted_finish_is_ready_witness:
  "\<exists>n. validates sample_finish = Inr (Accepted n) \<and>
     pg_gate_readiness (dx_evidence_progress sample_context) = GR_EVALUABLE"
proof -
  obtain n where n: "validates sample_finish = Inr (Accepted n)" "nx_action n = OA_FINISH"
    using sample_finish_accepted by (auto split: sum.splits candidate_validation.splits)
  from accepted_finish_is_ready [OF n(1) [unfolded validates_def]] n show ?thesis by simp
qed

section \<open>Routing\<close>

definition same_investigation :: "string \<Rightarrow> string \<Rightarrow> progress_snapshot \<Rightarrow> progress_snapshot \<Rightarrow> bool" where
  "same_investigation case_id run_id before after \<longleftrightarrow>
     pg_case_id before = case_id \<and> pg_case_id after = case_id \<and> pg_run_id before = run_id \<and>
     pg_run_id after = run_id \<and> pg_canonical_issue_type before = pg_canonical_issue_type after"

definition budget_left :: "tool_budget \<Rightarrow> bool" where
  "budget_left b \<longleftrightarrow> tb_case_planning_turns b < 16 \<and> tb_run_planning_turns b < 8 \<and>
     tb_actual_read_tool_executions b < 6"

definition retry_admitted :: "route_trigger \<Rightarrow> retry_directive option \<Rightarrow> bool" where
  "retry_admitted tg pending \<longleftrightarrow>
     (case pending of None \<Rightarrow> retry_due tg | Some d \<Rightarrow> tg_source_version tg = Some (rd_source_version d))"

text \<open>C30. The router's precedence, route by route.  It stops for an integrity conflict exactly when the
  identities disagree or a trigger code is raised; otherwise for the budget exactly when a counter has
  reached its limit; otherwise, with a retry pending, for a changed source version.  It retries exactly
  when none of these hold and a retry is pending or a first transient failure asks for one.  With no
  retry pending or due it finalizes exactly when the gate is evaluable; when it is not, it replans
  exactly when fewer than two turns have passed without progress, and stops as stuck at the second.  A
  directive accompanies a retry and nothing else.\<close>

theorem route_precedence:
  assumes "route_choice sha case_id run_id before after budget tg pending turns = Inr (route, reason, directive)"
  shows "(reason = RX_INTEGRITY_CONFLICT \<longleftrightarrow>
      \<not> (same_investigation case_id run_id before after \<and> pg_terminal_trigger_codes after = [])) \<and>
    (reason = RX_BUDGET_EXHAUSTED \<longleftrightarrow> same_investigation case_id run_id before after \<and>
      pg_terminal_trigger_codes after = [] \<and> \<not> budget_left budget) \<and>
    (reason = RX_SOURCE_REVISION_CHANGED_DURING_RETRY \<longleftrightarrow>
      same_investigation case_id run_id before after \<and> pg_terminal_trigger_codes after = [] \<and>
      budget_left budget \<and> pending \<noteq> None \<and> \<not> retry_admitted tg pending) \<and>
    (route = RR_RETRY_EXACT \<longleftrightarrow> same_investigation case_id run_id before after \<and>
      pg_terminal_trigger_codes after = [] \<and> budget_left budget \<and> retry_admitted tg pending) \<and>
    (route = RR_FINALIZE \<longleftrightarrow> same_investigation case_id run_id before after \<and>
      pg_terminal_trigger_codes after = [] \<and> budget_left budget \<and> pending = None \<and> \<not> retry_due tg \<and>
      pg_gate_readiness after = GR_EVALUABLE) \<and>
    (route = RR_REPLAN \<longleftrightarrow> same_investigation case_id run_id before after \<and>
      pg_terminal_trigger_codes after = [] \<and> budget_left budget \<and> pending = None \<and> \<not> retry_due tg \<and>
      pg_gate_readiness after \<noteq> GR_EVALUABLE \<and> turns < 2) \<and>
    (reason = RX_STUCK_NO_EVIDENCE_PROGRESS \<longleftrightarrow> same_investigation case_id run_id before after \<and>
      pg_terminal_trigger_codes after = [] \<and> budget_left budget \<and> pending = None \<and> \<not> retry_due tg \<and>
      pg_gate_readiness after \<noteq> GR_EVALUABLE \<and> 2 \<le> turns) \<and>
    (directive \<noteq> None \<longleftrightarrow> route = RR_RETRY_EXACT)"
proof (cases "same_investigation case_id run_id before after \<and> pg_terminal_trigger_codes after = []")
  case False
  then have "route = RR_SAFE_STOP \<and> reason = RX_INTEGRITY_CONFLICT \<and> directive = None"
    using assms by (auto simp: route_choice_def same_investigation_def split: if_splits)
  with False show ?thesis by auto
next
  case same: True
  show ?thesis
  proof (cases "budget_left budget")
    case False
    then have "route = RR_SAFE_STOP \<and> reason = RX_BUDGET_EXHAUSTED \<and> directive = None"
      using same assms
      by (auto simp: route_choice_def same_investigation_def budget_left_def split: if_splits)
    with False same show ?thesis by auto
  next
    case True
    with same have choice: "route_choice sha case_id run_id before after budget tg pending turns =
      (if pending \<noteq> None \<and> \<not> retry_admitted tg pending
         then Inr (RR_SAFE_STOP, RX_SOURCE_REVISION_CHANGED_DURING_RETRY, None)
       else if retry_admitted tg pending then
         (case pending of
            Some d \<Rightarrow> Inr (RR_RETRY_EXACT, RX_RETRYABLE_TOOL_FAILURE, Some d)
          | None \<Rightarrow> route_choice sha case_id run_id before after budget tg pending turns)
       else if pg_gate_readiness after = GR_EVALUABLE then Inr (RR_FINALIZE, RX_GATE_READY, None)
       else if 2 \<le> turns then Inr (RR_SAFE_STOP, RX_STUCK_NO_EVIDENCE_PROGRESS, None)
       else Inr (RR_REPLAN, RX_REPLAN_REQUIRED, None))"
      by (cases pending) (auto simp: route_choice_def same_investigation_def budget_left_def
          retry_admitted_def)
    show ?thesis
    proof (cases pending)
      case (Some d)
      with choice assms same True show ?thesis by (auto split: if_splits)
    next
      case None
      then have admitted: "retry_admitted tg pending \<longleftrightarrow> retry_due tg" by (simp add: retry_admitted_def)
      show ?thesis
      proof (cases "retry_due tg")
        case due: True
        then have "\<exists>d. route = RR_RETRY_EXACT \<and> reason = RX_RETRYABLE_TOOL_FAILURE \<and> directive = Some d"
          using None assms same True
          by (auto simp: route_choice_def same_investigation_def budget_left_def bindE_eq_Inr)
        with None due admitted same True show ?thesis by auto
      next
        case False
        with None choice admitted assms same True show ?thesis by (auto split: if_splits)
      qed
    qed
  qed
qed

definition sample_trigger :: route_trigger where
  "sample_trigger =
     \<lparr>tg_tool_call_id = Some ''1'', tg_result_hash = Some sample_digest,
      tg_tool_name = Some ''get_order_context'', tg_arguments = [], tg_attempt_number = 1,
      tg_result = Some sample_envelope, tg_source_version = Some ''v''\<rparr>"

lemma sample_route:
  "route_choice (\<lambda>_. sample_digest) ''case'' ''run'' sample_progress sample_progress
     (dx_remaining_budget sample_context) sample_trigger None 0 = Inr (RR_FINALIZE, RX_GATE_READY, None)"
proof -
  have "pg_case_id sample_progress = ''case'' \<and> pg_run_id sample_progress = ''run''"
    by (simp add: sample_progress_def rebuild_progress_def Let_def)
  then show ?thesis
    using sample_progress_evaluable
    by (simp add: route_choice_def sample_context_def sample_trigger_def retry_due_def
        retryable_result_def sample_envelope_def)
qed

theorem route_precedence_witness:
  "budget_left (dx_remaining_budget sample_context) \<and> pg_gate_readiness sample_progress = GR_EVALUABLE"
  using route_precedence [OF sample_route] by simp

section \<open>One exact retry\<close>

text \<open>C31. A retry directive is issued only for a first transient failure of a governed read, one whose
  execution failed with a retryable error, left no evidence and names its source version; the next
  execution passes the retry check only with attempt number two and the same tool, arguments and source
  version, the identical call does pass it, and once it has passed every further call is refused.\<close>

theorem exact_retry_once:
  assumes "issue_exact_retry sha call_id tool args version status availability retryable n hash = Inr (Some d)"
  shows "n = 1 \<and> retryable \<and> tool \<in> set read_tool_names \<and>
    status = ''retryable_error'' \<and> availability = ''unavailable'' \<and> version \<noteq> [] \<and>
    (\<forall>tool' args' version' n'. validate_exact_retry sha d tool' args' version' n' = Inr () \<longrightarrow>
       n' = 2 \<and> tool' = tool \<and> same_arguments args' args \<and> version' = version) \<and>
    (\<exists>c. validate_next sha (retry_controller_init d) tool args version 2 = Inr c \<and>
       (\<forall>tool' args' version' n'. validate_next sha c tool' args' version' n' =
          Inl (ObservationValidationError ''TOOL_RETRY_EXHAUSTED'')))"
proof -
  have d: "rd_tool_name d = tool" "rd_canonical_arguments d = args" "rd_source_version d = version"
    "rd_canonical_arguments_hash d = canonical_arguments_hash sha args"
    and n: "n = 1" "retryable" "tool \<in> set read_tool_names"
      "status = ''retryable_error''" "availability = ''unavailable''" "version \<noteq> []"
    using assms by (auto simp: issue_exact_retry_def bindE_eq_Inr check_retry_directive_def split: if_splits)
  have "validate_exact_retry sha d tool args version 2 = Inr ()"
    by (simp add: validate_exact_retry_def d next_attempt_number_def same_arguments_def)
  then have "validate_next sha (retry_controller_init d) tool args version 2 =
      Inr \<lparr>xc_directive = d, xc_executed = True\<rparr>"
    by (simp add: validate_next_def retry_controller_init_def)
  moreover have "validate_next sha \<lparr>xc_directive = d, xc_executed = True\<rparr> tool' args' version' n' =
      Inl (ObservationValidationError ''TOOL_RETRY_EXHAUSTED'')" for tool' args' version' n'
    by (simp add: validate_next_def)
  moreover have "validate_exact_retry sha d tool' args' version' n' = Inr () \<Longrightarrow>
      n' = 2 \<and> tool' = tool \<and> same_arguments args' args \<and> version' = version" for tool' args' version' n'
    by (simp add: validate_exact_retry_def d next_attempt_number_def split: if_splits)
  ultimately show ?thesis using n by blast
qed

lemma sample_retry:
  "issue_exact_retry (\<lambda>_. sample_digest) ''1'' ''get_delivery_proof'' [] ''v'' ''retryable_error''
     ''unavailable'' True 1 sample_digest =
   Inr (Some \<lparr>rd_retry_of_tool_call_id = ''1'', rd_tool_name = ''get_delivery_proof'',
              rd_canonical_arguments = [], rd_canonical_arguments_hash = sample_digest,
              rd_source_version = ''v'', rd_issued_from_progress_hash = sample_digest\<rparr>)"
  by (simp add: issue_exact_retry_def read_tool_names_def check_retry_directive_def
      canonical_arguments_hash_def)

theorem exact_retry_once_witness:
  "\<exists>d. issue_exact_retry (\<lambda>_. sample_digest) ''1'' ''get_delivery_proof'' [] ''v'' ''retryable_error''
       ''unavailable'' True 1 sample_digest = Inr (Some d) \<and>
     validate_exact_retry (\<lambda>_. sample_digest) d ''get_order_context'' [] ''v'' 2 \<noteq> Inr ()"
  using exact_retry_once [OF sample_retry] sample_retry by (auto simp del: One_nat_def)

section \<open>Stuck decisions\<close>

text \<open>How many equal decisions end a sequence.\<close>

definition trailing :: "'a list \<Rightarrow> nat" where
  "trailing ds = length (takeWhile (\<lambda>d. d = last ds) (rev ds))"

definition guard_after :: "(string \<times> string) list \<Rightarrow> guard" where
  "guard_after ds = foldl (\<lambda>g (fp, h). snd (observe_decision g fp h)) guard_init ds"

lemma trailing_snoc:
  "trailing (ds @ [d]) = (if ds \<noteq> [] \<and> last ds = d then trailing ds + 1 else 1)"
  by (cases ds rule: rev_cases) (auto simp: trailing_def)

lemma trailing_pos: "ds \<noteq> [] \<Longrightarrow> 0 < trailing ds"
  by (cases ds rule: rev_cases) (auto simp: trailing_def)

lemma guard_after_last:
  "ds \<noteq> [] \<Longrightarrow> gd_last_fingerprint (guard_after ds) = Some (fst (last ds)) \<and>
     gd_last_progress_hash (guard_after ds) = Some (snd (last ds)) \<and>
     gd_repeated_fingerprint_count (guard_after ds) + 1 = trailing ds"
proof (induction ds rule: rev_induct)
  case (snoc d ds)
  obtain fp h where d: "d = (fp, h)" by (cases d)
  show ?case
  proof (cases "ds = []")
    case True
    then show ?thesis
      by (simp add: d guard_after_def observe_decision_def guard_init_def trailing_def)
  next
    case False
    then have "guard_after (ds @ [d]) = snd (observe_decision (guard_after ds) fp h)"
      by (simp add: guard_after_def d)
    with snoc.IH [OF False] False show ?thesis
      by (cases "last ds") (auto simp: observe_decision_def Let_def trailing_snoc d)
  qed
qed simp

text \<open>The stuck guard: after any sequence of decisions the next one is stopped as a repeated decision
  exactly when it is the third (or later) equal decision in a row at unchanged progress, so a selector
  that repeats itself is always stopped.\<close>

theorem stuck_at_third_repetition:
  "fst (observe_decision (guard_after ds) fp h) = Some RX_STUCK_REPEATED_DECISION \<longleftrightarrow>
     3 \<le> trailing (ds @ [(fp, h)])"
proof (cases "ds = []")
  case True
  then show ?thesis
    by (simp add: guard_after_def observe_decision_def guard_init_def trailing_def)
next
  case False
  with guard_after_last [OF False] show ?thesis
    by (cases "last ds") (auto simp: observe_decision_def Let_def trailing_snoc)
qed

end
