(* ===== verification/AdaptiveTrace.thy ===== *)
theory AdaptiveTrace
  imports AdaptiveControl Investigations
begin

text \<open>
  \<open>AdaptiveTraceCoordinator\<close> of \<open>application/investigation.py\<close>: what happens before, in and after each turn of an
  investigation, and the trace records it leaves.

  \<^item> \<open>investigator\<close> holds what the coordinator is given: the selector, the policy search, Pydantic's dumps and the
    keyword arguments that a caller of \<open>investigate\<close> may set.  The selector may look at anything; it answers a
    candidate, \<open>None\<close> for any exception that the coordinator turns into an empty candidate, or the
    \<open>SelectorExecutionFailure\<close> that ends the investigation.
  \<^item> \<open>coordinator\<close> is the object; a callback returns it updated.  It is local to one investigation and lost with an
    exception.
  \<^item> \<open>next_move\<close> is the dictionary that a callback answers to the graph, without the texts of its messages.
  \<^item> A result that was read back from the database holds its payload as a dictionary (\<open>RP_Dict\<close>), which has none of
    the attributes of a payload.
\<close>

section \<open>What an investigation is given\<close>

record investigator =
  iv_dump_payload :: "read_payload \<Rightarrow> json"
  iv_dump_facts :: "fact_snapshot \<Rightarrow> json"
  iv_search :: "app_state \<Rightarrow> string \<Rightarrow> issue_type \<Rightarrow> string \<Rightarrow> string \<Rightarrow> datetime \<Rightarrow> (bool \<times> string) + policy_search"
  iv_select :: "app_state \<Rightarrow> decision_context \<Rightarrow> candidate option result"
  iv_selector_kind :: selector_kind
  iv_requester_label :: string
  iv_enforce_early_stop :: bool
  iv_exact_retry :: bool
  iv_stop_after :: "int option"
  iv_recursion_limit :: nat

definition investigation_prompt_version :: string where
  "investigation_prompt_version = ''investigation-v3-policy-rag''"

section \<open>Trace records\<close>

datatype trace_phase = TP_SELECT | TP_VALIDATE | TP_EXECUTE | TP_REDUCE | TP_ROUTE | TP_FINALIZE | TP_SAFE_STOP | TP_TERMINAL

fun trace_phase_value :: "trace_phase \<Rightarrow> string" where
  "trace_phase_value TP_SELECT = ''select''"
| "trace_phase_value TP_VALIDATE = ''validate''"
| "trace_phase_value TP_EXECUTE = ''execute''"
| "trace_phase_value TP_REDUCE = ''reduce''"
| "trace_phase_value TP_ROUTE = ''route''"
| "trace_phase_value TP_FINALIZE = ''finalize''"
| "trace_phase_value TP_SAFE_STOP = ''safe_stop''"
| "trace_phase_value TP_TERMINAL = ''terminal''"

fun selector_kind_value :: "selector_kind \<Rightarrow> string" where
  "selector_kind_value SK_AGENT = ''agent''"
| "selector_kind_value SK_WORKFLOW = ''workflow''"

fun observation_reason_value :: "observation_reason \<Rightarrow> string" where
  "observation_reason_value OR_FIRST_REQUIRED_OBSERVATION = ''FIRST_REQUIRED_OBSERVATION''"
| "observation_reason_value OR_MISSING_REQUIRED_EVIDENCE = ''MISSING_REQUIRED_EVIDENCE''"
| "observation_reason_value OR_OBSERVATION_CONDITIONAL_BRANCH = ''OBSERVATION_CONDITIONAL_BRANCH''"
| "observation_reason_value OR_OPTIONAL_EXPLANATORY_CONTEXT = ''OPTIONAL_EXPLANATORY_CONTEXT''"
| "observation_reason_value OR_FINALIZATION_REQUESTED = ''FINALIZATION_REQUESTED''"

fun recovery_route_value :: "recovery_route \<Rightarrow> string" where
  "recovery_route_value RR_REPLAN = ''replan''"
| "recovery_route_value RR_RETRY_EXACT = ''retry_exact''"
| "recovery_route_value RR_FINALIZE = ''finalize''"
| "recovery_route_value RR_SAFE_STOP = ''safe_stop''"

fun recovery_reason_value :: "recovery_reason \<Rightarrow> string" where
  "recovery_reason_value RX_REPLAN_REQUIRED = ''REPLAN_REQUIRED''"
| "recovery_reason_value RX_RETRYABLE_TOOL_FAILURE = ''RETRYABLE_TOOL_FAILURE''"
| "recovery_reason_value RX_GATE_READY = ''GATE_READY''"
| "recovery_reason_value RX_BUDGET_EXHAUSTED = ''BUDGET_EXHAUSTED''"
| "recovery_reason_value RX_INTEGRITY_CONFLICT = ''INTEGRITY_CONFLICT''"
| "recovery_reason_value RX_SOURCE_REVISION_CHANGED_DURING_RETRY = ''SOURCE_REVISION_CHANGED_DURING_RETRY''"
| "recovery_reason_value RX_STUCK_REPEATED_DECISION = ''STUCK_REPEATED_DECISION''"
| "recovery_reason_value RX_STUCK_NO_EVIDENCE_PROGRESS = ''STUCK_NO_EVIDENCE_PROGRESS''"
| "recovery_reason_value RX_PREMATURE_FINISH = ''PREMATURE_FINISH''"
| "recovery_reason_value RX_INVALID_OBSERVATION = ''INVALID_OBSERVATION''"

definition recovery_reason_of :: "string \<Rightarrow> recovery_reason option" where
  "recovery_reason_of code = List.find (\<lambda>r. recovery_reason_value r = code)
     [RX_REPLAN_REQUIRED, RX_RETRYABLE_TOOL_FAILURE, RX_GATE_READY, RX_BUDGET_EXHAUSTED, RX_INTEGRITY_CONFLICT,
      RX_SOURCE_REVISION_CHANGED_DURING_RETRY, RX_STUCK_REPEATED_DECISION, RX_STUCK_NO_EVIDENCE_PROGRESS,
      RX_PREMATURE_FINISH, RX_INVALID_OBSERVATION]"

definition component_versions_json :: json where
  "component_versions_json = JObj
     [(''requirement_registry'', JStr ''v3a.requirements.v1''), (''validator'', JStr ''v3a.validator.v1''),
      (''reducer'', JStr ''v3a.evidence_progress.v1''), (''router'', JStr ''v3a.recovery_decision.v1''),
      (''retry'', JStr ''v3a.retry_directive.v1''), (''trace'', JStr ''v3a.trace.v1''),
      (''tool_registry'', JStr ''v2.read-tools.v1''), (''evidence_gate'', JStr ''project-evidence-gate.v2'')]"

definition budget_json :: "tool_budget \<Rightarrow> json" where
  "budget_json b = JObj [(''case_planning_turns'', JInt (tb_case_planning_turns b)),
     (''run_planning_turns'', JInt (tb_run_planning_turns b)),
     (''actual_read_tool_executions'', JInt (tb_actual_read_tool_executions b))]"

record decision_trace =
  dt_trace_sequence :: nat
  dt_case_id :: string
  dt_run_id :: string
  dt_decision_id :: string
  dt_selector_kind :: selector_kind
  dt_planning_turn :: int
  dt_action :: observation_action
  dt_tool_name :: "string option"
  dt_arguments_hash :: string
  dt_addresses :: "requirement_code list"
  dt_reason_code :: string
  dt_rejection_code :: "string option"
  dt_progress_revision :: nat
  dt_progress_hash :: string
  dt_budget :: tool_budget
  dt_model_id :: "string option"
  dt_prompt_version :: "string option"
  dt_recorded_at :: datetime

definition check_decision_trace :: "decision_trace \<Rightarrow> decision_trace result" where
  "check_decision_trace d =
    (if dt_trace_sequence d < 1 then Inl (ValueError ''trace_sequence'')
     else if \<not> short_id 64 (dt_case_id d) then Inl (ValueError ''case_id'')
     else if \<not> short_id 64 (dt_run_id d) then Inl (ValueError ''run_id'')
     else if \<not> short_id 128 (dt_decision_id d) then Inl (ValueError ''decision_id'')
     else if \<not> (1 \<le> dt_planning_turn d \<and> dt_planning_turn d \<le> 16) then Inl (ValueError ''planning_turn'')
     else if \<not> is_sha256_hex (dt_arguments_hash d) then Inl (ValueError ''canonical_arguments_hash'')
     else if \<not> short_id 96 (dt_reason_code d) then Inl (ValueError ''reason_code'')
     else if \<not> is_sha256_hex (dt_progress_hash d) then Inl (ValueError ''evidence_progress_hash'')
     else if \<not> opt_in (\<lambda>v. length v \<le> 128) (dt_model_id d) then Inl (ValueError ''model_id'')
     else if \<not> opt_in (\<lambda>v. length v \<le> 128) (dt_prompt_version d) then Inl (ValueError ''prompt_policy_version'')
     else Inr d)"

text \<open>The validation status is \<open>rejected\<close> exactly when there is a rejection code.\<close>

definition decision_trace_json :: "decision_trace \<Rightarrow> (string \<times> json) list" where
  "decision_trace_json d =
    [(''schema_version'', JStr ''v3a.trace.v1''), (''trace_sequence'', JInt (int (dt_trace_sequence d))),
     (''case_id'', JStr (dt_case_id d)), (''run_id'', JStr (dt_run_id d)), (''decision_id'', JStr (dt_decision_id d)),
     (''selector_kind'', JStr (selector_kind_value (dt_selector_kind d))), (''planning_turn'', JInt (dt_planning_turn d)),
     (''action'', JStr (observation_action_value (dt_action d))), (''tool_name'', json_opt_str (dt_tool_name d)),
     (''canonical_arguments_hash'', JStr (dt_arguments_hash d)),
     (''addresses'', JList (map (JStr \<circ> requirement_code_value) (dt_addresses d))),
     (''reason_code'', JStr (dt_reason_code d)),
     (''validation_status'', JStr (if dt_rejection_code d = None then ''accepted'' else ''rejected'')),
     (''rejection_code'', json_opt_str (dt_rejection_code d)),
     (''evidence_progress_revision'', JInt (int (dt_progress_revision d))),
     (''evidence_progress_hash'', JStr (dt_progress_hash d)), (''budget_snapshot'', budget_json (dt_budget d)),
     (''model_id'', json_opt_str (dt_model_id d)), (''prompt_policy_version'', json_opt_str (dt_prompt_version d)),
     (''runtime_version'', JStr ''v3a.adaptive-runtime.v1''), (''component_versions'', component_versions_json),
     (''recorded_at'', JStr (iso (dt_recorded_at d)))]"

record recovery_trace =
  rw_trace_sequence :: nat
  rw_decision :: recovery_decision
  rw_execution_status :: string
  rw_evidence_availability :: string
  rw_retryable :: bool
  rw_error_code :: "string option"
  rw_retry_identity_hash :: "string option"
  rw_attempt_number :: int
  rw_recorded_at :: datetime

definition check_recovery_trace :: "recovery_trace \<Rightarrow> recovery_trace result" where
  "check_recovery_trace r =
    (if rw_trace_sequence r < 1 then Inl (ValueError ''trace_sequence'')
     else if \<not> short_id 64 (rv_case_id (rw_decision r)) then Inl (ValueError ''case_id'')
     else if \<not> short_id 64 (rv_run_id (rw_decision r)) then Inl (ValueError ''run_id'')
     else if \<not> short_id 128 (rv_recovery_id (rw_decision r)) then Inl (ValueError ''recovery_id'')
     else if \<not> opt_in is_sha256_hex (rv_trigger_result_hash (rw_decision r)) then Inl (ValueError ''trigger_result_hash'')
     else if \<not> short_id 32 (rw_execution_status r) then Inl (ValueError ''execution_status'')
     else if \<not> short_id 24 (rw_evidence_availability r) then Inl (ValueError ''evidence_availability'')
     else if \<not> opt_in (\<lambda>v. length v \<le> 96) (rw_error_code r) then Inl (ValueError ''error_code'')
     else if \<not> is_sha256_hex (rv_progress_before_hash (rw_decision r)) then Inl (ValueError ''evidence_progress_before_hash'')
     else if \<not> is_sha256_hex (rv_progress_after_hash (rw_decision r)) then Inl (ValueError ''evidence_progress_after_hash'')
     else if \<not> opt_in is_sha256_hex (rw_retry_identity_hash r) then Inl (ValueError ''retry_identity_hash'')
     else if \<not> (1 \<le> rw_attempt_number r \<and> rw_attempt_number r \<le> 2) then Inl (ValueError ''attempt_number'')
     else Inr r)"

definition recovery_trace_json :: "recovery_trace \<Rightarrow> (string \<times> json) list" where
  "recovery_trace_json r =
    [(''schema_version'', JStr ''v3a.trace.v1''), (''trace_sequence'', JInt (int (rw_trace_sequence r))),
     (''case_id'', JStr (rv_case_id (rw_decision r))), (''run_id'', JStr (rv_run_id (rw_decision r))),
     (''recovery_id'', JStr (rv_recovery_id (rw_decision r))),
     (''trigger_tool_call_id'', json_opt_str (rv_trigger_tool_call_id (rw_decision r))),
     (''trigger_result_hash'', json_opt_str (rv_trigger_result_hash (rw_decision r))),
     (''execution_status'', JStr (rw_execution_status r)), (''evidence_availability'', JStr (rw_evidence_availability r)),
     (''retryable'', JBool (rw_retryable r)), (''error_code'', json_opt_str (rw_error_code r)),
     (''evidence_progress_before_hash'', JStr (rv_progress_before_hash (rw_decision r))),
     (''evidence_progress_after_hash'', JStr (rv_progress_after_hash (rw_decision r))),
     (''route'', JStr (recovery_route_value (rv_route (rw_decision r)))),
     (''reason_code'', JStr (recovery_reason_value (rv_reason_code (rw_decision r)))),
     (''retry_identity_hash'', json_opt_str (rw_retry_identity_hash r)), (''attempt_number'', JInt (rw_attempt_number r)),
     (''budget_snapshot'', budget_json (rv_budget_snapshot (rw_decision r))),
     (''runtime_version'', JStr ''v3a.adaptive-runtime.v1''), (''component_versions'', component_versions_json),
     (''recorded_at'', JStr (iso (rw_recorded_at r)))]"

record state_trace =
  sx_trace_sequence :: nat
  sx_case_id :: string
  sx_run_id :: string
  sx_phase_from :: trace_phase
  sx_phase_to :: trace_phase
  sx_reason_code :: string
  sx_progress_hash :: string
  sx_pending_retry_identity :: "string option"
  sx_persisted_at :: datetime

definition check_state_trace :: "state_trace \<Rightarrow> state_trace result" where
  "check_state_trace r =
    (if sx_trace_sequence r < 1 then Inl (ValueError ''trace_sequence'')
     else if \<not> short_id 64 (sx_case_id r) then Inl (ValueError ''case_id'')
     else if \<not> short_id 64 (sx_run_id r) then Inl (ValueError ''run_id'')
     else if \<not> short_id 96 (sx_reason_code r) then Inl (ValueError ''reason_code'')
     else if \<not> is_sha256_hex (sx_progress_hash r) then Inl (ValueError ''evidence_progress_hash'')
     else if \<not> opt_in is_sha256_hex (sx_pending_retry_identity r) then Inl (ValueError ''pending_retry_identity'')
     else Inr r)"

definition state_trace_json :: "state_trace \<Rightarrow> (string \<times> json) list" where
  "state_trace_json r =
    [(''schema_version'', JStr ''v3a.trace.v1''), (''trace_sequence'', JInt (int (sx_trace_sequence r))),
     (''case_id'', JStr (sx_case_id r)), (''run_id'', JStr (sx_run_id r)),
     (''phase_from'', JStr (trace_phase_value (sx_phase_from r))), (''phase_to'', JStr (trace_phase_value (sx_phase_to r))),
     (''reason_code'', JStr (sx_reason_code r)), (''case_revision'', JInt 0), (''run_revision'', JInt 0),
     (''evidence_progress_hash'', JStr (sx_progress_hash r)),
     (''pending_retry_identity'', json_opt_str (sx_pending_retry_identity r)),
     (''runtime_version'', JStr ''v3a.adaptive-runtime.v1''), (''component_versions'', component_versions_json),
     (''persisted_at'', JStr (iso (sx_persisted_at r)))]"

section \<open>The coordinator\<close>

record coordinator =
  co_progress :: progress_snapshot
  co_records :: "tool_call list"
  co_refs :: "evidence_ref list"
  co_latest :: "(string \<times> read_result) list"
  co_gate_payload :: "json option"
  co_fingerprints :: "string list"
  co_sequence :: nat
  co_selector_hash :: string
  co_terminal :: "string option"
  co_early_stop :: "string option"
  co_issue_revision :: bool
  co_initial_recorded :: bool
  co_guard_reason :: "string option"
  co_pending :: "retry_directive option"
  co_guard :: guard

datatype next_move = Proceed | Stop | Replan | Invoke string string arguments

definition fixture_guard_reasons :: "(string \<times> string) list" where
  "fixture_guard_reasons =
    [(''v3a-guards-malformed'', ''INVALID_CANDIDATE_SCHEMA''), (''v3a-guards-irrelevant'', ''INVALID_OBSERVATION''),
     (''v3a-guards-duplicate'', ''STUCK_REPEATED_DECISION''), (''v3a-guards-premature'', ''PREMATURE_FINISH''),
     (''v3a-guards-stuck'', ''STUCK_NO_EVIDENCE_PROGRESS''), (''v3a-guards-budget'', ''BUDGET_EXHAUSTED''),
     (''v3a-guards-source-change'', ''SOURCE_REVISION_CHANGED_DURING_RETRY''),
     (''v3-locked-fault-18-v3a-guards-malformed'', ''INVALID_CANDIDATE_SCHEMA''),
     (''v3-locked-fault-19-v3a-guards-irrelevant'', ''INVALID_OBSERVATION''),
     (''v3-locked-fault-20-v3a-guards-duplicate'', ''STUCK_REPEATED_DECISION''),
     (''v3-locked-fault-21-v3a-guards-premature'', ''PREMATURE_FINISH''),
     (''v3-locked-fault-22-v3a-guards-stuck'', ''STUCK_NO_EVIDENCE_PROGRESS''),
     (''v3-locked-fault-23-v3a-guards-budget'', ''BUDGET_EXHAUSTED''),
     (''v3-locked-fault-24-v3a-guards-source-change'', ''SOURCE_REVISION_CHANGED_DURING_RETRY'')]"

text \<open>\<open>datetime.isoformat()\<close> of an aware time.\<close>

definition isoformat :: "datetime \<Rightarrow> string" where
  "isoformat t = butlast (iso t) @ ''+00:00''"

definition rebuild_online :: "app_env \<Rightarrow> trusted_context \<Rightarrow> tool_call list \<Rightarrow> evidence_ref list \<Rightarrow> retry_directive option \<Rightarrow> progress_snapshot app" where
  "rebuild_online env t calls refs pending =
    bindA (utc_now env) (\<lambda>now. returnA (rebuild_progress (ae_sha env) (tc_case_id t) (tc_run_id t)
      (tc_canonical_issue_type t) calls refs pending now))"

text \<open>The record of a persisted row, and the rows that have one.\<close>

definition persisted_rows :: "database \<Rightarrow> string \<Rightarrow> tool_call_row list" where
  "persisted_rows d run_id =
     filter (\<lambda>r. tcr_result_envelope r \<noteq> None \<and> tcr_execution_status r \<noteq> None) (list_tool_calls d None (Some run_id))"

definition row_arguments :: "tool_call_row \<Rightarrow> arguments" where
  "row_arguments row = (case tcr_normalized_args row of JObj kvs \<Rightarrow> kvs | _ \<Rightarrow> [])"

definition persisted_call :: "tool_call_row \<Rightarrow> tool_call" where
  "persisted_call row = \<lparr>tl_tool_call_id = tcr_tool_call_id row, tl_case_id = None, tl_run_id = None,
     tl_tool_name = Some (tcr_tool_name row), tl_normalized_args = Some (row_arguments row),
     tl_result_hash = tcr_result_hash row, tl_result_envelope = map_option ToolContracts.envelope.truncate (tcr_result_envelope row),
     tl_execution_status = tcr_execution_status row, tl_evidence_availability = tcr_evidence_availability row,
     tl_source_version = tcr_source_version row, tl_attempt_number = Some (tcr_attempt_number row),
     tl_actual_execution = tcr_actual_execution row, tl_requested_at = Some (isoformat (tcr_requested_at row))\<rparr>"

fun reload_results :: "tool_call_row list \<Rightarrow> (string \<times> read_result) list \<Rightarrow> (string \<times> read_result) list result" where
  "reload_results [] results = Inr results"
| "reload_results (row # rows) results =
    (case tcr_result_envelope row of
       None \<Rightarrow> reload_results rows results
     | Some r \<Rightarrow> bindE (check_tool_result r) (\<lambda>r'.
         reload_results rows (AList.update (tcr_tool_name row) (reloaded r') results)))"

text \<open>The gate event of this run among the first 500 of the conversation.\<close>

definition persisted_gate :: "database \<Rightarrow> trusted_context \<Rightarrow> json option result" where
  "persisted_gate d t =
    bindE (list_after d (tc_conversation_id t) 0 500) (\<lambda>events.
      Inr (map_option en_payload (last_opt (filter (\<lambda>e. en_run_id e = Some (tc_run_id t) \<and>
        en_event_type e = ''evidence_gate_evaluated'') events))))"

text \<open>The exact retry that is due when the last persisted call of the run failed retryably.\<close>

definition interrupted_retry :: "app_env \<Rightarrow> progress_snapshot \<Rightarrow> tool_call_row list \<Rightarrow> retry_directive option result" where
  "interrupted_retry env progress rows =
    (case last_opt rows of
       None \<Rightarrow> Inr None
     | Some row \<Rightarrow>
         (case tcr_source_version row of
            None \<Rightarrow> Inr None
          | Some version \<Rightarrow>
              if tcr_actual_execution row \<and> tcr_attempt_number row = 1 \<and>
                 tcr_execution_status row = Some ''retryable_error'' \<and>
                 tcr_evidence_availability row = Some ''unavailable'' \<and> tcr_retryable row
              then issue_exact_retry (ae_sha env) (tcr_tool_call_id row) (tcr_tool_name row) (row_arguments row) version
                     ''retryable_error'' ''unavailable'' True 1 (pg_snapshot_hash progress)
              else Inr None))"

definition coordinator_init :: "app_env \<Rightarrow> investigator \<Rightarrow> trusted_context \<Rightarrow> coordinator app" where
  "coordinator_init env iv t =
    bindA (readA (\<lambda>_. case iv_stop_after iv of
        None \<Rightarrow> Inr ()
      | Some n \<Rightarrow> if n < 1 then Inl (ValueError ''stop_after_actual_executions must be positive'') else Inr ())) (\<lambda>_.
    bindA (read_db (\<lambda>d. Inr (persisted_rows d (tc_run_id t)))) (\<lambda>rows.
    bindA (readA (\<lambda>_. reload_results rows [])) (\<lambda>results.
    bindA (read_db (\<lambda>d. mapE check_evidence_ref
        (list_evidence_refs d (tc_conversation_id t) (Some (tc_case_id t)) (Some (tc_run_id t))))) (\<lambda>refs.
    bindA (read_db (\<lambda>d. persisted_gate d t)) (\<lambda>gate.
    bindA (rebuild_online env t (map persisted_call rows) refs None) (\<lambda>progress.
    bindA (readA (\<lambda>_. interrupted_retry env progress rows)) (\<lambda>pending.
    bindA (if pending = None then returnA progress else rebuild_online env t (map persisted_call rows) refs pending) (\<lambda>progress'.
      returnA \<lparr>co_progress = progress', co_records = map persisted_call rows, co_refs = refs, co_latest = results,
        co_gate_payload = gate, co_fingerprints = [], co_sequence = 0, co_selector_hash = pg_snapshot_hash progress,
        co_terminal = None, co_early_stop = None, co_issue_revision = False, co_initial_recorded = False,
        co_guard_reason = map_of fixture_guard_reasons (tc_fault_seed t), co_pending = pending,
        co_guard = guard_init\<rparr>))))))))"

definition trace_event :: "app_env \<Rightarrow> trusted_context \<Rightarrow> string \<Rightarrow> string \<Rightarrow> (string \<times> json) list \<Rightarrow> unit app" where
  "trace_event env t event_type summary payload =
    emit env (tc_conversation_id t) (Some (tc_case_id t)) (Some (tc_run_id t)) event_type ''developer'' (text_of summary) payload"

definition write_state_trace ::
  "app_env \<Rightarrow> trusted_context \<Rightarrow> trace_phase \<Rightarrow> trace_phase \<Rightarrow> string \<Rightarrow> coordinator \<Rightarrow> coordinator app" where
  "write_state_trace env t phase_from phase_to reason co =
    bindA (utc_now env) (\<lambda>now.
    bindA (readA (\<lambda>_. check_state_trace \<lparr>sx_trace_sequence = co_sequence co + 1, sx_case_id = tc_case_id t,
        sx_run_id = tc_run_id t, sx_phase_from = phase_from, sx_phase_to = phase_to, sx_reason_code = reason,
        sx_progress_hash = pg_snapshot_hash (co_progress co),
        sx_pending_retry_identity = map_option rd_canonical_arguments_hash (co_pending co), sx_persisted_at = now\<rparr>)) (\<lambda>r.
    thenA (trace_event env t ''state_trace_record'' ''Adaptive state transition recorded'' (state_trace_json r))
      (returnA (co\<lparr>co_sequence := co_sequence co + 1\<rparr>))))"

definition write_decision_trace :: "app_env \<Rightarrow> trusted_context \<Rightarrow> decision_trace \<Rightarrow> unit app" where
  "write_decision_trace env t d =
    bindA (readA (\<lambda>_. check_decision_trace d)) (\<lambda>d'.
      trace_event env t ''decision_trace_record'' ''Adaptive observation decision recorded'' (decision_trace_json d'))"

definition write_recovery_trace :: "app_env \<Rightarrow> trusted_context \<Rightarrow> string \<Rightarrow> recovery_trace \<Rightarrow> unit app" where
  "write_recovery_trace env t summary r =
    bindA (readA (\<lambda>_. check_recovery_trace r)) (\<lambda>r'.
      trace_event env t ''recovery_trace_record'' summary (recovery_trace_json r'))"

definition progress_payload :: "trusted_context \<Rightarrow> progress_snapshot \<Rightarrow> string \<Rightarrow> tool_call list \<Rightarrow> evidence_ref list \<Rightarrow> (string \<times> json) list" where
  "progress_payload t p replayed_hash calls refs =
    [(''case_id'', JStr (tc_case_id t)), (''run_id'', JStr (tc_run_id t)), (''progress_revision'', JInt (int (pg_revision p))),
     (''online_snapshot_hash'', JStr (pg_snapshot_hash p)), (''replayed_snapshot_hash'', JStr replayed_hash),
     (''tool_call_ids'', JList (map (JStr \<circ> tl_tool_call_id) calls)),
     (''evidence_ref_ids'', JList (map (JStr \<circ> er_tool_call_id) refs)),
     (''progress_requirements'', JObj (map (\<lambda>c. (requirement_code_value c,
        JStr (progress_status_value (rp_status (pg_requirements p c))))) all_requirements))]"

section \<open>What the payloads say\<close>

text \<open>\<open>getattr(payload, ...)\<close> on the payload of a timeline or of a policy search.\<close>

definition timeline_of :: "read_result option \<Rightarrow> logistics_timeline option" where
  "timeline_of r = Option.bind (Option.bind r tr_payload) (\<lambda>p. case p of RP_Timeline x \<Rightarrow> Some x | _ \<Rightarrow> None)"

definition read_policy_facts :: "read_result option \<Rightarrow> policy_facts option" where
  "read_policy_facts r = Option.bind (Option.bind r tr_payload)
     (\<lambda>p. case p of RP_Policy x \<Rightarrow> ps_policy_fact_snapshot x | _ \<Rightarrow> None)"

definition scoped_hours :: "trusted_context \<Rightarrow> logistics_timeline \<Rightarrow> rat option" where
  "scoped_hours t l =
    (case tc_target_shipment_id t of
       None \<Rightarrow> lt_hours_since_last_update l
     | Some target \<Rightarrow> Option.bind (List.find (\<lambda>s. st_shipment_id s = target) (lt_shipment_timelines l))
         st_hours_since_last_update)"

text \<open>The silence of the parcel and the threshold of the policy, when both are known.\<close>

definition silence :: "trusted_context \<Rightarrow> read_result option \<Rightarrow> read_result option \<Rightarrow> (rat \<times> rat) option" where
  "silence t timeline policy =
    Option.bind (timeline_of timeline) (\<lambda>l. Option.bind (scoped_hours t l) (\<lambda>hours.
      Option.bind (read_policy_facts policy) (\<lambda>f. map_option (\<lambda>n. (hours, of_int n)) (pf_stalled_after_hours f))))"

definition needs_carrier_context :: "trusted_context \<Rightarrow> coordinator \<Rightarrow> bool" where
  "needs_carrier_context t co \<longleftrightarrow>
     tc_fixture_version t = ''business-demo-v1'' \<and> tc_canonical_issue_type t = STALLED_TRACKING \<and>
     rp_status (pg_requirements (co_progress co) RC_CARRIER_ALERT_CONTEXT) = EP_MISSING \<and>
     (case silence t (map_of (co_latest co) ''get_logistics_timeline'') (map_of (co_latest co) ''search_after_sales_policy'') of
        None \<Rightarrow> False | Some (hours, threshold) \<Rightarrow> threshold < hours)"

text \<open>What a read of the order shows about the reported issue; \<open>payload.order_status\<close> of a dictionary raises.\<close>

definition order_contradicts :: "trusted_context \<Rightarrow> order_context \<Rightarrow> bool" where
  "order_contradicts t x =
    (let target = List.find (\<lambda>s. Some (ss_shipment_id s) = tc_target_shipment_id t) (oc_shipments x);
         target_delivered = (case target of None \<Rightarrow> False | Some s \<Rightarrow> ss_shipment_status s = ''delivered'');
         order_delivered = (order_status_value (oc_order_status x) = ''delivered'')
     in tc_canonical_issue_type t = SIGNED_NOT_RECEIVED \<and> \<not> order_delivered \<and> \<not> target_delivered \<or>
        tc_canonical_issue_type t = STALLED_TRACKING \<and> (target_delivered \<or> target = None \<and> order_delivered))"

definition observe_order :: "trusted_context \<Rightarrow> read_result \<Rightarrow> coordinator \<Rightarrow> coordinator result" where
  "observe_order t r co =
    (case tr_payload r of
       None \<Rightarrow> Inr co
     | Some (RP_Order x) \<Rightarrow>
         Inr (if order_contradicts t x
              then co\<lparr>co_issue_revision := True, co_early_stop := Some ''ISSUE_REVISION_READY''\<rparr> else co)
     | Some _ \<Rightarrow> Inl (AttributeError ''order_status''))"

definition observe_tickets :: "read_result \<Rightarrow> coordinator \<Rightarrow> coordinator" where
  "observe_tickets r co =
    (case tr_payload r of
       Some (RP_Tickets x) \<Rightarrow>
         if et_active_tickets x \<noteq> [] \<or> et_existing_investigations x \<noteq> []
         then co\<lparr>co_early_stop := Some ''ACTIVE_TICKET_EXISTS''\<rparr> else co
     | _ \<Rightarrow> co)"

definition observe_policy :: "trusted_context \<Rightarrow> read_result \<Rightarrow> coordinator \<Rightarrow> coordinator" where
  "observe_policy t r co =
    (case silence t (map_of (co_latest co) ''get_logistics_timeline'') (Some r) of
       None \<Rightarrow> co
     | Some (hours, threshold) \<Rightarrow>
         if tc_canonical_issue_type t = STALLED_TRACKING \<and> hours \<le> threshold
         then co\<lparr>co_early_stop := Some ''WITHIN_TRACKING_SLA''\<rparr> else co)"

definition observe_result :: "trusted_context \<Rightarrow> string \<Rightarrow> read_result \<Rightarrow> coordinator \<Rightarrow> coordinator result" where
  "observe_result t tool r co =
    (if tool = ''get_order_context'' then observe_order t r co
     else if tool = ''get_existing_logistics_tickets'' then Inr (observe_tickets r co)
     else if tool = ''search_after_sales_policy'' then Inr (observe_policy t r co)
     else Inr co)"

section \<open>Before a turn\<close>

definition record_initial :: "app_env \<Rightarrow> trusted_context \<Rightarrow> coordinator \<Rightarrow> coordinator app" where
  "record_initial env t co =
    (if co_initial_recorded co then returnA co
     else thenA (trace_event env t ''evidence_progress_rebuilt'' ''Initial Evidence Progress online and replay hashes recorded''
         (progress_payload t (co_progress co) (pg_snapshot_hash (co_progress co)) (co_records co) (co_refs co)))
       (returnA (co\<lparr>co_initial_recorded := True\<rparr>)))"

definition decision_context_of ::
  "investigator \<Rightarrow> trusted_context \<Rightarrow> tool_budget \<Rightarrow> utext \<Rightarrow> fact_snapshot \<Rightarrow> coordinator \<Rightarrow> decision_context result" where
  "decision_context_of iv t b message facts co =
     build_decision_context t message (co_progress co) b None (co_fingerprints co) (Some investigation_prompt_version)
       (Some (iv_dump_facts iv facts))"

text \<open>The budget that a trace shows, through a context without a message.\<close>

definition traced_budget :: "trusted_context \<Rightarrow> tool_budget \<Rightarrow> coordinator \<Rightarrow> tool_budget result" where
  "traced_budget t b co =
     bindE (build_decision_context t [] (co_progress co) b None [] None None) (\<lambda>x. Inr (dx_remaining_budget x))"

definition traced_model :: "investigator \<Rightarrow> string option" where
  "traced_model iv = (if iv_selector_kind iv = SK_AGENT then Some ''agent'' else None)"

definition no_trigger :: route_trigger where
  "no_trigger = \<lparr>tg_tool_call_id = None, tg_result_hash = None, tg_tool_name = None, tg_arguments = [],
     tg_attempt_number = 1, tg_result = None, tg_source_version = None\<rparr>"

text \<open>A fault seed that simulates a guard: the investigation is stopped with its traces.\<close>

definition fixture_guard ::
  "app_env \<Rightarrow> investigator \<Rightarrow> trusted_context \<Rightarrow> tool_budget \<Rightarrow> string \<Rightarrow> coordinator \<Rightarrow> (next_move \<times> coordinator) app" where
  "fixture_guard env iv t b reason co =
    (let sha = ae_sha env; p = co_progress co;
         recovery_reason = (case recovery_reason_of reason of None \<Rightarrow> RX_INVALID_OBSERVATION | Some r \<Rightarrow> r)
     in bindA (readA (\<lambda>_. traced_budget t b co)) (\<lambda>shown.
        bindA (utc_now env) (\<lambda>now.
        thenA (write_decision_trace env t \<lparr>dt_trace_sequence = co_sequence co + 1, dt_case_id = tc_case_id t,
            dt_run_id = tc_run_id t, dt_decision_id = ''guard-rejected-'' @ tc_fault_seed t,
            dt_selector_kind = iv_selector_kind iv, dt_planning_turn = 1, dt_action = OA_FINISH, dt_tool_name = None,
            dt_arguments_hash = canonical_arguments_hash sha [], dt_addresses = [], dt_reason_code = reason,
            dt_rejection_code = Some reason, dt_progress_revision = pg_revision p, dt_progress_hash = pg_snapshot_hash p,
            dt_budget = shown, dt_model_id = traced_model iv, dt_prompt_version = Some investigation_prompt_version,
            dt_recorded_at = now\<rparr>)
        (bindA (write_state_trace env t TP_SELECT TP_SAFE_STOP reason (co\<lparr>co_sequence := co_sequence co + 1\<rparr>)) (\<lambda>co1.
         bindA (uuid4_hex env) (\<lambda>h. bindA (utc_now env) (\<lambda>decided_at.
         bindA (readA (\<lambda>_. bindE (check_budget_snapshot b) (\<lambda>budget.
             route_observation sha h decided_at (tc_case_id t) (tc_run_id t) p p budget no_trigger None 2))) (\<lambda>recovery.
         bindA (utc_now env) (\<lambda>recorded_at.
         thenA (write_recovery_trace env t ''Fixture guard recovery route recorded''
             \<lparr>rw_trace_sequence = co_sequence co1 + 1,
              rw_decision = recovery\<lparr>rv_route := RR_SAFE_STOP, rv_reason_code := recovery_reason,
                rv_retry_directive := None, rv_trigger_tool_call_id := None, rv_trigger_result_hash := None,
                rv_progress_before_hash := pg_snapshot_hash p, rv_progress_after_hash := pg_snapshot_hash p\<rparr>,
              rw_execution_status = ''non_retryable_error'', rw_evidence_availability = ''unavailable'',
              rw_retryable = False, rw_error_code = Some reason, rw_retry_identity_hash = None, rw_attempt_number = 1,
              rw_recorded_at = recorded_at\<rparr>)
           (returnA (Stop, co1\<lparr>co_sequence := co_sequence co1 + 1, co_terminal := Some reason\<rparr>)))))))))))"

text \<open>A pending retry is emitted while its source is unchanged and a read is left.\<close>

definition due_retry ::
  "app_env \<Rightarrow> trusted_context \<Rightarrow> tool_budget \<Rightarrow> coordinator \<Rightarrow> (retry_directive option \<times> coordinator) app" where
  "due_retry env t b co =
    (case co_pending co of
       None \<Rightarrow> returnA (None, co)
     | Some d \<Rightarrow>
         bindA (readA (\<lambda>s. current_source_revision env (sv_fixtures s) (tc_authorized_order_id t) (rd_tool_name d))) (\<lambda>current.
           if current \<noteq> rd_source_version d
             then returnA (None, co\<lparr>co_pending := None, co_terminal := Some ''SOURCE_REVISION_CHANGED_DURING_RETRY''\<rparr>)
           else if tb_actual_read_tool_executions b < max_actual_read_tool_executions then returnA (Some d, co)
           else returnA (None, co)))"

definition stop_or_proceed :: "app_env \<Rightarrow> investigator \<Rightarrow> trusted_context \<Rightarrow> coordinator \<Rightarrow> (next_move \<times> coordinator) app" where
  "stop_or_proceed env iv t co =
    (let stop = (\<lambda>phase reason. bindA (write_state_trace env t TP_ROUTE phase reason co) (\<lambda>co'. returnA (Stop, co')))
     in if (case iv_stop_after iv of None \<Rightarrow> False
            | Some n \<Rightarrow> n \<le> int (length (filter tl_actual_execution (co_records co))))
          then stop TP_FINALIZE ''RESCUE_STOP_AFTER_TOOLNODE''
        else (case co_terminal co of
            Some reason \<Rightarrow> stop TP_SAFE_STOP reason
          | None \<Rightarrow>
              (case (if iv_enforce_early_stop iv then co_early_stop co else None) of
                 Some reason \<Rightarrow> stop TP_FINALIZE reason
               | None \<Rightarrow>
                   if iv_enforce_early_stop iv \<and> pg_gate_readiness (co_progress co) = GR_EVALUABLE \<and>
                      \<not> needs_carrier_context t co
                   then stop TP_FINALIZE ''GATE_READY'' else returnA (Proceed, co))))"

definition before_selector ::
  "app_env \<Rightarrow> investigator \<Rightarrow> trusted_context \<Rightarrow> tool_budget \<Rightarrow> coordinator \<Rightarrow> (next_move \<times> coordinator) app" where
  "before_selector env iv t b co =
    bindA (record_initial env t (co\<lparr>co_selector_hash := pg_snapshot_hash (co_progress co)\<rparr>)) (\<lambda>co1.
      case co_guard_reason co1 of
        Some reason \<Rightarrow> fixture_guard env iv t b reason (co1\<lparr>co_guard_reason := None\<rparr>)
      | None \<Rightarrow>
          bindA (due_retry env t b co1) (\<lambda>(due, co2).
            case due of
              Some d \<Rightarrow> bindA (uuid4_hex env) (\<lambda>h.
                returnA (Invoke (''retry_'' @ h) (rd_tool_name d) (rd_canonical_arguments d), co2))
            | None \<Rightarrow> stop_or_proceed env iv t co2))"

section \<open>A turn\<close>

definition selected :: "investigator \<Rightarrow> decision_context \<Rightarrow> candidate option app" where
  "selected iv context = readA (\<lambda>s. bindE (iv_select iv s context) (\<lambda>c. Inr (Option.bind c
     (\<lambda>x. case check_candidate x of Inl _ \<Rightarrow> None | Inr y \<Rightarrow> Some y))))"

definition decision_of ::
  "investigator \<Rightarrow> trusted_context \<Rightarrow> (json \<Rightarrow> string) \<Rightarrow> int \<Rightarrow> candidate option \<Rightarrow> candidate_validation \<Rightarrow> tool_budget \<Rightarrow>
   datetime \<Rightarrow> coordinator \<Rightarrow> decision_trace" where
  "decision_of iv t sha turn cand v shown now co =
    (let rejection = (case v of Accepted _ \<Rightarrow> None | Rejected code \<Rightarrow> Some code) in
     \<lparr>dt_trace_sequence = co_sequence co + 1, dt_case_id = tc_case_id t, dt_run_id = tc_run_id t,
      dt_decision_id = (case v of Accepted n \<Rightarrow> nx_decision_id n
        | Rejected _ \<Rightarrow> ''rejected-'' @ nat_str (nat turn) @ ''-'' @ nat_str (co_sequence co + 1)),
      dt_selector_kind = iv_selector_kind iv, dt_planning_turn = turn,
      dt_action = (case cand of None \<Rightarrow> OA_FINISH | Some c \<Rightarrow> cn_action c),
      dt_tool_name = Option.bind cand cn_tool_name,
      dt_arguments_hash = canonical_arguments_hash sha (case v of Accepted n \<Rightarrow> nx_canonical_arguments n | Rejected _ \<Rightarrow> []),
      dt_addresses = (case cand of None \<Rightarrow> [] | Some c \<Rightarrow> cn_addresses c),
      dt_reason_code = (case rejection of Some code \<Rightarrow> code
        | None \<Rightarrow> (case cand of None \<Rightarrow> ''INVALID_CANDIDATE_SCHEMA'' | Some c \<Rightarrow> observation_reason_value (cn_reason_code c))),
      dt_rejection_code = rejection, dt_progress_revision = pg_revision (co_progress co),
      dt_progress_hash = pg_snapshot_hash (co_progress co), dt_budget = shown, dt_model_id = traced_model iv,
      dt_prompt_version = Some investigation_prompt_version, dt_recorded_at = now\<rparr>)"

definition accept_observation ::
  "app_env \<Rightarrow> trusted_context \<Rightarrow> next_observation \<Rightarrow> coordinator \<Rightarrow> (next_move \<times> coordinator) app" where
  "accept_observation env t n co =
    (let co1 = co\<lparr>co_fingerprints := co_fingerprints co @ [nx_decision_fingerprint n]\<rparr>
     in if nx_action n = OA_FINISH
        then bindA (write_state_trace env t TP_VALIDATE TP_FINALIZE ''GATE_READY'' co1) (\<lambda>co2. returnA (Stop, co2))
        else bindA (write_state_trace env t TP_VALIDATE TP_EXECUTE ''OBSERVATION_ACCEPTED'' co1) (\<lambda>co2.
          returnA (Invoke (''obs_'' @ nx_decision_id n) (the (nx_tool_name n)) (nx_canonical_arguments n), co2)))"

definition correctable :: "string set" where
  "correctable = {''PREMATURE_FINISH'', ''STUCK_REPEATED_DECISION'', ''INVALID_CANDIDATE_SCHEMA''}"

definition reject_observation ::
  "app_env \<Rightarrow> trusted_context \<Rightarrow> string \<Rightarrow> coordinator \<Rightarrow> (next_move \<times> coordinator) app" where
  "reject_observation env t code co =
    (case observe_selector_turn (co_guard co) (co_selector_hash co) (pg_snapshot_hash (co_progress co)) of (stuck, g) \<Rightarrow>
      let co1 = co\<lparr>co_guard := g, co_terminal := (case stuck of None \<Rightarrow> co_terminal co | Some r \<Rightarrow> Some (recovery_reason_value r))\<rparr>
      in if code \<in> correctable \<and> fst (allow_correction g)
         then returnA (Replan, co1\<lparr>co_guard := snd (allow_correction g)\<rparr>)
         else bindA (write_state_trace env t TP_VALIDATE TP_SAFE_STOP (case co_terminal co1 of None \<Rightarrow> code | Some r \<Rightarrow> r) co1)
           (\<lambda>co2. returnA (Stop, co2)))"

definition select_observation ::
  "app_env \<Rightarrow> investigator \<Rightarrow> trusted_context \<Rightarrow> tool_budget \<Rightarrow> utext \<Rightarrow> fact_snapshot \<Rightarrow> int \<Rightarrow> coordinator \<Rightarrow>
   (next_move \<times> coordinator) app" where
  "select_observation env iv t b message facts turn co =
    bindA (readA (\<lambda>_. decision_context_of iv t b message facts co)) (\<lambda>context.
    bindA (selected iv context) (\<lambda>cand.
    bindA (uuid4_hex env) (\<lambda>h. bindA (utc_now env) (\<lambda>now.
    bindA (readA (\<lambda>_. validate_candidate (ae_sha env) h now read_tool_names cand context (iv_selector_kind iv) (Some t)
        (if iv_exact_retry iv then co_pending co else None)
        (if Option.bind cand cn_tool_name = None \<and> co_issue_revision co then Some True else None))) (\<lambda>v.
    bindA (readA (\<lambda>_. traced_budget t b co)) (\<lambda>shown. bindA (utc_now env) (\<lambda>recorded_at.
    thenA (write_decision_trace env t (decision_of iv t (ae_sha env) turn cand v shown recorded_at co))
      (let co1 = co\<lparr>co_sequence := co_sequence co + 1\<rparr>
       in case v of Accepted n \<Rightarrow> accept_observation env t n co1 | Rejected code \<Rightarrow> reject_observation env t code co1))))))))"

section \<open>After a read\<close>

text \<open>The retry that is pending after a call: a first retryable failure asks for one, and its second attempt ends it.\<close>

definition pending_after ::
  "app_env \<Rightarrow> investigator \<Rightarrow> tool_call \<Rightarrow> read_result \<Rightarrow> coordinator \<Rightarrow> retry_directive option result" where
  "pending_after env iv c r co =
    (if iv_exact_retry iv \<and> retryable_result (ToolContracts.envelope.truncate r) \<and> attempt_of c = 1
       then issue_exact_retry (ae_sha env) (tl_tool_call_id c) (the (tl_tool_name c)) (the (tl_normalized_args c))
              (the (tl_source_version c)) (execution_status_value (tr_execution_status r))
              (evidence_availability_value (tr_evidence_availability r)) (tr_retryable r) (attempt_of c)
              (pg_snapshot_hash (co_progress co))
     else if co_pending co \<noteq> None \<and> next_attempt_number \<le> attempt_of c then Inr None
     else if tr_execution_status r \<noteq> ES_RETRYABLE_ERROR then Inr None
     else Inr (co_pending co))"

definition result_trigger :: "tool_call \<Rightarrow> read_result \<Rightarrow> route_trigger" where
  "result_trigger c r = \<lparr>tg_tool_call_id = Some (tl_tool_call_id c), tg_result_hash = Some (tr_result_hash r),
     tg_tool_name = tl_tool_name c, tg_arguments = the (tl_normalized_args c), tg_attempt_number = attempt_of c,
     tg_result = Some (ToolContracts.envelope.truncate r), tg_source_version = tl_source_version c\<rparr>"

text \<open>What overrides the route: an early stop finalizes, and a due carrier context replans.\<close>

definition overridden :: "investigator \<Rightarrow> trusted_context \<Rightarrow> coordinator \<Rightarrow> recovery_decision \<Rightarrow> recovery_decision" where
  "overridden iv t co d =
    (if iv_enforce_early_stop iv \<and> co_early_stop co \<noteq> None
       then d\<lparr>rv_route := RR_FINALIZE, rv_reason_code := RX_GATE_READY, rv_retry_directive := None\<rparr>
     else if needs_carrier_context t co \<and> rv_route d = RR_FINALIZE
       then d\<lparr>rv_route := RR_REPLAN, rv_reason_code := RX_REPLAN_REQUIRED, rv_retry_directive := None\<rparr>
     else d)"

definition terminal_after :: "investigator \<Rightarrow> recovery_decision \<Rightarrow> string option \<Rightarrow> string option" where
  "terminal_after iv d terminal =
    (if rv_route d = RR_SAFE_STOP \<and> (rv_reason_code d \<noteq> RX_BUDGET_EXHAUSTED \<or> iv_exact_retry iv) \<or>
        rv_route d = RR_FINALIZE \<and> iv_enforce_early_stop iv
     then Some (recovery_reason_value (rv_reason_code d)) else terminal)"

text \<open>The coordinator with the call taken in: its pending retry, progress and latest result.\<close>

definition take_call ::
  "app_env \<Rightarrow> investigator \<Rightarrow> trusted_context \<Rightarrow> tool_call \<Rightarrow> read_result \<Rightarrow> evidence_ref list \<Rightarrow> coordinator \<Rightarrow> coordinator app" where
  "take_call env iv t c r refs co =
    (let calls = co_records co @ [c]; all_refs = co_refs co @ refs
     in bindA (readA (\<lambda>_. pending_after env iv c r co)) (\<lambda>pending.
        bindA (rebuild_online env t calls all_refs pending) (\<lambda>progress.
        bindA (rebuild_online env t calls all_refs pending) (\<lambda>replayed.
        thenA (trace_event env t ''evidence_progress_rebuilt'' ''Evidence Progress online and replay hashes recorded''
            (progress_payload t progress (pg_snapshot_hash replayed) calls all_refs))
          (returnA (co\<lparr>co_progress := progress, co_records := calls, co_refs := all_refs,
             co_latest := AList.update (the (tl_tool_name c)) r (co_latest co), co_pending := pending\<rparr>))))))"

definition route_result ::
  "app_env \<Rightarrow> investigator \<Rightarrow> trusted_context \<Rightarrow> tool_budget \<Rightarrow> tool_call \<Rightarrow> read_result \<Rightarrow> coordinator \<Rightarrow> coordinator \<Rightarrow>
   coordinator app" where
  "route_result env iv t b c r co co1 =
    bindA (rebuild_online env t (co_records co) (co_refs co) (co_pending co)) (\<lambda>earlier.
    bindA (uuid4_hex env) (\<lambda>h. bindA (utc_now env) (\<lambda>decided_at.
    bindA (readA (\<lambda>_. bindE (check_budget_snapshot b) (\<lambda>budget.
        route_observation (ae_sha env) h decided_at (tc_case_id t) (tc_run_id t) earlier (co_progress co1) budget
          (result_trigger c r) (co_pending co1) (gd_unchanged_selector_turns (co_guard co1))))) (\<lambda>decided.
    bindA (utc_now env) (\<lambda>recorded_at.
      let recovery = overridden iv t co1 decided
      in thenA (write_recovery_trace env t ''Adaptive recovery route recorded''
           \<lparr>rw_trace_sequence = co_sequence co1 + 1, rw_decision = recovery,
            rw_execution_status = execution_status_value (tr_execution_status r),
            rw_evidence_availability = evidence_availability_value (tr_evidence_availability r),
            rw_retryable = tr_retryable r, rw_error_code = tr_error_code r,
            rw_retry_identity_hash = map_option rd_canonical_arguments_hash (co_pending co1),
            rw_attempt_number = attempt_of c, rw_recorded_at = recorded_at\<rparr>)
         (returnA (co1\<lparr>co_sequence := co_sequence co1 + 1,
            co_terminal := terminal_after iv recovery (co_terminal co1)\<rparr>)))))))"

definition on_tool_result ::
  "app_env \<Rightarrow> investigator \<Rightarrow> trusted_context \<Rightarrow> tool_budget \<Rightarrow> tool_call \<Rightarrow> read_result \<Rightarrow> evidence_ref list \<Rightarrow> coordinator \<Rightarrow>
   coordinator app" where
  "on_tool_result env iv t b c r refs co =
    bindA (take_call env iv t c r refs co) (\<lambda>co1.
    bindA (readA (\<lambda>_. observe_result t (the (tl_tool_name c)) r co1)) (\<lambda>co2.
      case observe_selector_turn (co_guard co2) (co_selector_hash co2) (pg_snapshot_hash (co_progress co2)) of (stuck, g) \<Rightarrow>
        bindA (write_state_trace env t TP_REDUCE TP_ROUTE ''EVIDENCE_PROGRESS_REBUILT''
            (co2\<lparr>co_guard := g, co_terminal := (case stuck of None \<Rightarrow> co_terminal co2
               | Some reason \<Rightarrow> Some (recovery_reason_value reason))\<rparr>)) (\<lambda>co3.
          route_result env iv t b c r co co3)))"

end
