(* ===== verification/InvestigationLoop.thy ===== *)
theory InvestigationLoop
  imports AdaptiveTrace
begin

text \<open>
  The read-only loop of an investigation: \<open>TracingToolExecutor\<close> and \<open>InvestigationService\<close> of
  \<open>application/investigation.py\<close>, the graph of \<open>agents/graph.py\<close> and the tools of \<open>agents/tool_bindings.py\<close>.

  \<^item> \<open>tracer\<close> is the tracing executor without its collaborators; the governed executor is built from the state, where
    the case keeps its cache, and from the budget.
  \<^item> \<open>graph\<close> is the state of the graph with the node that is due; one superstep is \<open>graph_step\<close>.  LangGraph raises
    when a node is still due after \<open>iv_recursion_limit\<close> supersteps.  \<open>ToolNode\<close> answers a call of an unknown tool with
    a message.
  \<^item> Every caller in the application passes the cache of its case, and the coordinator is built without automatic
    retries of the executor, so those two branches are left out.
\<close>

section \<open>A traced call\<close>

record tracer =
  te_results :: "(string \<times> read_result) list"
  te_refs :: "evidence_ref list"
  te_arguments :: "(string \<times> arguments) list"
  te_attempts :: "(string \<times> int) list"
  te_new_records :: nat

text \<open>\<open>round(x, 3)\<close>, half to even.\<close>

definition round_half_even :: "rat \<Rightarrow> int" where
  "round_half_even x =
    (let f = \<lfloor>x\<rfloor>; d = x - of_int f
     in if d < 1 / 2 then f else if 1 / 2 < d then f + 1 else if even f then f else f + 1)"

definition round3 :: "rat \<Rightarrow> rat" where
  "round3 x = of_int (round_half_even (x * 1000)) / 1000"

definition json_opt_text :: "utext option \<Rightarrow> json" where
  "json_opt_text t = (case t of None \<Rightarrow> JNull | Some x \<Rightarrow> JText x)"

definition safe_policy_trace :: "read_result \<Rightarrow> json" where
  "safe_policy_trace r =
    (case tr_payload r of
       Some (RP_Policy p) \<Rightarrow>
         (let facts = ps_policy_fact_snapshot p; citation = ps_citation p in JObj
           [(''retrieval_status'', JStr (retrieval_status_value (ps_retrieval_status p))),
            (''policy_resolution_status'', json_opt_str (map_option policy_resolution_status_value (ps_policy_resolution_status p))),
            (''corpus_version'', JStr (ps_corpus_version p)), (''corpus_digest'', JStr (ps_corpus_digest p)),
            (''index_format_version'', JStr (ps_index_format_version p)), (''index_digest'', JStr (ps_index_digest p)),
            (''index_content_digest'', JStr (ps_index_content_digest p)),
            (''embedding_model_id'', JStr (ps_embedding_model_id p)),
            (''embedding_model_revision'', JStr (ps_embedding_model_revision p)),
            (''retrieval_mode'', JStr (ps_retrieval_mode p)), (''clause_id'', json_opt_str (map_option pf_clause_id facts)),
            (''policy_version'', json_opt_str (map_option pf_policy_version facts)),
            (''region'', JStr (case facts of None \<Rightarrow> ps_region p | Some f \<Rightarrow> pf_region f)),
            (''verified_citation'', json_opt_text (map_option vc_display_summary citation)),
            (''citation_excerpt'', json_opt_text (map_option vc_excerpt citation)),
            (''citation_text_classification'', json_opt_str (map_option (\<lambda>_. ''untrusted_explanatory_text'') citation)),
            (''selected_rank'', case ps_selected_rank p of None \<Rightarrow> JNull | Some n \<Rightarrow> JInt n),
            (''selected_similarity'', case ps_selected_similarity p of None \<Rightarrow> JNull | Some x \<Rightarrow> JNum x),
            (''retrieval_latency_ms'', JNum (round3 (ps_retrieval_latency_ms p))),
            (''resolver_latency_ms'', JNum (round3 (ps_resolver_latency_ms p)))])
     | _ \<Rightarrow> JObj [(''retrieval_status'', json_opt_str (map_option retrieval_status_value (tr_retrieval_status r))),
                (''policy_resolution_status'', JNull)])"

text \<open>The catalog and the executor over the live fixtures and the cache of the case.\<close>

definition hashing_of :: "app_env \<Rightarrow> investigator \<Rightarrow> hashing" where
  "hashing_of env iv = \<lparr>hx_sha = ae_sha env, hx_dump_proof = ae_dump_proof env, hx_dump_payload = iv_dump_payload iv\<rparr>"

definition catalog_of :: "app_env \<Rightarrow> investigator \<Rightarrow> app_state \<Rightarrow> read_catalog" where
  "catalog_of env iv s = \<lparr>ct_store = sv_fixtures s, ct_policy_revision = rag_source_revision (ae_sha env) (ae_rag env),
     ct_search = iv_search iv s\<rparr>"

definition case_cache :: "app_state \<Rightarrow> string \<Rightarrow> read_payload case_tool_cache" where
  "case_cache s case_id = (case map_of (sv_caches s) case_id of None \<Rightarrow> empty_cache | Some c \<Rightarrow> c)"

definition executor_of :: "app_env \<Rightarrow> investigator \<Rightarrow> trusted_context \<Rightarrow> tool_budget \<Rightarrow> app_state \<Rightarrow> executor" where
  "executor_of env iv t b s =
     \<lparr>gx_trusted = t, gx_catalog = catalog_of env iv s, gx_cache = case_cache s (tc_case_id t), gx_budget = b\<rparr>"

definition governed_call ::
  "app_env \<Rightarrow> investigator \<Rightarrow> trusted_context \<Rightarrow> tool_budget \<Rightarrow> string \<Rightarrow> arguments \<Rightarrow> (read_result \<times> tool_budget) app" where
  "governed_call env iv t b tool args s =
    (case execute_result (hashing_of env iv) (executor_of env iv t b s) tool args of (r, g) \<Rightarrow>
       (bindE r (\<lambda>x. Inr (x, gx_budget g)), s\<lparr>sv_caches := AList.update (tc_case_id t) (gx_cache g) (sv_caches s)\<rparr>))"

text \<open>What a call turned out to be.\<close>

record call_facts =
  cl_call_id :: string
  cl_attempt :: int
  cl_before :: tool_budget
  cl_after :: tool_budget
  cl_version :: string

definition actual_call :: "call_facts \<Rightarrow> bool" where
  "actual_call c \<longleftrightarrow> tb_actual_read_tool_executions (cl_before c) < tb_actual_read_tool_executions (cl_after c)"

definition blocked_call :: "call_facts \<Rightarrow> read_result \<Rightarrow> bool" where
  "blocked_call c r \<longleftrightarrow> \<not> actual_call c \<and> tr_error_code r \<noteq> None"

definition cache_hit_call :: "call_facts \<Rightarrow> read_result \<Rightarrow> bool" where
  "cache_hit_call c r \<longleftrightarrow> \<not> actual_call c \<and> tr_error_code r = None"

definition turn_of_call :: "call_facts \<Rightarrow> int" where
  "turn_of_call c = max (tb_run_planning_turns (cl_after c)) 1"

definition persist_call ::
  "app_env \<Rightarrow> trusted_context \<Rightarrow> string \<Rightarrow> arguments \<Rightarrow> call_facts \<Rightarrow> read_result \<Rightarrow> tool_call_row app" where
  "persist_call env t tool args c r =
    transaction
      (thenA (repo env (\<lambda>now d. create_tool_call d [] now (tc_conversation_id t) (tc_case_id t) (tc_run_id t) tool
          (JObj args) (turn_of_call c) (Some (cl_call_id c)) (cl_attempt c) (actual_call c) (cache_hit_call c r)
          (blocked_call c r) None))
        (repo env (\<lambda>now d. complete_tool_call d now (cl_call_id c) (execution_status_value (tr_execution_status r))
          (evidence_availability_value (tr_evidence_availability r)) (Some (dumped r)) (Some (tr_result_hash r))
          (Some (cl_version c)) (tr_error_code r) (tr_retryable r) None)))"

definition call_event_type :: "call_facts \<Rightarrow> read_result \<Rightarrow> string" where
  "call_event_type c r =
    (if blocked_call c r then ''tool_call_blocked'' else if cache_hit_call c r then ''tool_call_cache_hit''
     else if tr_error_code r = None then ''tool_call_completed'' else ''tool_call_failed'')"

definition call_payload :: "string \<Rightarrow> call_facts \<Rightarrow> read_result \<Rightarrow> (string \<times> json) list" where
  "call_payload tool c r =
    [(''tool_call_id'', JStr (cl_call_id c)), (''tool_name'', JStr tool), (''attempt_number'', JInt (cl_attempt c)),
     (''planning_turn'', JInt (turn_of_call c)),
     (''budget_before_actual_reads'', JInt (tb_actual_read_tool_executions (cl_before c))),
     (''budget_after_actual_reads'', JInt (tb_actual_read_tool_executions (cl_after c))),
     (''execution_status'', JStr (execution_status_value (tr_execution_status r))),
     (''evidence_availability'', JStr (evidence_availability_value (tr_evidence_availability r))),
     (''actual_execution'', JBool (actual_call c)), (''cache_hit'', JBool (cache_hit_call c r)),
     (''blocked'', JBool (blocked_call c r)), (''error_code'', json_opt_str (tr_error_code r)),
     (''untrusted_fields'', JList (map JStr (tr_untrusted_fields r))), (''result_hash'', JStr (tr_result_hash r)),
     (''source_version'', JStr (cl_version c))] @
    (if tool = ''search_after_sales_policy'' then [(''policy_retrieval'', safe_policy_trace r)] else [])"

definition record_of :: "string \<Rightarrow> arguments \<Rightarrow> call_facts \<Rightarrow> read_result \<Rightarrow> datetime \<Rightarrow> tool_call" where
  "record_of tool args c r now =
    \<lparr>tl_tool_call_id = cl_call_id c, tl_case_id = None, tl_run_id = None, tl_tool_name = Some tool,
     tl_normalized_args = Some args, tl_result_hash = Some (tr_result_hash r),
     tl_result_envelope = Some (ToolContracts.envelope.truncate r),
     tl_execution_status = Some (execution_status_value (tr_execution_status r)),
     tl_evidence_availability = Some (evidence_availability_value (tr_evidence_availability r)),
     tl_source_version = Some (cl_version c), tl_attempt_number = Some (cl_attempt c),
     tl_actual_execution = actual_call c, tl_requested_at = Some (isoformat now)\<rparr>"

definition announce_call :: "app_env \<Rightarrow> investigator \<Rightarrow> trusted_context \<Rightarrow> string \<Rightarrow> arguments \<Rightarrow> unit app" where
  "announce_call env iv t tool args =
    thenA (if iv_requester_label iv \<noteq> ''Agent''
           then trace_event env t ''workflow_step_started'' (iv_requester_label iv @ '' selected '' @ tool)
                  [(''tool_name'', JStr tool)]
           else returnA ())
      (trace_event env t ''tool_call_requested'' (iv_requester_label iv @ '' requested '' @ tool)
        [(''tool_name'', JStr tool), (''arguments'', JObj args)])"

definition attempts_of :: "tracer \<Rightarrow> string \<Rightarrow> int" where
  "attempts_of tr tool = (case map_of (te_attempts tr) tool of None \<Rightarrow> 0 | Some n \<Rightarrow> n)"

definition trace_call ::
  "app_env \<Rightarrow> trusted_context \<Rightarrow> string \<Rightarrow> arguments \<Rightarrow> call_facts \<Rightarrow> read_result \<Rightarrow> tool_call app" where
  "trace_call env t tool args c r =
    thenA (persist_call env t tool args c r)
    (thenA (emit_with env (to_evidence_refs r (cl_call_id c)) (tc_conversation_id t) (Some (tc_case_id t))
        (Some (tc_run_id t)) (call_event_type c r) ''developer''
        (text_of (tool @ '' returned '' @ evidence_availability_value (tr_evidence_availability r))) (call_payload tool c r))
      (bindA (utc_now env) (\<lambda>now. returnA (record_of tool args c r now))))"

definition take_result :: "string \<Rightarrow> arguments \<Rightarrow> call_facts \<Rightarrow> read_result \<Rightarrow> tracer \<Rightarrow> tracer" where
  "take_result tool args c r tr =
    tr\<lparr>te_results := AList.update tool r (te_results tr), te_arguments := AList.update tool args (te_arguments tr),
       te_refs := te_refs tr @ to_evidence_refs r (cl_call_id c),
       te_attempts := AList.update tool (cl_attempt c) (te_attempts tr), te_new_records := te_new_records tr + 1\<rparr>"

definition execute_traced ::
  "app_env \<Rightarrow> investigator \<Rightarrow> trusted_context \<Rightarrow> string \<Rightarrow> string \<Rightarrow> arguments \<Rightarrow> tool_budget \<Rightarrow> tracer \<Rightarrow> coordinator \<Rightarrow>
   (tool_budget \<times> tracer \<times> coordinator) app" where
  "execute_traced env iv t call_id tool args b tr co =
    thenA (announce_call env iv t tool args)
    (bindA (governed_call env iv t b tool args) (\<lambda>(r, b').
     bindA (readA (\<lambda>s. current_source_revision env (sv_fixtures s) (tc_authorized_order_id t) tool)) (\<lambda>version.
       let c = \<lparr>cl_call_id = call_id, cl_attempt = attempts_of tr tool + 1, cl_before = b, cl_after = b', cl_version = version\<rparr>
       in bindA (trace_call env t tool args c r) (\<lambda>call.
          bindA (on_tool_result env iv t b' call r (to_evidence_refs r call_id) co) (\<lambda>co'.
            returnA (b', take_result tool args c r tr, co'))))))"

section \<open>The graph\<close>

datatype node = At_Agent | At_Tools string string arguments | At_Budget | At_End

record graph =
  gh_node :: node
  gh_planning_turns :: int
  gh_budget_exhausted :: bool
  gh_budget :: tool_budget
  gh_tracer :: tracer
  gh_coordinator :: coordinator

text \<open>The signatures of \<open>READ_TOOLS\<close>: each passes its own arguments on.\<close>

definition bound_arguments :: "string \<Rightarrow> arguments \<Rightarrow> arguments result" where
  "bound_arguments tool args =
     mapE (\<lambda>name. case map_of args name of Some (JStr x) \<Rightarrow> Inr (name, JStr x) | _ \<Rightarrow> Inl (ValueError name))
       (if tool \<in> set issue_tools then [''order_id'', ''issue_type''] else [''order_id''])"

definition route_after_model :: "next_move \<Rightarrow> int \<Rightarrow> node" where
  "route_after_model move turns =
    (case move of
       Stop \<Rightarrow> At_End
     | Replan \<Rightarrow> At_Agent
     | Invoke call_id tool args \<Rightarrow> if 8 \<le> turns then At_Budget else At_Tools call_id tool args
     | Proceed \<Rightarrow> At_End)"

definition planned_turn ::
  "app_env \<Rightarrow> investigator \<Rightarrow> trusted_context \<Rightarrow> utext \<Rightarrow> fact_snapshot \<Rightarrow> graph \<Rightarrow> graph app" where
  "planned_turn env iv t message facts g =
    (let turn = gh_planning_turns g + 1 in
     case record_planning_turn (gh_budget g) of
       Inl (ToolBudgetExceeded _) \<Rightarrow> returnA (g\<lparr>gh_node := At_End, gh_budget_exhausted := True\<rparr>)
     | Inl e \<Rightarrow> raiseA e
     | Inr b \<Rightarrow>
         thenA (trace_event env t ''agent_turn_started'' (iv_requester_label iv @ '' planning turn '' @ nat_str (nat turn))
             [(''planning_turn'', JInt (tb_run_planning_turns b))])
           (bindA (select_observation env iv t b message facts turn (gh_coordinator g)) (\<lambda>(move, co).
             returnA (g\<lparr>gh_node := route_after_model move turn, gh_planning_turns := turn, gh_budget := b,
               gh_coordinator := co\<rparr>))))"

definition call_model ::
  "app_env \<Rightarrow> investigator \<Rightarrow> trusted_context \<Rightarrow> utext \<Rightarrow> fact_snapshot \<Rightarrow> graph \<Rightarrow> graph app" where
  "call_model env iv t message facts g =
    bindA (before_selector env iv t (gh_budget g) (gh_coordinator g)) (\<lambda>(move, co).
      if move = Proceed then planned_turn env iv t message facts (g\<lparr>gh_coordinator := co\<rparr>)
      else returnA (g\<lparr>gh_node := route_after_model move (gh_planning_turns g), gh_coordinator := co\<rparr>))"

definition tool_step :: "app_env \<Rightarrow> investigator \<Rightarrow> trusted_context \<Rightarrow> string \<Rightarrow> string \<Rightarrow> arguments \<Rightarrow> graph \<Rightarrow> graph app" where
  "tool_step env iv t call_id tool args g =
    (if tool \<notin> set read_tool_names then returnA (g\<lparr>gh_node := At_Agent\<rparr>)
     else bindA (readA (\<lambda>_. bound_arguments tool args)) (\<lambda>bound.
       bindA (execute_traced env iv t call_id tool bound (gh_budget g) (gh_tracer g) (gh_coordinator g)) (\<lambda>(b, tr, co).
         returnA (g\<lparr>gh_node := At_Agent, gh_budget := b, gh_tracer := tr, gh_coordinator := co\<rparr>))))"

definition graph_step ::
  "app_env \<Rightarrow> investigator \<Rightarrow> trusted_context \<Rightarrow> utext \<Rightarrow> fact_snapshot \<Rightarrow> graph \<Rightarrow> graph app" where
  "graph_step env iv t message facts g =
    (case gh_node g of
       At_Agent \<Rightarrow> call_model env iv t message facts g
     | At_Tools call_id tool args \<Rightarrow> tool_step env iv t call_id tool args g
     | At_Budget \<Rightarrow> returnA (g\<lparr>gh_node := At_End, gh_budget_exhausted := True\<rparr>)
     | At_End \<Rightarrow> returnA g)"

fun run_graph ::
  "app_env \<Rightarrow> investigator \<Rightarrow> trusted_context \<Rightarrow> utext \<Rightarrow> fact_snapshot \<Rightarrow> nat \<Rightarrow> graph \<Rightarrow> graph app" where
  "run_graph env iv t message facts limit g =
    (if gh_node g = At_End then returnA g
     else case limit of
       0 \<Rightarrow> raiseA (RuntimeError ''GraphRecursionError'')
     | Suc n \<Rightarrow> bindA (graph_step env iv t message facts g) (run_graph env iv t message facts n))"

declare run_graph.simps [simp del]

section \<open>The evidence gate\<close>

definition reason_only :: "gate_decision \<Rightarrow> string \<Rightarrow> gate_result" where
  "reason_only decision reason = \<lparr>gr_decision = Some decision, gr_reason_code = reason, gr_revised_issue_type = None,
     gr_critical_result_hashes = []\<rparr>"

text \<open>The issue that a readable order shows instead of the reported one.\<close>

definition revised_issue :: "issue_type \<Rightarrow> string option \<Rightarrow> order_context tool_result \<Rightarrow> triage_intent option" where
  "revised_issue issue target_id order =
    (case tr_payload order of
       None \<Rightarrow> None
     | Some x \<Rightarrow>
        if tr_execution_status order \<noteq> ES_SUCCESS \<or> tr_evidence_availability order = EA_UNAVAILABLE then None
        else
          (let target = List.find (\<lambda>s. Some (ss_shipment_id s) = target_id) (oc_shipments x);
               target_status = map_option ss_shipment_status target;
               target_delivered = (target_status = Some ''delivered'');
               order_delivered = (oc_order_status x = OS_DELIVERED)
           in if issue = SIGNED_NOT_RECEIVED \<and>
                 (\<not> order_delivered \<and> \<not> target_delivered \<or> target \<noteq> None \<and> \<not> target_delivered)
              then Some (if target_status \<in> {None, Some ''shipped'', Some ''in_transit'', Some ''out_for_delivery'',
                              Some ''stalled''}
                         then TI_STALLED_TRACKING else TI_OTHER_LOGISTICS)
              else if issue = STALLED_TRACKING \<and> (target_delivered \<or> target = None \<and> order_delivered)
              then Some TI_SIGNED_NOT_RECEIVED
              else None))"

definition active_ticket_read :: "read_result option \<Rightarrow> bool" where
  "active_ticket_read r \<longleftrightarrow>
    (case r of None \<Rightarrow> False
     | Some x \<Rightarrow> tr_execution_status x = ES_SUCCESS \<and>
         (case tr_payload x of
            Some (RP_Tickets p) \<Rightarrow> et_active_tickets p \<noteq> [] \<or> et_existing_investigations p \<noteq> []
          | _ \<Rightarrow> False))"

definition with_unread_tickets ::
  "app_env \<Rightarrow> issue_type \<Rightarrow> order_context tool_result \<Rightarrow> (string \<times> read_result) list \<Rightarrow> (string \<times> read_result) list result" where
  "with_unread_tickets env issue order results =
    (if issue = STALLED_TRACKING \<and> map_of results ''get_existing_logistics_tickets'' = None \<and>
        set (required_observation_tools issue) - {''get_existing_logistics_tickets''} \<subseteq> set (map fst results)
     then bindE (failed (ae_sha env) True ''get_existing_logistics_tickets'' ''not-queried-stalled-sla''
            (tr_observed_at order) ''NOT_QUERIED_NOT_REQUIRED'' None)
            (\<lambda>r. Inr (results @ [(''get_existing_logistics_tickets'', r)]))
     else Inr results)"

record gate_flags =
  gf_retry_exhausted :: bool
  gf_still_missing :: bool
  gf_locations_checked :: bool
  gf_location_conflict :: bool

definition common_of :: "gate_flags \<Rightarrow> string option \<Rightarrow> common_facts" where
  "common_of flags target = (default_common target)\<lparr>cf_critical_retry_exhausted := gf_retry_exhausted flags\<rparr>"

definition gate_facts_of ::
  "trusted_context \<Rightarrow> gate_flags \<Rightarrow> order_context tool_result \<Rightarrow> (string \<times> read_result) list \<Rightarrow> gate_facts result" where
  "gate_facts_of t flags order results =
    bindE (typed_result timeline_view results ''get_logistics_timeline'') (\<lambda>timeline.
    bindE (typed_result policy_view results ''search_after_sales_policy'') (\<lambda>policy.
    bindE (typed_result tickets_view results ''get_existing_logistics_tickets'') (\<lambda>tickets.
      if tc_canonical_issue_type t = SIGNED_NOT_RECEIVED
      then bindE (typed_result proof_view results ''get_delivery_proof'') (\<lambda>pod.
        Inr (SignedFacts (common_facts.extend (common_of flags (tc_target_shipment_id t))
          (signed_evidence.fields order timeline pod tickets policy (gf_still_missing flags)
             (gf_locations_checked flags) (gf_location_conflict flags)))))
      else bindE (if tc_fixture_version t = ''business-demo-v1'' \<and> map_of results ''get_carrier_service_alerts'' \<noteq> None
                  then bindE (typed_result alerts_view results ''get_carrier_service_alerts'') (\<lambda>a. Inr (Some a))
                  else Inr None) (\<lambda>alerts.
        Inr (StalledFacts (common_facts.extend (common_of flags (tc_target_shipment_id t))
          (stalled_evidence.fields order timeline tickets policy alerts)))))))"

definition evaluate_gate ::
  "app_env \<Rightarrow> trusted_context \<Rightarrow> bool \<Rightarrow> gate_flags \<Rightarrow> (string \<times> read_result) list \<Rightarrow> gate_result result" where
  "evaluate_gate env t budget_exceeded flags results =
    (let issue = tc_canonical_issue_type t in
     if budget_exceeded then Inr (reason_only GD_REQUIRE_HUMAN_SUPPORT ''INVESTIGATION_BUDGET_EXCEEDED'')
     else if map_of results ''get_order_context'' = None
       then Inr (reason_only GD_REQUIRE_HUMAN_SUPPORT ''REQUIRED_QUERY_NOT_COMPLETED'')
     else bindE (typed_result order_view results ''get_order_context'') (\<lambda>order.
       case revised_issue issue (tc_target_shipment_id t) order of
         Some revised \<Rightarrow> Inr \<lparr>gr_decision = None, gr_reason_code = ''REPORTED_ISSUE_DOES_NOT_MATCH_ORDER_STATE'',
           gr_revised_issue_type = Some revised, gr_critical_result_hashes = [(''order_context'', tr_result_hash order)]\<rparr>
       | None \<Rightarrow>
           let existing = map_of results ''get_existing_logistics_tickets'' in
           if active_ticket_read existing
           then Inr ((reason_only GD_COMPLETE_NO_ACTION ''ACTIVE_LOGISTICS_TICKET_EXISTS'')
             \<lparr>gr_critical_result_hashes := [(''existing_tickets'', tr_result_hash (the existing))]\<rparr>)
           else bindE (with_unread_tickets env issue order results) (\<lambda>results'.
             if \<not> set (required_observation_tools issue) \<subseteq> set (map fst results')
             then Inr (reason_only GD_REQUIRE_HUMAN_SUPPORT ''REQUIRED_QUERY_NOT_COMPLETED'')
             else bindE (gate_facts_of t flags order results')
               (evaluate_evidence_gate (material_snapshot_hash (ae_sha env)) issue))))"

text \<open>A gate result that an event has kept.\<close>

definition gate_decision_of :: "string \<Rightarrow> gate_decision result" where
  "gate_decision_of v =
    (case List.find (\<lambda>x. gate_decision_value x = v)
            [GD_PROPOSE_TICKET, GD_REQUEST_BUSINESS_CLARIFICATION, GD_RETRY_LATER, GD_REQUIRE_HUMAN_SUPPORT,
             GD_COMPLETE_NO_ACTION] of
       None \<Rightarrow> Inl (ValueError v) | Some x \<Rightarrow> Inr x)"

definition triage_intent_of :: "string \<Rightarrow> triage_intent result" where
  "triage_intent_of v =
    (case List.find (\<lambda>x. triage_intent_value x = v)
            [TI_SIGNED_NOT_RECEIVED, TI_STALLED_TRACKING, TI_CAPABILITY_HELP, TI_ORDER_ID_HELP, TI_TRACKING_STATUS_QUERY,
             TI_DELIVERY_ETA_INFO, TI_CHANGE_DELIVERY_INFO, TI_REFUND_RETURN_INFO, TI_HUMAN_SUPPORT_REQUEST,
             TI_THANKS_CLOSE, TI_OTHER_LOGISTICS, TI_AMBIGUOUS, TI_OUT_OF_SCOPE, TI_PROHIBITED] of
       None \<Rightarrow> Inl (ValueError v) | Some x \<Rightarrow> Inr x)"

definition optional_member :: "(string \<Rightarrow> 'a result) \<Rightarrow> json option \<Rightarrow> 'a option result" where
  "optional_member parse j =
    (case j of
       Some (JStr v) \<Rightarrow> bindE (parse v) (\<lambda>x. Inr (Some x))
     | Some JNull \<Rightarrow> Inr None
     | None \<Rightarrow> Inr None
     | Some _ \<Rightarrow> Inl (ValueError ''payload''))"

definition stored_hashes :: "json option \<Rightarrow> (string \<times> string) list result" where
  "stored_hashes j = (case j of
     Some (JObj kvs) \<Rightarrow> mapE (\<lambda>(k, v). case v of JStr x \<Rightarrow> Inr (k, x) | _ \<Rightarrow> Inl (ValueError ''critical_result_hashes'')) kvs
   | None \<Rightarrow> Inr []
   | Some _ \<Rightarrow> Inl (ValueError ''critical_result_hashes''))"

definition stored_gate :: "json \<Rightarrow> gate_result result" where
  "stored_gate payload =
    bindE (optional_member gate_decision_of (jget payload ''decision'')) (\<lambda>decision.
    bindE (case jget payload ''reason_code'' of Some (JStr v) \<Rightarrow> Inr v | _ \<Rightarrow> Inl (KeyError ''reason_code'')) (\<lambda>reason.
    bindE (optional_member triage_intent_of (jget payload ''revised_issue_type'')) (\<lambda>revised.
    bindE (stored_hashes (jget payload ''critical_result_hashes'')) (\<lambda>hashes.
      check_gate_result \<lparr>gr_decision = decision, gr_reason_code = reason, gr_revised_issue_type = revised,
        gr_critical_result_hashes = hashes\<rparr>))))"

definition gate_payload :: "gate_result \<Rightarrow> (string \<times> json) list" where
  "gate_payload gate =
    [(''decision'', json_opt_str (map_option gate_decision_value (gr_decision gate))),
     (''reason_code'', JStr (gr_reason_code gate)),
     (''customer_disposition'', JStr (disposition_value (gate_disposition gate))),
     (''revised_issue_type'', json_opt_str (map_option triage_intent_value (gr_revised_issue_type gate))),
     (''critical_result_hashes'', JObj (map (\<lambda>(k, v). (k, JStr v)) (gr_critical_result_hashes gate)))]"

definition gate_summary :: "gate_result \<Rightarrow> string" where
  "gate_summary gate = ''Evidence gate: '' @
    (case (gr_decision gate, gr_revised_issue_type gate) of
       (Some d, _) \<Rightarrow> gate_decision_value d | (None, Some i) \<Rightarrow> triage_intent_value i | (None, None) \<Rightarrow> ''None'')"

section \<open>An investigation\<close>

definition history_budget :: "database \<Rightarrow> investigation_args \<Rightarrow> int \<times> int \<times> int" where
  "history_budget d a =
    (let t = nv_trusted a;
         of_case = list_tool_calls d (Some (tc_case_id t)) None; of_run = list_tool_calls d None (Some (tc_run_id t));
         most = (\<lambda>rows. foldl max 0 (map tcr_planning_turn rows))
     in (max (nv_case_planning_turns a) (most of_case), max (nv_run_planning_turns a) (most of_run),
         max (nv_case_read_executions a) (int (length (filter tcr_actual_execution of_case)))))"

definition tracer_init :: "coordinator \<Rightarrow> tracer" where
  "tracer_init co = foldl (\<lambda>tr c. let tool = the (tl_tool_name c) in
       tr\<lparr>te_arguments := AList.update tool (the (tl_normalized_args c)) (te_arguments tr),
          te_attempts := AList.update tool (max (attempts_of tr tool) (the (tl_attempt_number c))) (te_attempts tr)\<rparr>)
     \<lparr>te_results = co_latest co, te_refs = co_refs co, te_arguments = [], te_attempts = [], te_new_records = 0\<rparr>
     (co_records co)"

fun any_exhausted :: "hashing \<Rightarrow> executor \<Rightarrow> (string \<times> arguments) list \<Rightarrow> (string \<times> read_result) list \<Rightarrow> bool result" where
  "any_exhausted hx g args [] = Inr False"
| "any_exhausted hx g args ((tool, r) # results) =
    (case map_of args tool of
       None \<Rightarrow> any_exhausted hx g args results
     | Some a \<Rightarrow>
         if tr_execution_status r \<noteq> ES_SUCCESS \<and> tr_evidence_availability r = EA_UNAVAILABLE \<and> tr_retryable r
         then bindE (retry_exhausted_for hx g tool a) (\<lambda>yes. if yes then Inr True else any_exhausted hx g args results)
         else any_exhausted hx g args results)"

definition budget_reached :: "investigator \<Rightarrow> graph \<Rightarrow> bool" where
  "budget_reached iv g \<longleftrightarrow> iv_exact_retry iv \<and>
     max_actual_read_tool_executions \<le> tb_actual_read_tool_executions (gh_budget g)"

definition gate_budget_exceeded :: "investigator \<Rightarrow> bool \<Rightarrow> graph \<Rightarrow> bool" where
  "gate_budget_exceeded iv exhausted g \<longleftrightarrow> gh_budget_exhausted g \<or>
     budget_reached iv g \<and> \<not> exhausted \<and> pg_gate_readiness (co_progress (gh_coordinator g)) \<noteq> GR_EVALUABLE"

definition flags_of :: "investigation_args \<Rightarrow> bool \<Rightarrow> gate_flags" where
  "flags_of a exhausted = \<lparr>gf_retry_exhausted = exhausted, gf_still_missing = nv_customer_still_reports_missing a,
     gf_locations_checked = nv_reception_locations_checked a, gf_location_conflict = nv_delivery_location_conflict a\<rparr>"

definition fresh_gate ::
  "app_env \<Rightarrow> investigator \<Rightarrow> investigation_args \<Rightarrow> bool \<Rightarrow> graph \<Rightarrow> gate_result app" where
  "fresh_gate env iv a exhausted g =
    (let t = nv_trusted a; co = gh_coordinator g; tr = gh_tracer g in
     bindA (readA (\<lambda>_. evaluate_gate env t (gate_budget_exceeded iv exhausted g) (flags_of a exhausted) (te_results tr))) (\<lambda>gate.
     thenA (write_state_trace env t TP_ROUTE TP_TERMINAL ''EVIDENCE_GATE_EVALUATED'' co)
     (thenA (emit_with env (te_refs tr) (tc_conversation_id t) (Some (tc_case_id t)) (Some (tc_run_id t))
         ''evidence_gate_evaluated'' ''both'' (text_of (gate_summary gate)) (gate_payload gate))
       (returnA gate))))"

definition conclude_investigation ::
  "app_env \<Rightarrow> investigator \<Rightarrow> investigation_args \<Rightarrow> int \<Rightarrow> graph \<Rightarrow> investigation_output app" where
  "conclude_investigation env iv a reads g =
    (let t = nv_trusted a; tr = gh_tracer g; b = gh_budget g in
     bindA (readA (\<lambda>s. any_exhausted (hashing_of env iv) (executor_of env iv t b s) (te_arguments tr) (te_results tr))) (\<lambda>exhausted.
     bindA (case co_gate_payload (gh_coordinator g) of
              Some payload \<Rightarrow> if nv_investigation_pass a = 0 \<and> te_new_records tr = 0
                then readA (\<lambda>_. stored_gate payload) else fresh_gate env iv a exhausted g
            | None \<Rightarrow> fresh_gate env iv a exhausted g) (\<lambda>gate.
       returnA \<lparr>io_gate_result = gate, io_evidence_refs = te_refs tr, io_tool_results = te_results tr,
         io_planning_turns = tb_run_planning_turns b, io_case_planning_turns = tb_case_planning_turns b,
         io_run_read_tool_executions = tb_actual_read_tool_executions b - reads,
         io_actual_read_tool_executions = tb_actual_read_tool_executions b,
         io_budget_exhausted = gh_budget_exhausted g \<or> budget_reached iv g,
         io_strategy = (if iv_selector_kind iv = SK_WORKFLOW then ''workflow'' else ''agent'')\<rparr>)))"

definition investigate_within ::
  "app_env \<Rightarrow> investigator \<Rightarrow> nat \<Rightarrow> investigation_args \<Rightarrow> investigation_output app" where
  "investigate_within env iv limit a =
    (let t = nv_trusted a in
     bindA (read_db (\<lambda>d. Inr (history_budget d a))) (\<lambda>(case_turns, run_turns, reads).
     bindA (readA (\<lambda>_. tool_budget_init case_turns run_turns reads)) (\<lambda>b.
     bindA (coordinator_init env iv t) (\<lambda>co.
     bindA (readA (\<lambda>s. executor_init t (catalog_of env iv s) (case_cache s (tc_case_id t)) b)) (\<lambda>_.
     bindA (run_graph env iv t (nv_customer_message a) (nv_case_fact_snapshot a) limit
         \<lparr>gh_node = At_Agent, gh_planning_turns = 0, gh_budget_exhausted = False, gh_budget = b,
          gh_tracer = tracer_init co, gh_coordinator = co\<rparr>) (conclude_investigation env iv a reads))))))"

definition investigate :: "app_env \<Rightarrow> investigator \<Rightarrow> investigation_args \<Rightarrow> investigation_output app" where
  "investigate env iv = investigate_within env iv (iv_recursion_limit iv)"

end
