(* ===== verification/InvestigationFacts.thy ===== *)
theory InvestigationFacts
  imports InvestigationLoop ConfirmationOutcome
begin

text \<open>
  What holds of an investigation, whatever its selector answers and whatever the sources do.

  \<^item> \<open>logging_relation\<close> and \<open>reading_relation\<close> are relations between the state before and after that the writes of an
    investigation respect.  Every \<open>handler_relation\<close> is one, so the properties of the handlers extend to it.
  \<^item> \<open>yields P m\<close> says that every answer of \<open>m\<close> satisfies \<open>P\<close>.
  \<^item> \<open>steps_left\<close> bounds the supersteps that are left: four for each planning turn, two for a pending retry, one to
    end.  A call of the tool that is pending ends the retry, any other one may ask for one.
\<close>

section \<open>What an investigation writes\<close>

lemma quiet_call_steps:
  "create_tool_call d f n c k r tn na pt tid an ae ch b t = Inr (row, d') \<Longrightarrow> quiet_step d d'"
  "complete_tool_call d now' call_id st ev re rh sv ec rt w = Inr (row', d') \<Longrightarrow> quiet_step d d'"
  by (rule quiet_stepI, erule step_create_tool_call, auto dest!: create_tool_call_frame)
    (rule quiet_stepI, erule step_complete_tool_call, auto dest!: complete_tool_call_frame)

text \<open>What only logs respects every relation that appended events respect.\<close>

locale logging_relation = outcome_relation +
  assumes logged: "event_append (sv_events s) n n' e = Inr (v, es) \<Longrightarrow> R s (s\<lparr>sv_events := es\<rparr>)"
begin

lemma related_trace_event: "related R (trace_event env t ty summary payload)"
  unfolding trace_event_def by (rule related_emit) (rule logged)

lemma related_traces:
  "related R (write_state_trace env t p q reason co)" "related R (write_decision_trace env t d)"
  "related R (write_recovery_trace env t summary w)" "related R (rebuild_online env t calls refs pending)"
  "related R (record_initial env t co)"
  unfolding write_state_trace_def write_decision_trace_def write_recovery_trace_def rebuild_online_def record_initial_def
  by (auto intro!: related_basic related_trace_event)

lemma related_coordinator_init: "related R (coordinator_init env iv t)"
  unfolding coordinator_init_def by (auto intro!: related_basic related_traces)

lemma related_before_selector: "related R (before_selector env iv t b co)"
  unfolding before_selector_def fixture_guard_def due_retry_def stop_or_proceed_def Let_def
  by (auto intro!: related_basic related_traces split: option.split)

lemma related_select_observation: "related R (select_observation env iv t b message facts turn co)"
  unfolding select_observation_def selected_def accept_observation_def reject_observation_def Let_def
  by (auto intro!: related_basic related_traces split: candidate_validation.split prod.split)

lemma related_on_tool_result: "related R (on_tool_result env iv t b c r refs co)"
  unfolding on_tool_result_def take_call_def route_result_def Let_def
  by (auto intro!: related_basic related_traces related_trace_event split: prod.split)

lemma related_governed_call: "related R (governed_call env iv t b tool args)"
  by (auto simp: related_def governed_call_def caches split: prod.split)

lemma related_conclude_investigation: "related R (conclude_investigation env iv a reads g)"
  unfolding conclude_investigation_def fresh_gate_def Let_def
  by (auto intro!: related_basic related_traces related_emit logged split: option.split)

end

text \<open>A call also creates and completes its row.\<close>

locale reading_relation = logging_relation +
  assumes created: "create_tool_call (sv_db s) f n c k r tn na pt tid an ae ch b t = Inr (row, d) \<Longrightarrow> R s (put_db d s)"
    and completed_call: "complete_tool_call (sv_db s) now' call_id st ev re rh sv ec rt w = Inr (row', d) \<Longrightarrow> R s (put_db d s)"
begin

lemma related_persist_call: "related R (persist_call env t tool args c r)"
  unfolding persist_call_def
  by (intro related_basic related_repo) (erule created completed_call)+

lemma related_execute_traced: "related R (execute_traced env iv t call_id tool args b tr co)"
  unfolding execute_traced_def announce_call_def trace_call_def Let_def
  by (auto intro!: related_basic related_trace_event related_governed_call related_persist_call related_emit logged
      related_on_tool_result)

lemma related_graph_step: "related R (graph_step env iv t message facts g)"
  unfolding graph_step_def call_model_def planned_turn_def tool_step_def Let_def
  by (auto intro!: related_basic related_before_selector related_trace_event related_select_observation
      related_execute_traced split: node.split sum.split error.split)

lemma related_run_graph: "related R (run_graph env iv t message facts limit g)"
  by (induction limit arbitrary: g)
    (simp_all add: run_graph.simps related_return related_bind related_graph_step)

lemma related_live_investigation: "related R (investigate env iv a)"
  unfolding investigate_def investigate_within_def Let_def
  by (auto intro!: related_basic related_coordinator_init related_run_graph related_conclude_investigation)

end

text \<open>Whatever respects the quiet steps of a handler respects an investigation.\<close>

sublocale handler_relation \<subseteq> reading_relation R
  by unfold_locales (blast intro: event quiet quiet_call_steps)+

text \<open>A conversation with later counters: its last event number and the time of its last change.\<close>

definition counted :: "conversation_row \<Rightarrow> conversation_row \<Rightarrow> bool" where
  "counted c c' \<longleftrightarrow> cvr_next_event_sequence c \<le> cvr_next_event_sequence c' \<and>
     c' = c\<lparr>cvr_next_event_sequence := cvr_next_event_sequence c', cvr_updated_at := cvr_updated_at c'\<rparr>"

lemma counted_refl: "counted c c"
  by (simp add: counted_def)

lemma counted_trans: "counted c c' \<Longrightarrow> counted c' c'' \<Longrightarrow> counted c c''"
  by (cases c; cases c'; cases c'') (auto simp: counted_def)

lemma event_append_counted:
  assumes "event_append s n n' e = Inr (v, s')" and "wf_db (es_db s)"
  shows "list_all2 counted (db_conversations (es_db s)) (db_conversations (es_db s'))"
proof -
  from event_append_Inr [OF assms(1)] obtain c d1 row where
    c: "get_conversation (es_db s) (ed_conversation_id e) = Some c" and
    up: "update_conversation_row (es_db s) (c\<lparr>cvr_next_event_sequence := cvr_next_event_sequence c + 1,
      cvr_updated_at := n'\<rparr>) = Inr d1" and
    ins: "insert_event d1 row = Inr (es_db s')" by blast
  let ?rows = "db_conversations (es_db s)"
  have ok: "table_ok conversation_table ?rows" using assms(2) by (simp add: wf_db_def)
  have "c \<in> set ?rows" using c by (auto simp: get_conversation_def dest!: get_row_key)
  then have same: "q = c" if "q \<in> set ?rows" "tbl_key conversation_table q = tbl_key conversation_table c" for q
    using that table_ok_keys [OF ok] by (auto simp: distinct_map inj_on_def)
  have "db_conversations (es_db s') = map (\<lambda>q. if tbl_key conversation_table q = tbl_key conversation_table c
      then c\<lparr>cvr_next_event_sequence := cvr_next_event_sequence c + 1, cvr_updated_at := n'\<rparr> else q) ?rows"
    using update_conversation_row_frame [OF up] insert_event_frame [OF ins] by (simp add: conversation_table_def)
  moreover have "counted q (if tbl_key conversation_table q = tbl_key conversation_table c
      then c\<lparr>cvr_next_event_sequence := cvr_next_event_sequence c + 1, cvr_updated_at := n'\<rparr> else q)"
    if "q \<in> set ?rows" for q
    using same [OF that] by (auto simp: counted_def)
  ultimately show ?thesis by (simp add: list.rel_map(2) list.rel_refl_strong)
qed

lemma event_append_appends: "event_append s n n' e = Inr (v, s') \<Longrightarrow> \<exists>rows. db_events (es_db s') = db_events (es_db s) @ rows"
  by (drule event_append_Inr) (auto dest!: update_conversation_row_frame insert_event_frame)

text \<open>Only tool calls, events and the counters of the conversation change, and events are only appended.\<close>

definition same_records :: "app_state \<Rightarrow> app_state \<Rightarrow> bool" where
  "same_records s s' \<longleftrightarrow> sv_fixtures s' = sv_fixtures s \<and>
     (wf_db (sv_db s) \<longrightarrow> wf_db (sv_db s') \<and>
        list_all2 counted (db_conversations (sv_db s)) (db_conversations (sv_db s'))) \<and>
     (\<exists>rows. db_events (sv_db s') = db_events (sv_db s) @ rows) \<and>
     (\<exists>cs ts es. sv_db s' = (sv_db s)\<lparr>db_conversations := cs, db_tool_calls := ts, db_events := es\<rparr>)"

lemma same_records_same: "sv_fixtures s' = sv_fixtures s \<Longrightarrow> sv_db s' = sv_db s \<Longrightarrow> same_records s s'"
  unfolding same_records_def
  by (intro conjI exI [of _ "[]"] exI [of _ "db_conversations (sv_db s)"] exI [of _ "db_tool_calls (sv_db s)"]
      exI [of _ "db_events (sv_db s)"])
    (auto intro: list_all2_refl counted_refl)

lemma same_records_calls:
  assumes "\<exists>ts. d = (sv_db s)\<lparr>db_tool_calls := ts\<rparr>" and "wf_db (sv_db s) \<Longrightarrow> wf_db d"
  shows "same_records s (put_db d s)"
proof -
  from assms(1) obtain ts where "d = (sv_db s)\<lparr>db_tool_calls := ts\<rparr>" by blast
  with assms(2) show ?thesis unfolding same_records_def
    by (intro conjI exI [of _ "[]"] exI [of _ "db_conversations (sv_db s)"] exI [of _ ts] exI [of _ "db_events (sv_db s)"])
      (auto intro: list_all2_refl counted_refl)
qed

lemma same_records_trans:
  assumes "same_records s s'" and "same_records s' s''"
  shows "same_records s s''"
proof -
  have "wf_db (sv_db s'') \<and> list_all2 counted (db_conversations (sv_db s)) (db_conversations (sv_db s''))"
    if "wf_db (sv_db s)"
    using assms that by (auto simp: same_records_def intro: list_all2_trans [OF counted_trans])
  moreover from assms have "\<exists>rows. db_events (sv_db s'') = db_events (sv_db s) @ rows"
    by (auto simp: same_records_def)
  moreover from assms have "\<exists>cs ts es. sv_db s'' = (sv_db s)\<lparr>db_conversations := cs, db_tool_calls := ts, db_events := es\<rparr>"
    unfolding same_records_def by (elim conjE exE) auto
  ultimately show ?thesis using assms by (simp add: same_records_def)
qed

interpretation same_records: reading_relation same_records
proof unfold_locales
  fix s s' s'' :: app_state
  assume "same_records s s'" "same_records s' s''"
  then show "same_records s s''" by (rule same_records_trans)
next
  fix s :: app_state and n n' e v es
  assume e: "event_append (sv_events s) n n' e = Inr (v, es)"
  from event_append_touches [OF e] obtain x y where frame:
    "es_db es = (es_db (sv_events s))\<lparr>db_conversations := x, db_events := y\<rparr>" by blast
  then have "\<exists>cs ts es'. sv_db (s\<lparr>sv_events := es\<rparr>) =
      (sv_db s)\<lparr>db_conversations := cs, db_tool_calls := ts, db_events := es'\<rparr>"
    by (intro exI [of _ x] exI [of _ "db_tool_calls (sv_db s)"] exI [of _ y]) (simp add: sv_db_def)
  then show "same_records s (s\<lparr>sv_events := es\<rparr>)"
    using event_append_wf [OF e] event_append_counted [OF e] event_append_appends [OF e]
    by (simp add: same_records_def sv_db_def)
next
  fix s :: app_state and f n c k r tn na pt tid an ae ch b t row d
  assume "create_tool_call (sv_db s) f n c k r tn na pt tid an ae ch b t = Inr (row, d)"
  then show "same_records s (put_db d s)" by (blast intro: same_records_calls dest: create_tool_call_frame create_tool_call_wf)
next
  fix s :: app_state and now' call_id st ev re rh sv ec rt w row' d
  assume "complete_tool_call (sv_db s) now' call_id st ev re rh sv ec rt w = Inr (row', d)"
  then show "same_records s (put_db d s)"
    by (intro same_records_calls) (blast dest: complete_tool_call_frame complete_tool_call_wf)+
next
  fix s s' :: app_state
  assume "same_records s s'"
  then show "same_records s (put_db (sv_db s) s')" by (intro same_records_same) (simp_all add: same_records_def)
qed (auto intro: same_records_same)

section \<open>What a part returns\<close>

definition yields :: "('a \<Rightarrow> bool) \<Rightarrow> 'a app \<Rightarrow> bool" where
  "yields P m \<longleftrightarrow> (\<forall>s x s'. m s = (Inr x, s') \<longrightarrow> P x)"

lemma yieldsD: "yields P m \<Longrightarrow> m s = (Inr x, s') \<Longrightarrow> P x"
  by (auto simp: yields_def)

lemma yields_any: "yields (\<lambda>_. True) m"
  by (simp add: yields_def)

lemma yields_return: "P x \<Longrightarrow> yields P (returnA x)"
  by (simp add: yields_def)

lemma yields_raise: "yields P (raiseA e)"
  by (simp add: yields_def)

lemma yields_read: "(\<And>s x. f s = Inr x \<Longrightarrow> P x) \<Longrightarrow> yields P (readA f)"
  by (simp add: yields_def)

lemma yields_bind: "yields P m \<Longrightarrow> (\<And>x. P x \<Longrightarrow> yields Q (f x)) \<Longrightarrow> yields Q (bindA m f)"
  unfolding yields_def bindA_def by (force split: prod.splits sum.splits)

lemma yields_then: "yields Q n \<Longrightarrow> yields Q (thenA m n)"
  unfolding thenA_def by (rule yields_bind [OF yields_any])

lemma yields_mono: "yields P m \<Longrightarrow> (\<And>x. P x \<Longrightarrow> Q x) \<Longrightarrow> yields Q m"
  by (auto simp: yields_def)

lemma bind_cong: "yields P m \<Longrightarrow> (\<And>x. P x \<Longrightarrow> f x = g x) \<Longrightarrow> bindA m f = bindA m g"
  by (auto simp: yields_def bindA_def fun_eq_iff split: prod.split sum.split)

text \<open>A part of a sequence about which nothing needs to be known.\<close>

lemma yields_skip: "(\<And>x. yields Q (f x)) \<Longrightarrow> yields Q (bindA m f)"
  by (rule yields_bind [OF yields_any])

lemmas yields_intros = yields_return yields_raise yields_then

section \<open>The pending retry\<close>

definition same_pending :: "coordinator \<Rightarrow> coordinator \<Rightarrow> bool" where
  "same_pending co co' \<longleftrightarrow> co_pending co' = co_pending co"

lemma state_trace_pending: "yields (same_pending co) (write_state_trace env t p q reason co)"
  unfolding write_state_trace_def same_pending_def by (intro yields_skip yields_intros) simp

lemma record_initial_pending: "yields (same_pending co) (record_initial env t co)"
  unfolding record_initial_def same_pending_def by (auto intro!: yields_intros)

lemma fixture_guard_pending:
  "yields (\<lambda>(move, co'). move = Stop \<and> same_pending co co') (fixture_guard env iv t b reason co)"
  unfolding fixture_guard_def Let_def
  by (rule yields_skip, rule yields_skip, rule yields_then, rule yields_bind [OF state_trace_pending],
      intro yields_skip yields_intros) (simp add: same_pending_def)

lemma stop_or_proceed_pending:
  "yields (\<lambda>(move, co'). move \<in> {Stop, Proceed} \<and> same_pending co co') (stop_or_proceed env iv t co)"
proof -
  have "yields (\<lambda>(move, co'). move \<in> {Stop, Proceed} \<and> same_pending co co')
      (bindA (write_state_trace env t TP_ROUTE phase reason co) (\<lambda>co'. returnA (Stop, co')))" for phase reason
    by (rule yields_bind [OF state_trace_pending]) (simp add: yields_return)
  then show ?thesis unfolding stop_or_proceed_def Let_def
    by (auto intro: yields_return simp: same_pending_def split: option.split)
qed

lemma due_retry_pending:
  "yields (\<lambda>(due, co'). (co_pending co' = co_pending co \<or> co_pending co' = None) \<and>
     (\<forall>d. due = Some d \<longrightarrow> co_pending co' = Some d)) (due_retry env t b co)"
  unfolding due_retry_def
  by (cases "co_pending co") (auto intro!: yields_skip yields_return)

text \<open>A move before the selector starts a call only for the pending retry; every call has an identifier.\<close>

definition pre_move :: "coordinator \<Rightarrow> next_move \<times> coordinator \<Rightarrow> bool" where
  "pre_move co = (\<lambda>(move, co'). (co_pending co' = co_pending co \<or> co_pending co' = None) \<and> move \<noteq> Replan \<and>
     (\<forall>i tool args. move = Invoke i tool args \<longrightarrow> i \<noteq> [] \<and> (\<exists>d. co_pending co' = Some d \<and> rd_tool_name d = tool)))"

lemma before_selector_pending: "yields (pre_move co) (before_selector env iv t b co)"
  unfolding before_selector_def
proof (rule yields_bind [OF record_initial_pending])
  fix co1
  assume "same_pending (co\<lparr>co_selector_hash := pg_snapshot_hash (co_progress co)\<rparr>) co1"
  then have same: "co_pending co1 = co_pending co" by (simp add: same_pending_def)
  have retry: "yields (pre_move co) (bindA (due_retry env t b co1) (\<lambda>(due, co2).
      case due of Some d \<Rightarrow> bindA (uuid4_hex env) (\<lambda>h.
            returnA (Invoke (''retry_'' @ h) (rd_tool_name d) (rd_canonical_arguments d), co2))
        | None \<Rightarrow> stop_or_proceed env iv t co2))"
  proof (rule yields_bind [OF due_retry_pending])
    fix x :: "retry_directive option \<times> coordinator"
    assume x: "case x of (due, co') \<Rightarrow> (co_pending co' = co_pending co1 \<or> co_pending co' = None) \<and>
      (\<forall>d. due = Some d \<longrightarrow> co_pending co' = Some d)"
    obtain due co2 where split: "x = (due, co2)" by force
    show "yields (pre_move co) (case x of (due, co2) \<Rightarrow>
        case due of Some d \<Rightarrow> bindA (uuid4_hex env) (\<lambda>h.
            returnA (Invoke (''retry_'' @ h) (rd_tool_name d) (rd_canonical_arguments d), co2))
        | None \<Rightarrow> stop_or_proceed env iv t co2)"
    proof (cases due)
      case None
      have "yields (pre_move co) (stop_or_proceed env iv t co2)"
        by (rule yields_mono [OF stop_or_proceed_pending])
          (use x split same in \<open>auto simp: pre_move_def same_pending_def\<close>)
      then show ?thesis by (simp add: split None)
    next
      case (Some d)
      with x split have "co_pending co2 = Some d" "co_pending co1 = Some d" by auto
      then show ?thesis by (simp add: split Some, intro yields_skip yields_return) (simp add: pre_move_def same)
    qed
  qed
  have guard: "yields (pre_move co) (fixture_guard env iv t b reason (co1\<lparr>co_guard_reason := None\<rparr>))" for reason
    by (rule yields_mono [OF fixture_guard_pending]) (auto simp: pre_move_def same_pending_def same)
  show "yields (pre_move co) (case co_guard_reason co1 of
        Some reason \<Rightarrow> fixture_guard env iv t b reason (co1\<lparr>co_guard_reason := None\<rparr>)
      | None \<Rightarrow> bindA (due_retry env t b co1) (\<lambda>(due, co2).
          case due of Some d \<Rightarrow> bindA (uuid4_hex env) (\<lambda>h.
            returnA (Invoke (''retry_'' @ h) (rd_tool_name d) (rd_canonical_arguments d), co2))
          | None \<Rightarrow> stop_or_proceed env iv t co2))"
    by (cases "co_guard_reason co1") (simp_all add: retry guard)
qed

definition named_move :: "coordinator \<Rightarrow> next_move \<times> coordinator \<Rightarrow> bool" where
  "named_move co = (\<lambda>(move, co'). same_pending co co' \<and> (\<forall>i tool args. move = Invoke i tool args \<longrightarrow> i \<noteq> []))"

lemma select_observation_pending:
  "yields (named_move co) (select_observation env iv t b message facts turn co)"
proof -
  have move: "yields (named_move co) (bindA (write_state_trace env t p q reason co1) (\<lambda>co2. returnA (m, co2)))"
    if "same_pending co co1" and "\<And>i tool args. m = Invoke i tool args \<Longrightarrow> i \<noteq> []" for p q reason co1 m
    by (rule yields_bind [OF state_trace_pending], rule yields_return)
      (use that in \<open>auto simp: same_pending_def named_move_def\<close>)
  have "yields (named_move co) (accept_observation env t n co1)" if "same_pending co co1" for n co1
    unfolding accept_observation_def Let_def
    using that by (simp only: split: if_split) (intro conjI impI move, auto simp: same_pending_def)
  moreover have "yields (named_move co) (reject_observation env t code co1)"
    if "same_pending co co1" for code co1
    unfolding reject_observation_def Let_def
    using that by (cases "observe_selector_turn (co_guard co1) (co_selector_hash co1) (pg_snapshot_hash (co_progress co1))")
      (simp only: prod.case split: if_split, intro conjI impI move yields_return, simp_all add: same_pending_def named_move_def)
  ultimately show ?thesis unfolding select_observation_def Let_def
    by (intro yields_skip yields_intros) (auto simp: same_pending_def split: candidate_validation.split)
qed

text \<open>After a read, the pending retry is the one that \<open>pending_after\<close> has decided.\<close>

lemma observe_result_pending: "observe_result t tool r co = Inr co' \<Longrightarrow> same_pending co co'"
  by (auto simp: observe_result_def observe_order_def observe_tickets_def observe_policy_def same_pending_def
      split: if_splits option.splits read_payload.splits prod.splits)

lemma on_tool_result_pending:
  "yields (\<lambda>co'. pending_after env iv c r co = Inr (co_pending co')) (on_tool_result env iv t b c r refs co)"
proof -
  let ?P = "\<lambda>co'. pending_after env iv c r co = Inr (co_pending co')"
  have take: "yields ?P (take_call env iv t c r refs co)"
    unfolding take_call_def Let_def
    by (rule yields_bind [OF yields_read [where P = "\<lambda>p. pending_after env iv c r co = Inr p"]], assumption,
      rule yields_skip, rule yields_skip, rule yields_then, rule yields_return) simp
  have route: "yields ?P (route_result env iv t b c r co co1)" if "?P co1" for co1 :: coordinator
    unfolding route_result_def Let_def by (intro yields_skip yields_intros) (simp add: that)
  show ?thesis unfolding on_tool_result_def
  proof (rule yields_bind [OF take])
    fix co1 :: coordinator
    assume co1: "?P co1"
    have observed: "yields ?P (readA (\<lambda>_. observe_result t (the (tl_tool_name c)) r co1))"
      by (rule yields_read) (use co1 observe_result_pending in \<open>auto simp: same_pending_def\<close>)
    have traced: "yields ?P (bindA (write_state_trace env t TP_REDUCE TP_ROUTE ''EVIDENCE_PROGRESS_REBUILT'' co2)
        (route_result env iv t b c r co))" if "?P co2" for co2 :: coordinator
      by (rule yields_bind [OF state_trace_pending]) (use that in \<open>intro route, simp add: same_pending_def\<close>)
    have turned: "yields ?P (case observe_selector_turn (co_guard co2) (co_selector_hash co2) (pg_snapshot_hash (co_progress co2)) of
        (stuck, g) \<Rightarrow> bindA (write_state_trace env t TP_REDUCE TP_ROUTE ''EVIDENCE_PROGRESS_REBUILT''
          (co2\<lparr>co_guard := g, co_terminal := (case stuck of None \<Rightarrow> co_terminal co2
             | Some reason \<Rightarrow> Some (recovery_reason_value reason))\<rparr>)) (route_result env iv t b c r co))"
      if "?P co2" for co2 :: coordinator
    proof (cases "observe_selector_turn (co_guard co2) (co_selector_hash co2) (pg_snapshot_hash (co_progress co2))")
      case (Pair stuck g)
      have "?P (co2\<lparr>co_guard := g, co_terminal := (case stuck of None \<Rightarrow> co_terminal co2
             | Some reason \<Rightarrow> Some (recovery_reason_value reason))\<rparr>)" using that by simp
      then show ?thesis unfolding Pair prod.case by (rule traced)
    qed
    show "yields ?P (bindA (readA (\<lambda>_. observe_result t (the (tl_tool_name c)) r co1)) (\<lambda>co2.
        case observe_selector_turn (co_guard co2) (co_selector_hash co2) (pg_snapshot_hash (co_progress co2)) of (stuck, g) \<Rightarrow>
          bindA (write_state_trace env t TP_REDUCE TP_ROUTE ''EVIDENCE_PROGRESS_REBUILT''
              (co2\<lparr>co_guard := g, co_terminal := (case stuck of None \<Rightarrow> co_terminal co2
                 | Some reason \<Rightarrow> Some (recovery_reason_value reason))\<rparr>)) (\<lambda>co3.
            route_result env iv t b c r co co3)))"
      by (rule yields_bind [OF observed], rule turned)
  qed
qed

lemma issue_exact_retry_Some:
  assumes "issue_exact_retry sha call_id tool args version es av rt n h = Inr (Some d)"
  shows "rd_tool_name d = tool \<and> tool \<in> set read_tool_names \<and> n = 1"
  using assms by (auto simp: issue_exact_retry_def check_retry_directive_def bindE_eq_Inr split: if_splits)

text \<open>A retry is asked for by a first attempt, and the second attempt of its tool ends it.\<close>

lemma pending_after_Some:
  assumes "pending_after env iv c r co = Inr (Some d)"
  shows "rd_tool_name d = the (tl_tool_name c) \<and> attempt_of c = 1 \<and> rd_tool_name d \<in> set read_tool_names \<or>
    co_pending co = Some d \<and> attempt_of c < 2"
  using assms issue_exact_retry_Some [of "ae_sha env" "tl_tool_call_id c" "the (tl_tool_name c)"
      "the (tl_normalized_args c)" "the (tl_source_version c)" "execution_status_value (tr_execution_status r)"
      "evidence_availability_value (tr_evidence_availability r)" "tr_retryable r" "attempt_of c"
      "pg_snapshot_hash (co_progress co)" d]
  by (auto simp: pending_after_def next_attempt_number_def split: if_splits)

section \<open>The budget of a call\<close>

text \<open>The budget after a call: planning turns stay and reads never go down.\<close>

definition same_turns :: "tool_budget \<Rightarrow> tool_budget \<Rightarrow> bool" where
  "same_turns b b' \<longleftrightarrow> wf_budget b' \<and> tb_run_planning_turns b' = tb_run_planning_turns b \<and>
     tb_case_planning_turns b' = tb_case_planning_turns b \<and>
     tb_actual_read_tool_executions b \<le> tb_actual_read_tool_executions b'"

lemma execution_same_turns: "wf_budget b \<Longrightarrow> record_actual_execution b = Inr b' \<Longrightarrow> same_turns b b'"
  using wf_budget_step [of b BO_Execute b']
  by (auto simp: same_turns_def record_actual_execution_def split: if_splits)

lemma governed_call_budget:
  assumes "wf_budget b"
  shows "yields (\<lambda>(r, b'). same_turns b b') (governed_call env iv t b tool args)"
proof -
  let ?hx = "hashing_of env iv"
  have "same_turns b (gx_budget (snd (execute_result ?hx (executor_of env iv t b s) tool args)))" for s
    by (rule execute_cases [of ?hx "executor_of env iv t b s" tool args])
      (use assms execution_same_turns [OF assms] in \<open>auto simp: executor_of_def same_turns_def split: sum.split\<close>)
  then show ?thesis
    unfolding yields_def governed_call_def by (auto simp: bindE_eq_Inr split: prod.splits) (metis snd_conv)
qed

section \<open>Supersteps\<close>

text \<open>What every superstep keeps: the budget is within its limits, a pending retry is for a tool that was called, and
  a due call has an identifier.\<close>

definition sound_graph :: "graph \<Rightarrow> bool" where
  "sound_graph g \<longleftrightarrow> (\<forall>i tool args. gh_node g = At_Tools i tool args \<longrightarrow> i \<noteq> []) \<and> wf_budget (gh_budget g) \<and> (\<forall>tool. 0 \<le> attempts_of (gh_tracer g) tool) \<and>
     (\<forall>d. co_pending (gh_coordinator g) = Some d \<longrightarrow>
        1 \<le> attempts_of (gh_tracer g) (rd_tool_name d) \<and> rd_tool_name d \<in> set read_tool_names)"

definition remaining_turns :: "graph \<Rightarrow> nat" where
  "remaining_turns g = nat (max_run_planning_turns - tb_run_planning_turns (gh_budget g))"

definition retry_pending :: "graph \<Rightarrow> nat" where
  "retry_pending g = (if co_pending (gh_coordinator g) = None then 0 else 1)"

definition retries :: "graph \<Rightarrow> string \<Rightarrow> bool" where
  "retries g tool \<longleftrightarrow> (\<exists>d. co_pending (gh_coordinator g) = Some d \<and> rd_tool_name d = tool)"

text \<open>An upper bound of the supersteps that are left.\<close>

definition steps_left :: "graph \<Rightarrow> nat" where
  "steps_left g = (case gh_node g of
     At_End \<Rightarrow> 0
   | At_Budget \<Rightarrow> 1
   | At_Agent \<Rightarrow> 4 * remaining_turns g + 2 * retry_pending g + 1
   | At_Tools _ tool _ \<Rightarrow> 4 * remaining_turns g + (if retries g tool then 2 else 4))"

lemma attempts_take_result:
  "attempts_of (take_result tool args c r tr) k = (if k = tool then cl_attempt c else attempts_of tr k)"
  by (simp add: attempts_of_def take_result_def update_conv')

text \<open>What a traced call leaves: one more attempt of its tool, and a pending retry only if this was the first.\<close>

definition settled ::
  "tool_budget \<Rightarrow> string \<Rightarrow> tracer \<Rightarrow> coordinator \<Rightarrow> tool_budget \<times> tracer \<times> coordinator \<Rightarrow> bool" where
  "settled b tool tr co = (\<lambda>(b', tr', co'). same_turns b b' \<and>
     (\<forall>k. attempts_of tr' k = (if k = tool then attempts_of tr tool + 1 else attempts_of tr k)) \<and>
     (\<forall>d. co_pending co' = Some d \<longrightarrow>
        rd_tool_name d = tool \<and> attempts_of tr tool = 0 \<and> tool \<in> set read_tool_names \<or>
        co_pending co = Some d \<and> attempts_of tr tool < 1))"

lemma execute_traced_settled:
  assumes "wf_budget b" and "0 \<le> attempts_of tr tool"
  shows "yields (settled b tool tr co) (execute_traced env iv t call_id tool args b tr co)"
proof -
  have recorded: "yields (\<lambda>call. tl_tool_name call = Some tool \<and> tl_attempt_number call = Some (cl_attempt c))
      (trace_call env t tool args c r)" for c r
    unfolding trace_call_def by (intro yields_skip yields_intros) (simp add: record_of_def)
  have step: "yields (settled b tool tr co) (bindA (trace_call env t tool args c r) (\<lambda>call.
       bindA (on_tool_result env iv t b' call r refs co) (\<lambda>co'. returnA (b', take_result tool args c r tr, co'))))"
    if "same_turns b b'" and "cl_attempt c = attempts_of tr tool + 1" for b' c r refs
  proof (rule yields_bind [OF recorded], rule yields_bind [OF on_tool_result_pending], rule yields_return)
    fix call and co' :: coordinator
    assume "tl_tool_name call = Some tool \<and> tl_attempt_number call = Some (cl_attempt c)"
      and "pending_after env iv call r co = Inr (co_pending co')"
    then show "settled b tool tr co (b', take_result tool args c r tr, co')"
      using that assms(2) pending_after_Some [of env iv call r co]
      by (fastforce simp: settled_def attempts_take_result attempt_of_def split: if_splits)
  qed
  show ?thesis unfolding execute_traced_def Let_def
    by (rule yields_then, rule yields_bind [OF governed_call_budget [OF assms(1)]], clarify, rule yields_skip, rule step)
      simp_all
qed

lemma tool_step_sound:
  assumes "sound_graph g" and "gh_node g = At_Tools call_id tool args"
  shows "yields (\<lambda>g'. sound_graph g' \<and> steps_left g' < steps_left g \<and> same_turns (gh_budget g) (gh_budget g'))
    (tool_step env iv t call_id tool args g)"
proof (cases "tool \<in> set read_tool_names")
  case False
  with assms have "\<not> retries g tool" by (auto simp: sound_graph_def retries_def)
  with False assms show ?thesis
    by (auto simp: tool_step_def steps_left_def retry_pending_def remaining_turns_def sound_graph_def same_turns_def
        intro!: yields_return)
next
  case True
  let ?tr = "gh_tracer g" and ?co = "gh_coordinator g"
  have budget: "wf_budget (gh_budget g)" and some: "0 \<le> attempts_of ?tr k" for k
    using assms(1) by (simp_all add: sound_graph_def)
  have pending: "co_pending ?co = Some d \<Longrightarrow> 1 \<le> attempts_of ?tr (rd_tool_name d) \<and> rd_tool_name d \<in> set read_tool_names" for d
    using assms(1) by (simp add: sound_graph_def)
  have "yields (\<lambda>g'. sound_graph g' \<and> steps_left g' < steps_left g \<and> same_turns (gh_budget g) (gh_budget g'))
      (returnA (g\<lparr>gh_node := At_Agent, gh_budget := b, gh_tracer := tr, gh_coordinator := co\<rparr>))"
    if settled: "settled (gh_budget g) tool ?tr ?co (b, tr, co)" for b tr co
  proof (rule yields_return)
    let ?g = "g\<lparr>gh_node := At_Agent, gh_budget := b, gh_tracer := tr, gh_coordinator := co\<rparr>"
    have turns: "same_turns (gh_budget g) b" using settled by (simp add: settled_def)
    have attempts: "attempts_of tr k = (if k = tool then attempts_of ?tr tool + 1 else attempts_of ?tr k)" for k
      using settled by (simp add: settled_def)
    have left: "co_pending co = Some d \<Longrightarrow> rd_tool_name d = tool \<and> attempts_of ?tr tool = 0 \<or>
        co_pending ?co = Some d \<and> attempts_of ?tr tool < 1" for d
      using settled by (auto simp: settled_def)
    have "sound_graph ?g"
      using turns attempts left pending some True by (fastforce simp: sound_graph_def same_turns_def)
    moreover have "retry_pending ?g = 0" if "retries g tool"
      using that left pending by (fastforce simp: retries_def retry_pending_def)
    then have "steps_left ?g < steps_left g"
      using turns assms(2) by (auto simp: steps_left_def remaining_turns_def same_turns_def retry_pending_def)
    ultimately show "sound_graph ?g \<and> steps_left ?g < steps_left g \<and> same_turns (gh_budget g) (gh_budget ?g)"
      using turns by simp
  qed
  with True show ?thesis unfolding tool_step_def
    by (simp, intro yields_skip yields_bind [OF execute_traced_settled [OF budget some]]) (clarsimp split: prod.split)
qed

definition later_budget :: "tool_budget \<Rightarrow> tool_budget \<Rightarrow> bool" where
  "later_budget b b' \<longleftrightarrow> tb_run_planning_turns b \<le> tb_run_planning_turns b' \<and>
     tb_case_planning_turns b \<le> tb_case_planning_turns b' \<and>
     tb_actual_read_tool_executions b \<le> tb_actual_read_tool_executions b'"

lemma planned_turn_sound:
  assumes "sound_graph g" and "gh_node g = At_Agent"
  shows "yields (\<lambda>g'. sound_graph g' \<and> steps_left g' < steps_left g \<and> later_budget (gh_budget g) (gh_budget g'))
    (planned_turn env iv t message facts g)"
proof (cases "record_planning_turn (gh_budget g)")
  case (Inl e)
  then have "\<exists>code. e = ToolBudgetExceeded code" by (auto simp: record_planning_turn_def split: if_splits)
  with Inl assms show ?thesis
    by (auto simp: planned_turn_def Let_def sound_graph_def steps_left_def later_budget_def intro!: yields_return)
next
  case (Inr b)
  have wf: "wf_budget (gh_budget g)" using assms(1) by (simp add: sound_graph_def)
  from Inr have turn: "tb_run_planning_turns b = tb_run_planning_turns (gh_budget g) + 1"
    "tb_run_planning_turns (gh_budget g) < max_run_planning_turns" "later_budget (gh_budget g) b"
    by (auto simp: record_planning_turn_def later_budget_def split: if_splits)
  have wf': "wf_budget b" using wf_budget_step [OF wf, of BO_Plan b] Inr by simp
  have "sound_graph g' \<and> steps_left g' < steps_left g \<and> later_budget (gh_budget g) (gh_budget g')"
    if move: "named_move (gh_coordinator g) (move, co)" and
      g': "g' = g\<lparr>gh_node := route_after_model move n, gh_planning_turns := n, gh_budget := b, gh_coordinator := co\<rparr>"
    for g' move co n
  proof -
    have "sound_graph g'" using assms(1) that wf'
      by (cases move) (auto simp: sound_graph_def same_pending_def named_move_def route_after_model_def)
    moreover have "remaining_turns g = Suc (remaining_turns g')" using turn by (simp add: remaining_turns_def g')
    moreover have "retry_pending g' = retry_pending g" using that by (simp add: retry_pending_def same_pending_def named_move_def)
    ultimately show ?thesis using turn assms(2)
      by (cases move) (auto simp: steps_left_def g' route_after_model_def)
  qed
  with Inr show ?thesis unfolding planned_turn_def Let_def
    by (simp, intro yields_then yields_bind [OF select_observation_pending]) (clarsimp intro!: yields_return)
qed

lemma call_model_sound:
  assumes "sound_graph g" and "gh_node g = At_Agent"
  shows "yields (\<lambda>g'. sound_graph g' \<and> steps_left g' < steps_left g \<and> later_budget (gh_budget g) (gh_budget g'))
    (call_model env iv t message facts g)"
  unfolding call_model_def
proof (rule yields_bind [OF before_selector_pending], clarify)
  fix move and co :: coordinator
  assume pre: "pre_move (gh_coordinator g) (move, co)"
  let ?g = "g\<lparr>gh_coordinator := co\<rparr>"
  have sound: "sound_graph ?g" and less: "steps_left ?g \<le> steps_left g"
    using pre assms by (auto simp: pre_move_def sound_graph_def steps_left_def retry_pending_def remaining_turns_def)
  show "yields (\<lambda>g'. sound_graph g' \<and> steps_left g' < steps_left g \<and> later_budget (gh_budget g) (gh_budget g'))
    (if move = Proceed then planned_turn env iv t message facts ?g
     else returnA (g\<lparr>gh_node := route_after_model move (gh_planning_turns g), gh_coordinator := co\<rparr>))"
  proof (cases move)
    case Proceed
    with planned_turn_sound [OF sound] assms(2) less show ?thesis
      by (simp add: yields_def) (metis less_le_trans)
  next
    case (Invoke i tool args)
    with pre sound assms show ?thesis
      by (auto simp: pre_move_def route_after_model_def sound_graph_def steps_left_def retries_def remaining_turns_def
          retry_pending_def later_budget_def intro!: yields_return)
  qed (use pre sound assms in \<open>auto simp: pre_move_def route_after_model_def sound_graph_def steps_left_def
         later_budget_def intro!: yields_return\<close>)
qed

lemma graph_step_sound:
  assumes "sound_graph g" and "gh_node g \<noteq> At_End"
  shows "yields (\<lambda>g'. sound_graph g' \<and> steps_left g' < steps_left g \<and> later_budget (gh_budget g) (gh_budget g'))
    (graph_step env iv t message facts g)"
proof (cases "gh_node g")
  case (At_Tools i tool args)
  with tool_step_sound [OF assms(1) At_Tools, of env iv t] show ?thesis
    by (simp add: graph_step_def) (erule yields_mono, simp add: same_turns_def later_budget_def)
next
  case At_Budget
  with assms show ?thesis
    by (auto simp: graph_step_def sound_graph_def steps_left_def later_budget_def intro!: yields_return)
qed (use assms call_model_sound in \<open>auto simp: graph_step_def\<close>)

section \<open>The loop ends\<close>

lemma run_graph_limit:
  assumes "sound_graph g" and "steps_left g \<le> m" and "steps_left g \<le> n"
  shows "run_graph env iv t message facts m g s = run_graph env iv t message facts n g s"
  using assms
proof (induction m arbitrary: n g s)
  case 0
  then have "gh_node g = At_End" by (auto simp: steps_left_def split: node.splits if_splits)
  then show ?case by (simp add: run_graph.simps)
next
  case (Suc m)
  show ?case
  proof (cases "gh_node g = At_End")
    case False
    then have "steps_left g \<noteq> 0" by (auto simp: steps_left_def split: node.splits)
    with Suc.prems(3) obtain k where n: "n = Suc k" by (cases n) auto
    obtain r s' where step: "graph_step env iv t message facts g s = (r, s')" by force
    show ?thesis
    proof (cases r)
      case (Inr g')
      have "sound_graph g' \<and> steps_left g' < steps_left g"
        using yieldsD [OF graph_step_sound [OF Suc.prems(1) False] step [unfolded Inr]] by simp
      with Suc.IH [of g' k s'] Suc.prems n show ?thesis
        by (simp add: run_graph.simps [of _ _ _ _ _ _ g] False bindA_def step Inr)
    qed (simp add: run_graph.simps [of _ _ _ _ _ _ g] False bindA_def step n)
  qed (simp add: run_graph.simps)
qed

lemma run_graph_sound:
  assumes "sound_graph g"
  shows "yields (\<lambda>g'. sound_graph g' \<and> later_budget (gh_budget g) (gh_budget g') \<and> gh_node g' = At_End)
    (run_graph env iv t message facts limit g)"
  using assms
proof (induction limit arbitrary: g)
  case 0
  then show ?case by (auto simp: run_graph.simps later_budget_def intro!: yields_return yields_raise)
next
  case (Suc n)
  show ?case
  proof (cases "gh_node g = At_End")
    case False
    then show ?thesis
      by (simp add: run_graph.simps)
        (rule yields_bind [OF graph_step_sound [OF Suc.prems False]], rule yields_mono [OF Suc.IH],
         auto simp: later_budget_def)
  qed (use Suc.prems in \<open>simp add: run_graph.simps later_budget_def yields_def\<close>)
qed

section \<open>Where the loop begins\<close>

lemma attempts_tracer_step:
  "attempts_of (tr\<lparr>te_arguments := x, te_attempts := AList.update k v (te_attempts tr)\<rparr>) tool =
    (if tool = k then v else attempts_of tr tool)"
  by (simp add: attempts_of_def update_conv')

lemma tracer_fold_attempts:
  fixes tr :: tracer
  defines "next_tracer \<equiv> \<lambda>tr c. let tool = the (tl_tool_name c) in
     tr\<lparr>te_arguments := AList.update tool (the (tl_normalized_args c)) (te_arguments tr),
        te_attempts := AList.update tool (max (attempts_of tr tool) (the (tl_attempt_number c))) (te_attempts tr)\<rparr>"
  shows "attempts_of tr tool \<le> attempts_of (foldl next_tracer tr calls) tool"
    and "c \<in> set calls \<Longrightarrow> the (tl_attempt_number c) \<le> attempts_of (foldl next_tracer tr calls) (the (tl_tool_name c))"
proof -
  have step: "attempts_of tr k \<le> attempts_of (next_tracer tr c) k" for tr k c
    by (simp add: next_tracer_def Let_def attempts_tracer_step)
  have mono: "attempts_of tr k \<le> attempts_of (foldl next_tracer tr calls) k" for tr k calls
    by (induction calls arbitrary: tr) (auto intro: order_trans [OF step])
  then show "attempts_of tr tool \<le> attempts_of (foldl next_tracer tr calls) tool" .
  show "c \<in> set calls \<Longrightarrow> the (tl_attempt_number c) \<le> attempts_of (foldl next_tracer tr calls) (the (tl_tool_name c))"
  proof (induction calls arbitrary: tr)
    case (Cons x calls)
    have "the (tl_attempt_number x) \<le> attempts_of (next_tracer tr x) (the (tl_tool_name x))"
      by (simp add: next_tracer_def Let_def attempts_tracer_step)
    with Cons mono [of "next_tracer tr x" "the (tl_tool_name x)" calls] show ?case by auto
  qed simp
qed

lemma tracer_init_attempts:
  "0 \<le> attempts_of (tracer_init co) tool"
  "c \<in> set (co_records co) \<Longrightarrow> the (tl_attempt_number c) \<le> attempts_of (tracer_init co) (the (tl_tool_name c))"
  using tracer_fold_attempts(1) [where calls = "co_records co" and tool = tool and
      tr = "\<lparr>te_results = co_latest co, te_refs = co_refs co, te_arguments = [], te_attempts = [], te_new_records = 0\<rparr>"]
    tracer_fold_attempts(2) [where calls = "co_records co" and c = c and
      tr = "\<lparr>te_results = co_latest co, te_refs = co_refs co, te_arguments = [], te_attempts = [], te_new_records = 0\<rparr>"]
  unfolding tracer_init_def by (simp_all add: attempts_of_def)

lemma interrupted_retry_Some:
  assumes "interrupted_retry env progress rows = Inr (Some d)"
  shows "\<exists>row \<in> set rows. tcr_tool_name row = rd_tool_name d \<and> tcr_attempt_number row = 1 \<and>
    rd_tool_name d \<in> set read_tool_names"
  using assms
  by (auto simp: interrupted_retry_def last_opt_def split: option.splits if_splits dest!: issue_exact_retry_Some)

lemma coordinator_init_pending:
  "yields (\<lambda>co. \<forall>d. co_pending co = Some d \<longrightarrow> rd_tool_name d \<in> set read_tool_names \<and>
     (\<exists>c \<in> set (co_records co). the (tl_tool_name c) = rd_tool_name d \<and> the (tl_attempt_number c) = 1))
   (coordinator_init env iv t)"
  unfolding coordinator_init_def
  by (rule yields_skip, rule yields_skip, rule yields_skip, rule yields_skip, rule yields_skip, rule yields_skip,
      rule yields_bind [OF yields_read], assumption, rule yields_skip, rule yields_return)
    (auto dest!: interrupted_retry_Some simp: persisted_call_def)

lemma initial_budget:
  "yields (\<lambda>b. wf_budget b \<and> tb_actual_read_tool_executions b = reads)
    (readA (\<lambda>_. tool_budget_init case_turns run_turns reads))"
  by (rule yields_read) (auto simp: wf_budget_init, auto simp: tool_budget_init_def split: if_splits)

lemma initial_graph_sound:
  assumes "wf_budget b" and "\<forall>d. co_pending co = Some d \<longrightarrow> rd_tool_name d \<in> set read_tool_names \<and>
     (\<exists>c \<in> set (co_records co). the (tl_tool_name c) = rd_tool_name d \<and> the (tl_attempt_number c) = 1)"
  defines "g \<equiv> \<lparr>gh_node = At_Agent, gh_planning_turns = 0, gh_budget_exhausted = False, gh_budget = b,
     gh_tracer = tracer_init co, gh_coordinator = co\<rparr>"
  shows "sound_graph g \<and> steps_left g \<le> 35"
  using assms tracer_init_attempts [where co = co]
  by (fastforce simp: sound_graph_def steps_left_def g_def remaining_turns_def retry_pending_def wf_budget_def budget_limits)

section \<open>Properties of an investigation\<close>

text \<open>C3. An investigation needs at most 35 supersteps of its graph, whatever its selector answers and whatever the
  sources do: with any recursion limit from 35 on the result, the state it leaves and every error are the same.\<close>

theorem investigation_ends:
  assumes "35 \<le> m" and "35 \<le> n"
  shows "investigate_within env iv m a s = investigate_within env iv n a s"
proof -
  have loop: "run_graph env iv t message facts m g = run_graph env iv t message facts n g"
    if "sound_graph g \<and> steps_left g \<le> 35" for t message facts g
    using that assms by (intro ext run_graph_limit) simp_all
  show ?thesis unfolding investigate_within_def Let_def split_def
    by (rule fun_cong [of _ _ s], rule bind_cong [OF yields_any], rule bind_cong [OF initial_budget],
      rule bind_cong [OF coordinator_init_pending], rule bind_cong [OF yields_any],
      simp only: loop [OF initial_graph_sound])
qed

section \<open>Samples\<close>

text \<open>A model that is out of reach.\<close>

definition offline_investigator :: investigator where
  "offline_investigator = \<lparr>iv_dump_payload = (\<lambda>_. JNull), iv_dump_facts = (\<lambda>_. JNull),
     iv_search = (\<lambda>_ _ _ _ _ _. Inl (True, ''DOWN'')), iv_select = (\<lambda>_ _. Inl (RuntimeError ''offline'')),
     iv_selector_kind = SK_AGENT, iv_requester_label = ''Agent'', iv_enforce_early_stop = True, iv_exact_retry = True,
     iv_stop_after = None, iv_recursion_limit = 10000\<rparr>"

text \<open>A typed result as the executor returns it.\<close>

definition packed :: "('p \<Rightarrow> read_payload) \<Rightarrow> 'p tool_result \<Rightarrow> read_result" where
  "packed tag r = ToolContracts.envelope.extend (ToolContracts.envelope.truncate r)
     (tool_result.fields (map_option tag (tr_payload r)))"

theorem investigation_ends_witness:
  "\<forall>a s. investigate demo_env offline_investigator a s = investigate_within demo_env offline_investigator 35 a s"
  unfolding investigate_def
  by (intro allI investigation_ends) (simp_all add: offline_investigator_def)

end
