(* ===== verification/Application.thy ===== *)
theory Application
  imports ReadModels ConfirmationOutcome InvestigationFacts
begin

text \<open>
  The application as a state machine: whatever sequence of requests it serves, every ticket rests on one
  confirmed proposal.

  \<^item> \<open>app_step\<close> is one served request, finished or failed, with whatever arguments the client sends.
  \<^item> \<open>live env iv sc\<close> are the services with the modelled coordinator.  What remains a parameter can look at the state
    but returns an answer only: the selector of an investigation, the policy search, the live triage and the tables.
\<close>

section \<open>Actions of confirmed proposals\<close>

definition confirmed_actions :: "database \<Rightarrow> bool" where
  "confirmed_actions d \<longleftrightarrow> (\<forall>a \<in> set (db_actions d). proposal_state_in d (aer_proposal_id a) = Some PS_CONFIRMED)"

definition keeps_confirmed :: "app_state \<Rightarrow> app_state \<Rightarrow> bool" where
  "keeps_confirmed s s' \<longleftrightarrow>
     (wf_db (sv_db s) \<longrightarrow> wf_db (sv_db s') \<and> (confirmed_actions (sv_db s) \<longrightarrow> confirmed_actions (sv_db s')))"

lemma confirmed_stays:
  assumes "store_step d d'" and "wf_db d" and "proposal_state_in d k = Some PS_CONFIRMED"
  shows "proposal_state_in d' k = Some PS_CONFIRMED"
  using assms(1)
proof cases
  case of_repository
  from proposals_follow [OF this assms(2), of k] assms(3) show ?thesis
    by (intro proposal_rows.terminal_stays) simp_all
qed (use assms(3) in \<open>auto dest!: link_run_frame link_message_frame simp: state_in_defs get_proposal_def\<close>)

lemma action_ids_proposals:
  "action_ids d' = action_ids d \<Longrightarrow> aer_proposal_id ` set (db_actions d') = aer_proposal_id ` set (db_actions d)"
proof -
  assume "action_ids d' = action_ids d"
  then have "map snd (action_ids d') = map snd (action_ids d)" by simp
  then have "map aer_proposal_id (db_actions d') = map aer_proposal_id (db_actions d)"
    by (simp add: action_ids_def comp_def)
  then show ?thesis by (metis set_map)
qed

lemma confirmed_actions_image:
  "confirmed_actions d \<longleftrightarrow> (\<forall>k \<in> aer_proposal_id ` set (db_actions d). proposal_state_in d k = Some PS_CONFIRMED)"
  by (simp add: confirmed_actions_def)

lemma quiet_keeps_confirmed:
  assumes "quiet_step d d'" and "wf_db d" and "confirmed_actions d"
  shows "confirmed_actions d'"
  using assms confirmed_stays [of d d'] action_ids_proposals [of d' d]
  by (simp add: quiet_step_def confirmed_actions_image)

interpretation keeps_confirmed: handler_relation keeps_confirmed
proof unfold_locales
  fix s :: app_state and d
  assume "quiet_step (sv_db s) d"
  then show "keeps_confirmed s (put_db d s)"
    using quiet_keeps_confirmed by (auto simp: keeps_confirmed_def quiet_step_def dest: store_step_wf)
next
  fix s :: app_state and n n' e v es
  assume e: "event_append (sv_events s) n n' e = Inr (v, es)"
  from event_append_touches [OF e] event_append_wf [OF e] show "keeps_confirmed s (s\<lparr>sv_events := es\<rparr>)"
    by (auto simp: keeps_confirmed_def confirmed_actions_def state_in_defs get_proposal_def sv_db_def)
qed (auto simp: keeps_confirmed_def)

lemma create_action_proposal:
  assumes "create_action d t t' a = Inr (row, d')"
  shows "aer_proposal_id ` set (db_actions d') \<subseteq> insert (ax_proposal_id a) (aer_proposal_id ` set (db_actions d))"
  using assms
  by (auto simp: create_action_def Let_def bindE_eq_Inr guard_Inr insert_action_def insert_row_def
      split: option.splits if_splits)

text \<open>The transaction of a confirmation confirms the proposal before it creates the action.\<close>

lemma confirm_write_keeps:
  assumes id: "ax_proposal_id a = apr_proposal_id p"
  shows "related keeps_confirmed (confirm_write env p a now cid)"
  unfolding related_def
proof
  fix s
  show "keeps_confirmed s (snd (confirm_write env p a now cid s))"
  proof (cases "fst (confirm_write env p a now cid s)")
    case (Inl e)
    then have "sv_db (snd (confirm_write env p a now cid s)) = sv_db s"
      by (auto simp: confirm_write_def transaction_def split: prod.splits sum.splits)
    then show ?thesis by (simp add: keeps_confirmed_def)
  next
    case (Inr c)
    then obtain s' where run: "confirm_write env p a now cid s = (Inr c, s')" by (metis prod.collapse)
    then obtain x1 s1 t2 s2 x3 s3 where
      1: "repo env (\<lambda>t d. update_proposal_state d t (apr_proposal_id p) ''confirmed'' None (Some now)) s = (Inr x1, s1)" and
      2: "utc_now env s1 = (Inr t2, s2)" and
      3: "repo env (\<lambda>t' d. create_action d t2 t' a) s2 = (Inr x3, s3)" and
      4: "move_case env cid (\<lambda>_. to_state CS_EXECUTING_ACTION) s3 = (Inr c, s')"
      unfolding confirm_write_def transaction_Inr thenA_Inr bindA_Inr by blast
    have "keeps_confirmed s s1" by (rule relatedD [OF keeps_confirmed.related_update_proposal_state 1])
    moreover have db2: "sv_db s2 = sv_db s1" using 2 by (auto simp: utc_now_def)
    from repo_Inr [OF 3] obtain t' where c: "create_action (sv_db s1) t2 t' a = Inr (x3, sv_db s3)"
      unfolding db2 by auto
    have "wf_db (sv_db s3) \<and> (confirmed_actions (sv_db s1) \<longrightarrow> confirmed_actions (sv_db s3))"
      if wf: "wf_db (sv_db s)" and wf1: "wf_db (sv_db s1)"
    proof -
      from repo_Inr [OF 1] update_proposal_state_get_proposal [OF wf]
      have now: "proposal_state_in (sv_db s1) (apr_proposal_id p) = Some PS_CONFIRMED"
        by (force simp: state_in_defs proposal_rows.stored_state_Some)
      have "get_proposal (sv_db s3) = get_proposal (sv_db s1)"
        using create_action_frame [OF c] by (auto simp: get_proposal_def)
      then have "proposal_state_in (sv_db s3) = proposal_state_in (sv_db s1)" by (auto simp: state_in_defs)
      with now create_action_proposal [OF c] id show ?thesis
        using create_action_wf [OF wf1 c] by (auto simp: confirmed_actions_image)
    qed
    with \<open>keeps_confirmed s s1\<close> have "keeps_confirmed s s3" by (auto simp: keeps_confirmed_def)
    with relatedD [OF keeps_confirmed.related_move_case 4] show ?thesis
      unfolding run snd_conv by (blast intro: keeps_confirmed.trans)
  qed
qed

interpretation keeps_confirmed: writing_relation keeps_confirmed
proof unfold_locales
  fix s :: app_state and n tid cid aid cu oid it key sh det t row d
  assume c: "create_ticket (sv_db s) n tid cid aid cu oid it key sh det t = Inr (row, d)"
  from create_ticket_frame [OF c] create_ticket_wf [OF _ c] show "keeps_confirmed s (put_db d s)"
    by (auto simp: keeps_confirmed_def confirmed_actions_def state_in_defs get_proposal_def)
qed (auto simp: keeps_confirmed_def intro: confirm_write_keeps)

section \<open>The requests\<close>

definition live :: "app_env \<Rightarrow> investigator \<Rightarrow> services \<Rightarrow> services" where
  "live env iv sc = sc\<lparr>sc_investigate := investigate env iv\<rparr>"

inductive app_step :: "app_env \<Rightarrow> services \<Rightarrow> app_state \<Rightarrow> app_state \<Rightarrow> bool" for env sc where
  conversation: "create_conversation_handler env sc key s = (r, s') \<Longrightarrow> app_step env sc s s'"
| message: "submit_message env sc k content s = (r, s') \<Longrightarrow> app_step env sc s s'"
| confirm: "confirm_proposal env pid version s = (r, s') \<Longrightarrow> app_step env sc s s'"
| decline: "decline_proposal env pid version s = (r, s') \<Longrightarrow> app_step env sc s s'"
| retry: "retry_case env sc cid s = (r, s') \<Longrightarrow> app_step env sc s s'"
| restart: "load_persisted_tickets s = (r, s') \<Longrightarrow> app_step env sc s s'"

inductive_cases app_stepE: "app_step env sc s s'"

definition reachable_app :: "app_env \<Rightarrow> services \<Rightarrow> app_state \<Rightarrow> bool" where
  "reachable_app env sc s \<longleftrightarrow> (\<exists>s0. sv_db s0 = empty_database \<and> (app_step env sc)\<^sup>*\<^sup>* s0 s)"

context handler_relation
begin

lemma related_create_conversation: "related R (create_conversation_handler env sc key)"
proof -
  have "related R (repo env (\<lambda>t d. create_conversation d h n t c k m i v w))" for h n c k m i v w
    by (rule related_repo) (auto intro!: quiet quiet_stepI intro: step_create_conversation dest: create_conversation_frame)
  then show ?thesis unfolding create_conversation_handler_def by (intro related_parts)
qed

end

lemma load_persisted_db: "sv_db (snd (load_persisted_tickets s)) = sv_db s"
  by (simp add: load_persisted_tickets_def split: prod.split)

context handler_relation
begin

lemma related_live: "related R (sc_investigate (live env iv sc) a)"
  by (simp add: live_def related_live_investigation)

end

lemma app_step_keeps_confirmed:
  assumes "app_step env (live env iv sc) s s'"
  shows "keeps_confirmed s s'"
proof -
  have restart: "keeps_confirmed s s'" if "load_persisted_tickets s = (r, s')" for r
    using load_persisted_db [of s] that by (simp add: keeps_confirmed_def)
  from assms show ?thesis
    by (elim app_stepE)
      (erule relatedD [rotated], intro keeps_confirmed.related_create_conversation keeps_confirmed.related_submit_message
        keeps_confirmed.related_confirm_proposal keeps_confirmed.related_decline_proposal keeps_confirmed.related_retry_case
        keeps_confirmed.related_live | erule restart)+
qed

lemma empty_database_confirmed: "wf_db empty_database \<and> confirmed_actions empty_database"
  using empty_database_wf by (simp add: confirmed_actions_def empty_database_def)

lemma reachable_confirmed:
  assumes "reachable_app env (live env iv sc) s"
  shows "wf_db (sv_db s) \<and> confirmed_actions (sv_db s)"
proof -
  from assms obtain s0 where start: "sv_db s0 = empty_database" and steps: "(app_step env (live env iv sc))\<^sup>*\<^sup>* s0 s"
    by (auto simp: reachable_app_def)
  from steps show ?thesis
  proof (induction rule: rtranclp_induct)
    case base
    then show ?case using empty_database_confirmed by (simp add: start)
  next
    case (step s1 s2)
    from app_step_keeps_confirmed [OF step(2)] step(3) show ?case by (simp add: keeps_confirmed_def)
  qed
qed

text \<open>C8. After every request, whichever it is and however it ends, the database satisfies every declared
  constraint, the events of every conversation are numbered without gaps, and the log of every conversation has only
  grown at its end.\<close>

theorem requests_keep_database_sound:
  assumes "app_step env (live env iv sc) s s'" and "wf_db (sv_db s)" and "events_numbered (sv_db s)"
  shows "sound_after s s'"
proof -
  have restart: "stepwise s s'" if "load_persisted_tickets s = (r, s')" for r
    using load_persisted_db [of s] that by (simp add: stepwise_def)
  from assms(1) have "stepwise s s'"
    by (elim app_stepE)
      (erule relatedD [rotated], intro stepwise.related_create_conversation stepwise.related_submit_message
        stepwise.related_confirm_proposal stepwise.related_decline_proposal stepwise.related_retry_case
        stepwise.related_live | erule restart)+
  with assms(2,3) show ?thesis
    by (simp add: sound_after_def stepwise_def db_steps_wf db_steps_numbered db_steps_log)
qed

section \<open>One ticket for a confirmed proposal\<close>

definition ticket_proposal :: "database \<Rightarrow> ticket_row \<Rightarrow> string option" where
  "ticket_proposal d t = map_option aer_proposal_id (get_action d (tkr_action_id t))"

lemma table_ok_same:
  assumes "table_ok t rows" and "q \<in> set rows" and "r \<in> set rows" and "clash t q r"
  shows "q = r"
proof -
  from assms(2,3) obtain i j where ij: "i < length rows" "rows ! i = q" "j < length rows" "rows ! j = r"
    by (auto simp: in_set_conv_nth)
  have sorted: "sorted_wrt (\<lambda>q r. \<not> clash t q r) rows" using assms(1) by (simp add: table_ok_def)
  show ?thesis
  proof (cases i j rule: linorder_cases)
    case less
    with sorted_wrt_nth_less [OF sorted less ij(3)] ij assms(4) show ?thesis by simp
  next
    case greater
    with sorted_wrt_nth_less [OF sorted greater ij(1)] ij assms(4) show ?thesis by (simp add: clash_sym)
  qed (use ij in simp)
qed

lemma same_proposal_same_ticket:
  assumes "wf_db d" and "ticket_proposal d q = Some k" and "ticket_proposal d r = Some k"
  shows "clash ticket_table q r"
proof -
  from assms(2,3) obtain a b where a: "get_action d (tkr_action_id q) = Some a" "aer_proposal_id a = k"
    and b: "get_action d (tkr_action_id r) = Some b" "aer_proposal_id b = k" by (auto simp: ticket_proposal_def)
  have "a \<in> set (db_actions d)" "b \<in> set (db_actions d)"
    using a(1) b(1) by (auto simp: get_action_def get_row_def dest: find_SomeD)
  moreover have "clash action_table a b" using a(2) b(2) by (simp add: clash_def action_table_def)
  ultimately have "a = b" using assms(1) by (auto simp: wf_db_def intro: table_ok_same)
  with stored_action [OF assms(1) a(1)] stored_action [OF assms(1) b(1)] have "tkr_action_id q = tkr_action_id r" by simp
  then show ?thesis by (simp add: clash_def ticket_table_def)
qed

lemma tickets_have_actions:
  assumes "wf_db d" and "t \<in> set (db_tickets d)"
  obtains a where "get_action d (tkr_action_id t) = Some a" "a \<in> set (db_actions d)"
proof -
  from assms have "refs_ticket d t" by (simp add: wf_db_def)
  then obtain a where "get_action d (tkr_action_id t) = Some a"
    by (auto simp: refs_ticket_def has_row_get get_action_def)
  then show thesis using that by (auto simp: get_action_def get_row_def dest: find_SomeD)
qed

text \<open>C1. Whatever requests the application has served, with whatever outcomes and failures in between, every
  ticket in the database belongs to an action whose proposal was confirmed, and no proposal has led to more than
  one ticket, retries included.\<close>

theorem every_ticket_was_confirmed_once:
  assumes "reachable_app env (live env iv sc) s"
  shows "(\<forall>t \<in> set (db_tickets (sv_db s)). \<exists>k. ticket_proposal (sv_db s) t = Some k \<and>
      proposal_state_in (sv_db s) k = Some PS_CONFIRMED) \<and>
    (\<forall>k. length (filter (\<lambda>t. ticket_proposal (sv_db s) t = Some k) (db_tickets (sv_db s))) \<le> 1)"
proof (intro conjI ballI allI)
  note sound = reachable_confirmed [OF assms]
  fix t assume "t \<in> set (db_tickets (sv_db s))"
  with sound obtain a where "get_action (sv_db s) (tkr_action_id t) = Some a" "a \<in> set (db_actions (sv_db s))"
    by (auto elim: tickets_have_actions)
  with sound show "\<exists>k. ticket_proposal (sv_db s) t = Some k \<and> proposal_state_in (sv_db s) k = Some PS_CONFIRMED"
    by (auto simp: ticket_proposal_def confirmed_actions_def)
next
  fix k
  have wf: "wf_db (sv_db s)" using reachable_confirmed [OF assms] by simp
  show "length (filter (\<lambda>t. ticket_proposal (sv_db s) t = Some k) (db_tickets (sv_db s))) \<le> 1"
    using wf same_proposal_same_ticket [OF wf] by (intro at_most_one [of ticket_table]) (simp_all add: wf_db_def)
qed

section \<open>What a message may do\<close>

text \<open>A relation that forbids the write and the action that precedes it.\<close>

definition proposes_at_most :: "app_state \<Rightarrow> app_state \<Rightarrow> bool" where
  "proposes_at_most s s' \<longleftrightarrow> db_tickets (sv_db s') = db_tickets (sv_db s) \<and> sv_fixtures s' = sv_fixtures s \<and>
     (wf_db (sv_db s) \<longrightarrow> wf_db (sv_db s') \<and> action_ids (sv_db s') = action_ids (sv_db s))"

interpretation proposes_at_most: handler_relation proposes_at_most
proof unfold_locales
  fix s :: app_state and n n' e v es
  assume e: "event_append (sv_events s) n n' e = Inr (v, es)"
  from event_append_touches [OF e] event_append_wf [OF e] show "proposes_at_most s (s\<lparr>sv_events := es\<rparr>)"
    by (auto simp: proposes_at_most_def action_ids_def sv_db_def)
qed (auto simp: proposes_at_most_def quiet_step_def dest: store_step_wf)

text \<open>C7. However a customer message is handled, be it a new request, an answer to a question or a parcel that is
  named, and however the handling ends, it writes no ticket, touches no fixture and creates no action: the most that
  a message can bring about is a proposal.\<close>

theorem message_proposes_at_most:
  assumes "wf_db (sv_db s)"
  shows "db_tickets (sv_db (snd (submit_message env (live env iv sc) k content s))) = db_tickets (sv_db s) \<and>
    sv_fixtures (snd (submit_message env (live env iv sc) k content s)) = sv_fixtures s \<and>
    map aer_action_id (db_actions (sv_db (snd (submit_message env (live env iv sc) k content s)))) =
      map aer_action_id (db_actions (sv_db s))"
proof -
  have "related proposes_at_most (submit_message env (live env iv sc) k content)"
    by (intro proposes_at_most.related_submit_message proposes_at_most.related_live)
  then have step: "proposes_at_most s (snd (submit_message env (live env iv sc) k content s))" by (simp add: related_def)
  then have "map fst (action_ids (sv_db (snd (submit_message env (live env iv sc) k content s)))) =
      map fst (action_ids (sv_db s))"
    using assms by (simp add: proposes_at_most_def)
  with step show ?thesis by (simp add: proposes_at_most_def action_ids_def comp_def)
qed

section \<open>What a retry may do\<close>

lemma start_retry_Inr:
  "start_retry env cid tid c action s = (Inr (rid, c', plan), s') \<Longrightarrow> c' = c \<and> (\<forall>a. plan = Resume a \<longrightarrow> action = Some a)"
  by (auto simp: start_retry_def bindA_Inr thenA_Inr split: option.splits)

lemma open_retry_Inr:
  assumes "open_retry env cid tid s = (Inr (rid, c, plan), s')"
  shows "\<exists>action. get_case (sv_db s) cid = Some c \<and>
    retryable_action c (list_actions (sv_db s) cid) = Inr action \<and> (\<forall>a. plan = Resume a \<longrightarrow> action = Some a)"
proof -
  from assms obtain c' s1 action s2 where
    1: "case_found cid s = (Inr c', s1)" and
    2: "read_db (\<lambda>d. retryable_action c' (list_actions d cid)) s1 = (Inr action, s2)" and
    3: "start_retry env cid tid c' action s2 = (Inr (rid, c, plan), s')"
    unfolding open_retry_def transaction_Inr bindA_Inr by blast
  from 1 have "get_case (sv_db s) cid = Some c'" "s1 = s" by (auto simp: case_found_def split: option.splits)
  with 2 start_retry_Inr [OF 3] show ?thesis by auto
qed

lemma retryable_action_Some:
  assumes "retryable_action c actions = Inr (Some a)"
  shows "icr_case_state c = ''awaiting_retry'' \<and> filter (\<lambda>b. aer_action_state b = ''failed_retryable'') actions = [a] \<and>
    (\<forall>b \<in> set actions. aer_action_state b \<noteq> ''submitted'' \<and> aer_action_state b \<noteq> ''uncertain'')"
  using assms by (auto simp: retryable_action_def list_ex_iff split: if_splits list.splits)

text \<open>A retry that wrote something: everything before its plan wrote nothing.\<close>

lemma retry_case_wrote:
  assumes run: "retry_case env sc cid s = (r, s')" and w: "wrote s s'"
  obtains tid rid c plan action s4 where "get_case (sv_db s) cid = Some c"
    and "retryable_action c (list_actions (sv_db s) cid) = Inr action" and "\<forall>a. plan = Resume a \<longrightarrow> action = Some a"
    and "same_tickets s s4" and "run_plan env sc tid rid c plan s4 = (r, s')" and "wrote s4 s'"
proof -
  from run w obtain tid s1 where
    1: "new_id_app env ''trc'' s = (Inr tid, s1)" and
    run1: "thenA (case_found cid) (bindA (open_retry env cid tid) (\<lambda>(run_id, c, plan).
      thenA (start_run env (icr_conversation_id c) run_id (Some cid)) (run_plan env sc tid run_id c plan))) s1 = (r, s')"
    and w1: "wrote s1 s'"
    unfolding retry_case_def by (elim wrote_bind) (rule same_tickets.related_new_id)
  have db1: "sv_db s1 = sv_db s" using 1 by (auto simp: new_id_app_def bindA_Inr uuid4_hex_def)
  have "related same_tickets (case_found cid)" by (simp add: case_found_def related_def same_tickets_def)
  from wrote_bind [OF run1 [unfolded thenA_def] this w1] obtain c0 s2 where 2: "case_found cid s1 = (Inr c0, s2)" and
    run2: "bindA (open_retry env cid tid) (\<lambda>(run_id, c, plan).
      thenA (start_run env (icr_conversation_id c) run_id (Some cid)) (run_plan env sc tid run_id c plan)) s2 = (r, s')"
    and w2: "wrote s2 s'"
    unfolding thenA_def by blast
  have s2: "s2 = s1" using 2 by (simp add: case_found_def)
  from run2 w2 obtain rid c plan s3 where 3: "open_retry env cid tid s2 = (Inr (rid, c, plan), s3)"
    and t3: "same_tickets s2 s3" and
    run3: "thenA (start_run env (icr_conversation_id c) rid (Some cid)) (run_plan env sc tid rid c plan) s3 = (r, s')"
    and w3: "wrote s3 s'"
    by (elim wrote_bind) (rule same_tickets.related_open_retry, auto)
  from run3 w3 obtain u s4 where t4: "same_tickets s3 s4" and run4: "run_plan env sc tid rid c plan s4 = (r, s')"
    and w4: "wrote s4 s'"
    unfolding thenA_def by (elim wrote_bind) (rule same_tickets.related_runs)
  from open_retry_Inr [OF 3] obtain action where "get_case (sv_db s) cid = Some c"
    and "retryable_action c (list_actions (sv_db s) cid) = Inr action" "\<forall>a. plan = Resume a \<longrightarrow> action = Some a"
    by (auto simp: s2 db1)
  moreover have "same_tickets s s4" using t3 t4 by (simp add: same_tickets_def s2 db1)
  ultimately show thesis using that run4 w4 by blast
qed

text \<open>A resumed action that wrote something wrote one ticket under its own key.\<close>

lemma resume_writes:
  assumes run: "run_plan env sc tid rid c (Resume a) s = (r, s')" and w: "wrote s s'"
  shows "\<exists>t. db_tickets (sv_db s') = db_tickets (sv_db s) @ [t] \<and> tkr_idempotency_key t = aer_idempotency_key a \<and>
    tkr_customer_id t = icr_customer_id c \<and> tkr_authorized_order_id t = icr_authorized_order_id c \<and>
    tkr_target_shipment_id t = icr_target_shipment_id c"
proof -
  have quiet_read: "related same_tickets (readA (\<lambda>_. resumed_args c a rid))"
    by (simp add: related_def readA_def same_tickets_def)
  from run have "bindA (readA (\<lambda>_. resumed_args c a rid)) (\<lambda>args.
      bindA (submit_and_verify_ticket_action env args) (\<lambda>r. returnA (Moved r))) s = (r, s')"
    by (simp add: run_plan_def)
  from wrote_bind [OF this quiet_read w] obtain args s5 where
    "readA (\<lambda>_. resumed_args c a rid) s = (Inr args, s5)" and
    run5: "bindA (submit_and_verify_ticket_action env args) (\<lambda>r. returnA (Moved r)) s5 = (r, s')" by blast
  then have args: "resumed_args c a rid = Inr args" and s5: "s5 = s" by (simp_all add: readA_def)
  have "writes_at_most args s s'"
    using relatedD [OF writes_bind [OF submit_writes same_tickets.related_return(1)] run5] by (simp add: s5)
  with w obtain t where "db_tickets (sv_db s') = db_tickets (sv_db s) @ [t]"
    "tkr_customer_id t = aa_customer_id args" "tkr_authorized_order_id t = aa_authorized_order_id args"
    "tkr_target_shipment_id t = aa_target_shipment_id args" "tkr_idempotency_key t = aa_idempotency_key args"
    by (auto simp: writes_at_most_def wrote_def)
  with args show ?thesis by (auto simp: resumed_args_def bindE_eq_Inr)
qed

text \<open>C6. A retry writes nothing, or exactly one ticket.  It writes one only when the case waited for a retry, no
  action of the case was submitted or uncertain, and exactly one had failed retryably: the ticket carries the
  idempotency key of that action and the order, parcel and customer of the case.\<close>

theorem retry_writes_only_for_failed_action:
  "db_tickets (sv_db (snd (retry_case env (live env iv sc) cid s))) = db_tickets (sv_db s) \<or>
    (\<exists>c a t. get_case (sv_db s) cid = Some c \<and> icr_case_state c = ''awaiting_retry'' \<and>
       filter (\<lambda>b. aer_action_state b = ''failed_retryable'') (list_actions (sv_db s) cid) = [a] \<and>
       (\<forall>b \<in> set (list_actions (sv_db s) cid). aer_action_state b \<notin> {''submitted'', ''uncertain''}) \<and>
       db_tickets (sv_db (snd (retry_case env (live env iv sc) cid s))) = db_tickets (sv_db s) @ [t] \<and>
       tkr_idempotency_key t = aer_idempotency_key a \<and> tkr_customer_id t = icr_customer_id c \<and>
       tkr_authorized_order_id t = icr_authorized_order_id c \<and>
       tkr_target_shipment_id t = icr_target_shipment_id c)"
proof -
  obtain r s' where run: "retry_case env (live env iv sc) cid s = (r, s')" by force
  show ?thesis
  proof (cases "wrote s s'")
    case True
    obtain tid rid c plan action s4 where
      c: "get_case (sv_db s) cid = Some c" and act: "retryable_action c (list_actions (sv_db s) cid) = Inr action"
      and res: "\<forall>a. plan = Resume a \<longrightarrow> action = Some a" and same: "same_tickets s s4"
      and run4: "run_plan env (live env iv sc) tid rid c plan s4 = (r, s')" and w4: "wrote s4 s'"
      by (rule retry_case_wrote [OF run True]) (rule that, assumption+)
    show ?thesis
    proof (cases plan)
      case (Resume a)
      with res act have failed: "retryable_action c (list_actions (sv_db s) cid) = Inr (Some a)" by simp
      from resume_writes [OF run4 [unfolded Resume] w4] same obtain t where
        "db_tickets (sv_db s') = db_tickets (sv_db s) @ [t]" "tkr_idempotency_key t = aer_idempotency_key a"
        "tkr_customer_id t = icr_customer_id c" "tkr_authorized_order_id t = icr_authorized_order_id c"
        "tkr_target_shipment_id t = icr_target_shipment_id c" by (auto simp: same_tickets_def)
      with retryable_action_Some [OF failed] c show ?thesis unfolding run snd_conv by auto
    next
      case (Reinvestigate scope message)
      have "related same_tickets (run_plan env (live env iv sc) tid rid c plan)"
        unfolding run_plan_def Reinvestigate
        by (simp, intro same_tickets.related_parts same_tickets.related_investigate_case same_tickets.related_facts
            same_tickets.related_live)
      from relatedD [OF this run4] w4 show ?thesis by (simp add: wrote_def)
    qed
  qed (simp add: run wrote_def same_tickets_def)
qed

section \<open>Sample runs\<close>

text \<open>A live model that is out of reach: neither the selector nor the triage answers.\<close>

definition offline_services :: services where
  "offline_services = \<lparr>sc_investigate = (\<lambda>_. raiseA (RuntimeError ''offline'')),
    sc_parse_candidate = (\<lambda>_. Inl (RuntimeError ''offline'')),
    sc_live_triage = (\<lambda>_ _. Inl (RuntimeError ''offline'')),
    sc_word = is_ascii_digit, sc_digit = is_ascii_digit, sc_llm_mode = ''live'', sc_max_message_chars = 2000,
    sc_max_business_clarifications = 2\<rparr>"

definition offline :: services where
  "offline = live demo_env offline_investigator offline_services"

definition first_state :: app_state where
  "first_state = waiting_state\<lparr>sv_events := \<lparr>es_db = empty_database, es_hub = []\<rparr>\<rparr>"

definition talked_state :: app_state where
  "talked_state = snd (submit_message demo_env offline ''conv_1'' (text_of ''hello'')
     (snd (create_conversation_handler demo_env offline ''demo'' first_state)))"

lemma talked_state_reachable: "reachable_app demo_env offline talked_state"
proof -
  let ?s = "snd (create_conversation_handler demo_env offline ''demo'' first_state)"
  have "app_step demo_env offline first_state ?s"
    by (rule app_step.conversation) (rule prod.collapse [symmetric])
  moreover have "app_step demo_env offline ?s talked_state"
    unfolding talked_state_def by (rule app_step.message) (rule prod.collapse [symmetric])
  moreover have "sv_db first_state = empty_database" by (simp add: first_state_def sv_db_def)
  ultimately show ?thesis unfolding reachable_app_def by (blast intro: rtranclp.rtrancl_into_rtrancl)
qed

theorem every_ticket_was_confirmed_once_witness:
  "\<forall>k. length (filter (\<lambda>t. ticket_proposal (sv_db talked_state) t = Some k) (db_tickets (sv_db talked_state))) \<le> 1"
  using every_ticket_was_confirmed_once [OF talked_state_reachable [unfolded offline_def]] by blast

theorem message_proposes_at_most_witness:
  "sv_fixtures (snd (submit_message demo_env (live demo_env offline_investigator offline_services) ''conv_1''
     (text_of ''hello'') waiting_state)) = sv_fixtures waiting_state"
  using message_proposes_at_most [of waiting_state] waiting_database_wf by (simp add: waiting_state_db)

theorem retry_writes_only_for_failed_action_witness:
  "db_tickets (sv_db (snd (retry_case demo_env (live demo_env offline_investigator offline_services) ''case_1''
     waiting_state))) = [] \<or> (\<exists>c. get_case waiting_database ''case_1'' = Some c \<and> icr_case_state c = ''awaiting_retry'')"
  using retry_writes_only_for_failed_action [of demo_env offline_investigator offline_services "''case_1''" waiting_state]
  by (auto simp: waiting_state_db waiting_database_def empty_database_def)

theorem requests_keep_database_sound_witness:
  "sound_after waiting_state (snd (decline_proposal demo_env ''prop_1'' 1 waiting_state))"
  by (rule requests_keep_database_sound [where sc = offline_services and iv = offline_investigator and env = demo_env,
        OF app_step.decline [OF prod.collapse [symmetric]]])
    (simp_all add: waiting_state_db waiting_database_wf waiting_database_numbered)

end
