(* ===== verification/RecordedReads.thy ===== *)
theory RecordedReads
  imports InvestigationFacts
begin

text \<open>
  The budget of an investigation and its durable records: every metered source read leaves one row of the case that
  is marked as an actual execution, and nothing else does.

  \<^item> \<open>recorded_relation\<close> is a relation that appended events and whole persisted calls respect; a call of the graph
    always has an identifier, so its row is new.
  \<^item> \<open>adds_calls t\<close> holds when the tool calls of a state are the earlier ones, unchanged, followed by calls of the
    case and run of \<open>t\<close>.
\<close>

section \<open>Rows of actual reads\<close>

definition actual_reads :: "database \<Rightarrow> string \<Rightarrow> nat" where
  "actual_reads d case_id = length (filter tcr_actual_execution (list_tool_calls d (Some case_id) None))"

lemma length_filter_sort: "length (filter P (sort_key k xs)) = length (filter P xs)"
  by (metis mset_filter mset_sort size_mset)

lemma actual_reads_rows:
  "actual_reads d case_id = length (filter (\<lambda>r. tcr_actual_execution r \<and> tcr_case_id r = case_id) (db_tool_calls d))"
  unfolding actual_reads_def list_tool_calls_def length_filter_sort
  by (auto intro!: arg_cong [where f = length] filter_cong)

definition same_calls :: "app_state \<Rightarrow> app_state \<Rightarrow> bool" where
  "same_calls s s' \<longleftrightarrow> db_tool_calls (sv_db s') = db_tool_calls (sv_db s)"

interpretation same_calls: logging_relation same_calls
proof unfold_locales
  fix s :: app_state and n n' e v es
  assume "event_append (sv_events s) n n' e = Inr (v, es)"
  from event_append_touches [OF this] show "same_calls s (s\<lparr>sv_events := es\<rparr>)" by (auto simp: same_calls_def sv_db_def)
qed (simp_all add: same_calls_def)

lemma same_calls_reads: "related same_calls m \<Longrightarrow> m s = (r, s') \<Longrightarrow> actual_reads (sv_db s') k = actual_reads (sv_db s) k"
  by (drule (1) relatedD) (simp add: same_calls_def actual_reads_rows)

section \<open>One call\<close>

text \<open>Creating and completing the row of a call appends it.\<close>

lemma complete_new_call:
  assumes c: "create_tool_call d f n k cid rid tool args pt (Some i) an ae ch b w = Inr (row, d1)"
    and u: "complete_tool_call d1 now' i st ev re rh sv ec rt w' = Inr (row', d2)" and "i \<noteq> []"
  shows "\<exists>row'. db_tool_calls d2 = db_tool_calls d @ [row'] \<and> tcr_case_id row' = cid \<and> tcr_run_id row' = rid \<and>
    tcr_actual_execution row' = ae"
proof -
  from c assms(3) obtain rows where key: "tcr_tool_call_id row = i" "tcr_case_id row = cid" "tcr_run_id row = rid"
      "tcr_actual_execution row = ae"
    and rows: "insert_row tool_call_table (refs_tool_call d row) (db_tool_calls d) row = Inr rows"
    and d1: "d1 = d\<lparr>db_tool_calls := rows\<rparr>"
    by (auto simp: create_tool_call_def insert_tool_call_def bindE_eq_Inr Let_def str_or_def truthy_def)
  have new: "\<forall>q \<in> set (db_tool_calls d). tcr_tool_call_id q \<noteq> i" and rows': "rows = db_tool_calls d @ [row]"
    using rows key by (auto simp: insert_row_Inr clash_def tool_call_table_def)
  have stored: "get_tool_call d1 i = Some row"
    using get_row_insert [OF rows, of i] key by (simp add: get_tool_call_def d1 tool_call_table_def)
  have r': "tcr_tool_call_id row' = i" "tcr_case_id row' = cid" "tcr_run_id row' = rid" "tcr_actual_execution row' = ae"
    and upd: "update_tool_call_row d1 row' = Inr d2"
    using u by (auto simp: complete_tool_call_def stored require_row_def bindE_eq_Inr Let_def key split: if_splits)
  have "map (\<lambda>q. if tcr_tool_call_id q = i then row' else q) (db_tool_calls d) = db_tool_calls d"
    using new by (intro map_idI) auto
  with upd r' key rows' have "db_tool_calls d2 = db_tool_calls d @ [row']"
    by (auto simp: update_tool_call_row_def update_row_Inr bindE_eq_Inr d1 tool_call_table_def)
  with r' show ?thesis by blast
qed

lemma persist_call_row:
  assumes "persist_call env t tool args c r s = (Inr row, s')" and "cl_call_id c \<noteq> []"
  shows "\<exists>row'. db_tool_calls (sv_db s') = db_tool_calls (sv_db s) @ [row'] \<and> tcr_case_id row' = tc_case_id t \<and>
    tcr_run_id row' = tc_run_id t \<and> tcr_actual_execution row' = actual_call c"
proof -
  from assms(1) obtain x s1 where
    1: "repo env (\<lambda>now d. create_tool_call d [] now (tc_conversation_id t) (tc_case_id t) (tc_run_id t) tool
          (JObj args) (turn_of_call c) (Some (cl_call_id c)) (cl_attempt c) (actual_call c) (cache_hit_call c r)
          (blocked_call c r) None) s = (Inr x, s1)" and
    2: "repo env (\<lambda>now d. complete_tool_call d now (cl_call_id c) (execution_status_value (tr_execution_status r))
          (evidence_availability_value (tr_evidence_availability r)) (Some (dumped r)) (Some (tr_result_hash r))
          (Some (cl_version c)) (tr_error_code r) (tr_retryable r) None) s1 = (Inr row, s')"
    unfolding persist_call_def transaction_Inr thenA_Inr by blast
  from repo_Inr [OF 1] obtain n where
    c: "create_tool_call (sv_db s) [] n (tc_conversation_id t) (tc_case_id t) (tc_run_id t) tool (JObj args)
      (turn_of_call c) (Some (cl_call_id c)) (cl_attempt c) (actual_call c) (cache_hit_call c r) (blocked_call c r) None =
      Inr (x, sv_db s1)" by auto
  from repo_Inr [OF 2] obtain n' where
    u: "complete_tool_call (sv_db s1) n' (cl_call_id c) (execution_status_value (tr_execution_status r))
      (evidence_availability_value (tr_evidence_availability r)) (Some (dumped r)) (Some (tr_result_hash r))
      (Some (cl_version c)) (tr_error_code r) (tr_retryable r) None = Inr (row, sv_db s')" by auto
  from complete_new_call [OF c u assms(2)] show ?thesis by blast
qed

lemma persist_call_reads:
  assumes "persist_call env t tool args c r s = (Inr row, s')" and "cl_call_id c \<noteq> []"
  shows "actual_reads (sv_db s') (tc_case_id t) = actual_reads (sv_db s) (tc_case_id t) + (if actual_call c then 1 else 0)"
  using persist_call_row [OF assms] by (auto simp: actual_reads_rows)

lemma governed_call_reads:
  assumes "governed_call env iv t b tool args s = (Inr (r, b'), s')"
  shows "b' = b \<or> record_actual_execution b = Inr b'" and "sv_db s' = sv_db s"
proof -
  let ?hx = "hashing_of env iv"
  have "gx_budget (snd (execute_result ?hx (executor_of env iv t b s) tool args)) = b \<or>
      record_actual_execution b = Inr (gx_budget (snd (execute_result ?hx (executor_of env iv t b s) tool args)))"
    by (rule execute_cases [of ?hx "executor_of env iv t b s" tool args])
      (auto simp: executor_of_def split: sum.split)
  then show "b' = b \<or> record_actual_execution b = Inr b'" and "sv_db s' = sv_db s"
    using assms by (auto simp: governed_call_def bindE_eq_Inr split: prod.splits)
qed

text \<open>A traced call adds as many rows of actual reads as it spends.\<close>

lemma execute_traced_reads:
  assumes "execute_traced env iv t call_id tool args b tr co s = (Inr (b', tr', co'), s')" and "call_id \<noteq> []"
  shows "int (actual_reads (sv_db s') (tc_case_id t)) - int (actual_reads (sv_db s) (tc_case_id t)) =
    tb_actual_read_tool_executions b' - tb_actual_read_tool_executions b"
proof -
  let ?n = "\<lambda>s. actual_reads (sv_db s) (tc_case_id t)"
  from assms(1) obtain u s1 r b1 s2 version s3 call s4 where
    1: "announce_call env iv t tool args s = (Inr u, s1)" and
    2: "governed_call env iv t b tool args s1 = (Inr (r, b1), s2)" and
    3: "readA (\<lambda>s. current_source_revision env (sv_fixtures s) (tc_authorized_order_id t) tool) s2 = (Inr version, s3)" and
    4: "trace_call env t tool args \<lparr>cl_call_id = call_id, cl_attempt = attempts_of tr tool + 1, cl_before = b,
          cl_after = b1, cl_version = version\<rparr> r s3 = (Inr call, s4)" and
    5: "on_tool_result env iv t b1 call r (to_evidence_refs r call_id) co s4 = (Inr co', s')" and b': "b' = b1"
    unfolding execute_traced_def Let_def thenA_Inr bindA_Inr by (auto simp: bindA_Inr)
  let ?c = "\<lparr>cl_call_id = call_id, cl_attempt = attempts_of tr tool + 1, cl_before = b, cl_after = b1, cl_version = version\<rparr>"
  from 4 obtain row s5 v s6 where
    6: "persist_call env t tool args ?c r s3 = (Inr row, s5)" and
    7: "emit_with env (to_evidence_refs r (cl_call_id ?c)) (tc_conversation_id t) (Some (tc_case_id t)) (Some (tc_run_id t))
      (call_event_type ?c r) ''developer''
      (text_of (tool @ '' returned '' @ evidence_availability_value (tr_evidence_availability r)))
      (call_payload tool ?c r) s5 = (Inr v, s6)" and
    8: "bindA (utc_now env) (\<lambda>now. returnA (record_of tool args ?c r now)) s6 = (Inr call, s4)"
    unfolding trace_call_def thenA_Inr by blast
  have "related same_calls (announce_call env iv t tool args)"
    unfolding announce_call_def by (auto intro!: same_calls.related_basic same_calls.related_trace_event)
  from same_calls_reads [OF this 1] governed_call_reads(2) [OF 2] 3 have start: "?n s3 = ?n s" by auto
  have "related same_calls (bindA (utc_now env) (\<lambda>now. returnA (record_of tool args ?c r now)))"
    by (intro same_calls.related_basic)
  from same_calls_reads [OF this 8] same_calls_reads [OF same_calls.related_emit [OF same_calls.logged] 7]
    same_calls_reads [OF same_calls.related_on_tool_result 5]
  have finish: "?n s' = ?n s5" by simp
  have "?n s5 = ?n s3 + (if actual_call ?c then 1 else 0)"
    using persist_call_reads [OF 6] assms(2) by simp
  moreover from governed_call_reads(1) [OF 2]
  have "tb_actual_read_tool_executions b1 - tb_actual_read_tool_executions b = (if actual_call ?c then 1 else 0)"
    by (auto simp: actual_call_def record_actual_execution_def split: if_splits)
  ultimately show ?thesis using start finish b' by simp
qed

section \<open>The whole loop\<close>

text \<open>The reads that a part of the loop has spent and the rows it has added.\<close>

definition accounted :: "trusted_context \<Rightarrow> graph \<Rightarrow> app_state \<Rightarrow> graph \<Rightarrow> app_state \<Rightarrow> bool" where
  "accounted t g s g' s' \<longleftrightarrow>
     int (actual_reads (sv_db s') (tc_case_id t)) - int (actual_reads (sv_db s) (tc_case_id t)) =
     tb_actual_read_tool_executions (gh_budget g') - tb_actual_read_tool_executions (gh_budget g)"

lemma call_model_reads:
  "yields (\<lambda>g'. tb_actual_read_tool_executions (gh_budget g') = tb_actual_read_tool_executions (gh_budget g))
    (call_model env iv t message facts g)"
proof -
  have planned: "yields (\<lambda>g'. tb_actual_read_tool_executions (gh_budget g') = tb_actual_read_tool_executions (gh_budget g))
      (planned_turn env iv t message facts g)" for g
    unfolding planned_turn_def Let_def
    by (auto intro!: yields_intros yields_skip simp: record_planning_turn_def split: error.split sum.split if_splits)
  show ?thesis unfolding call_model_def
    by (rule yields_skip) (auto intro!: yields_return yields_mono [OF planned])
qed

lemma graph_step_accounted:
  assumes "graph_step env iv t message facts g s = (Inr g', s')" and "sound_graph g"
  shows "accounted t g s g' s'"
proof (cases "gh_node g")
  case At_Agent
  with assms(1) have step: "call_model env iv t message facts g s = (Inr g', s')" by (simp add: graph_step_def)
  have "related same_calls (call_model env iv t message facts g)"
    unfolding call_model_def planned_turn_def Let_def
    by (auto intro!: same_calls.related_basic same_calls.related_before_selector same_calls.related_trace_event
        same_calls.related_select_observation split: sum.split error.split)
  from same_calls_reads [OF this step] yieldsD [OF call_model_reads step] show ?thesis by (simp add: accounted_def)
next
  case (At_Tools i tool args)
  with assms have "i \<noteq> []" by (simp add: sound_graph_def)
  with assms(1) At_Tools show ?thesis
    by (auto simp: graph_step_def tool_step_def accounted_def bindA_Inr split: if_splits dest!: execute_traced_reads)
qed (use assms in \<open>auto simp: graph_step_def accounted_def\<close>)

lemma run_graph_accounted:
  "run_graph env iv t message facts limit g s = (Inr g', s') \<Longrightarrow> sound_graph g \<Longrightarrow> accounted t g s g' s'"
proof (induction limit arbitrary: g s)
  case 0
  then show ?case by (simp add: run_graph.simps accounted_def split: if_splits)
next
  case (Suc n)
  show ?case
  proof (cases "gh_node g = At_End")
    case False
    with Suc.prems(1) obtain g1 s1 where step: "graph_step env iv t message facts g s = (Inr g1, s1)"
      and rest: "run_graph env iv t message facts n g1 s1 = (Inr g', s')"
      by (auto simp: run_graph.simps bindA_Inr)
    have "sound_graph g1" using yieldsD [OF graph_step_sound [OF Suc.prems(2) False] step] by simp
    with Suc.IH [OF rest] graph_step_accounted [OF step Suc.prems(2)] show ?thesis by (simp add: accounted_def)
  qed (use Suc.prems in \<open>simp add: run_graph.simps accounted_def\<close>)
qed

section \<open>What an investigation leaves\<close>

lemma investigate_run:
  assumes "investigate env iv a s = (Inr out, s')"
  obtains case_turns run_turns reads b and g :: graph where
    "history_budget (sv_db s) a = (case_turns, run_turns, reads)"
    "tool_budget_init case_turns run_turns reads = Inr b"
    "wf_budget (gh_budget g)" "later_budget b (gh_budget g)"
    "int (actual_reads (sv_db s') (tc_case_id (nv_trusted a))) =
       int (actual_reads (sv_db s) (tc_case_id (nv_trusted a))) + (tb_actual_read_tool_executions (gh_budget g) - reads)"
    "io_planning_turns out = tb_run_planning_turns (gh_budget g)"
    "io_case_planning_turns out = tb_case_planning_turns (gh_budget g)"
    "io_run_read_tool_executions out = tb_actual_read_tool_executions (gh_budget g) - reads"
    "io_actual_read_tool_executions out = tb_actual_read_tool_executions (gh_budget g)"
proof -
  let ?t = "nv_trusted a"
  from assms obtain case_turns run_turns reads b co s1 g s2 where
    history: "history_budget (sv_db s) a = (case_turns, run_turns, reads)" and
    b: "tool_budget_init case_turns run_turns reads = Inr b" and
    co: "coordinator_init env iv ?t s = (Inr co, s1)" and
    run: "run_graph env iv ?t (nv_customer_message a) (nv_case_fact_snapshot a) (iv_recursion_limit iv)
       \<lparr>gh_node = At_Agent, gh_planning_turns = 0, gh_budget_exhausted = False, gh_budget = b,
        gh_tracer = tracer_init co, gh_coordinator = co\<rparr> s1 = (Inr g, s2)" and
    conclude: "conclude_investigation env iv a reads g s2 = (Inr out, s')"
    by (auto simp: investigate_def investigate_within_def Let_def bindA_Inr split: prod.splits)
  let ?g = "\<lparr>gh_node = At_Agent, gh_planning_turns = 0, gh_budget_exhausted = False, gh_budget = b,
    gh_tracer = tracer_init co, gh_coordinator = co\<rparr>"
  have reads: "tb_actual_read_tool_executions b = reads" using b by (auto simp: tool_budget_init_def split: if_splits)
  have sound: "sound_graph ?g"
    using initial_graph_sound [OF wf_budget_init [OF b] yieldsD [OF coordinator_init_pending co]] by simp
  from run_graph_accounted [OF run sound] same_calls_reads [OF same_calls.related_coordinator_init co]
    same_calls_reads [OF same_calls.related_conclude_investigation conclude]
  have rows: "int (actual_reads (sv_db s') (tc_case_id ?t)) =
      int (actual_reads (sv_db s) (tc_case_id ?t)) + (tb_actual_read_tool_executions (gh_budget g) - reads)"
    by (simp add: accounted_def reads)
  have later: "sound_graph g \<and> later_budget b (gh_budget g)"
    using yieldsD [OF run_graph_sound [OF sound] run] by simp
  have "yields (\<lambda>out. io_planning_turns out = tb_run_planning_turns (gh_budget g) \<and>
      io_case_planning_turns out = tb_case_planning_turns (gh_budget g) \<and>
      io_run_read_tool_executions out = tb_actual_read_tool_executions (gh_budget g) - reads \<and>
      io_actual_read_tool_executions out = tb_actual_read_tool_executions (gh_budget g))
    (conclude_investigation env iv a reads g)"
    unfolding conclude_investigation_def Let_def by (intro yields_skip yields_return) simp
  from yieldsD [OF this conclude] later rows history b show thesis
    by (intro that [of case_turns run_turns reads b g]) (auto simp: sound_graph_def)
qed

lemma most_bounds: "list_all (\<lambda>r. f r \<le> foldl max (n :: int) (map f rows)) rows \<and> n \<le> foldl max n (map f rows)"
proof (induction rows arbitrary: n)
  case (Cons r rows)
  from Cons [of "max n (f r)"] show ?case by simp
qed simp

lemma list_all_upto: "list_all (\<lambda>r. f r \<le> m) rows \<Longrightarrow> m \<le> n \<Longrightarrow> list_all (\<lambda>r. f r \<le> (n :: int)) rows"
  by (erule list.pred_mono_strong) simp

text \<open>The budget that an investigation starts from covers what is recorded and what its caller says.\<close>

lemma history_budget_covers:
  assumes "history_budget d a = (case_turns, run_turns, reads)"
  shows "list_all (\<lambda>r. tcr_planning_turn r \<le> case_turns) (list_tool_calls d (Some (tc_case_id (nv_trusted a))) None)"
    and "list_all (\<lambda>r. tcr_planning_turn r \<le> run_turns) (list_tool_calls d None (Some (tc_run_id (nv_trusted a))))"
    and "int (actual_reads d (tc_case_id (nv_trusted a))) \<le> reads"
    and "nv_case_planning_turns a \<le> case_turns" "nv_run_planning_turns a \<le> run_turns" "nv_case_read_executions a \<le> reads"
proof -
  let ?case = "list_tool_calls d (Some (tc_case_id (nv_trusted a))) None"
  let ?run = "list_tool_calls d None (Some (tc_run_id (nv_trusted a)))"
  from assms have eqs: "case_turns = max (nv_case_planning_turns a) (foldl max 0 (map tcr_planning_turn ?case))"
    "run_turns = max (nv_run_planning_turns a) (foldl max 0 (map tcr_planning_turn ?run))"
    "reads = max (nv_case_read_executions a) (int (actual_reads d (tc_case_id (nv_trusted a))))"
    by (simp_all add: history_budget_def Let_def actual_reads_def)
  show "list_all (\<lambda>r. tcr_planning_turn r \<le> case_turns) ?case"
    by (rule list_all_upto [OF conjunct1 [OF most_bounds [of tcr_planning_turn 0 ?case]]]) (simp add: eqs)
  show "list_all (\<lambda>r. tcr_planning_turn r \<le> run_turns) ?run"
    by (rule list_all_upto [OF conjunct1 [OF most_bounds [of tcr_planning_turn 0 ?run]]]) (simp add: eqs)
qed (use assms in \<open>auto simp: history_budget_def Let_def actual_reads_def\<close>)

text \<open>C4. The budget of an investigation is what its durable records say: the rows of the case that are marked as
  actual executions grow by exactly the reads that the investigation reports for its run.\<close>

theorem metered_reads_are_recorded:
  "case investigate env iv a s of
     (Inl _, _) \<Rightarrow> True
   | (Inr out, s') \<Rightarrow> int (actual_reads (sv_db s') (tc_case_id (nv_trusted a))) =
       int (actual_reads (sv_db s) (tc_case_id (nv_trusted a))) + io_run_read_tool_executions out"
proof (cases "investigate env iv a s")
  case (Pair r s')
  then show ?thesis
  proof (cases r)
    case (Inr out)
    show ?thesis
      by (rule investigate_run [OF Pair [unfolded Inr]]) (simp add: Pair Inr)
  qed simp
qed

text \<open>C9. Whenever an investigation answers, its case and its run have stayed within their budget, everything that
  happened before it counted.  The source reads that are recorded for the case by then, those of earlier
  investigations included, are at most the reads it reports, which are at most 6; the planning turns it reports are
  at most 8 for the run and 16 for the case, and no recorded call of the run or of the case has a later turn.  None of
  the three is less than what the caller passed in.\<close>

theorem investigation_stays_within_budget:
  "case investigate env iv a s of
     (Inl _, _) \<Rightarrow> True
   | (Inr out, s') \<Rightarrow>
       int (actual_reads (sv_db s') (tc_case_id (nv_trusted a))) \<le> io_actual_read_tool_executions out \<and>
       io_actual_read_tool_executions out \<le> 6 \<and>
       list_all (\<lambda>r. tcr_planning_turn r \<le> io_case_planning_turns out)
         (list_tool_calls (sv_db s) (Some (tc_case_id (nv_trusted a))) None) \<and>
       io_case_planning_turns out \<le> 16 \<and>
       list_all (\<lambda>r. tcr_planning_turn r \<le> io_planning_turns out)
         (list_tool_calls (sv_db s) None (Some (tc_run_id (nv_trusted a)))) \<and>
       io_planning_turns out \<le> 8 \<and>
       nv_case_read_executions a \<le> io_actual_read_tool_executions out \<and>
       nv_case_planning_turns a \<le> io_case_planning_turns out \<and> nv_run_planning_turns a \<le> io_planning_turns out"
proof (cases "investigate env iv a s")
  case (Pair r s')
  then show ?thesis
  proof (cases r)
    case (Inr out)
    show ?thesis
    proof (cases rule: investigate_run [OF Pair [unfolded Inr]])
      case (1 case_turns run_turns reads b g)
      have b: "tb_case_planning_turns b = case_turns \<and> tb_run_planning_turns b = run_turns \<and>
          tb_actual_read_tool_executions b = reads"
        using 1(2) by (auto simp: tool_budget_init_def split: if_splits)
      note covers = history_budget_covers [OF 1(1)]
      from b 1(4) have "case_turns \<le> io_case_planning_turns out" "run_turns \<le> io_planning_turns out"
        "reads \<le> io_actual_read_tool_executions out"
        by (simp_all add: 1(6,7,9) later_budget_def)
      with covers 1(3,5,6,7,9) list_all_upto [OF covers(1)] list_all_upto [OF covers(2)] show ?thesis
        by (simp add: Pair Inr wf_budget_def budget_limits)
    qed
  qed simp
qed

section \<open>The rows of an investigation\<close>

locale recorded_relation = logging_relation +
  fixes t :: trusted_context
  assumes persisted: "cl_call_id c \<noteq> [] \<Longrightarrow> related R (persist_call env t tool args c r)"
begin

lemma related_bind_yields:
  assumes "related R m" and "yields P m" and "\<And>x. P x \<Longrightarrow> related R (f x)"
  shows "related R (bindA m f)"
  unfolding related_def
proof
  fix s
  obtain r s1 where m: "m s = (r, s1)" by force
  from relatedD [OF assms(1) m] show "R s (snd (bindA m f s))"
  proof (cases r)
    case (Inr x)
    then have "R s1 (snd (f x s1))" using assms(3) [of x] yieldsD [OF assms(2)] m by (simp add: related_def)
    with \<open>R s s1\<close> Inr show ?thesis by (auto simp: bindA_def m intro: trans)
  qed (simp add: bindA_def m)
qed

lemma related_recorded_call: "call_id \<noteq> [] \<Longrightarrow> related R (execute_traced env iv t call_id tool args b tr co)"
  unfolding execute_traced_def announce_call_def trace_call_def Let_def
  by (auto intro!: related_basic related_trace_event related_governed_call persisted related_emit logged
      related_on_tool_result)

lemma related_recorded_step:
  assumes "sound_graph g"
  shows "related R (graph_step env iv t message facts g)"
proof (cases "gh_node g")
  case (At_Tools i tool args)
  with assms have "i \<noteq> []" by (simp add: sound_graph_def)
  then show ?thesis
    by (auto simp: graph_step_def tool_step_def At_Tools intro!: related_basic related_recorded_call)
qed (auto simp: graph_step_def call_model_def planned_turn_def Let_def
    intro!: related_basic related_before_selector related_trace_event related_select_observation split: sum.split error.split)

lemma related_recorded_graph: "sound_graph g \<Longrightarrow> related R (run_graph env iv t message facts limit g)"
proof (induction limit arbitrary: g)
  case 0
  then show ?case by (simp add: run_graph.simps related_return)
next
  case (Suc n)
  show ?case
  proof (cases "gh_node g = At_End")
    case False
    then have "related R (bindA (graph_step env iv t message facts g) (run_graph env iv t message facts n))"
      using Suc.IH by (intro related_bind_yields [OF related_recorded_step [OF Suc.prems]
          graph_step_sound [OF Suc.prems False]]) simp
    with False show ?thesis by (simp add: run_graph.simps)
  next
    case True
    then have "run_graph env iv t message facts (Suc n) g = returnA g" by (simp add: run_graph.simps)
    then show ?thesis by (simp only: related_return)
  qed
qed

lemma related_investigation:
  assumes "nv_trusted a = t"
  shows "related R (investigate env iv a)"
  unfolding investigate_def investigate_within_def Let_def split_def assms
  by (rule related_bind [OF related_return(4)], rule related_bind_yields [OF related_return(3) initial_budget],
      rule related_bind_yields [OF related_coordinator_init coordinator_init_pending],
      rule related_bind [OF related_return(3)], rule related_bind [OF related_recorded_graph related_conclude_investigation],
      rule conjunct1, rule initial_graph_sound) simp_all

end

definition adds_calls :: "trusted_context \<Rightarrow> app_state \<Rightarrow> app_state \<Rightarrow> bool" where
  "adds_calls t s s' \<longleftrightarrow> (\<exists>rows. db_tool_calls (sv_db s') = db_tool_calls (sv_db s) @ rows \<and>
     list_all (\<lambda>r. tcr_case_id r = tc_case_id t \<and> tcr_run_id r = tc_run_id t) rows)"

lemma adds_calls_same: "db_tool_calls (sv_db s') = db_tool_calls (sv_db s) \<Longrightarrow> adds_calls t s s'"
  by (simp add: adds_calls_def)

lemma persist_call_failed:
  assumes "persist_call env t tool args c r s = (Inl e, s')"
  shows "sv_db s' = sv_db s"
  using assms unfolding persist_call_def by (auto simp: transaction_def split: prod.splits sum.splits)

lemma persist_call_adds:
  assumes "cl_call_id c \<noteq> []"
  shows "adds_calls t s (snd (persist_call env t tool args c r s))"
proof (cases "persist_call env t tool args c r s")
  case (Pair x s')
  show ?thesis
  proof (cases x)
    case (Inl e)
    with Pair show ?thesis by (simp add: adds_calls_same persist_call_failed)
  next
    case (Inr row)
    with persist_call_row [OF Pair [unfolded Inr] assms] Pair show ?thesis by (auto simp: adds_calls_def)
  qed
qed

interpretation adds_calls: recorded_relation "adds_calls t" t for t
proof unfold_locales
  fix s s' s'' :: app_state
  assume "adds_calls t s s'" "adds_calls t s' s''"
  then show "adds_calls t s s''" by (auto simp: adds_calls_def)
next
  fix s :: app_state and n n' e v es
  assume "event_append (sv_events s) n n' e = Inr (v, es)"
  from event_append_touches [OF this] show "adds_calls t s (s\<lparr>sv_events := es\<rparr>)"
    by (auto simp: sv_db_def intro: adds_calls_same)
next
  fix c :: call_facts and env tool args r
  assume "cl_call_id c \<noteq> []"
  then show "related (adds_calls t) (persist_call env t tool args c r)" by (simp add: related_def persist_call_adds)
qed (auto intro: adds_calls_same)

text \<open>C10. An investigation only logs: whatever it does and however it ends, the fixtures and every row of the database
  stay as they are, except that calls of its case and run are appended to the tool calls, events are appended to the
  log, and the conversations have later event counters and times of change, and nothing else.\<close>

theorem investigation_only_logs:
  assumes "wf_db (sv_db s)"
  shows "sv_fixtures (snd (investigate env iv a s)) = sv_fixtures s \<and>
    (\<exists>conversations calls events. sv_db (snd (investigate env iv a s)) =
        (sv_db s)\<lparr>db_conversations := conversations, db_tool_calls := db_tool_calls (sv_db s) @ calls,
          db_events := db_events (sv_db s) @ events\<rparr> \<and>
       list_all2 counted (db_conversations (sv_db s)) conversations \<and>
       list_all (\<lambda>r. tcr_case_id r = tc_case_id (nv_trusted a) \<and> tcr_run_id r = tc_run_id (nv_trusted a)) calls)"
proof -
  let ?s = "snd (investigate env iv a s)"
  have rest: "same_records s ?s"
    using same_records.related_live_investigation [of env iv a] by (simp add: related_def)
  from adds_calls.related_investigation [OF refl, of a env iv] obtain calls where
    calls: "db_tool_calls (sv_db ?s) = db_tool_calls (sv_db s) @ calls"
      "list_all (\<lambda>r. tcr_case_id r = tc_case_id (nv_trusted a) \<and> tcr_run_id r = tc_run_id (nv_trusted a)) calls"
    by (auto simp: related_def adds_calls_def)
  from rest obtain cs ts es rows where
    frame: "sv_db ?s = (sv_db s)\<lparr>db_conversations := cs, db_tool_calls := ts, db_events := es\<rparr>" and
    rows: "db_events (sv_db ?s) = db_events (sv_db s) @ rows" and fixtures: "sv_fixtures ?s = sv_fixtures s"
    by (auto simp: same_records_def)
  from rest assms have "list_all2 counted (db_conversations (sv_db s)) (db_conversations (sv_db ?s))"
    by (simp add: same_records_def)
  with frame rows calls fixtures show ?thesis
    by (intro conjI exI [of _ cs] exI [of _ calls] exI [of _ rows]) simp_all
qed

text \<open>An investigation of the sample case, whatever facts are known of it, with a model that is out of reach.\<close>

definition offline_args :: "fact_snapshot \<Rightarrow> investigation_args" where
  "offline_args facts = \<lparr>nv_trusted = sample_trusted\<lparr>tc_conversation_id := ''conv_1'', tc_case_id := ''case_1''\<rparr>,
     nv_customer_message = [], nv_case_planning_turns = 0, nv_run_planning_turns = 0, nv_case_read_executions = 0,
     nv_investigation_pass = 0, nv_customer_still_reports_missing = False, nv_reception_locations_checked = False,
     nv_delivery_location_conflict = False, nv_case_fact_snapshot = facts\<rparr>"

theorem investigation_only_logs_witness:
  "\<forall>facts. db_proposals (sv_db (snd (investigate demo_env offline_investigator (offline_args facts) waiting_state))) =
       [demo_proposal] \<and>
     list_all2 counted [retry_conversation_row]
       (db_conversations (sv_db (snd (investigate demo_env offline_investigator (offline_args facts) waiting_state))))"
proof
  fix facts
  have "wf_db (sv_db waiting_state)" by (simp add: waiting_state_db waiting_database_wf)
  from investigation_only_logs [OF this, of demo_env offline_investigator "offline_args facts"]
  obtain cs calls es where
    "sv_db (snd (investigate demo_env offline_investigator (offline_args facts) waiting_state)) =
       waiting_database\<lparr>db_conversations := cs, db_tool_calls := db_tool_calls waiting_database @ calls,
         db_events := db_events waiting_database @ es\<rparr>"
    "list_all2 counted (db_conversations waiting_database) cs"
    unfolding waiting_state_db by blast
  then show "db_proposals (sv_db (snd (investigate demo_env offline_investigator (offline_args facts) waiting_state))) =
       [demo_proposal] \<and>
     list_all2 counted [retry_conversation_row]
       (db_conversations (sv_db (snd (investigate demo_env offline_investigator (offline_args facts) waiting_state))))"
    by (simp add: waiting_database_def)
qed

end
