(* ===== verification/GateAgreement.thy ===== *)
theory GateAgreement
  imports InvestigationFacts
begin

text \<open>
  The evidence gate is asked twice: by the investigation that may propose a ticket, and again by the confirmation of
  the proposal (\<open>Confirmation\<close>).  For a stalled parcel the two evaluations agree; for a signed one they need not, as
  \<open>ConfirmationOutcome\<close> shows, since a confirmation does not know what the customer has clarified.
\<close>

section \<open>The two gates agree\<close>

lemma observed_tools:
  "set (required_observation_tools issue) = set (required_results fx issue)"
  by (cases issue) (auto simp: required_observation_tools_def required_results_def all_requirements_def requirement_registry_def)

text \<open>A proposal of the stalled table has seen every read succeed, so it does not depend on whether retries were used
  up.\<close>

lemma stalled_retry_flag:
  assumes "gr_decision (evaluate_stalled_tracking mhash f) = Some GD_PROPOSE_TICKET"
  shows "evaluate_stalled_tracking mhash (f\<lparr>cf_critical_retry_exhausted := x\<rparr>) = evaluate_stalled_tracking mhash f"
proof -
  have ok: "stalled_proposable mhash f" using assms by (simp add: evaluate_stalled_proposes)
  have inputs: "unavailable_result [named ''order_context'' (sl_order_context f), named ''timeline'' (sl_timeline f),
      named ''policy'' (sl_policy f)] y = None" for y
    using ok by (simp add: gate_simps stalled_proposable_def named_def)
  have tickets: "unavailable_result [named ''existing_tickets'' (sl_existing_tickets f)] y = None" for y
    using ok by (simp add: gate_simps stalled_proposable_def named_def)
  have alerts: "(case sl_carrier_alerts f of None \<Rightarrow> None
      | Some a \<Rightarrow> unavailable_result [named ''carrier_alerts'' a] y) = None" for y
    using ok by (auto simp: gate_simps stalled_proposable_def named_def split: option.split)
  have guard: "common_guard (f\<lparr>cf_critical_retry_exhausted := x\<rparr>) = common_guard f"
    by (simp add: common_guard_def)
  have refresh: "refresh_or_support (f\<lparr>cf_critical_retry_exhausted := x\<rparr>) = refresh_or_support f"
    by (simp add: refresh_or_support_def)
  have fields: "sl_order_context (f\<lparr>cf_critical_retry_exhausted := x\<rparr>) = sl_order_context f"
    "sl_timeline (f\<lparr>cf_critical_retry_exhausted := x\<rparr>) = sl_timeline f"
    "sl_policy (f\<lparr>cf_critical_retry_exhausted := x\<rparr>) = sl_policy f"
    "sl_existing_tickets (f\<lparr>cf_critical_retry_exhausted := x\<rparr>) = sl_existing_tickets f"
    "sl_carrier_alerts (f\<lparr>cf_critical_retry_exhausted := x\<rparr>) = sl_carrier_alerts f"
    "cf_target_shipment_id (f\<lparr>cf_critical_retry_exhausted := x\<rparr>) = cf_target_shipment_id f"
    by simp_all
  show ?thesis
    unfolding evaluate_stalled_tracking_def Let_def fields guard refresh inputs tickets alerts by (rule refl)
qed

text \<open>What the gate of an investigation and a confirmation make of the same results.\<close>

lemma stalled_facts:
  assumes "tc_canonical_issue_type t = STALLED_TRACKING" and "tc_fixture_version t = fs_fixture_version fx"
    and "typed_result order_view results ''get_order_context'' = Inr order"
    and "gate_facts_of t flags order results = Inr facts"
  obtains policy tickets f where "typed_result policy_view results ''search_after_sales_policy'' = Inr policy"
    and "typed_result tickets_view results ''get_existing_logistics_tickets'' = Inr tickets"
    and "persisted_stalled_facts fx results (tc_target_shipment_id t) policy = Inr (StalledFacts f)"
    and "sl_policy f = policy" and "sl_existing_tickets f = tickets" and "sl_order_context f = order"
    and "facts = StalledFacts (f\<lparr>cf_critical_retry_exhausted := gf_retry_exhausted flags\<rparr>)"
    and "\<not> cf_critical_retry_exhausted f"
proof -
  from assms(1,4) obtain timeline policy tickets alerts where
    reads: "typed_result timeline_view results ''get_logistics_timeline'' = Inr timeline"
      "typed_result policy_view results ''search_after_sales_policy'' = Inr policy"
      "typed_result tickets_view results ''get_existing_logistics_tickets'' = Inr tickets" and
    alerts: "(if tc_fixture_version t = ''business-demo-v1'' \<and> map_of results ''get_carrier_service_alerts'' \<noteq> None
        then bindE (typed_result alerts_view results ''get_carrier_service_alerts'') (\<lambda>a. Inr (Some a))
        else Inr None) = Inr alerts" and
    facts: "facts = StalledFacts (common_facts.extend (common_of flags (tc_target_shipment_id t))
        (stalled_evidence.fields order timeline tickets policy alerts))"
    unfolding gate_facts_of_def by (elim bindE_InrE) (auto elim!: bindE_InrE)
  let ?f = "common_facts.extend (default_common (tc_target_shipment_id t))
    (stalled_evidence.fields order timeline tickets policy alerts)"
  have "business_demo fx \<longleftrightarrow> tc_fixture_version t = ''business-demo-v1''"
    using assms(2) by (simp add: business_demo_def)
  then have "persisted_stalled_facts fx results (tc_target_shipment_id t) policy = Inr (StalledFacts ?f)"
    using alerts reads assms(3) by (simp add: persisted_stalled_facts_def)
  with reads facts show thesis
    by (intro that [of policy tickets ?f]) (simp_all add: common_of_def stalled_evidence.defs common_facts.defs default_common_def)
qed

lemma tickets_were_read:
  "map_of results ''get_existing_logistics_tickets'' \<noteq> None \<Longrightarrow> with_unread_tickets env issue order results = Inr results"
  by (auto simp: with_unread_tickets_def)

text \<open>Tickets that were not read count as unavailable, so the table does not propose on them.\<close>

lemma unread_tickets_unusable:
  assumes "with_unread_tickets env STALLED_TRACKING order results = Inr results'"
    and "map_of results ''get_existing_logistics_tickets'' = None"
    and "''get_existing_logistics_tickets'' \<in> set (map fst results')"
    and "typed_result tickets_view results' ''get_existing_logistics_tickets'' = Inr tickets"
  shows "\<not> usable tickets"
proof -
  from assms(1-3) obtain r where
    r: "failed (ae_sha env) True ''get_existing_logistics_tickets'' ''not-queried-stalled-sla'' (tr_observed_at order)
       ''NOT_QUERIED_NOT_REQUIRED'' None = Inr r" and
    results': "results' = results @ [(''get_existing_logistics_tickets'', r)]"
    by (auto simp: with_unread_tickets_def bindE_eq_Inr map_of_eq_None_iff split: if_splits)
  have "map_of results' ''get_existing_logistics_tickets'' = Some r"
    using assms(2) by (simp add: results' map_add_Some_iff)
  with assms(4) failed_fields(1,3) [OF r] have "tr_evidence_availability tickets = EA_UNAVAILABLE"
    by (auto simp: typed_result_def retype_def Let_def ToolContracts.envelope.defs tool_result.defs dest!: check_tool_result_id)
  then show ?thesis by (simp add: usable_def is_unavailable_def)
qed

text \<open>A decision to propose comes from the table, on the results as they are.\<close>

lemma proposed_by_table:
  assumes "evaluate_gate env t exceeded flags results = Inr g" and "gr_decision g = Some GD_PROPOSE_TICKET"
    and "tc_canonical_issue_type t = STALLED_TRACKING"
  obtains order facts results' where "typed_result order_view results ''get_order_context'' = Inr order"
    and "with_unread_tickets env STALLED_TRACKING order results = Inr results'"
    and "set (required_observation_tools STALLED_TRACKING) \<subseteq> set (map fst results')"
    and "gate_facts_of t flags order results' = Inr facts"
    and "evaluate_evidence_gate (material_snapshot_hash (ae_sha env)) STALLED_TRACKING facts = Inr g"
proof -
  from assms(1,2) obtain order where order: "typed_result order_view results ''get_order_context'' = Inr order"
    by (auto simp: evaluate_gate_def Let_def reason_only_def bindE_eq_Inr split: if_splits)
  have rest: "revised_issue STALLED_TRACKING (tc_target_shipment_id t) order = None"
    "\<not> active_ticket_read (map_of results ''get_existing_logistics_tickets'')"
    using assms order
    by (cases "revised_issue STALLED_TRACKING (tc_target_shipment_id t) order";
        auto simp: evaluate_gate_def Let_def reason_only_def split: if_splits)+
  with assms order that show thesis
    by (auto simp: evaluate_gate_def Let_def reason_only_def bindE_eq_Inr split: if_splits)
qed

lemma proposing_gate_read_tickets:
  assumes "evaluate_gate env t exceeded flags results = Inr g" and "gr_decision g = Some GD_PROPOSE_TICKET"
    and "tc_canonical_issue_type t = STALLED_TRACKING"
  shows "map_of results ''get_existing_logistics_tickets'' \<noteq> None"
proof
  assume unread: "map_of results ''get_existing_logistics_tickets'' = None"
  obtain order facts results' where
    order: "typed_result order_view results ''get_order_context'' = Inr order" and
    results': "with_unread_tickets env STALLED_TRACKING order results = Inr results'" and
    tools: "set (required_observation_tools STALLED_TRACKING) \<subseteq> set (map fst results')" and
    facts: "gate_facts_of t flags order results' = Inr facts" and
    gate: "evaluate_evidence_gate (material_snapshot_hash (ae_sha env)) STALLED_TRACKING facts = Inr g"
    by (rule proposed_by_table [OF assms])
  have tickets: "''get_existing_logistics_tickets'' \<in> set (map fst results')"
    using tools by (auto simp: required_observation_tools_def all_requirements_def requirement_registry_def)
  from facts assms(3) obtain timeline policy tickets alerts where
    read: "typed_result tickets_view results' ''get_existing_logistics_tickets'' = Inr tickets" and
    built: "facts = StalledFacts (common_facts.extend (common_of flags (tc_target_shipment_id t))
        (stalled_evidence.fields order timeline tickets policy alerts))"
    unfolding gate_facts_of_def by (elim bindE_InrE) (auto elim!: bindE_InrE)
  define f where "f = common_facts.extend (common_of flags (tc_target_shipment_id t))
        (stalled_evidence.fields order timeline tickets policy alerts)"
  then have f: "facts = StalledFacts f" "sl_existing_tickets f = tickets"
    using built by (simp_all add: common_facts.defs stalled_evidence.defs)
  from gate assms(2) have "usable (sl_existing_tickets f)"
    by (auto simp: f(1) evaluate_stalled_proposes stalled_proposable_def)
  with unread_tickets_unusable [OF results' unread tickets read] f(2) show False by simp
qed

text \<open>C5. When the gate of an investigation decides to propose a ticket for a stalled parcel, whether or not its
  retries were used up, it has read a policy, and the evaluation that a confirmation repeats on the same results,
  in the same fixture version and under the binding of that policy, returns the very same gate result.\<close>

theorem stalled_gate_is_revalidated:
  assumes "tc_canonical_issue_type t = STALLED_TRACKING" and "tc_fixture_version t = fs_fixture_version fx"
    and "evaluate_gate env t exceeded flags results = Inr g" and "gr_decision g = Some GD_PROPOSE_TICKET"
  shows "\<exists>policy p. typed_result policy_view results ''search_after_sales_policy'' = Inr policy \<and>
    tr_payload policy = Some p \<and>
    (\<forall>binding. map_option normal_json binding = map_option normal_json (policy_binding (ae_sha env) p) \<longrightarrow>
       revalidate_results env fx STALLED_TRACKING (tc_target_shipment_id t) binding results = Inr (Some g))"
proof -
  obtain order facts results' where
    order: "typed_result order_view results ''get_order_context'' = Inr order" and
    same: "with_unread_tickets env STALLED_TRACKING order results = Inr results'" and
    tools: "set (required_results fx STALLED_TRACKING) \<subseteq> set (map fst results')" and
    facts: "gate_facts_of t flags order results' = Inr facts" and
    gate: "evaluate_evidence_gate (material_snapshot_hash (ae_sha env)) STALLED_TRACKING facts = Inr g"
    by (rule proposed_by_table [OF assms(3,4,1)]) (simp add: observed_tools [of _ fx])
  have results': "results' = results"
    using same tickets_were_read [OF proposing_gate_read_tickets [OF assms(3,4,1)]] by simp
  have complete: "\<not> list_ex (\<lambda>tool. map_of results tool = None) (required_results fx STALLED_TRACKING)"
    using tools by (auto simp: results' list_ex_iff map_of_eq_None_iff)
  from stalled_facts [OF assms(1,2) order facts [unfolded results']] obtain policy f where
    policy: "typed_result policy_view results ''search_after_sales_policy'' = Inr policy" "sl_policy f = policy" and
    persisted: "persisted_stalled_facts fx results (tc_target_shipment_id t) policy = Inr (StalledFacts f)" and
    facts': "facts = StalledFacts (f\<lparr>cf_critical_retry_exhausted := gf_retry_exhausted flags\<rparr>)" and
    flag: "\<not> cf_critical_retry_exhausted f" by metis
  from gate facts' have g: "g = evaluate_stalled_tracking (material_snapshot_hash (ae_sha env))
      (f\<lparr>cf_critical_retry_exhausted := gf_retry_exhausted flags\<rparr>)" by simp
  have "evaluate_stalled_tracking (material_snapshot_hash (ae_sha env))
      ((f\<lparr>cf_critical_retry_exhausted := gf_retry_exhausted flags\<rparr>)\<lparr>cf_critical_retry_exhausted := False\<rparr>) = g"
    using assms(4) unfolding g by (rule stalled_retry_flag)
  then have again: "evaluate_evidence_gate (material_snapshot_hash (ae_sha env)) STALLED_TRACKING (StalledFacts f) = Inr g"
    using flag by (cases f) simp
  from assms(4) g obtain p where "tr_payload policy = Some p"
    using policy(2) by (auto simp: evaluate_stalled_proposes stalled_proposable_def policy_admits_def)
  with policy(1) complete persisted again show ?thesis by (auto simp: revalidate_results_def)
qed

definition stalled_results :: "(string \<times> read_result) list" where
  "stalled_results =
    [(''get_order_context'', packed RP_Order (sl_order_context sample_stalled)),
     (''get_logistics_timeline'', packed RP_Timeline (sl_timeline sample_stalled)),
     (''search_after_sales_policy'', packed RP_Policy (sl_policy sample_stalled)),
     (''get_existing_logistics_tickets'', packed RP_Tickets (sl_existing_tickets sample_stalled))]"

definition stalled_env :: app_env where
  "stalled_env = demo_env\<lparr>ae_sha := \<lambda>_. sample_digest\<rparr>"

definition stalled_scope :: trusted_context where
  "stalled_scope = sample_trusted\<lparr>tc_target_shipment_id := Some ''S1''\<rparr>"

text \<open>The retries of an investigation are used up when its optional carrier alerts have failed twice.\<close>

definition spent_flags :: gate_flags where
  "spent_flags = \<lparr>gf_retry_exhausted = True, gf_still_missing = True, gf_locations_checked = False,
     gf_location_conflict = False\<rparr>"

lemma retype_packed:
  assumes "check_tool_result r = Inr r" and "\<And>p. view (tag p) = Some p"
  shows "retype view (packed tag r) = Inr r"
  using assms
  by (cases r) (auto simp: retype_def Let_def packed_def ToolContracts.envelope.defs tool_result.defs split: option.split)

lemma sample_stalled_valid:
  "check_tool_result (sl_order_context sample_stalled) = Inr (sl_order_context sample_stalled)"
  "check_tool_result (sl_timeline sample_stalled) = Inr (sl_timeline sample_stalled)"
  "check_tool_result (sl_policy sample_stalled) = Inr (sl_policy sample_stalled)"
  "check_tool_result (sl_existing_tickets sample_stalled) = Inr (sl_existing_tickets sample_stalled)"
  by (simp_all add: sample_stalled_def sample_defs check_tool_result_def)

lemma stalled_results_typed:
  "typed_result order_view stalled_results ''get_order_context'' = Inr (sl_order_context sample_stalled)"
  "typed_result timeline_view stalled_results ''get_logistics_timeline'' = Inr (sl_timeline sample_stalled)"
  "typed_result policy_view stalled_results ''search_after_sales_policy'' = Inr (sl_policy sample_stalled)"
  "typed_result tickets_view stalled_results ''get_existing_logistics_tickets'' = Inr (sl_existing_tickets sample_stalled)"
  by (simp_all add: typed_result_def stalled_results_def retype_packed sample_stalled_valid order_view_def timeline_view_def
      policy_view_def tickets_view_def)

theorem stalled_gate_is_revalidated_witness:
  "\<exists>g. evaluate_gate stalled_env stalled_scope False spent_flags stalled_results = Inr g \<and>
     gr_decision g = Some GD_PROPOSE_TICKET \<and>
     revalidate_results stalled_env sample_store STALLED_TRACKING (Some ''S1'')
       (policy_binding (ae_sha stalled_env) (sample_policy STALLED_TRACKING)) stalled_results = Inr (Some g)"
proof -
  let ?g = "evaluate_stalled_tracking sample_mhash (sample_stalled\<lparr>cf_critical_retry_exhausted := True\<rparr>)"
  have hash: "material_snapshot_hash (ae_sha stalled_env) = sample_mhash"
    by (simp add: fun_eq_iff stalled_env_def material_snapshot_hash_def sample_mhash_def)
  have facts: "gate_facts_of stalled_scope spent_flags (sl_order_context sample_stalled) stalled_results =
      Inr (StalledFacts (sample_stalled\<lparr>cf_critical_retry_exhausted := True\<rparr>))"
    by (simp add: gate_facts_of_def stalled_results_typed stalled_scope_def sample_trusted_def spent_flags_def
        common_of_def default_common_def common_facts.defs stalled_evidence.defs sample_stalled_def)
  have order: "revised_issue STALLED_TRACKING (Some ''S1'') (sl_order_context sample_stalled) = None"
    by (simp add: revised_issue_def sample_stalled_def sample_defs)
  have read: "\<not> active_ticket_read (map_of stalled_results ''get_existing_logistics_tickets'')"
    "map_of stalled_results ''get_existing_logistics_tickets'' \<noteq> None"
    "map_of stalled_results ''get_order_context'' = Some (packed RP_Order (sl_order_context sample_stalled))"
    by (simp_all add: stalled_results_def active_ticket_read_def packed_def sample_stalled_def sample_defs
        ToolContracts.envelope.defs tool_result.defs)
  have scope: "tc_canonical_issue_type stalled_scope = STALLED_TRACKING" "tc_target_shipment_id stalled_scope = Some ''S1''"
    by (simp_all add: stalled_scope_def sample_trusted_def)
  have tools: "set (required_observation_tools STALLED_TRACKING) \<subseteq> set (map fst stalled_results)"
    by (simp add: observed_tools [of _ sample_store] required_results_def stalled_results_def)
  have gate: "evaluate_gate stalled_env stalled_scope False spent_flags stalled_results = Inr ?g"
    using order read(1,3) tools facts
    by (simp add: evaluate_gate_def Let_def stalled_results_typed tickets_were_read [OF read(2)] hash scope)
  have "gr_decision (evaluate_stalled_tracking sample_mhash sample_stalled) = Some GD_PROPOSE_TICKET"
    using sample_stalled_proposable by (simp add: evaluate_stalled_proposes)
  then have proposed: "gr_decision ?g = Some GD_PROPOSE_TICKET" by (simp add: stalled_retry_flag)
  have version: "tc_fixture_version stalled_scope = fs_fixture_version sample_store"
    by (simp add: stalled_scope_def sample_trusted_def sample_store_def fixture_store_init_def)
  from stalled_gate_is_revalidated [OF scope(1) version gate proposed] obtain p where
    "tr_payload (sl_policy sample_stalled) = Some p" "revalidate_results stalled_env sample_store STALLED_TRACKING
       (Some ''S1'') (policy_binding (ae_sha stalled_env) p) stalled_results = Inr (Some ?g)"
    unfolding scope(2) stalled_results_typed by auto
  moreover have "tr_payload (sl_policy sample_stalled) = Some (sample_policy STALLED_TRACKING)"
    by (simp add: sample_stalled_def sample_read_def)
  ultimately show ?thesis using gate proposed by auto
qed

end
