(* ===== verification/ReloadedEvidence.thy ===== *)
theory ReloadedEvidence
  imports InvestigationFacts
begin

text \<open>
  What becomes of evidence that was read back from the database: \<open>ToolResult[Any]\<close> keeps the payload of a stored
  result as a dictionary, so a cache that is loaded after a restart serves results without attributes.
\<close>

section \<open>Evidence that was read back\<close>

definition reread :: "read_result \<Rightarrow> bool" where
  "reread r \<longleftrightarrow> (\<exists>q. r = reloaded q)"

lemma cache_store_get:
  "cache_store c k r = Inr c' \<Longrightarrow> cache_get c' k' = Some x \<Longrightarrow> x = r \<or> cache_get c k' = Some x"
  by (auto simp: cache_store_def cache_get_def update_conv' split: if_splits option.splits)

lemma load_rows_read_back:
  assumes "load_rows env fx cid rows cache = Inr c" and "\<And>k r. cache_get cache k = Some r \<Longrightarrow> reread r"
    and "cache_get c k = Some r"
  shows "reread r"
  using assms
proof (induction rows arbitrary: cache)
  case (Cons row rows)
  note skip = Cons.IH [OF _ Cons.prems(2,3)]
  show ?case
  proof (cases "tcr_result_envelope row = None \<or> tcr_source_version row = None \<or> \<not> tcr_actual_execution row \<or>
      call_order_id row = []")
    case True
    with Cons.prems(1) show ?thesis by (intro skip) (auto split: option.splits if_splits)
  next
    case False
    then obtain result version where row: "tcr_result_envelope row = Some result" "tcr_source_version row = Some version"
      by auto
    with False Cons.prems(1) obtain current where
      current: "current_source_revision env fx (call_order_id row) (tcr_tool_name row) = Inr current"
      by (auto simp: bindE_eq_Inr)
    let ?key = "call_key cid row current"
    let ?counted = "snd (record_actual_attempt cache ?key)"
    have counted: "cache_get ?counted k' = Some x \<Longrightarrow> reread x" for k' x
      using record_attempt_get [of cache ?key "fst (record_actual_attempt cache ?key)" ?counted k'] Cons.prems(2) by simp
    show ?thesis
    proof (cases "version = current")
      case True
      with False Cons.prems(1) row current obtain r' c' where
        "cache_store ?counted ?key (reloaded r') = Inr c'" and rest: "load_rows env fx cid rows c' = Inr c"
        by (auto simp: bindE_eq_Inr Let_def)
      then have "cache_get c' k' = Some x \<Longrightarrow> reread x" for k' x
        using cache_store_get counted by (fastforce simp: reread_def)
      with Cons.IH [OF rest _ Cons.prems(3)] show ?thesis by blast
    next
      case outdated: False
      with False Cons.prems(1) row current have "load_rows env fx cid rows ?counted = Inr c"
        by (auto simp: bindE_eq_Inr Let_def)
      with Cons.IH [OF this _ Cons.prems(3)] counted show ?thesis by blast
    qed
  qed
qed auto

lemma loaded_cache_read_back:
  "load_case_cache env d fx cid = Inr c \<Longrightarrow> cache_get c k = Some r \<Longrightarrow> reread r"
  unfolding load_case_cache_def
  by (erule load_rows_read_back) (simp_all add: cache_get_def empty_cache_def)

lemma read_back_order: "reread r \<Longrightarrow> tr_payload r \<noteq> None \<Longrightarrow> observe_order t r co = Inl (AttributeError ''order_status'')"
  by (auto simp: reread_def reloaded_def observe_order_def)

lemma announce_call_frame:
  assumes "announce_call env iv t tool args s = (r, s')"
  shows "sv_caches s' = sv_caches s \<and> sv_fixtures s' = sv_fixtures s"
proof -
  have event: "trace_event env t ty summary payload s = (u, s') \<Longrightarrow> sv_caches s' = sv_caches s \<and> sv_fixtures s' = sv_fixtures s"
    for ty summary payload u s s'
    by (auto simp: trace_event_def emit_with_def bindA_def uuid4_hex_def utc_now_def Let_def
        split: prod.splits sum.splits)
  from assms show ?thesis unfolding announce_call_def thenA_def bindA_def
    by (auto split: prod.splits sum.splits if_splits dest!: event)
qed

text \<open>C11. Once the cache of a case has been loaded from the database, as after a restart of the service, reading the
  order of the case again from that cache ends every investigation with an exception: the payload comes back as a
  dictionary, of which the coordinator asks an attribute.\<close>

theorem reloaded_order_ends_investigation:
  assumes "load_case_cache env d (sv_fixtures s) (tc_case_id t) = Inr (case_cache s (tc_case_id t))"
    and "validate_arguments t ''get_order_context'' args = None"
    and "authorize_order (tc_customer_id t) (arg_str args ''order_id'') (get_order_for_authorization (sv_fixtures s)) = Inr granted"
    and "current_source_revision env (sv_fixtures s) (ag_order_id granted) ''get_order_context'' = Inr revision"
    and "cache_get (case_cache s (tc_case_id t)) (cache_key_for t ''get_order_context'' args revision) = Some r"
    and "tr_payload r \<noteq> None"
  shows "\<exists>e. fst (execute_traced env iv t call_id ''get_order_context'' args b tr co s) = Inl e"
proof -
  have stored: "reread r" by (rule loaded_cache_read_back [OF assms(1,5)])
  have observed: "yields (\<lambda>_. False) (on_tool_result env iv t b' call r refs co)"
    if "tl_tool_name call = Some ''get_order_context''" for b' call refs
    unfolding on_tool_result_def
    by (rule yields_skip, rule yields_bind [OF yields_read [where P = "\<lambda>_. False"]])
      (simp_all add: that observe_result_def read_back_order [OF stored assms(6)])
  have named: "yields (\<lambda>call. tl_tool_name call = Some tool) (trace_call env t tool args c r)" for tool c
    unfolding trace_call_def by (intro yields_skip yields_intros) (simp add: record_of_def)
  note failed_turn = yieldsD [OF observed [OF yieldsD [OF named]]]
  show ?thesis
  proof (cases "announce_call env iv t ''get_order_context'' args s")
    case (Pair u s1)
    show ?thesis
    proof (cases u)
      case (Inl e)
      with Pair show ?thesis by (simp add: execute_traced_def thenA_def bindA_def)
    next
      case (Inr x)
      from announce_call_frame [OF Pair] have same: "case_cache s1 = case_cache s" "sv_fixtures s1 = sv_fixtures s"
        by (simp_all add: case_cache_def fun_eq_iff)
      have "catalog_source_revision (hashing_of env iv) (catalog_of env iv s1) (ag_order_id granted) ''get_order_context'' = Inr revision"
        using assms(4) by (simp add: catalog_source_revision_def current_source_revision_def catalog_of_def hashing_of_def same)
      with assms(2,3,5) have "execute_result (hashing_of env iv) (executor_of env iv t b s1) ''get_order_context'' args =
          (Inr r, executor_of env iv t b s1)"
        by (intro execute_hit) (simp_all add: executor_of_def same, simp add: catalog_of_def same)
      then obtain s2 where "governed_call env iv t b ''get_order_context'' args s1 = (Inr (r, b), s2)"
        by (simp add: governed_call_def executor_of_def)
      with Pair Inr show ?thesis
        by (cases "fst (execute_traced env iv t call_id ''get_order_context'' args b tr co s)")
          (auto simp: execute_traced_def thenA_def bindA_def Let_def split: prod.splits sum.splits dest: failed_turn)
    qed
  qed
qed

definition kept_result :: read_result where
  "kept_result = packed RP_Order (sl_order_context sample_stalled)"

definition kept_call :: tool_call_row where
  "kept_call = \<lparr>tcr_tool_call_id = ''call_1'', tcr_conversation_id = ''conv'', tcr_case_id = ''case'', tcr_run_id = ''run_0'',
     tcr_tool_name = ''get_order_context'', tcr_normalized_args = JObj (order_args ''O1''), tcr_planning_turn = 1,
     tcr_attempt_number = 1, tcr_actual_execution = True, tcr_cache_hit = False, tcr_blocked = False,
     tcr_execution_status = Some ''success'', tcr_evidence_availability = Some ''present'',
     tcr_result_envelope = Some kept_result, tcr_result_hash = Some sample_digest,
     tcr_source_version = Some ''v1:r1:get_order_context'', tcr_error_code = None, tcr_retryable = False,
     tcr_requested_at = Aware 0, tcr_completed_at = Some (Aware 0)\<rparr>"

definition kept_key :: cache_key where
  "kept_key = cache_key_for sample_trusted ''get_order_context'' (order_args ''O1'') ''v1:r1:get_order_context''"

definition restarted_cache :: "read_payload case_tool_cache" where
  "restarted_cache = \<lparr>cc_reusable = [(kept_key, reloaded kept_result)], cc_terminal_errors = [],
     cc_actual_attempts = [(kept_key, 1)], cc_last_result_retryable = []\<rparr>"

definition restarted_state :: app_state where
  "restarted_state = waiting_state\<lparr>sv_caches := [(''case'', restarted_cache)]\<rparr>"

lemma restarted_revision:
  "current_source_revision demo_env sample_store ''O1'' ''get_order_context'' = Inr ''v1:r1:get_order_context''"
  by (simp add: current_source_revision_def source_revision_def sample_fixture_order_def sample_store_def
      fixture_store_init_def dict_of_def)

lemma restarted_cache_loaded:
  "load_case_cache demo_env (empty_database\<lparr>db_tool_calls := [kept_call]\<rparr>) sample_store ''case'' = Inr restarted_cache"
proof -
  have key: "call_key ''case'' kept_call ''v1:r1:get_order_context'' = kept_key"
    by (simp add: call_key_def kept_key_def kept_call_def cache_key_for_def sample_trusted_def normalize_tool_arguments_def)
  have valid: "check_tool_result kept_result = Inr kept_result"
    by (simp add: kept_result_def packed_def check_tool_result_def sample_stalled_def sample_defs
        ToolContracts.envelope.defs tool_result.defs)
  have row: "tcr_case_id kept_call = ''case''" "tcr_result_envelope kept_call = Some kept_result"
    "tcr_source_version kept_call = Some ''v1:r1:get_order_context''" "tcr_actual_execution kept_call"
    "call_order_id kept_call = ''O1''" "tcr_tool_name kept_call = ''get_order_context''"
    by (simp_all add: kept_call_def call_order_id_def order_args_def)
  have stored: "cache_store (snd (record_actual_attempt empty_cache kept_key)) kept_key (reloaded kept_result) =
      Inr restarted_cache"
    by (simp add: cache_store_def record_actual_attempt_def cache_actual_attempts_def empty_cache_def restarted_cache_def
        reloaded_def kept_result_def packed_def sample_stalled_def sample_defs ToolContracts.envelope.defs tool_result.defs)
  show ?thesis
    by (simp add: load_case_cache_def list_tool_calls_def row restarted_revision key valid stored Let_def)
qed

theorem reloaded_order_ends_investigation_witness:
  "\<forall>b tr co. \<exists>e. fst (execute_traced demo_env offline_investigator sample_trusted ''obs_1'' ''get_order_context''
     (order_args ''O1'') b tr co restarted_state) = Inl e"
proof (intro allI)
  fix b tr co
  have state: "case_cache restarted_state (tc_case_id sample_trusted) = restarted_cache" "sv_fixtures restarted_state = sample_store"
    by (simp_all add: case_cache_def restarted_state_def sample_trusted_def waiting_state_def)
  have key: "cache_get restarted_cache (cache_key_for sample_trusted ''get_order_context'' (order_args ''O1'')
      ''v1:r1:get_order_context'') = Some (reloaded kept_result)"
    by (simp add: cache_get_def restarted_cache_def kept_key_def)
  show "\<exists>e. fst (execute_traced demo_env offline_investigator sample_trusted ''obs_1'' ''get_order_context''
     (order_args ''O1'') b tr co restarted_state) = Inl e"
  proof (rule reloaded_order_ends_investigation [where revision = "''v1:r1:get_order_context''"
        and d = "empty_database\<lparr>db_tool_calls := [kept_call]\<rparr>" and r = "reloaded kept_result"
        and granted = "\<lparr>ag_customer_id = ''alice'', ag_order_id = ''O1'', ag_source_revision = ''r1''\<rparr>"])
    show "load_case_cache demo_env (empty_database\<lparr>db_tool_calls := [kept_call]\<rparr>) (sv_fixtures restarted_state)
        (tc_case_id sample_trusted) = Inr (case_cache restarted_state (tc_case_id sample_trusted))"
      using restarted_cache_loaded by (simp add: state) (simp add: sample_trusted_def)
    show "validate_arguments sample_trusted ''get_order_context'' (order_args ''O1'') = None"
      by (simp add: validate_arguments_def read_tool_names_def issue_tools_def order_args_def
          issue_restricted_tool_def sample_trusted_def)
    show "authorize_order (tc_customer_id sample_trusted) (arg_str (order_args ''O1'') ''order_id'')
        (get_order_for_authorization (sv_fixtures restarted_state)) =
        Inr \<lparr>ag_customer_id = ''alice'', ag_order_id = ''O1'', ag_source_revision = ''r1''\<rparr>"
      by (simp add: state authorize_order_def get_order_for_authorization_def ownership_of_def arg_str_def order_args_def
          sample_trusted_def sample_fixture_order_def)
    show "current_source_revision demo_env (sv_fixtures restarted_state)
        (ag_order_id \<lparr>ag_customer_id = ''alice'', ag_order_id = ''O1'', ag_source_revision = ''r1''\<rparr>) ''get_order_context'' =
        Inr ''v1:r1:get_order_context''"
      by (simp add: state restarted_revision)
    show "cache_get (case_cache restarted_state (tc_case_id sample_trusted))
        (cache_key_for sample_trusted ''get_order_context'' (order_args ''O1'') ''v1:r1:get_order_context'') =
        Some (reloaded kept_result)" by (simp add: state key)
    show "tr_payload (reloaded kept_result) \<noteq> None"
      by (simp add: reloaded_def kept_result_def packed_def sample_stalled_def sample_defs
          ToolContracts.envelope.defs tool_result.defs)
  qed
qed

end
