(* ===== verification/Selectors.thy ===== *)
theory Selectors
  imports InvestigationFacts
begin

text \<open>
  The selectors of \<open>agents/models.py\<close>: what may answer a decision context.

  \<^item> The mock agent and the strong workflow are functions of the context.  Both ask for the first requirement that is
    still missing, in orders of their own.
  \<^item> A live agent sends the context to a model.  What the model or its observer does is the parameter \<open>ask\<close>; the
    strict parser of its structured response is \<open>structured_response\<close>, over the parts of the envelope it looks at.
    \<open>case_fold\<close> is \<open>str.casefold\<close> and \<open>parse\<close> Pydantic's validation of a candidate from a dictionary.
\<close>

section \<open>The deterministic selectors\<close>

fun selector_tool :: "requirement_code \<Rightarrow> string" where
  "selector_tool RC_ORDER_STATUS = ''get_order_context''"
| "selector_tool RC_TRACKING_TIMELINE = ''get_logistics_timeline''"
| "selector_tool RC_DELIVERY_PROOF = ''get_delivery_proof''"
| "selector_tool RC_POLICY_APPLICABILITY = ''search_after_sales_policy''"
| "selector_tool RC_ACTIVE_TICKET_STATUS = ''get_existing_logistics_tickets''"
| "selector_tool RC_CARRIER_ALERT_CONTEXT = ''get_carrier_service_alerts''"

definition still_missing :: "progress_snapshot \<Rightarrow> requirement_code \<Rightarrow> bool" where
  "still_missing p code \<longleftrightarrow> rp_status (pg_requirements p code) = EP_MISSING \<and>
     rp_applicability (pg_requirements p code) \<noteq> RA_NOT_REQUIRED"

definition finish_candidate :: candidate where
  "finish_candidate = \<lparr>cn_action = OA_FINISH, cn_tool_name = None, cn_addresses = [],
     cn_reason_code = OR_FINALIZATION_REQUESTED\<rparr>"

definition candidate_for_first_missing :: "decision_context \<Rightarrow> requirement_code list \<Rightarrow> candidate" where
  "candidate_for_first_missing x ordered =
    (let p = dx_evidence_progress x in
     case List.find (still_missing p) ordered of
       None \<Rightarrow> finish_candidate
     | Some code \<Rightarrow> \<lparr>cn_action = OA_CALL_TOOL, cn_tool_name = Some (selector_tool code), cn_addresses = [code],
         cn_reason_code = (if pg_revision p = 0 then OR_FIRST_REQUIRED_OBSERVATION else OR_MISSING_REQUIRED_EVIDENCE)\<rparr>)"

definition agent_order :: "requirement_code list" where
  "agent_order = [RC_ORDER_STATUS, RC_TRACKING_TIMELINE, RC_DELIVERY_PROOF, RC_POLICY_APPLICABILITY,
     RC_ACTIVE_TICKET_STATUS, RC_CARRIER_ALERT_CONTEXT]"

definition workflow_order :: "issue_type \<Rightarrow> requirement_code list" where
  "workflow_order issue =
    (if issue = SIGNED_NOT_RECEIVED
     then [RC_ORDER_STATUS, RC_ACTIVE_TICKET_STATUS, RC_TRACKING_TIMELINE, RC_POLICY_APPLICABILITY, RC_DELIVERY_PROOF,
           RC_CARRIER_ALERT_CONTEXT]
     else [RC_ORDER_STATUS, RC_TRACKING_TIMELINE, RC_POLICY_APPLICABILITY, RC_ACTIVE_TICKET_STATUS,
           RC_CARRIER_ALERT_CONTEXT, RC_DELIVERY_PROOF])"

definition mock_selection :: "decision_context \<Rightarrow> candidate" where
  "mock_selection x = candidate_for_first_missing x agent_order"

definition workflow_selection :: "decision_context \<Rightarrow> candidate" where
  "workflow_selection x =
    (if pg_gate_readiness (dx_evidence_progress x) = GR_EVALUABLE then finish_candidate
     else candidate_for_first_missing x (workflow_order (dx_canonical_issue_type x)))"

section \<open>The structured response of a model\<close>

datatype selector_call = Call_Object "string option" | Call_Other

record ai_message =
  am_tool_calls :: "selector_call list option"
  am_invalid_tool_calls :: bool

datatype parsed_value = Parsed_Candidate candidate | Parsed_Other json

record response_envelope =
  re_fields :: "string list"
  re_raw :: "ai_message option"
  re_parsing_error :: "(string \<times> string) option"
  re_parsed :: "parsed_value option"

definition schema_failure :: "string \<Rightarrow> 'a result" where
  "schema_failure reason = Inl (SelectorExecutionFailure reason)"

text \<open>\<open>SelectorSchemaFailure\<close> with its reason; the class name of a parsing error comes with its text.\<close>

definition parsing_failure :: "(string \<Rightarrow> string) \<Rightarrow> string \<times> string \<Rightarrow> 'a result" where
  "parsing_failure case_fold e =
     schema_failure (if sublist ''json'' (case_fold (fst e)) \<or> sublist ''json'' (case_fold (snd e))
       then ''SELECTOR_INVALID_JSON'' else ''SELECTOR_STRUCTURED_SCHEMA_INVALID'')"

definition parsed_candidate :: "(json \<Rightarrow> candidate result) \<Rightarrow> parsed_value option \<Rightarrow> candidate result" where
  "parsed_candidate parse v =
    (case v of
       None \<Rightarrow> schema_failure ''SELECTOR_STRUCTURED_SCHEMA_INVALID''
     | Some (Parsed_Candidate c) \<Rightarrow> Inr c
     | Some (Parsed_Other j) \<Rightarrow>
         (case parse j of Inl _ \<Rightarrow> schema_failure ''SELECTOR_STRUCTURED_SCHEMA_INVALID'' | Inr c \<Rightarrow> Inr c))"

definition structured_response ::
  "(string \<Rightarrow> string) \<Rightarrow> (json \<Rightarrow> candidate result) \<Rightarrow> response_envelope option \<Rightarrow> candidate result" where
  "structured_response case_fold parse response =
    (case response of
       None \<Rightarrow> schema_failure ''SELECTOR_RESPONSE_NOT_STRUCTURED''
     | Some r \<Rightarrow>
        if set (re_fields r) \<noteq> {''raw'', ''parsed'', ''parsing_error''}
          then schema_failure ''SELECTOR_STRUCTURED_RESPONSE_FIELDS_INVALID''
        else
         (case re_raw r of
            None \<Rightarrow> schema_failure ''SELECTOR_RAW_RESPONSE_NOT_AI_MESSAGE''
          | Some raw \<Rightarrow>
             (case am_tool_calls raw of
                None \<Rightarrow> schema_failure ''SELECTOR_TOOL_CALLS_NOT_LIST''
              | Some calls \<Rightarrow>
                  if am_invalid_tool_calls raw then schema_failure ''SELECTOR_INVALID_STRUCTURED_CALL''
                  else
                   (case calls of
                      [] \<Rightarrow> schema_failure ''SELECTOR_EMPTY_STRUCTURED_OUTPUT''
                    | [Call_Other] \<Rightarrow> schema_failure ''SELECTOR_STRUCTURED_CALL_NOT_OBJECT''
                    | [Call_Object name] \<Rightarrow>
                        if name \<noteq> Some ''NextObservationCandidate''
                          then schema_failure ''SELECTOR_STRUCTURED_SCHEMA_NAME_INVALID''
                        else
                         (case re_parsing_error r of
                            Some e \<Rightarrow> parsing_failure case_fold e
                          | None \<Rightarrow> parsed_candidate parse (re_parsed r))
                    | _ \<Rightarrow> schema_failure ''SELECTOR_MULTIPLE_TOOL_CALLS''))))"

text \<open>What becomes of one call of the model: its cancellation, an exception that the coordinator turns into an empty
  candidate, a failure that ends the investigation, or a response.\<close>

datatype model_answer =
    Model_Cancelled
  | Model_Raised
  | Model_Failed string
  | Model_Answered "response_envelope option"

definition live_selection ::
  "(string \<Rightarrow> string) \<Rightarrow> (json \<Rightarrow> candidate result) \<Rightarrow> (app_state \<Rightarrow> decision_context \<Rightarrow> model_answer) \<Rightarrow>
   app_state \<Rightarrow> decision_context \<Rightarrow> candidate option result" where
  "live_selection case_fold parse ask s x =
    (case ask s x of
       Model_Cancelled \<Rightarrow> Inl (RuntimeError ''CancelledError'')
     | Model_Raised \<Rightarrow> Inr None
     | Model_Failed reason \<Rightarrow> schema_failure reason
     | Model_Answered r \<Rightarrow> bindE (structured_response case_fold parse r) (\<lambda>c. Inr (Some c)))"

section \<open>The investigators of the program\<close>

text \<open>The agent of the mock mode, the agent of the live mode and the strong workflow.\<close>

definition mock_agent :: "investigator \<Rightarrow> investigator" where
  "mock_agent iv = iv\<lparr>iv_selector_kind := SK_AGENT, iv_requester_label := ''Agent'',
     iv_select := \<lambda>_ x. Inr (Some (mock_selection x))\<rparr>"

definition live_agent ::
  "(string \<Rightarrow> string) \<Rightarrow> (json \<Rightarrow> candidate result) \<Rightarrow> (app_state \<Rightarrow> decision_context \<Rightarrow> model_answer) \<Rightarrow>
   investigator \<Rightarrow> investigator" where
  "live_agent case_fold parse ask iv = iv\<lparr>iv_selector_kind := SK_AGENT, iv_requester_label := ''Agent'',
     iv_select := live_selection case_fold parse ask\<rparr>"

definition strong_workflow :: "investigator \<Rightarrow> investigator" where
  "strong_workflow iv = iv\<lparr>iv_selector_kind := SK_WORKFLOW, iv_requester_label := ''Strong Workflow'',
     iv_select := \<lambda>_ x. Inr (Some (workflow_selection x)), iv_stop_after := None\<rparr>"

section \<open>What a deterministic selector asks for\<close>

lemma selector_tool_is: "selector_tool code = requirement_to_tool code"
  by (cases code) simp_all

lemma in_orders: "code \<in> set agent_order" "code \<in> set (workflow_order issue)"
  by (cases code; simp add: agent_order_def workflow_order_def)+

text \<open>The applicability in a rebuilt snapshot is that of the registry.\<close>

lemma accept_applicability:
  "rp_applicability (rs_states (accept_success refs code call s) c) = rp_applicability (rs_states s c)"
  "rp_applicability (rs_states (accept_failure pending code call s) c) = rp_applicability (rs_states s c)"
  by (simp_all add: accept_success_def accept_failure_def Let_def reduce_defs)

lemma reduce_call_applicability:
  "rp_applicability (rs_states (reduce_call case_id run_id issue refs pending s call) c) = rp_applicability (rs_states s c)"
  by (cases rule: reduce_call_cases [of case_id run_id issue refs pending s call]) (simp_all add: accept_applicability)

lemma rebuilt_applicability:
  "rp_applicability (pg_requirements (rebuild_progress sha case_id run_id issue calls refs pending now) c) =
     requirement_registry issue c"
proof -
  have "rp_applicability (rs_states (foldl (reduce_call case_id run_id issue refs pending) s calls') c) =
      rp_applicability (rs_states s c)" for s calls'
    by (induction calls' arbitrary: s) (simp_all add: reduce_call_applicability)
  then show ?thesis by (simp add: rebuild_progress_def Let_def reduce_start_def empty_requirement_def)
qed

lemma chosen_candidate:
  assumes "candidate_for_first_missing x ordered = c"
  obtains (finish) "c = finish_candidate" "\<And>code. code \<in> set ordered \<Longrightarrow> \<not> still_missing (dx_evidence_progress x) code"
  | (call) code where "code \<in> set ordered" "still_missing (dx_evidence_progress x) code" "cn_action c = OA_CALL_TOOL"
      "cn_tool_name c = Some (requirement_to_tool code)" "cn_addresses c = [code]"
      "cn_reason_code c \<noteq> OR_FINALIZATION_REQUESTED"
proof (cases "List.find (still_missing (dx_evidence_progress x)) ordered")
  case None
  with assms show thesis
    by (intro finish) (auto simp: candidate_for_first_missing_def find_None_iff)
next
  case (Some code)
  have "cn_reason_code c \<noteq> OR_FINALIZATION_REQUESTED"
    using assms by (auto simp: candidate_for_first_missing_def Some split: if_splits)
  with Some assms find_SomeD [OF Some] show thesis
    by (intro call [of code]) (auto simp: candidate_for_first_missing_def selector_tool_is)
qed

text \<open>A tool of a requirement that the registry does not rule out suits the issue.\<close>

lemma call_rejection_applicable:
  assumes "requirement_registry (dx_canonical_issue_type x) code \<noteq> RA_NOT_REQUIRED"
    and "rp_status (pg_requirements (dx_evidence_progress x) code) = EP_MISSING"
    and "dx_allowed_tools x = sort read_tool_names"
    and "cn_tool_name c = Some (requirement_to_tool code)" and "cn_addresses c = [code]"
  shows "call_rejection read_tool_names x c = None"
proof -
  have tools: "requirement_to_tool code \<in> set read_tool_names" "tool_to_requirement (requirement_to_tool code) = Some code"
    using tool_to_requirement_domain [of "requirement_to_tool code"] tool_to_requirement_iff [of "requirement_to_tool code" code]
    by auto
  from assms(1) have "requirement_to_tool code = ''get_delivery_proof'' \<Longrightarrow> dx_canonical_issue_type x = SIGNED_NOT_RECEIVED"
    "requirement_to_tool code = ''get_carrier_service_alerts'' \<Longrightarrow> dx_canonical_issue_type x = STALLED_TRACKING"
    by (cases code; cases "dx_canonical_issue_type x"; simp add: requirement_registry_def)+
  with tools show ?thesis by (auto simp: call_rejection_def Let_def assms(2-5) satisfied_statuses_def)
qed

lemma selected_call:
  assumes "c \<in> {mock_selection x, workflow_selection x}" and "cn_action c = OA_CALL_TOOL"
  obtains code where "still_missing (dx_evidence_progress x) code" "cn_tool_name c = Some (requirement_to_tool code)"
    "cn_addresses c = [code]" "cn_reason_code c \<noteq> OR_FINALIZATION_REQUESTED"
proof -
  from assms obtain ordered where "candidate_for_first_missing x ordered = c"
    by (auto simp: mock_selection_def workflow_selection_def finish_candidate_def split: if_splits)
  then show thesis
  proof (cases rule: chosen_candidate)
    case finish
    with assms(2) show thesis by (simp add: finish_candidate_def)
  qed (rule that)
qed

lemma built_context:
  assumes "build_decision_context t message p b observed prior prompt facts = Inr x"
  shows "dx_case_id x = tc_case_id t \<and> dx_run_id x = tc_run_id t \<and> dx_authorized_order_id x = tc_authorized_order_id t \<and>
    dx_canonical_issue_type x = tc_canonical_issue_type t \<and> dx_evidence_progress x = p \<and>
    dx_allowed_tools x = sort read_tool_names \<and> dx_remaining_budget x = b \<and> dx_prior_decision_fingerprints x = prior \<and>
    short_id 64 (dx_case_id x) \<and> short_id 64 (dx_run_id x) \<and> 0 \<le> tb_run_planning_turns b"
  using assms
  by (auto simp: build_decision_context_def bindE_eq_Inr check_budget_snapshot_def check_decision_context_def guard_Inr)

lemma call_passes:
  assumes "cn_action c = OA_CALL_TOOL" and "call_rejection read_tool_names x c = None"
    and "cn_tool_name c = Some (requirement_to_tool code)" and "cn_addresses c = [code]"
    and "dx_case_id x = tc_case_id t \<and> dx_run_id x = tc_run_id t \<and> dx_authorized_order_id x = tc_authorized_order_id t \<and>
      dx_canonical_issue_type x = tc_canonical_issue_type t"
    and "short_id 64 (dx_case_id x)" and "short_id 64 (dx_run_id x)"
    and "0 \<le> tb_run_planning_turns (dx_remaining_budget x)" and "tb_run_planning_turns (dx_remaining_budget x) < 8"
    and "tb_case_planning_turns (dx_remaining_budget x) < 16"
    and "decision_fingerprint sha OA_CALL_TOOL (cn_tool_name c) (server_arguments x (requirement_to_tool code))
      (cn_addresses c) (pg_snapshot_hash (dx_evidence_progress x)) \<notin> set (dx_prior_decision_fingerprints x)"
    and sha: "\<And>j. is_sha256_hex (sha j)" and "is_sha256_hex (pg_snapshot_hash (dx_evidence_progress x))"
    and "length fresh_id \<le> 124" and "is_aware now"
  shows "\<exists>n. validate_candidate sha fresh_id now read_tool_names (Some c) x kind (Some t) None None = Inr (Accepted n) \<and>
    nx_tool_name n = cn_tool_name c"
proof -
  have short: "length (requirement_to_tool code) \<le> 96" by (cases code) simp_all
  show ?thesis
    using assms short
    by (simp add: validate_candidate_def check_next_observation_def Let_def short_id_def canonical_arguments_hash_def opt_in_def)
      (simp add: decision_fingerprint_def)
qed

text \<open>The deterministic selectors only ask for reads that the validator accepts: on any rebuilt progress, the read
  that the mock agent or the strong workflow selects is accepted, with the tool it asked for, unless a budget of
  planning turns is used up or the same decision was already made on the same progress.\<close>

theorem selected_read_is_accepted:
  assumes "build_decision_context t message (rebuild_progress sha (tc_case_id t) (tc_run_id t) (tc_canonical_issue_type t)
      calls refs pending rebuilt_at) b observed prior prompt facts = Inr x"
    and "c \<in> {mock_selection x, workflow_selection x}" and "cn_action c = OA_CALL_TOOL"
    and "tb_run_planning_turns b < 8" and "tb_case_planning_turns b < 16"
    and "decision_fingerprint sha OA_CALL_TOOL (cn_tool_name c) (server_arguments x (the (cn_tool_name c))) (cn_addresses c)
      (pg_snapshot_hash (dx_evidence_progress x)) \<notin> set prior"
    and "\<And>j. is_sha256_hex (sha j)" and "length fresh_id \<le> 124" and "is_aware now"
  shows "\<exists>n. validate_candidate sha fresh_id now read_tool_names (Some c) x kind (Some t) None None = Inr (Accepted n) \<and>
    nx_tool_name n = cn_tool_name c"
proof -
  from assms(2,3) obtain code where missing: "still_missing (dx_evidence_progress x) code"
    and tool: "cn_tool_name c = Some (requirement_to_tool code)" and addresses: "cn_addresses c = [code]"
    by (rule selected_call)
  note built = built_context [OF assms(1)]
  then have short: "short_id 64 (dx_case_id x)" "short_id 64 (dx_run_id x)" by blast+
  have "requirement_registry (dx_canonical_issue_type x) code \<noteq> RA_NOT_REQUIRED"
    using missing built by (auto simp: still_missing_def rebuilt_applicability)
  then have "call_rejection read_tool_names x c = None"
    by (rule call_rejection_applicable) (use missing built tool addresses in \<open>simp_all add: still_missing_def\<close>)
  moreover have "is_sha256_hex (pg_snapshot_hash (dx_evidence_progress x))"
    using built assms(7) by (simp add: rebuild_progress_def build_progress_def Let_def progress_snapshot_hash_def)
  ultimately show ?thesis
    by (intro call_passes [of c x code] short) (use assms built tool addresses in simp_all)
qed

text \<open>Both selectors finish on the same progress, unless the workflow sees that the gate is ready.\<close>

lemma selectors_finish:
  "cn_action (mock_selection x) = OA_FINISH \<longleftrightarrow> (\<forall>code. \<not> still_missing (dx_evidence_progress x) code)"
  "cn_action (workflow_selection x) = OA_FINISH \<longleftrightarrow>
     pg_gate_readiness (dx_evidence_progress x) = GR_EVALUABLE \<or> (\<forall>code. \<not> still_missing (dx_evidence_progress x) code)"
proof -
  have "cn_action (candidate_for_first_missing x ordered) = OA_FINISH \<longleftrightarrow>
      (\<forall>code. \<not> still_missing (dx_evidence_progress x) code)" if "\<And>code. code \<in> set ordered" for ordered
    using that by (cases rule: chosen_candidate [OF refl, of x ordered]) (auto simp: finish_candidate_def)
  with in_orders show "cn_action (mock_selection x) = OA_FINISH \<longleftrightarrow> (\<forall>code. \<not> still_missing (dx_evidence_progress x) code)"
    "cn_action (workflow_selection x) = OA_FINISH \<longleftrightarrow>
     pg_gate_readiness (dx_evidence_progress x) = GR_EVALUABLE \<or> (\<forall>code. \<not> still_missing (dx_evidence_progress x) code)"
    by (simp_all add: mock_selection_def workflow_selection_def finish_candidate_def)
qed

section \<open>The last turns\<close>

definition no_call :: "next_move \<times> coordinator \<Rightarrow> bool" where
  "no_call x \<longleftrightarrow> (\<forall>i tool args. fst x \<noteq> Invoke i tool args)"

lemma reject_no_call: "yields no_call (reject_observation env t code co)"
  unfolding reject_observation_def Let_def split_def
  by (simp only: split: if_split) (intro conjI impI yields_skip yields_return; simp add: no_call_def)

lemma late_selection:
  assumes "8 \<le> tb_run_planning_turns b \<or> 16 \<le> tb_case_planning_turns b"
  shows "yields no_call (select_observation env iv t b message facts turn co)"
  unfolding select_observation_def Let_def
proof (rule yields_bind [OF yields_read [where P = "\<lambda>x. dx_remaining_budget x = b"]])
  show "decision_context_of iv t b message facts co = Inr x \<Longrightarrow> dx_remaining_budget x = b" for x
    unfolding decision_context_of_def by (drule built_context) simp
  fix x :: decision_context
  assume x: "dx_remaining_budget x = b"
  have rejected: "validate_candidate (ae_sha env) h now read_tool_names cand x kind trusted pending ready = Inr v \<Longrightarrow>
      \<exists>code. v = Rejected code" for h now cand kind trusted pending ready v
    using assms x by (cases v) (auto elim: validate_accepted)
  show "yields no_call (bindA (selected iv x) (\<lambda>cand.
    bindA (uuid4_hex env) (\<lambda>h. bindA (utc_now env) (\<lambda>now.
    bindA (readA (\<lambda>_. validate_candidate (ae_sha env) h now read_tool_names cand x (iv_selector_kind iv) (Some t)
        (if iv_exact_retry iv then co_pending co else None)
        (if Option.bind cand cn_tool_name = None \<and> co_issue_revision co then Some True else None))) (\<lambda>v.
    bindA (readA (\<lambda>_. traced_budget t b co)) (\<lambda>shown. bindA (utc_now env) (\<lambda>recorded_at.
    thenA (write_decision_trace env t (decision_of iv t (ae_sha env) turn cand v shown recorded_at co))
      (case v of Accepted n \<Rightarrow> accept_observation env t n (co\<lparr>co_sequence := co_sequence co + 1\<rparr>)
       | Rejected code \<Rightarrow> reject_observation env t code (co\<lparr>co_sequence := co_sequence co + 1\<rparr>)))))))))"
    by (rule yields_skip, rule yields_skip, rule yields_skip, rule yields_bind [OF yields_read [OF rejected]], assumption,
      rule yields_skip, rule yields_skip, rule yields_then) (auto intro: reject_no_call)
qed

lemma route_call:
  "route_after_model move turns = At_Tools i tool args \<Longrightarrow> move = Invoke i tool args"
  by (auto simp: route_after_model_def split: next_move.splits if_splits)

text \<open>A turn that calls a tool is never the last one of its budget: whatever the selector answers, after a planning
  turn that leads to a read at most seven of the eight turns of the run and fifteen of the sixteen of the case are
  used.\<close>

theorem tool_calls_leave_a_turn:
  "case fst (planned_turn env iv t message facts g s) of
     Inl _ \<Rightarrow> True
   | Inr g' \<Rightarrow> (case gh_node g' of
       At_Tools _ _ _ \<Rightarrow> tb_run_planning_turns (gh_budget g') \<le> 7 \<and> tb_case_planning_turns (gh_budget g') \<le> 15
     | _ \<Rightarrow> True)"
proof -
  let ?P = "\<lambda>g'. case gh_node g' of
      At_Tools _ _ _ \<Rightarrow> tb_run_planning_turns (gh_budget g') \<le> 7 \<and> tb_case_planning_turns (gh_budget g') \<le> 15
    | _ \<Rightarrow> True"
  have turn: "yields ?P (bindA (select_observation env iv t b message facts n co) (\<lambda>(move, co').
      returnA (g\<lparr>gh_node := route_after_model move n, gh_planning_turns := n, gh_budget := b, gh_coordinator := co'\<rparr>)))"
    for b n co
  proof (cases "8 \<le> tb_run_planning_turns b \<or> 16 \<le> tb_case_planning_turns b")
    case True
    show ?thesis
      by (rule yields_bind [OF late_selection [OF True]])
        (auto intro!: yields_return simp: no_call_def dest!: route_call split: node.split)
  next
    case False
    then show ?thesis by (intro yields_skip) (auto intro!: yields_return split: node.split)
  qed
  have "yields ?P (planned_turn env iv t message facts g)"
    unfolding planned_turn_def Let_def
    by (auto intro!: yields_raise yields_return yields_then turn split: sum.split error.split)
  then show ?thesis by (auto simp: yields_def split: sum.split) (metis prod.collapse)+
qed

section \<open>Samples\<close>

theorem selected_read_is_accepted_witness:
  "\<exists>x n. build_decision_context sample_trusted [] (rebuild_progress (\<lambda>_. sample_digest) ''case'' ''run'' STALLED_TRACKING
       [] [] None (Aware 0)) \<lparr>tb_case_planning_turns = 1, tb_run_planning_turns = 1,
         tb_actual_read_tool_executions = 0\<rparr> None [] None None = Inr x \<and>
     validate_candidate (\<lambda>_. sample_digest) ''1'' (Aware 0) read_tool_names (Some (mock_selection x)) x SK_AGENT
       (Some sample_trusted) None None = Inr (Accepted n) \<and> nx_tool_name n = Some ''get_order_context''"
proof -
  let ?b = "\<lparr>tb_case_planning_turns = 1, tb_run_planning_turns = 1, tb_actual_read_tool_executions = 0\<rparr>"
  let ?p = "rebuild_progress (\<lambda>_. sample_digest) ''case'' ''run'' STALLED_TRACKING [] [] None (Aware 0)"
  obtain x where x: "build_decision_context sample_trusted [] ?p ?b None [] None None = Inr x"
    by (simp add: build_decision_context_def check_budget_snapshot_def check_decision_context_def sample_trusted_def
        short_id_def opt_in_def list_ex_iff read_tool_names_def)
  have "candidate_for_first_missing x agent_order = \<lparr>cn_action = OA_CALL_TOOL, cn_tool_name = Some ''get_order_context'',
      cn_addresses = [RC_ORDER_STATUS], cn_reason_code = OR_FIRST_REQUIRED_OBSERVATION\<rparr>"
    using built_context [OF x]
    by (simp add: candidate_for_first_missing_def agent_order_def still_missing_def rebuilt_applicability)
      (simp add: rebuild_progress_def build_progress_def Let_def order_calls_def revision_of_def reduce_start_def
        empty_requirement_def requirement_registry_def)
  with selected_read_is_accepted [of sample_trusted "[]" "\<lambda>_. sample_digest" "[]" "[]" None "Aware 0" ?b None "[]" None None x
      "mock_selection x" "''1''" "Aware 0" SK_AGENT] x
  show ?thesis
    by (simp add: mock_selection_def sample_digest_hex) (simp add: sample_trusted_def)
qed

end
