(* ===== verification/Spec2Isabelle.thy ===== *)
theory Spec2Isabelle
  imports Lifecycle Dispositions CaseFacts Routing Application RecordedReads GateAgreement ReloadedEvidence Selectors
begin

text \<open>
  The after-sales agent of this repository (\<open>src/src/after_sales_agent\<close>) answers customers whose parcel is
  marked as delivered but missing, or whose tracking stands still.  A language model classifies messages and
  plans reads; everything with an effect is decided by deterministic code, which this development models.

  The parts, from a message to a ticket:

  \<^item> A message is validated, redacted and classified (Triage; \<open>agents/triage.py\<close>), and the policy router decides
    whether it opens an investigation of exactly one order that the customer owns (Routing, Authorization;
    \<open>application/policy_router.py\<close>, \<open>responses.py\<close>, \<open>policy/authorization.py\<close>).
  \<^item> An investigation reads order, timeline, proof of delivery, alerts, tickets and policy through governed
    tools, within a budget, through a cache keyed by source revision, with one retry (ToolContracts, ToolBudget,
    ToolCache, FixtureStore, GovernedTools; \<open>tools/\<close>, \<open>fixtures/catalog.py\<close>).
  \<^item> The policy read retrieves clauses of an authored corpus by similarity, and resolves the one clause in force
    (PolicyCorpus, PolicyRag; \<open>policy/corpus.py\<close>, \<open>policy/rag.py\<close>).
  \<^item> What a read proves is rebuilt from the durable records; what the model wants to do next is validated,
    routed, retried or stopped (AdaptiveTypes, AdaptiveReducer, AdaptiveControl;
    \<open>application/adaptive_core.py\<close>).  The loop that composes all this is bounded by a graph: its coordinator
    restores what earlier runs recorded, asks the selector, traces every decision and stops early when the evidence
    decides (AdaptiveTrace, InvestigationLoop; \<open>application/investigation.py\<close>, \<open>agents/graph.py\<close>,
    \<open>agents/tool_bindings.py\<close>).  The selector is the mock agent, the strong workflow or a live model behind a strict
    parser (Selectors; \<open>agents/models.py\<close>, \<open>application/strong_workflow.py\<close>).
  \<^item> Answers of the customer to clarifying questions become append-only facts with an authoritative
    interpretation (CaseFacts, CaseFactService; \<open>domain/case_facts.py\<close>, \<open>application/case_facts.py\<close>).
  \<^item> The evidence gate decides from read results and facts, by two truth tables, whether a ticket may be
    proposed (EvidenceGate; \<open>policy/evidence_gate.py\<close>); the customer sees a disposition (Dispositions).
  \<^item> A proposal binds the evidence by digests (Actions; \<open>actions/service.py\<close>).  The customer confirms or
    declines; a confirmation re-evaluates the persisted evidence and is the only way to a ticket (Service,
    Confirmation, ConfirmationOutcome; \<open>application/service.py\<close>).
  \<^item> The other handlers of \<open>application/service.py\<close> compose these parts: a new message opens a case or gets a
    standard answer (MessageHandlers), an answer to a question and a retry continue one (CaseHandlers), the
    result of an investigation becomes a proposal, a question, a retry or a closed case (Investigations), and
    the client reads conversations, cases and runs (ReadModels).  Application is the machine of all requests.
  \<^item> All of it is stored through one repository with declared constraints and lifecycle guards, and told to the
    client by a replayable event stream (Storage, Repository, RowLifecycle, EventStore; \<open>storage/\<close>, \<open>events/\<close>);
    DomainState, DomainModels and Lifecycle are \<open>domain/state.py\<close>, \<open>models.py\<close> and \<open>transitions.py\<close>.

  How code becomes definitions:

  \<^item> A Pydantic model or SQLAlchemy row is a record whose \<open>check_...\<close> or table holds its validators and
    constraints; a \<open>StrEnum\<close> is a datatype with the strings of its members.  Unicode text is a list of code
    points (\<open>utext\<close>), identifiers and codes are strings, JSON is the datatype \<open>json\<close>; a Python integer is an
    \<open>int\<close>, a binary float a \<open>rat\<close>, and an aware datetime an instant in microseconds (Prelude).
  \<^item> An exception is a value of \<open>error\<close>; a function that may raise returns \<open>error + 'a\<close>, chained by \<open>bindE\<close>.
  \<^item> A stateful object is a record passed through its operations.  In Service the database with its event hub,
    the fixtures and the case caches form \<open>app_state\<close>, and a handler is a function from it to a result and the
    state after, so that what was committed before an exception stays; \<open>transaction\<close> rolls back.
  \<^item> Asynchronous code that other tasks may interleave with is a step relation (\<open>stream_step\<close> of EventStore);
    a handler runs under the lock of its conversation and is one function.

  Parameters, for what is not code of the repository: SHA-256 over canonical JSON and over text (\<open>sha\<close>,
  \<open>sha_text\<close>, \<open>mh\<close>), Pydantic's dumps and its parsing of untrusted dictionaries, \<open>str.casefold\<close>, the embedding
  model (\<open>pr_encode\<close>) and the vector index file, the clock and \<open>uuid4\<close> (\<open>ae_clock\<close>, \<open>ae_hex\<close>, given by the
  number of readings taken).  Nothing is assumed of them except where a theorem says so.

  What the lemmas show, by group:

  \<^item> What a validator accepts, and that a corrupted result never reads as absence (ToolContracts, DomainModels).
  \<^item> Closed forms of the two truth tables, the soundness of every gate result, the disposition of each
    (EvidenceGate, Dispositions).
  \<^item> Reads: authorization hides foreign orders; a call that is not counted does not depend on the source, and
    counted ones stay within six, two for one query; repeated calls are free, retryable errors are not cached
    (GovernedTools, ToolBudget, ToolCache).
  \<^item> Policy: the authored corpus is unambiguous until 2027, a usable payload carries the facts of the one clause
    in force, a binding is valid exactly while its clause is (PolicyCorpus, PolicyRag).
  \<^item> Control: progress rests on evidence, triggers are sticky, accepted calls are executable, one exact retry,
    a third equal decision stops the loop (AdaptiveReducer, AdaptiveControl).
  \<^item> Facts: a fact is known exactly when supported, rebuilding ignores the order of rows, accepted replies
    reload with every check and replay to the same decision (CaseFacts, CaseFactService).
  \<^item> Storage: reachable databases satisfy all constraints, rows refine the lifecycle tables, events are numbered
    without gaps and reach a subscriber once and in order (Storage, Repository, RowLifecycle, EventStore).
  \<^item> Confirmation: Service has the locales \<open>outcome_relation\<close> and \<open>handler_relation\<close>, and Confirmation
    \<open>fixture_relation\<close> and \<open>writing_relation\<close>: a relation that repository operations, events and the ticket
    write respect holds between the states around every outcome of a handler.  They are interpreted for the steps of the database,
    for unchanged tickets and fixtures, for unchanged tickets, and (\<open>outcome_relation\<close>) for unchanged business
    rows; with them a ticket is written only on confirmed, unchanged evidence, a decline writes none, and every
    outcome leaves a sound database.
  \<^item> Investigation: whatever the selector answers, the graph ends within 35 supersteps, only logs, marks exactly its
    metered reads in the database, and stays with everything recorded before within the budget of its case and run; a
    proposal for a stalled parcel survives the evaluation that a confirmation repeats; a reload of the case cache breaks
    the next investigation; the reads that the deterministic selectors ask for are accepted (InvestigationFacts,
    RecordedReads, GateAgreement, ReloadedEvidence, Selectors).  \<open>logging_relation\<close> and \<open>reading_relation\<close> are the
    locales of everything that happens inside an investigation, and \<open>handler_relation\<close> is a sublocale of the second,
    so the properties of the handlers hold with the modelled coordinator; \<open>recorded_relation\<close> takes the row of a call
    as a whole, for what is appended to the tool calls.
  \<^item> Entry: a model adds no order and hides no risk, no telephone number is stored (Triage); orders of others, and
    whether they exist, do not influence how a decided message is handled (Routing, MessageHandlers).
  \<^item> Requests: the same locales, interpreted for confirmed actions and for unchanged identities of actions, give
    that every ticket of a reachable state rests on one confirmed proposal, that a message proposes at most, and
    that a retry writes only for the action that failed retryably (Application).

  Bounds.  Loops of the code run over lists and are structural recursion or \<open>function\<close>s with a measure.  The only
  fuel is the recursion limit of the graph, a parameter because LangGraph sets it: 35 supersteps are enough
  (\<open>investigation_ends\<close>).  The budgets (six reads, eight turns of a run and sixteen of a case, two questions) are
  those of the code.

  Not modelled: the calls of a language model (\<open>sc_live_triage\<close> and the selector \<open>iv_select\<close> are parameters that
  may look at the whole state and answer anything; the provider library and the prompts are behind them) and the
  projection of results for it; the branches of \<open>investigation.py\<close> that no caller of the application takes, namely an
  investigation without a cache and the automatic retry of the executor; the texts of the graph's messages;
  \<open>reset_demo\<close>, whose effect is the cascade of the database engine;
  the HTTP layer (\<open>api/\<close>), configuration, database set-up and locks (\<open>storage/database.py\<close>, \<open>locks.py\<close>,
  \<open>unit_of_work.py\<close>), the evaluation harness (\<open>evals/\<close>, \<open>policy/retrieval_eval.py\<close>) and the catalogue data of
  the demo.
\<close>

end
